(* ===== verification/Forge_Prelude.thy ===== *)
theory Forge_Prelude
  imports Complex_Main "HOL-Library.AList" "HOL-Library.Sublist" "HOL-Library.List_Lexorder"
    "HOL-Library.Char_ord"
begin

text \<open>
  Shared ground of the development: Python results (a value or a raised exception), JSON
  values with the access rules of Python dictionaries, the string operations of \<open>str\<close> the
  code calls, the stable sort and the first maximum of \<open>sorted\<close> and \<open>max\<close>, \<open>round\<close>,
  and the contract of a store of named documents, which every component that persists
  JSON relies on.

  A string is a list of Latin-1 code points. Case mapping and white space follow
  \<open>str.lower\<close>, \<open>str.strip\<close> and \<open>str.split\<close> on these code points. A float is a rational
  number: sums, products and quotients are exact where Python rounds them to 53 bits.
\<close>

section \<open>Results\<close>

datatype py_error =
    KeyError string
  | ValueError string
  | TypeError string
  | AttributeError string
  | FileNotFoundError string
  | IndexError string

type_synonym 'a res = "py_error + 'a"

definition bindr :: "'e + 'a \<Rightarrow> ('a \<Rightarrow> 'e + 'b) \<Rightarrow> 'e + 'b" where
  "bindr m f = (case m of Inl e \<Rightarrow> Inl e | Inr x \<Rightarrow> f x)"

lemma bindr_Inl [simp]: "bindr (Inl e) f = Inl e"
  and bindr_Inr [simp]: "bindr (Inr x) f = f x"
  by (simp_all add: bindr_def)

lemma bindr_eq_Inr: "bindr m f = Inr y \<longleftrightarrow> (\<exists>x. m = Inr x \<and> f x = Inr y)"
  by (cases m) auto

lemma bindr_InrE [elim!]:
  assumes "bindr m f = Inr y"
  obtains x where "m = Inr x" "f x = Inr y"
  using assms by (auto simp: bindr_eq_Inr)

fun mapr :: "('a \<Rightarrow> 'e + 'b) \<Rightarrow> 'a list \<Rightarrow> 'e + 'b list" where
  "mapr f [] = Inr []"
| "mapr f (x # xs) = bindr (f x) (\<lambda>y. bindr (mapr f xs) (\<lambda>ys. Inr (y # ys)))"

lemma mapr_map_Inr: "(\<And>x. x \<in> set xs \<Longrightarrow> f (g x) = Inr (h x)) \<Longrightarrow> mapr f (map g xs) = Inr (map h xs)"
  by (induction xs) auto

lemma mapr_map_id: "(\<And>x. f (g x) = Inr x) \<Longrightarrow> mapr f (map g xs) = Inr xs"
  by (induction xs) auto

section \<open>JSON values and Python dictionaries\<close>

datatype json =
    JNull
  | JBool bool
  | JInt int
  | JFloat rat
  | JStr string
  | JList "json list"
  | JObj "(string \<times> json) list"

type_synonym jdict = "(string \<times> json) list"

text \<open>\<open>d.get(k, default)\<close>, \<open>k in d\<close> and \<open>d[k] = v\<close>: a dictionary keeps insertion order.\<close>

definition dget :: "jdict \<Rightarrow> string \<Rightarrow> json \<Rightarrow> json" where
  "dget d k dflt = (case map_of d k of None \<Rightarrow> dflt | Some v \<Rightarrow> v)"

abbreviation dget0 :: "jdict \<Rightarrow> string \<Rightarrow> json" where
  "dget0 d k \<equiv> dget d k JNull"

definition dhas :: "jdict \<Rightarrow> string \<Rightarrow> bool" where
  "dhas d k \<longleftrightarrow> map_of d k \<noteq> None"

definition dset :: "jdict \<Rightarrow> string \<Rightarrow> json \<Rightarrow> jdict" where
  "dset d k v = AList.update k v d"

text \<open>\<open>d | e\<close> and \<open>d |= e\<close>.\<close>

definition dmerge :: "jdict \<Rightarrow> jdict \<Rightarrow> jdict" where
  "dmerge d e = foldl (\<lambda>acc (k, v). dset acc k v) d e"

lemma dget_Cons [simp]:
  "dget ((k', v) # d) k dflt = (if k' = k then v else dget d k dflt)"
  by (simp add: dget_def)

lemma dget_Nil [simp]: "dget [] k dflt = dflt"
  by (simp add: dget_def)

lemma dget_dset: "dget (dset d k v) k' dflt = (if k' = k then v else dget d k' dflt)"
  by (simp add: dget_def dset_def AList.update_conv)

lemma dget_dset_same [simp]: "dget (dset d k v) k dflt = v"
  by (simp add: dget_dset)

lemma dget_dset_other: "k' \<noteq> k \<Longrightarrow> dget (dset d k v) k' dflt = dget d k' dflt"
  by (simp add: dget_dset)

lemma map_of_dset: "map_of (dset d k v) = (map_of d)(k \<mapsto> v)"
  by (simp add: dset_def AList.update_conv')

lemma keys_dset: "fst ` set (dset d k v) = insert k (fst ` set d)"
  by (simp add: dset_def AList.dom_update)

lemma distinct_dset: "distinct (map fst d) \<Longrightarrow> distinct (map fst (dset d k v))"
  by (simp add: dset_def AList.distinct_update)

text \<open>The truth value of \<open>bool(v)\<close>, and \<open>a or b\<close>.\<close>

fun truthy :: "json \<Rightarrow> bool" where
  "truthy JNull = False"
| "truthy (JBool b) = b"
| "truthy (JInt i) = (i \<noteq> 0)"
| "truthy (JFloat x) = (x \<noteq> 0)"
| "truthy (JStr s) = (s \<noteq> [])"
| "truthy (JList xs) = (xs \<noteq> [])"
| "truthy (JObj d) = (d \<noteq> [])"

definition jor :: "json \<Rightarrow> json \<Rightarrow> json" where
  "jor a b = (if truthy a then a else b)"

lemma jor_simps [simp]:
  "truthy a \<Longrightarrow> jor a b = a"
  "\<not> truthy a \<Longrightarrow> jor a b = b"
  by (simp_all add: jor_def)

text \<open>An attribute access \<open>v.get(k, default)\<close> on a value that need not be a dictionary.\<close>

definition jget :: "json \<Rightarrow> string \<Rightarrow> json \<Rightarrow> json res" where
  "jget v k dflt = (case v of JObj d \<Rightarrow> Inr (dget d k dflt) | _ \<Rightarrow> Inl (AttributeError ''get''))"

lemma jget_JObj [simp]: "jget (JObj d) k dflt = Inr (dget d k dflt)"
  by (simp add: jget_def)

text \<open>\<open>data[k]\<close> on a dictionary.\<close>

definition dindex :: "jdict \<Rightarrow> string \<Rightarrow> json res" where
  "dindex d k = (case map_of d k of None \<Rightarrow> Inl (KeyError k) | Some v \<Rightarrow> Inr v)"

lemma dindex_Cons [simp]: "dindex ((k', v) # d) k = (if k' = k then Inr v else dindex d k)"
  by (simp add: dindex_def)

text \<open>
  Reading a JSON value at the type a dataclass field declares. Python does not check field
  types; a document whose field has another JSON type is outside the typed records and
  reads as \<open>TypeError\<close>.
\<close>

definition as_str :: "json \<Rightarrow> string res" where
  "as_str v = (case v of JStr s \<Rightarrow> Inr s | _ \<Rightarrow> Inl (TypeError ''str''))"

definition as_bool :: "json \<Rightarrow> bool res" where
  "as_bool v = (case v of JBool b \<Rightarrow> Inr b | _ \<Rightarrow> Inl (TypeError ''bool''))"

definition as_int :: "json \<Rightarrow> int res" where
  "as_int v = (case v of JInt i \<Rightarrow> Inr i | _ \<Rightarrow> Inl (TypeError ''int''))"

definition as_float :: "json \<Rightarrow> rat res" where
  "as_float v = (case v of JFloat x \<Rightarrow> Inr x | JInt i \<Rightarrow> Inr (of_int i) | _ \<Rightarrow> Inl (TypeError ''float''))"

definition as_list :: "json \<Rightarrow> json list res" where
  "as_list v = (case v of JList xs \<Rightarrow> Inr xs | _ \<Rightarrow> Inl (TypeError ''list''))"

definition as_dict :: "json \<Rightarrow> jdict res" where
  "as_dict v = (case v of JObj d \<Rightarrow> Inr d | _ \<Rightarrow> Inl (TypeError ''dict''))"

definition as_opt :: "(json \<Rightarrow> 'a res) \<Rightarrow> json \<Rightarrow> 'a option res" where
  "as_opt f v = (if v = JNull then Inr None else bindr (f v) (\<lambda>x. Inr (Some x)))"

definition as_strs :: "json \<Rightarrow> string list res" where
  "as_strs v = bindr (as_list v) (mapr as_str)"

definition jopt :: "('a \<Rightarrow> json) \<Rightarrow> 'a option \<Rightarrow> json" where
  "jopt f x = (case x of None \<Rightarrow> JNull | Some y \<Rightarrow> f y)"

definition jstrs :: "string list \<Rightarrow> json" where
  "jstrs xs = JList (map JStr xs)"

named_theorems codec_simps "reading back what was written, field by field"

lemma as_simps [simp, codec_simps]:
  "as_str (JStr s) = Inr s"
  "as_bool (JBool b) = Inr b"
  "as_int (JInt i) = Inr i"
  "as_float (JFloat x) = Inr x"
  "as_float (JInt i) = Inr (of_int i)"
  "as_list (JList xs) = Inr xs"
  "as_dict (JObj d) = Inr d"
  by (simp_all add: as_str_def as_bool_def as_int_def as_float_def as_list_def as_dict_def)

lemma as_strs_jstrs [simp, codec_simps]: "as_strs (jstrs xs) = Inr xs"
  by (simp add: as_strs_def jstrs_def mapr_map_id)

lemma as_opt_jopt:
  assumes "\<And>x. f (g x) = Inr x" and "\<And>x. g x \<noteq> JNull"
  shows "as_opt f (jopt g x) = Inr x"
  using assms by (cases x) (simp_all add: as_opt_def jopt_def)

lemma as_opt_jopts [simp, codec_simps]:
  "as_opt as_str (jopt JStr x) = Inr x"
  "as_opt as_bool (jopt JBool y) = Inr y"
  "as_opt as_dict (jopt JObj z) = Inr z"
  by (rule as_opt_jopt; simp)+

end
