(* ===== verification/Py_Text.thy ===== *)
theory Py_Text
  imports Forge_Prelude
begin

text \<open>
  The operations of Python's \<open>str\<close> and of the built-ins \<open>sorted\<close>, \<open>max\<close> and
  \<open>round\<close> that the modelled code calls, with the laws the components use.
\<close>

section \<open>Characters\<close>

definition code_point :: "char \<Rightarrow> nat" where
  "code_point c = of_char c"

definition is_space :: "char \<Rightarrow> bool" where
  "is_space c \<longleftrightarrow> (let n = code_point c in (9 \<le> n \<and> n \<le> 13) \<or> (28 \<le> n \<and> n \<le> 32) \<or> n = 133 \<or> n = 160)"

definition is_upper_point :: "nat \<Rightarrow> bool" where
  "is_upper_point n \<longleftrightarrow> (65 \<le> n \<and> n \<le> 90) \<or> (192 \<le> n \<and> n \<le> 222 \<and> n \<noteq> 215)"

definition is_lower_point :: "nat \<Rightarrow> bool" where
  "is_lower_point n \<longleftrightarrow> (97 \<le> n \<and> n \<le> 122) \<or> (224 \<le> n \<and> n \<le> 254 \<and> n \<noteq> 247)"

definition lower_char :: "char \<Rightarrow> char" where
  "lower_char c = (if is_upper_point (code_point c) then char_of (code_point c + 32) else c)"

definition upper_char :: "char \<Rightarrow> char" where
  "upper_char c = (if is_lower_point (code_point c) then char_of (code_point c - 32) else c)"

definition is_lower_alnum :: "char \<Rightarrow> bool" where
  "is_lower_alnum c \<longleftrightarrow> (let n = code_point c in (48 \<le> n \<and> n \<le> 57) \<or> (97 \<le> n \<and> n \<le> 122))"

definition is_alnum :: "char \<Rightarrow> bool" where
  "is_alnum c \<longleftrightarrow> is_lower_alnum c \<or> (let n = code_point c in 65 \<le> n \<and> n \<le> 90)"

lemma code_point_less: "code_point c < 256"
  by (simp add: code_point_def)

lemma code_point_char_of: "code_point (char_of (n :: nat)) = n mod 256"
  by (simp add: code_point_def)

lemma lower_char_idem [simp]: "lower_char (lower_char c) = lower_char c"
proof (cases "is_upper_point (code_point c)")
  case True
  moreover from True have "code_point c + 32 < 256" "\<not> is_upper_point (code_point c + 32)"
    by (auto simp: is_upper_point_def)
  ultimately show ?thesis by (simp add: lower_char_def code_point_char_of)
qed (simp add: lower_char_def)

lemma lower_char_alnum: "is_lower_alnum c \<Longrightarrow> lower_char c = c"
  by (auto simp: lower_char_def is_lower_alnum_def is_upper_point_def Let_def)

section \<open>Strings\<close>

definition lower :: "string \<Rightarrow> string" where
  "lower = map lower_char"

definition upper :: "string \<Rightarrow> string" where
  "upper = map upper_char"

definition lstrip :: "string \<Rightarrow> string" where
  "lstrip = dropWhile is_space"

definition rstrip :: "string \<Rightarrow> string" where
  "rstrip s = rev (dropWhile is_space (rev s))"

definition strip :: "string \<Rightarrow> string" where
  "strip s = rstrip (lstrip s)"

text \<open>\<open>s.strip(c)\<close> and \<open>s.rstrip(c)\<close> for one character.\<close>

definition rstrip_char :: "char \<Rightarrow> string \<Rightarrow> string" where
  "rstrip_char c s = rev (dropWhile (\<lambda>x. x = c) (rev s))"

definition strip_char :: "char \<Rightarrow> string \<Rightarrow> string" where
  "strip_char c s = rstrip_char c (dropWhile (\<lambda>x. x = c) s)"

definition replace_char :: "char \<Rightarrow> char \<Rightarrow> string \<Rightarrow> string" where
  "replace_char a b = map (\<lambda>c. if c = a then b else c)"

definition remove_char :: "char \<Rightarrow> string \<Rightarrow> string" where
  "remove_char a = filter (\<lambda>c. c \<noteq> a)"

definition starts_with :: "string \<Rightarrow> string \<Rightarrow> bool" where
  "starts_with s p \<longleftrightarrow> prefix p s"

definition ends_with :: "string \<Rightarrow> string \<Rightarrow> bool" where
  "ends_with s p \<longleftrightarrow> suffix p s"

text \<open>\<open>p in s\<close>.\<close>

fun contains :: "string \<Rightarrow> string \<Rightarrow> bool" where
  "contains [] p = (p = [])"
| "contains (c # s) p = (prefix p (c # s) \<or> contains s p)"

text \<open>\<open>s.split()\<close>: the maximal runs of characters that are not white space.\<close>

function split_ws :: "string \<Rightarrow> string list" where
  "split_ws s =
     (case lstrip s of
        [] \<Rightarrow> []
      | c # cs \<Rightarrow> takeWhile (\<lambda>x. \<not> is_space x) (c # cs) # split_ws (dropWhile (\<lambda>x. \<not> is_space x) (c # cs)))"
  by pat_completeness auto
termination
proof (relation "measure length", simp)
  fix s c cs
  assume eq: "lstrip s = c # cs"
  then have "\<not> is_space c"
    by (auto simp: lstrip_def dropWhile_eq_Cons_conv)
  moreover have "length (c # cs) \<le> length s"
    using eq length_dropWhile_le[of is_space s] by (simp add: lstrip_def)
  ultimately show "(dropWhile (\<lambda>x. \<not> is_space x) (c # cs), s) \<in> measure length"
    using length_dropWhile_le[of "\<lambda>x. \<not> is_space x" cs] by simp
qed

declare split_ws.simps [simp del]

text \<open>\<open>s.split(c)\<close> and \<open>c.join(xs)\<close>.\<close>

fun split_on :: "char \<Rightarrow> string \<Rightarrow> string list" where
  "split_on c [] = [[]]"
| "split_on c (x # s) =
     (if x = c then [] # split_on c s
      else (case split_on c s of [] \<Rightarrow> [[x]] | w # ws \<Rightarrow> (x # w) # ws))"

fun join :: "string \<Rightarrow> string list \<Rightarrow> string" where
  "join sep [] = []"
| "join sep [w] = w"
| "join sep (w # v # ws) = w @ sep @ join sep (v # ws)"

text \<open>\<open>s.splitlines()\<close>: the line ends are LF, CR, CR LF and six further control characters.\<close>

fun crlf :: "string \<Rightarrow> string" where
  "crlf [] = []"
| "crlf (c # s) = (if c = CHR 0x0D \<and> s \<noteq> [] \<and> hd s = CHR 0x0A then crlf s else c # crlf s)"

definition is_eol :: "char \<Rightarrow> bool" where
  "is_eol c \<longleftrightarrow> (let n = code_point c in (10 \<le> n \<and> n \<le> 13) \<or> (28 \<le> n \<and> n \<le> 30) \<or> n = 133)"

fun lines_of :: "string \<Rightarrow> string list" where
  "lines_of [] = []"
| "lines_of (c # s) =
     (if is_eol c then [] # lines_of s
      else (case lines_of s of [] \<Rightarrow> [[c]] | w # ws \<Rightarrow> (c # w) # ws))"

definition splitlines :: "string \<Rightarrow> string list" where
  "splitlines s = lines_of (crlf s)"

text \<open>\<open>int(s)\<close>: white space around, a sign, decimal digits with single underscores between.\<close>

definition is_digit :: "char \<Rightarrow> bool" where
  "is_digit c \<longleftrightarrow> 48 \<le> code_point c \<and> code_point c \<le> 57"

fun parse_digits :: "nat \<Rightarrow> string \<Rightarrow> nat option" where
  "parse_digits acc [] = Some acc"
| "parse_digits acc (c # s) =
     (if is_digit c then parse_digits (acc * 10 + (code_point c - 48)) s
      else if c = CHR ''_'' \<and> s \<noteq> [] \<and> is_digit (hd s) then parse_digits acc s
      else None)"

definition parse_nat :: "string \<Rightarrow> nat option" where
  "parse_nat s = (if s \<noteq> [] \<and> is_digit (hd s) then parse_digits 0 s else None)"

definition parse_int :: "string \<Rightarrow> int option" where
  "parse_int raw =
     (let s = strip raw in
      if s \<noteq> [] \<and> hd s = CHR ''-'' then map_option (\<lambda>n. - int n) (parse_nat (tl s))
      else if s \<noteq> [] \<and> hd s = CHR ''+'' then map_option int (parse_nat (tl s))
      else map_option int (parse_nat s))"

text \<open>\<open>s.title()\<close>: upper case after a character with no case, lower case after a letter.\<close>

definition is_cased :: "char \<Rightarrow> bool" where
  "is_cased c \<longleftrightarrow> is_upper_point (code_point c) \<or> is_lower_point (code_point c)"

fun title_from :: "bool \<Rightarrow> string \<Rightarrow> string" where
  "title_from prev [] = []"
| "title_from prev (c # s) = (if prev then lower_char c else upper_char c) # title_from (is_cased c) s"

definition title :: "string \<Rightarrow> string" where
  "title = title_from False"

text \<open>Decimal notation of an integer.\<close>

fun nat_digits :: "nat \<Rightarrow> string" where
  "nat_digits n =
     (if n < 10 then [char_of (48 + n)] else nat_digits (n div 10) @ [char_of (48 + n mod 10)])"

declare nat_digits.simps [simp del]

definition int_str :: "int \<Rightarrow> string" where
  "int_str i = (if i < 0 then ''-'' @ nat_digits (nat (- i)) else nat_digits (nat i))"

lemma contains_iff_sublist: "contains s p \<longleftrightarrow> sublist p s"
  by (induction s) (auto simp: sublist_Cons_right)

lemma lower_idem [simp]: "lower (lower s) = lower s"
  by (simp add: lower_def)

lemma lower_Nil_iff [simp]: "lower s = [] \<longleftrightarrow> s = []"
  by (simp add: lower_def)

lemma starts_with_refl [simp]: "starts_with s s" "starts_with (p @ s) p" "starts_with s []"
  by (simp_all add: starts_with_def)

lemma split_on_nonempty [simp]: "split_on c s \<noteq> []"
  by (induction s) (auto split: list.splits)

lemma join_split_on: "join [c] (split_on c s) = s"
proof (induction s)
  case (Cons x s)
  show ?case
  proof (cases "split_on c s")
    case (Cons w ws)
    with \<open>join [c] (split_on c s) = s\<close> show ?thesis by (cases ws) auto
  qed simp
qed simp

lemma split_on_no_sep: "c \<notin> set s \<Longrightarrow> split_on c s = [s]"
  by (induction s) auto

lemma split_on_parts_clean: "w \<in> set (split_on c s) \<Longrightarrow> c \<notin> set w"
  by (induction s arbitrary: w) (auto split: if_splits list.splits)

lemma split_on_append: "c \<notin> set w \<Longrightarrow> split_on c (w @ c # s) = w # split_on c s"
  by (induction w) auto

lemma split_ws_Nil [simp]: "split_ws [] = []"
  by (subst split_ws.simps) (simp add: lstrip_def)

lemma split_ws_words: "w \<in> set (split_ws s) \<Longrightarrow> w \<noteq> [] \<and> (\<forall>x \<in> set w. \<not> is_space x)"
proof (induction s rule: split_ws.induct)
  case (1 s)
  show ?case
  proof (cases "lstrip s")
    case Nil
    with "1.prems" show ?thesis by (subst (asm) split_ws.simps) simp
  next
    case (Cons c cs)
    then have c: "\<not> is_space c" by (auto simp: lstrip_def dropWhile_eq_Cons_conv)
    from "1.prems" Cons have
      "w = takeWhile (\<lambda>x. \<not> is_space x) (c # cs) \<or> w \<in> set (split_ws (dropWhile (\<lambda>x. \<not> is_space x) (c # cs)))"
      by (subst (asm) split_ws.simps) simp
    then show ?thesis
    proof
      assume "w = takeWhile (\<lambda>x. \<not> is_space x) (c # cs)"
      with c show ?thesis by (auto dest: set_takeWhileD)
    next
      assume "w \<in> set (split_ws (dropWhile (\<lambda>x. \<not> is_space x) (c # cs)))"
      with "1.IH" [OF Cons] show ?thesis by blast
    qed
  qed
qed

section \<open>Sorting, maxima, first occurrences\<close>

text \<open>\<open>sorted(xs, key=f, reverse=True)\<close> keeps equal elements in their order.\<close>

definition sorted_desc :: "('a \<Rightarrow> 'k :: linordered_idom) \<Rightarrow> 'a list \<Rightarrow> 'a list" where
  "sorted_desc f xs = sort_key (\<lambda>x. - f x) xs"

lemma set_sorted_desc [simp]: "set (sorted_desc f xs) = set xs"
  by (simp add: sorted_desc_def)

lemma length_sorted_desc [simp]: "length (sorted_desc f xs) = length xs"
  by (simp add: sorted_desc_def)

lemma sorted_desc_sorted: "sorted_wrt (\<lambda>x y. f y \<le> f x) (sorted_desc f xs)"
proof -
  have "sorted (map (\<lambda>x. - f x) (sort_key (\<lambda>x. - f x) xs))" by simp
  then show ?thesis by (simp add: sorted_desc_def sorted_wrt_map)
qed

lemma sorted_desc_hd:
  assumes "xs \<noteq> []"
  shows "hd (sorted_desc f xs) \<in> set xs" "x \<in> set xs \<Longrightarrow> f x \<le> f (hd (sorted_desc f xs))"
proof -
  from assms have ne: "sorted_desc f xs \<noteq> []"
    by (metis length_0_conv length_sorted_desc)
  then show "hd (sorted_desc f xs) \<in> set xs"
    using hd_in_set [OF ne] by simp
  assume "x \<in> set xs"
  then have "x \<in> set (sorted_desc f xs)" by simp
  with ne show "f x \<le> f (hd (sorted_desc f xs))"
    using sorted_desc_sorted [of f xs] by (cases "sorted_desc f xs") auto
qed

lemma sorted_desc_stable:
  "filter (\<lambda>y. f y = k) (sorted_desc f xs) = filter (\<lambda>y. f y = k) xs"
proof -
  have "filter (\<lambda>y. - f y = - k) (sort_key (\<lambda>x. - f x) xs) = filter (\<lambda>y. - f y = - k) xs"
    by (rule sort_key_stable)
  then show ?thesis by (simp add: sorted_desc_def)
qed

text \<open>\<open>max(xs, key=f)\<close>: the first element whose key no other exceeds.\<close>

fun max_key :: "('a \<Rightarrow> 'k :: linorder) \<Rightarrow> 'a list \<Rightarrow> 'a option" where
  "max_key f [] = None"
| "max_key f (x # xs) =
     (case max_key f xs of None \<Rightarrow> Some x | Some y \<Rightarrow> Some (if f x < f y then y else x))"

lemma max_key_Some:
  "max_key f xs = Some y \<Longrightarrow> y \<in> set xs \<and> (\<forall>x \<in> set xs. f x \<le> f y)"
proof (induction xs arbitrary: y)
  case (Cons x xs)
  show ?case
  proof (cases "max_key f xs")
    case None
    then have "xs = []" by (cases xs) (auto split: option.splits)
    with Cons.prems show ?thesis by simp
  next
    case (Some z)
    with Cons.IH have z: "z \<in> set xs" "\<forall>x \<in> set xs. f x \<le> f z" by auto
    from Cons.prems Some have "y = (if f x < f z then z else x)" by simp
    with z show ?thesis by (auto simp: not_less intro: order_trans less_imp_le)
  qed
qed simp

lemma max_key_None_iff [simp]: "max_key f xs = None \<longleftrightarrow> xs = []"
  by (cases xs) (auto split: option.splits)

text \<open>
  The loop over a list and a \<open>seen\<close> set, which keeps the first occurrence of each
  value. It occurs in many components.
\<close>

fun dedupe_by :: "('a \<Rightarrow> 'k) \<Rightarrow> 'k list \<Rightarrow> 'a list \<Rightarrow> 'a list" where
  "dedupe_by f seen [] = []"
| "dedupe_by f seen (x # xs) =
     (if f x \<in> set seen then dedupe_by f seen xs else x # dedupe_by f (f x # seen) xs)"

abbreviation dedupe :: "'a list \<Rightarrow> 'a list" where
  "dedupe \<equiv> dedupe_by (\<lambda>x. x) []"

lemma dedupe_by_set: "f ` set (dedupe_by f seen xs) = f ` set xs - set seen"
  by (induction xs arbitrary: seen) auto

lemma dedupe_by_subset: "set (dedupe_by f seen xs) \<subseteq> set xs"
proof (induction xs arbitrary: seen)
  case (Cons x xs)
  from Cons.IH [of seen] Cons.IH [of "f x # seen"] show ?case by auto
qed simp

lemma dedupe_by_distinct: "distinct (map f (dedupe_by f seen xs))"
proof (induction xs arbitrary: seen)
  case (Cons x xs)
  have "f x \<notin> f ` set (dedupe_by f (f x # seen) xs)"
    by (simp add: dedupe_by_set)
  with Cons show ?case by simp
qed simp

lemma set_dedupe [simp]: "set (dedupe xs) = set xs"
  using dedupe_by_set [of "\<lambda>x. x" "[]" xs] by simp

lemma distinct_dedupe [simp]: "distinct (dedupe xs)"
  using dedupe_by_distinct [of "\<lambda>x. x" "[]" xs] by simp

lemma dedupe_by_hd: "xs \<noteq> [] \<Longrightarrow> f (hd xs) \<notin> set seen \<Longrightarrow> hd (dedupe_by f seen xs) = hd xs"
  by (cases xs) simp_all

section \<open>Rounding\<close>

text \<open>\<open>round(x, n)\<close>: to the nearest multiple of \<open>10 ^ -n\<close>, ties to the even one.\<close>

definition round_even :: "rat \<Rightarrow> int" where
  "round_even y =
     (let f = \<lfloor>y\<rfloor>; d = y - of_int f
      in if d < 1 / 2 then f else if 1 / 2 < d then f + 1 else if even f then f else f + 1)"

definition py_round :: "rat \<Rightarrow> nat \<Rightarrow> rat" where
  "py_round x n = of_int (round_even (x * 10 ^ n)) / 10 ^ n"

lemma round_even_ge: "of_int a \<le> y \<Longrightarrow> a \<le> round_even y"
  by (auto simp: round_even_def Let_def le_floor_iff intro: order_trans[of _ "\<lfloor>y\<rfloor>"])

lemma round_even_le:
  assumes "y \<le> of_int b"
  shows "round_even y \<le> b"
proof (cases "y = of_int b")
  case True
  then show ?thesis by (simp add: round_even_def)
next
  case False
  with assms have "\<lfloor>y\<rfloor> < b" by (simp add: floor_less_iff)
  then show ?thesis by (auto simp: round_even_def Let_def)
qed

lemma py_round_between:
  assumes "of_int a \<le> x * 10 ^ n" "x * 10 ^ n \<le> of_int b"
  shows "of_int a / 10 ^ n \<le> py_round x n" "py_round x n \<le> of_int b / 10 ^ n"
  using round_even_ge [OF assms(1)] round_even_le [OF assms(2)]
  by (simp_all add: py_round_def divide_right_mono)

lemma py_round_unit:
  assumes "0 \<le> x" "x \<le> 1"
  shows "0 \<le> py_round x n" "py_round x n \<le> 1"
  using py_round_between [of 0 x n "10 ^ n"] assms by simp_all

section \<open>Reading back what was written\<close>

lemma split_ws_space: "is_space c \<Longrightarrow> split_ws (c # s) = split_ws s"
  by (subst (1 2) split_ws.simps) (simp add: lstrip_def)

lemma split_ws_word:
  assumes "w \<noteq> []" "\<forall>x \<in> set w. \<not> is_space x" "s = [] \<or> is_space (hd s)"
  shows "split_ws (w @ s) = w # split_ws s"
proof -
  have drop: "lstrip (w @ s) = w @ s"
    using assms(1,2) by (cases w) (auto simp: lstrip_def)
  obtain c cs where w: "w = c # cs" using assms(1) by (cases w) auto
  have "takeWhile (\<lambda>x. \<not> is_space x) (w @ s) = w" "dropWhile (\<lambda>x. \<not> is_space x) (w @ s) = s"
    using assms(2,3) by (cases s; auto simp: takeWhile_append dropWhile_append)+
  with drop show ?thesis
    by (subst split_ws.simps) (simp add: w)
qed

lemma space_is_space: "is_space (CHR '' '')"
  by (simp add: is_space_def code_point_def)

lemma split_ws_join:
  "(\<forall>w \<in> set ws. w \<noteq> [] \<and> (\<forall>x \<in> set w. \<not> is_space x)) \<Longrightarrow> split_ws (join '' '' ws) = ws"
proof (induction ws)
  case (Cons w ws)
  then show ?case
    using split_ws_word [of w "[]"] split_ws_word [of w "CHR '' '' # join '' '' ws"]
    by (cases ws) (simp_all add: space_is_space split_ws_space)
qed simp

lemma crlf_id: "CHR 0x0D \<notin> set s \<Longrightarrow> crlf s = s"
  by (induction s) auto

lemma lines_of_line:
  "\<forall>c \<in> set l. \<not> is_eol c \<Longrightarrow> is_eol e \<Longrightarrow> lines_of (l @ e # s) = l # lines_of s"
  by (induction l) auto

lemma eol_chars: "is_eol (CHR 0x0A)" "is_eol (CHR 0x0D)"
  by (simp_all add: is_eol_def code_point_def)

lemma splitlines_unlines:
  assumes "\<forall>l \<in> set ls. \<forall>c \<in> set l. \<not> is_eol c"
  shows "splitlines (concat (map (\<lambda>l. l @ [CHR 0x0A]) ls)) = ls"
proof -
  have "CHR 0x0D \<notin> set (concat (map (\<lambda>l. l @ [CHR 0x0A]) ls))"
    using assms eol_chars(2) by auto
  then have "splitlines (concat (map (\<lambda>l. l @ [CHR 0x0A]) ls)) = lines_of (concat (map (\<lambda>l. l @ [CHR 0x0A]) ls))"
    by (simp add: splitlines_def crlf_id)
  also have "\<dots> = ls"
    using assms by (induction ls) (simp_all add: lines_of_line eol_chars)
  finally show ?thesis .
qed

lemma digit_char: "d < 10 \<Longrightarrow> is_digit (char_of (48 + d :: nat)) \<and> code_point (char_of (48 + d :: nat)) = 48 + d"
  by (simp add: is_digit_def code_point_char_of)

lemma nat_digits_digits: "c \<in> set (nat_digits n) \<Longrightarrow> is_digit c"
  by (induction n arbitrary: c rule: nat_digits.induct)
     (subst (asm) (2) nat_digits.simps, auto simp: digit_char split: if_splits)

lemma nat_digits_nonempty [simp]: "nat_digits n \<noteq> []"
  by (subst nat_digits.simps) simp

lemma parse_digits_append:
  "\<forall>c \<in> set s. is_digit c \<Longrightarrow> is_digit d \<Longrightarrow>
    parse_digits acc (s @ [d]) = map_option (\<lambda>n. n * 10 + (code_point d - 48)) (parse_digits acc s)"
  by (induction s arbitrary: acc) auto

lemma parse_nat_digits: "parse_digits 0 (nat_digits n) = Some n"
proof (induction n rule: nat_digits.induct)
  case (1 n)
  show ?case
  proof (cases "n < 10")
    case True
    then show ?thesis by (subst nat_digits.simps) (simp add: digit_char)
  next
    case False
    then have "nat_digits n = nat_digits (n div 10) @ [char_of (48 + n mod 10)]"
      by (subst nat_digits.simps) simp
    then show ?thesis
      using 1 False parse_digits_append [of "nat_digits (n div 10)" "char_of (48 + n mod 10)" 0]
        nat_digits_digits digit_char [of "n mod 10"] by simp
  qed
qed

lemma digit_not_space: "is_digit c \<Longrightarrow> \<not> is_space c"
  by (auto simp: is_digit_def is_space_def Let_def)

lemma strip_id: "\<forall>c \<in> set s. \<not> is_space c \<Longrightarrow> strip s = s"
proof -
  assume a: "\<forall>c \<in> set s. \<not> is_space c"
  then have "dropWhile is_space s = s" "dropWhile is_space (rev s) = rev s"
    by (simp_all add: dropWhile_eq_self_iff) (metis hd_in_set hd_rev last_in_set rev_is_Nil_conv)+
  then show ?thesis by (simp add: strip_def rstrip_def lstrip_def)
qed

lemma parse_int_int_str: "parse_int (int_str i) = Some i"
proof -
  have d: "\<forall>c \<in> set (nat_digits n). is_digit c" for n using nat_digits_digits by blast
  have h: "is_digit (hd (nat_digits n))" for n using d [of n] by simp
  have p: "parse_nat (nat_digits n) = Some n" for n
    by (simp add: parse_nat_def h parse_nat_digits)
  have m: "\<not> is_digit (CHR ''-'')" "\<not> is_space (CHR ''-'')" "\<not> is_digit (CHR ''+'')"
    by (simp_all add: is_digit_def is_space_def code_point_def)
  have s: "strip (int_str i) = int_str i"
    using d m digit_not_space by (intro strip_id) (auto simp: int_str_def)
  show ?thesis
  proof (cases "i < 0")
    case True
    with s p show ?thesis by (simp add: parse_int_def int_str_def)
  next
    case False
    then have "int_str i = nat_digits (nat i)" by (simp add: int_str_def)
    with s p [of "nat i"] h [of "nat i"] m False show ?thesis
      by (auto simp: parse_int_def Let_def)
  qed
qed

end
