(* ===== verification/Py_Repr.thy ===== *)
theory Py_Repr
  imports Py_Text
begin

text \<open>
  \<open>str(v)\<close> and \<open>repr(v)\<close> of JSON values. A float prints as its decimal expansion, cut after
  17 digits; the exponent notation Python uses outside \<open>[1e-4, 1e16)\<close> is not modelled.
\<close>

definition hex_digit :: "nat \<Rightarrow> char" where
  "hex_digit n = (if n < 10 then char_of (48 + n) else char_of (87 + n))"

definition escape_char :: "char \<Rightarrow> char \<Rightarrow> string" where
  "escape_char q c =
     (let n = code_point c in
      if c = q \<or> n = 92 then [CHR 0x5C, c]
      else if n = 10 then [CHR 0x5C, CHR ''n'']
      else if n = 13 then [CHR 0x5C, CHR ''r'']
      else if n = 9 then [CHR 0x5C, CHR ''t'']
      else if n < 32 \<or> (127 \<le> n \<and> n \<le> 160) \<or> n = 173
        then [CHR 0x5C, CHR ''x'', hex_digit (n div 16), hex_digit (n mod 16)]
      else [c])"

definition repr_str :: "string \<Rightarrow> string" where
  "repr_str s =
     (let q = (if CHR 0x27 \<in> set s \<and> CHR 0x22 \<notin> set s then CHR 0x22 else CHR 0x27)
      in [q] @ concat (map (escape_char q) s) @ [q])"

fun frac_digits :: "nat \<Rightarrow> rat \<Rightarrow> string" where
  "frac_digits 0 x = []"
| "frac_digits (Suc n) x =
     (let y = x * 10; d = nat \<lfloor>y\<rfloor>; r = y - of_nat d
      in char_of (48 + d) # (if r = 0 then [] else frac_digits n r))"

definition float_str :: "rat \<Rightarrow> string" where
  "float_str x =
     (let a = \<bar>x\<bar>; i = \<lfloor>a\<rfloor>
      in (if x < 0 then ''-'' else []) @ int_str i @ ''.'' @ frac_digits 17 (a - of_int i))"

fun py_repr :: "json \<Rightarrow> string" where
  "py_repr JNull = ''None''"
| "py_repr (JBool b) = (if b then ''True'' else ''False'')"
| "py_repr (JInt i) = int_str i"
| "py_repr (JFloat x) = float_str x"
| "py_repr (JStr s) = repr_str s"
| "py_repr (JList xs) = ''['' @ join '', '' (map py_repr xs) @ '']''"
| "py_repr (JObj d) = ''{'' @ join '', '' (map (\<lambda>p. repr_str (fst p) @ '': '' @ py_repr (snd p)) d) @ ''}''"

definition py_str :: "json \<Rightarrow> string" where
  "py_str v = (case v of JStr s \<Rightarrow> s | _ \<Rightarrow> py_repr v)"

lemma py_str_JStr [simp]: "py_str (JStr s) = s"
  by (simp add: py_str_def)

lemma py_str_JNull [simp]: "py_str JNull = ''None''"
  by (simp add: py_str_def)

text \<open>\<open>str(d.get(k) or default)\<close> for a string default.\<close>

definition dstr_or :: "jdict \<Rightarrow> string \<Rightarrow> string \<Rightarrow> string" where
  "dstr_or d k dflt = py_str (jor (dget0 d k) (JStr dflt))"

definition dstr :: "jdict \<Rightarrow> string \<Rightarrow> string \<Rightarrow> string" where
  "dstr d k dflt = py_str (dget d k (JStr dflt))"

text \<open>A value found in a dictionary is smaller than the dictionary.\<close>

lemma size_json_in_dict: "(k, v) \<in> set d \<Longrightarrow> size v < size (JObj d)"
  by (induction d) auto

lemma size_dget_JObj: "dget d k JNull = JObj e \<Longrightarrow> size (JObj e) < size (JObj d)"
  by (auto simp: dget_def split: option.splits dest!: map_of_SomeD dest: size_json_in_dict)

end
