(* ===== verification/Doc_Store.thy ===== *)
theory Doc_Store
  imports Py_Repr
begin

text \<open>
  Documents on disk: a directory is an association list from relative paths to files, a file
  is a JSON document or text that \<open>json.loads\<close> rejects. The theory models
  \<open>app/core/io_utils.py\<close>, states what a component may rely on when it writes a document
  (the locale \<open>doc_store\<close>) and what a pair of serialiser and reader promises (the locale
  \<open>codec\<close>), and derives once that a load after a save returns what was saved.
\<close>

section \<open>Files\<close>

datatype doc = FJson json | FText string

type_synonym files = "(string \<times> doc) list"

definition fread :: "files \<Rightarrow> string \<Rightarrow> doc option" where
  "fread fs p = map_of fs p"

definition fwrite :: "string \<Rightarrow> json \<Rightarrow> files \<Rightarrow> files" where
  "fwrite p j fs = AList.update p (FJson j) fs"

definition fdelete :: "string \<Rightarrow> files \<Rightarrow> files" where
  "fdelete p fs = AList.delete p fs"

definition fexists :: "files \<Rightarrow> string \<Rightarrow> bool" where
  "fexists fs p \<longleftrightarrow> fread fs p \<noteq> None"

text \<open>\<open>tmp.replace(path)\<close>: the temporary file takes the place of the target.\<close>

definition freplace :: "string \<Rightarrow> string \<Rightarrow> files \<Rightarrow> files" where
  "freplace src dst fs =
     (case fread fs src of None \<Rightarrow> fs | Some f \<Rightarrow> AList.update dst f (fdelete src fs))"

definition tmp_path :: "string \<Rightarrow> string" where
  "tmp_path p = p @ ''.tmp''"

text \<open>
  \<open>atomic_write_json\<close>: the text goes to a temporary file, which then replaces the target.
  \<open>atomic_write_states\<close> lists the states the directory passes through, so that a crash
  between two steps is one of them.
\<close>

definition atomic_write_json :: "string \<Rightarrow> json \<Rightarrow> files \<Rightarrow> files" where
  "atomic_write_json p payload fs = freplace (tmp_path p) p (fwrite (tmp_path p) payload fs)"

definition atomic_write_states :: "string \<Rightarrow> json \<Rightarrow> files \<Rightarrow> files list" where
  "atomic_write_states p payload fs =
     [fs, fwrite (tmp_path p) payload fs, atomic_write_json p payload fs]"

lemma tmp_path_neq [simp]: "tmp_path p \<noteq> p" "p \<noteq> tmp_path p"
proof -
  show "tmp_path p \<noteq> p" by (simp add: tmp_path_def)
  then show "p \<noteq> tmp_path p" by simp
qed

lemma fread_fwrite: "fread (fwrite p j fs) q = (if q = p then Some (FJson j) else fread fs q)"
  by (simp add: fread_def fwrite_def AList.update_conv)

lemma fread_fdelete: "fread (fdelete p fs) q = (if q = p then None else fread fs q)"
  by (simp add: fread_def fdelete_def AList.delete_conv)

lemma fread_atomic_write:
  "fread (atomic_write_json p j fs) q =
     (if q = p then Some (FJson j) else if q = tmp_path p then None else fread fs q)"
  by (auto simp: atomic_write_json_def freplace_def fread_fwrite fread_fdelete
      fread_def [of "AList.update _ _ _"] AList.update_conv fread_def [of "fdelete _ _", symmetric]
      split: if_splits)

text \<open>Reading a document through a reader of its JSON value.\<close>

definition load_doc :: "(json \<Rightarrow> 'a res) \<Rightarrow> files \<Rightarrow> string \<Rightarrow> 'a res" where
  "load_doc dec fs p =
     (case fread fs p of
        None \<Rightarrow> Inl (FileNotFoundError p)
      | Some (FText _) \<Rightarrow> Inl (ValueError ''json'')
      | Some (FJson j) \<Rightarrow> dec j)"

section \<open>The contracts\<close>

text \<open>
  A way to write a document: the written document is what a read returns, and no other path
  changes except the ones in \<open>scratch p\<close>.
\<close>

locale doc_store =
  fixes rd :: "'s \<Rightarrow> string \<Rightarrow> doc option"
    and wr :: "string \<Rightarrow> json \<Rightarrow> 's \<Rightarrow> 's"
    and scratch :: "string \<Rightarrow> string set"
  assumes read_write_same: "rd (wr p j s) p = Some (FJson j)"
    and read_write_other: "q \<noteq> p \<Longrightarrow> q \<notin> scratch p \<Longrightarrow> rd (wr p j s) q = rd s q"
begin

lemma write_write_read: "rd (wr p j (wr p i s)) p = rd (wr p j s) p"
  by (simp add: read_write_same)

lemma writes_commute_on_read:
  assumes "p \<noteq> q" "p \<notin> scratch q" "q \<notin> scratch p"
  shows "rd (wr p i (wr q j s)) q = rd (wr q j (wr p i s)) q"
  using assms by (simp add: read_write_same read_write_other)

end

text \<open>A serialiser and its reader.\<close>

locale codec =
  fixes enc :: "'a \<Rightarrow> json"
    and dec :: "json \<Rightarrow> 'a res"
  assumes dec_enc: "dec (enc x) = Inr x"
begin

lemma enc_inject: "enc x = enc y \<longleftrightarrow> x = y"
proof
  assume "enc x = enc y"
  then have "dec (enc x) = dec (enc y)" by simp
  then show "x = y" by (simp add: dec_enc)
qed simp

end

text \<open>
  A document kept in a directory: a serialiser with its reader, and a way to write. A load
  after a save returns the saved value, whatever was there before, and a save leaves every
  other document readable as it was.
\<close>

locale persisted = codec enc dec + doc_store fread wr scratch
  for enc :: "'a \<Rightarrow> json" and dec :: "json \<Rightarrow> 'a res"
    and wr :: "string \<Rightarrow> json \<Rightarrow> files \<Rightarrow> files" and scratch :: "string \<Rightarrow> string set"
begin

lemma load_save: "load_doc dec (wr p (enc x) fs) p = Inr x"
  by (simp add: load_doc_def read_write_same dec_enc)

lemma load_save_other:
  "q \<noteq> p \<Longrightarrow> q \<notin> scratch p \<Longrightarrow> load_doc d (wr p (enc x) fs) q = load_doc d fs q"
  by (simp add: load_doc_def read_write_other)

end

interpretation plain: doc_store fread fwrite "\<lambda>_. {}"
  by unfold_locales (simp_all add: fread_fwrite)

interpretation atomic: doc_store fread atomic_write_json "\<lambda>p. {tmp_path p}"
  by unfold_locales (simp_all add: fread_atomic_write)

text \<open>
  Every state in which an atomic write can be interrupted shows the old document or the new
  one at the target, never a partial one.
\<close>

lemma atomic_write_states_read:
  "fs' \<in> set (atomic_write_states p j fs) \<Longrightarrow> fread fs' p = fread fs p \<or> fread fs' p = Some (FJson j)"
  by (auto simp: atomic_write_states_def fread_fwrite fread_atomic_write)

section \<open>Enumerations with string values\<close>

text \<open>
  A Python \<open>class E(str, Enum)\<close>: its members, the value of each, and the call \<open>E(s)\<close>,
  which raises \<open>ValueError\<close> for a string that is no member's value.
\<close>

definition enum_of :: "'e list \<Rightarrow> ('e \<Rightarrow> string) \<Rightarrow> string \<Rightarrow> 'e res" where
  "enum_of members val s =
     (case find (\<lambda>e. val e = s) members of None \<Rightarrow> Inl (ValueError s) | Some e \<Rightarrow> Inr e)"

locale str_enum =
  fixes members :: "'e list" and val :: "'e \<Rightarrow> string"
  assumes complete: "e \<in> set members"
    and distinct_values: "distinct (map val members)"
begin

lemma val_inject: "val e = val e' \<longleftrightarrow> e = e'"
  using distinct_values complete by (auto simp: distinct_map inj_on_def)

lemma of_val: "enum_of members val (val e) = Inr e"
proof -
  have "find (\<lambda>x. val x = val e) members \<noteq> None"
    using complete by (auto simp: find_None_iff)
  then obtain x where x: "find (\<lambda>x. val x = val e) members = Some x" by auto
  then have "val x = val e" by (auto simp: find_Some_iff)
  with x show ?thesis by (simp add: enum_of_def val_inject)
qed

lemma of_val_iff: "enum_of members val s = Inr e \<longleftrightarrow> s = val e"
proof
  assume "enum_of members val s = Inr e"
  then show "s = val e" by (auto simp: enum_of_def find_Some_iff split: option.splits)
qed (simp add: of_val)

end

definition as_enum :: "'e list \<Rightarrow> ('e \<Rightarrow> string) \<Rightarrow> json \<Rightarrow> 'e res" where
  "as_enum members val v = bindr (as_str v) (enum_of members val)"

context str_enum
begin

lemma as_enum_val: "as_enum members val (JStr (val e)) = Inr e"
  by (simp add: as_enum_def of_val)

lemma as_opt_enum_val: "as_opt (as_enum members val) (jopt (\<lambda>e. JStr (val e)) x) = Inr x"
  by (rule as_opt_jopt) (simp_all add: as_enum_val)

end

end
