(* ===== verification/Enumerations.thy ===== *)
theory Enumerations
  imports Doc_Store
begin

text \<open>
  The enumerations of \<open>app/core/models.py\<close>. Each Python class is a datatype with the
  members in the source's order, a function to the string value of a member, the list of the
  members and the reader \<open>E(s)\<close>. Each is an instance of the contract \<open>str_enum\<close>: the
  list is complete and no two members share a value, so reading a written value returns it.
\<close>

datatype transport =
    T_USB_ADB | T_USB_FASTBOOT | T_USB_FASTBOOTD | T_USB_RECOVERY | T_USB_MTP | T_UNKNOWN

primrec transport_value :: "transport \<Rightarrow> string" where
  "transport_value T_USB_ADB = ''usb-adb''"
| "transport_value T_USB_FASTBOOT = ''usb-fastboot''"
| "transport_value T_USB_FASTBOOTD = ''usb-fastbootd''"
| "transport_value T_USB_RECOVERY = ''usb-recovery''"
| "transport_value T_USB_MTP = ''usb-mtp''"
| "transport_value T_UNKNOWN = ''unknown''"

definition transports :: "transport list" where
  "transports =
     [T_USB_ADB, T_USB_FASTBOOT, T_USB_FASTBOOTD, T_USB_RECOVERY, T_USB_MTP, T_UNKNOWN]"

abbreviation as_transport :: "json \<Rightarrow> transport res" where
  "as_transport \<equiv> as_enum transports transport_value"

datatype device_form_factor =
    FF_UNKNOWN | FF_PHONE | FF_TABLET

primrec device_form_factor_value :: "device_form_factor \<Rightarrow> string" where
  "device_form_factor_value FF_UNKNOWN = ''unknown''"
| "device_form_factor_value FF_PHONE = ''phone''"
| "device_form_factor_value FF_TABLET = ''tablet''"

definition device_form_factors :: "device_form_factor list" where
  "device_form_factors =
     [FF_UNKNOWN, FF_PHONE, FF_TABLET]"

abbreviation as_device_form_factor :: "json \<Rightarrow> device_form_factor res" where
  "as_device_form_factor \<equiv> as_enum device_form_factors device_form_factor_value"

datatype session_state_name =
    IDLE | DEVICE_ATTACHED | INTAKE | ACCESS_ENABLEMENT | DISCOVER | DEEP_SCAN | ASSESS
    | PROFILE_SYNTHESIS | MATCH_MASTER | RECOMMEND | BACKUP_PLAN | BACKUP_READY | UNLOCK_PREP
    | UNLOCK | BASELINE_CAPTURE | PATH_SELECT | BLOCKER_CLASSIFY | REMEDIATION_DECIDE
    | TASK_CREATE | CODEGEN_TASK | CODEGEN_WRITE | PATCH_APPLY | EXECUTE_STEP
    | EXECUTE_ARTIFACT | INSPECT_RESULT | CONNECTIVITY_VALIDATE | SECURITY_VALIDATE
    | BUILD_GENERIC | BUILD_DEVICE | PREVIEW_BUILD | PREVIEW_REVIEW | INTERACTIVE_VERIFY
    | SIGN_IMAGES | FLASH_PREP | INSTALL_APPROVAL | FLASH | BOOTSTRAP_DEVICE | BRINGUP | HARDEN
    | VALIDATE | POST_INSTALL_VERIFY | COMPLETE | ITERATE | QUESTION_GATE | PROMOTE | RESTORE
    | BLOCKED

primrec session_state_name_value :: "session_state_name \<Rightarrow> string" where
  "session_state_name_value IDLE = ''IDLE''"
| "session_state_name_value DEVICE_ATTACHED = ''DEVICE_ATTACHED''"
| "session_state_name_value INTAKE = ''INTAKE''"
| "session_state_name_value ACCESS_ENABLEMENT = ''ACCESS_ENABLEMENT''"
| "session_state_name_value DISCOVER = ''DISCOVER''"
| "session_state_name_value DEEP_SCAN = ''DEEP_SCAN''"
| "session_state_name_value ASSESS = ''ASSESS''"
| "session_state_name_value PROFILE_SYNTHESIS = ''PROFILE_SYNTHESIS''"
| "session_state_name_value MATCH_MASTER = ''MATCH_MASTER''"
| "session_state_name_value RECOMMEND = ''RECOMMEND''"
| "session_state_name_value BACKUP_PLAN = ''BACKUP_PLAN''"
| "session_state_name_value BACKUP_READY = ''BACKUP_READY''"
| "session_state_name_value UNLOCK_PREP = ''UNLOCK_PREP''"
| "session_state_name_value UNLOCK = ''UNLOCK''"
| "session_state_name_value BASELINE_CAPTURE = ''BASELINE_CAPTURE''"
| "session_state_name_value PATH_SELECT = ''PATH_SELECT''"
| "session_state_name_value BLOCKER_CLASSIFY = ''BLOCKER_CLASSIFY''"
| "session_state_name_value REMEDIATION_DECIDE = ''REMEDIATION_DECIDE''"
| "session_state_name_value TASK_CREATE = ''TASK_CREATE''"
| "session_state_name_value CODEGEN_TASK = ''CODEGEN_TASK''"
| "session_state_name_value CODEGEN_WRITE = ''CODEGEN_WRITE''"
| "session_state_name_value PATCH_APPLY = ''PATCH_APPLY''"
| "session_state_name_value EXECUTE_STEP = ''EXECUTE_STEP''"
| "session_state_name_value EXECUTE_ARTIFACT = ''EXECUTE_ARTIFACT''"
| "session_state_name_value INSPECT_RESULT = ''INSPECT_RESULT''"
| "session_state_name_value CONNECTIVITY_VALIDATE = ''CONNECTIVITY_VALIDATE''"
| "session_state_name_value SECURITY_VALIDATE = ''SECURITY_VALIDATE''"
| "session_state_name_value BUILD_GENERIC = ''BUILD_GENERIC''"
| "session_state_name_value BUILD_DEVICE = ''BUILD_DEVICE''"
| "session_state_name_value PREVIEW_BUILD = ''PREVIEW_BUILD''"
| "session_state_name_value PREVIEW_REVIEW = ''PREVIEW_REVIEW''"
| "session_state_name_value INTERACTIVE_VERIFY = ''INTERACTIVE_VERIFY''"
| "session_state_name_value SIGN_IMAGES = ''SIGN_IMAGES''"
| "session_state_name_value FLASH_PREP = ''FLASH_PREP''"
| "session_state_name_value INSTALL_APPROVAL = ''INSTALL_APPROVAL''"
| "session_state_name_value FLASH = ''FLASH''"
| "session_state_name_value BOOTSTRAP_DEVICE = ''BOOTSTRAP_DEVICE''"
| "session_state_name_value BRINGUP = ''BRINGUP''"
| "session_state_name_value HARDEN = ''HARDEN''"
| "session_state_name_value VALIDATE = ''VALIDATE''"
| "session_state_name_value POST_INSTALL_VERIFY = ''POST_INSTALL_VERIFY''"
| "session_state_name_value COMPLETE = ''COMPLETE''"
| "session_state_name_value ITERATE = ''ITERATE''"
| "session_state_name_value QUESTION_GATE = ''QUESTION_GATE''"
| "session_state_name_value PROMOTE = ''PROMOTE''"
| "session_state_name_value RESTORE = ''RESTORE''"
| "session_state_name_value BLOCKED = ''BLOCKED''"

definition session_state_names :: "session_state_name list" where
  "session_state_names =
     [IDLE, DEVICE_ATTACHED, INTAKE, ACCESS_ENABLEMENT, DISCOVER, DEEP_SCAN, ASSESS
     , PROFILE_SYNTHESIS, MATCH_MASTER, RECOMMEND, BACKUP_PLAN, BACKUP_READY, UNLOCK_PREP
     , UNLOCK, BASELINE_CAPTURE, PATH_SELECT, BLOCKER_CLASSIFY, REMEDIATION_DECIDE, TASK_CREATE
     , CODEGEN_TASK, CODEGEN_WRITE, PATCH_APPLY, EXECUTE_STEP, EXECUTE_ARTIFACT, INSPECT_RESULT
     , CONNECTIVITY_VALIDATE, SECURITY_VALIDATE, BUILD_GENERIC, BUILD_DEVICE, PREVIEW_BUILD
     , PREVIEW_REVIEW, INTERACTIVE_VERIFY, SIGN_IMAGES, FLASH_PREP, INSTALL_APPROVAL, FLASH
     , BOOTSTRAP_DEVICE, BRINGUP, HARDEN, VALIDATE, POST_INSTALL_VERIFY, COMPLETE, ITERATE
     , QUESTION_GATE, PROMOTE, RESTORE, BLOCKED]"

abbreviation as_session_state_name :: "json \<Rightarrow> session_state_name res" where
  "as_session_state_name \<equiv> as_enum session_state_names session_state_name_value"

datatype failure_severity =
    FS_INFO | FS_TRANSIENT | FS_RECOVERABLE | FS_FATAL

primrec failure_severity_value :: "failure_severity \<Rightarrow> string" where
  "failure_severity_value FS_INFO = ''info''"
| "failure_severity_value FS_TRANSIENT = ''transient''"
| "failure_severity_value FS_RECOVERABLE = ''recoverable''"
| "failure_severity_value FS_FATAL = ''fatal''"

definition failure_severitys :: "failure_severity list" where
  "failure_severitys =
     [FS_INFO, FS_TRANSIENT, FS_RECOVERABLE, FS_FATAL]"

abbreviation as_failure_severity :: "json \<Rightarrow> failure_severity res" where
  "as_failure_severity \<equiv> as_enum failure_severitys failure_severity_value"

datatype support_status =
    SUP_ACTIONABLE | SUP_RESEARCH_ONLY | SUP_BLOCKED | SUP_EXPERIMENTAL

primrec support_status_value :: "support_status \<Rightarrow> string" where
  "support_status_value SUP_ACTIONABLE = ''actionable''"
| "support_status_value SUP_RESEARCH_ONLY = ''research_only''"
| "support_status_value SUP_BLOCKED = ''blocked''"
| "support_status_value SUP_EXPERIMENTAL = ''experimental''"

definition support_statuss :: "support_status list" where
  "support_statuss =
     [SUP_ACTIONABLE, SUP_RESEARCH_ONLY, SUP_BLOCKED, SUP_EXPERIMENTAL]"

abbreviation as_support_status :: "json \<Rightarrow> support_status res" where
  "as_support_status \<equiv> as_enum support_statuss support_status_value"

datatype blocker_type =
    BT_TRANSPORT | BT_TRUST | BT_SOURCE | BT_BUILD | BT_FLASH | BT_BOOT | BT_SUBSYSTEM
    | BT_VALIDATION | BT_POLICY | BT_PHYSICAL | BT_NONE

primrec blocker_type_value :: "blocker_type \<Rightarrow> string" where
  "blocker_type_value BT_TRANSPORT = ''transport_blocker''"
| "blocker_type_value BT_TRUST = ''trust_blocker''"
| "blocker_type_value BT_SOURCE = ''source_blocker''"
| "blocker_type_value BT_BUILD = ''build_blocker''"
| "blocker_type_value BT_FLASH = ''flash_blocker''"
| "blocker_type_value BT_BOOT = ''boot_blocker''"
| "blocker_type_value BT_SUBSYSTEM = ''subsystem_blocker''"
| "blocker_type_value BT_VALIDATION = ''validation_blocker''"
| "blocker_type_value BT_POLICY = ''policy_blocker''"
| "blocker_type_value BT_PHYSICAL = ''physical_action_blocker''"
| "blocker_type_value BT_NONE = ''none''"

definition blocker_types :: "blocker_type list" where
  "blocker_types =
     [BT_TRANSPORT, BT_TRUST, BT_SOURCE, BT_BUILD, BT_FLASH, BT_BOOT, BT_SUBSYSTEM
     , BT_VALIDATION, BT_POLICY, BT_PHYSICAL, BT_NONE]"

abbreviation as_blocker_type :: "json \<Rightarrow> blocker_type res" where
  "as_blocker_type \<equiv> as_enum blocker_types blocker_type_value"

datatype user_persona =
    UP_DAILY | UP_SENIOR | UP_DEVELOPER | UP_CHILD | UP_PRIVACY

primrec user_persona_value :: "user_persona \<Rightarrow> string" where
  "user_persona_value UP_DAILY = ''daily_user''"
| "user_persona_value UP_SENIOR = ''senior''"
| "user_persona_value UP_DEVELOPER = ''developer''"
| "user_persona_value UP_CHILD = ''child''"
| "user_persona_value UP_PRIVACY = ''privacy_focused''"

definition user_personas :: "user_persona list" where
  "user_personas =
     [UP_DAILY, UP_SENIOR, UP_DEVELOPER, UP_CHILD, UP_PRIVACY]"

abbreviation as_user_persona :: "json \<Rightarrow> user_persona res" where
  "as_user_persona \<equiv> as_enum user_personas user_persona_value"

datatype technical_comfort =
    TC_LOW | TC_MEDIUM | TC_HIGH

primrec technical_comfort_value :: "technical_comfort \<Rightarrow> string" where
  "technical_comfort_value TC_LOW = ''low''"
| "technical_comfort_value TC_MEDIUM = ''medium''"
| "technical_comfort_value TC_HIGH = ''high''"

definition technical_comforts :: "technical_comfort list" where
  "technical_comforts =
     [TC_LOW, TC_MEDIUM, TC_HIGH]"

abbreviation as_technical_comfort :: "json \<Rightarrow> technical_comfort res" where
  "as_technical_comfort \<equiv> as_enum technical_comforts technical_comfort_value"

datatype priority_focus =
    PF_SECURITY | PF_SIMPLICITY | PF_PERFORMANCE | PF_BATTERY | PF_PRIVACY | PF_COMPATIBILITY

primrec priority_focus_value :: "priority_focus \<Rightarrow> string" where
  "priority_focus_value PF_SECURITY = ''security''"
| "priority_focus_value PF_SIMPLICITY = ''simplicity''"
| "priority_focus_value PF_PERFORMANCE = ''performance''"
| "priority_focus_value PF_BATTERY = ''battery''"
| "priority_focus_value PF_PRIVACY = ''privacy''"
| "priority_focus_value PF_COMPATIBILITY = ''compatibility''"

definition priority_focuss :: "priority_focus list" where
  "priority_focuss =
     [PF_SECURITY, PF_SIMPLICITY, PF_PERFORMANCE, PF_BATTERY, PF_PRIVACY, PF_COMPATIBILITY]"

abbreviation as_priority_focus :: "json \<Rightarrow> priority_focus res" where
  "as_priority_focus \<equiv> as_enum priority_focuss priority_focus_value"

datatype google_services_preference =
    GS_KEEP | GS_REDUCE | GS_REMOVE

primrec google_services_preference_value :: "google_services_preference \<Rightarrow> string" where
  "google_services_preference_value GS_KEEP = ''keep_google''"
| "google_services_preference_value GS_REDUCE = ''reduce_google''"
| "google_services_preference_value GS_REMOVE = ''remove_google''"

definition google_services_preferences :: "google_services_preference list" where
  "google_services_preferences =
     [GS_KEEP, GS_REDUCE, GS_REMOVE]"

abbreviation as_google_services_preference :: "json \<Rightarrow> google_services_preference res" where
  "as_google_services_preference \<equiv> as_enum google_services_preferences google_services_preference_value"

datatype autonomy_limit =
    AL_CONSERVATIVE | AL_BALANCED | AL_AGENTIC

primrec autonomy_limit_value :: "autonomy_limit \<Rightarrow> string" where
  "autonomy_limit_value AL_CONSERVATIVE = ''conservative''"
| "autonomy_limit_value AL_BALANCED = ''balanced''"
| "autonomy_limit_value AL_AGENTIC = ''agentic''"

definition autonomy_limits :: "autonomy_limit list" where
  "autonomy_limits =
     [AL_CONSERVATIVE, AL_BALANCED, AL_AGENTIC]"

abbreviation as_autonomy_limit :: "json \<Rightarrow> autonomy_limit res" where
  "as_autonomy_limit \<equiv> as_enum autonomy_limits autonomy_limit_value"

datatype risk_tolerance =
    RT_LOW | RT_MEDIUM | RT_HIGH

primrec risk_tolerance_value :: "risk_tolerance \<Rightarrow> string" where
  "risk_tolerance_value RT_LOW = ''low''"
| "risk_tolerance_value RT_MEDIUM = ''medium''"
| "risk_tolerance_value RT_HIGH = ''high''"

definition risk_tolerances :: "risk_tolerance list" where
  "risk_tolerances =
     [RT_LOW, RT_MEDIUM, RT_HIGH]"

abbreviation as_risk_tolerance :: "json \<Rightarrow> risk_tolerance res" where
  "as_risk_tolerance \<equiv> as_enum risk_tolerances risk_tolerance_value"

datatype restore_expectation =
    RE_MUST_BE_ONE_CLICK | RE_GUIDED_IS_OK | RE_RESEARCH_OK

primrec restore_expectation_value :: "restore_expectation \<Rightarrow> string" where
  "restore_expectation_value RE_MUST_BE_ONE_CLICK = ''must_be_one_click''"
| "restore_expectation_value RE_GUIDED_IS_OK = ''guided_is_ok''"
| "restore_expectation_value RE_RESEARCH_OK = ''research_ok''"

definition restore_expectations :: "restore_expectation list" where
  "restore_expectations =
     [RE_MUST_BE_ONE_CLICK, RE_GUIDED_IS_OK, RE_RESEARCH_OK]"

abbreviation as_restore_expectation :: "json \<Rightarrow> restore_expectation res" where
  "as_restore_expectation \<equiv> as_enum restore_expectations restore_expectation_value"

datatype use_case_category =
    UC_ACCESSIBILITY | UC_KID_SAFE | UC_MEDIA | UC_OFFLINE_UTILITY | UC_HOME_CONTROL
    | UC_LIGHTWEIGHT_ANDROID | UC_EXPERIMENTAL | UC_KIOSK

primrec use_case_category_value :: "use_case_category \<Rightarrow> string" where
  "use_case_category_value UC_ACCESSIBILITY = ''accessibility_focused_phone''"
| "use_case_category_value UC_KID_SAFE = ''kid_safe_communication_device''"
| "use_case_category_value UC_MEDIA = ''media_device''"
| "use_case_category_value UC_OFFLINE_UTILITY = ''offline_utility_tool''"
| "use_case_category_value UC_HOME_CONTROL = ''home_control_panel''"
| "use_case_category_value UC_LIGHTWEIGHT_ANDROID = ''lightweight_custom_android''"
| "use_case_category_value UC_EXPERIMENTAL = ''experimental_hybrid_path''"
| "use_case_category_value UC_KIOSK = ''special_purpose_terminal''"

definition use_case_categorys :: "use_case_category list" where
  "use_case_categorys =
     [UC_ACCESSIBILITY, UC_KID_SAFE, UC_MEDIA, UC_OFFLINE_UTILITY, UC_HOME_CONTROL
     , UC_LIGHTWEIGHT_ANDROID, UC_EXPERIMENTAL, UC_KIOSK]"

abbreviation as_use_case_category :: "json \<Rightarrow> use_case_category res" where
  "as_use_case_category \<equiv> as_enum use_case_categorys use_case_category_value"

datatype runtime_phase =
    RP_INTAKE | RP_ACCESS | RP_DISCOVERY | RP_RECOMMENDATION | RP_BACKUP | RP_PREVIEW
    | RP_VERIFICATION | RP_INSTALL | RP_POST_INSTALL | RP_BLOCKED | RP_COMPLETE

primrec runtime_phase_value :: "runtime_phase \<Rightarrow> string" where
  "runtime_phase_value RP_INTAKE = ''intake''"
| "runtime_phase_value RP_ACCESS = ''guided_access_enablement''"
| "runtime_phase_value RP_DISCOVERY = ''deep_scan''"
| "runtime_phase_value RP_RECOMMENDATION = ''recommendation''"
| "runtime_phase_value RP_BACKUP = ''backup_restore''"
| "runtime_phase_value RP_PREVIEW = ''build_preview''"
| "runtime_phase_value RP_VERIFICATION = ''interactive_verification''"
| "runtime_phase_value RP_INSTALL = ''wipe_install''"
| "runtime_phase_value RP_POST_INSTALL = ''post_install_verification''"
| "runtime_phase_value RP_BLOCKED = ''blocked''"
| "runtime_phase_value RP_COMPLETE = ''complete''"

definition runtime_phases :: "runtime_phase list" where
  "runtime_phases =
     [RP_INTAKE, RP_ACCESS, RP_DISCOVERY, RP_RECOMMENDATION, RP_BACKUP, RP_PREVIEW
     , RP_VERIFICATION, RP_INSTALL, RP_POST_INSTALL, RP_BLOCKED, RP_COMPLETE]"

abbreviation as_runtime_phase :: "json \<Rightarrow> runtime_phase res" where
  "as_runtime_phase \<equiv> as_enum runtime_phases runtime_phase_value"

datatype worker_role =
    WR_FRONTIER_ARCHITECT | WR_LOCAL_GENERAL | WR_LOCAL_EDITOR | WR_POLICY_GUARD

primrec worker_role_value :: "worker_role \<Rightarrow> string" where
  "worker_role_value WR_FRONTIER_ARCHITECT = ''frontier_architect_worker''"
| "worker_role_value WR_LOCAL_GENERAL = ''local_general_worker''"
| "worker_role_value WR_LOCAL_EDITOR = ''local_editor_worker''"
| "worker_role_value WR_POLICY_GUARD = ''policy_guard''"

definition worker_roles :: "worker_role list" where
  "worker_roles =
     [WR_FRONTIER_ARCHITECT, WR_LOCAL_GENERAL, WR_LOCAL_EDITOR, WR_POLICY_GUARD]"

abbreviation as_worker_role :: "json \<Rightarrow> worker_role res" where
  "as_worker_role \<equiv> as_enum worker_roles worker_role_value"

datatype worker_tier =
    WT_FRONTIER | WT_LOCAL | WT_DETERMINISTIC

primrec worker_tier_value :: "worker_tier \<Rightarrow> string" where
  "worker_tier_value WT_FRONTIER = ''frontier''"
| "worker_tier_value WT_LOCAL = ''local''"
| "worker_tier_value WT_DETERMINISTIC = ''deterministic''"

definition worker_tiers :: "worker_tier list" where
  "worker_tiers =
     [WT_FRONTIER, WT_LOCAL, WT_DETERMINISTIC]"

abbreviation as_worker_tier :: "json \<Rightarrow> worker_tier res" where
  "as_worker_tier \<equiv> as_enum worker_tiers worker_tier_value"

datatype task_risk =
    TR_LOW | TR_MEDIUM | TR_HIGH | TR_CRITICAL

primrec task_risk_value :: "task_risk \<Rightarrow> string" where
  "task_risk_value TR_LOW = ''low''"
| "task_risk_value TR_MEDIUM = ''medium''"
| "task_risk_value TR_HIGH = ''high''"
| "task_risk_value TR_CRITICAL = ''critical''"

definition task_risks :: "task_risk list" where
  "task_risks =
     [TR_LOW, TR_MEDIUM, TR_HIGH, TR_CRITICAL]"

abbreviation as_task_risk :: "json \<Rightarrow> task_risk res" where
  "as_task_risk \<equiv> as_enum task_risks task_risk_value"

named_theorems enum_values "reading an enumeration value back"

interpretation transport_enum: str_enum transports transport_value
proof
  show "e \<in> set transports" for e
    by (cases e) (simp_all add: transports_def)
  show "distinct (map transport_value transports)"
    by (simp add: transports_def)
qed

interpretation device_form_factor_enum: str_enum device_form_factors device_form_factor_value
proof
  show "e \<in> set device_form_factors" for e
    by (cases e) (simp_all add: device_form_factors_def)
  show "distinct (map device_form_factor_value device_form_factors)"
    by (simp add: device_form_factors_def)
qed

interpretation session_state_name_enum: str_enum session_state_names session_state_name_value
proof
  show "e \<in> set session_state_names" for e
    by (cases e) (simp_all add: session_state_names_def)
  show "distinct (map session_state_name_value session_state_names)"
    by code_simp
qed

interpretation failure_severity_enum: str_enum failure_severitys failure_severity_value
proof
  show "e \<in> set failure_severitys" for e
    by (cases e) (simp_all add: failure_severitys_def)
  show "distinct (map failure_severity_value failure_severitys)"
    by (simp add: failure_severitys_def)
qed

interpretation support_status_enum: str_enum support_statuss support_status_value
proof
  show "e \<in> set support_statuss" for e
    by (cases e) (simp_all add: support_statuss_def)
  show "distinct (map support_status_value support_statuss)"
    by (simp add: support_statuss_def)
qed

interpretation blocker_type_enum: str_enum blocker_types blocker_type_value
proof
  show "e \<in> set blocker_types" for e
    by (cases e) (simp_all add: blocker_types_def)
  show "distinct (map blocker_type_value blocker_types)"
    by (simp add: blocker_types_def)
qed

interpretation user_persona_enum: str_enum user_personas user_persona_value
proof
  show "e \<in> set user_personas" for e
    by (cases e) (simp_all add: user_personas_def)
  show "distinct (map user_persona_value user_personas)"
    by (simp add: user_personas_def)
qed

interpretation technical_comfort_enum: str_enum technical_comforts technical_comfort_value
proof
  show "e \<in> set technical_comforts" for e
    by (cases e) (simp_all add: technical_comforts_def)
  show "distinct (map technical_comfort_value technical_comforts)"
    by (simp add: technical_comforts_def)
qed

interpretation priority_focus_enum: str_enum priority_focuss priority_focus_value
proof
  show "e \<in> set priority_focuss" for e
    by (cases e) (simp_all add: priority_focuss_def)
  show "distinct (map priority_focus_value priority_focuss)"
    by (simp add: priority_focuss_def)
qed

interpretation google_services_preference_enum: str_enum google_services_preferences google_services_preference_value
proof
  show "e \<in> set google_services_preferences" for e
    by (cases e) (simp_all add: google_services_preferences_def)
  show "distinct (map google_services_preference_value google_services_preferences)"
    by (simp add: google_services_preferences_def)
qed

interpretation autonomy_limit_enum: str_enum autonomy_limits autonomy_limit_value
proof
  show "e \<in> set autonomy_limits" for e
    by (cases e) (simp_all add: autonomy_limits_def)
  show "distinct (map autonomy_limit_value autonomy_limits)"
    by (simp add: autonomy_limits_def)
qed

interpretation risk_tolerance_enum: str_enum risk_tolerances risk_tolerance_value
proof
  show "e \<in> set risk_tolerances" for e
    by (cases e) (simp_all add: risk_tolerances_def)
  show "distinct (map risk_tolerance_value risk_tolerances)"
    by (simp add: risk_tolerances_def)
qed

interpretation restore_expectation_enum: str_enum restore_expectations restore_expectation_value
proof
  show "e \<in> set restore_expectations" for e
    by (cases e) (simp_all add: restore_expectations_def)
  show "distinct (map restore_expectation_value restore_expectations)"
    by (simp add: restore_expectations_def)
qed

interpretation use_case_category_enum: str_enum use_case_categorys use_case_category_value
proof
  show "e \<in> set use_case_categorys" for e
    by (cases e) (simp_all add: use_case_categorys_def)
  show "distinct (map use_case_category_value use_case_categorys)"
    by (simp add: use_case_categorys_def)
qed

interpretation runtime_phase_enum: str_enum runtime_phases runtime_phase_value
proof
  show "e \<in> set runtime_phases" for e
    by (cases e) (simp_all add: runtime_phases_def)
  show "distinct (map runtime_phase_value runtime_phases)"
    by (simp add: runtime_phases_def)
qed

interpretation worker_role_enum: str_enum worker_roles worker_role_value
proof
  show "e \<in> set worker_roles" for e
    by (cases e) (simp_all add: worker_roles_def)
  show "distinct (map worker_role_value worker_roles)"
    by (simp add: worker_roles_def)
qed

interpretation worker_tier_enum: str_enum worker_tiers worker_tier_value
proof
  show "e \<in> set worker_tiers" for e
    by (cases e) (simp_all add: worker_tiers_def)
  show "distinct (map worker_tier_value worker_tiers)"
    by (simp add: worker_tiers_def)
qed

interpretation task_risk_enum: str_enum task_risks task_risk_value
proof
  show "e \<in> set task_risks" for e
    by (cases e) (simp_all add: task_risks_def)
  show "distinct (map task_risk_value task_risks)"
    by (simp add: task_risks_def)
qed

lemmas enum_codecs [enum_values, codec_simps] =
  transport_enum.as_enum_val transport_enum.as_opt_enum_val
  device_form_factor_enum.as_enum_val device_form_factor_enum.as_opt_enum_val
  session_state_name_enum.as_enum_val session_state_name_enum.as_opt_enum_val
  failure_severity_enum.as_enum_val failure_severity_enum.as_opt_enum_val
  support_status_enum.as_enum_val support_status_enum.as_opt_enum_val
  blocker_type_enum.as_enum_val blocker_type_enum.as_opt_enum_val
  user_persona_enum.as_enum_val user_persona_enum.as_opt_enum_val
  technical_comfort_enum.as_enum_val technical_comfort_enum.as_opt_enum_val
  priority_focus_enum.as_enum_val priority_focus_enum.as_opt_enum_val
  google_services_preference_enum.as_enum_val google_services_preference_enum.as_opt_enum_val
  autonomy_limit_enum.as_enum_val autonomy_limit_enum.as_opt_enum_val
  risk_tolerance_enum.as_enum_val risk_tolerance_enum.as_opt_enum_val
  restore_expectation_enum.as_enum_val restore_expectation_enum.as_opt_enum_val
  use_case_category_enum.as_enum_val use_case_category_enum.as_opt_enum_val
  runtime_phase_enum.as_enum_val runtime_phase_enum.as_opt_enum_val
  worker_role_enum.as_enum_val worker_role_enum.as_opt_enum_val
  worker_tier_enum.as_enum_val worker_tier_enum.as_opt_enum_val
  task_risk_enum.as_enum_val task_risk_enum.as_opt_enum_val

end
