(* ===== verification/Models.thy ===== *)
theory Models
  imports Enumerations
begin

text \<open>
  The dataclasses of \<open>app/core/models.py\<close> that are written to disk, with \<open>to_dict\<close> (the
  generic \<open>_serialize\<close> at each class), the readers \<open>*_from_dict\<close> and the default
  values. A field that a document lacks takes the reader's default; an enumeration field
  with an unknown value raises \<open>ValueError\<close>; a required field that is missing raises
  \<open>KeyError\<close>. The clock is the argument \<open>now\<close>. Each pair is an instance of the contract
  \<open>codec\<close>, and with the two ways of writing of \<open>persisted\<close>.
\<close>

section \<open>Field readers\<close>

definition as_dicts :: "json \<Rightarrow> jdict list res" where
  "as_dicts v = bindr (as_list v) (mapr as_dict)"

definition as_truthy :: "json \<Rightarrow> bool res" where
  "as_truthy v = Inr (truthy v)"

fun json_len :: "json \<Rightarrow> int" where
  "json_len (JList xs) = int (length xs)"
| "json_len (JStr s) = int (length s)"
| "json_len (JObj d) = int (length d)"
| "json_len _ = 0"

lemma as_dicts_map [simp, codec_simps]: "as_dicts (JList (map JObj ds)) = Inr ds"
  by (simp add: as_dicts_def mapr_map_id)

lemma as_truthy_JBool [simp, codec_simps]: "as_truthy (JBool b) = Inr b"
  by (simp add: as_truthy_def)

section \<open>The records\<close>

record transition_record =
  tr_from_state :: "session_state_name"
  tr_to_state :: "session_state_name"
  tr_reason :: "string"
  tr_timestamp :: "string"

definition transition_record_to_dict :: "transition_record \<Rightarrow> json" where
  "transition_record_to_dict r = JObj
     [(''from_state'', JStr (session_state_name_value (tr_from_state r))),
      (''to_state'', JStr (session_state_name_value (tr_to_state r))),
      (''reason'', JStr (tr_reason r)),
      (''timestamp'', JStr (tr_timestamp r))]"

definition transition_record_from_dict :: "json \<Rightarrow> transition_record res" where
  "transition_record_from_dict j =
     bindr (as_dict j) (\<lambda>d.
     bindr (bindr (dindex d ''from_state'') as_session_state_name) (\<lambda>v_from_state.
     bindr (bindr (dindex d ''to_state'') as_session_state_name) (\<lambda>v_to_state.
     bindr (bindr (dindex d ''reason'') as_str) (\<lambda>v_reason.
     bindr (bindr (dindex d ''timestamp'') as_str) (\<lambda>v_timestamp.
     Inr \<lparr>tr_from_state = v_from_state,
       tr_to_state = v_to_state,
       tr_reason = v_reason,
       tr_timestamp = v_timestamp\<rparr>)))))"

lemma transition_record_from_to [simp, codec_simps]: "transition_record_from_dict (transition_record_to_dict r) = Inr r"
  by (simp add: transition_record_from_dict_def transition_record_to_dict_def codec_simps)

record device_profile =
  dp_session_id :: "string"
  dp_canonical_name :: "string"
  dp_device_codename :: "string"
  dp_fingerprint :: "string"
  dp_manufacturer :: "string option"
  dp_model :: "string option"
  dp_serial :: "string option"
  dp_android_version :: "string option"
  dp_transport :: "transport"
  dp_bootloader_locked :: "bool option"
  dp_verified_boot_state :: "string option"
  dp_form_factor :: "device_form_factor"
  dp_form_factor_source :: "string"
  dp_form_factor_confidence :: "rat"
  dp_form_factor_override :: "device_form_factor option"
  dp_slot_info :: "jdict option"
  dp_battery :: "jdict option"
  dp_raw_probe_data :: "jdict"

definition device_profile_to_dict :: "device_profile \<Rightarrow> json" where
  "device_profile_to_dict r = JObj
     [(''session_id'', JStr (dp_session_id r)),
      (''canonical_name'', JStr (dp_canonical_name r)),
      (''device_codename'', JStr (dp_device_codename r)),
      (''fingerprint'', JStr (dp_fingerprint r)),
      (''manufacturer'', jopt JStr (dp_manufacturer r)),
      (''model'', jopt JStr (dp_model r)),
      (''serial'', jopt JStr (dp_serial r)),
      (''android_version'', jopt JStr (dp_android_version r)),
      (''transport'', JStr (transport_value (dp_transport r))),
      (''bootloader_locked'', jopt JBool (dp_bootloader_locked r)),
      (''verified_boot_state'', jopt JStr (dp_verified_boot_state r)),
      (''form_factor'', JStr (device_form_factor_value (dp_form_factor r))),
      (''form_factor_source'', JStr (dp_form_factor_source r)),
      (''form_factor_confidence'', JFloat (dp_form_factor_confidence r)),
      (''form_factor_override'', jopt (\<lambda>e. JStr (device_form_factor_value e)) (dp_form_factor_override r)),
      (''slot_info'', jopt JObj (dp_slot_info r)),
      (''battery'', jopt JObj (dp_battery r)),
      (''raw_probe_data'', JObj (dp_raw_probe_data r))]"

text \<open>A profile with the defaults of the dataclass.\<close>

definition bare_profile :: "string \<Rightarrow> string \<Rightarrow> transport \<Rightarrow> device_profile" where
  "bare_profile name fp t =
     \<lparr>dp_session_id = name, dp_canonical_name = name, dp_device_codename = name, dp_fingerprint = fp,
      dp_manufacturer = None, dp_model = None, dp_serial = None, dp_android_version = None, dp_transport = t,
      dp_bootloader_locked = None, dp_verified_boot_state = None,
      dp_form_factor = FF_UNKNOWN, dp_form_factor_source = ''insufficient_evidence'',
      dp_form_factor_confidence = 0, dp_form_factor_override = None,
      dp_slot_info = None, dp_battery = None, dp_raw_probe_data = []\<rparr>"

definition as_override :: "json \<Rightarrow> device_form_factor option res" where
  "as_override v =
     (if truthy v then bindr (as_device_form_factor v) (\<lambda>e. Inr (Some e)) else Inr None)"

lemma as_override_jopt [simp, codec_simps]:
  "as_override (jopt (\<lambda>e. JStr (device_form_factor_value e)) x) = Inr x"
proof (cases x)
  case (Some e)
  then show ?thesis
    by (cases e) (simp_all add: as_override_def jopt_def as_enum_def enum_of_def device_form_factors_def)
qed (simp add: as_override_def jopt_def)

definition device_profile_from_dict :: "json \<Rightarrow> device_profile res" where
  "device_profile_from_dict j =
     bindr (as_dict j) (\<lambda>d.
     bindr (bindr (dindex d ''session_id'') as_str) (\<lambda>v_session_id.
     bindr (bindr (dindex d ''canonical_name'') as_str) (\<lambda>v_canonical_name.
     bindr (bindr (dindex d ''device_codename'') as_str) (\<lambda>v_device_codename.
     bindr (bindr (dindex d ''fingerprint'') as_str) (\<lambda>v_fingerprint.
     bindr (as_opt as_str (dget d ''manufacturer'' JNull)) (\<lambda>v_manufacturer.
     bindr (as_opt as_str (dget d ''model'' JNull)) (\<lambda>v_model.
     bindr (as_opt as_str (dget d ''serial'' JNull)) (\<lambda>v_serial.
     bindr (as_opt as_str (dget d ''android_version'' JNull)) (\<lambda>v_android_version.
     bindr (as_transport (dget d ''transport'' (JStr (transport_value T_UNKNOWN)))) (\<lambda>v_transport.
     bindr (as_opt as_bool (dget d ''bootloader_locked'' JNull)) (\<lambda>v_bootloader_locked.
     bindr (as_opt as_str (dget d ''verified_boot_state'' JNull)) (\<lambda>v_verified_boot_state.
     bindr (as_device_form_factor (dget d ''form_factor'' (JStr (device_form_factor_value FF_UNKNOWN)))) (\<lambda>v_form_factor.
     bindr (as_str (dget d ''form_factor_source'' (JStr ''insufficient_evidence''))) (\<lambda>v_form_factor_source.
     bindr (as_float (dget d ''form_factor_confidence'' (JFloat 0))) (\<lambda>v_form_factor_confidence.
     bindr (as_override (dget d ''form_factor_override'' JNull)) (\<lambda>v_form_factor_override.
     bindr (as_opt as_dict (dget d ''slot_info'' JNull)) (\<lambda>v_slot_info.
     bindr (as_opt as_dict (dget d ''battery'' JNull)) (\<lambda>v_battery.
     bindr (as_dict (dget d ''raw_probe_data'' (JObj []))) (\<lambda>v_raw_probe_data.
     Inr \<lparr>dp_session_id = v_session_id,
       dp_canonical_name = v_canonical_name,
       dp_device_codename = v_device_codename,
       dp_fingerprint = v_fingerprint,
       dp_manufacturer = v_manufacturer,
       dp_model = v_model,
       dp_serial = v_serial,
       dp_android_version = v_android_version,
       dp_transport = v_transport,
       dp_bootloader_locked = v_bootloader_locked,
       dp_verified_boot_state = v_verified_boot_state,
       dp_form_factor = v_form_factor,
       dp_form_factor_source = v_form_factor_source,
       dp_form_factor_confidence = v_form_factor_confidence,
       dp_form_factor_override = v_form_factor_override,
       dp_slot_info = v_slot_info,
       dp_battery = v_battery,
       dp_raw_probe_data = v_raw_probe_data\<rparr>)))))))))))))))))))"

lemma device_profile_from_to [simp, codec_simps]: "device_profile_from_dict (device_profile_to_dict r) = Inr r"
  by (simp add: device_profile_from_dict_def device_profile_to_dict_def codec_simps)

record session_state =
  ss_session_id :: "string"
  ss_state :: "session_state_name"
  ss_history :: "transition_record list"
  ss_priority_order :: "string list"
  ss_destructive_actions_approved :: "bool"
  ss_selected_strategy :: "string option"
  ss_support_status :: "support_status"
  ss_current_blocker_type :: "string option"
  ss_blocker_confidence :: "rat"
  ss_remediation_iteration :: "int"
  ss_iterate_count :: "int"
  ss_created_at :: "string"
  ss_updated_at :: "string"
  ss_notes :: "string list"

definition session_state_to_dict :: "session_state \<Rightarrow> json" where
  "session_state_to_dict r = JObj
     [(''session_id'', JStr (ss_session_id r)),
      (''state'', JStr (session_state_name_value (ss_state r))),
      (''history'', JList (map transition_record_to_dict (ss_history r))),
      (''priority_order'', jstrs (ss_priority_order r)),
      (''destructive_actions_approved'', JBool (ss_destructive_actions_approved r)),
      (''selected_strategy'', jopt JStr (ss_selected_strategy r)),
      (''support_status'', JStr (support_status_value (ss_support_status r))),
      (''current_blocker_type'', jopt JStr (ss_current_blocker_type r)),
      (''blocker_confidence'', JFloat (ss_blocker_confidence r)),
      (''remediation_iteration'', JInt (ss_remediation_iteration r)),
      (''iterate_count'', JInt (ss_iterate_count r)),
      (''created_at'', JStr (ss_created_at r)),
      (''updated_at'', JStr (ss_updated_at r)),
      (''notes'', jstrs (ss_notes r))]"

definition as_history :: "json \<Rightarrow> transition_record list res" where
  "as_history v = bindr (as_list v) (mapr transition_record_from_dict)"

lemma as_history_to [simp, codec_simps]:
  "as_history (JList (map transition_record_to_dict h)) = Inr h"
  by (simp add: as_history_def mapr_map_id)

definition session_state_from_dict :: "string \<Rightarrow> json \<Rightarrow> session_state res" where
  "session_state_from_dict now j =
     bindr (as_dict j) (\<lambda>d.
     bindr (as_history (dget d ''history'' (JList []))) (\<lambda>v_history.
     bindr (bindr (dindex d ''session_id'') as_str) (\<lambda>v_session_id.
     bindr (bindr (dindex d ''state'') as_session_state_name) (\<lambda>v_state.
     bindr (as_strs (dget d ''priority_order'' (JList []))) (\<lambda>v_priority_order.
     bindr (as_bool (dget d ''destructive_actions_approved'' (JBool False))) (\<lambda>v_destructive_actions_approved.
     bindr (as_opt as_str (dget d ''selected_strategy'' JNull)) (\<lambda>v_selected_strategy.
     bindr (as_support_status (dget d ''support_status'' (JStr (support_status_value SUP_RESEARCH_ONLY)))) (\<lambda>v_support_status.
     bindr (as_opt as_str (dget d ''current_blocker_type'' JNull)) (\<lambda>v_current_blocker_type.
     bindr (as_float (dget d ''blocker_confidence'' (JFloat 0))) (\<lambda>v_blocker_confidence.
     bindr (as_int (dget d ''remediation_iteration'' (JInt 0))) (\<lambda>v_remediation_iteration.
     bindr (as_int (dget d ''iterate_count'' (JInt 0))) (\<lambda>v_iterate_count.
     bindr (as_str (dget d ''created_at'' (JStr now))) (\<lambda>v_created_at.
     bindr (as_str (dget d ''updated_at'' (JStr now))) (\<lambda>v_updated_at.
     bindr (as_strs (dget d ''notes'' (JList []))) (\<lambda>v_notes.
     Inr \<lparr>ss_session_id = v_session_id,
       ss_state = v_state,
       ss_history = v_history,
       ss_priority_order = v_priority_order,
       ss_destructive_actions_approved = v_destructive_actions_approved,
       ss_selected_strategy = v_selected_strategy,
       ss_support_status = v_support_status,
       ss_current_blocker_type = v_current_blocker_type,
       ss_blocker_confidence = v_blocker_confidence,
       ss_remediation_iteration = v_remediation_iteration,
       ss_iterate_count = v_iterate_count,
       ss_created_at = v_created_at,
       ss_updated_at = v_updated_at,
       ss_notes = v_notes\<rparr>)))))))))))))))"

definition default_session_state :: "string \<Rightarrow> string \<Rightarrow> session_state" where
  "default_session_state session_id now =
     \<lparr>ss_session_id = session_id,
      ss_state = IDLE,
      ss_history = [],
      ss_priority_order = [''safety_reversibility'', ''security'', ''connectivity'', ''core_operability'', ''functionality_expansion''],
      ss_destructive_actions_approved = False,
      ss_selected_strategy = None,
      ss_support_status = SUP_RESEARCH_ONLY,
      ss_current_blocker_type = None,
      ss_blocker_confidence = 0,
      ss_remediation_iteration = 0,
      ss_iterate_count = 0,
      ss_created_at = now,
      ss_updated_at = now,
      ss_notes = []\<rparr>"

lemma session_state_from_to [simp, codec_simps]: "session_state_from_dict now (session_state_to_dict r) = Inr r"
  by (simp add: session_state_from_dict_def session_state_to_dict_def codec_simps)

record policy_model =
  pol_policy_version :: "string"
  pol_default_dry_run :: "bool"
  pol_require_restore_path :: "bool"
  pol_allow_live_destructive_actions :: "bool"
  pol_require_explicit_wipe_phrase :: "bool"
  pol_max_api_tokens_per_session :: "int"
  pol_max_experiment_loop_iterations :: "int"
  pol_destructive_ops_require_approval :: "bool"
  pol_self_modification_scope :: "string list"
  pol_firmware_source_provenance :: "jdict"
  pol_allow_long_source_builds :: "bool"
  pol_max_source_build_seconds :: "int"
  pol_promotion_requires_n_validations :: "int"
  pol_ethical_priority_override :: "string"
  pol_allow_bootloader_relock :: "bool"
  pol_open_vscode_on_launch :: "bool"
  pol_open_vscode_on_session_create :: "bool"
  pol_enable_codex_handoff :: "bool"
  pol_priority_order :: "string list"
  pol_host_requirements :: "jdict"

definition policy_model_to_dict :: "policy_model \<Rightarrow> json" where
  "policy_model_to_dict r = JObj
     [(''policy_version'', JStr (pol_policy_version r)),
      (''default_dry_run'', JBool (pol_default_dry_run r)),
      (''require_restore_path'', JBool (pol_require_restore_path r)),
      (''allow_live_destructive_actions'', JBool (pol_allow_live_destructive_actions r)),
      (''require_explicit_wipe_phrase'', JBool (pol_require_explicit_wipe_phrase r)),
      (''max_api_tokens_per_session'', JInt (pol_max_api_tokens_per_session r)),
      (''max_experiment_loop_iterations'', JInt (pol_max_experiment_loop_iterations r)),
      (''destructive_ops_require_approval'', JBool (pol_destructive_ops_require_approval r)),
      (''self_modification_scope'', jstrs (pol_self_modification_scope r)),
      (''firmware_source_provenance'', JObj (pol_firmware_source_provenance r)),
      (''allow_long_source_builds'', JBool (pol_allow_long_source_builds r)),
      (''max_source_build_seconds'', JInt (pol_max_source_build_seconds r)),
      (''promotion_requires_n_validations'', JInt (pol_promotion_requires_n_validations r)),
      (''ethical_priority_override'', JStr (pol_ethical_priority_override r)),
      (''allow_bootloader_relock'', JBool (pol_allow_bootloader_relock r)),
      (''open_vscode_on_launch'', JBool (pol_open_vscode_on_launch r)),
      (''open_vscode_on_session_create'', JBool (pol_open_vscode_on_session_create r)),
      (''enable_codex_handoff'', JBool (pol_enable_codex_handoff r)),
      (''priority_order'', jstrs (pol_priority_order r)),
      (''host_requirements'', JObj (pol_host_requirements r))]"

definition default_policy :: "policy_model" where
  "default_policy =
     \<lparr>pol_policy_version = ''1.0'',
      pol_default_dry_run = True,
      pol_require_restore_path = True,
      pol_allow_live_destructive_actions = False,
      pol_require_explicit_wipe_phrase = True,
      pol_max_api_tokens_per_session = 50000,
      pol_max_experiment_loop_iterations = 20,
      pol_destructive_ops_require_approval = True,
      pol_self_modification_scope = [''devices/*/runtime'', ''knowledge''],
      pol_firmware_source_provenance = [(''require_trusted_host'', JBool True), (''ttl_days'', JInt 7)],
      pol_allow_long_source_builds = True,
      pol_max_source_build_seconds = 28800,
      pol_promotion_requires_n_validations = 3,
      pol_ethical_priority_override = ''high'',
      pol_allow_bootloader_relock = False,
      pol_open_vscode_on_launch = False,
      pol_open_vscode_on_session_create = False,
      pol_enable_codex_handoff = True,
      pol_priority_order = [''restore_path'', ''security'', ''connectivity'', ''core_operability'', ''functionality_expansion''],
      pol_host_requirements = [(''platforms'', jstrs [''linux'']), (''preferred_desktop'', JStr ''Pop!_OS''), (''tools'', jstrs [''adb'', ''fastboot''])]\<rparr>"

definition policy_model_from_dict :: "json \<Rightarrow> policy_model res" where
  "policy_model_from_dict j =
     bindr (as_dict j) (\<lambda>d.
     bindr (as_str (dget d ''policy_version'' (JStr (pol_policy_version default_policy)))) (\<lambda>v_policy_version.
     bindr (as_bool (dget d ''default_dry_run'' (JBool (pol_default_dry_run default_policy)))) (\<lambda>v_default_dry_run.
     bindr (as_bool (dget d ''require_restore_path'' (JBool (pol_require_restore_path default_policy)))) (\<lambda>v_require_restore_path.
     bindr (as_bool (dget d ''allow_live_destructive_actions'' (JBool (pol_allow_live_destructive_actions default_policy)))) (\<lambda>v_allow_live_destructive_actions.
     bindr (as_bool (dget d ''require_explicit_wipe_phrase'' (JBool (pol_require_explicit_wipe_phrase default_policy)))) (\<lambda>v_require_explicit_wipe_phrase.
     bindr (as_int (dget d ''max_api_tokens_per_session'' (JInt (pol_max_api_tokens_per_session default_policy)))) (\<lambda>v_max_api_tokens_per_session.
     bindr (as_int (dget d ''max_experiment_loop_iterations'' (JInt (pol_max_experiment_loop_iterations default_policy)))) (\<lambda>v_max_experiment_loop_iterations.
     bindr (as_bool (dget d ''destructive_ops_require_approval'' (JBool (pol_destructive_ops_require_approval default_policy)))) (\<lambda>v_destructive_ops_require_approval.
     bindr (as_strs (dget d ''self_modification_scope'' (jstrs (pol_self_modification_scope default_policy)))) (\<lambda>v_self_modification_scope.
     bindr (as_dict (dget d ''firmware_source_provenance'' (JObj (pol_firmware_source_provenance default_policy)))) (\<lambda>v_firmware_source_provenance.
     bindr (as_bool (dget d ''allow_long_source_builds'' (JBool (pol_allow_long_source_builds default_policy)))) (\<lambda>v_allow_long_source_builds.
     bindr (as_int (dget d ''max_source_build_seconds'' (JInt (pol_max_source_build_seconds default_policy)))) (\<lambda>v_max_source_build_seconds.
     bindr (as_int (dget d ''promotion_requires_n_validations'' (JInt (pol_promotion_requires_n_validations default_policy)))) (\<lambda>v_promotion_requires_n_validations.
     bindr (as_str (dget d ''ethical_priority_override'' (JStr (pol_ethical_priority_override default_policy)))) (\<lambda>v_ethical_priority_override.
     bindr (as_bool (dget d ''allow_bootloader_relock'' (JBool (pol_allow_bootloader_relock default_policy)))) (\<lambda>v_allow_bootloader_relock.
     bindr (as_bool (dget d ''open_vscode_on_launch'' (JBool (pol_open_vscode_on_launch default_policy)))) (\<lambda>v_open_vscode_on_launch.
     bindr (as_bool (dget d ''open_vscode_on_session_create'' (JBool (pol_open_vscode_on_session_create default_policy)))) (\<lambda>v_open_vscode_on_session_create.
     bindr (as_bool (dget d ''enable_codex_handoff'' (JBool (pol_enable_codex_handoff default_policy)))) (\<lambda>v_enable_codex_handoff.
     bindr (as_strs (dget d ''priority_order'' (jstrs (pol_priority_order default_policy)))) (\<lambda>v_priority_order.
     bindr (as_dict (dget d ''host_requirements'' (JObj (pol_host_requirements default_policy)))) (\<lambda>v_host_requirements.
     Inr \<lparr>pol_policy_version = v_policy_version,
       pol_default_dry_run = v_default_dry_run,
       pol_require_restore_path = v_require_restore_path,
       pol_allow_live_destructive_actions = v_allow_live_destructive_actions,
       pol_require_explicit_wipe_phrase = v_require_explicit_wipe_phrase,
       pol_max_api_tokens_per_session = v_max_api_tokens_per_session,
       pol_max_experiment_loop_iterations = v_max_experiment_loop_iterations,
       pol_destructive_ops_require_approval = v_destructive_ops_require_approval,
       pol_self_modification_scope = v_self_modification_scope,
       pol_firmware_source_provenance = v_firmware_source_provenance,
       pol_allow_long_source_builds = v_allow_long_source_builds,
       pol_max_source_build_seconds = v_max_source_build_seconds,
       pol_promotion_requires_n_validations = v_promotion_requires_n_validations,
       pol_ethical_priority_override = v_ethical_priority_override,
       pol_allow_bootloader_relock = v_allow_bootloader_relock,
       pol_open_vscode_on_launch = v_open_vscode_on_launch,
       pol_open_vscode_on_session_create = v_open_vscode_on_session_create,
       pol_enable_codex_handoff = v_enable_codex_handoff,
       pol_priority_order = v_priority_order,
       pol_host_requirements = v_host_requirements\<rparr>)))))))))))))))))))))"

lemma policy_model_from_to [simp, codec_simps]: "policy_model_from_dict (policy_model_to_dict r) = Inr r"
  by (simp add: policy_model_from_dict_def policy_model_to_dict_def codec_simps)

record user_profile =
  up_session_id :: "string"
  up_persona :: "user_persona"
  up_technical_comfort :: "technical_comfort"
  up_primary_priority :: "priority_focus"
  up_google_services_preference :: "google_services_preference"
  up_autonomy_limit :: "autonomy_limit"
  up_risk_tolerance :: "risk_tolerance"
  up_restore_expectation :: "restore_expectation"
  up_target_use_case :: "use_case_category"
  up_intended_user :: "string"
  up_desired_end_product :: "string"
  up_success_criteria :: "string"
  up_lawful_use_attested :: "bool"
  up_notes :: "string"
  up_updated_at :: "string"

definition user_profile_to_dict :: "user_profile \<Rightarrow> json" where
  "user_profile_to_dict r = JObj
     [(''session_id'', JStr (up_session_id r)),
      (''persona'', JStr (user_persona_value (up_persona r))),
      (''technical_comfort'', JStr (technical_comfort_value (up_technical_comfort r))),
      (''primary_priority'', JStr (priority_focus_value (up_primary_priority r))),
      (''google_services_preference'', JStr (google_services_preference_value (up_google_services_preference r))),
      (''autonomy_limit'', JStr (autonomy_limit_value (up_autonomy_limit r))),
      (''risk_tolerance'', JStr (risk_tolerance_value (up_risk_tolerance r))),
      (''restore_expectation'', JStr (restore_expectation_value (up_restore_expectation r))),
      (''target_use_case'', JStr (use_case_category_value (up_target_use_case r))),
      (''intended_user'', JStr (up_intended_user r)),
      (''desired_end_product'', JStr (up_desired_end_product r)),
      (''success_criteria'', JStr (up_success_criteria r)),
      (''lawful_use_attested'', JBool (up_lawful_use_attested r)),
      (''notes'', JStr (up_notes r)),
      (''updated_at'', JStr (up_updated_at r))]"

definition user_profile_from_dict :: "string \<Rightarrow> json \<Rightarrow> user_profile res" where
  "user_profile_from_dict now j =
     bindr (as_dict j) (\<lambda>d.
     bindr (bindr (dindex d ''session_id'') as_str) (\<lambda>v_session_id.
     bindr (as_user_persona (dget d ''persona'' (JStr (user_persona_value UP_DAILY)))) (\<lambda>v_persona.
     bindr (as_technical_comfort (dget d ''technical_comfort'' (JStr (technical_comfort_value TC_LOW)))) (\<lambda>v_technical_comfort.
     bindr (as_priority_focus (dget d ''primary_priority'' (JStr (priority_focus_value PF_SECURITY)))) (\<lambda>v_primary_priority.
     bindr (as_google_services_preference (dget d ''google_services_preference'' (JStr (google_services_preference_value GS_KEEP)))) (\<lambda>v_google_services_preference.
     bindr (as_autonomy_limit (dget d ''autonomy_limit'' (JStr (autonomy_limit_value AL_CONSERVATIVE)))) (\<lambda>v_autonomy_limit.
     bindr (as_risk_tolerance (dget d ''risk_tolerance'' (JStr (risk_tolerance_value RT_LOW)))) (\<lambda>v_risk_tolerance.
     bindr (as_restore_expectation (dget d ''restore_expectation'' (JStr (restore_expectation_value RE_MUST_BE_ONE_CLICK)))) (\<lambda>v_restore_expectation.
     bindr (as_use_case_category (dget d ''target_use_case'' (JStr (use_case_category_value UC_LIGHTWEIGHT_ANDROID)))) (\<lambda>v_target_use_case.
     bindr (as_str (dget d ''intended_user'' (JStr []))) (\<lambda>v_intended_user.
     bindr (as_str (dget d ''desired_end_product'' (JStr []))) (\<lambda>v_desired_end_product.
     bindr (as_str (dget d ''success_criteria'' (JStr []))) (\<lambda>v_success_criteria.
     bindr (as_truthy (dget d ''lawful_use_attested'' (JBool False))) (\<lambda>v_lawful_use_attested.
     bindr (as_str (dget d ''notes'' (JStr []))) (\<lambda>v_notes.
     bindr (as_str (dget d ''updated_at'' (JStr now))) (\<lambda>v_updated_at.
     Inr \<lparr>up_session_id = v_session_id,
       up_persona = v_persona,
       up_technical_comfort = v_technical_comfort,
       up_primary_priority = v_primary_priority,
       up_google_services_preference = v_google_services_preference,
       up_autonomy_limit = v_autonomy_limit,
       up_risk_tolerance = v_risk_tolerance,
       up_restore_expectation = v_restore_expectation,
       up_target_use_case = v_target_use_case,
       up_intended_user = v_intended_user,
       up_desired_end_product = v_desired_end_product,
       up_success_criteria = v_success_criteria,
       up_lawful_use_attested = v_lawful_use_attested,
       up_notes = v_notes,
       up_updated_at = v_updated_at\<rparr>))))))))))))))))"

definition default_user_profile :: "string \<Rightarrow> string \<Rightarrow> user_profile" where
  "default_user_profile session_id now =
     \<lparr>up_session_id = session_id,
      up_persona = UP_DAILY,
      up_technical_comfort = TC_LOW,
      up_primary_priority = PF_SECURITY,
      up_google_services_preference = GS_KEEP,
      up_autonomy_limit = AL_CONSERVATIVE,
      up_risk_tolerance = RT_LOW,
      up_restore_expectation = RE_MUST_BE_ONE_CLICK,
      up_target_use_case = UC_LIGHTWEIGHT_ANDROID,
      up_intended_user = [],
      up_desired_end_product = [],
      up_success_criteria = [],
      up_lawful_use_attested = False,
      up_notes = [],
      up_updated_at = now\<rparr>"

lemma user_profile_from_to [simp, codec_simps]: "user_profile_from_dict now (user_profile_to_dict r) = Inr r"
  by (simp add: user_profile_from_dict_def user_profile_to_dict_def codec_simps)

record os_goals =
  og_session_id :: "string"
  og_top_goal :: "priority_focus"
  og_secondary_goal :: "priority_focus"
  og_requires_reliable_updates :: "bool"
  og_prefers_long_battery_life :: "bool"
  og_prefers_lockdown_defaults :: "bool"
  og_updated_at :: "string"

definition os_goals_to_dict :: "os_goals \<Rightarrow> json" where
  "os_goals_to_dict r = JObj
     [(''session_id'', JStr (og_session_id r)),
      (''top_goal'', JStr (priority_focus_value (og_top_goal r))),
      (''secondary_goal'', JStr (priority_focus_value (og_secondary_goal r))),
      (''requires_reliable_updates'', JBool (og_requires_reliable_updates r)),
      (''prefers_long_battery_life'', JBool (og_prefers_long_battery_life r)),
      (''prefers_lockdown_defaults'', JBool (og_prefers_lockdown_defaults r)),
      (''updated_at'', JStr (og_updated_at r))]"

definition os_goals_from_dict :: "string \<Rightarrow> json \<Rightarrow> os_goals res" where
  "os_goals_from_dict now j =
     bindr (as_dict j) (\<lambda>d.
     bindr (bindr (dindex d ''session_id'') as_str) (\<lambda>v_session_id.
     bindr (as_priority_focus (dget d ''top_goal'' (JStr (priority_focus_value PF_SECURITY)))) (\<lambda>v_top_goal.
     bindr (as_priority_focus (dget d ''secondary_goal'' (JStr (priority_focus_value PF_SIMPLICITY)))) (\<lambda>v_secondary_goal.
     bindr (as_bool (dget d ''requires_reliable_updates'' (JBool True))) (\<lambda>v_requires_reliable_updates.
     bindr (as_bool (dget d ''prefers_long_battery_life'' (JBool True))) (\<lambda>v_prefers_long_battery_life.
     bindr (as_bool (dget d ''prefers_lockdown_defaults'' (JBool True))) (\<lambda>v_prefers_lockdown_defaults.
     bindr (as_str (dget d ''updated_at'' (JStr now))) (\<lambda>v_updated_at.
     Inr \<lparr>og_session_id = v_session_id,
       og_top_goal = v_top_goal,
       og_secondary_goal = v_secondary_goal,
       og_requires_reliable_updates = v_requires_reliable_updates,
       og_prefers_long_battery_life = v_prefers_long_battery_life,
       og_prefers_lockdown_defaults = v_prefers_lockdown_defaults,
       og_updated_at = v_updated_at\<rparr>))))))))"

definition default_os_goals :: "string \<Rightarrow> string \<Rightarrow> os_goals" where
  "default_os_goals session_id now =
     \<lparr>og_session_id = session_id,
      og_top_goal = PF_SECURITY,
      og_secondary_goal = PF_SIMPLICITY,
      og_requires_reliable_updates = True,
      og_prefers_long_battery_life = True,
      og_prefers_lockdown_defaults = True,
      og_updated_at = now\<rparr>"

lemma os_goals_from_to [simp, codec_simps]: "os_goals_from_dict now (os_goals_to_dict r) = Inr r"
  by (simp add: os_goals_from_dict_def os_goals_to_dict_def codec_simps)

record destructive_approval =
  da_session_id :: "string"
  da_approved :: "bool"
  da_approval_scope :: "string"
  da_confirmation_phrase :: "string"
  da_approved_by :: "string"
  da_consequences_acknowledged :: "bool"
  da_restore_path_confirmed :: "bool"
  da_notes :: "string"
  da_approved_at :: "string option"
  da_updated_at :: "string"

definition destructive_approval_to_dict :: "destructive_approval \<Rightarrow> json" where
  "destructive_approval_to_dict r = JObj
     [(''session_id'', JStr (da_session_id r)),
      (''approved'', JBool (da_approved r)),
      (''approval_scope'', JStr (da_approval_scope r)),
      (''confirmation_phrase'', JStr (da_confirmation_phrase r)),
      (''approved_by'', JStr (da_approved_by r)),
      (''consequences_acknowledged'', JBool (da_consequences_acknowledged r)),
      (''restore_path_confirmed'', JBool (da_restore_path_confirmed r)),
      (''notes'', JStr (da_notes r)),
      (''approved_at'', jopt JStr (da_approved_at r)),
      (''updated_at'', JStr (da_updated_at r))]"

definition destructive_approval_from_dict :: "string \<Rightarrow> json \<Rightarrow> destructive_approval res" where
  "destructive_approval_from_dict now j =
     bindr (as_dict j) (\<lambda>d.
     bindr (bindr (dindex d ''session_id'') as_str) (\<lambda>v_session_id.
     bindr (as_bool (dget d ''approved'' (JBool False))) (\<lambda>v_approved.
     bindr (as_str (dget d ''approval_scope'' (JStr ''none''))) (\<lambda>v_approval_scope.
     bindr (as_str (dget d ''confirmation_phrase'' (JStr []))) (\<lambda>v_confirmation_phrase.
     bindr (as_str (dget d ''approved_by'' (JStr ''local_operator''))) (\<lambda>v_approved_by.
     bindr (as_bool (dget d ''consequences_acknowledged'' (JBool False))) (\<lambda>v_consequences_acknowledged.
     bindr (as_bool (dget d ''restore_path_confirmed'' (JBool False))) (\<lambda>v_restore_path_confirmed.
     bindr (as_str (dget d ''notes'' (JStr []))) (\<lambda>v_notes.
     bindr (as_opt as_str (dget d ''approved_at'' JNull)) (\<lambda>v_approved_at.
     bindr (as_str (dget d ''updated_at'' (JStr now))) (\<lambda>v_updated_at.
     Inr \<lparr>da_session_id = v_session_id,
       da_approved = v_approved,
       da_approval_scope = v_approval_scope,
       da_confirmation_phrase = v_confirmation_phrase,
       da_approved_by = v_approved_by,
       da_consequences_acknowledged = v_consequences_acknowledged,
       da_restore_path_confirmed = v_restore_path_confirmed,
       da_notes = v_notes,
       da_approved_at = v_approved_at,
       da_updated_at = v_updated_at\<rparr>)))))))))))"

definition default_destructive_approval :: "string \<Rightarrow> string \<Rightarrow> destructive_approval" where
  "default_destructive_approval session_id now =
     \<lparr>da_session_id = session_id,
      da_approved = False,
      da_approval_scope = ''none'',
      da_confirmation_phrase = [],
      da_approved_by = ''local_operator'',
      da_consequences_acknowledged = False,
      da_restore_path_confirmed = False,
      da_notes = [],
      da_approved_at = None,
      da_updated_at = now\<rparr>"

lemma destructive_approval_from_to [simp, codec_simps]: "destructive_approval_from_dict now (destructive_approval_to_dict r) = Inr r"
  by (simp add: destructive_approval_from_dict_def destructive_approval_to_dict_def codec_simps)

record flash_plan =
  fp_session_id :: "string"
  fp_build_path :: "string"
  fp_dry_run :: "bool"
  fp_requires_unlock :: "bool"
  fp_requires_wipe :: "bool"
  fp_restore_path_available :: "bool"
  fp_artifacts_ready :: "bool"
  fp_install_mode :: "string"
  fp_artifact_manifest_path :: "string"
  fp_artifact_bundle_path :: "string"
  fp_transport :: "string"
  fp_step_count :: "int"
  fp_steps :: "jdict list"
  fp_artifact_hints :: "string list"
  fp_status :: "string"
  fp_summary :: "string"
  fp_generated_at :: "string"
  fp_updated_at :: "string"

definition flash_plan_to_dict :: "flash_plan \<Rightarrow> json" where
  "flash_plan_to_dict r = JObj
     [(''session_id'', JStr (fp_session_id r)),
      (''build_path'', JStr (fp_build_path r)),
      (''dry_run'', JBool (fp_dry_run r)),
      (''requires_unlock'', JBool (fp_requires_unlock r)),
      (''requires_wipe'', JBool (fp_requires_wipe r)),
      (''restore_path_available'', JBool (fp_restore_path_available r)),
      (''artifacts_ready'', JBool (fp_artifacts_ready r)),
      (''install_mode'', JStr (fp_install_mode r)),
      (''artifact_manifest_path'', JStr (fp_artifact_manifest_path r)),
      (''artifact_bundle_path'', JStr (fp_artifact_bundle_path r)),
      (''transport'', JStr (fp_transport r)),
      (''step_count'', JInt (fp_step_count r)),
      (''steps'', JList (map JObj (fp_steps r))),
      (''artifact_hints'', jstrs (fp_artifact_hints r)),
      (''status'', JStr (fp_status r)),
      (''summary'', JStr (fp_summary r)),
      (''generated_at'', JStr (fp_generated_at r)),
      (''updated_at'', JStr (fp_updated_at r))]"

definition flash_plan_from_dict :: "string \<Rightarrow> json \<Rightarrow> flash_plan res" where
  "flash_plan_from_dict now j =
     bindr (as_dict j) (\<lambda>d.
     bindr (bindr (dindex d ''session_id'') as_str) (\<lambda>v_session_id.
     bindr (as_str (dget d ''build_path'' (JStr ''unknown''))) (\<lambda>v_build_path.
     bindr (as_bool (dget d ''dry_run'' (JBool True))) (\<lambda>v_dry_run.
     bindr (as_bool (dget d ''requires_unlock'' (JBool False))) (\<lambda>v_requires_unlock.
     bindr (as_bool (dget d ''requires_wipe'' (JBool True))) (\<lambda>v_requires_wipe.
     bindr (as_bool (dget d ''restore_path_available'' (JBool False))) (\<lambda>v_restore_path_available.
     bindr (as_bool (dget d ''artifacts_ready'' (JBool False))) (\<lambda>v_artifacts_ready.
     bindr (as_str (dget d ''install_mode'' (JStr ''unavailable''))) (\<lambda>v_install_mode.
     bindr (as_str (dget d ''artifact_manifest_path'' (JStr []))) (\<lambda>v_artifact_manifest_path.
     bindr (as_str (dget d ''artifact_bundle_path'' (JStr []))) (\<lambda>v_artifact_bundle_path.
     bindr (as_str (dget d ''transport'' (JStr (transport_value T_UNKNOWN)))) (\<lambda>v_transport.
     bindr (as_int (dget d ''step_count'' (JInt (json_len (dget d ''steps'' (JList [])))))) (\<lambda>v_step_count.
     bindr (as_dicts (dget d ''steps'' (JList []))) (\<lambda>v_steps.
     bindr (as_strs (dget d ''artifact_hints'' (JList []))) (\<lambda>v_artifact_hints.
     bindr (as_str (dget d ''status'' (JStr ''planned''))) (\<lambda>v_status.
     bindr (as_str (dget d ''summary'' (JStr []))) (\<lambda>v_summary.
     bindr (as_str (dget d ''generated_at'' (JStr now))) (\<lambda>v_generated_at.
     bindr (as_str (dget d ''updated_at'' (JStr now))) (\<lambda>v_updated_at.
     Inr \<lparr>fp_session_id = v_session_id,
       fp_build_path = v_build_path,
       fp_dry_run = v_dry_run,
       fp_requires_unlock = v_requires_unlock,
       fp_requires_wipe = v_requires_wipe,
       fp_restore_path_available = v_restore_path_available,
       fp_artifacts_ready = v_artifacts_ready,
       fp_install_mode = v_install_mode,
       fp_artifact_manifest_path = v_artifact_manifest_path,
       fp_artifact_bundle_path = v_artifact_bundle_path,
       fp_transport = v_transport,
       fp_step_count = v_step_count,
       fp_steps = v_steps,
       fp_artifact_hints = v_artifact_hints,
       fp_status = v_status,
       fp_summary = v_summary,
       fp_generated_at = v_generated_at,
       fp_updated_at = v_updated_at\<rparr>)))))))))))))))))))"

lemma flash_plan_from_to [simp, codec_simps]: "flash_plan_from_dict now (flash_plan_to_dict r) = Inr r"
  by (simp add: flash_plan_from_dict_def flash_plan_to_dict_def codec_simps)

section \<open>Records that are not read back\<close>

record device_fingerprint =
  df_manufacturer :: "string option"
  df_model :: "string option"
  df_serial :: "string option"
  df_transport :: transport
  df_short_fingerprint :: string
  df_stable_key :: string

record approval_gate =
  ag_action :: string
  ag_allowed :: bool
  ag_requires_explicit_approval :: bool
  ag_reason :: string
  ag_missing_requirements :: "string list"
  ag_consequences :: "string list"
  ag_generated_at :: string

record audit_entry =
  ae_category :: string
  ae_message :: string
  ae_evidence :: "string list"
  ae_metadata :: jdict
  ae_timestamp :: string

section \<open>Documents of a session\<close>

interpretation device_profile_doc: persisted device_profile_to_dict device_profile_from_dict fwrite "\<lambda>_. {}"
  by unfold_locales simp

interpretation session_state_doc:
  persisted session_state_to_dict "session_state_from_dict now" atomic_write_json "\<lambda>p. {tmp_path p}" for now
  by unfold_locales simp

interpretation policy_doc: persisted policy_model_to_dict policy_model_from_dict fwrite "\<lambda>_. {}"
  by unfold_locales simp

interpretation user_profile_doc:
  persisted user_profile_to_dict "user_profile_from_dict now" fwrite "\<lambda>_. {}" for now
  by unfold_locales simp

interpretation os_goals_doc: persisted os_goals_to_dict "os_goals_from_dict now" fwrite "\<lambda>_. {}" for now
  by unfold_locales simp

interpretation approval_doc:
  persisted destructive_approval_to_dict "destructive_approval_from_dict now" fwrite "\<lambda>_. {}" for now
  by unfold_locales simp

interpretation flash_plan_doc:
  persisted flash_plan_to_dict "flash_plan_from_dict now" atomic_write_json "\<lambda>p. {tmp_path p}" for now
  by unfold_locales simp

end
