(* ===== verification/State_Machine.thy ===== *)
theory State_Machine
  imports Models
begin

text \<open>
  The session state machine of \<open>app/core/state_machine.py\<close>: the table of allowed
  transitions, paths through it, and what every path has passed before it reaches \<open>FLASH\<close>.
  The set of targets of a state is a list in the source's order.
\<close>

section \<open>The table\<close>

primrec ALLOWED_TRANSITIONS :: "session_state_name \<Rightarrow> session_state_name list" where
  "ALLOWED_TRANSITIONS IDLE =
     [DEVICE_ATTACHED, INTAKE, DISCOVER]"
| "ALLOWED_TRANSITIONS DEVICE_ATTACHED =
     [INTAKE, ACCESS_ENABLEMENT, DISCOVER, BLOCKED]"
| "ALLOWED_TRANSITIONS INTAKE =
     [ACCESS_ENABLEMENT, DISCOVER, BLOCKED]"
| "ALLOWED_TRANSITIONS ACCESS_ENABLEMENT =
     [DEEP_SCAN, QUESTION_GATE, BLOCKED]"
| "ALLOWED_TRANSITIONS DISCOVER =
     [DEEP_SCAN, ASSESS, PROFILE_SYNTHESIS, BLOCKED]"
| "ALLOWED_TRANSITIONS DEEP_SCAN =
     [PROFILE_SYNTHESIS, ASSESS, BLOCKED]"
| "ALLOWED_TRANSITIONS PROFILE_SYNTHESIS =
     [ASSESS, MATCH_MASTER, BLOCKED]"
| "ALLOWED_TRANSITIONS MATCH_MASTER =
     [ASSESS, RECOMMEND, PATH_SELECT, BLOCKED]"
| "ALLOWED_TRANSITIONS ASSESS =
     [RECOMMEND, BACKUP_PLAN, PATH_SELECT, BLOCKER_CLASSIFY, BLOCKED]"
| "ALLOWED_TRANSITIONS RECOMMEND =
     [BACKUP_PLAN, PATH_SELECT, BLOCKED]"
| "ALLOWED_TRANSITIONS BACKUP_PLAN =
     [BACKUP_READY, UNLOCK_PREP, PATH_SELECT, BLOCKED]"
| "ALLOWED_TRANSITIONS BACKUP_READY =
     [PREVIEW_BUILD, FLASH_PREP, BUILD_GENERIC, BUILD_DEVICE, ITERATE, BLOCKED]"
| "ALLOWED_TRANSITIONS UNLOCK_PREP =
     [UNLOCK, BLOCKED]"
| "ALLOWED_TRANSITIONS UNLOCK =
     [BASELINE_CAPTURE, BLOCKED]"
| "ALLOWED_TRANSITIONS BASELINE_CAPTURE =
     [PATH_SELECT, BLOCKED]"
| "ALLOWED_TRANSITIONS PATH_SELECT =
     [BLOCKER_CLASSIFY, BUILD_GENERIC, BUILD_DEVICE, BLOCKED]"
| "ALLOWED_TRANSITIONS BLOCKER_CLASSIFY =
     [REMEDIATION_DECIDE, CODEGEN_TASK, QUESTION_GATE, BUILD_GENERIC, BUILD_DEVICE, ITERATE, BLOCKED]"
| "ALLOWED_TRANSITIONS REMEDIATION_DECIDE =
     [TASK_CREATE, QUESTION_GATE, CONNECTIVITY_VALIDATE, SECURITY_VALIDATE, BLOCKED]"
| "ALLOWED_TRANSITIONS TASK_CREATE =
     [CODEGEN_WRITE, QUESTION_GATE, BLOCKED]"
| "ALLOWED_TRANSITIONS CODEGEN_TASK =
     [CODEGEN_WRITE, PATCH_APPLY, QUESTION_GATE, BLOCKED]"
| "ALLOWED_TRANSITIONS CODEGEN_WRITE =
     [PATCH_APPLY, QUESTION_GATE, BLOCKED]"
| "ALLOWED_TRANSITIONS PATCH_APPLY =
     [EXECUTE_ARTIFACT, QUESTION_GATE, BLOCKED]"
| "ALLOWED_TRANSITIONS EXECUTE_ARTIFACT =
     [INSPECT_RESULT, QUESTION_GATE, BLOCKED]"
| "ALLOWED_TRANSITIONS INSPECT_RESULT =
     [BLOCKER_CLASSIFY, CONNECTIVITY_VALIDATE, SECURITY_VALIDATE, QUESTION_GATE, BLOCKED]"
| "ALLOWED_TRANSITIONS EXECUTE_STEP =
     [CONNECTIVITY_VALIDATE, SECURITY_VALIDATE, ITERATE, QUESTION_GATE, BLOCKED]"
| "ALLOWED_TRANSITIONS CONNECTIVITY_VALIDATE =
     [ITERATE, QUESTION_GATE, BLOCKED]"
| "ALLOWED_TRANSITIONS SECURITY_VALIDATE =
     [ITERATE, QUESTION_GATE, BLOCKED]"
| "ALLOWED_TRANSITIONS ITERATE =
     [BLOCKER_CLASSIFY, PATH_SELECT, DEEP_SCAN, BUILD_GENERIC, BUILD_DEVICE, BLOCKED]"
| "ALLOWED_TRANSITIONS QUESTION_GATE =
     [EXECUTE_STEP, FLASH_PREP, BLOCKER_CLASSIFY, BACKUP_READY, BLOCKED]"
| "ALLOWED_TRANSITIONS BUILD_GENERIC =
     [SIGN_IMAGES, BLOCKED]"
| "ALLOWED_TRANSITIONS BUILD_DEVICE =
     [SIGN_IMAGES, BLOCKED]"
| "ALLOWED_TRANSITIONS PREVIEW_BUILD =
     [PREVIEW_REVIEW, INTERACTIVE_VERIFY, BLOCKED]"
| "ALLOWED_TRANSITIONS PREVIEW_REVIEW =
     [INTERACTIVE_VERIFY, BLOCKED]"
| "ALLOWED_TRANSITIONS INTERACTIVE_VERIFY =
     [INSTALL_APPROVAL, BLOCKED]"
| "ALLOWED_TRANSITIONS SIGN_IMAGES =
     [FLASH_PREP, BLOCKED]"
| "ALLOWED_TRANSITIONS FLASH_PREP =
     [INSTALL_APPROVAL, FLASH, BLOCKED]"
| "ALLOWED_TRANSITIONS INSTALL_APPROVAL =
     [FLASH, BLOCKED]"
| "ALLOWED_TRANSITIONS FLASH =
     [BOOTSTRAP_DEVICE, POST_INSTALL_VERIFY, RESTORE, BLOCKED]"
| "ALLOWED_TRANSITIONS BOOTSTRAP_DEVICE =
     [BRINGUP, BLOCKED]"
| "ALLOWED_TRANSITIONS BRINGUP =
     [HARDEN, BLOCKED]"
| "ALLOWED_TRANSITIONS HARDEN =
     [VALIDATE, BLOCKED]"
| "ALLOWED_TRANSITIONS VALIDATE =
     [POST_INSTALL_VERIFY, PROMOTE, RESTORE, BLOCKED]"
| "ALLOWED_TRANSITIONS POST_INSTALL_VERIFY =
     [COMPLETE, RESTORE, BLOCKED]"
| "ALLOWED_TRANSITIONS COMPLETE =
     []"
| "ALLOWED_TRANSITIONS PROMOTE =
     []"
| "ALLOWED_TRANSITIONS RESTORE =
     [ASSESS, BLOCKED]"
| "ALLOWED_TRANSITIONS BLOCKED =
     [ASSESS, BLOCKER_CLASSIFY]"

definition is_transition_allowed :: "session_state_name \<Rightarrow> session_state_name \<Rightarrow> bool" where
  "is_transition_allowed current target \<longleftrightarrow> target \<in> set (ALLOWED_TRANSITIONS current)"

text \<open>A path: from a state, the states it moves through in order, each step allowed.\<close>

fun legal_path :: "session_state_name \<Rightarrow> session_state_name list \<Rightarrow> bool" where
  "legal_path s [] = True"
| "legal_path s (t # ts) = (is_transition_allowed s t \<and> legal_path t ts)"

abbreviation legal_run :: "session_state_name \<Rightarrow> session_state_name list \<Rightarrow> session_state_name \<Rightarrow> bool" where
  "legal_run s ts u \<equiv> legal_path s ts \<and> last (s # ts) = u"

lemma is_transition_allowed_iff [simp]:
  "is_transition_allowed s t \<longleftrightarrow> t \<in> set (ALLOWED_TRANSITIONS s)"
  by (simp add: is_transition_allowed_def)

lemma legal_path_append:
  "legal_path s (xs @ ys) \<longleftrightarrow> legal_path s xs \<and> legal_path (last (s # xs)) ys"
  by (induction xs arbitrary: s) auto

lemma legal_path_snoc:
  "legal_path s (xs @ [t]) \<longleftrightarrow> legal_path s xs \<and> t \<in> set (ALLOWED_TRANSITIONS (last (s # xs)))"
  by (simp add: legal_path_append)

text \<open>
  A region that can only be entered through its gates: if every step into \<open>D\<close> comes from \<open>D\<close>
  or from a gate, a path from outside \<open>D\<close> that ends in \<open>D\<close> has visited a gate.
\<close>

lemma path_through_gate:
  assumes gate: "\<And>u v. v \<in> set (ALLOWED_TRANSITIONS u) \<Longrightarrow> v \<in> D \<Longrightarrow> u \<in> D \<or> u \<in> G"
    and "legal_path s ts" and "last (s # ts) \<in> D" and "s \<notin> D"
  shows "\<exists>g \<in> G. g \<in> set (s # ts)"
  using assms(2-4)
proof (induction ts arbitrary: s)
  case (Cons t ts)
  show ?case
  proof (cases "t \<in> D")
    case True
    with Cons.prems gate have "s \<in> G" by auto
    then show ?thesis by auto
  next
    case False
    with Cons.prems have "\<exists>g \<in> G. g \<in> set (t # ts)"
      by (intro Cons.IH) auto
    then show ?thesis by auto
  qed
qed simp

section \<open>Routes\<close>

text \<open>
  A route to completion: for each state the next state of a shortest way to \<open>COMPLETE\<close>,
  and the number of steps left; and for each state its predecessor on a shortest way from
  \<open>IDLE\<close>. They are certificates, checked below.
\<close>

primrec next_hop :: "session_state_name \<Rightarrow> session_state_name" where
  "next_hop IDLE = DEVICE_ATTACHED"
| "next_hop DEVICE_ATTACHED = ACCESS_ENABLEMENT"
| "next_hop INTAKE = ACCESS_ENABLEMENT"
| "next_hop ACCESS_ENABLEMENT = QUESTION_GATE"
| "next_hop DISCOVER = ASSESS"
| "next_hop DEEP_SCAN = ASSESS"
| "next_hop PROFILE_SYNTHESIS = ASSESS"
| "next_hop MATCH_MASTER = ASSESS"
| "next_hop ASSESS = BACKUP_PLAN"
| "next_hop RECOMMEND = BACKUP_PLAN"
| "next_hop BACKUP_PLAN = BACKUP_READY"
| "next_hop BACKUP_READY = FLASH_PREP"
| "next_hop UNLOCK_PREP = BLOCKED"
| "next_hop UNLOCK = BLOCKED"
| "next_hop BASELINE_CAPTURE = PATH_SELECT"
| "next_hop PATH_SELECT = BLOCKER_CLASSIFY"
| "next_hop BLOCKER_CLASSIFY = QUESTION_GATE"
| "next_hop REMEDIATION_DECIDE = QUESTION_GATE"
| "next_hop TASK_CREATE = QUESTION_GATE"
| "next_hop CODEGEN_TASK = QUESTION_GATE"
| "next_hop CODEGEN_WRITE = QUESTION_GATE"
| "next_hop PATCH_APPLY = QUESTION_GATE"
| "next_hop EXECUTE_ARTIFACT = QUESTION_GATE"
| "next_hop INSPECT_RESULT = QUESTION_GATE"
| "next_hop EXECUTE_STEP = QUESTION_GATE"
| "next_hop CONNECTIVITY_VALIDATE = QUESTION_GATE"
| "next_hop SECURITY_VALIDATE = QUESTION_GATE"
| "next_hop ITERATE = BLOCKER_CLASSIFY"
| "next_hop QUESTION_GATE = FLASH_PREP"
| "next_hop BUILD_GENERIC = SIGN_IMAGES"
| "next_hop BUILD_DEVICE = SIGN_IMAGES"
| "next_hop PREVIEW_BUILD = INTERACTIVE_VERIFY"
| "next_hop PREVIEW_REVIEW = INTERACTIVE_VERIFY"
| "next_hop INTERACTIVE_VERIFY = INSTALL_APPROVAL"
| "next_hop SIGN_IMAGES = FLASH_PREP"
| "next_hop FLASH_PREP = FLASH"
| "next_hop INSTALL_APPROVAL = FLASH"
| "next_hop FLASH = POST_INSTALL_VERIFY"
| "next_hop BOOTSTRAP_DEVICE = BRINGUP"
| "next_hop BRINGUP = HARDEN"
| "next_hop HARDEN = VALIDATE"
| "next_hop VALIDATE = POST_INSTALL_VERIFY"
| "next_hop POST_INSTALL_VERIFY = COMPLETE"
| "next_hop COMPLETE = COMPLETE"
| "next_hop PROMOTE = PROMOTE"
| "next_hop RESTORE = ASSESS"
| "next_hop BLOCKED = BLOCKER_CLASSIFY"

primrec hops_left :: "session_state_name \<Rightarrow> nat" where
  "hops_left IDLE = 7"
| "hops_left DEVICE_ATTACHED = 6"
| "hops_left INTAKE = 6"
| "hops_left ACCESS_ENABLEMENT = 5"
| "hops_left DISCOVER = 7"
| "hops_left DEEP_SCAN = 7"
| "hops_left PROFILE_SYNTHESIS = 7"
| "hops_left MATCH_MASTER = 7"
| "hops_left ASSESS = 6"
| "hops_left RECOMMEND = 6"
| "hops_left BACKUP_PLAN = 5"
| "hops_left BACKUP_READY = 4"
| "hops_left UNLOCK_PREP = 7"
| "hops_left UNLOCK = 7"
| "hops_left BASELINE_CAPTURE = 7"
| "hops_left PATH_SELECT = 6"
| "hops_left BLOCKER_CLASSIFY = 5"
| "hops_left REMEDIATION_DECIDE = 5"
| "hops_left TASK_CREATE = 5"
| "hops_left CODEGEN_TASK = 5"
| "hops_left CODEGEN_WRITE = 5"
| "hops_left PATCH_APPLY = 5"
| "hops_left EXECUTE_ARTIFACT = 5"
| "hops_left INSPECT_RESULT = 5"
| "hops_left EXECUTE_STEP = 5"
| "hops_left CONNECTIVITY_VALIDATE = 5"
| "hops_left SECURITY_VALIDATE = 5"
| "hops_left ITERATE = 6"
| "hops_left QUESTION_GATE = 4"
| "hops_left BUILD_GENERIC = 5"
| "hops_left BUILD_DEVICE = 5"
| "hops_left PREVIEW_BUILD = 5"
| "hops_left PREVIEW_REVIEW = 5"
| "hops_left INTERACTIVE_VERIFY = 4"
| "hops_left SIGN_IMAGES = 4"
| "hops_left FLASH_PREP = 3"
| "hops_left INSTALL_APPROVAL = 3"
| "hops_left FLASH = 2"
| "hops_left BOOTSTRAP_DEVICE = 5"
| "hops_left BRINGUP = 4"
| "hops_left HARDEN = 3"
| "hops_left VALIDATE = 2"
| "hops_left POST_INSTALL_VERIFY = 1"
| "hops_left COMPLETE = 0"
| "hops_left PROMOTE = 0"
| "hops_left RESTORE = 7"
| "hops_left BLOCKED = 6"

primrec came_from :: "session_state_name \<Rightarrow> session_state_name" where
  "came_from IDLE = IDLE"
| "came_from DEVICE_ATTACHED = IDLE"
| "came_from INTAKE = IDLE"
| "came_from ACCESS_ENABLEMENT = DEVICE_ATTACHED"
| "came_from DISCOVER = IDLE"
| "came_from DEEP_SCAN = DISCOVER"
| "came_from PROFILE_SYNTHESIS = DISCOVER"
| "came_from MATCH_MASTER = PROFILE_SYNTHESIS"
| "came_from ASSESS = DISCOVER"
| "came_from RECOMMEND = ASSESS"
| "came_from BACKUP_PLAN = ASSESS"
| "came_from BACKUP_READY = QUESTION_GATE"
| "came_from UNLOCK_PREP = BACKUP_PLAN"
| "came_from UNLOCK = UNLOCK_PREP"
| "came_from BASELINE_CAPTURE = UNLOCK"
| "came_from PATH_SELECT = ASSESS"
| "came_from BLOCKER_CLASSIFY = BLOCKED"
| "came_from REMEDIATION_DECIDE = BLOCKER_CLASSIFY"
| "came_from TASK_CREATE = REMEDIATION_DECIDE"
| "came_from CODEGEN_TASK = BLOCKER_CLASSIFY"
| "came_from CODEGEN_WRITE = CODEGEN_TASK"
| "came_from PATCH_APPLY = CODEGEN_TASK"
| "came_from EXECUTE_ARTIFACT = PATCH_APPLY"
| "came_from INSPECT_RESULT = EXECUTE_ARTIFACT"
| "came_from EXECUTE_STEP = QUESTION_GATE"
| "came_from CONNECTIVITY_VALIDATE = EXECUTE_STEP"
| "came_from SECURITY_VALIDATE = EXECUTE_STEP"
| "came_from ITERATE = BLOCKER_CLASSIFY"
| "came_from QUESTION_GATE = ACCESS_ENABLEMENT"
| "came_from BUILD_GENERIC = BLOCKER_CLASSIFY"
| "came_from BUILD_DEVICE = BLOCKER_CLASSIFY"
| "came_from PREVIEW_BUILD = BACKUP_READY"
| "came_from PREVIEW_REVIEW = PREVIEW_BUILD"
| "came_from INTERACTIVE_VERIFY = PREVIEW_BUILD"
| "came_from SIGN_IMAGES = BUILD_GENERIC"
| "came_from FLASH_PREP = QUESTION_GATE"
| "came_from INSTALL_APPROVAL = FLASH_PREP"
| "came_from FLASH = FLASH_PREP"
| "came_from BOOTSTRAP_DEVICE = FLASH"
| "came_from BRINGUP = BOOTSTRAP_DEVICE"
| "came_from HARDEN = BRINGUP"
| "came_from VALIDATE = HARDEN"
| "came_from POST_INSTALL_VERIFY = FLASH"
| "came_from COMPLETE = POST_INSTALL_VERIFY"
| "came_from PROMOTE = VALIDATE"
| "came_from RESTORE = FLASH"
| "came_from BLOCKED = DEVICE_ATTACHED"

primrec depth :: "session_state_name \<Rightarrow> nat" where
  "depth IDLE = 0"
| "depth DEVICE_ATTACHED = 1"
| "depth INTAKE = 1"
| "depth ACCESS_ENABLEMENT = 2"
| "depth DISCOVER = 1"
| "depth DEEP_SCAN = 2"
| "depth PROFILE_SYNTHESIS = 2"
| "depth MATCH_MASTER = 3"
| "depth ASSESS = 2"
| "depth RECOMMEND = 3"
| "depth BACKUP_PLAN = 3"
| "depth BACKUP_READY = 4"
| "depth UNLOCK_PREP = 4"
| "depth UNLOCK = 5"
| "depth BASELINE_CAPTURE = 6"
| "depth PATH_SELECT = 3"
| "depth BLOCKER_CLASSIFY = 3"
| "depth REMEDIATION_DECIDE = 4"
| "depth TASK_CREATE = 5"
| "depth CODEGEN_TASK = 4"
| "depth CODEGEN_WRITE = 5"
| "depth PATCH_APPLY = 5"
| "depth EXECUTE_ARTIFACT = 6"
| "depth INSPECT_RESULT = 7"
| "depth EXECUTE_STEP = 4"
| "depth CONNECTIVITY_VALIDATE = 5"
| "depth SECURITY_VALIDATE = 5"
| "depth ITERATE = 4"
| "depth QUESTION_GATE = 3"
| "depth BUILD_GENERIC = 4"
| "depth BUILD_DEVICE = 4"
| "depth PREVIEW_BUILD = 5"
| "depth PREVIEW_REVIEW = 6"
| "depth INTERACTIVE_VERIFY = 6"
| "depth SIGN_IMAGES = 5"
| "depth FLASH_PREP = 4"
| "depth INSTALL_APPROVAL = 5"
| "depth FLASH = 5"
| "depth BOOTSTRAP_DEVICE = 6"
| "depth BRINGUP = 7"
| "depth HARDEN = 8"
| "depth VALIDATE = 9"
| "depth POST_INSTALL_VERIFY = 6"
| "depth COMPLETE = 7"
| "depth PROMOTE = 10"
| "depth RESTORE = 6"
| "depth BLOCKED = 2"

lemma next_hop_ok:
  "s \<noteq> PROMOTE \<Longrightarrow> hops_left s = Suc n \<Longrightarrow>
     next_hop s \<in> set (ALLOWED_TRANSITIONS s) \<and> hops_left (next_hop s) = n \<and> next_hop s \<noteq> PROMOTE"
  by (cases s) simp_all

lemma hops_left_0: "s \<noteq> PROMOTE \<Longrightarrow> hops_left s = 0 \<Longrightarrow> s = COMPLETE"
  by (cases s) simp_all

lemma came_from_ok:
  "depth s = Suc n \<Longrightarrow> s \<in> set (ALLOWED_TRANSITIONS (came_from s)) \<and> depth (came_from s) = n"
  by (cases s) simp_all

lemma depth_0: "depth s = 0 \<Longrightarrow> s = IDLE"
  by (cases s) simp_all

lemma path_to_complete: "s \<noteq> PROMOTE \<Longrightarrow> hops_left s = n \<Longrightarrow> \<exists>ts. legal_run s ts COMPLETE"
proof (induction n arbitrary: s)
  case 0
  then have "s = COMPLETE" by (rule hops_left_0)
  then show ?case by (intro exI [of _ "[]"]) simp
next
  case (Suc n)
  from next_hop_ok [OF Suc.prems] obtain ts where "legal_run (next_hop s) ts COMPLETE"
    using Suc.IH by blast
  with next_hop_ok [OF Suc.prems] show ?case
    by (intro exI [of _ "next_hop s # ts"]) simp
qed

lemma path_from_idle: "depth s = n \<Longrightarrow> \<exists>ts. legal_run IDLE ts s"
proof (induction n arbitrary: s)
  case 0
  then have "s = IDLE" by (rule depth_0)
  then show ?case by (intro exI [of _ "[]"]) simp
next
  case (Suc n)
  from came_from_ok [OF Suc.prems] obtain ts where "legal_run IDLE ts (came_from s)"
    using Suc.IH by blast
  with came_from_ok [OF Suc.prems] show ?case
    by (intro exI [of _ "ts @ [s]"]) (simp add: legal_path_snoc)
qed

section \<open>Before the device is touched\<close>

lemma into_flash:
  "FLASH \<in> set (ALLOWED_TRANSITIONS u) \<Longrightarrow> u = FLASH_PREP \<or> u = INSTALL_APPROVAL"
  by (cases u) simp_all

lemma flash_gate:
  "v \<in> set (ALLOWED_TRANSITIONS u) \<Longrightarrow>
     v \<in> {FLASH, FLASH_PREP, INSTALL_APPROVAL, INTERACTIVE_VERIFY, PREVIEW_REVIEW, PREVIEW_BUILD} \<Longrightarrow>
     u \<in> {FLASH, FLASH_PREP, INSTALL_APPROVAL, INTERACTIVE_VERIFY, PREVIEW_REVIEW, PREVIEW_BUILD} \<or>
     u \<in> {BACKUP_READY, QUESTION_GATE, SIGN_IMAGES}"
  by (cases u) auto

lemma enters_approval:
  "v \<in> set (ALLOWED_TRANSITIONS u) \<Longrightarrow> v \<in> {FLASH} \<Longrightarrow> u \<in> {FLASH} \<or> u \<in> {FLASH_PREP, INSTALL_APPROVAL}"
  by (cases u) auto

lemma enters_verify:
  "v \<in> set (ALLOWED_TRANSITIONS u) \<Longrightarrow> v \<in> {FLASH, INSTALL_APPROVAL} \<Longrightarrow>
     u \<in> {FLASH, INSTALL_APPROVAL} \<or> u \<in> {FLASH_PREP, INTERACTIVE_VERIFY}"
  by (cases u) auto

lemma enters_preview:
  "v \<in> set (ALLOWED_TRANSITIONS u) \<Longrightarrow> v \<in> {FLASH, INSTALL_APPROVAL, INTERACTIVE_VERIFY, PREVIEW_REVIEW} \<Longrightarrow>
     u \<in> {FLASH, INSTALL_APPROVAL, INTERACTIVE_VERIFY, PREVIEW_REVIEW} \<or> u \<in> {FLASH_PREP, PREVIEW_BUILD}"
  by (cases u) auto

lemma enters_backup:
  "v \<in> set (ALLOWED_TRANSITIONS u) \<Longrightarrow>
     v \<in> {FLASH, INSTALL_APPROVAL, INTERACTIVE_VERIFY, PREVIEW_REVIEW, PREVIEW_BUILD} \<Longrightarrow>
     u \<in> {FLASH, INSTALL_APPROVAL, INTERACTIVE_VERIFY, PREVIEW_REVIEW, PREVIEW_BUILD} \<or>
     u \<in> {FLASH_PREP, BACKUP_READY}"
  by (cases u) auto

section \<open>Properties\<close>

lemma flash_entry:
  assumes "legal_path IDLE ts" and "last (IDLE # ts) = FLASH"
  shows "FLASH_PREP \<in> set ts \<or> {BACKUP_READY, PREVIEW_BUILD, INTERACTIVE_VERIFY, INSTALL_APPROVAL} \<subseteq> set ts"
  using path_through_gate [OF enters_approval assms(1)] path_through_gate [OF enters_verify assms(1)]
    path_through_gate [OF enters_preview assms(1)] path_through_gate [OF enters_backup assms(1)] assms(2)
  by auto



text \<open>
  No session is trapped: completion can be reached from every state but \<open>PROMOTE\<close>, the
  other terminal state.
\<close>

theorem completion_reachable:
  "(\<exists>ts. legal_path s ts \<and> last (s # ts) = COMPLETE) \<longleftrightarrow> s \<noteq> PROMOTE"
proof
  assume "\<exists>ts. legal_path s ts \<and> last (s # ts) = COMPLETE"
  then obtain ts where "legal_path s ts" "last (s # ts) = COMPLETE" by blast
  then show "s \<noteq> PROMOTE" by (cases ts) auto
next
  assume "s \<noteq> PROMOTE"
  then show "\<exists>ts. legal_path s ts \<and> last (s # ts) = COMPLETE"
    using path_to_complete by blast
qed

text \<open>
  Every state of the machine is reachable from \<open>IDLE\<close>, and \<open>IDLE\<close> itself is never
  entered again.
\<close>

theorem all_states_reachable:
  "(\<exists>ts. legal_path IDLE ts \<and> last (IDLE # ts) = s) \<and> \<not> is_transition_allowed s IDLE"
  using path_from_idle [of s] by (cases s) auto

text \<open>
  The table lets a session flash with neither a recorded backup nor an install approval:
  \<open>ACCESS_ENABLEMENT\<close>, \<open>QUESTION_GATE\<close>, \<open>FLASH_PREP\<close> and \<open>FLASH\<close> follow each other. The
  README's flow has \<open>BACKUP_READY\<close> and \<open>INSTALL_APPROVAL\<close> before \<open>FLASH\<close>; the gates of
  the installer, not the table, enforce approval.
\<close>

theorem flash_without_approval_state:
  "\<exists>ts. legal_path IDLE ts \<and> last (IDLE # ts) = FLASH \<and> BACKUP_READY \<notin> set ts \<and> INSTALL_APPROVAL \<notin> set ts"
  by (rule exI [of _ "[DEVICE_ATTACHED, ACCESS_ENABLEMENT, QUESTION_GATE, FLASH_PREP, FLASH]"]) simp

end
