(* ===== verification/Naming.thy ===== *)
theory Naming
  imports Models
begin

text \<open>
  Names made from device data: \<open>app/core/naming.py\<close> (session names and codenames),
  \<open>_slugify\<close> of \<open>app/core/connection_playbook.py\<close> and \<open>_slug\<close>, \<open>_adapter_key\<close> of
  \<open>app/core/adapter_registry.py\<close>. These strings become names of files and directories.
  SHA-256 is the argument \<open>sha256\<close> (the hex digest of a string), the date an argument.
\<close>

section \<open>Slugs\<close>

text \<open>\<open>re.sub("[^ok]+", r, s)\<close>: each maximal run of other characters becomes one \<open>r\<close>.\<close>

fun sub_runs :: "(char \<Rightarrow> bool) \<Rightarrow> char \<Rightarrow> bool \<Rightarrow> string \<Rightarrow> string" where
  "sub_runs ok r in_run [] = []"
| "sub_runs ok r in_run (c # s) =
     (if ok c then c # sub_runs ok r False s
      else if in_run then sub_runs ok r True s
      else r # sub_runs ok r True s)"

definition str_or :: "string option \<Rightarrow> string \<Rightarrow> string" where
  "str_or v dflt = (case v of None \<Rightarrow> dflt | Some s \<Rightarrow> if s = [] then dflt else s)"

definition slugify :: "string \<Rightarrow> string" where
  "slugify v =
     (let cleaned = strip_char (CHR ''-'') (sub_runs is_alnum (CHR ''-'') False (lower (strip v)))
      in if cleaned = [] then ''unknown'' else cleaned)"

definition playbook_slugify :: "string option \<Rightarrow> string" where
  "playbook_slugify v =
     (case v of None \<Rightarrow> ''unknown''
      | Some s \<Rightarrow>
          if s = [] then ''unknown''
          else let slug = strip_char (CHR ''-'') (sub_runs is_lower_alnum (CHR ''-'') False (lower s))
               in if slug = [] then ''unknown'' else slug)"

definition adapter_slug :: "string option \<Rightarrow> string" where
  "adapter_slug v =
     (case v of None \<Rightarrow> ''unknown''
      | Some s \<Rightarrow>
          if s = [] then ''unknown''
          else let slug = strip_char (CHR ''_'') (sub_runs is_lower_alnum (CHR ''_'') False (lower (strip s)))
               in if slug = [] then ''unknown'' else slug)"

definition adapter_key :: "string option \<Rightarrow> string option \<Rightarrow> string" where
  "adapter_key manufacturer model = adapter_slug manufacturer @ ''_'' @ adapter_slug model"

section \<open>Fingerprints and session names\<close>

definition build_fingerprint ::
    "(string \<Rightarrow> string) \<Rightarrow> string option \<Rightarrow> string option \<Rightarrow> string option \<Rightarrow> transport \<Rightarrow> device_fingerprint" where
  "build_fingerprint sha256 manufacturer model serial transport =
     (let basis = join ''|'' [str_or manufacturer ''unknown'', str_or model ''unknown'',
                    str_or serial ''unknown'', transport_value transport];
          digest = sha256 basis
      in \<lparr>df_manufacturer = manufacturer, df_model = model, df_serial = serial,
          df_transport = transport, df_short_fingerprint = take 8 digest, df_stable_key = digest\<rparr>)"

definition canonical_session_name :: "device_fingerprint \<Rightarrow> string \<Rightarrow> string" where
  "canonical_session_name fp date_part =
     slugify (str_or (df_manufacturer fp) ''unknown'') @ ''-'' @ slugify (str_or (df_model fp) ''unknown'')
       @ ''-'' @ df_short_fingerprint fp @ ''-'' @ date_part"

definition generate_codename :: "device_fingerprint \<Rightarrow> string" where
  "generate_codename fp =
     take 6 (slugify (str_or (df_manufacturer fp) ''forge'')) @ ''-'' @ take 4 (df_short_fingerprint fp)"

section \<open>The alphabet of a slug\<close>

lemma sub_runs_chars:
  "c \<in> set (sub_runs ok r b s) \<Longrightarrow> (ok c \<and> c \<in> set s) \<or> c = r"
  by (induction s arbitrary: b) (auto split: if_splits)

lemma sub_runs_id: "(\<forall>c \<in> set s. ok c) \<Longrightarrow> sub_runs ok r b s = s"
  by (induction s arbitrary: b) auto

lemma set_strip_char: "set (strip_char c s) \<subseteq> set s"
proof -
  have dw: "set (dropWhile P t) \<subseteq> set t" for P and t :: string
    by (meson set_dropWhileD subsetI)
  show ?thesis
    unfolding strip_char_def rstrip_char_def set_rev
    by (rule order_trans [OF dw]) (unfold set_rev, rule dw)
qed

lemma hd_dropWhile_eq: "dropWhile (\<lambda>x. x = c) s \<noteq> [] \<Longrightarrow> hd (dropWhile (\<lambda>x. x = c) s) \<noteq> c"
  by (metis (mono_tags) hd_dropWhile)

lemma strip_char_ends:
  assumes "strip_char c s \<noteq> []"
  shows "hd (strip_char c s) \<noteq> c" "last (strip_char c s) \<noteq> c"
proof -
  let ?t = "dropWhile (\<lambda>x. x = c) s"
  have eq: "strip_char c s = rev (dropWhile (\<lambda>x. x = c) (rev ?t))"
    by (simp add: strip_char_def rstrip_char_def)
  with assms have ne: "dropWhile (\<lambda>x. x = c) (rev ?t) \<noteq> []" by simp
  show "last (strip_char c s) \<noteq> c"
    using hd_dropWhile_eq [OF ne] by (simp add: eq last_rev)
  have "?t \<noteq> []" using ne by (metis dropWhile.simps(1) rev.simps(1))
  then have "hd ?t \<noteq> c" by (rule hd_dropWhile_eq)
  moreover have "prefix (strip_char c s) ?t"
    unfolding eq by (metis rev_rev_ident suffix_dropWhile suffix_to_prefix)
  ultimately show "hd (strip_char c s) \<noteq> c"
    using assms by (metis hd_append2 prefix_def)
qed

lemma strip_char_id:
  assumes "s \<noteq> []" "hd s \<noteq> c" "last s \<noteq> c"
  shows "strip_char c s = s"
proof -
  have "dropWhile (\<lambda>x. x = c) s = s"
    using assms by (cases s) auto
  moreover have "dropWhile (\<lambda>x. x = c) (rev s) = rev s"
    using assms by (cases "rev s") (auto simp: last_rev [symmetric] hd_rev dest: arg_cong [where f = hd])
  ultimately show ?thesis by (simp add: strip_char_def rstrip_char_def)
qed

definition slug_chars :: "char \<Rightarrow> string \<Rightarrow> bool" where
  "slug_chars sep s \<longleftrightarrow>
     s \<noteq> [] \<and> hd s \<noteq> sep \<and> last s \<noteq> sep \<and> (\<forall>c \<in> set s. is_lower_alnum c \<or> c = sep)"

lemma slug_chars_unknown: "slug_chars (CHR ''-'') ''unknown''" "slug_chars (CHR ''_'') ''unknown''"
  by (simp_all add: slug_chars_def is_lower_alnum_def code_point_def Let_def)

lemma slug_chars_strip:
  assumes "\<And>c. c \<in> set s \<Longrightarrow> is_lower_alnum c \<or> c = sep" and "strip_char sep s \<noteq> []"
  shows "slug_chars sep (strip_char sep s)"
  using strip_char_ends [OF assms(2)] assms set_strip_char [of sep s]
  by (auto simp: slug_chars_def)

lemma alnum_lower: "is_alnum c \<Longrightarrow> c \<in> set (lower s) \<Longrightarrow> is_lower_alnum c"
proof -
  assume a: "is_alnum c" and c: "c \<in> set (lower s)"
  from c obtain x where x: "c = lower_char x" by (auto simp: lower_def)
  then have "lower_char c = c" by simp
  then have "\<not> (65 \<le> code_point c \<and> code_point c \<le> 90)"
  proof -
    have "\<not> is_upper_point (code_point c)"
    proof
      assume u: "is_upper_point (code_point c)"
      then have "code_point c + 32 < 256" by (auto simp: is_upper_point_def)
      then have "code_point (lower_char c) = code_point c + 32"
        using u by (simp add: lower_char_def code_point_char_of)
      with \<open>lower_char c = c\<close> show False by simp
    qed
    then show ?thesis by (auto simp: is_upper_point_def)
  qed
  with a show "is_lower_alnum c" by (auto simp: is_alnum_def Let_def)
qed

lemma slugify_chars: "slug_chars (CHR ''-'') (slugify v)"
proof -
  let ?s = "sub_runs is_alnum (CHR ''-'') False (lower (strip v))"
  have "c \<in> set ?s \<Longrightarrow> is_lower_alnum c \<or> c = CHR ''-''" for c
    by (auto dest!: sub_runs_chars intro: alnum_lower)
  then show ?thesis
    using slug_chars_strip [of ?s] slug_chars_unknown by (auto simp: slugify_def Let_def)
qed

lemma playbook_slugify_chars: "slug_chars (CHR ''-'') (playbook_slugify v)"
proof -
  have "slug_chars (CHR ''-'') (strip_char (CHR ''-'') (sub_runs is_lower_alnum (CHR ''-'') False s))"
    if "strip_char (CHR ''-'') (sub_runs is_lower_alnum (CHR ''-'') False s) \<noteq> []" for s
    using that by (intro slug_chars_strip) (auto dest: sub_runs_chars)
  then show ?thesis
    by (auto simp: playbook_slugify_def Let_def slug_chars_unknown split: option.splits)
qed

lemma adapter_slug_chars: "slug_chars (CHR ''_'') (adapter_slug v)"
proof -
  have "slug_chars (CHR ''_'') (strip_char (CHR ''_'') (sub_runs is_lower_alnum (CHR ''_'') False s))"
    if "strip_char (CHR ''_'') (sub_runs is_lower_alnum (CHR ''_'') False s) \<noteq> []" for s
    using that by (intro slug_chars_strip) (auto dest: sub_runs_chars)
  then show ?thesis
    by (auto simp: adapter_slug_def Let_def slug_chars_unknown split: option.splits)
qed

text \<open>A path component that stays in its directory.\<close>

definition safe_component :: "string \<Rightarrow> bool" where
  "safe_component s \<longleftrightarrow> s \<noteq> [] \<and> CHR ''/'' \<notin> set s \<and> CHR ''.'' \<notin> set s \<and> CHR 0x00 \<notin> set s"

lemma slug_chars_safe:
  "slug_chars sep s \<Longrightarrow> sep \<in> {CHR ''-'', CHR ''_''} \<Longrightarrow> safe_component s"
  by (auto simp: slug_chars_def safe_component_def is_lower_alnum_def code_point_def Let_def)

lemma safe_component_append:
  "safe_component s \<Longrightarrow> CHR ''/'' \<notin> set t \<Longrightarrow> CHR ''.'' \<notin> set t \<Longrightarrow> CHR 0x00 \<notin> set t \<Longrightarrow> safe_component (s @ t)"
  by (auto simp: safe_component_def)

lemma safe_slugify [simp]: "safe_component (slugify v)"
  using slug_chars_safe [OF slugify_chars] by simp

lemma safe_adapter_slug [simp]: "safe_component (adapter_slug v)"
  using slug_chars_safe [OF adapter_slug_chars] by simp

lemma safe_adapter_key: "safe_component (adapter_key m d)"
  using safe_adapter_slug [of m] safe_adapter_slug [of d] unfolding adapter_key_def
  by (auto simp: safe_component_def)

end
