(* ===== verification/Form_Factor.thy ===== *)
theory Form_Factor
  imports Models
begin

text \<open>
  \<open>app/core/device_form_factor.py\<close>: phone or tablet, from what the device says about
  itself. A device description is a JSON dictionary; a profile is turned into one by
  \<open>to_dict\<close>, which lists the fields of the dataclass in order. The regular expressions
  are written out as the prefix tests and the word-boundary search they denote.
\<close>

section \<open>The definitions\<close>

fun flatten_parts :: "json \<Rightarrow> string list" where
  "flatten_parts JNull = []"
| "flatten_parts (JObj d) = concat (map (\<lambda>p. fst p # flatten_parts (snd p)) d)"
| "flatten_parts (JList xs) = concat (map flatten_parts xs)"
| "flatten_parts v = [py_str v]"

definition flatten_text :: "json \<Rightarrow> string" where
  "flatten_text v = lower (join '' '' (flatten_parts v))"

type_synonym form_factor_guess = "device_form_factor \<times> string \<times> rat"

fun explicit_keys :: "jdict \<Rightarrow> string list \<Rightarrow> form_factor_guess option" where
  "explicit_keys d [] = None"
| "explicit_keys d (k # ks) =
     (let raw = dget0 d k in
      if raw = JNull then explicit_keys d ks
      else let text = lower (strip (py_str raw)) in
        if contains text ''tablet'' then Some (FF_TABLET, k, 95/100)
        else if contains text ''phone'' then Some (FF_PHONE, k, 95/100)
        else explicit_keys d ks)"

function explicit_form_factor :: "jdict \<Rightarrow> form_factor_guess option" where
  "explicit_form_factor d =
     (case explicit_keys d [''form_factor'', ''device_form_factor'', ''ro.build.characteristics'', ''characteristics''] of
        Some g \<Rightarrow> Some g
      | None \<Rightarrow>
          (case (case dget0 d ''raw_event'' of JObj e \<Rightarrow> explicit_form_factor e | _ \<Rightarrow> None) of
             Some g \<Rightarrow> Some g
           | None \<Rightarrow>
               (case dget0 d ''hardware_snapshot'' of JObj e \<Rightarrow> explicit_form_factor e | _ \<Rightarrow> None)))"
  by pat_completeness auto
termination
  by (relation "measure (\<lambda>d. size (JObj d))") (auto dest: size_dget_JObj)

declare explicit_form_factor.simps [simp del]

text \<open>\<open>\bgalaxy (s|a|note)[0-9]\<close>, searched from left to right.\<close>

definition word_char :: "char \<Rightarrow> bool" where
  "word_char c \<longleftrightarrow> is_alnum c \<or> c = CHR ''_'' \<or> code_point c \<in> {170, 181, 186, 178, 179, 185, 188, 189, 190}
     \<or> (192 \<le> code_point c \<and> code_point c \<noteq> 215 \<and> code_point c \<noteq> 247)"

definition starts_with_digit_after :: "string \<Rightarrow> string \<Rightarrow> bool" where
  "starts_with_digit_after p s \<longleftrightarrow>
     starts_with s p \<and> (case drop (length p) s of [] \<Rightarrow> False | c # _ \<Rightarrow> 48 \<le> code_point c \<and> code_point c \<le> 57)"

fun galaxy_search :: "bool \<Rightarrow> string \<Rightarrow> bool" where
  "galaxy_search boundary [] = False"
| "galaxy_search boundary (c # s) =
     ((boundary \<and> (starts_with_digit_after ''galaxy s'' (c # s) \<or> starts_with_digit_after ''galaxy a'' (c # s)
         \<or> starts_with_digit_after ''galaxy note'' (c # s)))
      \<or> galaxy_search (\<not> word_char c) s)"

definition tablet_prefixes :: "string list" where
  "tablet_prefixes = [''SM-T'', ''GT-P'', ''SCH-I800'', ''SGH-I497'']"

definition phone_prefixes :: "string list" where
  "phone_prefixes = [''SM-A'', ''SM-G'', ''SM-N'', ''SM-S'', ''GT-I'', ''SGH-I'', ''SAMSUNG-SM-G'']"

definition tablet_terms :: "string list" where
  "tablet_terms = [''tablet'', ''galaxy tab'', ''pixel tablet'', ''nexus 7'', ''nexus 10'', ''kindle fire'',
     ''lenovo tb'', ''mediapad'', ''xoom'', ''surface duo'']"

definition phone_terms :: "string list" where
  "phone_terms = [''phone'', ''pixel '', ''moto g'', ''oneplus'', ''iphone'']"

definition infer_from_text :: "jdict \<Rightarrow> form_factor_guess" where
  "infer_from_text payload =
     (let haystack = flatten_text (JObj payload);
          model = strip (dstr_or payload ''model'' []);
          model_upper = remove_char (CHR '' '') (upper model);
          codename = lower (dstr_or payload ''device_codename'' [])
      in if list_ex (starts_with model_upper) tablet_prefixes then (FF_TABLET, ''model_prefix'', 92/100)
         else if list_ex (starts_with model_upper) phone_prefixes then (FF_PHONE, ''model_prefix'', 86/100)
         else if galaxy_search True (lower model) then (FF_PHONE, ''model_name'', 82/100)
         else if list_ex (contains haystack) tablet_terms \<or> starts_with codename ''gta''
           then (FF_TABLET, ''device_text'', 8/10)
         else if list_ex (contains haystack) phone_terms then (FF_PHONE, ''device_text'', 75/100)
         else (FF_UNKNOWN, ''insufficient_evidence'', 0))"

definition infer_device_form_factor :: "jdict \<Rightarrow> form_factor_guess" where
  "infer_device_form_factor payload =
     (case explicit_form_factor payload of Some g \<Rightarrow> g | None \<Rightarrow> infer_from_text payload)"

definition generated_keys :: "string list" where
  "generated_keys = [''form_factor'', ''form_factor_source'', ''form_factor_confidence'', ''form_factor_override'']"

definition profile_evidence :: "device_profile \<Rightarrow> jdict" where
  "profile_evidence p =
     (case device_profile_to_dict p of
        JObj d \<Rightarrow> filter (\<lambda>kv. fst kv \<notin> set generated_keys) d | _ \<Rightarrow> [])"

definition apply_form_factor_inference :: "device_profile \<Rightarrow> jdict \<Rightarrow> device_profile" where
  "apply_form_factor_inference profile probe_data =
     (case dp_form_factor_override profile of
        Some ov \<Rightarrow>
          if ov \<noteq> FF_UNKNOWN
          then profile\<lparr>dp_form_factor := ov, dp_form_factor_source := ''operator_override'',
                 dp_form_factor_confidence := 1\<rparr>
          else (case infer_device_form_factor (dmerge (profile_evidence profile) probe_data) of
                  (ff, source, confidence) \<Rightarrow>
                    profile\<lparr>dp_form_factor := ff, dp_form_factor_source := source,
                      dp_form_factor_confidence := confidence\<rparr>)
      | None \<Rightarrow>
          (case infer_device_form_factor (dmerge (profile_evidence profile) probe_data) of
             (ff, source, confidence) \<Rightarrow>
               profile\<lparr>dp_form_factor := ff, dp_form_factor_source := source,
                 dp_form_factor_confidence := confidence\<rparr>))"

section \<open>Lemmas\<close>

lemma explicit_keys_guess:
  "explicit_keys d ks = Some (ff, k, c) \<Longrightarrow> ff \<noteq> FF_UNKNOWN \<and> c = 95/100 \<and> k \<in> set ks"
  by (induction d ks rule: explicit_keys.induct) (auto simp: Let_def split: if_splits)

lemma explicit_guess:
  "explicit_form_factor d = Some (ff, k, c) \<Longrightarrow> ff \<noteq> FF_UNKNOWN \<and> c = 95/100"
proof (induction d arbitrary: ff k c rule: explicit_form_factor.induct)
  case (1 d)
  show ?case
  proof (cases "explicit_keys d [''form_factor'', ''device_form_factor'', ''ro.build.characteristics'', ''characteristics'']")
    case None
    with 1 show ?thesis
      by (subst (asm) (3) explicit_form_factor.simps) (auto split: option.splits json.splits)
  next
    case (Some g)
    with 1(3) show ?thesis
      by (cases g) (auto simp: explicit_form_factor.simps [of d] simp del: explicit_keys.simps dest: explicit_keys_guess)
  qed
qed

lemma infer_from_text_guess:
  "infer_from_text d = (ff, k, c) \<Longrightarrow> 0 \<le> c \<and> c < 1 \<and> (c = 0 \<longleftrightarrow> ff = FF_UNKNOWN)"
  by (auto simp: infer_from_text_def Let_def split: if_splits)

lemma infer_guess:
  "infer_device_form_factor d = (ff, k, c) \<Longrightarrow> 0 \<le> c \<and> c < 1 \<and> (c = 0 \<longleftrightarrow> ff = FF_UNKNOWN)"
  by (auto simp: infer_device_form_factor_def split: option.splits
      dest: infer_from_text_guess explicit_guess)

lemma profile_evidence_generated [simp]:
  "profile_evidence (p\<lparr>dp_form_factor := f, dp_form_factor_source := s, dp_form_factor_confidence := c\<rparr>)
     = profile_evidence p"
  by (simp add: profile_evidence_def device_profile_to_dict_def generated_keys_def)

lemma apply_override [simp]:
  "dp_form_factor_override (apply_form_factor_inference p d) = dp_form_factor_override p"
  by (auto simp: apply_form_factor_inference_def split: option.splits prod.splits)

section \<open>Properties\<close>

text \<open>A choice of the operator other than \<open>UNKNOWN\<close> decides the form factor with full
  confidence, whatever the probe says; without one the confidence stays below 1, and it is
  zero exactly when the form factor is \<open>UNKNOWN\<close>.\<close>

theorem form_factor_decision:
  "case dp_form_factor_override p of
     Some ov \<Rightarrow>
       if ov \<noteq> FF_UNKNOWN
       then dp_form_factor (apply_form_factor_inference p d) = ov
         \<and> dp_form_factor_source (apply_form_factor_inference p d) = ''operator_override''
         \<and> dp_form_factor_confidence (apply_form_factor_inference p d) = 1
       else dp_form_factor_confidence (apply_form_factor_inference p d) \<in> {0..<1}
         \<and> (dp_form_factor_confidence (apply_form_factor_inference p d) = 0
            \<longleftrightarrow> dp_form_factor (apply_form_factor_inference p d) = FF_UNKNOWN)
   | None \<Rightarrow> dp_form_factor_confidence (apply_form_factor_inference p d) \<in> {0..<1}
         \<and> (dp_form_factor_confidence (apply_form_factor_inference p d) = 0
            \<longleftrightarrow> dp_form_factor (apply_form_factor_inference p d) = FF_UNKNOWN)"
  by (cases "infer_device_form_factor (dmerge (profile_evidence p) d)")
     (auto simp: apply_form_factor_inference_def split: option.splits dest: infer_guess)

text \<open>Applying the inference to a profile that already carries its result changes
  nothing: the generated fields are no evidence for themselves.\<close>

theorem form_factor_idempotent:
  "apply_form_factor_inference (apply_form_factor_inference p d) d = apply_form_factor_inference p d"
  by (cases "infer_device_form_factor (dmerge (profile_evidence p) d)")
     (auto simp: apply_form_factor_inference_def split: option.splits)

end
