(* ===== verification/Session_Manager.thy ===== *)
theory Session_Manager
  imports State_Machine Naming Form_Factor
begin

text \<open>
  \<open>app/core/session_manager.py\<close>: one directory per device under \<open>devices/\<close>, with the session
  state, the device profile, the operator's profile, goals and approval, and the flash plan
  as JSON documents. The disk is a list of directories and the files of \<open>Doc_Store\<close>; paths are
  relative to the root. A session directory is named by its path, \<open>devices/<name>\<close>.

  The fields of a probe that go into typed slots are read at their types first
  (\<open>read_probe\<close>); Python stores them unchecked. An operation has one instant \<open>now\<close>.
  A probe with no \<open>transport\<close> key can resume a session but not create one: Python would write
  a profile whose transport is null, which its own reader rejects.
\<close>

section \<open>The disk\<close>

record disk =
  dk_files :: files
  dk_dirs :: "string list"

definition dk_exists :: "disk \<Rightarrow> string \<Rightarrow> bool" where
  "dk_exists dk p \<longleftrightarrow> p \<in> set (dk_dirs dk) \<or> fexists (dk_files dk) p"

definition dk_mkdir :: "string \<Rightarrow> disk \<Rightarrow> disk" where
  "dk_mkdir p dk = (if p \<in> set (dk_dirs dk) then dk else dk\<lparr>dk_dirs := dk_dirs dk @ [p]\<rparr>)"

definition dk_write :: "string \<Rightarrow> json \<Rightarrow> disk \<Rightarrow> disk" where
  "dk_write p j dk = dk\<lparr>dk_files := fwrite p j (dk_files dk)\<rparr>"

definition dk_atomic :: "string \<Rightarrow> json \<Rightarrow> disk \<Rightarrow> disk" where
  "dk_atomic p j dk = dk\<lparr>dk_files := atomic_write_json p j (dk_files dk)\<rparr>"

abbreviation dk_read :: "disk \<Rightarrow> string \<Rightarrow> doc option" where
  "dk_read dk p \<equiv> fread (dk_files dk) p"

abbreviation sub :: "string \<Rightarrow> string \<Rightarrow> string" where
  "sub dir leaf \<equiv> dir @ ''/'' @ leaf"

definition dir_name :: "string \<Rightarrow> string" where
  "dir_name p = last (split_on (CHR ''/'') p)"

definition device_dir :: "string \<Rightarrow> string" where
  "device_dir name = sub ''devices'' name"

text \<open>\<open>sorted(devices_dir.glob("*/leaf"))\<close>: the session directories that hold the file.\<close>

definition session_dirs :: "disk \<Rightarrow> string \<Rightarrow> string list" where
  "session_dirs dk leaf =
     map device_dir (sort (remdups
       [name. (p, _) \<leftarrow> dk_files dk, [d, name, l] \<leftarrow> [split_on (CHR ''/'') p],
          d = ''devices'' \<and> l = leaf]))"

section \<open>Probe events\<close>

record probe =
  pb_manufacturer :: "string option"
  pb_model :: "string option"
  pb_serial :: "string option"
  pb_android_version :: "string option"
  pb_bootloader_locked :: "bool option"
  pb_verified_boot_state :: "string option"
  pb_slot_info :: "jdict option"
  pb_battery :: "jdict option"
  pb_transport :: "transport option"
  pb_device_codename :: "string option"
  pb_hardware_snapshot :: jdict
  pb_data :: jdict

definition read_probe :: "jdict \<Rightarrow> probe res" where
  "read_probe d =
     bindr (as_opt as_str (dget0 d ''manufacturer'')) (\<lambda>v_manufacturer.
     bindr (as_opt as_str (dget0 d ''model'')) (\<lambda>v_model.
     bindr (as_opt as_str (dget0 d ''serial'')) (\<lambda>v_serial.
     bindr (as_opt as_str (dget0 d ''android_version'')) (\<lambda>v_android_version.
     bindr (as_opt as_bool (dget0 d ''bootloader_locked'')) (\<lambda>v_bootloader_locked.
     bindr (as_opt as_str (dget0 d ''verified_boot_state'')) (\<lambda>v_verified_boot_state.
     bindr (as_opt as_dict (dget0 d ''slot_info'')) (\<lambda>v_slot_info.
     bindr (as_opt as_dict (dget0 d ''battery'')) (\<lambda>v_battery.
     bindr (if dhas d ''transport'' then bindr (as_transport (dget0 d ''transport'')) (\<lambda>t. Inr (Some t))
            else Inr None) (\<lambda>v_transport.
     bindr (as_opt as_str (dget0 d ''device_codename'')) (\<lambda>v_device_codename.
     bindr (as_dict (jor (dget0 d ''hardware_snapshot'') (JObj []))) (\<lambda>v_snapshot.
     Inr \<lparr>pb_manufacturer = v_manufacturer, pb_model = v_model, pb_serial = v_serial,
          pb_android_version = v_android_version, pb_bootloader_locked = v_bootloader_locked,
          pb_verified_boot_state = v_verified_boot_state, pb_slot_info = v_slot_info,
          pb_battery = v_battery, pb_transport = v_transport, pb_device_codename = v_device_codename,
          pb_hardware_snapshot = v_snapshot, pb_data = d\<rparr>)))))))))))"

section \<open>The battery dump\<close>

definition battery_fields :: "(string \<times> string) list" where
  "battery_fields =
     [(''level:'', ''level''), (''status:'', ''status''), (''health:'', ''health''),
      (''temperature:'', ''temperature''), (''voltage:'', ''voltage''),
      (''AC powered:'', ''ac_powered''), (''USB powered:'', ''usb_powered'')]"

definition battery_value :: "string \<Rightarrow> json" where
  "battery_value raw =
     (case parse_int raw of
        Some i \<Rightarrow> JInt i
      | None \<Rightarrow> JBool (lower raw \<in> set [''true'', ''yes'', ''1'']))"

definition battery_line :: "string \<Rightarrow> jdict \<Rightarrow> jdict" where
  "battery_line line result =
     foldl (\<lambda>acc (key, name).
       if starts_with line key then dset acc name (battery_value (strip (drop (length key) line))) else acc)
     result battery_fields"

definition parse_battery_dump :: "string \<Rightarrow> jdict" where
  "parse_battery_dump dump = foldl (\<lambda>acc l. battery_line (strip l) acc) [] (splitlines dump)"

section \<open>Promotion of the hardware snapshot\<close>

definition snapshot_lock :: "jdict \<Rightarrow> bool option" where
  "snapshot_lock snapshot =
     (let vbs = lower (strip (dstr_or snapshot ''verified_boot_state'' [])) in
      if vbs = ''green'' then Some True
      else if vbs \<in> set [''orange'', ''yellow'', ''red''] then Some False
      else
        let warranty = strip (dstr_or snapshot ''warranty_bit'' []);
            flash_locked = strip (dstr_or snapshot ''flash_locked'' [])
        in if warranty = ''0'' then Some True
           else if warranty = ''1'' then Some False
           else if flash_locked = ''1'' then Some True
           else if flash_locked = ''0'' then Some False
           else None)"

definition opt_falsy :: "'a list option \<Rightarrow> bool" where
  "opt_falsy x \<longleftrightarrow> (case x of None \<Rightarrow> True | Some s \<Rightarrow> s = [])"

definition fill_lock :: "jdict \<Rightarrow> device_profile \<Rightarrow> device_profile" where
  "fill_lock snapshot p =
     (if dp_bootloader_locked p = None then p\<lparr>dp_bootloader_locked := snapshot_lock snapshot\<rparr> else p)"

definition fill_boot_state :: "jdict \<Rightarrow> device_profile \<Rightarrow> device_profile" where
  "fill_boot_state snapshot p =
     (let vbs = strip (dstr_or snapshot ''verified_boot_state'' []) in
      if opt_falsy (dp_verified_boot_state p) \<and> vbs \<noteq> []
      then p\<lparr>dp_verified_boot_state := Some vbs\<rparr> else p)"

definition fill_slot :: "jdict \<Rightarrow> device_profile \<Rightarrow> device_profile" where
  "fill_slot snapshot p =
     (let slot_suffix = strip (dstr_or snapshot ''boot_slot'' []) in
      if opt_falsy (dp_slot_info p) \<and> slot_suffix \<noteq> []
      then p\<lparr>dp_slot_info := Some [(''active_slot'', JStr slot_suffix), (''a_b_device'', JBool True)]\<rparr>
      else p)"

definition fill_battery :: "jdict \<Rightarrow> device_profile \<Rightarrow> device_profile" where
  "fill_battery snapshot p =
     (let battery_dump = dstr_or snapshot ''battery_dump'' [] in
      if opt_falsy (dp_battery p) \<and> battery_dump \<noteq> []
      then p\<lparr>dp_battery := Some (parse_battery_dump battery_dump)\<rparr> else p)"

definition promote_hardware_snapshot :: "device_profile \<Rightarrow> probe \<Rightarrow> device_profile" where
  "promote_hardware_snapshot profile pb =
     (let snapshot = pb_hardware_snapshot pb in
      if snapshot = [] then profile
      else fill_battery snapshot (fill_slot snapshot (fill_boot_state snapshot (fill_lock snapshot profile))))"

section \<open>Reading and writing the documents of a session\<close>

definition write_device_profile :: "string \<Rightarrow> device_profile \<Rightarrow> disk \<Rightarrow> disk" where
  "write_device_profile dir p = dk_write (sub dir ''device-profile.json'') (device_profile_to_dict p)"

definition write_session_state :: "string \<Rightarrow> string \<Rightarrow> session_state \<Rightarrow> disk \<Rightarrow> disk" where
  "write_session_state now dir st =
     dk_atomic (sub dir ''session-state.json'') (session_state_to_dict (st\<lparr>ss_updated_at := now\<rparr>))"

definition load_session_state :: "string \<Rightarrow> disk \<Rightarrow> string \<Rightarrow> session_state res" where
  "load_session_state now dk dir =
     load_doc (session_state_from_dict now) (dk_files dk) (sub dir ''session-state.json'')"

definition load_device_profile :: "disk \<Rightarrow> string \<Rightarrow> device_profile res" where
  "load_device_profile dk dir =
     load_doc device_profile_from_dict (dk_files dk) (sub dir ''device-profile.json'')"

definition write_user_profile :: "string \<Rightarrow> string \<Rightarrow> user_profile \<Rightarrow> disk \<Rightarrow> disk" where
  "write_user_profile now dir p =
     dk_write (sub dir ''user-profile.json'') (user_profile_to_dict (p\<lparr>up_updated_at := now\<rparr>))"

definition load_user_profile :: "string \<Rightarrow> string \<Rightarrow> disk \<Rightarrow> user_profile res \<times> disk" where
  "load_user_profile now dir dk =
     (if \<not> dk_exists dk (sub dir ''user-profile.json'')
      then let profile = default_user_profile (dir_name dir) now
           in (Inr (profile\<lparr>up_updated_at := now\<rparr>), write_user_profile now dir profile dk)
      else (load_doc (user_profile_from_dict now) (dk_files dk) (sub dir ''user-profile.json''), dk))"

definition write_os_goals :: "string \<Rightarrow> string \<Rightarrow> os_goals \<Rightarrow> disk \<Rightarrow> disk" where
  "write_os_goals now dir g =
     dk_write (sub dir ''os-goals.json'') (os_goals_to_dict (g\<lparr>og_updated_at := now\<rparr>))"

definition load_os_goals :: "string \<Rightarrow> string \<Rightarrow> disk \<Rightarrow> os_goals res \<times> disk" where
  "load_os_goals now dir dk =
     (if \<not> dk_exists dk (sub dir ''os-goals.json'')
      then let goals = default_os_goals (dir_name dir) now
           in (Inr (goals\<lparr>og_updated_at := now\<rparr>), write_os_goals now dir goals dk)
      else (load_doc (os_goals_from_dict now) (dk_files dk) (sub dir ''os-goals.json''), dk))"

definition write_destructive_approval :: "string \<Rightarrow> string \<Rightarrow> destructive_approval \<Rightarrow> disk \<Rightarrow> disk" where
  "write_destructive_approval now dir a =
     dk_write (sub dir ''destructive-approval.json'')
       (destructive_approval_to_dict (a\<lparr>da_updated_at := now\<rparr>))"

definition load_destructive_approval :: "string \<Rightarrow> string \<Rightarrow> disk \<Rightarrow> destructive_approval res \<times> disk" where
  "load_destructive_approval now dir dk =
     (if \<not> dk_exists dk (sub dir ''destructive-approval.json'')
      then let approval = default_destructive_approval (dir_name dir) now
           in (Inr (approval\<lparr>da_updated_at := now\<rparr>), write_destructive_approval now dir approval dk)
      else (load_doc (destructive_approval_from_dict now) (dk_files dk)
              (sub dir ''destructive-approval.json''), dk))"

definition write_flash_plan :: "string \<Rightarrow> string \<Rightarrow> flash_plan \<Rightarrow> disk \<Rightarrow> disk" where
  "write_flash_plan now dir plan =
     dk_atomic (sub dir ''execution/flash-plan.json'') (flash_plan_to_dict (plan\<lparr>fp_updated_at := now\<rparr>))"

definition load_flash_plan :: "string \<Rightarrow> disk \<Rightarrow> string \<Rightarrow> flash_plan option res" where
  "load_flash_plan now dk dir =
     (let path = sub dir ''execution/flash-plan.json'' in
      if \<not> dk_exists dk path then Inr None
      else bindr (load_doc (flash_plan_from_dict now) (dk_files dk) path) (\<lambda>p. Inr (Some p)))"

definition write_runtime_artifact :: "string \<Rightarrow> string \<Rightarrow> jdict \<Rightarrow> disk \<Rightarrow> disk" where
  "write_runtime_artifact dir relative_path payload = dk_atomic (sub dir relative_path) (JObj payload)"

section \<open>Creating and resuming a session\<close>

definition read_dict :: "disk \<Rightarrow> string \<Rightarrow> jdict res" where
  "read_dict dk p =
     load_doc (\<lambda>j. case j of JObj d \<Rightarrow> Inr d | _ \<Rightarrow> Inl (AttributeError ''get'')) (dk_files dk) p"

definition norm :: "jdict \<Rightarrow> string \<Rightarrow> string" where
  "norm d k = lower (strip (dstr_or d k []))"

definition same_identity :: "jdict \<Rightarrow> jdict \<Rightarrow> bool" where
  "same_identity probe_data profile_data \<longleftrightarrow>
     (norm probe_data ''manufacturer'' \<noteq> [] \<and> norm probe_data ''model'' \<noteq> []
        \<and> norm profile_data ''manufacturer'' = norm probe_data ''manufacturer''
        \<and> norm profile_data ''model'' = norm probe_data ''model'')
     \<or> (norm probe_data ''device_codename'' \<noteq> []
        \<and> norm profile_data ''device_codename'' = norm probe_data ''device_codename'')"

fun find_candidate :: "disk \<Rightarrow> jdict \<Rightarrow> string list \<Rightarrow> string option res" where
  "find_candidate dk probe_data [] = Inr None"
| "find_candidate dk probe_data (dir # dirs) =
     bindr (read_dict dk (sub dir ''device-profile.json'')) (\<lambda>profile_data.
       if same_identity probe_data profile_data \<and> starts_with (dstr_or profile_data ''serial'' []) ''usb-''
       then Inr (Some dir)
       else find_candidate dk probe_data dirs)"

definition find_upgrade_candidate :: "disk \<Rightarrow> jdict \<Rightarrow> string option res" where
  "find_upgrade_candidate dk probe_data =
     (if norm probe_data ''manufacturer'' = [] \<and> norm probe_data ''model'' = [] then Inr None
      else find_candidate dk probe_data (session_dirs dk ''device-profile.json''))"

definition seed_directories :: "string list" where
  "seed_directories =
     [''artifacts'', ''logs'', ''reports'', ''raw'', ''plans'', ''runtime'', ''codex'', ''connection'',
      ''codegen'', ''patches'', ''execution'', ''backup'', ''restore'']"

definition copytree :: "string \<Rightarrow> string \<Rightarrow> disk \<Rightarrow> disk" where
  "copytree src dst dk =
     (let under = (\<lambda>p. starts_with p (sub src []));
          moved = (\<lambda>p. sub dst (drop (Suc (length src)) p))
      in dk\<lparr>dk_dirs := dk_dirs dk @ dst # map moved (filter under (dk_dirs dk)),
            dk_files := dk_files dk @ map (\<lambda>(p, f). (moved p, f)) (filter (\<lambda>pf. under (fst pf)) (dk_files dk))\<rparr>)"

definition seed_session_from_master :: "string \<Rightarrow> disk \<Rightarrow> disk" where
  "seed_session_from_master dir dk =
     (let dk1 = foldl (\<lambda>acc d. dk_mkdir (sub dir d) acc) dk seed_directories;
          dest = sub dir ''plans/master-strategies''
      in if dk_exists dk1 ''master/strategies'' \<and> \<not> dk_exists dk1 dest
         then copytree ''master/strategies'' dest dk1 else dk1)"

definition upd_opt :: "('a \<Rightarrow> bool) \<Rightarrow> 'a option \<Rightarrow> 'a option \<Rightarrow> 'a option" where
  "upd_opt ok new old = (case new of Some v \<Rightarrow> if ok v then Some v else old | None \<Rightarrow> old)"

definition update_profile :: "probe \<Rightarrow> device_profile \<Rightarrow> device_profile" where
  "update_profile pb p = p
     \<lparr>dp_manufacturer := upd_opt (\<lambda>v. v \<noteq> []) (pb_manufacturer pb) (dp_manufacturer p),
      dp_model := upd_opt (\<lambda>v. v \<noteq> []) (pb_model pb) (dp_model p),
      dp_serial := upd_opt (\<lambda>v. v \<noteq> []) (pb_serial pb) (dp_serial p),
      dp_android_version := upd_opt (\<lambda>v. v \<noteq> []) (pb_android_version pb) (dp_android_version p),
      dp_bootloader_locked := upd_opt (\<lambda>_. True) (pb_bootloader_locked pb) (dp_bootloader_locked p),
      dp_verified_boot_state := upd_opt (\<lambda>v. v \<noteq> []) (pb_verified_boot_state pb) (dp_verified_boot_state p),
      dp_slot_info := upd_opt (\<lambda>v. v \<noteq> []) (pb_slot_info pb) (dp_slot_info p),
      dp_battery := upd_opt (\<lambda>v. v \<noteq> []) (pb_battery pb) (dp_battery p),
      dp_transport := (case pb_transport pb of Some t \<Rightarrow> t | None \<Rightarrow> dp_transport p),
      dp_device_codename := str_or (pb_device_codename pb) (dp_device_codename p),
      dp_raw_probe_data := dmerge (dp_raw_probe_data p) (pb_data pb)\<rparr>"

definition finish_profile :: "probe \<Rightarrow> device_profile \<Rightarrow> device_profile" where
  "finish_profile pb p = apply_form_factor_inference (promote_hardware_snapshot p pb) (pb_data pb)"

definition new_profile :: "string \<Rightarrow> device_fingerprint \<Rightarrow> transport \<Rightarrow> probe \<Rightarrow> device_profile" where
  "new_profile name fp transport pb =
     \<lparr>dp_session_id = name, dp_canonical_name = name,
      dp_device_codename = str_or (pb_device_codename pb) (generate_codename fp),
      dp_fingerprint = df_stable_key fp,
      dp_manufacturer = pb_manufacturer pb, dp_model = pb_model pb, dp_serial = pb_serial pb,
      dp_android_version = pb_android_version pb, dp_transport = transport,
      dp_bootloader_locked = pb_bootloader_locked pb,
      dp_verified_boot_state = pb_verified_boot_state pb,
      dp_form_factor = FF_UNKNOWN, dp_form_factor_source = ''insufficient_evidence'',
      dp_form_factor_confidence = 0, dp_form_factor_override = None,
      dp_slot_info = pb_slot_info pb, dp_battery = pb_battery pb, dp_raw_probe_data = pb_data pb\<rparr>"

definition new_session_state :: "string \<Rightarrow> string \<Rightarrow> session_state" where
  "new_session_state name now = (default_session_state name now)
     \<lparr>ss_state := DEVICE_ATTACHED, ss_support_status := SUP_RESEARCH_ONLY,
      ss_history := [\<lparr>tr_from_state = IDLE, tr_to_state = DEVICE_ATTACHED,
        tr_reason = ''Device detected'', tr_timestamp = now\<rparr>]\<rparr>"

definition resume_session :: "string \<Rightarrow> probe \<Rightarrow> disk \<Rightarrow> string res \<times> disk" where
  "resume_session dir pb dk =
     (case load_device_profile dk dir of
        Inl e \<Rightarrow> (Inl e, dk)
      | Inr profile \<Rightarrow> (Inr dir, write_device_profile dir (finish_profile pb (update_profile pb profile)) dk))"

definition create_session ::
    "string \<Rightarrow> string \<Rightarrow> string \<Rightarrow> device_fingerprint \<Rightarrow> transport \<Rightarrow> probe \<Rightarrow> disk \<Rightarrow> disk" where
  "create_session now name dir fp transport pb dk =
     write_destructive_approval now dir (default_destructive_approval name now)
       (write_os_goals now dir (default_os_goals name now)
         (write_user_profile now dir (default_user_profile name now)
           (write_session_state now dir (new_session_state name now)
             (write_device_profile dir (finish_profile pb (new_profile name fp transport pb))
               (seed_session_from_master dir (dk_mkdir dir dk))))))"

definition create_or_resume ::
    "(string \<Rightarrow> string) \<Rightarrow> string \<Rightarrow> string \<Rightarrow> jdict \<Rightarrow> disk \<Rightarrow> string res \<times> disk" where
  "create_or_resume sha256 now date_part probe_data dk =
     (case read_probe probe_data of
        Inl e \<Rightarrow> (Inl e, dk)
      | Inr pb \<Rightarrow>
         let fp = build_fingerprint sha256 (pb_manufacturer pb) (pb_model pb) (pb_serial pb)
                    (case pb_transport pb of Some t \<Rightarrow> t | None \<Rightarrow> T_UNKNOWN);
             name = canonical_session_name fp date_part;
             own_dir = device_dir name
         in if dk_exists dk own_dir then resume_session own_dir pb dk
            else (case find_upgrade_candidate dk probe_data of
                    Inl e \<Rightarrow> (Inl e, dk)
                  | Inr (Some dir) \<Rightarrow> resume_session dir pb dk
                  | Inr None \<Rightarrow>
                     (case pb_transport pb of
                        None \<Rightarrow> (Inl (TypeError ''transport''), dk)
                      | Some t \<Rightarrow> (Inr own_dir, create_session now name own_dir fp t pb dk))))"

section \<open>Waiting sessions, transitions, notes\<close>

fun find_waiting :: "disk \<Rightarrow> string \<Rightarrow> string list \<Rightarrow> string option res" where
  "find_waiting dk serial [] = Inr None"
| "find_waiting dk serial (dir # dirs) =
     (case read_dict dk (sub dir ''session-state.json'') of
        Inl e \<Rightarrow> find_waiting dk serial dirs
      | Inr state_data \<Rightarrow>
          if dget0 state_data ''state'' \<noteq> JStr (session_state_name_value QUESTION_GATE)
          then find_waiting dk serial dirs
          else (case fread (dk_files dk) (sub dir ''device-profile.json'') of
                  Some (FJson (JObj profile_data)) \<Rightarrow>
                    if dstr_or profile_data ''serial'' [] = serial then Inr (Some dir)
                    else find_waiting dk serial dirs
                | Some (FJson _) \<Rightarrow> Inl (AttributeError ''get'')
                | _ \<Rightarrow> find_waiting dk serial dirs))"

definition find_waiting_session :: "disk \<Rightarrow> string \<Rightarrow> string option res" where
  "find_waiting_session dk serial =
     (if serial = [] then Inr None
      else find_waiting dk serial (session_dirs dk ''session-state.json''))"

definition illegal_transition :: "session_state_name \<Rightarrow> session_state_name \<Rightarrow> py_error" where
  "illegal_transition s t =
     ValueError (''Illegal transition SessionStateName.'' @ session_state_name_value s
       @ '' -> SessionStateName.'' @ session_state_name_value t)"

definition push_transition :: "string \<Rightarrow> session_state_name \<Rightarrow> string \<Rightarrow> session_state \<Rightarrow> session_state" where
  "push_transition now target reason st = st
     \<lparr>ss_history := ss_history st @ [\<lparr>tr_from_state = ss_state st, tr_to_state = target,
         tr_reason = reason, tr_timestamp = now\<rparr>],
      ss_state := target\<rparr>"

definition transition :: "string \<Rightarrow> string \<Rightarrow> session_state_name \<Rightarrow> string \<Rightarrow> disk \<Rightarrow> session_state res \<times> disk" where
  "transition now dir target reason dk =
     (case load_session_state now dk dir of
        Inl e \<Rightarrow> (Inl e, dk)
      | Inr st \<Rightarrow>
          if \<not> is_transition_allowed (ss_state st) target
          then (Inl (illegal_transition (ss_state st) target), dk)
          else let st' = push_transition now target reason st
               in (Inr (st'\<lparr>ss_updated_at := now\<rparr>), write_session_state now dir st' dk))"

definition annotate :: "string \<Rightarrow> string \<Rightarrow> string \<Rightarrow> disk \<Rightarrow> session_state res \<times> disk" where
  "annotate now dir note dk =
     (case load_session_state now dk dir of
        Inl e \<Rightarrow> (Inl e, dk)
      | Inr st \<Rightarrow>
          let st' = st\<lparr>ss_notes := ss_notes st @ [note]\<rparr>
          in (Inr (st'\<lparr>ss_updated_at := now\<rparr>), write_session_state now dir st' dk))"

text \<open>\<open>_safe_transition\<close> of \<open>app/core/orchestrator.py\<close>: an illegal target is skipped without a trace.\<close>

definition safe_transition :: "string \<Rightarrow> string \<Rightarrow> session_state_name \<Rightarrow> string \<Rightarrow> disk \<Rightarrow> unit res \<times> disk" where
  "safe_transition now dir target reason dk =
     (case load_session_state now dk dir of
        Inl e \<Rightarrow> (Inl e, dk)
      | Inr st \<Rightarrow>
          if is_transition_allowed (ss_state st) target
          then (case transition now dir target reason dk of
                  (Inl e, dk') \<Rightarrow> (Inl e, dk') | (Inr _, dk') \<Rightarrow> (Inr (), dk'))
          else (Inr (), dk))"

section \<open>Loading after writing\<close>

lemma dk_files_simps [simp]:
  "dk_files (dk_write p j dk) = fwrite p j (dk_files dk)"
  "dk_files (dk_atomic p j dk) = atomic_write_json p j (dk_files dk)"
  "dk_files (dk_mkdir p dk) = dk_files dk"
  "dk_dirs (dk_write p j dk) = dk_dirs dk"
  "dk_dirs (dk_atomic p j dk) = dk_dirs dk"
  by (simp_all add: dk_write_def dk_atomic_def dk_mkdir_def)

lemma load_write_session_state [simp]:
  "load_session_state n (write_session_state now dir st dk) dir = Inr (st\<lparr>ss_updated_at := now\<rparr>)"
  by (simp add: load_session_state_def write_session_state_def session_state_doc.load_save)

lemma load_write_device_profile [simp]:
  "load_device_profile (write_device_profile dir p dk) dir = Inr p"
  by (simp add: load_device_profile_def write_device_profile_def device_profile_doc.load_save)

text \<open>Writing a document under another name leaves the session state as it was.\<close>

definition state_files :: "string \<Rightarrow> string set" where
  "state_files dir = {sub dir ''session-state.json'', tmp_path (sub dir ''session-state.json'')}"

lemma load_session_state_cong:
  "fread (dk_files dk') (sub dir ''session-state.json'') = fread (dk_files dk) (sub dir ''session-state.json'')
    \<Longrightarrow> load_session_state n dk' dir = load_session_state n dk dir"
  by (simp add: load_session_state_def load_doc_def)

lemma load_state_other [simp]:
  "load_session_state n (write_device_profile dir p dk) dir = load_session_state n dk dir"
  "load_session_state n (write_user_profile now dir up dk) dir = load_session_state n dk dir"
  "load_session_state n (write_os_goals now dir g dk) dir = load_session_state n dk dir"
  "load_session_state n (write_destructive_approval now dir a dk) dir = load_session_state n dk dir"
  "load_session_state n (write_flash_plan now dir fp dk) dir = load_session_state n dk dir"
  by (rule load_session_state_cong,
      simp add: write_device_profile_def write_user_profile_def write_os_goals_def
        write_destructive_approval_def write_flash_plan_def fread_fwrite fread_atomic_write tmp_path_def)+

lemma load_state_artifact:
  assumes "rel \<noteq> ''session-state.json''" "rel @ ''.tmp'' \<noteq> ''session-state.json''"
  shows "load_session_state n (write_runtime_artifact dir rel d dk) dir = load_session_state n dk dir"
  by (rule load_session_state_cong)
     (use assms in \<open>auto simp add: write_runtime_artifact_def fread_atomic_write tmp_path_def\<close>)

section \<open>The history of a session\<close>

text \<open>
  A well-formed session: its history starts at \<open>IDLE\<close>, each record starts where the one
  before it ended, every step is in the table, and the state is where the last one ended.
\<close>

definition wf_session :: "session_state \<Rightarrow> bool" where
  "wf_session st \<longleftrightarrow>
     (let tos = map tr_to_state (ss_history st) in
      map tr_from_state (ss_history st) = butlast (IDLE # tos)
      \<and> legal_path IDLE tos \<and> last (IDLE # tos) = ss_state st)"

lemma wf_new_session_state [simp]: "wf_session (new_session_state name now)"
  by (simp add: wf_session_def new_session_state_def)

lemma wf_push_transition:
  assumes "wf_session st" "is_transition_allowed (ss_state st) target"
  shows "wf_session (push_transition now target reason st)"
proof -
  let ?tos = "map tr_to_state (ss_history st)"
  have froms: "butlast (IDLE # ?tos @ [target]) = butlast (IDLE # ?tos) @ [last (IDLE # ?tos)]"
    by (simp add: butlast_append)
  have end': "last (IDLE # ?tos @ [target]) = target" by simp
  from assms show ?thesis
    unfolding wf_session_def push_transition_def Let_def
    by (simp add: legal_path_snoc froms end' del: butlast.simps last.simps)
qed

lemma wf_session_cong:
  "ss_state st' = ss_state st \<Longrightarrow> ss_history st' = ss_history st \<Longrightarrow> wf_session st' = wf_session st"
  by (simp add: wf_session_def)

definition session_ok :: "disk \<Rightarrow> string \<Rightarrow> bool" where
  "session_ok dk dir \<longleftrightarrow> (\<exists>st. (\<forall>n. load_session_state n dk dir = Inr st) \<and> wf_session st)"

lemma session_okI:
  "(\<And>n. load_session_state n dk dir = Inr st) \<Longrightarrow> wf_session st \<Longrightarrow> session_ok dk dir"
  by (auto simp: session_ok_def)

lemma session_ok_cong:
  "(\<And>n. load_session_state n dk' dir = load_session_state n dk dir) \<Longrightarrow> session_ok dk dir \<Longrightarrow> session_ok dk' dir"
  by (auto simp: session_ok_def)

section \<open>Runs of one session\<close>

lemma last_char_neq: "last a \<noteq> last b \<Longrightarrow> a \<noteq> b"
  by auto

lemma tmp_neq_state [simp]:
  "tmp_path p \<noteq> dir @ ''/session-state.json''" "dir @ ''/session-state.json'' \<noteq> tmp_path p"
proof -
  show "tmp_path p \<noteq> dir @ ''/session-state.json''"
    by (rule last_char_neq) (simp add: tmp_path_def)
  then show "dir @ ''/session-state.json'' \<noteq> tmp_path p" by metis
qed

lemma load_state_other_session:
  assumes "dir' \<noteq> dir"
  shows "load_session_state n (write_session_state now dir' st dk) dir = load_session_state n dk dir"
  using assms by (intro load_session_state_cong)
    (simp add: write_session_state_def fread_atomic_write)

lemma resume_state:
  "load_session_state n (snd (resume_session dir pb dk)) dir = load_session_state n dk dir"
  by (simp add: resume_session_def split: sum.splits)

lemma load_transition:
  assumes "load_session_state now dk dir = Inr st" "is_transition_allowed (ss_state st) target"
  shows "load_session_state n (snd (transition now dir target reason dk)) dir
    = Inr (push_transition now target reason st\<lparr>ss_updated_at := now\<rparr>)"
  using assms by (simp add: transition_def Let_def)

lemma transition_refused:
  "(\<nexists>st. load_session_state now dk dir = Inr st \<and> is_transition_allowed (ss_state st) target)
    \<Longrightarrow> snd (transition now dir target reason dk) = dk"
  by (auto simp: transition_def split: sum.splits)

lemma safe_transition_disk:
  "snd (safe_transition now dir target reason dk) = snd (transition now dir target reason dk)"
  by (auto simp: safe_transition_def transition_def Let_def split: sum.splits)

lemma ok_transition:
  assumes "session_ok dk dir"
  shows "session_ok (snd (transition now dir target reason dk)) dir"
proof (cases "\<exists>st. load_session_state now dk dir = Inr st \<and> is_transition_allowed (ss_state st) target")
  case True
  then obtain st where st: "load_session_state now dk dir = Inr st" "is_transition_allowed (ss_state st) target"
    by blast
  with assms have "wf_session st" by (auto simp: session_ok_def)
  then have "wf_session (push_transition now target reason st\<lparr>ss_updated_at := now\<rparr>)"
    using wf_push_transition [OF _ st(2)] wf_session_cong [of "push_transition now target reason st\<lparr>ss_updated_at := now\<rparr>"]
    by simp
  then show ?thesis by (rule session_okI [OF load_transition [OF st]])
qed (use assms transition_refused in simp)

lemma ok_write_state:
  assumes "session_ok dk dir" "load_session_state n dk dir = Inr st"
    and "ss_state st' = ss_state st" "ss_history st' = ss_history st"
  shows "session_ok (write_session_state now dir st' dk) dir"
proof (rule session_okI)
  show "load_session_state m (write_session_state now dir st' dk) dir = Inr (st'\<lparr>ss_updated_at := now\<rparr>)" for m
    by simp
  from assms have "wf_session st" by (auto simp: session_ok_def)
  with assms(3,4) show "wf_session (st'\<lparr>ss_updated_at := now\<rparr>)" by (simp add: wf_session_def)
qed

lemma ok_annotate:
  assumes "session_ok dk dir"
  shows "session_ok (snd (annotate now dir note dk)) dir"
proof (cases "load_session_state now dk dir")
  case (Inr st)
  then show ?thesis
    using ok_write_state [OF assms Inr, of "st\<lparr>ss_notes := ss_notes st @ [note]\<rparr>" now]
    by (simp add: annotate_def Let_def)
qed (use assms in \<open>simp add: annotate_def\<close>)

text \<open>
  The steps of a session: its own operations, the writes of the other documents, the
  updates of the fields beside \<open>state\<close> and \<open>history\<close> that \<open>app/core/orchestrator.py\<close> and
  \<open>app/gui/control_app.py\<close> make, and the writes of another session.
\<close>

inductive session_step :: "string \<Rightarrow> disk \<Rightarrow> disk \<Rightarrow> bool" for dir where
  step_transition: "session_step dir dk (snd (transition now dir target reason dk))"
| step_safe: "session_step dir dk (snd (safe_transition now dir target reason dk))"
| step_annotate: "session_step dir dk (snd (annotate now dir note dk))"
| step_resume: "session_step dir dk (snd (resume_session dir pb dk))"
| step_fields: "load_session_state n dk dir = Inr st \<Longrightarrow> ss_state st' = ss_state st \<Longrightarrow> ss_history st' = ss_history st
    \<Longrightarrow> session_step dir dk (write_session_state now dir st' dk)"
| step_profile: "session_step dir dk (write_user_profile now dir up dk)"
| step_goals: "session_step dir dk (write_os_goals now dir g dk)"
| step_approval: "session_step dir dk (write_destructive_approval now dir a dk)"
| step_plan: "session_step dir dk (write_flash_plan now dir fp dk)"
| step_artifact: "rel \<noteq> ''session-state.json'' \<Longrightarrow> session_step dir dk (write_runtime_artifact dir rel d dk)"
| step_other: "dir' \<noteq> dir \<Longrightarrow> session_step dir dk (write_session_state now dir' st dk)"

inductive_cases session_stepE: "session_step dir dk dk'"

lemma load_state_artifact':
  "rel \<noteq> ''session-state.json'' \<Longrightarrow>
    load_session_state n (write_runtime_artifact dir rel d dk) dir = load_session_state n dk dir"
  by (rule load_session_state_cong) (simp add: write_runtime_artifact_def fread_atomic_write)

lemma ok_step:
  assumes "session_step dir dk dk'" "session_ok dk dir"
  shows "session_ok dk' dir"
  using assms
proof cases
  case step_fields
  with assms(2) ok_write_state show ?thesis by metis
qed (auto simp: ok_transition ok_annotate safe_transition_disk resume_state load_state_artifact'
    load_state_other_session intro: session_ok_cong [OF _ assms(2)] assms(2))

text \<open>The disks a session can see: its creation, then steps.\<close>

inductive session_reachable :: "string \<Rightarrow> disk \<Rightarrow> bool" for dir where
  reach_create: "session_reachable dir (create_session now name dir fp t pb dk)"
| reach_step: "session_reachable dir dk \<Longrightarrow> session_step dir dk dk' \<Longrightarrow> session_reachable dir dk'"

lemma ok_create: "session_ok (create_session now name dir fp t pb dk) dir"
  by (rule session_okI [where st = "new_session_state name now\<lparr>ss_updated_at := now\<rparr>"])
     (simp_all add: create_session_def wf_session_def new_session_state_def)

lemma ok_reachable: "session_reachable dir dk \<Longrightarrow> session_ok dk dir"
  by (induction rule: session_reachable.induct) (auto intro: ok_create ok_step)

lemma reachable_state:
  assumes "session_reachable dir dk"
  obtains st where "\<And>n. load_session_state n dk dir = Inr st" "wf_session st"
  using ok_reachable [OF assms] by (auto simp: session_ok_def)

text \<open>Every legal path from the state of a session is one the session can take.\<close>

lemma path_realisable:
  assumes "session_reachable dir dk" "\<And>n. load_session_state n dk dir = Inr st" "legal_path (ss_state st) ts"
  shows "\<exists>dk' st'. session_reachable dir dk' \<and> (\<forall>n. load_session_state n dk' dir = Inr st')
    \<and> ss_state st' = last (ss_state st # ts)"
  using assms
proof (induction ts arbitrary: dk st)
  case (Cons t ts)
  let ?dk = "snd (transition [] dir t [] dk)"
  let ?st = "push_transition [] t [] st\<lparr>ss_updated_at := []\<rparr>"
  have "session_reachable dir ?dk" by (rule reach_step [OF Cons.prems(1) step_transition])
  moreover have "load_session_state n ?dk dir = Inr ?st" for n
    using Cons.prems by (intro load_transition) auto
  moreover have state: "ss_state ?st = t" by (simp add: push_transition_def)
  ultimately show ?case
    using Cons.IH [of ?dk ?st] Cons.prems(3) by simp
qed auto

section \<open>Properties\<close>

text \<open>A transition follows the table: an allowed target is appended to the history with
  its origin, becomes the state, is what the next load returns, and no document but the
  state's is touched; a target that is not allowed raises and leaves the disk as it was.\<close>

theorem transition_spec:
  "case load_session_state now dk dir of
     Inl e \<Rightarrow> transition now dir target reason dk = (Inl e, dk)
   | Inr st \<Rightarrow>
       if is_transition_allowed (ss_state st) target
       then \<exists>st'. fst (transition now dir target reason dk) = Inr st'
         \<and> load_session_state n (snd (transition now dir target reason dk)) dir = Inr st'
         \<and> ss_state st' = target
         \<and> ss_history st' = ss_history st @ [\<lparr>tr_from_state = ss_state st, tr_to_state = target,
              tr_reason = reason, tr_timestamp = now\<rparr>]
         \<and> (\<forall>p. p \<notin> state_files dir \<longrightarrow>
              fread (dk_files (snd (transition now dir target reason dk))) p = fread (dk_files dk) p)
       else transition now dir target reason dk = (Inl (illegal_transition (ss_state st) target), dk)"
  by (auto simp: transition_def Let_def push_transition_def state_files_def write_session_state_def
      load_session_state_def session_state_doc.load_save fread_atomic_write split: sum.splits)

theorem transition_spec_witness:
  "\<exists>st'. fst (transition ''n'' ''devices/d'' INTAKE ''r''
       (write_session_state ''n'' ''devices/d'' (new_session_state ''d'' ''n'') \<lparr>dk_files = [], dk_dirs = []\<rparr>)) = Inr st'
     \<and> ss_state st' = INTAKE"
  using transition_spec [where n = "''n''" and now = "''n''" and dir = "''devices/d''" and target = INTAKE
      and reason = "''r''" and
      dk = "write_session_state ''n'' ''devices/d'' (new_session_state ''d'' ''n'') \<lparr>dk_files = [], dk_dirs = []\<rparr>"]
  by (auto simp: new_session_state_def)

text \<open>C2. Whatever operations a session goes through after its creation, its stored state
  can be loaded, its history is a legal path from \<open>IDLE\<close> in which every record starts where
  the one before ended, and the state is where the history ends.\<close>

theorem session_history_legal:
  assumes "session_reachable dir dk"
  shows "\<exists>st. load_session_state n dk dir = Inr st
    \<and> map tr_from_state (ss_history st) = butlast (IDLE # map tr_to_state (ss_history st))
    \<and> legal_path IDLE (map tr_to_state (ss_history st))
    \<and> last (IDLE # map tr_to_state (ss_history st)) = ss_state st"
  using reachable_state [OF assms] by (metis wf_session_def)

definition demo_fingerprint :: device_fingerprint where
  "demo_fingerprint = \<lparr>df_manufacturer = Some ''samsung'', df_model = Some ''SM-T720'', df_serial = Some ''R52'',
     df_transport = T_USB_ADB, df_short_fingerprint = ''0123abcd'', df_stable_key = ''0123abcdef''\<rparr>"

definition demo_probe :: probe where
  "demo_probe = \<lparr>pb_manufacturer = Some ''samsung'', pb_model = Some ''SM-T720'', pb_serial = Some ''R52'',
     pb_android_version = None, pb_bootloader_locked = None, pb_verified_boot_state = None,
     pb_slot_info = None, pb_battery = None, pb_transport = Some T_USB_ADB, pb_device_codename = None,
     pb_hardware_snapshot = [], pb_data = []\<rparr>"

lemma demo_reachable:
  "session_reachable ''devices/d''
     (snd (transition ''t'' ''devices/d'' INTAKE ''next''
        (create_session ''t'' ''d'' ''devices/d'' demo_fingerprint T_USB_ADB demo_probe \<lparr>dk_files = [], dk_dirs = []\<rparr>)))"
  by (rule reach_step [OF reach_create step_transition])

theorem session_history_legal_witness:
  "\<exists>st. load_session_state ''n'' (snd (transition ''t'' ''devices/d'' INTAKE ''next''
        (create_session ''t'' ''d'' ''devices/d'' demo_fingerprint T_USB_ADB demo_probe \<lparr>dk_files = [], dk_dirs = []\<rparr>)))
      ''devices/d'' = Inr st \<and> last (IDLE # map tr_to_state (ss_history st)) = ss_state st"
  using session_history_legal [OF demo_reachable, of "''n''"] by blast

text \<open>C3. A session that is flashing has, in the history it keeps on disk, either prepared
  the flash or passed backup, preview, interactive verification and install approval.\<close>

theorem stored_flash_gated:
  assumes "session_reachable dir dk" and "load_session_state n dk dir = Inr st" and "ss_state st = FLASH"
  shows "FLASH_PREP \<in> set (map tr_to_state (ss_history st))
    \<or> {BACKUP_READY, PREVIEW_BUILD, INTERACTIVE_VERIFY, INSTALL_APPROVAL} \<subseteq> set (map tr_to_state (ss_history st))"
proof -
  from assms have wf: "wf_session st" by (metis reachable_state sum.inject(2))
  then have path: "legal_path IDLE (map tr_to_state (ss_history st))"
    and fl: "last (IDLE # map tr_to_state (ss_history st)) = FLASH"
    using assms(3) by (auto simp: wf_session_def Let_def)
  show ?thesis
    using flash_entry [OF path fl] .
qed

lemma flashing_session:
  "\<exists>dk st. session_reachable dir dk \<and> load_session_state n dk dir = Inr st \<and> ss_state st = FLASH"
proof -
  let ?dk = "create_session [] [] dir demo_fingerprint T_USB_ADB demo_probe \<lparr>dk_files = [], dk_dirs = []\<rparr>"
  have "load_session_state n ?dk dir = Inr (new_session_state [] []\<lparr>ss_updated_at := []\<rparr>)" for n
    by (simp add: create_session_def)
  from path_realisable [OF reach_create this, of "[ACCESS_ENABLEMENT, QUESTION_GATE, FLASH_PREP, FLASH]"]
  show ?thesis by (auto simp: new_session_state_def)
qed

theorem stored_flash_gated_witness:
  "\<exists>dk st. session_reachable ''devices/d'' dk \<and> load_session_state ''n'' dk ''devices/d'' = Inr st \<and> ss_state st = FLASH
     \<and> (FLASH_PREP \<in> set (map tr_to_state (ss_history st))
     \<or> {BACKUP_READY, PREVIEW_BUILD, INTERACTIVE_VERIFY, INSTALL_APPROVAL} \<subseteq> set (map tr_to_state (ss_history st)))"
proof -
  obtain dk st where r: "session_reachable ''devices/d'' dk" and l: "load_session_state ''n'' dk ''devices/d'' = Inr st"
    and s: "ss_state st = FLASH"
    using flashing_session by blast
  from stored_flash_gated [OF r l s] r l s show ?thesis by (intro exI conjI)
qed

section \<open>Creation and resumption\<close>

lemma snapshot_keeps:
  "dp_session_id (promote_hardware_snapshot p pb) = dp_session_id p"
  "dp_canonical_name (promote_hardware_snapshot p pb) = dp_canonical_name p"
  "dp_fingerprint (promote_hardware_snapshot p pb) = dp_fingerprint p"
  "dp_serial (promote_hardware_snapshot p pb) = dp_serial p"
  "dp_form_factor_override (promote_hardware_snapshot p pb) = dp_form_factor_override p"
  "dp_bootloader_locked p = Some b \<Longrightarrow> dp_bootloader_locked (promote_hardware_snapshot p pb) = Some b"
  "dp_verified_boot_state p = Some s \<Longrightarrow> s \<noteq> [] \<Longrightarrow>
     dp_verified_boot_state (promote_hardware_snapshot p pb) = Some s"
  "dp_slot_info p = Some d \<Longrightarrow> d \<noteq> [] \<Longrightarrow> dp_slot_info (promote_hardware_snapshot p pb) = Some d"
  "dp_battery p = Some d \<Longrightarrow> d \<noteq> [] \<Longrightarrow> dp_battery (promote_hardware_snapshot p pb) = Some d"
  by (simp_all add: promote_hardware_snapshot_def Let_def fill_lock_def fill_boot_state_def fill_slot_def
      fill_battery_def opt_falsy_def)

lemma form_factor_keeps:
  "dp_session_id (apply_form_factor_inference p d) = dp_session_id p"
  "dp_canonical_name (apply_form_factor_inference p d) = dp_canonical_name p"
  "dp_fingerprint (apply_form_factor_inference p d) = dp_fingerprint p"
  "dp_serial (apply_form_factor_inference p d) = dp_serial p"
  "dp_bootloader_locked (apply_form_factor_inference p d) = dp_bootloader_locked p"
  "dp_verified_boot_state (apply_form_factor_inference p d) = dp_verified_boot_state p"
  "dp_slot_info (apply_form_factor_inference p d) = dp_slot_info p"
  "dp_battery (apply_form_factor_inference p d) = dp_battery p"
  by (auto simp: apply_form_factor_inference_def split: option.splits prod.splits)

lemmas profile_keeps = snapshot_keeps form_factor_keeps

lemma finish_keeps_slot:
  "\<not> opt_falsy (dp_slot_info p) \<Longrightarrow> dp_slot_info (finish_profile pb p) = dp_slot_info p"
  by (cases "dp_slot_info p") (simp_all add: finish_profile_def profile_keeps opt_falsy_def)

lemma finish_keeps_battery:
  "\<not> opt_falsy (dp_battery p) \<Longrightarrow> dp_battery (finish_profile pb p) = dp_battery p"
  by (cases "dp_battery p") (simp_all add: finish_profile_def profile_keeps opt_falsy_def)

lemma update_keeps:
  "opt_falsy (pb_slot_info pb) \<Longrightarrow> dp_slot_info (update_profile pb p) = dp_slot_info p"
  "opt_falsy (pb_battery pb) \<Longrightarrow> dp_battery (update_profile pb p) = dp_battery p"
  by (cases "pb_slot_info pb"; cases "pb_battery pb"; simp add: update_profile_def upd_opt_def opt_falsy_def)+

lemma load_write_approval [simp]:
  "load_destructive_approval n dir (write_destructive_approval now dir a dk)
     = (Inr (a\<lparr>da_updated_at := now\<rparr>), write_destructive_approval now dir a dk)"
  by (simp add: load_destructive_approval_def write_destructive_approval_def approval_doc.load_save
      dk_exists_def fexists_def fread_fwrite)

lemma load_write_profile_other [simp]:
  "load_device_profile (write_destructive_approval now dir a dk) dir = load_device_profile dk dir"
  "load_device_profile (write_os_goals now dir g dk) dir = load_device_profile dk dir"
  "load_device_profile (write_user_profile now dir u dk) dir = load_device_profile dk dir"
  "load_device_profile (write_session_state now dir st dk) dir = load_device_profile dk dir"
  by (simp_all add: load_device_profile_def load_doc_def write_destructive_approval_def write_os_goals_def
      write_user_profile_def write_session_state_def fread_fwrite fread_atomic_write tmp_path_def)

lemma hex_safe:
  "set s \<subseteq> set ''0123456789abcdef-'' \<Longrightarrow> CHR ''/'' \<notin> set s \<and> CHR ''.'' \<notin> set s \<and> CHR 0x00 \<notin> set s"
  by auto

section \<open>Properties of creation and resumption\<close>

text \<open>A device that comes back keeps its session: only the profile document changes, the
  identity, the operator's form factor and every known lock state, slot and battery value that
  the new probe does not carry survive, and an unreadable profile leaves the disk untouched.\<close>

theorem resume_spec:
  "case load_device_profile dk dir of
     Inl e \<Rightarrow> resume_session dir pb dk = (Inl e, dk)
   | Inr p \<Rightarrow> \<exists>p'. fst (resume_session dir pb dk) = Inr dir
       \<and> load_device_profile (snd (resume_session dir pb dk)) dir = Inr p'
       \<and> dp_session_id p' = dp_session_id p \<and> dp_canonical_name p' = dp_canonical_name p
       \<and> dp_fingerprint p' = dp_fingerprint p \<and> dp_form_factor_override p' = dp_form_factor_override p
       \<and> (pb_bootloader_locked pb = None \<and> dp_bootloader_locked p \<noteq> None
            \<longrightarrow> dp_bootloader_locked p' = dp_bootloader_locked p)
       \<and> (opt_falsy (pb_slot_info pb) \<and> \<not> opt_falsy (dp_slot_info p) \<longrightarrow> dp_slot_info p' = dp_slot_info p)
       \<and> (opt_falsy (pb_battery pb) \<and> \<not> opt_falsy (dp_battery p) \<longrightarrow> dp_battery p' = dp_battery p)
       \<and> (\<forall>q. q \<noteq> sub dir ''device-profile.json'' \<longrightarrow>
            fread (dk_files (snd (resume_session dir pb dk))) q = fread (dk_files dk) q)"
proof (cases "load_device_profile dk dir")
  case (Inr p)
  let ?p = "finish_profile pb (update_profile pb p)"
  have "resume_session dir pb dk = (Inr dir, write_device_profile dir ?p dk)"
    using Inr by (simp add: resume_session_def)
  moreover have "dp_session_id ?p = dp_session_id p" "dp_canonical_name ?p = dp_canonical_name p"
    "dp_fingerprint ?p = dp_fingerprint p" "dp_form_factor_override ?p = dp_form_factor_override p"
    by (simp_all add: finish_profile_def profile_keeps update_profile_def)
  moreover have "dp_bootloader_locked ?p = dp_bootloader_locked p"
    if "pb_bootloader_locked pb = None" "dp_bootloader_locked p \<noteq> None"
    using that by (auto simp: finish_profile_def profile_keeps update_profile_def upd_opt_def)
  moreover have "dp_slot_info ?p = dp_slot_info p" if "opt_falsy (pb_slot_info pb)" "\<not> opt_falsy (dp_slot_info p)"
    using finish_keeps_slot [of "update_profile pb p" pb] update_keeps(1) [OF that(1), of p] that(2) by simp
  moreover have "dp_battery ?p = dp_battery p" if "opt_falsy (pb_battery pb)" "\<not> opt_falsy (dp_battery p)"
    using finish_keeps_battery [of "update_profile pb p" pb] update_keeps(2) [OF that(1), of p] that(2) by simp
  moreover have "fread (dk_files (write_device_profile dir ?p dk)) q = fread (dk_files dk) q"
    if "q \<noteq> sub dir ''device-profile.json''" for q
    using that by (simp add: write_device_profile_def fread_fwrite)
  ultimately show ?thesis using Inr by simp
qed (simp add: resume_session_def)

theorem resume_spec_witness:
  "\<exists>p'. load_device_profile (snd (resume_session ''devices/d'' demo_probe
      (write_device_profile ''devices/d'' (new_profile ''d'' demo_fingerprint T_USB_ADB demo_probe)
        \<lparr>dk_files = [], dk_dirs = []\<rparr>))) ''devices/d'' = Inr p' \<and> dp_session_id p' = ''d''"
  using resume_spec [where dir = "''devices/d''" and pb = demo_probe and
      dk = "write_device_profile ''devices/d'' (new_profile ''d'' demo_fingerprint T_USB_ADB demo_probe)
        \<lparr>dk_files = [], dk_dirs = []\<rparr>"]
  by (auto simp: new_profile_def)

text \<open>A new session starts attached, with nothing approved: its stored state is
  \<open>DEVICE_ATTACHED\<close> with one history record, its stored approval approves nothing, and its
  stored profile is the one made from the probe.\<close>

theorem new_session_documents:
  "load_session_state n (create_session now name dir fp t pb dk) dir = Inr (new_session_state name now)
   \<and> fst (load_destructive_approval n dir (create_session now name dir fp t pb dk))
       = Inr (default_destructive_approval name now)
   \<and> \<not> da_approved (default_destructive_approval name now)
   \<and> \<not> da_restore_path_confirmed (default_destructive_approval name now)
   \<and> load_device_profile (create_session now name dir fp t pb dk) dir
       = Inr (finish_profile pb (new_profile name fp t pb))"
  by (simp add: create_session_def new_session_state_def default_session_state_def
      default_destructive_approval_def)

text \<open>The name of a session directory is one path component: with a hexadecimal digest
  and a date of digits and dashes, no manufacturer or model string, whatever it contains, can
  make it leave \<open>devices/\<close> or name a hidden file.\<close>

theorem session_name_stays_inside:
  assumes "\<And>s. set (sha256 s) \<subseteq> set ''0123456789abcdef-''" and "set date_part \<subseteq> set ''0123456789abcdef-''"
  shows "safe_component (canonical_session_name (build_fingerprint sha256 manufacturer model serial t) date_part)"
proof -
  have short: "set (df_short_fingerprint (build_fingerprint sha256 manufacturer model serial t))
      \<subseteq> set ''0123456789abcdef-''"
    using assms(1) set_take_subset by (fastforce simp: build_fingerprint_def Let_def)
  show ?thesis
    using hex_safe [OF short] hex_safe [OF assms(2)] safe_slugify
    by (auto simp: canonical_session_name_def safe_component_def)
qed

theorem session_name_stays_inside_witness:
  "safe_component (canonical_session_name
     (build_fingerprint (\<lambda>_. ''0123456789'') (Some ''../../etc'') (Some ''a/b'') None T_USB_ADB) ''20260101'')"
  by (rule session_name_stays_inside) auto

text \<open>A session reported as waiting for a device is one whose stored state is
  \<open>QUESTION_GATE\<close> and whose stored profile has that serial; without a serial nothing waits.\<close>

lemma find_waiting_sound:
  "find_waiting dk serial dirs = Inr (Some dir) \<Longrightarrow>
     dir \<in> set dirs \<and>
     (\<exists>sd pd. read_dict dk (sub dir ''session-state.json'') = Inr sd
       \<and> dget0 sd ''state'' = JStr (session_state_name_value QUESTION_GATE)
       \<and> fread (dk_files dk) (sub dir ''device-profile.json'') = Some (FJson (JObj pd))
       \<and> dstr_or pd ''serial'' [] = serial)"
  by (induction dk serial dirs rule: find_waiting.induct)
     (auto split: sum.splits if_splits option.splits doc.splits json.splits)

end
