(* ===== verification/Policy_Guard.thy ===== *)
theory Policy_Guard
  imports Models
begin

text \<open>
  \<open>app/core/policy_guard.py\<close> and \<open>app/core/policy.py\<close>: the gates that say whether a session may
  install, go on without the operator, or modify itself, and the policy document. A gate
  collects the messages of the requirements that fail. \<open>Path.resolve\<close> depends on the file
  system (links, the working directory) and is the argument \<open>resolve\<close> of the definitions
  that call it.
\<close>

section \<open>Gates\<close>

definition missing_if :: "bool \<Rightarrow> string \<Rightarrow> string list" where
  "missing_if c msg = (if c then [msg] else [])"

definition install_missing ::
    "policy_model \<Rightarrow> flash_plan \<Rightarrow> destructive_approval \<Rightarrow> jdict \<Rightarrow> string list" where
  "install_missing policy plan approval backup_plan =
     missing_if (backup_plan = []) ''Pre-wipe backup bundle has not been captured.''
     @ missing_if (\<not> fp_artifacts_ready plan)
         ''A flashable artifact bundle has not been staged for this session.''
     @ missing_if (pol_require_restore_path policy \<and> \<not> fp_restore_path_available plan)
         ''A restore path is not yet feasible for this device path.''
     @ missing_if (pol_require_restore_path policy \<and> \<not> da_restore_path_confirmed approval)
         ''Operator has not confirmed the restore path.''
     @ missing_if (pol_destructive_ops_require_approval policy \<and> \<not> da_approved approval)
         ''Explicit destructive approval has not been granted.''
     @ missing_if (pol_require_explicit_wipe_phrase policy
           \<and> strip (da_confirmation_phrase approval) \<noteq> ''WIPE_AND_REBUILD'')
         ''The wipe confirmation phrase is missing or incorrect.''"

definition install_consequences :: "string list" where
  "install_consequences =
     [''User data may be wiped.'',
      ''An interrupted install may require manual recovery tooling.'',
      ''Restore depends on the recorded backup bundle and available vendor images.'']"

definition evaluate_install_gate ::
    "string \<Rightarrow> policy_model \<Rightarrow> flash_plan \<Rightarrow> destructive_approval \<Rightarrow> jdict \<Rightarrow> approval_gate" where
  "evaluate_install_gate now policy plan approval backup_plan =
     (let missing = install_missing policy plan approval backup_plan
      in \<lparr>ag_action = ''wipe_and_install'', ag_allowed = (missing = []),
          ag_requires_explicit_approval = True,
          ag_reason = (if missing = [] then ''Install can proceed.''
            else ''Install remains blocked until deterministic safety requirements are satisfied.''),
          ag_missing_requirements = missing, ag_consequences = install_consequences,
          ag_generated_at = now\<rparr>)"

definition evaluate_research_gate :: "string \<Rightarrow> jdict \<Rightarrow> approval_gate res" where
  "evaluate_research_gate now blocker =
     (let machine_solvable = truthy (dget0 blocker ''machine_solvable'')
      in bindr (if machine_solvable then Inr [] else as_strs (dget blocker ''user_steps'' (JList []))) (\<lambda>steps.
         Inr \<lparr>ag_action = ''autonomous_runtime_progress'', ag_allowed = machine_solvable,
           ag_requires_explicit_approval = False,
           ag_reason = (if machine_solvable then ''ForgeOS should continue autonomous remediation.''
             else ''ForgeOS must pause for a physical action, missing artifact, or approval boundary.''),
           ag_missing_requirements = steps, ag_consequences = [], ag_generated_at = now\<rparr>))"

section \<open>Scopes of self-modification\<close>

text \<open>\<open>a / b\<close> on paths: an absolute \<open>b\<close> replaces \<open>a\<close>.\<close>

definition path_join :: "string \<Rightarrow> string \<Rightarrow> string" where
  "path_join a b = (if starts_with b ''/'' then b else a @ ''/'' @ b)"

definition scope_allows ::
    "(string \<Rightarrow> string) \<Rightarrow> string \<Rightarrow> string \<Rightarrow> string \<Rightarrow> string \<Rightarrow> bool" where
  "scope_allows resolve base session_dir normalized scope \<longleftrightarrow>
     (scope = ''knowledge'' \<and> starts_with normalized (resolve (path_join base ''knowledge'')))
     \<or> (scope = ''devices/*/runtime'' \<and> starts_with normalized (resolve (path_join session_dir ''runtime'')))
     \<or> (ends_with scope ''*'' \<and> starts_with normalized (resolve (path_join base (butlast scope))))"

definition path_allowed ::
    "(string \<Rightarrow> string) \<Rightarrow> string \<Rightarrow> string \<Rightarrow> string \<Rightarrow> string list \<Rightarrow> bool" where
  "path_allowed resolve base session_dir target_path allowed_scopes =
     list_ex (scope_allows resolve base session_dir (resolve target_path)) allowed_scopes"

definition self_improvement_missing ::
    "(string \<Rightarrow> string) \<Rightarrow> string \<Rightarrow> policy_model \<Rightarrow> string \<Rightarrow> int \<Rightarrow> int \<Rightarrow> string list \<Rightarrow> string list" where
  "self_improvement_missing resolve base policy session_dir tokens iterations paths =
     map (\<lambda>p. ''Self-modification path is outside policy scope: '' @ p)
       (filter (\<lambda>p. \<not> path_allowed resolve base session_dir p (pol_self_modification_scope policy)) paths)
     @ missing_if (pol_max_api_tokens_per_session policy \<le> tokens)
         ''Session token budget for autonomous experiments has been exhausted.''
     @ missing_if (pol_max_experiment_loop_iterations policy \<le> iterations)
         ''Autonomous experiment loop iteration budget has been exhausted.''"

definition evaluate_self_improvement_gate ::
    "(string \<Rightarrow> string) \<Rightarrow> string \<Rightarrow> string \<Rightarrow> policy_model \<Rightarrow> string \<Rightarrow> int \<Rightarrow> int \<Rightarrow> string list \<Rightarrow> approval_gate" where
  "evaluate_self_improvement_gate resolve base now policy session_dir tokens iterations paths =
     (let missing = self_improvement_missing resolve base policy session_dir tokens iterations paths
      in \<lparr>ag_action = ''self_improvement_loop'', ag_allowed = (missing = []),
          ag_requires_explicit_approval = False,
          ag_reason = (if missing = [] then ''Self-improvement loop may continue within policy limits.''
            else ''Self-improvement loop is blocked by governance policy.''),
          ag_missing_requirements = missing,
          ag_consequences =
            [''Generated remediation variants remain session-local until validated.'',
             ''Policy limits override optimization when cost or scope boundaries are crossed.''],
          ag_generated_at = now\<rparr>)"

text \<open>The texts of a worker execution: \<open>stdout\<close>, \<open>stderr\<close>, \<open>summary\<close>, each possibly absent.\<close>

type_synonym worker_text = "string option \<times> string option \<times> string option"

definition opt_len :: "string option \<Rightarrow> int" where
  "opt_len s = (case s of None \<Rightarrow> 0 | Some t \<Rightarrow> int (length t))"

definition estimate_worker_token_usage :: "worker_text list \<Rightarrow> int" where
  "estimate_worker_token_usage executions =
     max 0 (foldl (\<lambda>total (out, err, summary). total + (opt_len out + opt_len err + opt_len summary)) 0
        executions div 4)"

definition build_audit_entry :: "string \<Rightarrow> string \<Rightarrow> string \<Rightarrow> string list option \<Rightarrow> jdict option \<Rightarrow> audit_entry" where
  "build_audit_entry now category message evidence metadata =
     \<lparr>ae_category = category, ae_message = message,
      ae_evidence = (case evidence of None \<Rightarrow> [] | Some e \<Rightarrow> e),
      ae_metadata = (case metadata of None \<Rightarrow> [] | Some m \<Rightarrow> m), ae_timestamp = now\<rparr>"

section \<open>The policy document\<close>

definition policy_save :: "string \<Rightarrow> policy_model \<Rightarrow> files \<Rightarrow> files" where
  "policy_save path policy fs = fwrite path (policy_model_to_dict policy) fs"

definition policy_load :: "string \<Rightarrow> files \<Rightarrow> policy_model res \<times> files" where
  "policy_load path fs =
     (if \<not> fexists fs path then (Inr default_policy, policy_save path default_policy fs)
      else (load_doc policy_model_from_dict fs path, fs))"

section \<open>The contract of a gate\<close>

text \<open>
  A gate names the requirements of a request, each with a message, and reports the messages
  of the ones that fail. It is open exactly when none does.
\<close>

locale gate =
  fixes decide :: "'r \<Rightarrow> approval_gate"
    and requirements :: "'r \<Rightarrow> (string \<times> bool) list"
  assumes reports: "ag_missing_requirements (decide r) = map fst (filter (\<lambda>q. \<not> snd q) (requirements r))"
    and opens: "ag_allowed (decide r) \<longleftrightarrow> ag_missing_requirements (decide r) = []"
begin

lemma allowed_iff: "ag_allowed (decide r) \<longleftrightarrow> (\<forall>(m, c) \<in> set (requirements r). c)"
  by (auto simp: opens reports filter_empty_conv)

lemma message_iff: "m \<in> set (ag_missing_requirements (decide r)) \<longleftrightarrow> (m, False) \<in> set (requirements r)"
  by (force simp: reports)

lemma never_silent: "\<not> ag_allowed (decide r) \<Longrightarrow> \<exists>m. m \<in> set (ag_missing_requirements (decide r))"
  by (cases "ag_missing_requirements (decide r)") (auto simp: opens)

text \<open>A request that satisfies at least the same requirements gets at most the same messages.\<close>

lemma mono:
  assumes "list_all2 (\<lambda>p q. fst p = fst q \<and> (snd p \<longrightarrow> snd q)) (requirements r) (requirements r')"
    and "ag_allowed (decide r)"
  shows "ag_allowed (decide r')"
  using assms unfolding allowed_iff by (induction rule: list_all2_induct) auto

end

definition install_requirements ::
    "policy_model \<times> flash_plan \<times> destructive_approval \<times> jdict \<Rightarrow> (string \<times> bool) list" where
  "install_requirements r = (case r of (policy, plan, approval, backup_plan) \<Rightarrow>
     [(''Pre-wipe backup bundle has not been captured.'', backup_plan \<noteq> []),
      (''A flashable artifact bundle has not been staged for this session.'', fp_artifacts_ready plan),
      (''A restore path is not yet feasible for this device path.'',
         pol_require_restore_path policy \<longrightarrow> fp_restore_path_available plan),
      (''Operator has not confirmed the restore path.'',
         pol_require_restore_path policy \<longrightarrow> da_restore_path_confirmed approval),
      (''Explicit destructive approval has not been granted.'',
         pol_destructive_ops_require_approval policy \<longrightarrow> da_approved approval),
      (''The wipe confirmation phrase is missing or incorrect.'',
         pol_require_explicit_wipe_phrase policy \<longrightarrow>
           strip (da_confirmation_phrase approval) = ''WIPE_AND_REBUILD'')])"

definition self_improvement_requirements ::
    "(string \<Rightarrow> string) \<Rightarrow> string \<Rightarrow> policy_model \<times> string \<times> int \<times> int \<times> string list \<Rightarrow> (string \<times> bool) list" where
  "self_improvement_requirements resolve base r = (case r of (policy, session_dir, tokens, iterations, paths) \<Rightarrow>
     map (\<lambda>p. (''Self-modification path is outside policy scope: '' @ p,
            path_allowed resolve base session_dir p (pol_self_modification_scope policy))) paths
     @ [(''Session token budget for autonomous experiments has been exhausted.'',
           tokens < pol_max_api_tokens_per_session policy),
        (''Autonomous experiment loop iteration budget has been exhausted.'',
           iterations < pol_max_experiment_loop_iterations policy)])"

lemma failed_Cons:
  "map fst (filter (\<lambda>q. \<not> snd q) ((m, c) # qs)) = missing_if (\<not> c) m @ map fst (filter (\<lambda>q. \<not> snd q) qs)"
  by (simp add: missing_if_def)

lemma install_reports:
  "install_missing policy plan approval backup_plan
     = map fst (filter (\<lambda>q. \<not> snd q) (install_requirements (policy, plan, approval, backup_plan)))"
  unfolding install_requirements_def prod.case failed_Cons install_missing_def not_imp not_not
  by simp

lemma self_improvement_reports:
  "self_improvement_missing resolve base policy session_dir tokens iterations paths
     = map fst (filter (\<lambda>q. \<not> snd q)
         (self_improvement_requirements resolve base (policy, session_dir, tokens, iterations, paths)))"
  unfolding self_improvement_requirements_def prod.case filter_append map_append failed_Cons
    self_improvement_missing_def not_less
  by (simp add: filter_map comp_def)

interpretation install:
  gate "\<lambda>(policy, plan, approval, backup_plan). evaluate_install_gate now policy plan approval backup_plan"
    install_requirements for now
  by unfold_locales (auto simp only: split_paired_all prod.case evaluate_install_gate_def Let_def
      approval_gate.simps install_reports)

interpretation self_improvement:
  gate "\<lambda>(policy, session_dir, tokens, iterations, paths).
      evaluate_self_improvement_gate resolve base now policy session_dir tokens iterations paths"
    "self_improvement_requirements resolve base" for resolve base now
  by unfold_locales (auto simp only: split_paired_all prod.case evaluate_self_improvement_gate_def Let_def
      approval_gate.simps self_improvement_reports)

section \<open>Properties\<close>

text \<open>C8. The install gate is open exactly when a backup is recorded, the artifacts are staged
  and every protection the policy asks for is met: restore path feasible and confirmed,
  approval granted, wipe phrase typed.\<close>

theorem install_gate_open:
  "ag_allowed (evaluate_install_gate now policy plan approval backup_plan) \<longleftrightarrow>
     backup_plan \<noteq> [] \<and> fp_artifacts_ready plan
     \<and> (pol_require_restore_path policy \<longrightarrow> fp_restore_path_available plan \<and> da_restore_path_confirmed approval)
     \<and> (pol_destructive_ops_require_approval policy \<longrightarrow> da_approved approval)
     \<and> (pol_require_explicit_wipe_phrase policy \<longrightarrow>
          strip (da_confirmation_phrase approval) = ''WIPE_AND_REBUILD'')"
  using install.allowed_iff [of now "(policy, plan, approval, backup_plan)"]
  by (auto simp: install_requirements_def)

theorem install_gate_open_witness:
  "\<exists>plan approval. ag_allowed (evaluate_install_gate ''t'' default_policy plan approval [(''backup'', JNull)])
     \<and> \<not> ag_allowed (evaluate_install_gate ''t'' default_policy plan approval [])"
proof -
  obtain plan :: flash_plan where plan: "fp_artifacts_ready plan" "fp_restore_path_available plan"
    by (metis flash_plan.select_convs(6,7))
  obtain approval :: destructive_approval where approval: "da_approved approval" "da_restore_path_confirmed approval"
      "da_confirmation_phrase approval = ''WIPE_AND_REBUILD''"
    by (metis destructive_approval.select_convs(2,4,7))
  have "strip ''WIPE_AND_REBUILD'' = ''WIPE_AND_REBUILD''"
    by (simp add: strip_def lstrip_def rstrip_def is_space_def code_point_def)
  with plan approval install_gate_open [of "''t''" default_policy plan approval "[(''backup'', JNull)]"]
    install_gate_open [of "''t''" default_policy plan approval "[]"]
  show ?thesis by (intro exI [of _ plan] exI [of _ approval]) simp
qed

text \<open>The self-improvement gate is open exactly when both budgets have room and every
  proposed path is in scope; when it is closed it says why.\<close>

theorem self_improvement_gate_open:
  "(ag_allowed (evaluate_self_improvement_gate resolve base now policy session_dir tokens iterations paths) \<longleftrightarrow>
      tokens < pol_max_api_tokens_per_session policy
      \<and> iterations < pol_max_experiment_loop_iterations policy
      \<and> list_all (\<lambda>p. path_allowed resolve base session_dir p (pol_self_modification_scope policy)) paths)
   \<and> (ag_allowed (evaluate_self_improvement_gate resolve base now policy session_dir tokens iterations paths) \<longleftrightarrow>
      ag_missing_requirements
        (evaluate_self_improvement_gate resolve base now policy session_dir tokens iterations paths) = [])"
  using self_improvement.allowed_iff [of resolve base now "(policy, session_dir, tokens, iterations, paths)"]
    self_improvement.opens [of resolve base now "(policy, session_dir, tokens, iterations, paths)"]
  by (auto simp: self_improvement_requirements_def list_all_iff)

text \<open>The scope check compares path strings, not path components: under the default
  policy the gate accepts a file of a sibling directory whose name merely begins with
  \<open>knowledge\<close>, outside the scope the policy names.\<close>

theorem scope_prefix_leak:
  "path_allowed (\<lambda>p. p) ''/forge'' ''/forge/devices/d'' ''/forge/knowledge-old/run.py''
     (pol_self_modification_scope default_policy)
   \<and> \<not> path_allowed (\<lambda>p. p) ''/forge'' ''/forge/devices/d'' ''/forge/app/run.py''
     (pol_self_modification_scope default_policy)"
  by (simp add: path_allowed_def default_policy_def scope_allows_def path_join_def starts_with_def ends_with_def
      suffix_def)

text \<open>The policy document survives a restart: what was saved is what the next load
  returns, and a first load creates the default document, which the second load returns.\<close>

theorem policy_roundtrip:
  "fst (policy_load path (policy_save path policy fs)) = Inr policy
   \<and> (\<not> fexists fs path \<longrightarrow>
        policy_load path (snd (policy_load path fs)) = (Inr default_policy, snd (policy_load path fs)))"
  by (simp add: policy_load_def policy_save_def policy_doc.load_save fexists_def fread_fwrite)

theorem policy_roundtrip_witness:
  "policy_load ''p'' (snd (policy_load ''p'' [])) = (Inr default_policy, snd (policy_load ''p'' []))"
  using policy_roundtrip [of "''p''" default_policy "[]"] by (simp add: fexists_def fread_def)

end
