(* ===== verification/Retry_Planner.thy ===== *)
theory Retry_Planner
  imports Models
begin

text \<open>
  \<open>app/core/retry_planner.py\<close>: how long the runtime goes on with one blocker. The heat file
  holds the cycles of a session, the experiment file the outcome of each remediation. Blockers,
  inspections and generated tasks are JSON dictionaries.
\<close>

section \<open>The two documents\<close>

definition heat_file :: "string \<Rightarrow> string" where
  "heat_file session_dir = session_dir @ ''/reports/retry-heat.json''"

definition experiment_file :: "string \<Rightarrow> string" where
  "experiment_file session_dir = session_dir @ ''/reports/autonomous-experiments.json''"

text \<open>A missing, unreadable or non-dictionary document counts as the empty one.\<close>

definition load_or_empty :: "files \<Rightarrow> string \<Rightarrow> string \<Rightarrow> jdict" where
  "load_or_empty fs path key =
     (case fread fs path of Some (FJson (JObj d)) \<Rightarrow> d | _ \<Rightarrow> [(key, JList [])])"

definition load_heat :: "files \<Rightarrow> string \<Rightarrow> jdict" where
  "load_heat fs session_dir = load_or_empty fs (heat_file session_dir) ''cycles''"

definition write_heat :: "string \<Rightarrow> jdict \<Rightarrow> files \<Rightarrow> files" where
  "write_heat session_dir payload fs = atomic_write_json (heat_file session_dir) (JObj payload) fs"

definition load_experiments :: "files \<Rightarrow> string \<Rightarrow> jdict" where
  "load_experiments fs session_dir = load_or_empty fs (experiment_file session_dir) ''experiments''"

definition write_experiments :: "string \<Rightarrow> jdict \<Rightarrow> files \<Rightarrow> files" where
  "write_experiments session_dir payload fs = atomic_write_json (experiment_file session_dir) (JObj payload) fs"

text \<open>\<open>list(payload.get(key) or [])\<close>.\<close>

definition list_of :: "jdict \<Rightarrow> string \<Rightarrow> json list res" where
  "list_of payload key = as_list (jor (dget0 payload key) (JList []))"

section \<open>Identity, rank and fitness\<close>

definition blocker_id :: "jdict \<Rightarrow> string" where
  "blocker_id blocker =
     (let blocker_type = dstr_or blocker ''blocker_type'' ''unknown'';
          planned_next_action = dstr_or blocker ''planned_next_action'' ''unspecified'';
          summary = take 48 (replace_char (CHR '' '') (CHR ''_'') (lower (strip (dstr_or blocker ''summary'' []))))
      in rstrip_char (CHR '':'') (blocker_type @ '':'' @ planned_next_action @ '':'' @ summary))"

definition ranks :: "(string \<times> int) list" where
  "ranks = [(''none'', 0), (''source_blocker'', 1), (''transport_blocker'', 2), (''subsystem_blocker'', 3),
     (''trust_blocker'', 4), (''physical_action_blocker'', 5), (''policy_blocker'', 6)]"

definition blocker_rank :: "string option \<Rightarrow> int" where
  "blocker_rank blocker_type =
     (case map_of ranks (case blocker_type of None \<Rightarrow> ''unknown'' | Some t \<Rightarrow> if t = [] then ''unknown'' else t) of None \<Rightarrow> 7 | Some r \<Rightarrow> r)"

record fitness =
  fit_score :: rat
  fit_advanced :: int
  fit_total :: int
  fit_human :: int

definition count_true :: "string \<Rightarrow> json list \<Rightarrow> int res" where
  "count_true key experiments =
     bindr (mapr (\<lambda>e. jget e key JNull) experiments) (\<lambda>vs. Inr (int (length (filter (\<lambda>v. v = JBool True) vs))))"

definition session_fitness :: "json list \<Rightarrow> fitness res" where
  "session_fitness experiments =
     (if experiments = [] then Inr \<lparr>fit_score = 0, fit_advanced = 0, fit_total = 0, fit_human = 0\<rparr>
      else bindr (count_true ''advanced'' experiments) (\<lambda>advanced_count.
           bindr (count_true ''human_intervention_required'' experiments) (\<lambda>human_count.
             let total = int (length experiments);
                 advance_ratio = of_int advanced_count / of_int total;
                 autonomy_ratio = of_int (total - human_count) / of_int total
             in Inr \<lparr>fit_score = py_round (advance_ratio * autonomy_ratio) 3, fit_advanced = advanced_count,
                  fit_total = total, fit_human = human_count\<rparr>)))"

definition fitness_json :: "fitness \<Rightarrow> json" where
  "fitness_json f = JObj [(''fitness_score'', JFloat (fit_score f)), (''advanced_count'', JInt (fit_advanced f)),
     (''total_experiments'', JInt (fit_total f)), (''human_intervention_count'', JInt (fit_human f))]"

section \<open>Experiments\<close>

definition evaluate_experiment :: "jdict \<Rightarrow> jdict \<Rightarrow> jdict \<Rightarrow> jdict res" where
  "evaluate_experiment before after inspection =
     (let before_type = dstr before ''blocker_type'' ''none'';
          after_type = dstr after ''blocker_type'' ''none'';
          before_rank = blocker_rank (Some before_type);
          after_rank = blocker_rank (Some after_type);
          evidence = dget inspection ''evidence'' (JObj [])
      in bindr (bindr (jget evidence ''source_acquisition'' (JObj [])) (\<lambda>s. jget s ''staged_files'' (JList [])))
           (\<lambda>staged_files.
         bindr (bindr (jget evidence ''remote_source_resolution'' (JObj [])) (\<lambda>r. jget r ''status'' (JStr [])))
           (\<lambda>remote_resolution.
         let status = dstr inspection ''status'' ''artifact_failed'';
             advanced = (after_rank < before_rank \<or> after_type = ''none'' \<or> truthy staged_files
               \<or> (before_type = after_type \<and> after_type = ''source_blocker'' \<and> remote_resolution = JStr ''ok''))
         in Inr [(''decision'', JStr (if advanced then ''advance'' else ''discard'')),
              (''advanced'', JBool advanced), (''status'', JStr status),
              (''blocker_before'', JStr before_type), (''blocker_after'', JStr after_type),
              (''staged_files'', staged_files), (''remote_resolution'', remote_resolution),
              (''rationale'', JStr (if advanced
                then ''The remediation changed the session enough to keep this direction.''
                else ''The remediation did not improve the blocker enough to keep this direction as an advance.''))])))"

definition record_experiment ::
    "string \<Rightarrow> string \<Rightarrow> jdict \<Rightarrow> jdict \<Rightarrow> jdict \<Rightarrow> jdict \<Rightarrow> rat option \<Rightarrow> string option \<Rightarrow> bool \<Rightarrow> files
       \<Rightarrow> jdict res \<times> files" where
  "record_experiment now session_dir before after inspection generated elapsed strategy human fs =
     (let result =
        bindr (evaluate_experiment before after inspection) (\<lambda>decision.
        bindr (list_of (load_experiments fs session_dir) ''experiments'') (\<lambda>experiments.
        bindr (jget (dget generated ''task'' (JObj [])) ''task_id'' (JStr [])) (\<lambda>task_id.
        bindr (jget (dget generated ''task'' (JObj [])) ''remediation_family'' (JStr [])) (\<lambda>family.
        let entry = dmerge
              [(''timestamp'', JStr now), (''blocker_id'', JStr (blocker_id before)), (''task_id'', task_id),
               (''remediation_family'', family),
               (''planned_next_action'', dget before ''planned_next_action'' (JStr [])),
               (''summary'', dget before ''summary'' (JStr [])),
               (''selected_strategy'', JStr (case strategy of None \<Rightarrow> [] | Some s \<Rightarrow> s)),
               (''elapsed_seconds'', JFloat (py_round (case elapsed of None \<Rightarrow> 0 | Some e \<Rightarrow> e) 3)),
               (''human_intervention_required'', JBool human)] decision
        in bindr (session_fitness (experiments @ [JObj entry])) (\<lambda>fit.
             let entry' = dset entry ''session_fitness'' (JFloat (fit_score fit))
             in Inr (entry', [(''generated_at'', JStr now), (''fitness'', fitness_json fit),
                    (''experiments'', JList (experiments @ [JObj entry']))]))))))
      in case result of
           Inl e \<Rightarrow> (Inl e, fs)
         | Inr (entry, payload) \<Rightarrow> (Inr entry, write_experiments session_dir payload fs))"

section \<open>The retry plan\<close>

definition base_action :: "json \<Rightarrow> bool \<Rightarrow> string \<times> string" where
  "base_action blocker_type machine_solvable =
     (if blocker_type = JStr ''none'' then (''return_to_main_plan'',
        ''The current blocker has been resolved enough for the runtime to continue the main execution path.'')
      else if machine_solvable then (''continue_autonomous_remediation'',
        ''The blocker is machine-solvable, so the runtime should generate, execute, inspect, and reclassify before asking for help.'')
      else if blocker_type \<in> set [JStr ''trust_blocker'', JStr ''physical_action_blocker''] then
        (''await_user_action'', ''The next action depends on physical interaction or on-device approval.'')
      else (''halt_and_review'', ''The blocker is not safely solvable by autonomous retry.''))"

text \<open>The walk over \<open>reversed(cycles)\<close>: cycles at the end with this blocker and no advance.\<close>

fun stall_walk :: "json \<Rightarrow> json list \<Rightarrow> nat \<Rightarrow> nat res" where
  "stall_walk blocker_type [] n = Inr n"
| "stall_walk blocker_type (cycle # cycles) n =
     bindr (jget cycle ''blocker_type'' JNull) (\<lambda>t.
     bindr (jget cycle ''advanced'' JNull) (\<lambda>a.
       if t \<noteq> blocker_type \<or> a = JBool True then Inr n else stall_walk blocker_type cycles (Suc n)))"

definition stalled_action :: "nat \<Rightarrow> bool \<Rightarrow> string \<times> string \<Rightarrow> string \<times> string" where
  "stalled_action stall_count machine_solvable act =
     (if 5 \<le> stall_count then (''halt_and_review'',
        ''The runtime stalled on the same blocker for five consecutive cycles and must stop for review.'')
      else if 3 \<le> stall_count \<and> machine_solvable then (''escalate_strategy'',
        ''The runtime stalled on the same machine-solvable blocker for three consecutive cycles and should escalate strategy.'')
      else act)"

definition new_cycle :: "string \<Rightarrow> json \<Rightarrow> string \<Rightarrow> json" where
  "new_cycle now blocker_type action = JObj [(''timestamp'', JStr now), (''blocker_type'', blocker_type),
     (''action_taken'', JStr action), (''advanced'', JBool False)]"

definition plan_json :: "string \<Rightarrow> string \<times> string \<Rightarrow> jdict \<Rightarrow> jdict \<Rightarrow> jdict \<Rightarrow> jdict" where
  "plan_json now act blocker generated worker_self_heal =
     [(''generated_at'', JStr now), (''action'', JStr (fst act)), (''rationale'', JStr (snd act)),
      (''retry_budget'', dget blocker ''retry_budget'' (JInt 0)),
      (''generated_files'', dget generated ''generated_files'' (JList [])),
      (''worker_self_heal'', JObj worker_self_heal)]"

definition build_plan :: "string \<Rightarrow> jdict \<Rightarrow> jdict \<Rightarrow> jdict \<Rightarrow> string option \<Rightarrow> files \<Rightarrow> jdict res \<times> files" where
  "build_plan now blocker generated worker_self_heal session_dir fs =
     (let machine_solvable = truthy (dget blocker ''machine_solvable'' (JBool False));
          blocker_type = dget0 blocker ''blocker_type'';
          act = base_action blocker_type machine_solvable
      in case session_dir of
           None \<Rightarrow> (Inr (plan_json now act blocker generated worker_self_heal), fs)
         | Some dir \<Rightarrow>
             (case bindr (list_of (load_heat fs dir) ''cycles'') (\<lambda>cycles.
                   bindr (stall_walk blocker_type (rev cycles) 0) (\<lambda>stall_count. Inr (cycles, stall_count))) of
                Inl e \<Rightarrow> (Inl e, fs)
              | Inr (cycles, stall_count) \<Rightarrow>
                  let act' = stalled_action stall_count machine_solvable act
                  in (Inr (plan_json now act' blocker generated worker_self_heal),
                      write_heat dir [(''cycles'', JList (cycles @ [new_cycle now blocker_type (fst act')]))] fs)))"

definition mark_advanced :: "string \<Rightarrow> files \<Rightarrow> unit res \<times> files" where
  "mark_advanced session_dir fs =
     (case list_of (load_heat fs session_dir) ''cycles'' of
        Inl e \<Rightarrow> (Inl e, fs)
      | Inr cycles \<Rightarrow>
          if cycles = [] then (Inr (), fs)
          else (case last cycles of
                  JObj c \<Rightarrow> (Inr (), write_heat session_dir
                    [(''cycles'', JList (butlast cycles @ [JObj (dset c ''advanced'' (JBool True))]))] fs)
                | _ \<Rightarrow> (Inl (TypeError ''item assignment''), fs)))"

definition write_plan :: "string \<Rightarrow> jdict \<Rightarrow> files \<Rightarrow> files" where
  "write_plan session_dir payload fs = atomic_write_json (session_dir @ ''/reports/retry-plan.json'') (JObj payload) fs"

section \<open>Stalls\<close>

lemma load_write_heat [simp]: "load_heat (write_heat dir d fs) dir = d"
  by (simp add: load_heat_def load_or_empty_def write_heat_def atomic.read_write_same)

lemma load_heat_missing [simp]: "\<not> fexists fs (heat_file dir) \<Longrightarrow> load_heat fs dir = [(''cycles'', JList [])]"
  by (simp add: load_heat_def load_or_empty_def fexists_def)

lemma list_of_single [simp]: "list_of [(k, JList xs)] k = Inr xs"
  by (cases xs) (simp_all add: list_of_def)

lemma stall_walk_shift: "stall_walk t cs (n + m) = bindr (stall_walk t cs n) (\<lambda>k. Inr (k + m))"
proof (induction cs arbitrary: n)
  case (Cons c cs)
  show ?case
    by (cases "jget c ''blocker_type'' JNull"; cases "jget c ''advanced'' JNull")
       (simp_all add: Cons.IH [of "Suc n", simplified])
qed simp

definition stall_of :: "files \<Rightarrow> string \<Rightarrow> json \<Rightarrow> nat res" where
  "stall_of fs dir t = bindr (list_of (load_heat fs dir) ''cycles'') (\<lambda>cycles. stall_walk t (rev cycles) 0)"

definition plan_action :: "jdict res \<times> files \<Rightarrow> json" where
  "plan_action r = (case fst r of Inl e \<Rightarrow> JNull | Inr plan \<Rightarrow> dget0 plan ''action'')"

lemma build_plan_stalled:
  assumes "stall_of fs dir (dget0 blocker ''blocker_type'') = Inr n"
    and r_def: "r = build_plan now blocker generated heal (Some dir) fs"
  shows "plan_action r = JStr (fst (stalled_action n (truthy (dget blocker ''machine_solvable'' (JBool False)))
      (base_action (dget0 blocker ''blocker_type'') (truthy (dget blocker ''machine_solvable'' (JBool False))))))"
    and "stall_of (snd r) dir (dget0 blocker ''blocker_type'') = Inr (Suc n)"
proof -
  let ?t = "dget0 blocker ''blocker_type''"
  from assms(1) obtain cycles where c: "list_of (load_heat fs dir) ''cycles'' = Inr cycles"
    and w: "stall_walk ?t (rev cycles) 0 = Inr n"
    by (auto simp: stall_of_def)
  have w': "stall_walk ?t (rev cycles) (Suc 0) = Inr (Suc n)"
    using stall_walk_shift [of ?t "rev cycles" 0 1] w by simp
  show "plan_action r = JStr (fst (stalled_action n (truthy (dget blocker ''machine_solvable'' (JBool False)))
      (base_action ?t (truthy (dget blocker ''machine_solvable'' (JBool False))))))"
    by (simp add: r_def build_plan_def Let_def c w plan_action_def plan_json_def)
  show "stall_of (snd r) dir ?t = Inr (Suc n)"
    by (simp add: r_def build_plan_def Let_def c w w' stall_of_def new_cycle_def)
qed

lemma mark_advanced_resets:
  assumes "list_of (load_heat fs dir) ''cycles'' = Inr (cycles @ [JObj c])"
  shows "fst (mark_advanced dir fs) = Inr ()" "stall_of (snd (mark_advanced dir fs)) dir t = Inr 0"
  using assms by (auto simp: mark_advanced_def stall_of_def)

text \<open>The runtime plans \<open>k\<close> times with the same blocker and nothing advances.\<close>

fun heat_after :: "nat \<Rightarrow> string \<Rightarrow> jdict \<Rightarrow> string \<Rightarrow> files \<Rightarrow> files" where
  "heat_after 0 now blocker dir fs = fs"
| "heat_after (Suc k) now blocker dir fs = snd (build_plan now blocker [] [] (Some dir) (heat_after k now blocker dir fs))"

lemma stall_after:
  "\<not> fexists fs (heat_file dir) \<Longrightarrow>
    stall_of (heat_after k now blocker dir fs) dir (dget0 blocker ''blocker_type'') = Inr k"
  by (induction k) (simp_all add: stall_of_def [of fs] build_plan_stalled(2))

section \<open>Fitness\<close>

lemma count_true_le: "count_true key es = Inr n \<Longrightarrow> 0 \<le> n \<and> n \<le> int (length es)"
proof -
  have len: "mapr f xs = Inr ys \<Longrightarrow> length ys = length xs" for f :: "json \<Rightarrow> json res" and xs ys
    by (induction xs arbitrary: ys) auto
  assume "count_true key es = Inr n"
  then obtain vs where "mapr (\<lambda>e. jget e key JNull) es = Inr vs"
    and "n = int (length (filter (\<lambda>v. v = JBool True) vs))"
    by (auto simp: count_true_def)
  with len [of _ es vs] show ?thesis by (metis length_filter_le of_nat_0_le_iff of_nat_le_iff)
qed

lemma ratio_unit: "0 \<le> a \<Longrightarrow> a \<le> n \<Longrightarrow> 0 < n \<Longrightarrow> 0 \<le> of_int a / (of_int n :: rat) \<and> of_int a / (of_int n :: rat) \<le> 1"
  by (simp add: divide_simps)

lemma fitness_bounds:
  assumes "session_fitness es = Inr f"
  shows "0 \<le> fit_score f" "fit_score f \<le> 1" "0 \<le> fit_advanced f" "fit_advanced f \<le> fit_total f"
    "0 \<le> fit_human f" "fit_human f \<le> fit_total f" "fit_total f = int (length es)"
proof -
  have "0 \<le> fit_score f \<and> fit_score f \<le> 1 \<and> 0 \<le> fit_advanced f \<and> fit_advanced f \<le> fit_total f
      \<and> 0 \<le> fit_human f \<and> fit_human f \<le> fit_total f \<and> fit_total f = int (length es)"
  proof (cases "es = []")
    case False
    with assms obtain a h where a: "count_true ''advanced'' es = Inr a"
      and h: "count_true ''human_intervention_required'' es = Inr h"
      and f: "f = \<lparr>fit_score = py_round (of_int a / of_int (int (length es))
            * (of_int (int (length es) - h) / of_int (int (length es)))) 3,
          fit_advanced = a, fit_total = int (length es), fit_human = h\<rparr>"
      by (auto simp: session_fitness_def Let_def)
    note ab = count_true_le [OF a] and hb = count_true_le [OF h]
    have n: "0 < int (length es)" using False by simp
    have u: "(0 :: rat) \<le> of_int a / of_int (int (length es)) \<and> of_int a / of_int (int (length es)) \<le> (1 :: rat)"
      using ab n by (intro ratio_unit) auto
    have v: "(0 :: rat) \<le> of_int (int (length es) - h) / of_int (int (length es))
        \<and> of_int (int (length es) - h) / of_int (int (length es)) \<le> (1 :: rat)"
      using hb n by (intro ratio_unit) auto
    have "0 \<le> fit_score f \<and> fit_score f \<le> 1"
      unfolding f fitness.simps using u v by (intro conjI py_round_unit mult_nonneg_nonneg mult_le_one) auto
    with ab hb show ?thesis by (simp add: f)
  qed (use assms in \<open>auto simp: session_fitness_def\<close>)
  then show "0 \<le> fit_score f" "fit_score f \<le> 1" "0 \<le> fit_advanced f" "fit_advanced f \<le> fit_total f"
    "0 \<le> fit_human f" "fit_human f \<le> fit_total f" "fit_total f = int (length es)"
    by blast+
qed

section \<open>Properties\<close>



text \<open>Progress restarts the count: once the last cycle is marked as advanced, the next plan
  for any blocker is the one the blocker itself calls for.\<close>

theorem advance_resets_stall:
  assumes "list_of (load_heat fs dir) ''cycles'' = Inr (cycles @ [JObj c])"
  shows "plan_action (build_plan now blocker generated heal (Some dir) (snd (mark_advanced dir fs)))
    = JStr (fst (base_action (dget0 blocker ''blocker_type'')
        (truthy (dget blocker ''machine_solvable'' (JBool False)))))"
  using build_plan_stalled(1) [OF mark_advanced_resets(2) [OF assms]] by (simp add: stalled_action_def)

theorem advance_resets_stall_witness:
  "plan_action (build_plan ''t'' [(''blocker_type'', JStr ''trust_blocker'')] [] [] (Some ''d'')
     (snd (mark_advanced ''d'' (write_heat ''d'' [(''cycles'', JList [new_cycle ''t'' (JStr ''trust_blocker'') ''a''])] []))))
   = JStr ''await_user_action''"
  using advance_resets_stall [where dir = "''d''" and now = "''t''" and cycles = "[]"
      and fs = "write_heat ''d'' [(''cycles'', JList [new_cycle ''t'' (JStr ''trust_blocker'') ''a''])] []"
      and c = "[(''timestamp'', JStr ''t''), (''blocker_type'', JStr ''trust_blocker''),
        (''action_taken'', JStr ''a''), (''advanced'', JBool False)]"
      and blocker = "[(''blocker_type'', JStr ''trust_blocker'')]" and generated = "[]" and heal = "[]"]
  by (simp add: new_cycle_def base_action_def)

text \<open>The fitness of a session is a number between 0 and 1, and its counts are counts of
  the experiments.\<close>

theorem fitness_is_a_ratio:
  assumes "session_fitness experiments = Inr f"
  shows "fit_score f \<in> {0..1} \<and> fit_advanced f \<in> {0..fit_total f} \<and> fit_human f \<in> {0..fit_total f}
    \<and> fit_total f = int (length experiments)"
  using fitness_bounds [OF assms] by simp

theorem fitness_is_a_ratio_witness:
  "fit_score \<lparr>fit_score = 1/2, fit_advanced = 1, fit_total = 2, fit_human = 0\<rparr> \<in> {0..1}"
  using fitness_is_a_ratio [of "[JObj [(''advanced'', JBool True)], JObj []]"
      "\<lparr>fit_score = 1/2, fit_advanced = 1, fit_total = 2, fit_human = 0\<rparr>"]
  by (simp add: session_fitness_def count_true_def Let_def py_round_def round_even_def)

lemma load_write_experiments [simp]: "load_experiments (write_experiments dir d fs) dir = d"
  by (simp add: load_experiments_def load_or_empty_def write_experiments_def atomic.read_write_same)

text \<open>Recording an experiment that evaluates puts exactly one entry behind the recorded
  ones, and returns it; if anything it reads is malformed the file is left as it was.\<close>

theorem record_appends:
  "case record_experiment now dir before after inspection generated elapsed strategy human fs of
     (Inl e, fs') \<Rightarrow> fs' = fs
   | (Inr entry, fs') \<Rightarrow>
       \<exists>old. list_of (load_experiments fs dir) ''experiments'' = Inr old
         \<and> dget0 (load_experiments fs' dir) ''experiments'' = JList (old @ [JObj entry])
         \<and> fs' = write_experiments dir (load_experiments fs' dir) fs"
  by (auto simp: record_experiment_def Let_def write_experiments_def [of _ _ fs] fread_atomic_write
      load_experiments_def load_or_empty_def split: sum.splits prod.splits)

text \<open>An experiment is kept exactly when the blocker's rank fell, the blocker is gone,
  something was staged, or a source blocker now has a remote resolution.\<close>

theorem experiment_decision:
  assumes "evaluate_experiment before after inspection = Inr d"
  shows "(dget0 d ''decision'' = JStr ''advance'' \<longleftrightarrow> dget0 d ''advanced'' = JBool True)
    \<and> (dget0 d ''advanced'' = JBool True \<longleftrightarrow>
        blocker_rank (Some (dstr after ''blocker_type'' ''none'')) < blocker_rank (Some (dstr before ''blocker_type'' ''none''))
        \<or> dstr after ''blocker_type'' ''none'' = ''none''
        \<or> truthy (dget0 d ''staged_files'')
        \<or> (dstr before ''blocker_type'' ''none'' = ''source_blocker'' \<and> dstr after ''blocker_type'' ''none'' = ''source_blocker''
            \<and> dget0 d ''remote_resolution'' = JStr ''ok''))"
proof -
  obtain staged remote adv where d: "d = [(''decision'', JStr (if adv then ''advance'' else ''discard'')),
      (''advanced'', JBool adv), (''status'', JStr (dstr inspection ''status'' ''artifact_failed'')),
      (''blocker_before'', JStr (dstr before ''blocker_type'' ''none'')),
      (''blocker_after'', JStr (dstr after ''blocker_type'' ''none'')),
      (''staged_files'', staged), (''remote_resolution'', remote),
      (''rationale'', JStr (if adv then ''The remediation changed the session enough to keep this direction.''
        else ''The remediation did not improve the blocker enough to keep this direction as an advance.''))]"
    and adv: "adv \<longleftrightarrow> blocker_rank (Some (dstr after ''blocker_type'' ''none'')) < blocker_rank (Some (dstr before ''blocker_type'' ''none''))
        \<or> dstr after ''blocker_type'' ''none'' = ''none'' \<or> truthy staged
        \<or> (dstr before ''blocker_type'' ''none'' = dstr after ''blocker_type'' ''none''
            \<and> dstr after ''blocker_type'' ''none'' = ''source_blocker'' \<and> remote = JStr ''ok'')"
    using assms unfolding evaluate_experiment_def Let_def by blast
  show ?thesis by (cases adv) (use adv in \<open>auto simp: d\<close>)
qed

theorem experiment_decision_witness:
  "dget0 [(''decision'', JStr ''advance''), (''advanced'', JBool True), (''status'', JStr ''ok''),
     (''blocker_before'', JStr ''source_blocker''), (''blocker_after'', JStr ''none''), (''staged_files'', JList []),
     (''remote_resolution'', JStr []), (''rationale'', JStr ''The remediation changed the session enough to keep this direction.'')]
     ''advanced'' = JBool True"
  using experiment_decision [of "[(''blocker_type'', JStr ''source_blocker'')]" "[]" "[(''status'', JStr ''ok'')]"
    "[(''decision'', JStr ''advance''), (''advanced'', JBool True), (''status'', JStr ''ok''),
     (''blocker_before'', JStr ''source_blocker''), (''blocker_after'', JStr ''none''), (''staged_files'', JList []),
     (''remote_resolution'', JStr []), (''rationale'', JStr ''The remediation changed the session enough to keep this direction.'')]"]
  by (simp add: evaluate_experiment_def dstr_def)

end
