(* ===== verification/Blocker_Engine.thy ===== *)
theory Blocker_Engine
  imports Models Naming
begin

text \<open>
  \<open>app/core/blocker_engine.py\<close>: what keeps a session from going on, whether the machine can
  solve it, and how often it may try. Assessment, engagement, connection plan, remediation
  result and build artifacts are the JSON reports of other components.
\<close>

section \<open>The definitions\<close>

text \<open>The local variables of \<open>classify\<close>.\<close>

record blocker =
  bl_type :: blocker_type
  bl_solvable :: bool
  bl_summary :: json
  bl_escalation :: string
  bl_budget :: int
  bl_action :: json
  bl_steps :: json

definition reachable_transports :: "transport list" where
  "reachable_transports = [T_USB_ADB, T_USB_FASTBOOT, T_USB_FASTBOOTD]"

definition source_missing_summary ::
    "string \<Rightarrow> string \<Rightarrow> string \<Rightarrow> string \<Rightarrow> string \<Rightarrow> string" where
  "source_missing_summary manufacturer model codename os_path source_dir =
     manufacturer @ '' '' @ model @ '' ('' @ codename @ '') is connected and ready, '' @
     ''but no OS source artifacts are staged for the `'' @ os_path @ ''` build path. '' @
     ''ForgeOS should first search known local source directories and research compatible firmware. '' @
     ''If it still cannot find anything, stage a compatible firmware package under `'' @ source_dir @ ''` to continue. '' @
     ''Supported: update.zip / ota.zip for adb sideload, or boot.img / system.img / vendor.img for fastboot.''"

definition source_missing_steps :: "string \<Rightarrow> string \<Rightarrow> string \<Rightarrow> string \<Rightarrow> json" where
  "source_missing_steps manufacturer model codename source_dir =
     jstrs [''Allow ForgeOS to search local downloads, existing session artifacts, and research caches for ''
              @ manufacturer @ '' '' @ model @ '' ('' @ codename @ '') firmware inputs.'',
            ''Place a compatible firmware archive or fastboot images for '' @ manufacturer @ '' '' @ model
              @ '' ('' @ codename @ '') into `'' @ source_dir @ ''`.'',
            ''ForgeOS will detect the artifact on the next refresh cycle and automatically advance the build pipeline.'']"

definition source_missing_blocker ::
    "device_profile \<Rightarrow> session_state \<Rightarrow> jdict \<Rightarrow> blocker res" where
  "source_missing_blocker profile state build_artifacts =
     (let manufacturer = str_or (dp_manufacturer profile) ''Unknown'';
          model = str_or (dp_model profile) ''Unknown'';
          codename = str_or (Some (dp_device_codename profile)) ''unknown-codename'';
          details = dget build_artifacts ''details'' (JObj [])
      in bindr (jget details ''build_path'' JNull) (\<lambda>bp.
         bindr (jget details ''source_dir'' JNull) (\<lambda>sd.
         let os_path = py_str (jor bp (dget build_artifacts ''build_path'' (JStr ''unknown'')));
             source_dir = py_str (jor sd (jor (dget0 build_artifacts ''source_dir'')
               (JStr ''devices/<session>/artifacts/os-source/'')))
         in Inr \<lparr>bl_type = BT_SOURCE, bl_solvable = True,
              bl_summary = JStr (source_missing_summary manufacturer model codename os_path source_dir),
              bl_escalation = ''Pause only after bounded autonomous source acquisition attempts fail to stage a compatible artifact.'',
              bl_budget = max 1 (6 - min (ss_remediation_iteration state) 5),
              bl_action = JStr ''source_acquisition_and_staging'',
              bl_steps = source_missing_steps manufacturer model codename source_dir\<rparr>)))"

definition no_blocker :: "json \<Rightarrow> json \<Rightarrow> blocker" where
  "no_blocker action steps =
     \<lparr>bl_type = BT_NONE, bl_solvable = False, bl_summary = JStr ''No immediate blocker classified.'',
      bl_escalation = ''None'', bl_budget = 1, bl_action = action, bl_steps = steps\<rparr>"

definition solved_blocker :: "json \<Rightarrow> blocker" where
  "solved_blocker steps =
     \<lparr>bl_type = BT_NONE, bl_solvable = False,
      bl_summary = JStr ''The most recent remediation artifact improved the session enough to continue the main plan.'',
      bl_escalation = ''None'', bl_budget = 0, bl_action = JStr ''continue_main_plan'', bl_steps = steps\<rparr>"

definition transport_blocker :: "json \<Rightarrow> blocker" where
  "transport_blocker steps =
     \<lparr>bl_type = BT_TRANSPORT, bl_solvable = True,
      bl_summary = JStr ''The phone is visible by USB but does not yet expose a fully managed transport. ForgeOS should generate generic host-side triage and transport diagnostics before pausing.'',
      bl_escalation = ''Pause only if generated transport triage still shows that the phone needs a physical on-device action.'',
      bl_budget = 2, bl_action = JStr ''generate_host_transport_triage'', bl_steps = steps\<rparr>"

definition trust_blocker :: "json \<Rightarrow> blocker" where
  "trust_blocker steps =
     \<lparr>bl_type = BT_TRUST, bl_solvable = False,
      bl_summary = JStr ''The phone is visible to adb but still requires on-device trust approval.'',
      bl_escalation = ''Wait for user to approve USB debugging prompt.'',
      bl_budget = 0, bl_action = JStr ''ask_for_usb_debugging_trust'', bl_steps = steps\<rparr>"

definition policy_blocker :: "jdict \<Rightarrow> json \<Rightarrow> blocker" where
  "policy_blocker assessment steps =
     \<lparr>bl_type = BT_POLICY, bl_solvable = False,
      bl_summary = dget assessment ''summary'' (JStr ''A hard support blocker was identified.''),
      bl_escalation = ''Do not proceed without new evidence or a safer alternative path.'',
      bl_budget = 0, bl_action = JStr ''halt_with_evidence'', bl_steps = steps\<rparr>"

definition research_blocker :: "session_state \<Rightarrow> blocker" where
  "research_blocker state =
     \<lparr>bl_type = BT_SOURCE, bl_solvable = True,
      bl_summary = JStr (''The device is connected, but ForgeOS has not proven a safe restore or install path yet. '' @
        ''Continue bounded autonomous research, source discovery, and restore-path planning without destructive actions.''),
      bl_escalation = ''Pause only after research and source acquisition cannot improve restore or install feasibility.'',
      bl_budget = max 1 (4 - min (ss_remediation_iteration state) 3),
      bl_action = JStr ''source_acquisition_and_staging'',
      bl_steps = jstrs [''Search trusted firmware/source locations and cached research for this exact device.'',
        ''Refresh restore-path evidence and keep destructive install gates closed until feasibility is proven.'']\<rparr>"

definition scaffold_blocker :: "json \<Rightarrow> blocker" where
  "scaffold_blocker steps =
     \<lparr>bl_type = BT_SOURCE, bl_solvable = True,
      bl_summary = JStr ''Connection/build path requires generated session-specific code or configuration.'',
      bl_escalation = ''Escalate only if generated artifacts fail to improve the path.'',
      bl_budget = 2, bl_action = JStr ''generate_generic_adapter_scaffold'', bl_steps = steps\<rparr>"

definition physical_blocker :: "jdict \<Rightarrow> json \<Rightarrow> blocker" where
  "physical_blocker remediation steps =
     \<lparr>bl_type = BT_PHYSICAL, bl_solvable = False,
      bl_summary = dget remediation ''summary''
        (JStr ''The latest remediation artifact concluded that a physical device action is required.''),
      bl_escalation = ''Ask one minimal operational question and preserve the current rollback posture.'',
      bl_budget = 0, bl_action = JStr ''question_gate'', bl_steps = steps\<rparr>"

definition failed_blocker :: "session_state \<Rightarrow> jdict \<Rightarrow> json \<Rightarrow> blocker" where
  "failed_blocker state remediation steps =
     \<lparr>bl_type = BT_SUBSYSTEM, bl_solvable = (ss_remediation_iteration state < 2),
      bl_summary = dget remediation ''summary''
        (JStr ''The remediation artifact failed and needs another generated attempt or review.''),
      bl_escalation = ''Stop autonomous retries if repeated generated artifacts fail without improving evidence.'',
      bl_budget = max 0 (2 - ss_remediation_iteration state),
      bl_action = JStr ''generate_followup_diagnostic'', bl_steps = steps\<rparr>"

definition classify_blocker ::
    "device_profile \<Rightarrow> session_state \<Rightarrow> jdict \<Rightarrow> jdict \<Rightarrow> jdict \<Rightarrow> jdict \<Rightarrow> jdict \<Rightarrow> blocker res" where
  "classify_blocker profile state assessment engagement connection_plan remediation build_artifacts =
     (let transport = dp_transport profile;
          engagement_status = dget engagement ''engagement_status'' (JStr ''unknown'');
          steps = jor (dget0 engagement ''next_steps'') (JList []);
          status = dget remediation ''status'' (JStr []);
          support = dget0 assessment ''support_status''
      in bindr (jget (jor (dget0 connection_plan ''recommended_adapter'') (JObj [])) ''adapter_id'' (JStr ''observe''))
           (\<lambda>action.
         if status = JStr ''solved'' then Inr (solved_blocker steps)
         else if transport = T_USB_MTP \<or> engagement_status = JStr ''usb_only_detected''
           then Inr (transport_blocker steps)
         else if engagement_status = JStr ''awaiting_user_approval'' then Inr (trust_blocker steps)
         else if support = JStr ''blocked'' then Inr (policy_blocker assessment steps)
         else if support = JStr ''research_only'' \<and> transport \<in> set reachable_transports
           then Inr (research_blocker state)
         else if truthy (dget0 connection_plan ''requires_codex_generation'') then Inr (scaffold_blocker steps)
         else if status = JStr ''needs_user_action'' then Inr (physical_blocker remediation steps)
         else if status = JStr ''artifact_failed'' then Inr (failed_blocker state remediation steps)
         else if transport \<in> set reachable_transports
             \<and> support \<notin> set [JStr ''blocked'', JStr ''research_only'']
             \<and> dget0 build_artifacts ''status'' \<in> set [JStr ''missing_source'', JNull, JStr []]
           then source_missing_blocker profile state build_artifacts
         else Inr (no_blocker action steps)))"

definition blocker_json :: "string \<Rightarrow> jdict \<Rightarrow> blocker \<Rightarrow> jdict" where
  "blocker_json now remediation b =
     [(''generated_at'', JStr now),
      (''blocker_type'', JStr (blocker_type_value (bl_type b))),
      (''confidence'', JFloat (if bl_type b \<noteq> BT_NONE then 85/100 else 35/100)),
      (''machine_solvable'', JBool (bl_solvable b)),
      (''summary'', bl_summary b),
      (''required_artifacts'', jstrs [''device-profile.json'', ''session-state.json'', ''reports/assessment.json'',
         ''reports/engagement.json'', ''plans/connection-plan.json'']),
      (''planned_next_action'', bl_action b),
      (''retry_budget'', JInt (if bl_solvable b then bl_budget b else 0)),
      (''escalation_condition'', JStr (bl_escalation b)),
      (''user_steps'', bl_steps b),
      (''remediation_status'', jor (dget remediation ''status'' (JStr [])) (JStr ''not_started''))]"

definition classify ::
    "string \<Rightarrow> device_profile \<Rightarrow> session_state \<Rightarrow> jdict \<Rightarrow> jdict \<Rightarrow> jdict \<Rightarrow> jdict \<Rightarrow> jdict \<Rightarrow> jdict res" where
  "classify now profile state assessment engagement connection_plan remediation build_artifacts =
     bindr (classify_blocker profile state assessment engagement connection_plan remediation build_artifacts)
       (\<lambda>b. Inr (blocker_json now remediation b))"

definition write_blocker :: "string \<Rightarrow> jdict \<Rightarrow> files \<Rightarrow> files" where
  "write_blocker session_dir payload fs = fwrite (session_dir @ ''/reports/blocker.json'') (JObj payload) fs"

section \<open>The shape of a blocker\<close>

lemmas blocker_branches =
  solved_blocker_def transport_blocker_def trust_blocker_def policy_blocker_def research_blocker_def
  scaffold_blocker_def physical_blocker_def failed_blocker_def no_blocker_def

lemma source_missing_shape:
  "source_missing_blocker profile state artifacts = Inr b \<Longrightarrow>
     bl_type b = BT_SOURCE \<and> bl_solvable b \<and> bl_budget b = max 1 (6 - min (ss_remediation_iteration state) 5)"
  by (auto simp: source_missing_blocker_def Let_def)

text \<open>The facts about one blocker that do not depend on how it was reached.\<close>

definition coherent :: "session_state \<Rightarrow> blocker \<Rightarrow> bool" where
  "coherent state b \<longleftrightarrow>
     (bl_solvable b \<longrightarrow> 1 \<le> bl_budget b)
     \<and> (bl_solvable b \<longrightarrow> bl_type b \<in> {BT_SOURCE, BT_TRANSPORT, BT_SUBSYSTEM})
     \<and> (bl_type b \<in> {BT_SOURCE, BT_TRANSPORT} \<longrightarrow> bl_solvable b)
     \<and> (0 \<le> ss_remediation_iteration state \<longrightarrow> bl_budget b \<le> 6)"

lemma coherent_branches:
  "coherent st (solved_blocker s)" "coherent st (transport_blocker s)" "coherent st (trust_blocker s)"
  "coherent st (policy_blocker a s)" "coherent st (research_blocker st)" "coherent st (scaffold_blocker s)"
  "coherent st (physical_blocker r s)" "coherent st (failed_blocker st r s)" "coherent st (no_blocker x s)"
  by (auto simp: coherent_def blocker_branches)

lemma classify_coherent:
  assumes "classify_blocker p st a e c r ba = Inr b"
  shows "coherent st b"
  using assms unfolding classify_blocker_def Let_def
  by (auto simp: coherent_branches split: if_splits dest!: source_missing_shape) (auto simp: coherent_def)

section \<open>Properties\<close>

text \<open>The machine is only told to retry what it may retry: the retry budget of a
  classification is positive exactly when the blocker is machine-solvable, never exceeds six,
  and trust, physical and policy blockers are never machine-solvable.\<close>

theorem retry_budget_coherent:
  assumes "classify now p st a e c r ba = Inr d" and "0 \<le> ss_remediation_iteration st"
  shows "(\<exists>n. dget0 d ''retry_budget'' = JInt n \<and> 0 \<le> n \<and> n \<le> 6
            \<and> (0 < n \<longleftrightarrow> dget0 d ''machine_solvable'' = JBool True))
    \<and> (dget0 d ''blocker_type'' \<in> JStr ` blocker_type_value ` {BT_TRUST, BT_PHYSICAL, BT_POLICY, BT_NONE}
        \<longrightarrow> dget0 d ''machine_solvable'' = JBool False)"
proof -
  from assms(1) obtain b where b: "classify_blocker p st a e c r ba = Inr b" and d: "d = blocker_json now r b"
    by (auto simp: classify_def)
  from classify_coherent [OF b] have coh: "coherent st b" .
  have "bl_type b \<in> {BT_TRUST, BT_PHYSICAL, BT_POLICY, BT_NONE} \<Longrightarrow> \<not> bl_solvable b"
    using coh by (auto simp: coherent_def)
  then show ?thesis
    using coh assms(2) by (cases "bl_solvable b") (auto simp: d blocker_json_def coherent_def blocker_type_enum.val_inject)
qed

theorem retry_budget_coherent_witness:
  "\<exists>d. classify ''t'' (bare_profile ''d'' ''f'' T_USB_MTP) (default_session_state ''d'' ''t'') [] [] [] [] [] = Inr d
     \<and> (\<exists>n. dget0 d ''retry_budget'' = JInt n \<and> n \<le> 6)"
proof -
  obtain d where d: "classify ''t'' (bare_profile ''d'' ''f'' T_USB_MTP) (default_session_state ''d'' ''t'') [] [] [] [] [] = Inr d"
    by (simp add: classify_def classify_blocker_def Let_def bare_profile_def)
  then show ?thesis
    using retry_budget_coherent [OF d] by (auto simp: default_session_state_def)
qed

text \<open>The classification follows the safety order: whatever else is reported, a device whose
  trust prompt is open is a trust blocker and a blocked assessment halts, unless the last
  remediation solved the problem or the device is visible by USB alone; in none of these
  cases is there anything left for the machine to do.\<close>

theorem human_blockers_first:
  assumes "dget remediation ''status'' (JStr []) \<noteq> JStr ''solved''"
    and "dp_transport profile \<noteq> T_USB_MTP"
    and "dget engagement ''engagement_status'' (JStr ''unknown'') = JStr ''awaiting_user_approval''
      \<or> (dget0 assessment ''support_status'' = JStr ''blocked''
          \<and> dget engagement ''engagement_status'' (JStr ''unknown'') \<noteq> JStr ''usb_only_detected'')"
    and "classify now profile st assessment engagement connection_plan remediation build_artifacts = Inr d"
  shows "dget0 d ''machine_solvable'' = JBool False \<and> dget0 d ''retry_budget'' = JInt 0
    \<and> dget0 d ''blocker_type'' =
        JStr (if dget engagement ''engagement_status'' (JStr ''unknown'') = JStr ''awaiting_user_approval''
              then ''trust_blocker'' else ''policy_blocker'')"
  using assms
  by (auto simp: classify_def classify_blocker_def Let_def blocker_json_def trust_blocker_def policy_blocker_def)

theorem human_blockers_first_witness:
  "\<exists>d. classify ''t'' (bare_profile ''d'' ''f'' T_USB_ADB) (default_session_state ''d'' ''t'') []
       [(''engagement_status'', JStr ''awaiting_user_approval'')] [] [] [] = Inr d
     \<and> dget0 d ''blocker_type'' = JStr ''trust_blocker''"
proof -
  obtain d where d: "classify ''t'' (bare_profile ''d'' ''f'' T_USB_ADB) (default_session_state ''d'' ''t'') []
       [(''engagement_status'', JStr ''awaiting_user_approval'')] [] [] [] = Inr d"
    by (simp add: classify_def classify_blocker_def Let_def bare_profile_def)
  then show ?thesis
    using human_blockers_first [OF _ _ _ d] by (simp add: bare_profile_def)
qed

end
