(* ===== verification/Connection_Engine.thy ===== *)
theory Connection_Engine
  imports Models Naming
begin

text \<open>
  \<open>app/core/connection_engine.py\<close> ranks the adapters a session can talk to its device with, and
  \<open>app/core/connection_playbook.py\<close> looks up the guidance shown to the operator.
\<close>

section \<open>Adapters\<close>

record connection_adapter =
  ca_adapter_id :: string
  ca_label :: string
  ca_transport_match :: "string list"
  ca_vendor_match :: "string list"
  ca_priority :: int
  ca_destructive :: bool
  ca_notes :: string
  ca_next_steps :: "string list"

definition adapter_score :: "connection_adapter \<Rightarrow> device_profile \<Rightarrow> int" where
  "adapter_score a profile =
     ca_priority a
     + (if transport_value (dp_transport profile) \<in> set (ca_transport_match a) then 80 else 0)
     + (case dp_manufacturer profile of
          None \<Rightarrow> 0
        | Some m \<Rightarrow> if m \<noteq> [] \<and> lower m \<in> set (map lower (ca_vendor_match a)) then 25 else 0)"

definition adapters :: "connection_adapter list" where
  "adapters =
     [\<lparr>ca_adapter_id = ''adb'', ca_label = ''Android Debug Bridge'', ca_transport_match = [''usb-adb''],
       ca_vendor_match = [], ca_priority = 100, ca_destructive = False,
       ca_notes = ''Preferred non-destructive path when USB debugging is authorized.'',
       ca_next_steps = [''Query device properties via adb shell.'', ''Collect slot and partition clues.'']\<rparr>,
      \<lparr>ca_adapter_id = ''fastboot'', ca_label = ''Fastboot'', ca_transport_match = [''usb-fastboot'', ''usb-fastbootd''],
       ca_vendor_match = [], ca_priority = 90, ca_destructive = False,
       ca_notes = ''Low-level transport for unlock, flash planning, and partition inspection where supported.'',
       ca_next_steps = [''Query fastboot variables.'', ''Check unlock and slot support.'']\<rparr>,
      \<lparr>ca_adapter_id = ''recovery'', ca_label = ''Recovery'', ca_transport_match = [''usb-recovery''],
       ca_vendor_match = [], ca_priority = 70, ca_destructive = False,
       ca_notes = ''Fallback recovery-mode path for backup or rescue workflows.'',
       ca_next_steps = [''Identify recovery environment.'', ''Assess sideload and restore possibilities.'']\<rparr>,
      \<lparr>ca_adapter_id = ''mtp-bridge'', ca_label = ''MTP / USB User-Space Bridge'', ca_transport_match = [''usb-mtp''],
       ca_vendor_match = [], ca_priority = 40, ca_destructive = False,
       ca_notes = ''USB-only visibility. Useful for identification and user-guided transition toward adb or OEM tools.'',
       ca_next_steps = [''Guide user to enable USB debugging.'',
         ''Attempt adb server/reconnect once phone trust is granted.'']\<rparr>,
      \<lparr>ca_adapter_id = ''samsung-download'', ca_label = ''Samsung Download / Heimdall'',
       ca_transport_match = [''usb-mtp'', ''unknown''], ca_vendor_match = [''Samsung''],
       ca_priority = 45, ca_destructive = False,
       ca_notes = ''Samsung-specific escalation path when adb is unavailable and the device can enter download mode.'',
       ca_next_steps = [''Determine whether device can reach download mode.'',
         ''Prepare Heimdall/Odin-compatible research path.'']\<rparr>,
      \<lparr>ca_adapter_id = ''codex-generated'', ca_label = ''Codex-Generated Adapter'',
       ca_transport_match = [''usb-mtp'', ''unknown'', ''usb-adb'', ''usb-fastboot'', ''usb-fastbootd'', ''usb-recovery''],
       ca_vendor_match = [], ca_priority = 30, ca_destructive = False,
       ca_notes = ''Fallback path where Codex should generate a device-specific probe or connection helper.'',
       ca_next_steps = [''Inspect raw probe data and USB IDs.'',
         ''Generate missing adapter scripts in the device session.'']\<rparr>]"

text \<open>A candidate of the plan: an adapter with its score for the profile.\<close>

record candidate =
  cd_adapter :: connection_adapter
  cd_score :: int

definition ranked_candidates :: "device_profile \<Rightarrow> candidate list" where
  "ranked_candidates profile =
     sorted_desc cd_score (map (\<lambda>a. \<lparr>cd_adapter = a, cd_score = adapter_score a profile\<rparr>) adapters)"

definition candidate_json :: "candidate \<Rightarrow> json" where
  "candidate_json c = (let a = cd_adapter c in JObj
     [(''adapter_id'', JStr (ca_adapter_id a)), (''label'', JStr (ca_label a)), (''score'', JInt (cd_score c)),
      (''destructive'', JBool (ca_destructive a)), (''notes'', JStr (ca_notes a)),
      (''next_steps'', jstrs (ca_next_steps a))])"

definition recommended_adapter :: "device_profile \<Rightarrow> candidate option" where
  "recommended_adapter profile = (case ranked_candidates profile of [] \<Rightarrow> None | c # _ \<Rightarrow> Some c)"

definition requires_codex_generation :: "device_profile \<Rightarrow> session_state \<Rightarrow> json \<Rightarrow> bool" where
  "requires_codex_generation profile state engagement_status =
     (let transport = dp_transport profile;
          managed = transport \<in> set [T_USB_ADB, T_USB_FASTBOOT, T_USB_FASTBOOTD, T_USB_RECOVERY];
          connected = engagement_status \<in> set [JStr ''adb_connected'', JStr ''fastboot_connected'', JStr ''recovery_connected''];
          known = (case recommended_adapter profile of None \<Rightarrow> False
                   | Some c \<Rightarrow> ca_adapter_id (cd_adapter c) \<in> set [''adb'', ''fastboot'', ''recovery''])
      in if managed \<and> connected then False
         else if known \<and> managed then False
         else transport \<in> set [T_USB_MTP, T_UNKNOWN]
           \<or> ss_support_status state \<in> set [SUP_RESEARCH_ONLY, SUP_EXPERIMENTAL])"

definition connection_build_plan :: "string \<Rightarrow> device_profile \<Rightarrow> session_state \<Rightarrow> jdict \<Rightarrow> jdict \<Rightarrow> jdict" where
  "connection_build_plan now profile state assessment engagement =
     (let engagement_status = dget0 engagement ''engagement_status'' in
      [(''generated_at'', JStr now),
       (''device_session'', JStr (dp_session_id profile)),
       (''transport'', JStr (transport_value (dp_transport profile))),
       (''support_status'', JStr (support_status_value (ss_support_status state))),
       (''assessment_summary'', dget0 assessment ''summary''),
       (''engagement_status'', engagement_status),
       (''recommended_adapter'', jopt candidate_json (recommended_adapter profile)),
       (''adapter_candidates'', JList (map candidate_json (ranked_candidates profile))),
       (''requires_codex_generation'', JBool (requires_codex_generation profile state engagement_status))])"

definition connection_write_plan :: "string \<Rightarrow> jdict \<Rightarrow> files \<Rightarrow> files" where
  "connection_write_plan session_dir plan fs = fwrite (session_dir @ ''/plans/connection-plan.json'') (JObj plan) fs"

section \<open>Playbooks\<close>

definition playbook_candidates :: "string option \<Rightarrow> string option \<Rightarrow> string list" where
  "playbook_candidates manufacturer model =
     [playbook_slugify manufacturer @ ''-'' @ playbook_slugify model @ ''.json'',
      playbook_slugify manufacturer @ ''.json'',
      ''generic-android.json'']"

definition state_key :: "string \<Rightarrow> string \<Rightarrow> string" where
  "state_key engagement_status transport =
     (if engagement_status = ''awaiting_user_approval'' then ''adb_unauthorized''
      else if engagement_status = ''adb_connected'' then ''adb_connected''
      else if engagement_status = ''fastboot_connected'' then ''fastboot_connected''
      else if transport = ''usb-mtp'' \<or> engagement_status = ''usb_only_detected'' then ''usb_only''
      else ''default'')"

definition default_steps :: json where
  "default_steps = jstrs [''Unlock the phone.'', ''Enable Developer Options.'', ''Enable USB debugging.'',
     ''Reconnect the USB cable if needed.'']"

definition read_playbook :: "files \<Rightarrow> string option \<Rightarrow> jdict res" where
  "read_playbook fs path =
     (case path of
        None \<Rightarrow> Inr []
      | Some p \<Rightarrow> load_doc (\<lambda>j. case j of JObj d \<Rightarrow> Inr d | _ \<Rightarrow> Inl (AttributeError ''get'')) fs p)"

definition playbook_resolve ::
    "files \<Rightarrow> string \<Rightarrow> string option \<Rightarrow> string option \<Rightarrow> string \<Rightarrow> string \<Rightarrow> jdict res" where
  "playbook_resolve fs playbook_dir manufacturer model engagement_status transport =
     (let selected = find (fexists fs) (map (\<lambda>c. playbook_dir @ ''/'' @ c) (playbook_candidates manufacturer model));
          key = state_key engagement_status transport
      in bindr (read_playbook fs selected) (\<lambda>data.
         let states = dget data ''states'' (JObj []) in
         bindr (jget states ''default'' (JObj [])) (\<lambda>dflt.
         bindr (jget states key dflt) (\<lambda>st.
         bindr (jget st ''title'' (JStr ''Connection setup guidance'')) (\<lambda>heading.
         bindr (jget st ''summary'' (JStr ''Follow the phone-side setup steps until ForgeOS sees adb, fastboot, or recovery transport.'')) (\<lambda>summary.
         bindr (jget st ''steps'' default_steps) (\<lambda>steps.
         bindr (jget st ''expected_next_state'' (JStr ''adb unauthorized'')) (\<lambda>expected.
         bindr (jget st ''troubleshooting'' (JList [])) (\<lambda>troubleshooting.
         Inr [(''playbook_id'', dget data ''playbook_id'' (JStr ''generic-android'')),
              (''title'', heading), (''summary'', summary), (''steps'', steps),
              (''expected_next_state'', expected), (''troubleshooting'', troubleshooting),
              (''source_path'', JStr (case selected of None \<Rightarrow> [] | Some p \<Rightarrow> p)),
              (''state_key'', JStr key)])))))))))"

section \<open>Ranking\<close>

lemma adapters_nonempty [simp]: "adapters \<noteq> []"
  by (simp add: adapters_def)

lemma ranked_nonempty: "ranked_candidates p \<noteq> []"
  by (metis adapters_nonempty length_0_conv length_map length_sorted_desc ranked_candidates_def)

lemma recommended_hd: "recommended_adapter p = Some (hd (ranked_candidates p))"
  using ranked_nonempty [of p] by (cases "ranked_candidates p") (simp_all add: recommended_adapter_def)

lemma recommended_best:
  assumes "recommended_adapter p = Some c"
  shows "cd_adapter c \<in> set adapters" "cd_score c = adapter_score (cd_adapter c) p"
    "a \<in> set adapters \<Longrightarrow> adapter_score a p \<le> cd_score c"
proof -
  let ?xs = "map (\<lambda>a. \<lparr>cd_adapter = a, cd_score = adapter_score a p\<rparr>) adapters"
  have ne: "?xs \<noteq> []" by simp
  have c: "c = hd (sorted_desc cd_score ?xs)"
    using assms by (simp add: recommended_hd ranked_candidates_def)
  from sorted_desc_hd(1) [OF ne, of cd_score] c show "cd_adapter c \<in> set adapters" "cd_score c = adapter_score (cd_adapter c) p"
    by auto
  assume "a \<in> set adapters"
  then show "adapter_score a p \<le> cd_score c"
    using sorted_desc_hd(2) [OF ne, of "\<lparr>cd_adapter = a, cd_score = adapter_score a p\<rparr>" cd_score] c by auto
qed

definition best_adapter_id :: "transport \<Rightarrow> string" where
  "best_adapter_id t = (case t of T_USB_ADB \<Rightarrow> ''adb'' | T_USB_FASTBOOT \<Rightarrow> ''fastboot'' | T_USB_FASTBOOTD \<Rightarrow> ''fastboot''
     | T_USB_RECOVERY \<Rightarrow> ''recovery'' | T_USB_MTP \<Rightarrow> ''samsung-download'' | T_UNKNOWN \<Rightarrow> ''samsung-download'')"

text \<open>The scores by transport; only the Samsung adapter has a vendor bonus.\<close>

definition samsung_bonus :: "device_profile \<Rightarrow> int" where
  "samsung_bonus p = (case dp_manufacturer p of None \<Rightarrow> 0
     | Some m \<Rightarrow> if m \<noteq> [] \<and> lower m \<in> set (map lower [''Samsung'']) then 25 else 0)"

lemma samsung_bonus_bounds: "0 \<le> samsung_bonus p" "samsung_bonus p \<le> 25"
  by (simp_all add: samsung_bonus_def split: option.splits)

lemma score_no_vendor:
  "ca_vendor_match a = [] \<Longrightarrow> adapter_score a p =
     ca_priority a + (if transport_value (dp_transport p) \<in> set (ca_transport_match a) then 80 else 0)"
  by (simp add: adapter_score_def split: option.splits)

lemma score_samsung:
  "ca_vendor_match a = [''Samsung''] \<Longrightarrow> adapter_score a p =
     ca_priority a + (if transport_value (dp_transport p) \<in> set (ca_transport_match a) then 80 else 0) + samsung_bonus p"
  unfolding adapter_score_def samsung_bonus_def by (cases "dp_manufacturer p") simp_all

definition score_table :: "transport \<Rightarrow> int \<Rightarrow> (string \<times> int) list" where
  "score_table t v =
     [(''adb'', if t = T_USB_ADB then 180 else 100),
      (''fastboot'', if t \<in> set [T_USB_FASTBOOT, T_USB_FASTBOOTD] then 170 else 90),
      (''recovery'', if t = T_USB_RECOVERY then 150 else 70),
      (''mtp-bridge'', if t = T_USB_MTP then 120 else 40),
      (''samsung-download'', if t \<in> set [T_USB_MTP, T_UNKNOWN] then 125 + v else 45 + v),
      (''codex-generated'', 110)]"

lemma scores: "map (\<lambda>a. (ca_adapter_id a, adapter_score a p)) adapters = score_table (dp_transport p) (samsung_bonus p)"
  by (cases "dp_transport p") (simp_all add: adapters_def score_table_def score_no_vendor score_samsung)

lemma table_best:
  assumes "(i, s) \<in> set (score_table t v)" and "\<forall>(j, r) \<in> set (score_table t v). r \<le> s" and "0 \<le> v" "v \<le> 25"
  shows "i = best_adapter_id t"
  using assms by (cases t) (auto simp: score_table_def best_adapter_id_def)

lemma best_unique:
  assumes "a \<in> set adapters" and "\<forall>b \<in> set adapters. adapter_score b p \<le> adapter_score a p"
  shows "ca_adapter_id a = best_adapter_id (dp_transport p)"
proof (rule table_best [OF _ _ samsung_bonus_bounds])
  show "(ca_adapter_id a, adapter_score a p) \<in> set (score_table (dp_transport p) (samsung_bonus p))"
    using assms(1) by (simp flip: scores)
  show "\<forall>(j, r) \<in> set (score_table (dp_transport p) (samsung_bonus p)). r \<le> adapter_score a p"
    using assms(2) by (simp flip: scores)
qed

section \<open>Properties\<close>

text \<open>Which adapter a session is told to use depends on the transport alone: adb, fastboot
  and recovery for their own transports, and Samsung's download mode for a device seen by
  MTP or not identified, whatever its manufacturer: the MTP bridge, which the table describes
  as the way for USB-only visibility, is never recommended.\<close>

theorem recommended_by_transport:
  "\<exists>c. recommended_adapter profile = Some c
     \<and> ca_adapter_id (cd_adapter c) = best_adapter_id (dp_transport profile)
     \<and> ca_adapter_id (cd_adapter c) \<noteq> ''mtp-bridge''"
proof -
  let ?c = "hd (ranked_candidates profile)"
  have r: "recommended_adapter profile = Some ?c" by (rule recommended_hd)
  note best = recommended_best [OF r]
  have "ca_adapter_id (cd_adapter ?c) = best_adapter_id (dp_transport profile)"
    using best by (intro best_unique) auto
  moreover have "best_adapter_id t \<noteq> ''mtp-bridge''" for t
    by (cases t) (simp_all add: best_adapter_id_def)
  ultimately show ?thesis using r by metis
qed

text \<open>The candidates of a plan are all adapters, each with its score, best first.\<close>

theorem candidates_ranked:
  "sorted_wrt (\<lambda>c d. cd_score d \<le> cd_score c) (ranked_candidates profile)
   \<and> set (map cd_adapter (ranked_candidates profile)) = set adapters
   \<and> length (ranked_candidates profile) = length adapters"
  unfolding ranked_candidates_def
  using sorted_desc_sorted [of cd_score "map (\<lambda>a. \<lparr>cd_adapter = a, cd_score = adapter_score a profile\<rparr>) adapters"]
  by (simp add: image_image)

end
