(* ===== verification/Planning_Tools.thy ===== *)
theory Planning_Tools
  imports Models
begin

text \<open>
  The tools that turn evidence about a device into a plan: \<open>app/tools/feasibility_assessor.py\<close>,
  \<open>app/tools/strategy_selector.py\<close> and \<open>app/tools/use_case_recommender.py\<close>. Each is a function
  from a JSON payload to a JSON report. Scores are exact rationals.
\<close>

section \<open>Payloads\<close>

text \<open>\<open>dict(payload.get(k, {}))\<close> and \<open>dict(payload[k])\<close>.\<close>

definition dict_arg :: "jdict \<Rightarrow> string \<Rightarrow> jdict res" where
  "dict_arg payload k = as_dict (dget payload k (JObj []))"

definition dict_req :: "jdict \<Rightarrow> string \<Rightarrow> jdict res" where
  "dict_req payload k = bindr (dindex payload k) as_dict"

text \<open>\<open>dict(d.get(k) or {})\<close>.\<close>

definition dict_or :: "jdict \<Rightarrow> string \<Rightarrow> jdict res" where
  "dict_or d k = as_dict (jor (dget0 d k) (JObj []))"

section \<open>Feasibility\<close>

definition boot_state_lock :: "jdict \<Rightarrow> json" where
  "boot_state_lock snapshot =
     (let vbs = lower (strip (dstr_or snapshot ''verified_boot_state'' [])) in
      if vbs = ''green'' then JBool True
      else if vbs \<in> set [''orange'', ''yellow'', ''red''] then JBool False
      else JNull)"

definition lock_evidence :: "jdict \<Rightarrow> json res" where
  "lock_evidence device =
     (if dget0 device ''bootloader_locked'' \<noteq> JNull then Inr (dget0 device ''bootloader_locked'')
      else bindr (dict_or device ''raw_event'') (\<lambda>raw.
           bindr (dict_or raw ''hardware_snapshot'') (\<lambda>snapshot.
           bindr (if snapshot = [] then dict_or device ''hardware_snapshot'' else Inr snapshot) (\<lambda>snapshot'.
           Inr (boot_state_lock snapshot')))))"

definition assessment_json :: "string \<Rightarrow> string \<Rightarrow> bool \<Rightarrow> string \<Rightarrow> jdict" where
  "assessment_json status summary feasible path =
     [(''support_status'', JStr status), (''summary'', JStr summary),
      (''restore_path_feasible'', JBool feasible), (''recommended_path'', JStr path)]"

definition blocked_reasons :: "string \<Rightarrow> json \<Rightarrow> string list" where
  "blocked_reasons transport serial =
     (if serial \<in> set [JNull, JStr [], JStr ''unknown-serial''] then [''No stable serial detected''] else [])
     @ (if transport = ''unknown'' then [''Transport mode is unknown''] else [])"

definition assess :: "jdict \<Rightarrow> jdict res" where
  "assess payload =
     bindr (dict_req payload ''device'') (\<lambda>device.
     bindr (lock_evidence device) (\<lambda>bootloader_locked.
       let transport = dstr device ''transport'' ''unknown'';
           reasons = blocked_reasons transport (dget0 device ''serial'')
       in Inr (if transport = ''usb-mtp'' then
            assessment_json ''research_only'' ''USB phone detected in MTP/media mode. ForgeOS can engage autonomously only after adb, fastboot, or recovery transport becomes available.'' False ''transport_engagement''
          else if reasons \<noteq> [] then
            assessment_json ''blocked'' (join ''; '' reasons) False ''research_only''
          else if bootloader_locked = JBool True then
            assessment_json ''research_only'' ''Device detected with a locked bootloader. Non-destructive planning continues; unlock and flash paths are gated until restore viability is confirmed.'' False ''research_only''
          else
            assessment_json ''actionable'' ''Assessment passed initial feasibility gates for non-destructive planning.'' True ''hardened_existing_os'')))"

section \<open>Strategy\<close>

definition strategy_json :: "string \<Rightarrow> string \<Rightarrow> jdict" where
  "strategy_json strategy_id reason = [(''strategy_id'', JStr strategy_id), (''reason'', JStr reason)]"

definition select_strategy :: "jdict \<Rightarrow> jdict res" where
  "select_strategy payload =
     bindr (dict_req payload ''assessment'') (\<lambda>assessment.
     bindr (dict_arg payload ''user_profile'') (\<lambda>user_profile.
     bindr (dict_arg payload ''os_goals'') (\<lambda>os_goals.
       let support_status = dget0 assessment ''support_status'';
           recommended_path = dget assessment ''recommended_path'' (JStr ''research_only'');
           persona = dget user_profile ''persona'' (JStr (user_persona_value UP_DAILY));
           comfort = dget user_profile ''technical_comfort'' (JStr (technical_comfort_value TC_LOW));
           primary_priority = dget user_profile ''primary_priority'' (JStr (priority_focus_value PF_SECURITY));
           google_pref = dget user_profile ''google_services_preference''
             (JStr (google_services_preference_value GS_KEEP));
           top_goal = dget os_goals ''top_goal'' primary_priority
       in Inr (
         if support_status = JStr ''blocked'' then
           strategy_json ''blocked_research'' ''The device is blocked by transport or restore-path feasibility and should not proceed.''
         else if recommended_path = JStr ''transport_engagement'' then
           strategy_json ''transport_recovery'' ''The first priority is to reach adb, fastboot, or recovery transport before OS selection.''
         else if support_status \<noteq> JStr ''actionable'' then
           strategy_json ''research_only'' ''Support feasibility is not proven enough for destructive build flow.''
         else if persona = JStr (user_persona_value UP_SENIOR) \<or> top_goal = JStr (priority_focus_value PF_SIMPLICITY) then
           strategy_json ''hardened_stock'' ''Prioritize stability, familiarity, and supportable defaults for a simple user experience.''
         else if persona = JStr (user_persona_value UP_CHILD) then
           strategy_json ''managed_family_build'' ''Prioritize constrained usage, safety defaults, and durability over experimentation.''
         else if persona = JStr (user_persona_value UP_DEVELOPER) \<and> comfort = JStr (technical_comfort_value TC_HIGH) then
           strategy_json ''aftermarket_rom'' ''Developer profile favors unlockable, maintainable, and modifiable aftermarket paths when actionable.''
         else if persona = JStr (user_persona_value UP_PRIVACY)
             \<or> google_pref = JStr (google_services_preference_value GS_REMOVE) then
           strategy_json ''privacy_hardened_aftermarket'' ''Privacy-focused profile favors reduced Google dependency and stronger hardening where support allows it.''
         else if top_goal = JStr (priority_focus_value PF_BATTERY) then
           strategy_json ''hardened_stock'' ''Battery-focused profile usually benefits from the most maintainable and hardware-tuned base path.''
         else if top_goal = JStr (priority_focus_value PF_PERFORMANCE) then
           strategy_json ''device_specific_build'' ''Performance-focused profile may justify deeper device-specific tuning when support is actionable.''
         else
           strategy_json ''hardened_existing_os'' ''Prefer the most maintainable hardened path before novel device-specific rebuilds.''))))"

section \<open>Use case\<close>

record use_option =
  uo_id :: string
  uo_label :: string
  uo_fit :: rat
  uo_rationale :: string
  uo_constraints :: "string list"
  uo_evidence :: "string list"

definition keyword_bonus :: "string \<Rightarrow> string \<Rightarrow> string list \<Rightarrow> rat" where
  "keyword_bonus desired_end_product intended_user keywords =
     (let haystack = desired_end_product @ '' '' @ intended_user
      in min (18/100) (of_nat (length (filter (contains haystack) keywords)) * (6/100)))"

text \<open>What the options are scored by.\<close>

record use_evidence =
  ue_support :: json
  ue_comfort :: json
  ue_priority :: json
  ue_transport :: json
  ue_form_factor :: string
  ue_adapter :: json
  ue_product :: string
  ue_user :: string
  ue_lawful :: bool

definition use_options :: "use_evidence \<Rightarrow> use_option list" where
  "use_options e =
     (let bonus = keyword_bonus (ue_product e) (ue_user e); ff = ue_form_factor e in
      [\<lparr>uo_id = ''accessibility_focused_phone'', uo_label = ''Accessibility-focused phone'',
        uo_fit = (if ue_priority e \<in> set [JStr ''simplicity'', JStr ''security''] then 82/100 else 55/100)
          + bonus [''senior'', ''accessibility'', ''simple'', ''phone'']
          + (if ff = ''phone'' then 5/100 else if ff = ''tablet'' then - (8/100) else 0),
        uo_rationale = ''A constrained, dependable phone profile suits users who need clarity, safer defaults, and fewer moving parts.'',
        uo_constraints = [''Needs stable telephony and input support.''],
        uo_evidence = [''priority='' @ py_str (ue_priority e), ''technical_comfort='' @ py_str (ue_comfort e),
          ''form_factor='' @ ff]\<rparr>,
       \<lparr>uo_id = ''media_device'', uo_label = ''Offline media device'',
        uo_fit = (if ue_support e \<noteq> JStr ''blocked'' then 76/100 else 44/100)
          + bonus [''media'', ''music'', ''video'', ''offline'', ''player'']
          + (if ff = ''tablet'' then 8/100 else 0),
        uo_rationale = ''Media playback is often achievable even when deeper platform customization is still uncertain.'',
        uo_constraints = [''Storage health and battery longevity matter.''],
        uo_evidence = [''support_status='' @ py_str (ue_support e), ''transport='' @ py_str (ue_transport e),
          ''form_factor='' @ ff]\<rparr>,
       \<lparr>uo_id = ''home_control_panel'', uo_label = ''Home control panel'',
        uo_fit = (if ue_comfort e \<noteq> JStr ''low'' then 72/100 else 58/100)
          + bonus [''kiosk'', ''dashboard'', ''wall'', ''home'', ''control'']
          + (if ff = ''tablet'' then 10/100 else 0),
        uo_rationale = ''A docked, single-purpose control surface can extend the life of older devices with modest hardware requirements.'',
        uo_constraints = [''Requires reliable charging placement and kiosk-style shell.''],
        uo_evidence = [''adapter='' @ py_str (ue_adapter e), ''form_factor='' @ ff]\<rparr>,
       \<lparr>uo_id = ''lightweight_custom_android'', uo_label = ''Lightweight custom Android'',
        uo_fit = (if ue_support e = JStr ''actionable'' then 67/100 else 35/100)
          + bonus [''android'', ''custom'', ''tablet'', ''phone'', ''general''],
        uo_rationale = ''A lightly customized Android path is the most maintainable route when transport, restore, and update paths are still developing.'',
        uo_constraints = [''Needs a trustworthy build and preview path before install.''],
        uo_evidence = [''support_status='' @ py_str (ue_support e), ''adapter='' @ py_str (ue_adapter e),
          ''form_factor='' @ ff]\<rparr>])"

definition research_hold :: use_option where
  "research_hold =
     \<lparr>uo_id = ''research_hold'', uo_label = ''Research and preview only'', uo_fit = 1,
      uo_rationale = ''ForgeOS can assess and plan, but install or bypass-style actions require an explicit authorization attestation.'',
      uo_constraints = [''No destructive execution or lock-bypass work without lawful authorization.''],
      uo_evidence = [''lawful_use_attested=false'']\<rparr>"

definition ranked_options :: "use_evidence \<Rightarrow> use_option list" where
  "ranked_options e = sorted_desc uo_fit (use_options e @ (if ue_lawful e then [] else [research_hold]))"

definition recommended_use :: "use_evidence \<Rightarrow> string" where
  "recommended_use e =
     (if ue_support e = JStr ''blocked'' then ''media_device''
      else if ue_support e = JStr ''research_only'' \<and> ue_transport e = JStr ''usb-mtp'' then ''lightweight_custom_android''
      else case ranked_options e of [] \<Rightarrow> ''research_hold'' | opt # _ \<Rightarrow> uo_id opt)"

definition option_json :: "use_option \<Rightarrow> json" where
  "option_json opt = JObj
     [(''option_id'', JStr (uo_id opt)), (''label'', JStr (uo_label opt)), (''fit_score'', JFloat (uo_fit opt)),
      (''rationale'', JStr (uo_rationale opt)), (''constraints'', jstrs (uo_constraints opt)),
      (''evidence'', jstrs (uo_evidence opt))]"

definition read_use_evidence :: "jdict \<Rightarrow> use_evidence res" where
  "read_use_evidence payload =
     bindr (dict_arg payload ''device'') (\<lambda>device.
     bindr (dict_arg payload ''assessment'') (\<lambda>assessment.
     bindr (dict_arg payload ''user_profile'') (\<lambda>user_profile.
     bindr (dict_arg payload ''os_goals'') (\<lambda>os_goals.
     bindr (dict_arg payload ''connection_plan'') (\<lambda>connection_plan.
     bindr (jget (dget connection_plan ''recommended_adapter'' (JObj [])) ''adapter_id'' (JStr ''unknown'')) (\<lambda>adapter.
     Inr \<lparr>ue_support = dget assessment ''support_status'' (JStr ''research_only''),
          ue_comfort = dget user_profile ''technical_comfort'' (JStr ''low''),
          ue_priority = jor (dget0 user_profile ''primary_priority'') (dget os_goals ''top_goal'' (JStr ''security'')),
          ue_transport = dget device ''transport'' (JStr ''unknown''),
          ue_form_factor = dstr device ''form_factor'' ''unknown'',
          ue_adapter = adapter,
          ue_product = lower (dstr user_profile ''desired_end_product'' []),
          ue_user = lower (dstr user_profile ''intended_user'' []),
          ue_lawful = truthy (dget user_profile ''lawful_use_attested'' (JBool False))\<rparr>))))))"

definition recommend_use_case :: "jdict \<Rightarrow> jdict res" where
  "recommend_use_case payload =
     bindr (read_use_evidence payload) (\<lambda>e.
       let recommended = recommended_use e
       in Inr [(''recommended_use_case'', JStr recommended),
           (''options'', JList (map option_json (ranked_options e))),
           (''summary'', JStr (''ForgeOS recommends `'' @ recommended
              @ ''` as the best attainable use case with the current evidence.''))])"

section \<open>Lemmas\<close>

lemma assess_actionable:
  assumes "assess payload = Inr a" and "dget0 a ''support_status'' = JStr ''actionable''"
  shows "\<exists>device locked. dict_req payload ''device'' = Inr device \<and> lock_evidence device = Inr locked
    \<and> locked \<noteq> JBool True \<and> dstr device ''transport'' ''unknown'' \<notin> {''usb-mtp'', ''unknown''}
    \<and> dget0 device ''serial'' \<notin> {JNull, JStr [], JStr ''unknown-serial''}
    \<and> dget0 a ''restore_path_feasible'' = JBool True"
  using assms by (auto simp: assess_def Let_def assessment_json_def blocked_reasons_def split: if_splits)

lemma select_strategy_actionable:
  assumes "select_strategy payload = Inr s" and "dict_req payload ''assessment'' = Inr a"
    and "dget0 a ''support_status'' \<noteq> JStr ''actionable''"
  shows "dget0 s ''strategy_id'' \<in> {JStr ''blocked_research'', JStr ''transport_recovery'', JStr ''research_only''}"
  using assms by (auto simp: select_strategy_def Let_def strategy_json_def split: if_splits)

lemma keyword_bonus_bounds: "0 \<le> keyword_bonus p u ks" "keyword_bonus p u ks \<le> 18/100"
  by (simp_all add: keyword_bonus_def Let_def)

lemma fit_interval:
  fixes base adj :: rat
  assumes "x = base + keyword_bonus p u ks + adj" "lo \<le> base + adj" "base + adj + 18/100 \<le> hi"
  shows "lo \<le> x \<and> x \<le> hi"
  using assms keyword_bonus_bounds [of p u ks] by linarith

lemma option_fit_bounds:
  assumes "opt \<in> set (use_options e)"
  shows "35/100 \<le> uo_fit opt \<and> uo_fit opt \<le> 105/100"
proof -
  let ?b = "keyword_bonus (ue_product e) (ue_user e)" and ?ff = "ue_form_factor e"
  have "map uo_fit (use_options e) =
      [(if ue_priority e \<in> set [JStr ''simplicity'', JStr ''security''] then 82/100 else 55/100)
         + ?b [''senior'', ''accessibility'', ''simple'', ''phone'']
         + (if ?ff = ''phone'' then 5/100 else if ?ff = ''tablet'' then - (8/100) else 0),
       (if ue_support e \<noteq> JStr ''blocked'' then 76/100 else 44/100)
         + ?b [''media'', ''music'', ''video'', ''offline'', ''player''] + (if ?ff = ''tablet'' then 8/100 else 0),
       (if ue_comfort e \<noteq> JStr ''low'' then 72/100 else 58/100)
         + ?b [''kiosk'', ''dashboard'', ''wall'', ''home'', ''control''] + (if ?ff = ''tablet'' then 10/100 else 0),
       (if ue_support e = JStr ''actionable'' then 67/100 else 35/100)
         + ?b [''android'', ''custom'', ''tablet'', ''phone'', ''general''] + 0]"
    by (simp add: use_options_def Let_def del: set_simps)
  moreover have "uo_fit opt \<in> set (map uo_fit (use_options e))" using assms by simp
  ultimately consider
      "uo_fit opt = (if ue_priority e \<in> set [JStr ''simplicity'', JStr ''security''] then 82/100 else 55/100)
         + ?b [''senior'', ''accessibility'', ''simple'', ''phone'']
         + (if ?ff = ''phone'' then 5/100 else if ?ff = ''tablet'' then - (8/100) else 0)"
    | "uo_fit opt = (if ue_support e \<noteq> JStr ''blocked'' then 76/100 else 44/100)
         + ?b [''media'', ''music'', ''video'', ''offline'', ''player''] + (if ?ff = ''tablet'' then 8/100 else 0)"
    | "uo_fit opt = (if ue_comfort e \<noteq> JStr ''low'' then 72/100 else 58/100)
         + ?b [''kiosk'', ''dashboard'', ''wall'', ''home'', ''control''] + (if ?ff = ''tablet'' then 10/100 else 0)"
    | "uo_fit opt = (if ue_support e = JStr ''actionable'' then 67/100 else 35/100)
         + ?b [''android'', ''custom'', ''tablet'', ''phone'', ''general''] + 0"
    by (simp only: set_simps insert_iff empty_iff) blast
  then show ?thesis
    by cases (erule fit_interval; simp)+
qed

section \<open>Properties\<close>

text \<open>Nothing destructive is planned on thin evidence: a device is assessed as actionable
  only if it has a serial, its transport is known and is not MTP, and no evidence says its
  boot loader is locked; for any other assessment the strategy is one of the three that
  build nothing.\<close>

theorem only_actionable_gets_a_build:
  assumes "assess payload = Inr a"
  shows "(dget0 a ''support_status'' = JStr ''actionable'' \<longrightarrow>
       (\<exists>device locked. dict_req payload ''device'' = Inr device \<and> lock_evidence device = Inr locked
          \<and> locked \<noteq> JBool True \<and> dstr device ''transport'' ''unknown'' \<notin> {''usb-mtp'', ''unknown''}
          \<and> dget0 device ''serial'' \<notin> {JNull, JStr [], JStr ''unknown-serial''}))
    \<and> (dget0 a ''support_status'' \<noteq> JStr ''actionable'' \<longrightarrow>
       (\<forall>rest s. select_strategy ((''assessment'', JObj a) # rest) = Inr s \<longrightarrow>
          dget0 s ''strategy_id'' \<in> {JStr ''blocked_research'', JStr ''transport_recovery'', JStr ''research_only''}))"
  using assess_actionable [OF assms] select_strategy_actionable [where a = a]
  by (auto simp: dict_req_def)

theorem only_actionable_gets_a_build_witness:
  "\<exists>s. select_strategy [(''assessment'', JObj (assessment_json ''blocked''
         ''No stable serial detected; Transport mode is unknown'' False ''research_only''))] = Inr s
     \<and> dget0 s ''strategy_id'' \<in> {JStr ''blocked_research'', JStr ''transport_recovery'', JStr ''research_only''}"
proof -
  let ?a = "assessment_json ''blocked'' ''No stable serial detected; Transport mode is unknown'' False ''research_only''"
  have "assess [(''device'', JObj [])] = Inr ?a"
    by (simp add: assess_def dict_req_def lock_evidence_def dict_or_def dstr_def boot_state_lock_def dstr_or_def
        blocked_reasons_def assessment_json_def strip_def lstrip_def rstrip_def lower_def Let_def)
  note general = only_actionable_gets_a_build [OF this]
  moreover have "dget0 ?a ''support_status'' \<noteq> JStr ''actionable''" by (simp add: assessment_json_def)
  moreover obtain s where "select_strategy [(''assessment'', JObj ?a)] = Inr s"
    by (simp add: select_strategy_def dict_req_def dict_arg_def assessment_json_def Let_def)
  ultimately show ?thesis by blast
qed

text \<open>Without a lawful-use attestation the research hold is offered with score 1, yet it
  need not win: a phone whose brief names three of the keywords scores 1.05 as an
  accessibility phone and is recommended instead.\<close>

theorem research_hold_outranked:
  "\<exists>e. \<not> ue_lawful e \<and> research_hold \<in> set (ranked_options e) \<and> recommended_use e \<noteq> ''research_hold''
     \<and> ue_support e = JStr ''research_only''"
proof -
  let ?e = "\<lparr>ue_support = JStr ''research_only'', ue_comfort = JStr ''low'', ue_priority = JStr ''security'',
    ue_transport = JStr ''usb-adb'', ue_form_factor = ''phone'', ue_adapter = JStr ''adb'',
    ue_product = ''simple senior phone'', ue_user = [], ue_lawful = False\<rparr>"
  have hold: "research_hold \<in> set (ranked_options ?e)" by (simp add: ranked_options_def)
  have bonus: "keyword_bonus (ue_product ?e) (ue_user ?e) [''senior'', ''accessibility'', ''simple'', ''phone''] = 18/100"
    by (simp add: keyword_bonus_def Let_def)
  define o1 where "o1 = hd (use_options ?e)"
  have o1: "o1 \<in> set (use_options ?e)" "uo_fit o1 = 105/100"
    using bonus by (simp_all add: o1_def use_options_def Let_def)
  have ne: "use_options ?e @ [research_hold] \<noteq> []" by simp
  have "uo_fit o1 \<le> uo_fit (hd (ranked_options ?e))"
    using sorted_desc_hd(2) [OF ne, of o1 uo_fit] o1 by (simp add: ranked_options_def)
  then have top: "hd (ranked_options ?e) \<noteq> research_hold" using o1 by (auto simp: research_hold_def)
  have "hd (ranked_options ?e) \<in> set (use_options ?e @ [research_hold])"
    using sorted_desc_hd(1) [OF ne, of uo_fit] by (simp add: ranked_options_def)
  with top have "hd (ranked_options ?e) \<in> set (use_options ?e)" by simp
  then have "uo_id (hd (ranked_options ?e)) \<noteq> ''research_hold''"
    by (auto simp: use_options_def Let_def)
  moreover have "ranked_options ?e \<noteq> []" using hold by auto
  ultimately have "recommended_use ?e \<noteq> ''research_hold''"
    by (cases "ranked_options ?e") (simp_all add: recommended_use_def)
  with hold show ?thesis by (intro exI [of _ ?e]) simp
qed

text \<open>Fit scores lie between 0.35 and 1.05 and the options are listed best first.\<close>

theorem options_ranked_and_bounded:
  "sorted_wrt (\<lambda>x y. uo_fit y \<le> uo_fit x) (ranked_options e)
   \<and> list_all (\<lambda>opt. 35/100 \<le> uo_fit opt \<and> uo_fit opt \<le> 105/100) (ranked_options e)"
  using sorted_desc_sorted [of uo_fit "use_options e @ (if ue_lawful e then [] else [research_hold])"] option_fit_bounds
  by (auto simp: ranked_options_def list_all_iff research_hold_def split: if_splits)

end
