(* ===== verification/Build_Resolver.thy ===== *)
theory Build_Resolver
  imports Planning_Tools
begin

text \<open>
  \<open>app/tools/build_resolver.py\<close>: the build path of a session, the features the operator
  accepted and rejected, and the requirements of the artifact to build.
\<close>

section \<open>The build path\<close>

definition resolve_path :: "bool \<Rightarrow> json \<Rightarrow> string \<Rightarrow> string \<times> string" where
  "resolve_path lawful support_status selected_strategy =
     (if \<not> lawful then (''research_only_path'',
        ''ForgeOS can assess and preview, but install planning stays research-only until lawful authorization is attested.'')
      else if support_status = JStr ''blocked'' then (''blocked_path'',
        ''The device is blocked by support or safety constraints.'')
      else if support_status \<noteq> JStr ''actionable'' then (''research_only_path'',
        ''Support feasibility is not proven enough for destructive build flow.'')
      else if selected_strategy \<in> set [''transport_recovery'', ''research_only'', ''blocked_research''] then
        (''research_only_path'',
         ''A manageable transport and support baseline must exist before a build path can be chosen.'')
      else if selected_strategy = ''hardened_stock'' then (''hardened_stock_path'',
        ''Profile and support evidence favor a stock-derived, maintainable path.'')
      else if selected_strategy \<in> set [''aftermarket_rom'', ''privacy_hardened_aftermarket''] then (''aftermarket_path'',
        ''The selected strategy favors an aftermarket or privacy-hardened path where support allows it.'')
      else if selected_strategy = ''managed_family_build'' then (''managed_family_path'',
        ''The intended user profile favors a constrained, family-oriented build.'')
      else if selected_strategy = ''device_specific_build'' then (''device_specific_path'',
        ''The selected strategy favors device-specific tuning and deeper customization.'')
      else (''maintainable_hardened_path'',
        ''Default to the most maintainable hardened path while preserving room for later refinement.''))"

section \<open>The selected option\<close>

definition labelize :: "string \<Rightarrow> string" where
  "labelize v = title (strip (replace_char (CHR ''-'') (CHR '' '') (replace_char (CHR ''_'') (CHR '' '') v)))"

definition selected_option_id :: "jdict \<Rightarrow> jdict \<Rightarrow> jdict \<Rightarrow> string" where
  "selected_option_id recommendation operator_review user_profile =
     py_str (jor (dget0 operator_review ''selected_option_id'')
       (jor (dget0 recommendation ''recommended_use_case'')
         (jor (dget0 user_profile ''target_use_case'') (JStr ''research_hold''))))"

fun find_option :: "string \<Rightarrow> json list \<Rightarrow> jdict option res" where
  "find_option oid [] = Inr None"
| "find_option oid (opt # opts) =
     bindr (jget opt ''option_id'' JNull) (\<lambda>i.
       if i = JStr oid then bindr (as_dict opt) (\<lambda>d. Inr (Some d)) else find_option oid opts)"

definition selected_option :: "jdict \<Rightarrow> string \<Rightarrow> jdict res" where
  "selected_option recommendation oid =
     bindr (as_list (jor (dget recommendation ''options'' (JList [])) (JList []))) (\<lambda>options.
     bindr (find_option oid options) (\<lambda>found.
       Inr (case found of
              Some d \<Rightarrow> d
            | None \<Rightarrow> [(''option_id'', JStr oid), (''label'', JStr (labelize oid))])))"

section \<open>Features\<close>

text \<open>A feature is an identifier with a label; every feature of the catalog is on by default.\<close>

type_synonym feature = "string \<times> string"

definition base_features :: "string \<Rightarrow> feature list" where
  "base_features oid =
     (let notes = (''operator_notes'', ''Pinned operator notes in the setup flow'') in
      if oid = ''accessibility_focused_phone'' then
        [(''simple_launcher'', ''Simplified launcher and larger touch targets''),
         (''trusted_contacts'', ''Trusted-contact shortcuts''),
         (''accessibility_toggles'', ''Accessibility quick toggles''), notes]
      else if oid = ''lightweight_custom_android'' then
        [(''debloated_apps'', ''Debloated app set''), (''focused_home'', ''Focused home screen''),
         (''recovery_entry'', ''Visible restore and recovery entry point''), notes]
      else if oid = ''media_device'' then
        [(''offline_media'', ''Offline media playback shell''),
         (''large_controls'', ''Large playback and volume controls''), notes]
      else if oid = ''home_control_panel'' then
        [(''kiosk_mode'', ''Single-purpose kiosk shell''), (''control_tiles'', ''Large control tiles''), notes]
      else
        [(''safe_defaults'', ''Safe default configuration''),
         (''restore_visibility'', ''Visible restore and rollback path'')])"

definition cond_list :: "bool \<Rightarrow> 'a \<Rightarrow> 'a list" where
  "cond_list c x = (if c then [x] else [])"

definition google_feature :: "string \<Rightarrow> feature" where
  "google_feature google_pref =
     (if google_pref = ''keep_google'' then (''google_services'', ''Keep Google services compatibility'')
      else if google_pref = ''reduce_google'' then (''reduced_google'', ''Reduce Google services footprint'')
      else (''minimize_google'', ''Remove Google services where feasible''))"

definition default_feature_catalog :: "string \<Rightarrow> jdict \<Rightarrow> jdict \<Rightarrow> feature list" where
  "default_feature_catalog oid user_profile os_goals =
     base_features oid
     @ [google_feature (dstr user_profile ''google_services_preference'' ''keep_google'')]
     @ cond_list (truthy (dget os_goals ''requires_reliable_updates'' (JBool True)))
         (''update_channel'', ''Preserve a reliable update path'')
     @ cond_list (truthy (dget os_goals ''prefers_lockdown_defaults'' (JBool True)))
         (''lockdown_defaults'', ''Hardened privacy and lockdown defaults'')
     @ cond_list (truthy (dget os_goals ''prefers_long_battery_life'' (JBool True)))
         (''battery_profile'', ''Battery-preserving runtime tuning'')
     @ cond_list (strip (dstr user_profile ''desired_end_product'' []) \<noteq> [])
         (''end_product_brief'', ''Operator-defined end-product brief'')"

definition default_excluded_features :: "string \<Rightarrow> feature list" where
  "default_excluded_features oid =
     [(''wipe_autostart'', ''Automatic wipe/install start''),
      (''lock_bypass'', ''Account, carrier, or ownership lock bypass''),
      (''unlicensed_assets'', ''Unlicensed firmware, apps, or paid content'')]
     @ cond_list (oid = ''lightweight_custom_android'') (''full_google_bundle'', ''Full Google bundle'')"

definition catalog_of :: "feature list \<Rightarrow> feature list" where
  "catalog_of features = foldl (\<lambda>acc (i, l). AList.update i l acc) [] features"

text \<open>\<open>[catalog[i] for i in ids if i in catalog]\<close>.\<close>

definition pick :: "feature list \<Rightarrow> json list \<Rightarrow> feature list" where
  "pick catalog ids =
     concat (map (\<lambda>v. case v of
         JStr i \<Rightarrow> (case map_of catalog i of Some l \<Rightarrow> [(i, l)] | None \<Rightarrow> [])
       | _ \<Rightarrow> []) ids)"

definition add_excluded :: "feature list \<Rightarrow> feature list \<Rightarrow> feature list" where
  "add_excluded rejected excluded =
     foldl (\<lambda>acc f. if fst f \<in> set (map fst acc) then acc else acc @ [f]) rejected excluded"

definition feature_decisions ::
    "jdict \<Rightarrow> jdict \<Rightarrow> jdict \<Rightarrow> jdict \<Rightarrow> (feature list \<times> feature list) res" where
  "feature_decisions opt operator_review user_profile os_goals =
     (let oid = dstr opt ''option_id'' ''research_hold'';
          catalog = catalog_of (default_feature_catalog oid user_profile os_goals)
      in bindr (as_list (jor (dget operator_review ''accepted_feature_ids'' (JList [])) (JList []))) (\<lambda>accepted_ids.
         bindr (as_list (jor (dget operator_review ''rejected_feature_ids'' (JList [])) (JList []))) (\<lambda>rejected_ids.
         Inr (if accepted_ids \<noteq> [] then pick catalog accepted_ids else catalog,
              add_excluded (pick catalog rejected_ids) (default_excluded_features oid)))))"

section \<open>The plan\<close>

definition artifact_requirements :: "string \<Rightarrow> feature list \<Rightarrow> feature list \<Rightarrow> string list" where
  "artifact_requirements os_path included rejected =
     [''build-path:'' @ os_path, ''proposal-manifest'', ''backup-bundle'', ''restore-plan'']
     @ map (\<lambda>f. ''feature:'' @ fst f) (take 6 included)
     @ map (\<lambda>f. ''reject:'' @ fst f) (take 4 rejected)
     @ cond_list (os_path = ''research_only_path'') ''concept-preview-only''"

definition proposal_os_name :: "string \<Rightarrow> string \<Rightarrow> string" where
  "proposal_os_name oid os_path =
     (let option_name = labelize oid in
      if os_path = ''research_only_path'' then option_name @ '' concept on a hardened stock Android baseline''
      else if os_path \<in> set [''hardened_stock_path'', ''maintainable_hardened_path''] then
        ''Hardened stock Android for '' @ option_name
      else if os_path = ''aftermarket_path'' then ''Aftermarket Android build for '' @ option_name
      else if os_path = ''managed_family_path'' then ''Managed family build for '' @ option_name
      else if os_path = ''device_specific_path'' then ''Device-specific tuned build for '' @ option_name
      else option_name @ '' build on '' @ replace_char (CHR ''_'') (CHR '' '') os_path)"

definition resolver_summary :: "string \<Rightarrow> string \<Rightarrow> feature list \<Rightarrow> feature list \<Rightarrow> string" where
  "resolver_summary reason oid included rejected =
     (if oid = [] then reason
      else reason @ '' ForgeOS is shaping this plan around `'' @ oid @ ''` with '' @ int_str (int (length included))
        @ '' included feature decisions and '' @ int_str (int (length rejected)) @ '' rejected/default-off items.'')"

definition build_report :: "string \<Rightarrow> string \<Rightarrow> string \<Rightarrow> jdict \<Rightarrow> feature list \<Rightarrow> feature list \<Rightarrow> jdict" where
  "build_report os_path reason oid opt included rejected =
     [(''os_path'', JStr os_path),
      (''reason'', JStr (resolver_summary reason oid included rejected)),
      (''selected_option_id'', JStr oid),
      (''selected_option_label'', dget opt ''label'' (JStr (labelize oid))),
      (''proposed_os_name'', JStr (proposal_os_name oid os_path)),
      (''included_feature_ids'', jstrs (map fst included)),
      (''included_feature_labels'', jstrs (map snd included)),
      (''rejected_feature_ids'', jstrs (map fst rejected)),
      (''rejected_feature_labels'', jstrs (map snd rejected)),
      (''artifact_requirements'', jstrs (artifact_requirements os_path included rejected))]"

definition resolve_build :: "jdict \<Rightarrow> jdict res" where
  "resolve_build payload =
     bindr (dict_arg payload ''assessment'') (\<lambda>assessment.
     bindr (dict_arg payload ''connection_plan'') (\<lambda>_.
     bindr (dict_arg payload ''user_profile'') (\<lambda>user_profile.
     bindr (dict_arg payload ''os_goals'') (\<lambda>os_goals.
     bindr (dict_arg payload ''recommendation'') (\<lambda>recommendation.
     bindr (dict_arg payload ''operator_review'') (\<lambda>operator_review.
       let (os_path, reason) = resolve_path (truthy (dget user_profile ''lawful_use_attested'' (JBool False)))
             (dget0 assessment ''support_status'') (dstr payload ''selected_strategy'' ''research_only'');
           oid = selected_option_id recommendation operator_review user_profile
       in bindr (selected_option recommendation oid) (\<lambda>opt.
          bindr (feature_decisions opt operator_review user_profile os_goals) (\<lambda>(included, rejected).
          Inr (build_report os_path reason oid opt included rejected)))))))))"

section \<open>Lemmas\<close>

lemma resolve_path_builds:
  "fst (resolve_path lawful st s) \<notin> {''research_only_path'', ''blocked_path''} \<Longrightarrow>
     lawful \<and> st = JStr ''actionable'' \<and> s \<notin> {''transport_recovery'', ''research_only'', ''blocked_research''}"
  by (auto simp: resolve_path_def split: if_splits)

lemma catalog_fold_keys: "fst ` set (foldl (\<lambda>acc (i, l). AList.update i l acc) acc fs) = fst ` set acc \<union> fst ` set fs"
  by (induction fs arbitrary: acc) (simp_all add: AList.dom_update split_beta)

lemma catalog_keys: "fst ` set (catalog_of fs) = fst ` set fs"
  by (simp add: catalog_of_def catalog_fold_keys)

lemma pick_keys: "fst ` set (pick catalog ids) \<subseteq> fst ` set catalog"
  by (force simp: pick_def split: json.splits option.splits dest: map_of_SomeD [OF sym])

definition forbidden_ids :: "string list" where
  "forbidden_ids = [''wipe_autostart'', ''lock_bypass'', ''unlicensed_assets'']"

lemma cond_list_set [simp]: "set (cond_list c x) = (if c then {x} else {})"
  by (cases c) (simp_all add: cond_list_def)

definition catalog_ids :: "string list" where
  "catalog_ids = [''simple_launcher'', ''trusted_contacts'', ''accessibility_toggles'', ''operator_notes'',
     ''debloated_apps'', ''focused_home'', ''recovery_entry'', ''offline_media'', ''large_controls'', ''kiosk_mode'',
     ''control_tiles'', ''safe_defaults'', ''restore_visibility'', ''google_services'', ''reduced_google'',
     ''minimize_google'', ''update_channel'', ''lockdown_defaults'', ''battery_profile'', ''end_product_brief'']"

lemma base_ids: "fst ` set (base_features oid) \<subseteq> set catalog_ids"
  unfolding base_features_def Let_def catalog_ids_def by (simp split: if_split)

lemma google_id: "fst (google_feature g) \<in> set catalog_ids"
  by (simp add: google_feature_def catalog_ids_def)

lemma default_catalog_ids: "fst ` set (default_feature_catalog oid up og) \<subseteq> set catalog_ids"
proof -
  have "set [''update_channel'', ''lockdown_defaults'', ''battery_profile'', ''end_product_brief''] \<subseteq> set catalog_ids"
    by (simp add: catalog_ids_def)
  then show ?thesis
    using base_ids google_id by (simp add: default_feature_catalog_def image_Un)
qed

lemma catalog_not_forbidden: "set forbidden_ids \<inter> fst ` set (default_feature_catalog oid up og) = {}"
proof -
  have "set forbidden_ids \<inter> set catalog_ids = {}" by (simp add: forbidden_ids_def catalog_ids_def)
  then show ?thesis using default_catalog_ids by blast
qed

lemma add_excluded_keys: "fst ` set (add_excluded rej ex) = fst ` set rej \<union> fst ` set ex"
  unfolding add_excluded_def by (induction ex arbitrary: rej) auto

lemma excluded_forbidden: "set forbidden_ids \<subseteq> fst ` set (default_excluded_features oid)"
proof -
  have "map fst (default_excluded_features oid) =
      forbidden_ids @ map fst (cond_list (oid = ''lightweight_custom_android'') (''full_google_bundle'', ''Full Google bundle''))"
    by (simp add: forbidden_ids_def default_excluded_features_def)
  then have "set (map fst (default_excluded_features oid)) =
      set forbidden_ids \<union> set (map fst (cond_list (oid = ''lightweight_custom_android'') (''full_google_bundle'', ''Full Google bundle'')))"
    by (simp only: set_append)
  then show ?thesis by (simp only: set_map) blast
qed

lemma decisions_safe:
  assumes "feature_decisions opt review up og = Inr (inc, rej)"
  shows "set forbidden_ids \<inter> fst ` set inc = {}" "set forbidden_ids \<subseteq> fst ` set rej"
proof -
  let ?oid = "dstr opt ''option_id'' ''research_hold''"
  let ?cat = "catalog_of (default_feature_catalog ?oid up og)"
  from assms obtain acc rj where inc: "inc = (if acc \<noteq> [] then pick ?cat acc else ?cat)"
    and rej: "rej = add_excluded (pick ?cat rj) (default_excluded_features ?oid)"
    by (auto simp: feature_decisions_def Let_def)
  have "fst ` set inc \<subseteq> fst ` set ?cat" using pick_keys by (simp add: inc)
  then show "set forbidden_ids \<inter> fst ` set inc = {}"
    using catalog_not_forbidden unfolding catalog_keys by blast
  show "set forbidden_ids \<subseteq> fst ` set rej"
    using excluded_forbidden unfolding rej add_excluded_keys by blast
qed

lemma build_report_fields:
  "dget0 (build_report p r i opt inc rej) ''os_path'' = JStr p"
  "dget0 (build_report p r i opt inc rej) ''included_feature_ids'' = jstrs (map fst inc)"
  "dget0 (build_report p r i opt inc rej) ''rejected_feature_ids'' = jstrs (map fst rej)"
  by (simp_all add: build_report_def)

lemma resolve_build_fields:
  assumes "resolve_build payload = Inr plan"
  obtains assessment up og rec review opt inc rej reason where
    "dict_arg payload ''assessment'' = Inr assessment" "dict_arg payload ''user_profile'' = Inr up"
    "feature_decisions opt review up og = Inr (inc, rej)"
    "dget0 plan ''os_path'' = JStr (fst (resolve_path (truthy (dget up ''lawful_use_attested'' (JBool False)))
         (dget0 assessment ''support_status'') (dstr payload ''selected_strategy'' ''research_only'')))"
    "dget0 plan ''included_feature_ids'' = jstrs (map fst inc)"
    "dget0 plan ''rejected_feature_ids'' = jstrs (map fst rej)"
  using assms unfolding resolve_build_def Let_def bindr_eq_Inr split_beta sum.inject prod.collapse
  by (elim exE conjE) (metis build_report_fields prod.collapse)

section \<open>Properties\<close>

text \<open>C21. A path that builds something needs all three: an attested lawful use, an actionable
  assessment, and a strategy that is not one of the three that only study the device.\<close>

theorem build_path_needs_attestation:
  assumes "resolve_build payload = Inr plan"
    and "dget0 plan ''os_path'' \<notin> {JStr ''research_only_path'', JStr ''blocked_path''}"
  shows "\<exists>assessment up. dict_arg payload ''assessment'' = Inr assessment
    \<and> dict_arg payload ''user_profile'' = Inr up
    \<and> truthy (dget up ''lawful_use_attested'' (JBool False))
    \<and> dget0 assessment ''support_status'' = JStr ''actionable''
    \<and> dstr payload ''selected_strategy'' ''research_only''
        \<notin> {''transport_recovery'', ''research_only'', ''blocked_research''}"
proof -
  from assms(1) obtain assessment up where "dict_arg payload ''assessment'' = Inr assessment"
    and "dict_arg payload ''user_profile'' = Inr up"
    and path: "dget0 plan ''os_path'' = JStr (fst (resolve_path (truthy (dget up ''lawful_use_attested'' (JBool False)))
         (dget0 assessment ''support_status'') (dstr payload ''selected_strategy'' ''research_only'')))"
    by (rule resolve_build_fields) blast
  moreover from path assms(2)
  have "fst (resolve_path (truthy (dget up ''lawful_use_attested'' (JBool False)))
         (dget0 assessment ''support_status'') (dstr payload ''selected_strategy'' ''research_only''))
      \<notin> {''research_only_path'', ''blocked_path''}"
    by auto
  ultimately show ?thesis using resolve_path_builds by blast
qed

definition demo_payload :: jdict where
  "demo_payload = [(''assessment'', JObj [(''support_status'', JStr ''actionable'')]),
     (''user_profile'', JObj [(''lawful_use_attested'', JBool True)]), (''selected_strategy'', JStr ''hardened_stock'')]"

lemma demo_build: "\<exists>plan. resolve_build demo_payload = Inr plan \<and> dget0 plan ''os_path'' = JStr ''hardened_stock_path''"
  by (simp add: resolve_build_def demo_payload_def dict_arg_def resolve_path_def dstr_def selected_option_def
      feature_decisions_def Let_def build_report_fields)

theorem build_path_needs_attestation_witness:
  "\<exists>assessment up. dict_arg demo_payload ''assessment'' = Inr assessment
    \<and> dict_arg demo_payload ''user_profile'' = Inr up \<and> truthy (dget up ''lawful_use_attested'' (JBool False))"
proof -
  obtain plan where "resolve_build demo_payload = Inr plan" "dget0 plan ''os_path'' = JStr ''hardened_stock_path''"
    using demo_build by blast
  with build_path_needs_attestation [of demo_payload plan] show ?thesis by auto
qed

text \<open>Whatever the operator accepts, no plan includes automatic wiping, lock bypass or
  unlicensed content, and every plan rejects all three.\<close>

theorem forbidden_features_rejected:
  assumes "resolve_build payload = Inr plan"
  shows "\<exists>inc rej. dget0 plan ''included_feature_ids'' = jstrs inc \<and> dget0 plan ''rejected_feature_ids'' = jstrs rej
    \<and> set forbidden_ids \<inter> set inc = {} \<and> set forbidden_ids \<subseteq> set rej"
proof -
  from assms obtain opt review up og inc rej where d: "feature_decisions opt review up og = Inr (inc, rej)"
    and "dget0 plan ''included_feature_ids'' = jstrs (map fst inc)"
    and "dget0 plan ''rejected_feature_ids'' = jstrs (map fst rej)"
    by (rule resolve_build_fields) blast
  then show ?thesis using decisions_safe [OF d] by (intro exI [of _ "map fst inc"] exI [of _ "map fst rej"]) simp
qed

theorem forbidden_features_rejected_witness:
  "\<exists>plan inc. resolve_build demo_payload = Inr plan \<and> dget0 plan ''included_feature_ids'' = jstrs inc
     \<and> set forbidden_ids \<inter> set inc = {}"
proof -
  obtain plan where "resolve_build demo_payload = Inr plan" using demo_build by blast
  with forbidden_features_rejected [of demo_payload plan] show ?thesis by blast
qed

text \<open>Rejecting a feature does not remove it: when the operator lists no accepted features,
  the plan includes the whole catalog, the rejected ones too.\<close>

theorem rejected_feature_still_included:
  assumes "i \<in> fst ` set (default_feature_catalog (dstr opt ''option_id'' ''research_hold'') up og)"
  shows "\<exists>inc rej. feature_decisions opt [(''rejected_feature_ids'', jstrs [i])] up og = Inr (inc, rej)
    \<and> i \<in> fst ` set inc \<and> i \<in> fst ` set rej"
proof -
  let ?cat = "catalog_of (default_feature_catalog (dstr opt ''option_id'' ''research_hold'') up og)"
  have i: "i \<in> fst ` set ?cat" using assms by (simp add: catalog_keys)
  then obtain l where "map_of ?cat i = Some l"
    by (metis map_of_eq_None_iff not_None_eq)
  then have "i \<in> fst ` set (pick ?cat [JStr i])" by (simp add: pick_def)
  with i show ?thesis
    by (simp add: feature_decisions_def Let_def jstrs_def add_excluded_keys)
qed

theorem rejected_feature_still_included_witness:
  "\<exists>inc rej. feature_decisions [] [(''rejected_feature_ids'', jstrs [''google_services''])] [] [] = Inr (inc, rej)
     \<and> ''google_services'' \<in> fst ` set inc \<and> ''google_services'' \<in> fst ` set rej"
  by (rule rejected_feature_still_included)
     (simp add: default_feature_catalog_def google_feature_def dstr_def)

text \<open>The artifact requirements carry only the first four rejections, and the operator's come
  first: with four of them none of the forbidden features is named as rejected.\<close>

theorem safety_rejections_dropped:
  "\<exists>review inc rej. feature_decisions [] review [] [] = Inr (inc, rej) \<and> set forbidden_ids \<subseteq> fst ` set rej
     \<and> list_all (\<lambda>f. ''reject:'' @ f \<notin> set (artifact_requirements ''hardened_stock_path'' inc rej)) forbidden_ids"
proof -
  let ?review = "[(''accepted_feature_ids'', jstrs [''safe_defaults'']), (''rejected_feature_ids'', jstrs
      [''google_services'', ''update_channel'', ''lockdown_defaults'', ''battery_profile''])]"
  have cat: "catalog_of (default_feature_catalog ''research_hold'' [] []) =
      [(''safe_defaults'', ''Safe default configuration''), (''restore_visibility'', ''Visible restore and rollback path''),
       (''google_services'', ''Keep Google services compatibility''), (''update_channel'', ''Preserve a reliable update path''),
       (''lockdown_defaults'', ''Hardened privacy and lockdown defaults''),
       (''battery_profile'', ''Battery-preserving runtime tuning'')]"
    by (simp add: default_feature_catalog_def base_features_def google_feature_def cond_list_def catalog_of_def
        dstr_def strip_def lstrip_def rstrip_def)
  define inc :: "feature list" where "inc = [(''safe_defaults'', ''Safe default configuration'')]"
  define rej where "rej = add_excluded [(''google_services'', ''Keep Google services compatibility''),
      (''update_channel'', ''Preserve a reliable update path''),
      (''lockdown_defaults'', ''Hardened privacy and lockdown defaults''),
      (''battery_profile'', ''Battery-preserving runtime tuning'')] (default_excluded_features ''research_hold'')"
  have d: "feature_decisions [] ?review [] [] = Inr (inc, rej)"
    by (simp add: feature_decisions_def Let_def dstr_def cat pick_def jstrs_def inc_def rej_def)
  have rej: "map fst (take 4 rej) = [''google_services'', ''update_channel'', ''lockdown_defaults'', ''battery_profile'']"
    by (simp add: rej_def add_excluded_def default_excluded_features_def cond_list_def)
  have "map (\<lambda>f. ''reject:'' @ fst f) (take 4 rej) = map (\<lambda>s. ''reject:'' @ s) (map fst (take 4 rej))"
    by simp
  then have "list_all (\<lambda>f. ''reject:'' @ f \<notin> set (artifact_requirements ''hardened_stock_path'' inc rej)) forbidden_ids"
    by (simp add: artifact_requirements_def inc_def rej forbidden_ids_def cond_list_def del: map_map)
  then show ?thesis using d decisions_safe(2) [OF d] by blast
qed

end
