(* ===== verification/Host_Tools.thy ===== *)
theory Host_Tools
  imports Models
begin

text \<open>
  The wrappers around the device tools: \<open>app/integrations/adb.py\<close>, \<open>fastboot.py\<close>,
  \<open>fastbootd.py\<close>, \<open>heimdall.py\<close> and \<open>udev.py\<close>, and the engagement of a device that uses them,
  \<open>app/tools/autonomous_engagement.py\<close>.

  The processes themselves are not under \<open>src/\<close>: a \<open>host\<close> says which tools are installed and
  what a command answers after the commands issued so far. Every operation threads the
  trace of the commands it issues, so that a theorem can say that nothing was run. Strings
  are Latin-1: the em dash of one message is written \<open>-\<close>.
\<close>

section \<open>The host\<close>

datatype tool = ADB | FASTBOOT | HEIMDALL | LSUSB | OTHER string

type_synonym cmd = "tool \<times> string list"
type_synonym trace = "cmd list"

record completed =
  cp_returncode :: int
  cp_stdout :: string
  cp_stderr :: string

text \<open>\<open>h_times_out\<close> is asked for the calls that set a timeout.\<close>

record host =
  h_path :: "tool \<Rightarrow> string option"
  h_exec :: "trace \<Rightarrow> cmd \<Rightarrow> completed"
  h_times_out :: "trace \<Rightarrow> cmd \<Rightarrow> bool"

definition h_installed :: "host \<Rightarrow> tool \<Rightarrow> bool" where
  "h_installed h t \<longleftrightarrow> h_path h t \<noteq> None"

type_synonym 'a proc = "trace \<Rightarrow> 'a \<times> trace"

definition issue :: "host \<Rightarrow> cmd \<Rightarrow> completed proc" where
  "issue h c tr = (h_exec h tr c, tr @ [c])"

definition refused :: "string \<Rightarrow> jdict" where
  "refused reason = [(''ok'', JBool False), (''reason'', JStr reason)]"

definition completed_json :: "completed \<Rightarrow> jdict" where
  "completed_json c =
     [(''ok'', JBool (cp_returncode c = 0)), (''stdout'', JStr (strip (cp_stdout c))),
      (''stderr'', JStr (strip (cp_stderr c))), (''returncode'', JInt (cp_returncode c))]"

section \<open>adb\<close>

definition adb_run :: "host \<Rightarrow> string list \<Rightarrow> jdict proc" where
  "adb_run h args tr =
     (if \<not> h_installed h ADB then (refused ''adb not available'', tr)
      else let (c, tr') = issue h (ADB, args) tr in (completed_json c, tr'))"

definition adb_start_server :: "host \<Rightarrow> jdict proc" where
  "adb_start_server h = adb_run h [''start-server'']"

definition adb_reconnect :: "host \<Rightarrow> jdict proc" where
  "adb_reconnect h = adb_run h [''reconnect'']"

definition adb_shell :: "host \<Rightarrow> string \<Rightarrow> string list \<Rightarrow> jdict proc" where
  "adb_shell h serial command = adb_run h ([''-s'', serial, ''shell''] @ command)"

definition adb_pull :: "host \<Rightarrow> string \<Rightarrow> string \<Rightarrow> string \<Rightarrow> jdict proc" where
  "adb_pull h serial remote_path local_path = adb_run h [''-s'', serial, ''pull'', remote_path, local_path]"

text \<open>\<open>token.split(":", 1)\<close> of a token that holds a colon.\<close>

definition split_colon :: "string \<Rightarrow> string \<times> string" where
  "split_colon t = (takeWhile (\<lambda>c. c \<noteq> CHR '':'') t, tl (dropWhile (\<lambda>c. c \<noteq> CHR '':'') t))"

definition token_metadata :: "string list \<Rightarrow> (string \<times> string) list" where
  "token_metadata tokens =
     foldl (\<lambda>acc t. if CHR '':'' \<in> set t then AList.update (fst (split_colon t)) (snd (split_colon t)) acc else acc)
       [] tokens"

definition meta :: "(string \<times> string) list \<Rightarrow> string \<Rightarrow> json" where
  "meta m k = JStr (case map_of m k of None \<Rightarrow> [] | Some v \<Rightarrow> v)"

definition adb_device_line :: "string \<Rightarrow> jdict option" where
  "adb_device_line line =
     (case split_ws line of
        serial # status # tokens \<Rightarrow>
          if status = ''device'' then
            let m = token_metadata tokens
            in Some [(''serial'', JStr serial), (''transport'', JStr (transport_value T_USB_ADB)),
                 (''product'', meta m ''product''), (''model'', meta m ''model''), (''device'', meta m ''device'')]
          else None
      | _ \<Rightarrow> None)"

definition adb_list_devices :: "host \<Rightarrow> jdict list proc" where
  "adb_list_devices h tr =
     (if \<not> h_installed h ADB then ([], tr)
      else let (c, tr') = issue h (ADB, [''devices'', ''-l'']) tr
           in (List.map_filter adb_device_line (splitlines (cp_stdout c)), tr'))"

record raw_device =
  rd_serial :: string
  rd_status :: string
  rd_line :: string

definition raw_device_line :: "string \<Rightarrow> raw_device option" where
  "raw_device_line line =
     (if strip line = [] \<or> starts_with line ''List of devices attached'' then None
      else (case split_ws line of
              serial # status # _ \<Rightarrow> Some \<lparr>rd_serial = serial, rd_status = status, rd_line = strip line\<rparr>
            | _ \<Rightarrow> None))"

definition adb_raw_devices :: "host \<Rightarrow> raw_device list proc" where
  "adb_raw_devices h tr =
     (if \<not> h_installed h ADB then ([], tr)
      else let (c, tr') = issue h (ADB, [''devices'', ''-l'']) tr
           in (List.map_filter raw_device_line (splitlines (cp_stdout c)), tr'))"

definition adb_getprop :: "host \<Rightarrow> string \<Rightarrow> string \<Rightarrow> string proc" where
  "adb_getprop h serial key tr =
     (let (r, tr') = adb_shell h serial [''getprop'', key] tr
      in (if truthy (dget0 r ''ok'') then strip (dstr r ''stdout'' []) else [], tr'))"

definition or_else :: "string \<Rightarrow> string \<Rightarrow> string" where
  "or_else s dflt = (if s = [] then dflt else s)"

definition describe_device :: "host \<Rightarrow> string \<Rightarrow> jdict proc" where
  "describe_device h serial tr =
     (let (m, tr1) = adb_getprop h serial ''ro.product.manufacturer'' tr;
          (model, tr2) = adb_getprop h serial ''ro.product.model'' tr1;
          (version, tr3) = adb_getprop h serial ''ro.build.version.release'' tr2;
          (codename, tr4) = adb_getprop h serial ''ro.product.device'' tr3
      in ([(''serial'', JStr serial), (''transport'', JStr (transport_value T_USB_ADB)),
           (''manufacturer'', JStr (title (or_else m ''Unknown''))), (''model'', JStr (or_else model ''Unknown'')),
           (''android_version'', JStr version), (''device_codename'', JStr codename),
           (''reachability'', JStr ''adb-visible'')], tr4))"

definition snapshot_keys :: "(string \<times> string) list" where
  "snapshot_keys =
     [(''board'', ''ro.product.board''), (''hardware'', ''ro.hardware''), (''abi'', ''ro.product.cpu.abi''),
      (''fingerprint'', ''ro.build.fingerprint''), (''build_id'', ''ro.build.id''),
      (''characteristics'', ''ro.build.characteristics''), (''product_name'', ''ro.product.name''),
      (''product_device'', ''ro.product.device''), (''security_patch'', ''ro.build.version.security_patch''),
      (''boot_slot'', ''ro.boot.slot_suffix''), (''bootloader'', ''ro.bootloader''),
      (''verified_boot_state'', ''ro.boot.verifiedbootstate''),
      (''dynamic_partitions'', ''ro.boot.dynamic_partitions''), (''warranty_bit'', ''ro.boot.warranty_bit''),
      (''flash_locked'', ''ro.boot.flash.locked'')]"

fun getprops :: "host \<Rightarrow> string \<Rightarrow> (string \<times> string) list \<Rightarrow> jdict proc" where
  "getprops h serial [] tr = ([], tr)"
| "getprops h serial ((name, prop) # keys) tr =
     (let (v, tr1) = adb_getprop h serial prop tr; (rest, tr2) = getprops h serial keys tr1
      in ((name, JStr v) # rest, tr2))"

definition hardware_snapshot :: "host \<Rightarrow> string \<Rightarrow> jdict proc" where
  "hardware_snapshot h serial tr =
     (let (snapshot, tr1) = getprops h serial snapshot_keys tr;
          (battery, tr2) = adb_shell h serial [''dumpsys'', ''battery''] tr1
      in (snapshot @ [(''battery_dump'',
            JStr (if truthy (dget0 battery ''ok'') then strip (dstr battery ''stdout'' []) else []))], tr2))"

section \<open>fastboot\<close>

definition fastboot_run :: "host \<Rightarrow> string list \<Rightarrow> jdict proc" where
  "fastboot_run h args tr =
     (if \<not> h_installed h FASTBOOT then (refused ''fastboot not available'', tr)
      else let (c, tr') = issue h (FASTBOOT, args) tr in (completed_json c, tr'))"

definition getvar_all :: "host \<Rightarrow> string option \<Rightarrow> jdict proc" where
  "getvar_all h serial =
     fastboot_run h ((case serial of None \<Rightarrow> [] | Some s \<Rightarrow> if s = [] then [] else [''-s'', s]) @ [''getvar'', ''all''])"

definition getvar_props :: "string \<Rightarrow> (string \<times> string) list" where
  "getvar_props out =
     foldl (\<lambda>acc line. if CHR '':'' \<notin> set line then acc
        else AList.update (lower (strip (fst (split_colon line)))) (strip (snd (split_colon line))) acc)
       [] (splitlines out)"

fun first_prop :: "(string \<times> string) list \<Rightarrow> string list \<Rightarrow> string \<Rightarrow> string" where
  "first_prop props [] dflt = dflt"
| "first_prop props (k # ks) dflt =
     (case map_of props k of
        Some v \<Rightarrow> if v = [] then first_prop props ks dflt else v
      | None \<Rightarrow> first_prop props ks dflt)"

definition unlocked_flag :: "string \<Rightarrow> bool option" where
  "unlocked_flag raw =
     (if lower raw \<in> set [''yes'', ''true'', ''1''] then Some False
      else if lower raw \<in> set [''no'', ''false'', ''0''] then Some True else None)"

definition describe_device_fastboot :: "host \<Rightarrow> string \<Rightarrow> jdict proc" where
  "describe_device_fastboot h serial tr =
     (let (r, tr') = getvar_all h (Some serial) tr;
          props = getvar_props (dstr r ''stdout'' []);
          locked = unlocked_flag (first_prop props [''unlocked'', ''bootloader-unlocked''] [])
      in ([(''manufacturer'', JStr (first_prop props [''product.manufacturer'', ''manufacturer'', ''brand''] ''Unknown'')),
           (''model'', JStr (first_prop props [''product.model'', ''product'', ''model''] ''Unknown'')),
           (''device_codename'', JStr (first_prop props [''product.device'', ''product.name'', ''device''] [])),
           (''android_version'', JStr (first_prop props [''version.release''] [])),
           (''reachability'', JStr ''fastboot-visible'')]
          @ (case locked of None \<Rightarrow> [] | Some b \<Rightarrow> [(''bootloader_locked'', JBool b)]), tr'))"

fun describe_all :: "host \<Rightarrow> string list \<Rightarrow> jdict list proc" where
  "describe_all h [] tr = ([], tr)"
| "describe_all h (serial # serials) tr =
     (let (d, tr1) = describe_device_fastboot h serial tr; (rest, tr2) = describe_all h serials tr1
      in (([(''serial'', JStr serial), (''transport'', JStr (transport_value T_USB_FASTBOOT))] @ d) # rest, tr2))"

definition fastboot_list_devices :: "host \<Rightarrow> jdict list proc" where
  "fastboot_list_devices h tr =
     (if \<not> h_installed h FASTBOOT then ([], tr)
      else let (c, tr') = issue h (FASTBOOT, [''devices'']) tr
           in describe_all h (List.map_filter (\<lambda>line. case split_ws line of [] \<Rightarrow> None | s # _ \<Rightarrow> Some s)
                (splitlines (cp_stdout c))) tr')"

definition fastbootd_list_devices :: "host \<Rightarrow> jdict list proc" where
  "fastbootd_list_devices h tr =
     (let (ds, tr') = fastboot_list_devices h tr
      in (map (\<lambda>d. dset d ''transport'' (JStr ''usb-fastbootd'')) ds, tr'))"

section \<open>heimdall\<close>

definition heimdall_run :: "host \<Rightarrow> string list \<Rightarrow> int \<Rightarrow> jdict proc" where
  "heimdall_run h args timeout tr =
     (if \<not> h_installed h HEIMDALL
      then (refused ''heimdall not installed - run ToolInstaller().ensure('heimdall')'', tr)
      else let (c, tr') = issue h (HEIMDALL, args) tr
           in if h_times_out h tr (HEIMDALL, args)
              then ([(''ok'', JBool False), (''reason'', JStr (''heimdall timed out after '' @ int_str timeout @ ''s'')),
                     (''returncode'', JInt (- 1))], tr')
              else (completed_json c, tr'))"

definition heimdall_detect :: "host \<Rightarrow> jdict proc" where
  "heimdall_detect h = heimdall_run h [''detect''] 120"

definition heimdall_print_pit :: "host \<Rightarrow> jdict proc" where
  "heimdall_print_pit h = heimdall_run h [''print-pit'', ''--no-reboot''] 30"

definition heimdall_flash :: "host \<Rightarrow> (string \<times> string) list \<Rightarrow> bool \<Rightarrow> jdict proc" where
  "heimdall_flash h partitions reboot tr =
     (if partitions = [] then (refused ''no partitions specified'', tr)
      else heimdall_run h
        ([''flash''] @ (if reboot then [] else [''--no-reboot''])
          @ concat (map (\<lambda>(name, path). [''--'' @ upper name, path]) partitions)) 600 tr)"

definition heimdall_reboot :: "host \<Rightarrow> jdict proc" where
  "heimdall_reboot h = heimdall_run h [''close''] 15"

section \<open>USB visibility\<close>

definition android_usb_hints :: "(string \<times> string) list" where
  "android_usb_hints =
     [(''2e04'', ''HMD/Nokia''), (''0bb4'', ''HTC''), (''12d1'', ''Huawei/Honor''), (''1004'', ''LG''),
      (''22b8'', ''Motorola''), (''2d95'', ''Nothing''), (''18d1'', ''Google''), (''22d9'', ''OPPO/Realme''),
      (''2a70'', ''OnePlus''), (''1d6b'', ''Fairphone''), (''0489'', ''Fairphone''), (''1bbb'', ''TCL/Alcatel''),
      (''04e8'', ''Samsung''), (''0fce'', ''Sony''), (''05c6'', ''Qualcomm/generic''), (''2717'', ''Xiaomi''),
      (''19d2'', ''ZTE''), (''2d9d'', ''Vivo''), (''17ef'', ''Lenovo/Motorola'')]"

text \<open>\<open>line.split(" ID ", 1)[1].split(" ", 1)[0]\<close>.\<close>

fun after_id :: "string \<Rightarrow> string option" where
  "after_id [] = None"
| "after_id (c # s) = (if starts_with (c # s) '' ID '' then Some (drop 3 s) else after_id s)"

definition usb_line :: "string \<Rightarrow> jdict option" where
  "usb_line line =
     (case after_id line of
        None \<Rightarrow> None
      | Some rest \<Rightarrow>
          let identifier = takeWhile (\<lambda>c. c \<noteq> CHR '' '') rest in
          if CHR '':'' \<notin> set identifier then None
          else
            let (vendor_id, product_id) = split_colon identifier;
                l = lower line;
                hint = (if lower vendor_id = ''1d6b'' \<and> \<not> list_ex (contains l) [''android'', ''mtp'', ''phone'']
                  then None else map_of android_usb_hints (lower vendor_id))
            in if hint \<noteq> None \<or> list_ex (contains l) [''mtp'', ''galaxy'', ''android'', ''phone'']
               then Some [(''vendor_id'', JStr (lower vendor_id)), (''product_id'', JStr (lower product_id)),
                      (''vendor_hint'', JStr (case hint of None \<Rightarrow> ''Unknown'' | Some v \<Rightarrow> v)),
                      (''description'', JStr line),
                      (''transport_hint'', JStr (if contains l ''mtp'' then ''usb-mtp'' else ''usb-unknown''))]
               else None)"

definition list_usb_mobile_devices :: "host \<Rightarrow> jdict list proc" where
  "list_usb_mobile_devices h tr =
     (let (c, tr') = issue h (LSUSB, []) tr
      in (List.map_filter usb_line (splitlines (cp_stdout c)), tr'))"

end
