(* ===== verification/Device_Tools.thy ===== *)
theory Device_Tools
  imports Host_Tools Planning_Tools
begin

text \<open>
  The tools that touch a device: \<open>app/tools/autonomous_engagement.py\<close> (reach a transport),
  \<open>backup_restore.py\<close>, \<open>restore_controller.py\<close>, \<open>bootloader_manager.py\<close>, \<open>partition_mapper.py\<close>
  and \<open>boot_validator.py\<close>. They run their commands on the \<open>host\<close> of \<open>Host_Tools\<close> and thread
  the trace of what they ran. The policy is passed as the record it is read into.
\<close>

section \<open>Engagement\<close>

definition raw_json :: "raw_device \<Rightarrow> json" where
  "raw_json d = JObj [(''serial'', JStr (rd_serial d)), (''status'', JStr (rd_status d)), (''line'', JStr (rd_line d))]"

definition action_json :: "string \<Rightarrow> jdict \<Rightarrow> json" where
  "action_json name r = JObj (dmerge [(''action'', JStr name)] r)"

definition engagement_json :: "string \<Rightarrow> string \<Rightarrow> json list \<Rightarrow> string list \<Rightarrow> jdict \<Rightarrow> jdict" where
  "engagement_json status summary actions findings extra =
     [(''engagement_status'', JStr status), (''summary'', JStr summary),
      (''actions_attempted'', JList actions), (''findings'', jstrs findings)] @ extra"

definition engage_usb :: "host \<Rightarrow> jdict \<Rightarrow> string \<Rightarrow> json list \<Rightarrow> jdict proc" where
  "engage_usb h device transport actions tr =
     (let (usb_devices, tr') = list_usb_mobile_devices h tr
      in if transport = ''usb-mtp'' \<or> usb_devices \<noteq> [] then
           (engagement_json ''usb_only_detected''
              ''ForgeOS can see the phone over USB and has attempted safe adb engagement, but the phone still needs adb, fastboot, or recovery transport exposed.''
              actions [''Phone is attached by USB, but only USB/MTP-level visibility is available.'']
              [(''usb_devices'', JList (map JObj (if usb_devices \<noteq> [] then usb_devices else [device]))),
               (''next_steps'', jstrs [''Unlock the phone.'', ''Enable Developer Options and USB debugging.'',
                  ''Approve the computer trust prompt if it appears.'',
                  ''Reconnect the cable if the phone remains in MTP-only mode.''])], tr')
         else
           (engagement_json ''no_device_transport''
              ''ForgeOS could not reach a manageable device transport during autonomous engagement.''
              actions [''No adb, fastboot, or USB-only Android visibility was confirmed after engagement attempts.''] [],
            tr'))"

definition engage :: "host \<Rightarrow> jdict \<Rightarrow> jdict proc" where
  "engage h device tr =
     (let transport = dstr device ''transport'' ''unknown'';
          (start, tr1) = adb_start_server h tr;
          started = [action_json ''adb_start_server'' start]
      in if transport = ''usb-adb'' then
           let (raw, tr2) = adb_raw_devices h tr1
           in (engagement_json ''adb_connected''
                 ''ForgeOS has adb transport and can continue non-destructive assessment autonomously.''
                 started [''adb transport is available.''] [(''raw_adb'', JList (map raw_json raw))], tr2)
         else if transport \<in> set [''usb-fastboot'', ''usb-fastbootd''] then
           let (fb, tr2) = fastboot_list_devices h tr1; (fbd, tr3) = fastbootd_list_devices h tr2
           in (engagement_json ''fastboot_connected''
                 ''ForgeOS has fastboot transport and can continue low-level assessment autonomously.''
                 started [''fastboot transport is available.''] [(''raw_fastboot'', JList (map JObj (fb @ fbd)))], tr3)
         else
           let (rec, tr2) = adb_reconnect h tr1;
               actions = started @ [action_json ''adb_reconnect'' rec];
               (raw, tr3) = adb_raw_devices h tr2
           in if ''unauthorized'' \<in> set (map rd_status raw) then
                (engagement_json ''awaiting_user_approval''
                   ''ForgeOS reached adb visibility, but the phone must approve this computer on-screen before autonomous assessment can continue.''
                   actions [''Phone is visible to adb but still requires on-device trust approval.'']
                   [(''raw_adb'', JList (map raw_json raw)),
                    (''next_steps'', jstrs [''Unlock the phone screen.'', ''Accept the 'Allow USB debugging' prompt.''])], tr3)
              else if ''device'' \<in> set (map rd_status raw) then
                (engagement_json ''adb_connected''
                   ''ForgeOS autonomously recovered adb transport and can continue assessment.''
                   actions [''adb became available after autonomous reconnect attempts.'']
                   [(''raw_adb'', JList (map raw_json raw))], tr3)
              else engage_usb h device transport actions tr3)"

section \<open>Backup and restore\<close>

definition capture_commands :: "(string \<times> string list) list" where
  "capture_commands =
     [(''getprop'', [''getprop'']), (''packages'', [''pm'', ''list'', ''packages'']),
      (''battery'', [''dumpsys'', ''battery'']),
      (''settings_secure'', [''settings'', ''list'', ''secure'']),
      (''settings_global'', [''settings'', ''list'', ''global'']),
      (''settings_system'', [''settings'', ''list'', ''system''])]"

fun capture_all :: "host \<Rightarrow> string \<Rightarrow> (string \<times> string list) list \<Rightarrow> (jdict \<times> bool) proc" where
  "capture_all h serial [] tr = (([], True), tr)"
| "capture_all h serial ((name, command) # rest) tr =
     (let (r, tr1) = adb_shell h serial command tr;
          ((captures, ok), tr2) = capture_all h serial rest tr1
      in (((name, JObj [(''ok'', dget r ''ok'' (JBool False)), (''stdout'', dget r ''stdout'' (JStr [])),
              (''stderr'', dget r ''stderr'' (JStr []))]) # captures,
           truthy (dget0 r ''ok'') \<and> ok), tr2))"

definition metadata_json :: "string \<Rightarrow> string \<Rightarrow> bool \<Rightarrow> jdict \<Rightarrow> string list \<Rightarrow> jdict" where
  "metadata_json transport serial ok captures limitations =
     [(''transport'', JStr transport), (''serial'', JStr serial), (''adb_metadata_available'', JBool ok),
      (''captures'', JObj captures), (''limitations'', jstrs limitations)]"

definition capture_metadata :: "host \<Rightarrow> string \<Rightarrow> string \<Rightarrow> (bool \<times> jdict \<times> string list) proc" where
  "capture_metadata h transport serial tr =
     (if transport = ''usb-adb'' \<and> serial \<noteq> [] \<and> serial \<noteq> ''unknown-serial'' then
        let ((captures, adb_ok), tr') = capture_all h serial capture_commands tr
        in ((adb_ok, captures, if adb_ok then [] else
               [''adb metadata capture was attempted, but some device queries failed.'']), tr')
      else ((False, [], [''adb transport is not available, so only host-side session evidence can be backed up right now.'']), tr))"

text \<open>The archive is written by \<open>tarfile\<close>; the report names it and the metadata document.\<close>

definition backup_plan_json :: "string \<Rightarrow> bool \<Rightarrow> string \<Rightarrow> bool \<Rightarrow> string list \<Rightarrow> jdict" where
  "backup_plan_json session_dir feasible transport with_adb limitations =
     [(''status'', JStr ''captured''),
      (''summary'', JStr ''Captured the best available pre-wipe backup evidence for this session.''),
      (''backup_bundle_path'', JStr (session_dir @ ''/backup/session-recovery-bundle.tar.gz'')),
      (''metadata_backup_path'', JStr (session_dir @ ''/backup/device-metadata-backup.json'')),
      (''restore_path_feasible'', JBool feasible), (''transport'', JStr transport),
      (''captured_with_adb'', JBool with_adb), (''limitations'', jstrs limitations),
      (''restore_notes'', JStr (''This bundle always restores session intelligence and host-side evidence. '' @
         ''Full device reinstall still depends on real flashing adapters and vendor images.''))]"

definition backup_run :: "host \<Rightarrow> string \<Rightarrow> jdict \<Rightarrow> jdict \<Rightarrow> files \<Rightarrow> (jdict \<times> files) proc" where
  "backup_run h session_dir device assessment fs tr =
     (let serial = dstr_or device ''serial'' [];
          transport = dstr device ''transport'' ''unknown'';
          ((adb_ok, captures, limitations), tr') = capture_metadata h transport serial tr;
          feasible = (truthy (dget0 assessment ''restore_path_feasible'') \<or> adb_ok);
          plan = backup_plan_json session_dir feasible transport adb_ok limitations;
          fs1 = fwrite (session_dir @ ''/backup/device-metadata-backup.json'')
                  (JObj (metadata_json transport serial adb_ok captures limitations)) fs;
          fs2 = fwrite (session_dir @ ''/backup/backup-plan.json'') (JObj plan) fs1
      in (([(''restore_path_feasible'', JBool feasible), (''plan'', JObj plan),
            (''backup_plan_path'', JStr (session_dir @ ''/backup/backup-plan.json''))], fs2), tr'))"

definition restore_run :: "string \<Rightarrow> jdict \<Rightarrow> files \<Rightarrow> jdict \<times> files" where
  "restore_run session_dir backup_plan fs =
     (let summary = ''Prepared a restore plan from the captured backup evidence.'';
          path = session_dir @ ''/restore/restore-plan.json'';
          plan = [(''status'', JStr ''planned''), (''summary'', JStr summary),
            (''backup_bundle_path'', dget backup_plan ''backup_bundle_path'' (JStr [])),
            (''metadata_backup_path'', dget backup_plan ''metadata_backup_path'' (JStr [])),
            (''steps'', jstrs
              [''Open the session recovery bundle and inspect the saved device and session metadata.'',
               ''Use the recorded flash plan, blocker report, and connection plan to choose the safest reinstall path.'',
               ''If adb metadata was captured, replay settings and package evidence only after the device is stable.'',
               ''If vendor factory images are unavailable, stop and escalate instead of guessing a restore path.'']),
            (''limitations'', dget backup_plan ''limitations'' (JList []))]
      in ([(''status'', JStr ''planned''), (''summary'', JStr summary), (''restore_plan_path'', JStr path),
           (''details'', JObj plan)], fwrite path (JObj plan) fs))"

section \<open>Boot loader\<close>

definition unlock_json :: "bool \<Rightarrow> string \<Rightarrow> bool \<Rightarrow> string \<Rightarrow> jdict" where
  "unlock_json issued status blocks action =
     [(''unlock_issued'', JBool issued), (''status'', JStr status), (''blocks'', JBool blocks), (''action'', JStr action)]"

definition unlock_args :: "string \<Rightarrow> string \<Rightarrow> string list" where
  "unlock_args serial action =
     (if serial = [] then [] else [''-s'', serial])
     @ (if action = ''unlock'' then [''flashing'', ''unlock''] else [''flashing'', ''unlock_critical''])"

definition timeout_message :: "string list \<Rightarrow> string" where
  "timeout_message command = ''Command '' @ py_repr (jstrs command) @ '' timed out after 30 seconds''"

definition bootloader_run :: "host \<Rightarrow> policy_model \<Rightarrow> jdict \<Rightarrow> string \<Rightarrow> jdict proc" where
  "bootloader_run h policy device action tr =
     (let serial = dstr_or device ''serial'' [] in
      if action = ''inspect'' then (unlock_json False ''inspect_only'' False action, tr)
      else if action \<notin> set [''unlock'', ''unlock_critical''] then (unlock_json False ''unsupported_action'' True action, tr)
      else if \<not> pol_allow_live_destructive_actions policy then (unlock_json False ''awaiting_policy_approval'' True action, tr)
      else (case h_path h FASTBOOT of
          None \<Rightarrow> (unlock_json False ''fastboot_unavailable'' True action, tr)
        | Some path \<Rightarrow>
            let args = unlock_args serial action; (c, tr') = issue h (FASTBOOT, args) tr
            in if h_times_out h tr (FASTBOOT, args)
               then (unlock_json False ''command_failed'' True action
                       @ [(''reason'', JStr (timeout_message (path # args)))], tr')
               else (unlock_json (cp_returncode c = 0) (if cp_returncode c = 0 then ''unlock_issued'' else ''unlock_failed'')
                       (cp_returncode c \<noteq> 0) action
                       @ [(''stdout'', JStr (strip (cp_stdout c))), (''stderr'', JStr (strip (cp_stderr c)))], tr')))"

section \<open>Partitions\<close>

definition parse_mounts :: "string \<Rightarrow> (string \<times> string \<times> string) list" where
  "parse_mounts out =
     foldl (\<lambda>mounts line. case split_ws line of
         dev # mount # fstype # _ \<Rightarrow> AList.update dev (mount, fstype) mounts
       | _ \<Rightarrow> mounts) [] (splitlines out)"

record partition_entry =
  pe_name :: string
  pe_size_kb :: int
  pe_mount :: string
  pe_type :: string

definition partition_line :: "(string \<times> string \<times> string) list \<Rightarrow> string \<Rightarrow> partition_entry option" where
  "partition_line mounts line =
     (case split_ws line of
        [major, minor, blocks, name] \<Rightarrow>
          if major = ''major'' then None
          else
            let (mount, fstype) = (case map_of mounts (''/dev/block/'' @ name) of None \<Rightarrow> ([], []) | Some m \<Rightarrow> m)
            in Some \<lparr>pe_name = name, pe_size_kb = (case parse_int blocks of None \<Rightarrow> 0 | Some n \<Rightarrow> n),
                 pe_mount = mount, pe_type = fstype\<rparr>
      | _ \<Rightarrow> None)"

definition parse_partitions :: "string \<Rightarrow> (string \<times> string \<times> string) list \<Rightarrow> partition_entry list" where
  "parse_partitions out mounts = List.map_filter (partition_line mounts) (splitlines out)"

definition partition_json :: "partition_entry \<Rightarrow> json" where
  "partition_json p = JObj [(''name'', JStr (pe_name p)), (''size_kb'', JInt (pe_size_kb p)),
     (''mount'', JStr (pe_mount p)), (''type'', JStr (pe_type p))]"

definition partition_failure :: "string \<Rightarrow> string \<Rightarrow> jdict" where
  "partition_failure status reason =
     [(''partitions'', JList []), (''status'', JStr status), (''blocks'', JBool True), (''reason'', JStr reason)]"

definition partition_run :: "host \<Rightarrow> jdict \<Rightarrow> jdict proc" where
  "partition_run h device tr =
     (let serial = dstr_or device ''serial'' [];
          cat = (\<lambda>p. (ADB, [''-s'', serial, ''shell'', ''cat'', p]))
      in if serial = [] then (partition_failure ''missing_serial''
             ''partition_mapper requires a device serial to query partition metadata.'', tr)
         else (case h_path h ADB of
             None \<Rightarrow> (partition_failure ''adb_unavailable'' ''adb is not available on this host.'', tr)
           | Some path \<Rightarrow>
               let (parts, tr1) = issue h (cat ''/proc/partitions'') tr in
               if h_times_out h tr (cat ''/proc/partitions'')
               then (partition_failure ''command_failed'' (timeout_message (path # snd (cat ''/proc/partitions''))), tr1)
               else
                 let (mounts, tr2) = issue h (cat ''/proc/mounts'') tr1 in
                 if h_times_out h tr1 (cat ''/proc/mounts'')
                 then (partition_failure ''command_failed'' (timeout_message (path # snd (cat ''/proc/mounts''))), tr2)
                 else if cp_returncode parts \<noteq> 0
                 then (partition_failure ''partition_probe_failed''
                         (let e = strip (cp_stderr parts) in
                          if e = [] then ''Unable to read /proc/partitions via adb.'' else e), tr2)
                 else
                   let by_device = parse_mounts (if cp_returncode mounts = 0 then cp_stdout mounts else [])
                   in ([(''partitions'', JList (map partition_json (parse_partitions (cp_stdout parts) by_device))),
                        (''status'', JStr ''ok''), (''blocks'', JBool False)], tr2)))"

section \<open>Boot validation\<close>

definition validator_json :: "string \<Rightarrow> bool \<Rightarrow> string \<Rightarrow> bool \<Rightarrow> jdict" where
  "validator_json state locked status blocks =
     [(''verified_boot_state'', JStr state), (''bootloader_locked'', JBool locked), (''status'', JStr status),
      (''blocks'', JBool blocks)]"

definition boot_passed :: "string \<Rightarrow> string \<Rightarrow> bool" where
  "boot_passed verified_boot_state flash_locked_raw \<longleftrightarrow>
     verified_boot_state \<noteq> [] \<and> lower verified_boot_state \<in> set [''green'', ''yellow''] \<and> strip flash_locked_raw = ''1''"

definition validator_run :: "host \<Rightarrow> jdict \<Rightarrow> jdict proc" where
  "validator_run h device tr =
     (let serial = dstr_or device ''serial'' [];
          prop = (\<lambda>k. (ADB, [''-s'', serial, ''shell'', ''getprop'', k]))
      in if serial = [] then (validator_json [] False ''missing_serial'' True, tr)
         else (case h_path h ADB of
             None \<Rightarrow> (validator_json [] False ''adb_unavailable'' True, tr)
           | Some path \<Rightarrow>
               let (vbs, tr1) = issue h (prop ''ro.boot.verifiedbootstate'') tr in
               if h_times_out h tr (prop ''ro.boot.verifiedbootstate'')
               then (validator_json [] False ''probe_failed'' True
                       @ [(''reason'', JStr (timeout_message (path # snd (prop ''ro.boot.verifiedbootstate''))))], tr1)
               else
                 let (fl, tr2) = issue h (prop ''ro.boot.flash.locked'') tr1 in
                 if h_times_out h tr1 (prop ''ro.boot.flash.locked'')
                 then (validator_json [] False ''probe_failed'' True
                         @ [(''reason'', JStr (timeout_message (path # snd (prop ''ro.boot.flash.locked''))))], tr2)
                 else
                   let state = strip (cp_stdout vbs); raw = strip (cp_stdout fl); passed = boot_passed state raw
                   in (validator_json state (strip raw = ''1'') (if passed then ''pass'' else ''fail'') (\<not> passed)
                         @ [(''stderr'', JStr (join ''; '' (filter (\<lambda>s. s \<noteq> []) [strip (cp_stderr vbs), strip (cp_stderr fl)])))],
                       tr2)))"

section \<open>What a tool runs\<close>

text \<open>A trace that has grown by commands of one kind. The rules follow a command through the
  operations, from the last one back to the start.\<close>

definition grew :: "(cmd \<Rightarrow> bool) \<Rightarrow> trace \<Rightarrow> trace \<Rightarrow> bool" where
  "grew P tr tr' \<longleftrightarrow> (\<exists>cs. tr' = tr @ cs \<and> list_all P cs)"

named_theorems grew_rules "how operations extend a trace"

lemma grew_refl [grew_rules]: "grew P tr tr"
  by (simp add: grew_def)

lemma grew_issue [grew_rules]: "P c \<Longrightarrow> grew P tr tr' \<Longrightarrow> grew P tr (snd (issue h c tr'))"
  by (auto simp: grew_def issue_def)

lemma grew_if [grew_rules]: "(c \<Longrightarrow> grew P tr a) \<Longrightarrow> (\<not> c \<Longrightarrow> grew P tr b) \<Longrightarrow> grew P tr (if c then a else b)"
  by simp

lemma snd_if: "snd (if c then a else b) = (if c then snd a else snd b)"
  by simp

lemmas trace_simps = Let_def split_beta snd_conv snd_if

lemma grew_adb_run [grew_rules]: "P (ADB, args) \<Longrightarrow> grew P tr tr' \<Longrightarrow> grew P tr (snd (adb_run h args tr'))"
  unfolding adb_run_def trace_simps by (intro grew_rules)

lemma grew_fastboot_run [grew_rules]:
  "P (FASTBOOT, args) \<Longrightarrow> grew P tr tr' \<Longrightarrow> grew P tr (snd (fastboot_run h args tr'))"
  unfolding fastboot_run_def trace_simps by (intro grew_rules)

text \<open>The commands that change nothing on a device: starting and reconnecting the adb server,
  listing, reading properties and settings.\<close>

definition query_commands :: "string list list" where
  "query_commands = map snd capture_commands"

definition read_only :: "cmd \<Rightarrow> bool" where
  "read_only c = (case c of
     (ADB, args) \<Rightarrow> args \<in> set [[''start-server''], [''reconnect''], [''devices'', ''-l'']]
       \<or> (case args of a # s # b # command \<Rightarrow> a = ''-s'' \<and> b = ''shell'' \<and> command \<in> set query_commands | _ \<Rightarrow> False)
   | (FASTBOOT, args) \<Rightarrow> args = [''devices''] \<or> args = [''getvar'', ''all''] \<or> (case args of [a, s, b, c] \<Rightarrow>
       a = ''-s'' \<and> b = ''getvar'' \<and> c = ''all'' | _ \<Rightarrow> False)
   | (LSUSB, args) \<Rightarrow> True
   | (HEIMDALL, args) \<Rightarrow> False
   | (OTHER _, args) \<Rightarrow> False)"

lemma read_only_simps [grew_rules]:
  "read_only (ADB, [''start-server''])" "read_only (ADB, [''reconnect''])" "read_only (ADB, [''devices'', ''-l''])"
  "read_only (FASTBOOT, [''devices''])" "read_only (LSUSB, [])"
  "command \<in> set query_commands \<Longrightarrow> read_only (ADB, [''-s'', s, ''shell''] @ command)"
  "read_only (FASTBOOT, (case serial of None \<Rightarrow> [] | Some s \<Rightarrow> if s = [] then [] else [''-s'', s]) @ [''getvar'', ''all''])"
  by (auto simp: read_only_def split: option.splits)

lemma grew_describe_all [grew_rules]:
  "grew read_only tr tr' \<Longrightarrow> grew read_only tr (snd (describe_all h serials tr'))"
proof (induction serials arbitrary: tr')
  case (Cons s serials)
  show ?case
    unfolding describe_all.simps describe_device_fastboot_def getvar_all_def trace_simps
    by (intro grew_rules Cons)
qed simp

lemma grew_listings [grew_rules]:
  "grew read_only tr tr' \<Longrightarrow> grew read_only tr (snd (adb_start_server h tr'))"
  "grew read_only tr tr' \<Longrightarrow> grew read_only tr (snd (adb_reconnect h tr'))"
  "grew read_only tr tr' \<Longrightarrow> grew read_only tr (snd (adb_raw_devices h tr'))"
  "grew read_only tr tr' \<Longrightarrow> grew read_only tr (snd (fastboot_list_devices h tr'))"
  "grew read_only tr tr' \<Longrightarrow> grew read_only tr (snd (fastbootd_list_devices h tr'))"
  "grew read_only tr tr' \<Longrightarrow> grew read_only tr (snd (list_usb_mobile_devices h tr'))"
  unfolding adb_start_server_def adb_reconnect_def adb_raw_devices_def fastboot_list_devices_def
    fastbootd_list_devices_def list_usb_mobile_devices_def trace_simps
  by (intro grew_rules; assumption)+

lemma grew_engage: "grew read_only tr (snd (engage h device tr))"
  unfolding engage_def engage_usb_def trace_simps by (intro grew_rules)

lemma grew_capture:
  "set (map snd cs) \<subseteq> set query_commands \<Longrightarrow> grew read_only tr tr' \<Longrightarrow>
    grew read_only tr (snd (capture_all h serial cs tr'))"
proof (induction cs arbitrary: tr')
  case (Cons c cs)
  obtain n command where c: "c = (n, command)" by (cases c)
  with Cons.prems have "command \<in> set query_commands" "set (map snd cs) \<subseteq> set query_commands" by auto
  then show ?case
    unfolding c capture_all.simps adb_shell_def trace_simps
    by (intro Cons.IH grew_rules Cons.prems)
qed simp

lemma grew_backup: "grew read_only tr (snd (backup_run h dir device assessment fs tr))"
  unfolding backup_run_def capture_metadata_def trace_simps
  by (intro grew_rules grew_capture) (simp add: query_commands_def)

section \<open>Properties\<close>


text \<open>The boot loader is unlocked only under a live policy: a command is run only for the two
  unlock actions and only if the policy allows live destructive actions, it is that one
  command, and success is reported only when it returned zero. Under the default policy
  nothing is ever run.\<close>

theorem unlock_needs_live_policy:
  "(snd (bootloader_run h policy device action tr) = tr
      \<and> dget0 (fst (bootloader_run h policy device action tr)) ''unlock_issued'' = JBool False
    \<or> pol_allow_live_destructive_actions policy \<and> action \<in> {''unlock'', ''unlock_critical''}
      \<and> snd (bootloader_run h policy device action tr)
          = tr @ [(FASTBOOT, unlock_args (dstr_or device ''serial'' []) action)]
      \<and> (dget0 (fst (bootloader_run h policy device action tr)) ''unlock_issued'' = JBool True \<longrightarrow>
          cp_returncode (h_exec h tr (FASTBOOT, unlock_args (dstr_or device ''serial'' []) action)) = 0))
   \<and> snd (bootloader_run h default_policy device action tr) = tr"
proof -
  have "snd (bootloader_run h default_policy device action tr) = tr"
    by (simp add: bootloader_run_def default_policy_def Let_def)
  then show ?thesis
    by (auto simp: bootloader_run_def Let_def issue_def unlock_json_def split: option.splits)
qed

theorem unlock_needs_live_policy_witness:
  "snd (bootloader_run \<lparr>h_path = \<lambda>_. Some ''fb'', h_exec = \<lambda>_ _. \<lparr>cp_returncode = 1, cp_stdout = [], cp_stderr = []\<rparr>,
       h_times_out = \<lambda>_ _. False\<rparr> default_policy [] ''unlock'' []) = []"
  using unlock_needs_live_policy [where policy = default_policy and device = "[]" and action = "''unlock''" and tr = "[]"
      and h = "\<lparr>h_path = \<lambda>_. Some ''fb'', h_exec = \<lambda>_ _. \<lparr>cp_returncode = 1, cp_stdout = [], cp_stderr = []\<rparr>,
       h_times_out = \<lambda>_ _. False\<rparr>"] by blast

text \<open>A boot is reported as passed only when the device says it is locked and its verified
  boot state is green or yellow; a failed boot always blocks.\<close>

theorem boot_pass_is_verified:
  "(dget0 (fst (validator_run h device tr)) ''status'' = JStr ''pass''
      \<longleftrightarrow> dget0 (fst (validator_run h device tr)) ''blocks'' = JBool False)
   \<and> (dget0 (fst (validator_run h device tr)) ''status'' = JStr ''pass'' \<longrightarrow>
        dget0 (fst (validator_run h device tr)) ''bootloader_locked'' = JBool True
        \<and> (\<exists>s. dget0 (fst (validator_run h device tr)) ''verified_boot_state'' = JStr s
             \<and> lower s \<in> {''green'', ''yellow''}))"
  by (simp add: validator_run_def validator_json_def boot_passed_def Let_def split_beta split: option.split if_split)

theorem boot_pass_is_verified_witness:
  "dget0 (fst (validator_run \<lparr>h_path = \<lambda>_. Some ''adb'',
       h_exec = \<lambda>tr _. \<lparr>cp_returncode = 0, cp_stdout = (if tr = [] then ''green'' else ''1''), cp_stderr = []\<rparr>,
       h_times_out = \<lambda>_ _. False\<rparr> [(''serial'', JStr ''R52'')] [])) ''bootloader_locked'' = JBool True"
  using boot_pass_is_verified [where device = "[(''serial'', JStr ''R52'')]" and tr = "[]" and
      h = "\<lparr>h_path = \<lambda>_. Some ''adb'',
       h_exec = \<lambda>tr _. \<lparr>cp_returncode = 0, cp_stdout = (if tr = [] then ''green'' else ''1''), cp_stderr = []\<rparr>,
       h_times_out = \<lambda>_ _. False\<rparr>"]
  by (simp add: validator_run_def validator_json_def boot_passed_def Let_def split_beta issue_def dstr_or_def
      strip_def lstrip_def rstrip_def lower_def lower_char_def is_upper_point_def is_space_def code_point_def)

text \<open>A second phone is enough to report adb as connected: engagement looks at every attached
  device, not at the serial of the session.\<close>

theorem engagement_ignores_serial:
  "\<exists>h device. dget0 device ''serial'' = JStr ''MINE'' \<and>
     dget0 (fst (engage h device [])) ''engagement_status'' = JStr ''adb_connected'' \<and>
     list_all (\<lambda>r. rd_serial r \<noteq> ''MINE'') (fst (adb_raw_devices h []))"
proof -
  let ?h = "\<lparr>h_path = \<lambda>_. Some ''adb'',
      h_exec = \<lambda>_ _. \<lparr>cp_returncode = 0, cp_stdout = ''OTHER device'', cp_stderr = []\<rparr>, h_times_out = \<lambda>_ _. False\<rparr>"
  have line: "raw_device_line ''OTHER device'' = Some \<lparr>rd_serial = ''OTHER'', rd_status = ''device'', rd_line = ''OTHER device''\<rparr>"
    by code_simp
  have raw: "fst (adb_raw_devices ?h tr) = [\<lparr>rd_serial = ''OTHER'', rd_status = ''device'', rd_line = ''OTHER device''\<rparr>]" for tr
  proof -
    have "splitlines ''OTHER device'' = [''OTHER device'']" by code_simp
    then show ?thesis
      by (simp add: adb_raw_devices_def h_installed_def issue_def List.map_filter_simps line split_beta)
  qed
  have "dget0 (fst (engage ?h [(''serial'', JStr ''MINE''), (''transport'', JStr ''usb-mtp'')] [])) ''engagement_status''
      = JStr ''adb_connected''"
    by (simp add: engage_def Let_def split_beta raw dstr_def engagement_json_def)
  then show ?thesis
    by (intro exI [of _ ?h] exI [of _ "[(''serial'', JStr ''MINE''), (''transport'', JStr ''usb-mtp'')]"])
       (simp add: raw)
qed

definition partition_row :: "string \<times> int \<Rightarrow> string" where
  "partition_row r = join '' '' [''8'', ''0'', int_str (snd r), fst r]"

lemma int_str_word: "int_str n \<noteq> [] \<and> (\<forall>c \<in> set (int_str n). \<not> is_space c \<and> \<not> is_eol c)"
proof -
  have "\<not> is_space c \<and> \<not> is_eol c" if "is_digit c \<or> c = CHR ''-''" for c
    using that by (auto simp: is_digit_def is_space_def is_eol_def code_point_def Let_def)
  then show ?thesis by (auto simp: int_str_def dest: nat_digits_digits)
qed

text \<open>The partition table survives being printed: lines of four fields, as \<open>/proc/partitions\<close>
  prints them, are read back as the entries with their sizes and their mounts.\<close>

theorem partition_table_roundtrip:
  assumes "\<forall>(name, size) \<in> set rows. name \<noteq> [] \<and> (\<forall>c \<in> set name. \<not> is_space c \<and> \<not> is_eol c)"
  shows "map (\<lambda>p. (pe_name p, pe_size_kb p))
      (parse_partitions (concat (map (\<lambda>l. l @ [CHR 0x0A]) (map partition_row rows))) mounts) = rows"
proof -
  have eol: "\<forall>l \<in> set (map partition_row rows). \<forall>c \<in> set l. \<not> is_eol c"
    using assms int_str_word by (auto simp: partition_row_def is_eol_def code_point_def)
  have row: "partition_line mounts (partition_row r) = Some p \<and> pe_name p = fst r \<and> pe_size_kb p = snd r"
    if "r \<in> set rows" "p = the (partition_line mounts (partition_row r))" for r p
  proof -
    have "split_ws (partition_row r) = [''8'', ''0'', int_str (snd r), fst r]"
      unfolding partition_row_def
      using that(1) assms int_str_word by (intro split_ws_join) (auto simp: is_space_def code_point_def)
    with that(2) show ?thesis
      by (simp add: partition_line_def parse_int_int_str Let_def split_beta)
  qed
  have "map (\<lambda>p. (pe_name p, pe_size_kb p)) (List.map_filter (partition_line mounts) (map partition_row rs)) = rs"
    if "set rs \<subseteq> set rows" for rs
    using that
  proof (induction rs)
    case (Cons r rs)
    with row [of r] obtain p where "partition_line mounts (partition_row r) = Some p"
      "(pe_name p, pe_size_kb p) = r" by (cases r) auto
    with Cons show ?case by (simp add: List.map_filter_simps)
  qed (simp add: List.map_filter_simps)
  then show ?thesis
    by (simp only: parse_partitions_def splitlines_unlines [OF eol] subset_refl)
qed

theorem partition_table_roundtrip_witness:
  "map (\<lambda>p. (pe_name p, pe_size_kb p))
     (parse_partitions (concat (map (\<lambda>l. l @ [CHR 0x0A]) (map partition_row [(''sda1'', 4096)]))) []) = [(''sda1'', 4096)]"
  by (rule partition_table_roundtrip) (simp add: is_space_def is_eol_def code_point_def)

end
