(* ===== verification/Flash_Executor.thy ===== *)
theory Flash_Executor
  imports Host_Tools
begin

text \<open>
  \<open>app/tools/flash_executor.py\<close>: the flash plan of a session and its execution. Steps are
  JSON dictionaries. The executor threads the trace of device commands and the files, so
  that an execution that raises still shows what it had run. Plan, approval and policy are
  the records they are read into.
\<close>

section \<open>The plan\<close>

text \<open>\<open>xs.insert(-1, x)\<close> on a list that is not empty.\<close>

definition insert_before_last :: "'a \<Rightarrow> 'a list \<Rightarrow> 'a list" where
  "insert_before_last x xs = butlast xs @ [x, last xs]"

definition plain_step :: "string \<Rightarrow> string \<Rightarrow> string \<Rightarrow> jdict" where
  "plain_step name kind description =
     [(''name'', JStr name), (''kind'', JStr kind), (''destructive'', JBool False), (''description'', JStr description)]"

definition command_step :: "json \<Rightarrow> json \<Rightarrow> bool \<Rightarrow> json \<Rightarrow> json \<Rightarrow> jdict" where
  "command_step name kind destructive description command =
     [(''name'', name), (''kind'', kind), (''destructive'', JBool destructive), (''description'', description),
      (''command'', command)]"

definition opening_steps :: "jdict \<Rightarrow> jdict list" where
  "opening_steps backup_plan =
     [plain_step ''preflight_checks'' ''verification'' ''Confirm transport, power stability, and host tooling readiness.'',
      plain_step ''verify_backup_bundle'' ''safety''
        (''Confirm the pre-wipe backup bundle exists at '' @ dstr backup_plan ''backup_bundle_path'' ''unknown'' @ ''.''),
      plain_step ''restore_checkpoint'' ''safety'' ''Record restore and rollback metadata before touching partitions.'']"

definition boot_validation_step :: jdict where
  "boot_validation_step =
     plain_step ''boot_validation'' ''validation'' ''Boot the device and verify initial connectivity and integrity.''"

definition mode_steps :: "string \<Rightarrow> string \<Rightarrow> jdict list" where
  "mode_steps install_mode transport =
     (if install_mode = ''fastboot_images'' then
        [command_step (JStr ''enter_fastboot'') (JStr ''transport'') False
           (JStr ''Reboot an adb-visible device into bootloader mode before flashing images.'')
           (JStr (if transport = transport_value T_USB_ADB then ''adb reboot bootloader'' else [])),
         command_step (JStr ''wipe_userdata'') (JStr ''wipe'') True
           (JStr ''Wipe user data and prepare a clean installation target.'') (JStr ''fastboot erase userdata'')]
      else if install_mode = ''adb_sideload'' then
        [command_step (JStr ''wipe_userdata'') (JStr ''wipe'') True
           (JStr ''Ask recovery to wipe user data before applying the staged sideload package where supported.'')
           (JStr ''adb shell recovery --wipe_data''),
         command_step (JStr ''enter_sideload'') (JStr ''transport'') False
           (JStr ''Reboot into recovery sideload mode before applying the staged package.'')
           (JStr ''adb reboot sideload'')]
      else [])"

definition artifact_step :: "string \<Rightarrow> jdict \<Rightarrow> jdict" where
  "artifact_step label s =
     command_step (dget s ''name'' (JStr ''flash_images'')) (dget s ''kind'' (JStr ''flash'')) True
       (dget s ''description'' (JStr (''Flash the selected image set for `'' @ label @ ''` on the resolved OS path.'')))
       (dget s ''command'' (JStr []))"

definition plan_steps :: "jdict \<Rightarrow> string \<Rightarrow> string \<Rightarrow> string \<Rightarrow> jdict list \<Rightarrow> jdict list" where
  "plan_steps backup_plan install_mode transport label artifacts =
     foldl (\<lambda>steps s. insert_before_last s steps) (opening_steps backup_plan @ [boot_validation_step])
       (mode_steps install_mode transport @ map (artifact_step label) artifacts)"

definition plan_summary :: "bool \<Rightarrow> string \<Rightarrow> string list \<Rightarrow> string list \<Rightarrow> string" where
  "plan_summary deferred label included rejected =
     (if deferred then
        ''Install planning is deferred while ForgeOS continues research, recommendation, preview, verification, or artifact staging.''
      else
        ''Prepared a conservative flash plan with preflight, backup verification, restore checkpoint, wipe, flash, and validation phases '' @
        ''for '' @ label @ ''. Included features: '' @
        (let i = join '', '' (take 4 included) in if i = [] then ''default profile features'' else i) @ ''. '' @
        ''Held back: '' @
        (let r = join '', '' (take 3 rejected) in if r = [] then ''no explicit feature rejections recorded yet'' else r) @ ''.'')"

definition flash_build_plan ::
    "string \<Rightarrow> string \<Rightarrow> jdict \<Rightarrow> jdict \<Rightarrow> jdict \<Rightarrow> jdict \<Rightarrow> policy_model \<Rightarrow> bool \<Rightarrow> flash_plan res" where
  "flash_build_plan now session_id device assessment build_plan backup_plan policy live_mode =
     bindr (as_str (dget device ''transport'' (JStr (transport_value T_UNKNOWN)))) (\<lambda>transport.
     bindr (as_strs (dget build_plan ''included_feature_labels'' (JList []))) (\<lambda>included.
     bindr (as_strs (dget build_plan ''rejected_feature_labels'' (JList []))) (\<lambda>rejected.
     bindr (as_dicts (dget build_plan ''artifact_flash_steps'' (JList []))) (\<lambda>artifacts.
     bindr (as_str (dget build_plan ''os_path'' (JStr ''unknown''))) (\<lambda>build_path.
     bindr (as_strs (dget build_plan ''artifact_requirements'' (JList []))) (\<lambda>hints.
       let support_status = dget assessment ''support_status'' (JStr ''research_only'');
           artifacts_ready = truthy (dget0 build_plan ''artifacts_ready'');
           install_mode = dstr build_plan ''install_mode'' ''unavailable'';
           deferred = (support_status \<noteq> JStr ''actionable''
             \<or> dget0 build_plan ''os_path'' = JStr ''research_only_path'' \<or> \<not> artifacts_ready);
           label = dstr build_plan ''selected_option_label'' ''the proposed device profile'';
           steps = plan_steps backup_plan install_mode transport label artifacts;
           live = (live_mode \<and> pol_allow_live_destructive_actions policy)
       in Inr \<lparr>fp_session_id = session_id, fp_build_path = build_path, fp_dry_run = (\<not> live),
            fp_requires_unlock = (transport \<in> set [transport_value T_USB_FASTBOOT, transport_value T_USB_FASTBOOTD]),
            fp_requires_wipe = True, fp_restore_path_available = (support_status = JStr ''actionable''),
            fp_artifacts_ready = artifacts_ready, fp_install_mode = install_mode,
            fp_artifact_manifest_path = dstr build_plan ''artifact_manifest_path'' [],
            fp_artifact_bundle_path = dstr build_plan ''artifact_bundle_path'' [],
            fp_transport = transport, fp_step_count = int (length steps), fp_steps = steps,
            fp_artifact_hints = hints, fp_status = (if deferred then ''deferred'' else ''planned''),
            fp_summary = plan_summary deferred label included rejected,
            fp_generated_at = now, fp_updated_at = now\<rparr>))))))"

section \<open>Running one step\<close>

text \<open>\<open>Path(p).name\<close> and \<open>str(Path(p))\<close>.\<close>

definition path_parts :: "string \<Rightarrow> string list" where
  "path_parts p = filter (\<lambda>s. s \<noteq> [] \<and> s \<noteq> ''.'') (split_on (CHR ''/'') p)"

definition path_name :: "string \<Rightarrow> string" where
  "path_name p = (case path_parts p of [] \<Rightarrow> [] | ps \<Rightarrow> last ps)"

definition path_str :: "string \<Rightarrow> string" where
  "path_str p =
     (let body = join ''/'' (path_parts p)
      in if starts_with p ''/'' then ''/'' @ body else if body = [] then ''.'' else body)"

fun find_named :: "string \<Rightarrow> json list \<Rightarrow> jdict option res" where
  "find_named name [] = Inr None"
| "find_named name (s # steps) =
     bindr (jget s ''name'' JNull) (\<lambda>n.
       if n = JStr name then bindr (as_dict s) (\<lambda>d. Inr (Some d)) else find_named name steps)"

definition manifest_step :: "jdict \<Rightarrow> string \<Rightarrow> jdict option res" where
  "manifest_step manifest name =
     bindr (as_list (dget manifest ''flash_steps'' (JList []))) (find_named name)"

definition staged_file :: "jdict \<Rightarrow> json \<Rightarrow> string option res" where
  "staged_file manifest image_name =
     bindr (as_strs (dget manifest ''staged_files'' (JList []))) (\<lambda>files.
       Inr (find (\<lambda>p. JStr (path_name p) = image_name) files))"

definition not_ok :: "string \<Rightarrow> jdict" where
  "not_ok reason = refused reason"

text \<open>A step returns its command result or raises; the trace is kept in both cases.\<close>

definition run_step :: "jdict proc \<Rightarrow> jdict res proc" where
  "run_step p tr = (let (r, tr') = p tr in (Inr r, tr'))"

definition serial_prefix :: "string \<Rightarrow> string list" where
  "serial_prefix serial = (if serial = [] then [] else [''-s'', serial])"

definition fastboot_flash_step :: "host \<Rightarrow> string \<Rightarrow> jdict \<Rightarrow> string \<Rightarrow> jdict res proc" where
  "fastboot_flash_step h serial manifest step_name tr =
     (case manifest_step manifest step_name of
        Inl e \<Rightarrow> (Inl e, tr)
      | Inr None \<Rightarrow> (Inr (not_ok (''No manifest step for '' @ step_name)), tr)
      | Inr (Some s) \<Rightarrow>
          let command = split_ws (dstr s ''command'' []) in
          if length command < 4 then (Inr (not_ok (''Invalid fastboot command for '' @ step_name)), tr)
          else (case staged_file manifest (JStr (last command)) of
              Inl e \<Rightarrow> (Inl e, tr)
            | Inr None \<Rightarrow> (Inr (not_ok (''Staged image '' @ last command @ '' not found'')), tr)
            | Inr (Some f) \<Rightarrow>
                run_step (fastboot_run h (serial_prefix serial @ [''flash'', command ! 2, path_str f])) tr))"

definition execute_fastboot_step :: "host \<Rightarrow> string \<Rightarrow> jdict \<Rightarrow> string \<Rightarrow> string \<Rightarrow> jdict res proc" where
  "execute_fastboot_step h serial manifest step_name transport tr =
     (if step_name = ''enter_fastboot'' then
        if transport = transport_value T_USB_FASTBOOT
        then (Inr [(''ok'', JBool True), (''stdout'', JStr ''already in fastboot''), (''stderr'', JStr []),
                (''returncode'', JInt 0)], tr)
        else run_step (adb_run h (serial_prefix serial @ [''reboot'', ''bootloader''])) tr
      else if step_name = ''wipe_userdata'' then
        run_step (fastboot_run h (serial_prefix serial @ [''erase'', ''userdata''])) tr
      else if step_name = ''boot_validation'' then
        run_step (fastboot_run h (serial_prefix serial @ [''reboot''])) tr
      else fastboot_flash_step h serial manifest step_name tr)"

definition sideload_package_step :: "host \<Rightarrow> string \<Rightarrow> jdict \<Rightarrow> string \<Rightarrow> jdict res proc" where
  "sideload_package_step h serial manifest step_name tr =
     (case manifest_step manifest step_name of
        Inl e \<Rightarrow> (Inl e, tr)
      | Inr None \<Rightarrow> (Inr (not_ok (''No manifest step for '' @ step_name)), tr)
      | Inr (Some s) \<Rightarrow>
          (case split_ws (dstr s ''command'' []) of
             [] \<Rightarrow> (Inl (IndexError ''list index out of range''), tr)
           | command \<Rightarrow>
              (case staged_file manifest (JStr (last command)) of
                 Inl e \<Rightarrow> (Inl e, tr)
               | Inr None \<Rightarrow> (Inr (not_ok (''Staged package '' @ last command @ '' not found'')), tr)
               | Inr (Some f) \<Rightarrow> run_step (adb_run h (serial_prefix serial @ [''sideload'', path_str f])) tr)))"

definition execute_adb_sideload_step :: "host \<Rightarrow> string \<Rightarrow> jdict \<Rightarrow> string \<Rightarrow> jdict res proc" where
  "execute_adb_sideload_step h serial manifest step_name tr =
     (if step_name = ''wipe_userdata'' then
        run_step (adb_run h (serial_prefix serial @ [''shell'', ''recovery'', ''--wipe_data''])) tr
      else if step_name = ''enter_sideload'' then
        run_step (adb_run h (serial_prefix serial @ [''reboot'', ''sideload''])) tr
      else if step_name = ''boot_validation'' then
        run_step (adb_run h (serial_prefix serial @ [''reboot''])) tr
      else sideload_package_step h serial manifest step_name tr)"

text \<open>\<open>heimdall flash --BOOT boot.img --SYSTEM system.img\<close> as a dictionary.\<close>

fun parse_heimdall :: "string list \<Rightarrow> jdict \<Rightarrow> jdict" where
  "parse_heimdall [] acc = acc"
| "parse_heimdall [p] acc = acc"
| "parse_heimdall (p # q # rest) acc =
     (if starts_with p ''--'' then parse_heimdall rest (dset acc (drop 2 p) (JStr q))
      else parse_heimdall (q # rest) acc)"

fun stage_partitions :: "jdict \<Rightarrow> jdict \<Rightarrow> (jdict + (string \<times> string) list) res" where
  "stage_partitions manifest [] = Inr (Inr [])"
| "stage_partitions manifest ((part, image_name) # rest) =
     bindr (staged_file manifest image_name) (\<lambda>found.
       case found of
         None \<Rightarrow> Inr (Inl (not_ok (''Staged image '' @ py_str image_name @ '' not found for partition '' @ part)))
       | Some f \<Rightarrow> bindr (stage_partitions manifest rest) (\<lambda>r.
           Inr (case r of Inl e \<Rightarrow> Inl e | Inr ps \<Rightarrow> Inr ((part, path_str f) # ps))))"

definition heimdall_flash_step :: "host \<Rightarrow> jdict \<Rightarrow> string \<Rightarrow> jdict res proc" where
  "heimdall_flash_step h manifest step_name tr =
     (case manifest_step manifest step_name of
        Inl e \<Rightarrow> (Inl e, tr)
      | Inr None \<Rightarrow> (Inr (not_ok (''No manifest step for '' @ step_name)), tr)
      | Inr (Some s) \<Rightarrow>
          (case bindr (as_dict (jor (dget0 s ''partitions'') (JObj []))) (\<lambda>raw.
                  stage_partitions manifest
                    (if raw = [] then parse_heimdall (split_ws (dstr s ''command'' [])) [] else raw)) of
             Inl e \<Rightarrow> (Inl e, tr)
           | Inr (Inl failure) \<Rightarrow> (Inr failure, tr)
           | Inr (Inr staged) \<Rightarrow> run_step (heimdall_flash h staged (step_name = ''flash_final'')) tr))"

definition execute_heimdall_step :: "host \<Rightarrow> jdict \<Rightarrow> string \<Rightarrow> jdict res proc" where
  "execute_heimdall_step h manifest step_name tr =
     (if step_name = ''detect_download_mode'' then run_step (heimdall_detect h) tr
      else if step_name = ''print_pit'' then run_step (heimdall_print_pit h) tr
      else if step_name = ''boot_validation'' then run_step (heimdall_reboot h) tr
      else if step_name = ''wipe_userdata'' then
        (Inr [(''ok'', JBool True), (''stdout'', JStr ''wipe deferred to recovery step''), (''stderr'', JStr []),
           (''returncode'', JInt 0)], tr)
      else heimdall_flash_step h manifest step_name tr)"

definition execute_live_step :: "host \<Rightarrow> flash_plan \<Rightarrow> jdict \<Rightarrow> jdict \<Rightarrow> jdict \<Rightarrow> jdict res proc" where
  "execute_live_step h plan device manifest step tr =
     (let serial = strip (dstr device ''serial'' []); name = dstr step ''name'' [] in
      if fp_install_mode plan = ''fastboot_images''
        then execute_fastboot_step h serial manifest name (fp_transport plan) tr
      else if fp_install_mode plan = ''adb_sideload'' then execute_adb_sideload_step h serial manifest name tr
      else if fp_install_mode plan = ''heimdall_flash'' then execute_heimdall_step h manifest name tr
      else (Inr (not_ok (''Unsupported install mode '' @ fp_install_mode plan)), tr))"

section \<open>Running the plan\<close>

definition executed_step :: "bool \<Rightarrow> nat \<Rightarrow> jdict \<Rightarrow> jdict" where
  "executed_step dry index step =
     [(''step_number'', JInt (int index)),
      (''name'', dget step ''name'' (JStr (''step_'' @ int_str (int index)))),
      (''kind'', dget step ''kind'' (JStr ''unknown'')),
      (''destructive'', dget step ''destructive'' (JBool False)),
      (''mode'', JStr (if dry then ''dry_run'' else ''live'')),
      (''status'', JStr (if dry then ''planned'' else ''completed'')),
      (''description'', dget step ''description'' (JStr [])),
      (''command'', dget step ''command'' (JStr []))]"

datatype run_outcome =
    Finished "jdict list"
  | Stopped jdict nat "jdict list"
  | Raised py_error

fun run_steps :: "host \<Rightarrow> flash_plan \<Rightarrow> jdict \<Rightarrow> jdict \<Rightarrow> bool \<Rightarrow> nat \<Rightarrow> jdict list \<Rightarrow> jdict list \<Rightarrow> run_outcome proc" where
  "run_steps h plan device manifest dry index [] done_steps tr = (Finished done_steps, tr)"
| "run_steps h plan device manifest dry index (step # steps) done_steps tr =
     (let executed = executed_step dry index step in
      if \<not> dry \<and> truthy (dget0 step ''command'') then
        (case execute_live_step h plan device manifest step tr of
           (Inl e, tr') \<Rightarrow> (Raised e, tr')
         | (Inr r, tr') \<Rightarrow>
             let ok = truthy (dget0 r ''ok'');
                 executed' = dset (dset executed ''command_result'' (JObj r)) ''status''
                   (JStr (if ok then ''completed'' else ''failed''))
             in if ok then run_steps h plan device manifest dry (Suc index) steps (done_steps @ [executed']) tr'
                else (Stopped step index (done_steps @ [executed']), tr'))
      else run_steps h plan device manifest dry (Suc index) steps (done_steps @ [executed]) tr)"

definition transcript_path :: "string \<Rightarrow> string" where
  "transcript_path session_dir = session_dir @ ''/execution/flash-transcript.json''"

definition blocked_result :: "string \<Rightarrow> string \<Rightarrow> jdict \<Rightarrow> jdict" where
  "blocked_result status summary details =
     [(''status'', JStr status), (''summary'', JStr summary), (''details'', JObj details)]"

definition block_details :: "string \<Rightarrow> string \<Rightarrow> jdict" where
  "block_details reason path =
     [(''dry_run'', JBool True), (''can_execute'', JBool False), (''reason'', JStr reason), (''transcript_path'', JStr path)]"

definition load_artifact_manifest :: "flash_plan \<Rightarrow> files \<Rightarrow> jdict res" where
  "load_artifact_manifest plan fs =
     (if fp_artifact_manifest_path plan = [] \<or> \<not> fexists fs (fp_artifact_manifest_path plan) then Inr []
      else load_doc (\<lambda>j. case j of JObj d \<Rightarrow> Inr d | _ \<Rightarrow> Inl (AttributeError ''get''))
             fs (fp_artifact_manifest_path plan))"

definition outcome_result :: "string \<Rightarrow> flash_plan \<Rightarrow> destructive_approval \<Rightarrow> bool \<Rightarrow> run_outcome \<Rightarrow> jdict res" where
  "outcome_result path plan approval dry outcome =
     (case outcome of
        Raised e \<Rightarrow> Inl e
      | Stopped step index executed \<Rightarrow>
          Inr (blocked_result ''live_execution_failed''
            (''Live execution stopped at `'' @ dstr step ''name'' (''step_'' @ int_str (int index)) @ ''`.'')
            [(''dry_run'', JBool False), (''can_execute'', JBool False), (''transcript_path'', JStr path),
             (''steps'', JList (map JObj executed)),
             (''artifact_manifest_path'', JStr (fp_artifact_manifest_path plan)),
             (''build_path'', JStr (fp_build_path plan)), (''transport'', JStr (fp_transport plan))])
      | Finished executed \<Rightarrow>
          Inr (blocked_result (if dry then ''dry_run_complete'' else ''live_execution_complete'')
            (if dry then ''Dry run completed. ForgeOS recorded the approved wipe-and-rebuild sequence without touching the device.''
             else ''Live execution completed. ForgeOS ran the available generic install commands for the staged artifact set.'')
            [(''dry_run'', JBool dry), (''can_execute'', JBool True),
             (''restore_path_available'', JBool (fp_restore_path_available plan)),
             (''approved_scope'', JStr (da_approval_scope approval)),
             (''build_path'', JStr (fp_build_path plan)), (''transport'', JStr (fp_transport plan)),
             (''install_mode'', JStr (fp_install_mode plan)),
             (''artifact_manifest_path'', JStr (fp_artifact_manifest_path plan)),
             (''artifact_bundle_path'', JStr (fp_artifact_bundle_path plan)),
             (''transcript_path'', JStr path), (''steps'', JList (map JObj executed))]))"

text \<open>The refusals, in order; \<open>None\<close> lets the run go on.\<close>

definition executor_refusal ::
    "string \<Rightarrow> flash_plan \<Rightarrow> destructive_approval \<Rightarrow> policy_model \<Rightarrow> jdict option" where
  "executor_refusal path plan approval policy =
     (if \<not> da_approved approval then
        Some (blocked_result ''awaiting_approval''
          ''Destructive execution is blocked until the operator grants explicit wipe approval.''
          (block_details ''approval_missing'' path))
      else if pol_require_explicit_wipe_phrase policy
          \<and> strip (da_confirmation_phrase approval) \<noteq> ''WIPE_AND_REBUILD'' then
        Some (blocked_result ''approval_invalid''
          ''The destructive approval record is present, but the confirmation phrase is missing or incorrect.''
          (block_details ''invalid_confirmation_phrase'' path))
      else if pol_require_restore_path policy
          \<and> \<not> (fp_restore_path_available plan \<and> da_restore_path_confirmed approval) then
        Some (blocked_result ''blocked_no_restore_path''
          ''Live destructive execution is blocked because a restore path is not yet confirmed.''
          (block_details ''restore_path_not_confirmed'' path))
      else None)"

definition no_artifacts_result :: "string \<Rightarrow> flash_plan \<Rightarrow> jdict \<Rightarrow> jdict" where
  "no_artifacts_result path plan manifest =
     blocked_result ''blocked_no_artifacts''
       ''Execution is blocked because ForgeOS does not have a ready flashable artifact bundle for this session.''
       [(''dry_run'', JBool True), (''can_execute'', JBool False), (''reason'', JStr ''artifacts_not_ready''),
        (''artifact_manifest_path'', JStr (fp_artifact_manifest_path plan)), (''transcript_path'', JStr path),
        (''missing_requirements'', dget manifest ''missing_requirements'' (JList []))]"

definition flash_run ::
    "host \<Rightarrow> string \<Rightarrow> flash_plan \<Rightarrow> destructive_approval \<Rightarrow> policy_model \<Rightarrow> jdict \<Rightarrow> bool \<Rightarrow> files
       \<Rightarrow> (jdict res \<times> files) proc" where
  "flash_run h session_dir plan approval policy device dry_run fs tr =
     (let path = transcript_path session_dir; report = (\<lambda>r. fwrite path (JObj r) fs) in
      case executor_refusal path plan approval policy of
        Some r \<Rightarrow> ((Inr r, report r), tr)
      | None \<Rightarrow>
         (case load_artifact_manifest plan fs of
            Inl e \<Rightarrow> ((Inl e, fs), tr)
          | Inr manifest \<Rightarrow>
              if \<not> fp_artifacts_ready plan \<or> dget0 manifest ''status'' \<noteq> JStr ''ready'' then
                (let r = no_artifacts_result path plan manifest in ((Inr r, report r), tr))
              else
                let dry = (dry_run \<or> fp_dry_run plan \<or> \<not> pol_allow_live_destructive_actions policy);
                    (outcome, tr') = run_steps h plan device manifest dry 1 (fp_steps plan) [] tr
                in (case outcome_result path plan approval dry outcome of
                      Inl e \<Rightarrow> ((Inl e, fs), tr')
                    | Inr r \<Rightarrow> ((Inr r, report r), tr'))))"

section \<open>The shape of a plan\<close>

lemma insert_before_last_snoc [simp]: "insert_before_last x (xs @ [z]) = xs @ [x, z]"
  by (simp add: insert_before_last_def)

lemma insert_all:
  "foldl (\<lambda>steps s. insert_before_last s steps) (xs @ [z]) ys = xs @ ys @ [z]"
proof (induction ys arbitrary: xs)
  case (Cons y ys)
  from Cons.IH [of "xs @ [y]"] show ?case by simp
qed simp

lemma plan_steps_eq:
  "plan_steps backup_plan install_mode transport label artifacts =
     opening_steps backup_plan @ (mode_steps install_mode transport @ map (artifact_step label) artifacts)
       @ [boot_validation_step]"
  unfolding plan_steps_def by (rule insert_all)

definition destructive :: "jdict \<Rightarrow> bool" where
  "destructive step \<longleftrightarrow> dget step ''destructive'' (JBool False) = JBool True"

lemma opening_not_destructive: "list_all (\<lambda>s. \<not> destructive s) (opening_steps backup_plan)"
  by (simp add: opening_steps_def plain_step_def destructive_def)

lemma boot_not_destructive: "\<not> destructive boot_validation_step"
  by (simp add: boot_validation_step_def plain_step_def destructive_def)

lemma build_plan_fields:
  assumes "flash_build_plan now sid device assessment bp backup policy live = Inr plan"
  obtains label artifacts where
    "fp_steps plan = plan_steps backup (fp_install_mode plan) (fp_transport plan) label artifacts"
    "fp_step_count plan = int (length (fp_steps plan))"
    "fp_dry_run plan = (\<not> (live \<and> pol_allow_live_destructive_actions policy))"
    "fp_artifacts_ready plan = truthy (dget0 bp ''artifacts_ready'')"
    "fp_restore_path_available plan =
       (dget assessment ''support_status'' (JStr ''research_only'') = JStr ''actionable'')"
    "fp_status plan = (if dget assessment ''support_status'' (JStr ''research_only'') \<noteq> JStr ''actionable''
        \<or> dget0 bp ''os_path'' = JStr ''research_only_path'' \<or> \<not> truthy (dget0 bp ''artifacts_ready'')
      then ''deferred'' else ''planned'')"
proof -
  from assms have "\<exists>label artifacts. fp_steps plan = plan_steps backup (fp_install_mode plan) (fp_transport plan) label artifacts
      \<and> fp_step_count plan = int (length (fp_steps plan))
      \<and> fp_dry_run plan = (\<not> (live \<and> pol_allow_live_destructive_actions policy))
      \<and> fp_artifacts_ready plan = truthy (dget0 bp ''artifacts_ready'')
      \<and> fp_restore_path_available plan =
          (dget assessment ''support_status'' (JStr ''research_only'') = JStr ''actionable'')
      \<and> fp_status plan = (if dget assessment ''support_status'' (JStr ''research_only'') \<noteq> JStr ''actionable''
            \<or> dget0 bp ''os_path'' = JStr ''research_only_path'' \<or> \<not> truthy (dget0 bp ''artifacts_ready'')
          then ''deferred'' else ''planned'')"
    unfolding flash_build_plan_def Let_def
    by (elim bindr_InrE) (drule Inr_inject, hypsubst, unfold flash_plan.select_convs, intro exI conjI; rule refl)
  with that show thesis by blast
qed

section \<open>What an execution runs\<close>

lemma run_steps_dry: "\<exists>executed. run_steps h plan device manifest True i steps acc tr = (Finished executed, tr)"
  by (induction steps arbitrary: i acc) auto

lemma flash_run_dry:
  assumes "dry_run \<or> fp_dry_run plan \<or> \<not> pol_allow_live_destructive_actions policy"
  shows "snd (flash_run h dir plan approval policy device dry_run fs tr) = tr"
proof -
  have "snd (run_steps h plan device manifest True i (fp_steps plan) [] tr) = tr" for manifest i
    using run_steps_dry [of h plan device manifest i "fp_steps plan" "[]" tr] by auto
  with assms show ?thesis
    by (auto simp: flash_run_def Let_def split_beta split: option.splits sum.splits)
qed

lemma refusal_None:
  "executor_refusal path plan approval policy = None \<longleftrightarrow>
     da_approved approval
     \<and> (pol_require_explicit_wipe_phrase policy \<longrightarrow> strip (da_confirmation_phrase approval) = ''WIPE_AND_REBUILD'')
     \<and> (pol_require_restore_path policy \<longrightarrow> fp_restore_path_available plan \<and> da_restore_path_confirmed approval)"
  by (auto simp: executor_refusal_def)

lemma flash_run_commands:
  assumes "snd (flash_run h dir plan approval policy device dry_run fs tr) \<noteq> tr"
  shows "executor_refusal (transcript_path dir) plan approval policy = None \<and> fp_artifacts_ready plan
    \<and> (\<exists>manifest. load_artifact_manifest plan fs = Inr manifest \<and> dget0 manifest ''status'' = JStr ''ready'')
    \<and> \<not> dry_run \<and> \<not> fp_dry_run plan \<and> pol_allow_live_destructive_actions policy"
proof -
  have "\<not> (dry_run \<or> fp_dry_run plan \<or> \<not> pol_allow_live_destructive_actions policy)"
    using assms flash_run_dry by blast
  moreover have "executor_refusal (transcript_path dir) plan approval policy = None"
    using assms by (auto simp: flash_run_def Let_def split: option.splits)
  moreover obtain manifest where m: "load_artifact_manifest plan fs = Inr manifest"
    using assms calculation(2) by (cases "load_artifact_manifest plan fs") (auto simp: flash_run_def Let_def)
  moreover have "fp_artifacts_ready plan \<and> dget0 manifest ''status'' = JStr ''ready''"
    using assms calculation(2) m by (auto simp: flash_run_def Let_def split: if_splits)
  ultimately show ?thesis by blast
qed

lemma run_steps_stopped:
  assumes "run_steps h plan device manifest dry i steps acc tr = (Stopped s n executed, tr')"
  shows "\<exists>pre post. steps = pre @ s # post
    \<and> run_steps h plan device manifest dry i (pre @ [s]) acc tr = (Stopped s n executed, tr')
    \<and> dget0 (last executed) ''status'' = JStr ''failed''"
  using assms
proof (induction steps arbitrary: i acc tr)
  case (Cons step steps)
  show ?case
  proof (cases "run_steps h plan device manifest dry i [step] acc tr")
    case (Pair outcome tr1)
    show ?thesis
    proof (cases outcome)
      case (Finished done_steps)
      then obtain acc' where
        cont: "\<And>rest. run_steps h plan device manifest dry i (step # rest) acc tr
            = run_steps h plan device manifest dry (Suc i) rest acc' tr1"
        using Pair by (auto simp: Let_def split: if_splits sum.splits prod.splits)
      with Cons.prems Cons.IH [of "Suc i" acc' tr1] obtain pre post where
        "steps = pre @ s # post"
        "run_steps h plan device manifest dry (Suc i) (pre @ [s]) acc' tr1 = (Stopped s n executed, tr')"
        "dget0 (last executed) ''status'' = JStr ''failed''"
        by (auto simp: cont)
      then show ?thesis
        using cont by (rule_tac x = "step # pre" in exI) simp
    next
      case (Stopped s' n' e')
      with Pair Cons.prems have eqs: "s' = s" "n' = n" "e' = executed" "tr1 = tr'" "s = step"
        and failed: "dget0 (last executed) ''status'' = JStr ''failed''"
        by (auto simp: Let_def split: if_splits sum.splits prod.splits)
      have "run_steps h plan device manifest dry i ([] @ [s]) acc tr = (Stopped s n executed, tr')"
        using Pair Stopped eqs by (simp del: run_steps.simps)
      with eqs(5) failed show ?thesis
        by (metis append_Nil)
    next
      case (Raised e)
      with Pair Cons.prems show ?thesis
        by (auto simp: Let_def split: if_splits sum.splits prod.splits)
    qed
  qed
qed simp

lemma run_steps_append_idle:
  assumes "\<not> truthy (dget0 s ''command'')"
    and "run_steps h plan device manifest dry i (steps @ [s]) acc tr = (Finished executed, tr')"
  shows "\<exists>k. last executed = executed_step dry k s"
  using assms(2)
proof (induction steps arbitrary: i acc tr)
  case Nil
  with assms(1) show ?case by (auto simp: Let_def)
next
  case (Cons step steps)
  then show ?case by (auto simp: Let_def split: if_splits sum.splits prod.splits)
qed

section \<open>Properties\<close>

text \<open>A plan is built around its safety steps: preflight, backup check and restore
  checkpoint come first, boot validation last, every destructive step in between, the step
  count is the number of steps, and it is live only if both the caller and the policy want it.\<close>

theorem plan_shape:
  assumes "flash_build_plan now sid device assessment bp backup policy live = Inr plan"
  shows "\<exists>middle. fp_steps plan = opening_steps backup @ middle @ [boot_validation_step]
      \<and> filter destructive (fp_steps plan) = filter destructive middle
    \<and> fp_step_count plan = int (length (fp_steps plan))
    \<and> (fp_dry_run plan \<or> live \<and> pol_allow_live_destructive_actions policy)"
proof -
  from assms obtain label artifacts where
    "fp_steps plan = plan_steps backup (fp_install_mode plan) (fp_transport plan) label artifacts"
    "fp_step_count plan = int (length (fp_steps plan))"
    "fp_dry_run plan = (\<not> (live \<and> pol_allow_live_destructive_actions policy))"
    by (rule build_plan_fields)
  moreover have "filter destructive (opening_steps backup) = []"
    using opening_not_destructive by (simp add: filter_empty_conv list_all_iff)
  ultimately show ?thesis
    using boot_not_destructive by (simp add: plan_steps_eq)
qed

theorem plan_shape_witness:
  "\<exists>plan. flash_build_plan ''t'' ''s'' [] [] [] [] default_policy True = Inr plan \<and> fp_dry_run plan"
proof -
  obtain plan :: flash_plan where plan: "flash_build_plan ''t'' ''s'' [] [] [] [] default_policy True = Inr plan"
    by (simp add: flash_build_plan_def as_strs_def as_dicts_def Let_def)
  from plan_shape [OF plan] plan show ?thesis by (auto simp: default_policy_def)
qed

text \<open>C7. The device is touched only when everything agrees: if an execution runs any command,
  the operator approved it with the phrase and the restore path the policy asks for, a ready
  manifest is on disk, and neither the caller, the plan nor the policy asked for a dry run.\<close>

theorem commands_need_everything:
  assumes "snd (flash_run h dir plan approval policy device dry_run fs tr) \<noteq> tr"
  shows "da_approved approval
    \<and> (pol_require_explicit_wipe_phrase policy \<longrightarrow> strip (da_confirmation_phrase approval) = ''WIPE_AND_REBUILD'')
    \<and> (pol_require_restore_path policy \<longrightarrow> fp_restore_path_available plan \<and> da_restore_path_confirmed approval)
    \<and> fp_artifacts_ready plan
    \<and> (\<exists>manifest. load_artifact_manifest plan fs = Inr manifest \<and> dget0 manifest ''status'' = JStr ''ready'')
    \<and> \<not> dry_run \<and> \<not> fp_dry_run plan \<and> pol_allow_live_destructive_actions policy"
  using flash_run_commands [OF assms] by (simp add: refusal_None)

definition demo_host :: host where
  "demo_host = \<lparr>h_path = \<lambda>_. Some ''tool'',
     h_exec = \<lambda>_ _. \<lparr>cp_returncode = 0, cp_stdout = [], cp_stderr = []\<rparr>, h_times_out = \<lambda>_ _. False\<rparr>"

definition demo_approval :: destructive_approval where
  "demo_approval = (default_destructive_approval ''s'' ''t'')
     \<lparr>da_approved := True, da_confirmation_phrase := ''WIPE_AND_REBUILD'', da_restore_path_confirmed := True\<rparr>"

definition live_policy :: policy_model where
  "live_policy = default_policy\<lparr>pol_allow_live_destructive_actions := True\<rparr>"

text \<open>What a build of a session without a lawful-use attestation passes on: a research-only path
  with staged artifacts.\<close>

definition unattested_build :: jdict where
  "unattested_build = [(''os_path'', JStr ''research_only_path''), (''artifacts_ready'', JBool True),
     (''install_mode'', JStr ''fastboot_images''), (''artifact_manifest_path'', JStr ''m.json'')]"

definition demo_files :: files where
  "demo_files = [(''m.json'', FJson (JObj [(''status'', JStr ''ready'')]))]"

lemma unattested_plan_ex:
  "\<exists>plan. flash_build_plan ''t'' ''s'' [(''transport'', JStr ''usb-fastboot'')]
      [(''support_status'', JStr ''actionable'')] unattested_build [] live_policy True = Inr plan
    \<and> fp_status plan = ''deferred'' \<and> fp_dry_run plan = False \<and> fp_artifacts_ready plan \<and> fp_restore_path_available plan
    \<and> fp_install_mode plan = ''fastboot_images'' \<and> fp_artifact_manifest_path plan = ''m.json''
    \<and> fp_steps plan = opening_steps [] @ mode_steps ''fastboot_images'' ''usb-fastboot'' @ [boot_validation_step]"
  by (simp add: flash_build_plan_def unattested_build_def as_strs_def as_dicts_def Let_def dstr_def live_policy_def
      plan_steps_eq)

lemma unattested_plan:
  obtains plan :: flash_plan where "flash_build_plan ''t'' ''s'' [(''transport'', JStr ''usb-fastboot'')]
      [(''support_status'', JStr ''actionable'')] unattested_build [] live_policy True = Inr plan"
    "fp_status plan = ''deferred''" "fp_dry_run plan = False" "fp_artifacts_ready plan" "fp_restore_path_available plan"
    "fp_install_mode plan = ''fastboot_images''" "fp_artifact_manifest_path plan = ''m.json''"
    "fp_steps plan = opening_steps [] @ mode_steps ''fastboot_images'' ''usb-fastboot'' @ [boot_validation_step]"
  using unattested_plan_ex by blast

text \<open>A run of a plan whose only step with a command is the wipe.\<close>

lemma wipe_run:
  assumes "fp_dry_run plan = False" "fp_artifacts_ready plan" "fp_install_mode plan = ''fastboot_images''"
    "fp_steps plan = opening_steps [] @ mode_steps ''fastboot_images'' ''usb-fastboot'' @ [boot_validation_step]"
    and refusal: "executor_refusal (transcript_path dir) plan approval policy = None"
    and live: "pol_allow_live_destructive_actions policy"
    and manifest: "load_artifact_manifest plan fs = Inr [(''status'', JStr ''ready'')]"
  shows "snd (flash_run demo_host dir plan approval policy device False fs [])
    = [(FASTBOOT, serial_prefix (strip (dstr device ''serial'' [])) @ [''erase'', ''userdata''])]"
proof -
  have "snd (run_steps demo_host plan device [(''status'', JStr ''ready'')] False 1 (fp_steps plan) [] [])
      = [(FASTBOOT, serial_prefix (strip (dstr device ''serial'' [])) @ [''erase'', ''userdata''])]"
    by (simp add: assms(3,4) opening_steps_def mode_steps_def boot_validation_step_def plain_step_def command_step_def
        execute_live_step_def execute_fastboot_step_def run_step_def fastboot_run_def h_installed_def demo_host_def
        issue_def completed_json_def dstr_def Let_def)
  then show ?thesis
    using assms by (auto simp: flash_run_def Let_def split_beta split: sum.splits)
qed

lemma unattested_run:
  assumes "fp_dry_run plan = False" "fp_artifacts_ready plan" "fp_restore_path_available plan"
    "fp_install_mode plan = ''fastboot_images''" "fp_artifact_manifest_path plan = ''m.json''"
    "fp_steps plan = opening_steps [] @ mode_steps ''fastboot_images'' ''usb-fastboot'' @ [boot_validation_step]"
  shows "snd (flash_run demo_host ''d'' plan demo_approval live_policy [] False demo_files [])
    = [(FASTBOOT, [''erase'', ''userdata''])]"
proof -
  have manifest: "load_artifact_manifest plan demo_files = Inr [(''status'', JStr ''ready'')]"
    using assms by (simp add: load_artifact_manifest_def demo_files_def fexists_def fread_def load_doc_def)
  have ok: "executor_refusal p plan demo_approval live_policy = None" for p
    using assms by (simp add: refusal_None demo_approval_def strip_def lstrip_def rstrip_def is_space_def code_point_def)
  have live: "pol_allow_live_destructive_actions live_policy" by (simp add: live_policy_def)
  show ?thesis
    by (subst wipe_run [OF assms(1,2,4,6) ok live manifest])
      (simp add: serial_prefix_def dstr_def strip_def lstrip_def rstrip_def)
qed

theorem commands_need_everything_witness:
  "\<exists>plan. snd (flash_run demo_host ''d'' plan demo_approval live_policy [] False demo_files []) \<noteq> []
     \<and> fp_artifacts_ready plan \<and> \<not> fp_dry_run plan"
proof -
  obtain plan :: flash_plan where p: "fp_dry_run plan = False" "fp_artifacts_ready plan" "fp_restore_path_available plan"
    "fp_install_mode plan = ''fastboot_images''" "fp_artifact_manifest_path plan = ''m.json''"
    "fp_steps plan = opening_steps [] @ mode_steps ''fastboot_images'' ''usb-fastboot'' @ [boot_validation_step]"
    by (rule unattested_plan) blast
  have "snd (flash_run demo_host ''d'' plan demo_approval live_policy [] False demo_files []) \<noteq> []"
    using unattested_run [OF p] by simp
  with commands_need_everything [OF this] show ?thesis by blast
qed

text \<open>Under the default policy no execution, approved or not, runs a command, and every plan
  is a dry run.\<close>

theorem default_policy_is_inert:
  "snd (flash_run h dir plan approval default_policy device dry_run fs tr) = tr
   \<and> (case flash_build_plan now sid device assessment bp backup default_policy live of
        Inl e \<Rightarrow> True | Inr p \<Rightarrow> fp_dry_run p)"
proof -
  have off: "\<not> pol_allow_live_destructive_actions default_policy" by (simp add: default_policy_def)
  show ?thesis
    using flash_run_dry off by (auto simp: flash_build_plan_def Let_def split: sum.split)
qed



text \<open>The boot validation of a plan validates nothing: its step carries no command, so a live
  execution records it as completed without rebooting the device or running anything.\<close>

theorem boot_validation_unchecked:
  assumes "flash_build_plan now sid device assessment bp backup policy live = Inr plan"
    and "run_steps h plan dev manifest False 1 (fp_steps plan) [] tr = (Finished executed, tr')"
  shows "dget0 (last executed) ''name'' = JStr ''boot_validation''
    \<and> dget0 (last executed) ''status'' = JStr ''completed'' \<and> dget0 (last executed) ''command'' = JStr []
    \<and> \<not> dhas (last executed) ''command_result''"
proof -
  from assms(1) obtain label artifacts where
    "fp_steps plan = plan_steps backup (fp_install_mode plan) (fp_transport plan) label artifacts"
    by (rule build_plan_fields)
  then have "fp_steps plan = (opening_steps backup @ mode_steps (fp_install_mode plan) (fp_transport plan)
      @ map (artifact_step label) artifacts) @ [boot_validation_step]"
    by (simp add: plan_steps_eq)
  with assms(2) have "run_steps h plan dev manifest False 1 ((opening_steps backup @ mode_steps (fp_install_mode plan) (fp_transport plan)
      @ map (artifact_step label) artifacts) @ [boot_validation_step]) [] tr = (Finished executed, tr')"
    by simp
  moreover have "\<not> truthy (dget0 boot_validation_step ''command'')"
    by (simp add: boot_validation_step_def plain_step_def)
  ultimately obtain k where "last executed = executed_step False k boot_validation_step"
    using run_steps_append_idle by blast
  then show ?thesis
    by (simp add: executed_step_def boot_validation_step_def plain_step_def dhas_def)
qed

theorem boot_validation_unchecked_witness:
  "\<exists>plan executed. run_steps demo_host plan [] [] False 1 (fp_steps plan) [] [] = (Finished executed, [])
     \<and> dget0 (last executed) ''status'' = JStr ''completed''"
proof -
  obtain plan :: flash_plan where plan: "flash_build_plan ''t'' ''s'' [] [] [] [] default_policy True = Inr plan"
    and steps: "fp_steps plan = opening_steps [] @ [boot_validation_step]"
    by (simp add: flash_build_plan_def as_strs_def as_dicts_def Let_def plan_steps_eq mode_steps_def dstr_def)
  obtain executed where run: "run_steps demo_host plan [] [] False 1 (fp_steps plan) [] [] = (Finished executed, [])"
    by (simp add: steps opening_steps_def boot_validation_step_def plain_step_def Let_def)
  from boot_validation_unchecked [OF plan run] run show ?thesis by blast
qed

text \<open>The executor does not look at the status of the plan: a plan that is deferred because the
  session is research-only is executed all the same, and wipes the device, once an approval
  is on record.\<close>

theorem deferred_plan_wipes:
  "\<exists>plan. flash_build_plan ''t'' ''s'' [(''transport'', JStr ''usb-fastboot'')]
       [(''support_status'', JStr ''actionable'')] unattested_build [] live_policy True = Inr plan
     \<and> fp_status plan = ''deferred'' \<and> dget0 unattested_build ''os_path'' = JStr ''research_only_path''
     \<and> (FASTBOOT, [''erase'', ''userdata''])
         \<in> set (snd (flash_run demo_host ''d'' plan demo_approval live_policy [] False demo_files []))"
proof -
  obtain plan :: flash_plan where "flash_build_plan ''t'' ''s'' [(''transport'', JStr ''usb-fastboot'')]
      [(''support_status'', JStr ''actionable'')] unattested_build [] live_policy True = Inr plan"
    "fp_status plan = ''deferred''" and p: "fp_dry_run plan = False" "fp_artifacts_ready plan" "fp_restore_path_available plan"
    "fp_install_mode plan = ''fastboot_images''" "fp_artifact_manifest_path plan = ''m.json''"
    "fp_steps plan = opening_steps [] @ mode_steps ''fastboot_images'' ''usb-fastboot'' @ [boot_validation_step]"
    by (rule unattested_plan) blast
  then show ?thesis using unattested_run [OF p] by (intro exI [of _ plan]) (simp add: unattested_build_def)
qed

end
