(* ===== verification/Install_Flow.thy ===== *)
theory Install_Flow
  imports Session_Manager Policy_Guard Flash_Executor
begin

text \<open>
  The install path of \<open>app/core/orchestrator.py\<close>: recording the operator's approval, executing
  an approved flash, and the remediation a language model may choose
  (\<open>_try_gemma_resolution\<close>); with \<open>write_session_report\<close> of \<open>app/core/reporting.py\<close>. The session
  documents are those of \<open>Session_Manager\<close>, the execution that of \<open>Flash_Executor\<close>. The audit
  log that \<open>BaseTool.execute\<close> appends is left out.
\<close>

section \<open>Reports and approvals\<close>

definition write_session_report ::
    "string \<Rightarrow> string \<Rightarrow> string \<Rightarrow> json \<Rightarrow> json \<Rightarrow> json \<Rightarrow> disk \<Rightarrow> disk" where
  "write_session_report now dir report_type status summary details dk =
     dk_write (sub dir (''reports/'' @ report_type @ ''.json''))
       (JObj [(''report_type'', JStr report_type), (''generated_at'', JStr now), (''status'', status),
          (''summary'', summary), (''details'', details)]) dk"

definition with_decision ::
    "bool \<Rightarrow> string \<Rightarrow> bool \<Rightarrow> string \<Rightarrow> string \<Rightarrow> destructive_approval \<Rightarrow> destructive_approval" where
  "with_decision approved phrase restore notes scope a = a
     \<lparr>da_approved := approved, da_approval_scope := (if approved then scope else ''none''),
      da_confirmation_phrase := phrase, da_consequences_acknowledged := approved,
      da_restore_path_confirmed := restore, da_notes := notes,
      da_approved_at := (if approved then Some (da_updated_at a) else None)\<rparr>"

definition approval_details :: "string \<Rightarrow> destructive_approval \<Rightarrow> json" where
  "approval_details dir a = JObj
     [(''approval_path'', JStr (sub dir ''destructive-approval.json'')),
      (''approval_scope'', JStr (da_approval_scope a)),
      (''restore_path_confirmed'', JBool (da_restore_path_confirmed a)),
      (''confirmation_phrase_ok'', JBool (da_confirmation_phrase a = ''WIPE_AND_REBUILD''))]"

definition record_wipe_approval ::
    "string \<Rightarrow> string \<Rightarrow> bool \<Rightarrow> string \<Rightarrow> bool \<Rightarrow> string \<Rightarrow> string \<Rightarrow> disk \<Rightarrow> string res \<times> disk" where
  "record_wipe_approval now dir approved phrase restore notes scope dk =
     (case load_destructive_approval now dir dk of
        (Inl e, dk1) \<Rightarrow> (Inl e, dk1)
      | (Inr a, dk1) \<Rightarrow>
          let a' = with_decision approved phrase restore notes scope a;
              dk2 = write_destructive_approval now dir a' dk1
          in (case load_session_state now dk2 dir of
                Inl e \<Rightarrow> (Inl e, dk2)
              | Inr st \<Rightarrow>
                  let dk3 = write_session_state now dir (st\<lparr>ss_destructive_actions_approved := approved\<rparr>) dk2
                  in (Inr (sub dir ''destructive-approval.json''),
                      write_session_report now dir ''approval_gate''
                        (JStr (if approved then ''approved'' else ''not_approved''))
                        (JStr (if approved then ''Operator granted explicit wipe-and-rebuild permission.''
                          else ''Operator approval for destructive actions has not been granted.''))
                        (approval_details dir a') dk3)))"

section \<open>Executing an approved flash\<close>

text \<open>The policy the executor gets: the listed fields, the others at the dataclass defaults.\<close>

definition executor_policy :: "policy_model \<Rightarrow> policy_model" where
  "executor_policy p = default_policy
     \<lparr>pol_policy_version := pol_policy_version p, pol_default_dry_run := pol_default_dry_run p,
      pol_require_restore_path := pol_require_restore_path p,
      pol_allow_live_destructive_actions := pol_allow_live_destructive_actions p,
      pol_require_explicit_wipe_phrase := pol_require_explicit_wipe_phrase p,
      pol_allow_bootloader_relock := pol_allow_bootloader_relock p,
      pol_open_vscode_on_launch := pol_open_vscode_on_launch p,
      pol_open_vscode_on_session_create := pol_open_vscode_on_session_create p,
      pol_enable_codex_handoff := pol_enable_codex_handoff p,
      pol_priority_order := pol_priority_order p, pol_host_requirements := pol_host_requirements p\<rparr>"

definition no_backup_result :: jdict where
  "no_backup_result = blocked_result ''blocked_no_backup_bundle''
     ''Destructive execution is blocked because no pre-wipe backup bundle exists for this session.''
     [(''dry_run'', JBool True), (''can_execute'', JBool False), (''reason'', JStr ''backup_bundle_missing'')]"

definition record_flash :: "string \<Rightarrow> string \<Rightarrow> jdict \<Rightarrow> disk \<Rightarrow> jdict res \<times> disk" where
  "record_flash now dir result dk =
     (let moved = (if dget0 result ''status'' \<in> set [JStr ''dry_run_complete'', JStr ''live_execution_complete'']
            then (case safe_transition now dir FLASH_PREP ''Prepared approved flash execution'' dk of
                    (Inl e, dk1) \<Rightarrow> (Inl e, dk1)
                  | (Inr _, dk1) \<Rightarrow> safe_transition now dir FLASH ''Recorded approved flash execution'' dk1)
            else (Inr (), dk))
      in case moved of
           (Inl e, dk2) \<Rightarrow> (Inl e, dk2)
         | (Inr _, dk2) \<Rightarrow>
             (Inr result, write_session_report now dir ''flash_execution'' (dget0 result ''status'')
                (dget0 result ''summary'') (dget0 result ''details'') dk2))"

definition execute_approved_flash ::
    "host \<Rightarrow> policy_model \<Rightarrow> string \<Rightarrow> string \<Rightarrow> bool \<Rightarrow> disk \<Rightarrow> (jdict res \<times> disk) proc" where
  "execute_approved_flash h policy now dir live dk tr =
     (case load_flash_plan now dk dir of
        Inl e \<Rightarrow> ((Inl e, dk), tr)
      | Inr None \<Rightarrow> ((Inl (ValueError (''No flash plan exists for session '' @ dir_name dir)), dk), tr)
      | Inr (Some plan) \<Rightarrow>
         (case load_destructive_approval now dir dk of
            (Inl e, dk1) \<Rightarrow> ((Inl e, dk1), tr)
          | (Inr approval, dk1) \<Rightarrow>
              if \<not> dk_exists dk1 (sub dir ''backup/backup-plan.json'') then ((Inr no_backup_result, dk1), tr)
              else (case load_device_profile dk1 dir of
                  Inl e \<Rightarrow> ((Inl e, dk1), tr)
                | Inr profile \<Rightarrow>
                    (case flash_run h dir (plan\<lparr>fp_dry_run := \<not> live\<rparr>) approval (executor_policy policy)
                            [(''serial'', jopt JStr (dp_serial profile))] (\<not> live) (dk_files dk1) tr of
                       ((Inl e, fs), tr') \<Rightarrow> ((Inl e, dk1\<lparr>dk_files := fs\<rparr>), tr')
                     | ((Inr result, fs), tr') \<Rightarrow> (record_flash now dir result (dk1\<lparr>dk_files := fs\<rparr>), tr')))))"

section \<open>The model's remediation\<close>

text \<open>
  \<open>decision\<close> is the reply of the language model, \<open>ensure\<close> and \<open>download\<close> the outcomes of the
  tool installer and the firmware downloader. An exception ends the attempt with \<open>False\<close>.
\<close>

definition program :: "string \<Rightarrow> tool" where
  "program name = (if name = ''adb'' then ADB else if name = ''fastboot'' then FASTBOOT
     else if name = ''heimdall'' then HEIMDALL else OTHER name)"

definition gemma_resolution ::
    "host \<Rightarrow> (string \<Rightarrow> bool) \<Rightarrow> (string \<Rightarrow> bool) \<Rightarrow> string \<Rightarrow> jdict \<Rightarrow> bool proc" where
  "gemma_resolution h ensure download profile_codename decision tr =
     (let action = dget decision ''action'' (JStr ''ask_operator'') in
      if action = JStr ''install_tool'' then
        (case dget decision ''tool'' (JStr []) of JStr t \<Rightarrow> (t \<noteq> [] \<and> ensure t, tr) | _ \<Rightarrow> (False, tr))
      else if action = JStr ''download_firmware'' then
        (case jor (dget0 decision ''codename'') (JStr profile_codename) of
           JStr c \<Rightarrow> (c \<noteq> [] \<and> download c, tr) | _ \<Rightarrow> (False, tr))
      else if action = JStr ''run_command'' then
        (case dget decision ''command'' (JStr []) of
           JStr command \<Rightarrow>
             (case split_ws (strip command) of
                [] \<Rightarrow> (False, tr)
              | name # args \<Rightarrow>
                  let c = (program name, args) in
                  if h_path h (program name) = None then (False, tr)
                  else (\<not> h_times_out h tr c, snd (issue h c tr)))
         | _ \<Rightarrow> (False, tr))
      else (False, tr))"

section \<open>Lemmas\<close>

lemma executor_policy_simps [simp]:
  "pol_allow_live_destructive_actions (executor_policy p) = pol_allow_live_destructive_actions p"
  "pol_require_explicit_wipe_phrase (executor_policy p) = pol_require_explicit_wipe_phrase p"
  "pol_require_restore_path (executor_policy p) = pol_require_restore_path p"
  by (simp_all add: executor_policy_def)

lemma execute_commands:
  assumes "snd (execute_approved_flash h policy now dir live dk tr) \<noteq> tr"
  obtains plan approval dk1 device where
    "load_flash_plan now dk dir = Inr (Some plan)"
    "load_destructive_approval now dir dk = (Inr approval, dk1)"
    "dk_exists dk1 (sub dir ''backup/backup-plan.json'')"
    "snd (flash_run h dir (plan\<lparr>fp_dry_run := \<not> live\<rparr>) approval (executor_policy policy) device (\<not> live) (dk_files dk1) tr) \<noteq> tr"
proof -
  obtain plan where plan: "load_flash_plan now dk dir = Inr (Some plan)"
    using assms by (auto simp: execute_approved_flash_def split: sum.splits option.splits)
  obtain r dk1 where l: "load_destructive_approval now dir dk = (r, dk1)" by (cases "load_destructive_approval now dir dk")
  with assms plan obtain approval where r: "r = Inr approval"
    by (cases r) (auto simp: execute_approved_flash_def)
  with assms plan l have ex: "dk_exists dk1 (sub dir ''backup/backup-plan.json'')"
    by (auto simp: execute_approved_flash_def split: if_splits)
  obtain profile where prof: "load_device_profile dk1 dir = Inr profile"
    using assms plan l r ex by (cases "load_device_profile dk1 dir") (auto simp: execute_approved_flash_def)
  obtain res fs tr' where run: "flash_run h dir (plan\<lparr>fp_dry_run := \<not> live\<rparr>) approval (executor_policy policy)
      [(''serial'', jopt JStr (dp_serial profile))] (\<not> live) (dk_files dk1) tr = ((res, fs), tr')"
    by (metis prod.exhaust)
  then have "snd (execute_approved_flash h policy now dir live dk tr) = tr'"
    using plan l r ex prof by (cases res) (simp_all add: execute_approved_flash_def)
  with run have "snd (flash_run h dir (plan\<lparr>fp_dry_run := \<not> live\<rparr>) approval (executor_policy policy)
      [(''serial'', jopt JStr (dp_serial profile))] (\<not> live) (dk_files dk1) tr)
      = snd (execute_approved_flash h policy now dir live dk tr)" by simp
  with assms show thesis
    using that [OF plan l [unfolded r] ex, of "[(''serial'', jopt JStr (dp_serial profile))]"] by simp
qed

lemma execute_not_live:
  assumes "\<not> pol_allow_live_destructive_actions policy"
  shows "snd (execute_approved_flash h policy now dir live dk tr) = tr"
proof (rule ccontr)
  assume "snd (execute_approved_flash h policy now dir live dk tr) \<noteq> tr"
  then obtain plan approval device fs where
    "snd (flash_run h dir (plan\<lparr>fp_dry_run := \<not> live\<rparr>) approval (executor_policy policy) device (\<not> live) fs tr) \<noteq> tr"
    by (rule execute_commands)
  with assms show False by (simp add: flash_run_dry)
qed

lemma execute_dry:
  "snd (execute_approved_flash h policy now dir False dk tr) = tr"
proof (rule ccontr)
  assume "snd (execute_approved_flash h policy now dir False dk tr) \<noteq> tr"
  then obtain plan approval device fs where
    "snd (flash_run h dir (plan\<lparr>fp_dry_run := \<not> False\<rparr>) approval (executor_policy policy) device (\<not> False) fs tr) \<noteq> tr"
    by (rule execute_commands)
  then show False by (simp add: flash_run_dry)
qed

lemma flash_run_files:
  "snd (fst (flash_run h dir plan approval policy device dry fs tr)) = fs
    \<or> (\<exists>j. snd (fst (flash_run h dir plan approval policy device dry fs tr)) = fwrite (transcript_path dir) j fs)"
  by (auto simp: flash_run_def Let_def split_beta split: option.splits sum.splits)

text \<open>A result with a run behind it went through \<open>record_flash\<close>.\<close>

lemma execute_result:
  assumes "execute_approved_flash h policy now dir live dk tr = ((Inr result, dk'), tr')"
    and "dget0 result ''status'' \<noteq> JStr ''blocked_no_backup_bundle''"
  shows "\<exists>dk1 fs. dk' = snd (record_flash now dir result (dk1\<lparr>dk_files := fs\<rparr>))
    \<and> (fs = dk_files dk1 \<or> (\<exists>j. fs = fwrite (transcript_path dir) j (dk_files dk1)))
    \<and> dk1 = snd (load_destructive_approval now dir dk)"
proof -
  obtain plan where plan: "load_flash_plan now dk dir = Inr (Some plan)"
    using assms(1) by (auto simp: execute_approved_flash_def split: sum.splits option.splits)
  obtain r dk1 where l: "load_destructive_approval now dir dk = (r, dk1)" by (cases "load_destructive_approval now dir dk")
  with assms(1) plan obtain approval where r: "r = Inr approval"
    by (cases r) (auto simp: execute_approved_flash_def)
  with assms plan l have ex: "dk_exists dk1 (sub dir ''backup/backup-plan.json'')"
    by (auto simp: execute_approved_flash_def no_backup_result_def blocked_result_def split: if_splits)
  obtain profile where prof: "load_device_profile dk1 dir = Inr profile"
    using assms(1) plan l r ex by (cases "load_device_profile dk1 dir") (auto simp: execute_approved_flash_def)
  obtain res fs tr1 where run: "flash_run h dir (plan\<lparr>fp_dry_run := \<not> live\<rparr>) approval (executor_policy policy)
      [(''serial'', jopt JStr (dp_serial profile))] (\<not> live) (dk_files dk1) tr = ((res, fs), tr1)"
    by (metis prod.exhaust)
  have fs: "fs = dk_files dk1 \<or> (\<exists>j. fs = fwrite (transcript_path dir) j (dk_files dk1))"
    using flash_run_files [of h dir "plan\<lparr>fp_dry_run := \<not> live\<rparr>" approval "executor_policy policy"
        "[(''serial'', jopt JStr (dp_serial profile))]" "\<not> live" "dk_files dk1" tr] run by simp
  have "(Inr result, dk') = record_flash now dir result (dk1\<lparr>dk_files := fs\<rparr>)"
    using assms(1) plan l r ex prof run
    by (cases res) (auto simp: execute_approved_flash_def record_flash_def Let_def split: sum.splits prod.splits)
  with l fs show ?thesis by (metis snd_conv)
qed

lemma load_state_report:
  "load_session_state n (write_session_report now dir ty s m d dk) dir = load_session_state n dk dir"
  by (rule load_session_state_cong) (simp add: write_session_report_def fread_fwrite)

lemma record_flash_state:
  assumes "load_session_state now dk dir = Inr st" "FLASH_PREP \<in> set (ALLOWED_TRANSITIONS (ss_state st))"
    and "dget0 result ''status'' = JStr ''dry_run_complete''"
  shows "fst (record_flash now dir result dk) = Inr result
    \<and> (\<exists>st'. load_session_state n (snd (record_flash now dir result dk)) dir = Inr st' \<and> ss_state st' = FLASH)"
proof -
  let ?st1 = "push_transition now FLASH_PREP ''Prepared approved flash execution'' st\<lparr>ss_updated_at := now\<rparr>"
  let ?dk1 = "write_session_state now dir (push_transition now FLASH_PREP ''Prepared approved flash execution'' st) dk"
  have prep: "safe_transition now dir FLASH_PREP ''Prepared approved flash execution'' dk = (Inr (), ?dk1)"
    using assms by (simp add: safe_transition_def transition_def Let_def)
  have load1: "load_session_state now ?dk1 dir = Inr ?st1" by simp
  have state1: "ss_state ?st1 = FLASH_PREP" by (simp add: push_transition_def)
  have flash: "FLASH \<in> set (ALLOWED_TRANSITIONS FLASH_PREP)" by simp
  have "safe_transition now dir FLASH ''Recorded approved flash execution'' ?dk1
      = (Inr (), write_session_state now dir (push_transition now FLASH ''Recorded approved flash execution'' ?st1) ?dk1)"
    using load1 state1 flash by (simp add: safe_transition_def transition_def Let_def)
  then show ?thesis
    using assms(3) prep
    by (simp add: record_flash_def load_state_report push_transition_def [of now FLASH])
qed

section \<open>Properties\<close>

text \<open>C4. From the operator's click to the device: if executing a session's flash runs any
  command, the caller asked for live mode, the policy is live, a backup plan is on disk, and
  the stored plan and approval satisfy every requirement of the install gate.\<close>

theorem live_flash_passes_install_gate:
  assumes "snd (execute_approved_flash h policy now dir live dk tr) \<noteq> tr"
  shows "\<exists>plan approval dk1. load_flash_plan now dk dir = Inr (Some plan)
    \<and> load_destructive_approval now dir dk = (Inr approval, dk1)
    \<and> dk_exists dk1 (sub dir ''backup/backup-plan.json'')
    \<and> live \<and> pol_allow_live_destructive_actions policy
    \<and> da_approved approval
    \<and> (\<forall>backup_plan. backup_plan \<noteq> [] \<longrightarrow> ag_allowed (evaluate_install_gate now policy plan approval backup_plan))"
proof -
  from assms obtain plan approval dk1 device where load: "load_flash_plan now dk dir = Inr (Some plan)"
      "load_destructive_approval now dir dk = (Inr approval, dk1)" "dk_exists dk1 (sub dir ''backup/backup-plan.json'')"
    and run: "snd (flash_run h dir (plan\<lparr>fp_dry_run := \<not> live\<rparr>) approval (executor_policy policy) device (\<not> live)
      (dk_files dk1) tr) \<noteq> tr"
    by (rule execute_commands)
  note checked = flash_run_commands [OF run, unfolded refusal_None]
  have gate: "ag_allowed (evaluate_install_gate now policy plan approval b)" if "b \<noteq> []" for b
    using install.allowed_iff [of now "(policy, plan, approval, b)"] checked that
    by (simp add: install_requirements_def)
  show ?thesis
    using load checked gate by (intro exI [of _ plan] exI [of _ approval] exI [of _ dk1]) simp
qed

definition flash_disk :: "flash_plan \<Rightarrow> session_state_name \<Rightarrow> disk" where
  "flash_disk plan s =
     write_flash_plan ''t'' ''devices/d'' plan
       (write_destructive_approval ''t'' ''devices/d'' demo_approval
         (write_session_state ''t'' ''devices/d'' ((new_session_state ''d'' ''t'')\<lparr>ss_state := s\<rparr>)
           (write_device_profile ''devices/d'' (bare_profile ''d'' ''f'' T_USB_FASTBOOT)
             \<lparr>dk_files = [(''m.json'', FJson (JObj [(''status'', JStr ''ready'')])),
                (''devices/d/backup/backup-plan.json'', FJson (JObj []))], dk_dirs = []\<rparr>)))"

lemma flash_disk_reads:
  "load_flash_plan n (flash_disk plan s) ''devices/d'' = Inr (Some (plan\<lparr>fp_updated_at := ''t''\<rparr>))"
  "load_destructive_approval n ''devices/d'' (flash_disk plan s) = (Inr (demo_approval\<lparr>da_updated_at := ''t''\<rparr>), flash_disk plan s)"
  "dk_exists (flash_disk plan s) ''devices/d/backup/backup-plan.json''"
  "load_device_profile (flash_disk plan s) ''devices/d'' = Inr (bare_profile ''d'' ''f'' T_USB_FASTBOOT)"
  "fread (dk_files (flash_disk plan s)) ''m.json'' = Some (FJson (JObj [(''status'', JStr ''ready'')]))"
proof -
  have plan_doc: "fread (dk_files (flash_disk plan s)) ''devices/d/execution/flash-plan.json''
      = Some (FJson (flash_plan_to_dict (plan\<lparr>fp_updated_at := ''t''\<rparr>)))"
    by (simp add: flash_disk_def write_flash_plan_def fread_atomic_write)
  then show "load_flash_plan n (flash_disk plan s) ''devices/d'' = Inr (Some (plan\<lparr>fp_updated_at := ''t''\<rparr>))"
    by (simp add: load_flash_plan_def dk_exists_def fexists_def load_doc_def codec_simps)
  have approval_doc: "fread (dk_files (flash_disk plan s)) ''devices/d/destructive-approval.json''
      = Some (FJson (destructive_approval_to_dict (demo_approval\<lparr>da_updated_at := ''t''\<rparr>)))"
    by (simp add: flash_disk_def write_flash_plan_def write_destructive_approval_def fread_atomic_write fread_fwrite tmp_path_def)
  then show "load_destructive_approval n ''devices/d'' (flash_disk plan s) = (Inr (demo_approval\<lparr>da_updated_at := ''t''\<rparr>), flash_disk plan s)"
    by (simp add: load_destructive_approval_def dk_exists_def fexists_def load_doc_def codec_simps)
  have profile_doc: "fread (dk_files (flash_disk plan s)) ''devices/d/device-profile.json''
      = Some (FJson (device_profile_to_dict (bare_profile ''d'' ''f'' T_USB_FASTBOOT)))"
    by (simp add: flash_disk_def write_flash_plan_def write_destructive_approval_def write_session_state_def
        write_device_profile_def fread_atomic_write fread_fwrite tmp_path_def)
  then show "load_device_profile (flash_disk plan s) ''devices/d'' = Inr (bare_profile ''d'' ''f'' T_USB_FASTBOOT)"
    by (simp add: load_device_profile_def load_doc_def codec_simps)
  let ?base = "[(''m.json'', FJson (JObj [(''status'', JStr ''ready'')])),
    (''devices/d/backup/backup-plan.json'', FJson (JObj []))]"
  have base: "fread ?base ''devices/d/backup/backup-plan.json'' = Some (FJson (JObj []))"
      "fread ?base ''m.json'' = Some (FJson (JObj [(''status'', JStr ''ready'')]))"
    by (simp_all add: fread_def)
  have "fread (dk_files (flash_disk plan s)) ''devices/d/backup/backup-plan.json'' = Some (FJson (JObj []))"
    by (simp add: flash_disk_def write_flash_plan_def write_destructive_approval_def write_session_state_def
        write_device_profile_def fread_atomic_write fread_fwrite tmp_path_def base)
  then show "dk_exists (flash_disk plan s) ''devices/d/backup/backup-plan.json''"
    by (simp add: dk_exists_def fexists_def)
  show "fread (dk_files (flash_disk plan s)) ''m.json'' = Some (FJson (JObj [(''status'', JStr ''ready'')]))"
    by (simp add: flash_disk_def write_flash_plan_def write_destructive_approval_def write_session_state_def
        write_device_profile_def fread_atomic_write fread_fwrite tmp_path_def base)
qed

lemma flash_disk_state:
  "load_session_state n (flash_disk plan s) ''devices/d''
     = Inr ((new_session_state ''d'' ''t'')\<lparr>ss_state := s, ss_updated_at := ''t''\<rparr>)"
  by (simp add: flash_disk_def)

lemma dry_result:
  assumes "fp_artifacts_ready plan" "fp_restore_path_available plan" "fp_artifact_manifest_path plan = ''m.json''"
    and "FLASH_PREP \<in> set (ALLOWED_TRANSITIONS s)"
  shows "\<exists>result dk' tr'. execute_approved_flash demo_host default_policy n ''devices/d'' False (flash_disk plan s) []
      = ((Inr result, dk'), tr') \<and> dget0 result ''status'' = JStr ''dry_run_complete''"
proof -
  let ?plan = "plan\<lparr>fp_updated_at := ''t'', fp_dry_run := True\<rparr>"
  let ?approval = "demo_approval\<lparr>da_updated_at := ''t''\<rparr>"
  have manifest: "load_artifact_manifest ?plan (dk_files (flash_disk plan s)) = Inr [(''status'', JStr ''ready'')]"
    using assms by (simp add: load_artifact_manifest_def fexists_def load_doc_def flash_disk_reads)
  have ok: "executor_refusal p ?plan ?approval (executor_policy default_policy) = None" for p
    using assms by (simp add: refusal_None demo_approval_def strip_def lstrip_def rstrip_def is_space_def code_point_def)
  obtain executed where steps: "run_steps demo_host ?plan [(''serial'', JNull)] [(''status'', JStr ''ready'')] True 1 (fp_steps plan) [] []
      = (Finished executed, [])" using run_steps_dry by blast
  have "\<exists>result. flash_run demo_host ''devices/d'' ?plan ?approval (executor_policy default_policy) [(''serial'', JNull)] True
      (dk_files (flash_disk plan s)) [] = ((Inr result, fwrite (transcript_path ''devices/d'') (JObj result) (dk_files (flash_disk plan s))), [])
      \<and> dget0 result ''status'' = JStr ''dry_run_complete''"
    using assms steps by (simp add: flash_run_def ok manifest outcome_result_def blocked_result_def Let_def)
  then obtain result where run: "flash_run demo_host ''devices/d'' ?plan ?approval (executor_policy default_policy) [(''serial'', JNull)] True
      (dk_files (flash_disk plan s)) [] = ((Inr result, fwrite (transcript_path ''devices/d'') (JObj result) (dk_files (flash_disk plan s))), [])"
    and status: "dget0 result ''status'' = JStr ''dry_run_complete''" by blast
  let ?dk = "(flash_disk plan s)\<lparr>dk_files := fwrite (transcript_path ''devices/d'') (JObj result) (dk_files (flash_disk plan s))\<rparr>"
  have "load_session_state n ?dk ''devices/d'' = load_session_state n (flash_disk plan s) ''devices/d''"
    by (rule load_session_state_cong) (simp add: transcript_path_def fread_fwrite)
  then have "fst (record_flash n ''devices/d'' result ?dk) = Inr result"
    using record_flash_state [OF _ _ status, of n ?dk "''devices/d''"] assms(4) by (simp add: flash_disk_state)
  moreover have "execute_approved_flash demo_host default_policy n ''devices/d'' False (flash_disk plan s) []
      = (record_flash n ''devices/d'' result ?dk, [])"
    using run by (simp add: execute_approved_flash_def flash_disk_reads bare_profile_def jopt_def)
  ultimately show ?thesis
    using status by (metis prod.collapse)
qed

lemma stored_plan_run:
  assumes "fp_artifacts_ready plan" "fp_restore_path_available plan"
    "fp_install_mode plan = ''fastboot_images''" "fp_artifact_manifest_path plan = ''m.json''"
    "fp_steps plan = opening_steps [] @ mode_steps ''fastboot_images'' ''usb-fastboot'' @ [boot_validation_step]"
  shows "snd (execute_approved_flash demo_host live_policy n ''devices/d'' True (flash_disk plan s) [])
    = [(FASTBOOT, [''-s'', ''None'', ''erase'', ''userdata''])]"
proof -
  let ?plan = "plan\<lparr>fp_updated_at := ''t'', fp_dry_run := False\<rparr>"
  let ?approval = "demo_approval\<lparr>da_updated_at := ''t''\<rparr>"
  have manifest: "load_artifact_manifest ?plan (dk_files (flash_disk plan s)) = Inr [(''status'', JStr ''ready'')]"
    using assms by (simp add: load_artifact_manifest_def fexists_def load_doc_def flash_disk_reads)
  have ok: "executor_refusal p ?plan ?approval (executor_policy live_policy) = None" for p
    using assms by (simp add: refusal_None demo_approval_def strip_def lstrip_def rstrip_def is_space_def code_point_def)
  have live: "pol_allow_live_destructive_actions (executor_policy live_policy)" by (simp add: live_policy_def)
  have "snd (flash_run demo_host ''devices/d'' ?plan ?approval (executor_policy live_policy)
      [(''serial'', JNull)] False (dk_files (flash_disk plan s)) []) = [(FASTBOOT, [''-s'', ''None'', ''erase'', ''userdata''])]"
    by (subst wipe_run [OF _ _ _ _ ok live manifest])
      (simp_all add: assms serial_prefix_def dstr_def strip_def lstrip_def rstrip_def is_space_def code_point_def)
  then show ?thesis
    by (simp add: execute_approved_flash_def flash_disk_reads bare_profile_def jopt_def split_beta split: sum.split)
qed

lemma wipe_plan_ex:
  "\<exists>plan. flash_build_plan ''t'' ''s'' [(''transport'', JStr ''usb-fastboot'')]
      [(''support_status'', JStr ''actionable'')] unattested_build [] live_policy True = Inr plan
    \<and> snd (execute_approved_flash demo_host live_policy n ''devices/d'' True (flash_disk plan s) [])
        = [(FASTBOOT, [''-s'', ''None'', ''erase'', ''userdata''])]"
  using unattested_plan stored_plan_run by metis

theorem live_flash_passes_install_gate_witness:
  "\<exists>plan approval dk1. load_flash_plan ''n'' (flash_disk plan INSTALL_APPROVAL) ''devices/d''
       = Inr (Some (plan\<lparr>fp_updated_at := ''t''\<rparr>))
     \<and> load_destructive_approval ''n'' ''devices/d'' (flash_disk plan INSTALL_APPROVAL) = (Inr approval, dk1)
     \<and> da_approved approval
     \<and> ag_allowed (evaluate_install_gate ''n'' live_policy (plan\<lparr>fp_updated_at := ''t''\<rparr>) approval [(''k'', JNull)])"
proof -
  obtain plan :: flash_plan where
    "snd (execute_approved_flash demo_host live_policy ''n'' ''devices/d'' True (flash_disk plan INSTALL_APPROVAL) [])
      = [(FASTBOOT, [''-s'', ''None'', ''erase'', ''userdata''])]"
    using wipe_plan_ex [of "''n''" INSTALL_APPROVAL] by blast
  then have "snd (execute_approved_flash demo_host live_policy ''n'' ''devices/d'' True (flash_disk plan INSTALL_APPROVAL) []) \<noteq> []"
    by simp
  from live_flash_passes_install_gate [OF this] show ?thesis
    by (auto simp: flash_disk_reads intro!: exI [of _ plan])
qed

text \<open>A recorded decision is what the gates read next: after the operator's decision is
  recorded without error, the approval that is loaded has the recorded phrase, restore
  confirmation and scope, it is approved exactly if the operator approved, and the session
  state says the same. Its approval time is the time the record was last written before the
  decision, not the time of the decision.\<close>

theorem recorded_decision_is_read:
  assumes "record_wipe_approval now dir approved phrase restore notes scope dk = (Inr path, dk')"
  shows "\<exists>a0 a st. fst (load_destructive_approval now dir dk) = Inr a0
    \<and> load_destructive_approval n dir dk' = (Inr a, dk')
    \<and> da_approved a = approved \<and> da_confirmation_phrase a = phrase \<and> da_restore_path_confirmed a = restore
    \<and> da_approval_scope a = (if approved then scope else ''none'')
    \<and> da_approved_at a = (if approved then Some (da_updated_at a0) else None) \<and> da_updated_at a = now
    \<and> load_session_state n dk' dir = Inr st \<and> ss_destructive_actions_approved st = approved"
proof -
  obtain a0 dk1 where load: "load_destructive_approval now dir dk = (Inr a0, dk1)"
    using assms by (cases "load_destructive_approval now dir dk")
      (auto simp: record_wipe_approval_def split: sum.splits)
  let ?a = "with_decision approved phrase restore notes scope a0"
  let ?dk2 = "write_destructive_approval now dir ?a dk1"
  obtain st where state: "load_session_state now ?dk2 dir = Inr st"
    using assms load by (auto simp: record_wipe_approval_def Let_def split: sum.splits)
  let ?st = "st\<lparr>ss_destructive_actions_approved := approved\<rparr>"
  have dk': "\<exists>status summary details.
      dk' = write_session_report now dir ''approval_gate'' status summary details (write_session_state now dir ?st ?dk2)"
    using assms load state by (auto simp: record_wipe_approval_def Let_def)
  then have "fread (dk_files dk') (sub dir ''destructive-approval.json'')
      = Some (FJson (destructive_approval_to_dict (?a\<lparr>da_updated_at := now\<rparr>)))"
    by (auto simp: write_session_report_def write_session_state_def write_destructive_approval_def fread_fwrite
        fread_atomic_write tmp_path_def)
  then have "load_destructive_approval n dir dk' = (Inr (?a\<lparr>da_updated_at := now\<rparr>), dk')"
    by (simp add: load_destructive_approval_def dk_exists_def fexists_def load_doc_def codec_simps)
  moreover have "load_session_state n dk' dir = Inr (?st\<lparr>ss_updated_at := now\<rparr>)"
    using dk' by (auto simp: load_state_report)
  ultimately show ?thesis
    using load by (simp add: with_decision_def)
qed

theorem recorded_decision_is_read_witness:
  "\<exists>plan path dk'. record_wipe_approval ''n'' ''devices/d'' True ''WIPE_AND_REBUILD'' True [] ''all'' (flash_disk plan DEVICE_ATTACHED)
       = (Inr path, dk')
     \<and> (\<exists>a. load_destructive_approval ''n'' ''devices/d'' dk' = (Inr a, dk') \<and> da_approved_at a = Some ''t'' \<and> da_updated_at a = ''n'')"
proof -
  obtain plan :: flash_plan where "fp_status plan = ''x''" by (metis flash_plan.select_convs(15))
  obtain path dk' where run: "record_wipe_approval ''n'' ''devices/d'' True ''WIPE_AND_REBUILD'' True [] ''all'' (flash_disk plan DEVICE_ATTACHED)
      = (Inr path, dk')"
    by (simp add: record_wipe_approval_def flash_disk_reads flash_disk_state Let_def)
  from recorded_decision_is_read [OF run, of "''n''"] run show ?thesis
    by (auto simp: flash_disk_reads)
qed

text \<open>A rehearsal leaves the device alone, yet the session says it was flashed: a dry run that
  completes runs no command and moves the session on to \<open>FLASH\<close> from every state that allows
  \<open>FLASH_PREP\<close>.\<close>

theorem dry_run_moves_to_flash:
  assumes "execute_approved_flash h policy now dir False dk tr = ((Inr result, dk'), tr')"
    and "dget0 result ''status'' = JStr ''dry_run_complete''"
    and "load_session_state now dk dir = Inr st" "FLASH_PREP \<in> set (ALLOWED_TRANSITIONS (ss_state st))"
  shows "tr' = tr \<and> (\<exists>st'. load_session_state n dk' dir = Inr st' \<and> ss_state st' = FLASH)"
proof
  show "tr' = tr" using execute_dry [of h policy now dir dk tr] assms(1) by simp
  obtain dk1 fs where dk1: "dk' = snd (record_flash now dir result (dk1\<lparr>dk_files := fs\<rparr>))"
    and fs: "fs = dk_files dk1 \<or> (\<exists>j. fs = fwrite (transcript_path dir) j (dk_files dk1))"
    and load: "dk1 = snd (load_destructive_approval now dir dk)"
    using execute_result [OF assms(1)] assms(2) by auto
  have "load_session_state now dk1 dir = Inr st"
    using assms(3) load by (simp add: load_destructive_approval_def Let_def)
  moreover have "load_session_state now (dk1\<lparr>dk_files := fs\<rparr>) dir = load_session_state now dk1 dir"
    using fs by (intro load_session_state_cong) (auto simp: transcript_path_def fread_fwrite)
  ultimately show "\<exists>st'. load_session_state n dk' dir = Inr st' \<and> ss_state st' = FLASH"
    using record_flash_state assms(2,4) dk1 by simp
qed

theorem dry_run_moves_to_flash_witness:
  "\<exists>plan result dk'. execute_approved_flash demo_host default_policy ''n'' ''devices/d'' False
       (flash_disk plan QUESTION_GATE) [] = ((Inr result, dk'), [])
     \<and> (\<exists>st'. load_session_state ''n'' dk' ''devices/d'' = Inr st' \<and> ss_state st' = FLASH)"
proof -
  obtain plan :: flash_plan where plan: "fp_artifacts_ready plan" "fp_restore_path_available plan"
    "fp_artifact_manifest_path plan = ''m.json''"
    using unattested_plan_ex by blast
  obtain result dk' tr' where run: "execute_approved_flash demo_host default_policy ''n'' ''devices/d'' False
       (flash_disk plan QUESTION_GATE) [] = ((Inr result, dk'), tr')"
    and status: "dget0 result ''status'' = JStr ''dry_run_complete''"
    using dry_result [OF plan, of QUESTION_GATE "''n''"] by (auto 4 0)
  have "FLASH_PREP \<in> set (ALLOWED_TRANSITIONS (ss_state ((new_session_state ''d'' ''t'')\<lparr>ss_state := QUESTION_GATE,
      ss_updated_at := ''t''\<rparr>)))" by simp
  from dry_run_moves_to_flash [OF run status flash_disk_state this] run show ?thesis by blast
qed

text \<open>A device without a known serial is addressed as \<open>None\<close>: the serial of the profile is
  turned into text without a check, so the wipe of an approved session is issued for the
  device named \<open>None\<close>.\<close>

theorem missing_serial_is_None:
  "\<exists>plan. flash_build_plan ''t'' ''s'' [(''transport'', JStr ''usb-fastboot'')]
       [(''support_status'', JStr ''actionable'')] unattested_build [] live_policy True = Inr plan
     \<and> load_device_profile (flash_disk plan s) ''devices/d'' = Inr (bare_profile ''d'' ''f'' T_USB_FASTBOOT)
     \<and> dp_serial (bare_profile ''d'' ''f'' T_USB_FASTBOOT) = None
     \<and> snd (execute_approved_flash demo_host live_policy n ''devices/d'' True (flash_disk plan s) [])
         = [(FASTBOOT, [''-s'', ''None'', ''erase'', ''userdata''])]"
  using wipe_plan_ex [of n s] flash_disk_reads(4) by (auto simp: bare_profile_def)

definition wipe_reply :: jdict where
  "wipe_reply = [(''action'', JStr ''run_command''), (''command'', JStr ''fastboot erase userdata'')]"

text \<open>The model's remediation goes around every gate: a reply that asks for
  \<open>fastboot erase userdata\<close> is run as it stands, under any policy and with no approval, while under
  the default policy an approved execution of any session runs nothing.\<close>

theorem model_commands_are_not_gated:
  "gemma_resolution demo_host ensure download codename wipe_reply [] = (True, [(FASTBOOT, [''erase'', ''userdata''])])
   \<and> snd (execute_approved_flash h default_policy now dir live dk tr) = tr"
proof
  have "split_ws (strip ''fastboot erase userdata'') = [''fastboot'', ''erase'', ''userdata'']"
    by code_simp
  then show "gemma_resolution demo_host ensure download codename wipe_reply []
      = (True, [(FASTBOOT, [''erase'', ''userdata''])])"
    by (simp add: gemma_resolution_def wipe_reply_def program_def demo_host_def issue_def Let_def)
  show "snd (execute_approved_flash h default_policy now dir live dk tr) = tr"
    by (rule execute_not_live) (simp add: default_policy_def)
qed

end
