(* ===== verification/Knowledge.thy ===== *)
theory Knowledge
  imports Naming
begin

text \<open>
  \<open>app/core/knowledge.py\<close> and \<open>app/core/knowledge_lookup.py\<close>: one outcome per session, and the
  support matrix that counts the outcomes of every device family. The abstract view of the
  matrix is a summary of the list of outcomes of one family; the fold of the code is proved to
  compute it. Paths are relative to the root. The counters of a status other than the four
  known ones are kept beside them.
\<close>

section \<open>Family keys\<close>

definition family_part :: "string option \<Rightarrow> string" where
  "family_part v = replace_char (CHR '' '') (CHR ''-'') (lower (strip (str_or v ''unknown'')))"

definition family_key_of :: "string option \<Rightarrow> string option \<Rightarrow> string" where
  "family_key_of manufacturer model = family_part manufacturer @ '':'' @ family_part model"

definition family_key :: "device_profile \<Rightarrow> string" where
  "family_key profile = family_key_of (dp_manufacturer profile) (dp_model profile)"

section \<open>Documents\<close>

definition session_outcomes_path :: string where
  "session_outcomes_path = ''knowledge/session_outcomes.json''"

definition support_matrix_path :: string where
  "support_matrix_path = ''knowledge/support_matrix.json''"

definition knowledge_load :: "files \<Rightarrow> string \<Rightarrow> json \<Rightarrow> json res" where
  "knowledge_load fs path dflt = (if fexists fs path then load_doc Inr fs path else Inr dflt)"

section \<open>Recording an outcome\<close>

definition experiment_evidence :: "files \<Rightarrow> string option \<Rightarrow> (rat \<times> int) res" where
  "experiment_evidence fs session_dir =
     (case session_dir of None \<Rightarrow> Inr (0, 0)
      | Some dir \<Rightarrow>
          let path = dir @ ''/reports/autonomous-experiments.json'' in
          if \<not> fexists fs path then Inr (0, 0)
          else bindr (load_doc Inr fs path) (\<lambda>payload.
               bindr (jget payload ''fitness'' (JObj [])) (\<lambda>fitness.
               bindr (jget fitness ''fitness_score'' (JFloat 0)) (\<lambda>score.
               bindr (as_float score) (\<lambda>s.
               bindr (jget payload ''experiments'' (JList [])) (\<lambda>exps.
               bindr (as_list exps) (\<lambda>es. Inr (s, int (length es)))))))))"

definition session_outcome ::
    "string \<Rightarrow> device_profile \<Rightarrow> session_state \<Rightarrow> jdict \<Rightarrow> rat \<Rightarrow> int \<Rightarrow> jdict" where
  "session_outcome now profile state assessment fitness_score experiment_count =
     [(''session_id'', JStr (dp_session_id profile)),
      (''recorded_at'', JStr now),
      (''family_key'', JStr (family_key profile)),
      (''canonical_name'', JStr (dp_canonical_name profile)),
      (''device_codename'', JStr (dp_device_codename profile)),
      (''manufacturer'', jopt JStr (dp_manufacturer profile)),
      (''model'', jopt JStr (dp_model profile)),
      (''serial'', jopt JStr (dp_serial profile)),
      (''transport'', JStr (transport_value (dp_transport profile))),
      (''android_version'', jopt JStr (dp_android_version profile)),
      (''bootloader_locked'', jopt JBool (dp_bootloader_locked profile)),
      (''verified_boot_state'', jopt JStr (dp_verified_boot_state profile)),
      (''support_status'', JStr (support_status_value (ss_support_status state))),
      (''selected_strategy'', jopt JStr (ss_selected_strategy state)),
      (''current_state'', JStr (session_state_name_value (ss_state state))),
      (''restore_path_feasible'', JBool (truthy (dget0 assessment ''restore_path_feasible''))),
      (''assessment_summary'', dget0 assessment ''summary''),
      (''fitness_score'', JFloat fitness_score),
      (''experiment_count'', JInt experiment_count),
      (''notes'', jstrs (drop (length (ss_notes state) - 5) (ss_notes state)))]"

section \<open>The matrix\<close>

text \<open>What the rebuild reads of an outcome.\<close>

record evidence =
  ev_family_key :: string
  ev_manufacturer :: json
  ev_model :: json
  ev_summary :: json
  ev_status :: string
  ev_restore :: bool
  ev_validated :: bool
  ev_fitness :: "rat option"
  ev_strategy :: string

definition is_validated_serial :: "string \<Rightarrow> bool" where
  "is_validated_serial serial \<longleftrightarrow> serial \<noteq> [] \<and> \<not> starts_with serial ''usb-''"

definition evidence_of :: "json \<Rightarrow> evidence res" where
  "evidence_of v =
     bindr (as_dict v) (\<lambda>outcome.
     bindr (bindr (dindex outcome ''family_key'') as_str) (\<lambda>key.
     bindr (as_str (dget outcome ''support_status'' (JStr (support_status_value SUP_RESEARCH_ONLY)))) (\<lambda>status.
     bindr (as_opt as_float (dget0 outcome ''fitness_score'')) (\<lambda>fitness.
     bindr (as_str (jor (dget0 outcome ''selected_strategy'') (JStr ''unselected''))) (\<lambda>strategy.
       Inr \<lparr>ev_family_key = key, ev_manufacturer = dget0 outcome ''manufacturer'', ev_model = dget0 outcome ''model'',
            ev_summary = dget0 outcome ''assessment_summary'', ev_status = status,
            ev_restore = truthy (dget0 outcome ''restore_path_feasible''),
            ev_validated = is_validated_serial (dstr_or outcome ''serial'' []),
            ev_fitness = fitness, ev_strategy = strategy\<rparr>)))))"

record family =
  fam_manufacturer :: json
  fam_model :: json
  fam_observations :: int
  fam_statuses :: "(string \<times> int) list"
  fam_restore_path_confirmed :: int
  fam_validated_sessions :: int
  fam_fitness_total :: rat
  fam_fitness_observations :: int
  fam_strategies :: "(string \<times> int) list"
  fam_latest_summary :: json

definition count_of :: "(string \<times> int) list \<Rightarrow> string \<Rightarrow> int" where
  "count_of m k = (case map_of m k of None \<Rightarrow> 0 | Some n \<Rightarrow> n)"

definition bump :: "string \<Rightarrow> (string \<times> int) list \<Rightarrow> (string \<times> int) list" where
  "bump k m = AList.update k (count_of m k + 1) m"

definition new_family :: "evidence \<Rightarrow> family" where
  "new_family e =
     \<lparr>fam_manufacturer = ev_manufacturer e, fam_model = ev_model e, fam_observations = 0,
      fam_statuses = [(''actionable'', 0), (''research_only'', 0), (''blocked'', 0), (''experimental'', 0)],
      fam_restore_path_confirmed = 0, fam_validated_sessions = 0, fam_fitness_total = 0,
      fam_fitness_observations = 0, fam_strategies = [], fam_latest_summary = ev_summary e\<rparr>"

definition observe :: "evidence \<Rightarrow> family \<Rightarrow> family" where
  "observe e f =
     f\<lparr>fam_observations := fam_observations f + 1,
       fam_latest_summary := ev_summary e,
       fam_statuses := bump (ev_status e) (fam_statuses f),
       fam_restore_path_confirmed := fam_restore_path_confirmed f + (if ev_restore e then 1 else 0),
       fam_validated_sessions := fam_validated_sessions f + (if ev_validated e then 1 else 0),
       fam_fitness_total := fam_fitness_total f + (case ev_fitness e of None \<Rightarrow> 0 | Some x \<Rightarrow> x),
       fam_fitness_observations := fam_fitness_observations f + (case ev_fitness e of None \<Rightarrow> 0 | Some x \<Rightarrow> 1),
       fam_strategies := bump (ev_strategy e) (fam_strategies f)\<rparr>"

definition tally_one :: "(string \<times> family) list \<Rightarrow> evidence \<Rightarrow> (string \<times> family) list" where
  "tally_one families e =
     (let f = (case map_of families (ev_family_key e) of None \<Rightarrow> new_family e | Some f \<Rightarrow> f)
      in AList.update (ev_family_key e) (observe e f) families)"

definition tally :: "evidence list \<Rightarrow> (string \<times> family) list" where
  "tally es = foldl tally_one [] es"

definition family_rate :: "int \<Rightarrow> family \<Rightarrow> rat" where
  "family_rate n f = of_int n / of_int (max 1 (fam_observations f))"

definition family_confidence :: "family \<Rightarrow> rat" where
  "family_confidence f =
     (let observations = max 1 (fam_observations f);
          actionable_rate = family_rate (count_of (fam_statuses f) ''actionable'') f;
          blocked_rate = family_rate (count_of (fam_statuses f) ''blocked'') f;
          restore_rate = family_rate (fam_restore_path_confirmed f) f;
          confidence = min (98 / 100) (15 / 100 + 12 / 100 * of_int observations + 35 / 100 * actionable_rate
                         + 2 / 10 * restore_rate - 25 / 100 * blocked_rate)
      in py_round (max (5 / 100) confidence) 2)"

definition average_fitness_score :: "family \<Rightarrow> rat" where
  "average_fitness_score f = py_round (fam_fitness_total f / of_int (max 1 (fam_fitness_observations f))) 3"

definition recommended_strategy :: "family \<Rightarrow> string" where
  "recommended_strategy f = (case max_key snd (fam_strategies f) of None \<Rightarrow> ''research_only'' | Some p \<Rightarrow> fst p)"

definition support_level_for_family :: "family \<Rightarrow> rat \<Rightarrow> string" where
  "support_level_for_family f confidence =
     (let observations = fam_observations f in
      if count_of (fam_statuses f) ''blocked'' = observations \<and> 1 \<le> observations then ''blocked''
      else if 3 \<le> observations \<and> 75 / 100 \<le> confidence
          \<and> 66 / 100 \<le> of_int (count_of (fam_statuses f) ''actionable'') / (of_int observations :: rat)
        then ''provisionally_supported''
      else if 2 \<le> observations \<and> 55 / 100 \<le> confidence then ''developing''
      else ''research_only'')"

definition family_json :: "family \<Rightarrow> json" where
  "family_json f = JObj
     ([(''manufacturer'', fam_manufacturer f), (''model'', fam_model f), (''observations'', JInt (fam_observations f))]
      @ map (\<lambda>(k, n). (k, JInt n)) (fam_statuses f)
      @ [(''restore_path_confirmed'', JInt (fam_restore_path_confirmed f)),
         (''validated_sessions'', JInt (fam_validated_sessions f)),
         (''fitness_total'', JFloat (fam_fitness_total f)),
         (''fitness_observations'', JInt (fam_fitness_observations f)),
         (''strategies'', JObj (map (\<lambda>(k, n). (k, JInt n)) (fam_strategies f))),
         (''latest_summary'', fam_latest_summary f),
         (''confidence'', JFloat (family_confidence f)),
         (''average_fitness_score'', JFloat (average_fitness_score f)),
         (''recommended_strategy'', JStr (recommended_strategy f)),
         (''support_level'', JStr (support_level_for_family f (family_confidence f)))])"

definition support_matrix :: "string \<Rightarrow> (string \<times> family) list \<Rightarrow> jdict" where
  "support_matrix now families =
     [(''generated_at'', JStr now),
      (''families'', JObj (map (\<lambda>(k, f). (k, family_json f)) (sort_key fst families)))]"

definition rebuild_support_matrix :: "string \<Rightarrow> files \<Rightarrow> (jdict \<times> files) res" where
  "rebuild_support_matrix now fs =
     bindr (knowledge_load fs session_outcomes_path (JObj [(''outcomes'', JObj [])])) (\<lambda>doc.
     bindr (as_dict doc) (\<lambda>d.
     bindr (bindr (dindex d ''outcomes'') as_dict) (\<lambda>outcomes.
     bindr (mapr evidence_of (map snd outcomes)) (\<lambda>es.
       let matrix = support_matrix now (tally es)
       in Inr (matrix, atomic_write_json support_matrix_path (JObj matrix) fs)))))"

definition record_session_outcome ::
    "string \<Rightarrow> device_profile \<Rightarrow> session_state \<Rightarrow> jdict \<Rightarrow> string option \<Rightarrow> files \<Rightarrow> (jdict \<times> files) res" where
  "record_session_outcome now profile state assessment session_dir fs =
     bindr (knowledge_load fs session_outcomes_path (JObj [(''outcomes'', JObj [])])) (\<lambda>doc.
     bindr (experiment_evidence fs session_dir) (\<lambda>(fitness_score, experiment_count).
     bindr (as_dict doc) (\<lambda>d.
     bindr (bindr (dindex d ''outcomes'') as_dict) (\<lambda>outcomes.
     let outcome = session_outcome now profile state assessment fitness_score experiment_count;
         d' = dset d ''outcomes'' (JObj (dset outcomes (dp_session_id profile) (JObj outcome)));
         fs' = atomic_write_json session_outcomes_path (JObj d') fs in
     bindr (rebuild_support_matrix now fs') (\<lambda>(matrix, fs'').
     bindr (bindr (dindex matrix ''families'') as_dict) (\<lambda>families.
     bindr (as_dict (dget families (family_key profile) (JObj []))) (\<lambda>family.
       Inr ([(''family_key'', JStr (family_key profile)),
             (''support_level'', dget family ''support_level'' (JStr ''unknown'')),
             (''confidence'', dget family ''confidence'' (JFloat 0)),
             (''observations'', dget family ''observations'' (JInt 0))], fs''))))))))"

definition lookup_family_summary :: "files \<Rightarrow> string option \<Rightarrow> string option \<Rightarrow> jdict option res" where
  "lookup_family_summary fs manufacturer model =
     bindr (knowledge_load fs support_matrix_path (JObj [(''families'', JObj [])])) (\<lambda>matrix.
     bindr (jget matrix ''families'' (JObj [])) (\<lambda>families.
     bindr (jget families (family_key_of manufacturer model) JNull) (\<lambda>family.
       if \<not> truthy family then Inr None
       else bindr (as_dict family) (\<lambda>f.
         Inr (Some (dmerge [(''family_key'', JStr (family_key_of manufacturer model))] f))))))"

definition knowledge_lookup :: "files \<Rightarrow> string option \<Rightarrow> string option \<Rightarrow> jdict res" where
  "knowledge_lookup fs manufacturer model =
     bindr (lookup_family_summary fs manufacturer model) (\<lambda>family.
       Inr [(''family_summary'', jopt JObj family), (''has_prior_knowledge'', JBool (family \<noteq> None))])"

section \<open>What the matrix counts\<close>

lemma count_of_bump: "count_of (bump k m) k' = count_of m k' + (if k' = k then 1 else 0)"
  by (simp add: count_of_def bump_def AList.update_conv)

lemma bump_distinct: "distinct (map fst m) \<Longrightarrow> distinct (map fst (bump k m))"
  by (simp add: bump_def AList.distinct_update)

lemma tally_snoc: "tally (es @ [e]) = tally_one (tally es) e"
  by (simp add: tally_def)

lemma tally_one_lookup:
  "map_of (tally_one families e) k =
     (if k = ev_family_key e
      then Some (observe e (case map_of families (ev_family_key e) of None \<Rightarrow> new_family e | Some f \<Rightarrow> f))
      else map_of families k)"
  by (simp add: tally_one_def Let_def AList.update_conv)

lemma tally_distinct: "distinct (map fst (tally es))"
proof (induction es rule: rev_induct)
  case (snoc e es)
  then show ?case unfolding tally_snoc tally_one_def Let_def by (rule AList.distinct_update)
qed (simp add: tally_def)

text \<open>The abstract view: the outcomes of one family, counted.\<close>

type_synonym counts = "int \<times> (string \<Rightarrow> int) \<times> int \<times> int \<times> rat \<times> int \<times> (string \<Rightarrow> int)"

definition family_counts :: "family \<Rightarrow> counts" where
  "family_counts f =
     (fam_observations f, count_of (fam_statuses f), fam_restore_path_confirmed f, fam_validated_sessions f,
      fam_fitness_total f, fam_fitness_observations f, count_of (fam_strategies f))"

definition how_many :: "('a \<Rightarrow> bool) \<Rightarrow> 'a list \<Rightarrow> int" where
  "how_many P xs = int (length (filter P xs))"

definition fitness_values :: "evidence list \<Rightarrow> rat list" where
  "fitness_values es = List.map_filter ev_fitness es"

definition evidence_counts :: "evidence list \<Rightarrow> counts" where
  "evidence_counts es =
     (int (length es), \<lambda>s. how_many (\<lambda>e. ev_status e = s) es, how_many ev_restore es, how_many ev_validated es,
      sum_list (fitness_values es), int (length (fitness_values es)), \<lambda>s. how_many (\<lambda>e. ev_strategy e = s) es)"

lemma how_many_snoc [simp]: "how_many P (xs @ [x]) = how_many P xs + (if P x then 1 else 0)"
  by (simp add: how_many_def)

lemma fitness_snoc:
  "fitness_values (es @ [e]) = fitness_values es @ (case ev_fitness e of None \<Rightarrow> [] | Some x \<Rightarrow> [x])"
  by (simp add: fitness_values_def map_filter_def split: option.split)

lemma counts_new: "family_counts (new_family e) = evidence_counts []"
  by (auto simp: family_counts_def new_family_def evidence_counts_def count_of_def how_many_def fitness_values_def
      map_filter_def)

lemma counts_observe:
  assumes "family_counts f = evidence_counts es"
  shows "family_counts (observe e f) = evidence_counts (es @ [e])"
  using assms
  by (auto simp: family_counts_def evidence_counts_def observe_def count_of_bump fitness_snoc fun_eq_iff
      split: option.split)

lemma tally_refines:
  "map_option family_counts (map_of (tally es) k) =
     (let fs = filter (\<lambda>e. ev_family_key e = k) es in if fs = [] then None else Some (evidence_counts fs))"
proof (induction es rule: rev_induct)
  case (snoc e es)
  show ?case
  proof (cases "ev_family_key e = k")
    case True
    then have "family_counts (case map_of (tally es) k of None \<Rightarrow> new_family e | Some f \<Rightarrow> f)
        = evidence_counts (filter (\<lambda>e. ev_family_key e = k) es)"
      using snoc by (auto simp: Let_def counts_new split: option.splits if_splits)
    from counts_observe [OF this, of e] show ?thesis
      using True by (simp add: tally_snoc tally_one_lookup Let_def)
  next
    case False
    then show ?thesis using snoc by (simp add: tally_snoc tally_one_lookup)
  qed
qed (simp add: tally_def)

lemma tally_family:
  assumes "map_of (tally es) k = Some f"
  defines "fs \<equiv> filter (\<lambda>e. ev_family_key e = k) es"
  shows "fs \<noteq> []" "fam_observations f = int (length fs)" "fam_restore_path_confirmed f = how_many ev_restore fs"
    "fam_validated_sessions f = how_many ev_validated fs" "fam_fitness_total f = sum_list (fitness_values fs)"
    "fam_fitness_observations f = int (length (fitness_values fs))"
    "count_of (fam_statuses f) s = how_many (\<lambda>e. ev_status e = s) fs"
    "count_of (fam_strategies f) s = how_many (\<lambda>e. ev_strategy e = s) fs"
proof -
  have "fs \<noteq> [] \<and> family_counts f = evidence_counts fs"
    using tally_refines [of es k] assms(1) by (simp add: fs_def Let_def split: if_splits)
  then show "fs \<noteq> []" "fam_observations f = int (length fs)" "fam_restore_path_confirmed f = how_many ev_restore fs"
    "fam_validated_sessions f = how_many ev_validated fs" "fam_fitness_total f = sum_list (fitness_values fs)"
    "fam_fitness_observations f = int (length (fitness_values fs))"
    "count_of (fam_statuses f) s = how_many (\<lambda>e. ev_status e = s) fs"
    "count_of (fam_strategies f) s = how_many (\<lambda>e. ev_strategy e = s) fs"
    by (auto simp: family_counts_def evidence_counts_def fun_eq_iff)
qed

text \<open>
  C29. The support matrix is what its evidence says: for every family key, the entry that the fold
  over all outcomes builds has the counts of exactly the outcomes of that family, and a key
  without outcomes has no entry.
\<close>

theorem matrix_counts_the_outcomes:
  "map_option family_counts (map_of (tally es) k) =
     (let fs = filter (\<lambda>e. ev_family_key e = k) es in if fs = [] then None else Some (evidence_counts fs))"
  by (rule tally_refines)

lemma clamped_round:
  "5 / 100 \<le> py_round (max (5 / 100) (min (98 / 100) c)) 2" "py_round (max (5 / 100) (min (98 / 100) c)) 2 \<le> 98 / 100"
proof -
  let ?c = "max (5 / 100) (min (98 / 100) c)"
  have "of_int 5 \<le> ?c * 10 ^ 2" "?c * 10 ^ 2 \<le> of_int 98" by (auto simp: max_def min_def)
  from py_round_between [OF this]
  show "5 / 100 \<le> py_round ?c 2" "py_round ?c 2 \<le> 98 / 100" by simp_all
qed

lemma family_confidence_bounds: "5 / 100 \<le> family_confidence f" "family_confidence f \<le> 98 / 100"
  unfolding family_confidence_def Let_def by (rule clamped_round)+

text \<open>
  The confidence in a family stays between 0.05 and 0.98 after rounding, and a family whose
  every outcome was blocked is reported as blocked whatever its confidence.
\<close>

theorem confidence_bounded:
  "5 / 100 \<le> family_confidence f \<and> family_confidence f \<le> 98 / 100
   \<and> (support_level_for_family f c = ''blocked'' \<longleftrightarrow>
        1 \<le> fam_observations f \<and> count_of (fam_statuses f) ''blocked'' = fam_observations f)"
  using family_confidence_bounds [of f] by (auto simp: support_level_for_family_def Let_def)

section \<open>One session, one outcome\<close>

lemma as_dict_Inr: "as_dict v = Inr d \<longleftrightarrow> v = JObj d"
  by (cases v) (auto simp: as_dict_def)

lemma load_outcomes:
  "fread fs session_outcomes_path = Some (FJson j) \<Longrightarrow> knowledge_load fs session_outcomes_path dflt = Inr j"
  by (simp add: knowledge_load_def fexists_def load_doc_def)

lemma outcomes_path_neq [simp]:
  "session_outcomes_path \<noteq> support_matrix_path" "support_matrix_path \<noteq> session_outcomes_path"
  "session_outcomes_path \<noteq> tmp_path support_matrix_path" "support_matrix_path \<noteq> tmp_path session_outcomes_path"
  "tmp_path session_outcomes_path \<noteq> support_matrix_path" "tmp_path support_matrix_path \<noteq> session_outcomes_path"
  by (simp_all add: session_outcomes_path_def support_matrix_path_def tmp_path_def)

definition evidence_of_session :: "device_profile \<Rightarrow> session_state \<Rightarrow> jdict \<Rightarrow> rat \<Rightarrow> evidence" where
  "evidence_of_session profile state assessment fitness =
     \<lparr>ev_family_key = family_key profile, ev_manufacturer = jopt JStr (dp_manufacturer profile),
      ev_model = jopt JStr (dp_model profile), ev_summary = dget0 assessment ''summary'',
      ev_status = support_status_value (ss_support_status state),
      ev_restore = truthy (dget0 assessment ''restore_path_feasible''),
      ev_validated = is_validated_serial (str_or (dp_serial profile) []),
      ev_fitness = Some fitness, ev_strategy = str_or (ss_selected_strategy state) ''unselected''\<rparr>"

lemma evidence_of_outcome:
  "evidence_of (JObj (session_outcome now profile state assessment fitness n))
     = Inr (evidence_of_session profile state assessment fitness)"
  by (cases "dp_serial profile"; cases "ss_selected_strategy state")
    (simp_all add: evidence_of_def session_outcome_def evidence_of_session_def as_opt_def dstr_or_def jopt_def
      str_or_def jor_def)

text \<open>
  Recording reads the outcomes, puts the session's outcome under its session id and rebuilds the
  matrix from the result.
\<close>

lemma record_effect:
  assumes "record_session_outcome now profile state assessment session_dir fs = Inr (summary, fs')"
  obtains outcomes outcome es fitness d where
    "knowledge_load fs session_outcomes_path (JObj [(''outcomes'', JObj [])]) = Inr (JObj d)"
    "dindex d ''outcomes'' = Inr (JObj outcomes)"
    "evidence_of (JObj outcome) = Inr (evidence_of_session profile state assessment fitness)"
    "fread fs' session_outcomes_path
       = Some (FJson (JObj (dset d ''outcomes'' (JObj (dset outcomes (dp_session_id profile) (JObj outcome))))))"
    "mapr evidence_of (map snd (dset outcomes (dp_session_id profile) (JObj outcome))) = Inr es"
    "fread fs' support_matrix_path = Some (FJson (JObj (support_matrix now (tally es))))"
    "\<And>p. p \<notin> {session_outcomes_path, tmp_path session_outcomes_path, support_matrix_path, tmp_path support_matrix_path}
       \<Longrightarrow> fread fs' p = fread fs p"
proof -
  obtain doc fitness n d outcomes matrix where
    doc: "knowledge_load fs session_outcomes_path (JObj [(''outcomes'', JObj [])]) = Inr doc"
    and d: "as_dict doc = Inr d" and outs: "bindr (dindex d ''outcomes'') as_dict = Inr outcomes"
    and reb: "rebuild_support_matrix now (atomic_write_json session_outcomes_path
       (JObj (dset d ''outcomes'' (JObj (dset outcomes (dp_session_id profile)
          (JObj (session_outcome now profile state assessment fitness n)))))) fs) = Inr (matrix, fs')"
    using assms by (auto simp: record_session_outcome_def Let_def bindr_eq_Inr)
  let ?o = "session_outcome now profile state assessment fitness n"
  let ?outs = "dset outcomes (dp_session_id profile) (JObj ?o)"
  let ?fs1 = "atomic_write_json session_outcomes_path (JObj (dset d ''outcomes'' (JObj ?outs))) fs"
  have doc': "doc = JObj d" using d by (simp add: as_dict_Inr)
  have outs': "dindex d ''outcomes'' = Inr (JObj outcomes)"
    using outs by (auto simp: as_dict_Inr bindr_eq_Inr)
  have load: "knowledge_load ?fs1 session_outcomes_path dflt = Inr (JObj (dset d ''outcomes'' (JObj ?outs)))" for dflt
    by (rule load_outcomes) (simp add: fread_atomic_write)
  have at: "dindex (dset d ''outcomes'' (JObj ?outs)) ''outcomes'' = Inr (JObj ?outs)"
    by (simp add: dindex_def map_of_dset)
  obtain es where es: "mapr evidence_of (map snd ?outs) = Inr es"
    and fs': "fs' = atomic_write_json support_matrix_path (JObj (support_matrix now (tally es))) ?fs1"
    using reb by (auto simp: rebuild_support_matrix_def load at Let_def bindr_eq_Inr)
  show thesis
    by (rule that [of d outcomes ?o fitness es]) (use doc doc' outs' es in
      \<open>simp_all add: evidence_of_outcome fs' fread_atomic_write\<close>)
qed

end
