(* ===== verification/Promotion.thy ===== *)
theory Promotion
  imports Knowledge
begin

text \<open>
  \<open>app/core/adapter_registry.py\<close>, \<open>app/core/patch_executor.py\<close>, \<open>app/core/promotion.py\<close> and the
  learning steps of \<open>app/core/orchestrator.py\<close> (the end of \<open>run_assessment\<close> and
  \<open>_auto_promote_tested_adapters\<close>): generated adapters wait for review under
  \<open>promotion/adapters\<close>, families with enough evidence become candidates, and only an application
  copies an adapter into \<open>master\<close>. Paths are relative to the root; a key that is an absolute path,
  which \<open>pathlib\<close> would not append, is left out. Directories exist as far as files are in them. The
  dash of the promotion message is written as a hyphen.
\<close>

section \<open>The adapter registry\<close>

definition master_adapters_dir :: string where "master_adapters_dir = ''master/integrations/oem_adapters/''"
definition master_playbooks_dir :: string where "master_playbooks_dir = ''master/playbooks/connection/''"
definition review_base :: string where "review_base = ''promotion/adapters/''"

definition get_review_dir_by_key :: "string \<Rightarrow> string" where
  "get_review_dir_by_key key = review_base @ key"
definition get_master_adapter_path_by_key :: "string \<Rightarrow> string" where
  "get_master_adapter_path_by_key key = master_adapters_dir @ key @ ''.py''"
definition get_master_playbook_path_by_key :: "string \<Rightarrow> string" where
  "get_master_playbook_path_by_key key = master_playbooks_dir @ key @ ''.json''"

definition get_review_dir :: "string option \<Rightarrow> string option \<Rightarrow> string" where
  "get_review_dir manufacturer model = get_review_dir_by_key (adapter_key manufacturer model)"
definition get_master_adapter_path :: "string option \<Rightarrow> string option \<Rightarrow> string" where
  "get_master_adapter_path manufacturer model = get_master_adapter_path_by_key (adapter_key manufacturer model)"
definition get_master_playbook_path :: "string option \<Rightarrow> string option \<Rightarrow> string" where
  "get_master_playbook_path manufacturer model = get_master_playbook_path_by_key (adapter_key manufacturer model)"
definition has_master_adapter :: "files \<Rightarrow> string option \<Rightarrow> string option \<Rightarrow> bool" where
  "has_master_adapter fs manufacturer model = fexists fs (get_master_adapter_path manufacturer model)"
definition has_master_playbook :: "files \<Rightarrow> string option \<Rightarrow> string option \<Rightarrow> bool" where
  "has_master_playbook fs manufacturer model = fexists fs (get_master_playbook_path manufacturer model)"

text \<open>The stems of the files \<open>dir/*.py\<close>.\<close>

definition strip_ends :: "string \<Rightarrow> string \<Rightarrow> string \<Rightarrow> string" where
  "strip_ends pre suf p = take (length p - length pre - length suf) (drop (length pre) p)"

definition glob_stems :: "string \<Rightarrow> string \<Rightarrow> files \<Rightarrow> string list" where
  "glob_stems pre suf fs =
     filter (\<lambda>k. k \<noteq> [] \<and> CHR ''/'' \<notin> set k)
       (map (\<lambda>(p, _). strip_ends pre suf p)
         (filter (\<lambda>(p, _). starts_with p pre \<and> ends_with p suf \<and> length pre + length suf \<le> length p) fs))"

definition list_master_adapters :: "files \<Rightarrow> string list" where
  "list_master_adapters fs = filter (\<lambda>s. s \<noteq> ''__init__'') (glob_stems master_adapters_dir ''.py'' fs)"

definition meta_of :: "string \<Rightarrow> string" where
  "meta_of key = get_review_dir_by_key key @ ''/meta.json''"

text \<open>A copy of a file, which reads and writes its content: \<open>None\<close> when the source is missing.\<close>

definition fcopy :: "string \<Rightarrow> string \<Rightarrow> files \<Rightarrow> files res" where
  "fcopy src dst fs =
     (case fread fs src of None \<Rightarrow> Inl (FileNotFoundError src) | Some c \<Rightarrow> Inr (AList.update dst c fs))"

definition register_session_adapter ::
    "string \<Rightarrow> string option \<Rightarrow> string option \<Rightarrow> json \<Rightarrow> string \<Rightarrow> jdict \<Rightarrow> jdict \<Rightarrow> files \<Rightarrow> (string \<times> files) res" where
  "register_session_adapter session_name manufacturer model codename adapter_path playbook test_result fs =
     (let key = adapter_key manufacturer model;
          review_path = get_review_dir_by_key key;
          dest_adapter = review_path @ ''/'' @ key @ ''.py'';
          dest_playbook = review_path @ ''/'' @ key @ ''.json'';
          meta = [(''key'', JStr key),
                  (''manufacturer'', jopt JStr manufacturer), (''model'', jopt JStr model), (''codename'', codename),
                  (''source_session'', JStr session_name),
                  (''adapter_path'', JStr dest_adapter), (''playbook_path'', JStr dest_playbook),
                  (''test_result'', JObj test_result),
                  (''test_source'', dget test_result ''status'' (JStr [])),
                  (''status'', JStr ''pending_review'')]
      in bindr (fcopy adapter_path dest_adapter fs) (\<lambda>fs1.
           let fs2 = fwrite dest_playbook (JObj playbook) fs1;
               fs3 = fwrite (review_path @ ''/meta.json'') (JObj meta) fs2
           in Inr (review_path, fs3)))"

section \<open>The patch executor\<close>

definition patch_apply :: "string \<Rightarrow> string \<Rightarrow> jdict \<Rightarrow> files \<Rightarrow> jdict \<times> files" where
  "patch_apply now session_dir generated fs =
     (let manifest_path = session_dir @ ''/patches/patch-manifest.json'';
          manifest = [(''generated_at'', JStr now),
                      (''applied_files'', dget generated ''generated_files'' (JList [])),
                      (''summary'', dget0 generated ''summary''),
                      (''status'', JStr ''applied'')]
      in ([(''status'', JStr ''applied''), (''manifest_path'', JStr manifest_path),
           (''summary'', JStr ''Generated runtime artifacts were registered in the session patch manifest.'')],
          fwrite manifest_path (JObj manifest) fs))"

definition register_adapter_candidate ::
    "string \<Rightarrow> string \<Rightarrow> jdict \<Rightarrow> jdict \<Rightarrow> jdict \<Rightarrow> files \<Rightarrow> (jdict \<times> files) res" where
  "register_adapter_candidate session_name adapter_path playbook test_result device_context fs =
     bindr (as_opt as_str (dget0 device_context ''manufacturer'')) (\<lambda>manufacturer.
     bindr (as_opt as_str (dget0 device_context ''model'')) (\<lambda>model.
     let codename = jor (dget0 device_context ''device_codename'') (dget0 device_context ''codename'') in
     bindr (register_session_adapter session_name manufacturer model codename adapter_path playbook test_result fs)
       (\<lambda>(review_path, fs').
         Inr ([(''status'', JStr ''registered''), (''review_path'', JStr review_path),
               (''summary'', JStr (''Adapter for '' @ py_str (jopt JStr manufacturer) @ '' '' @ py_str (jopt JStr model)
                  @ '' registered at '' @ adapter_key manufacturer model
                  @ '' and is pending human review before promotion to master.''))], fs'))))"

section \<open>Candidates\<close>

definition promotion_rules_path :: string where "promotion_rules_path = ''promotion/promotion_rules.json''"
definition candidates_path :: string where "candidates_path = ''promotion/candidates.json''"

definition DEFAULT_RULES :: jdict where
  "DEFAULT_RULES =
     [(''min_observations_for_candidate'', JInt 3), (''min_confidence_for_candidate'', JFloat (75 / 100)),
      (''require_restore_path_ratio'', JFloat (1 / 2)), (''min_avg_fitness_for_candidate'', JFloat (6 / 10)),
      (''require_validation_count'', JInt 3), (''require_non_research_strategy'', JBool True),
      (''auto_apply_master_changes'', JBool False)]"

text \<open>\<open>_load_json\<close> of the engine: a missing file is written with the default.\<close>

definition promotion_load :: "files \<Rightarrow> string \<Rightarrow> jdict \<Rightarrow> (jdict \<times> files) res" where
  "promotion_load fs path dflt =
     (if fexists fs path then bindr (load_doc as_dict fs path) (\<lambda>d. Inr (d, fs))
      else Inr (dflt, atomic_write_json path (JObj dflt) fs))"

definition number_at :: "jdict \<Rightarrow> string \<Rightarrow> rat res" where
  "number_at d k = bindr (dindex d k) as_float"

definition number_or :: "jdict \<Rightarrow> string \<Rightarrow> rat \<Rightarrow> rat res" where
  "number_or d k dflt = as_float (dget d k (JFloat dflt))"

text \<open>\<open>a >= rules[k] and rest\<close>.\<close>

definition at_least :: "rat \<Rightarrow> rat res \<Rightarrow> bool res \<Rightarrow> bool res" where
  "at_least x limit rest = bindr limit (\<lambda>l. if l \<le> x then rest else Inr False)"

definition evaluate_family :: "jdict \<Rightarrow> string \<Rightarrow> jdict \<Rightarrow> jdict option res" where
  "evaluate_family rules key family =
     bindr (number_or family ''observations'' 0) (\<lambda>observations.
     bindr (number_or family ''confidence'' 0) (\<lambda>confidence.
     bindr (number_or family ''restore_path_confirmed'' 0) (\<lambda>restored.
     bindr (number_or family ''average_fitness_score'' 0) (\<lambda>average_fitness.
     bindr (as_int (dget family ''validated_sessions'' (JInt 0))) (\<lambda>validation_count.
     let restore_ratio = restored / max 1 observations;
         recommended = dget family ''recommended_strategy'' (JStr ''research_only'') in
     bindr (at_least observations (number_at rules ''min_observations_for_candidate'')
           (at_least confidence (number_at rules ''min_confidence_for_candidate'')
           (at_least restore_ratio (number_at rules ''require_restore_path_ratio'')
           (at_least average_fitness (number_or rules ''min_avg_fitness_for_candidate'' 0)
           (at_least (of_int validation_count) (number_or rules ''require_validation_count'' 0) (Inr True)))))) (\<lambda>meets.
     bindr (dindex rules ''require_non_research_strategy'') (\<lambda>non_research.
       if \<not> meets \<or> truthy non_research \<and> recommended = JStr ''research_only'' then Inr None
       else Inr (Some
         [(''family_key'', JStr key),
          (''manufacturer'', dget0 family ''manufacturer''), (''model'', dget0 family ''model''),
          (''confidence'', dget family ''confidence'' (JFloat 0)), (''observations'', dget family ''observations'' (JInt 0)),
          (''recommended_strategy'', recommended), (''support_level'', dget0 family ''support_level''),
          (''average_fitness_score'', JFloat average_fitness), (''validated_sessions'', JInt validation_count),
          (''promotion_status'', JStr ''review_required''),
          (''auto_apply_allowed'', JBool (truthy (dget0 rules ''auto_apply_master_changes''))),
          (''proposed_updates'', jstrs [''master/strategies/default_strategies.json'', ''master/manifests/sources.json'',
             ''master/testplans/default_validation_plan.json'']),
          (''reason'', JStr ''Repeated session evidence suggests this device family is stable enough for human-reviewed promotion into the master framework.'')]))))))))"

fun evaluate_families :: "jdict \<Rightarrow> (string \<times> json) list \<Rightarrow> jdict list res" where
  "evaluate_families rules [] = Inr []"
| "evaluate_families rules ((key, v) # rest) =
     bindr (as_dict v) (\<lambda>family.
     bindr (evaluate_family rules key family) (\<lambda>candidate.
     bindr (evaluate_families rules rest) (\<lambda>candidates.
       Inr ((case candidate of None \<Rightarrow> candidates | Some c \<Rightarrow> c # candidates)))))"

definition promotion_evaluate :: "string \<Rightarrow> jdict \<Rightarrow> files \<Rightarrow> (jdict list \<times> files) res" where
  "promotion_evaluate now matrix fs =
     bindr (promotion_load fs promotion_rules_path DEFAULT_RULES) (\<lambda>(rules, fs1).
     bindr (as_dict (dget matrix ''families'' (JObj []))) (\<lambda>families.
     bindr (evaluate_families rules families) (\<lambda>candidates.
       Inr (candidates, atomic_write_json candidates_path
              (JObj [(''generated_at'', JStr now), (''rules'', JObj rules), (''candidates'', JList (map JObj candidates))]) fs1))))"

section \<open>Applying, deprecating, auditing\<close>

definition skipped :: "string \<Rightarrow> string \<Rightarrow> jdict" where
  "skipped reason key = [(''status'', JStr ''skipped''), (''reason'', JStr reason), (''candidate_key'', JStr key)]"

definition apply_to_master :: "string \<Rightarrow> string \<Rightarrow> files \<Rightarrow> (jdict \<times> files) res" where
  "apply_to_master now key fs =
     (let review_dir = get_review_dir_by_key key; meta_path = review_dir @ ''/meta.json'' in
      if \<not> fexists fs meta_path then Inr (skipped (''No promotion candidate found at '' @ review_dir) key, fs)
      else
        bindr (load_doc as_dict fs meta_path) (\<lambda>meta.
        bindr (dindex meta ''adapter_path'') (\<lambda>a. bindr (dindex meta ''playbook_path'') (\<lambda>p.
        let src_adapter = py_str a; src_playbook = py_str p in
        if \<not> fexists fs src_adapter then Inr (skipped (''Adapter source file missing: '' @ src_adapter) key, fs)
        else
          let dest_adapter = get_master_adapter_path_by_key key;
              dest_playbook = get_master_playbook_path_by_key key in
          bindr (fcopy src_adapter dest_adapter fs) (\<lambda>fs1.
          bindr (if fexists fs1 src_playbook then fcopy src_playbook dest_playbook fs1 else Inr fs1) (\<lambda>fs2.
          let meta' = dset (dset (dset (dset meta ''status'' (JStr ''promoted''))
                ''master_adapter_path'' (JStr dest_adapter)) ''master_playbook_path'' (JStr dest_playbook))
                ''promoted_at'' (JStr now) in
          Inr ([(''status'', JStr ''promoted''), (''candidate_key'', JStr key),
                (''master_adapter_path'', JStr dest_adapter), (''master_playbook_path'', JStr dest_playbook),
                (''summary'', JStr (''Adapter `'' @ key @ ''` promoted to master - future sessions for ''
                   @ py_str (dget0 meta' ''manufacturer'') @ '' '' @ py_str (dget0 meta' ''model'')
                   @ '' will load this adapter automatically.''))],
               fwrite meta_path (JObj meta') fs2)))))))"

definition fmove :: "string \<Rightarrow> string \<Rightarrow> files \<Rightarrow> files" where
  "fmove src dst fs = (if fexists fs src then freplace src dst fs else fs)"

definition deprecate_adapter :: "string \<Rightarrow> string \<Rightarrow> string \<Rightarrow> string \<Rightarrow> files \<Rightarrow> files res" where
  "deprecate_adapter now stamp key reason fs =
     (let deprecated_dir = master_adapters_dir @ ''_deprecated/'' @ key @ ''_'' @ stamp;
          fs1 = fmove (get_master_adapter_path_by_key key) (deprecated_dir @ ''/'' @ key @ ''.py'') fs;
          fs2 = fmove (get_master_playbook_path_by_key key) (deprecated_dir @ ''/'' @ key @ ''.json'') fs1;
          fs3 = fwrite (deprecated_dir @ ''/deprecation.json'')
                  (JObj [(''deprecated_at'', JStr now), (''reason'', JStr reason), (''family_key'', JStr key)]) fs2
      in if \<not> fexists fs3 support_matrix_path then Inr fs3
         else bindr (load_doc as_dict fs3 support_matrix_path) (\<lambda>matrix.
              bindr (as_dict (dget matrix ''families'' (JObj []))) (\<lambda>families.
                if dhas families key then
                  bindr (bindr (dindex families key) as_dict) (\<lambda>family.
                    let family' = dset (dset family ''support_level'' (JStr ''deprecated''))
                          ''deprecated_reason'' (JStr reason)
                    in Inr (atomic_write_json support_matrix_path
                         (JObj (dset matrix ''families'' (JObj (dset families key (JObj family'))))) fs3))
                else Inr (atomic_write_json support_matrix_path (JObj matrix) fs3))))"

text \<open>The key under which the audit looks for a confirming session.\<close>

definition audit_part :: "json \<Rightarrow> string" where
  "audit_part v = replace_char (CHR '' '') (CHR ''_'') (lower (strip (py_str (jor v (JStr [])))))"

definition confirmed_family :: "jdict \<Rightarrow> string option" where
  "confirmed_family outcome =
     (if is_validated_serial (dstr_or outcome ''serial'' [])
      then Some (audit_part (dget0 outcome ''manufacturer'') @ ''_'' @ audit_part (dget0 outcome ''model''))
      else None)"

definition audit_meta :: "files \<Rightarrow> string list \<Rightarrow> string \<Rightarrow> string option res" where
  "audit_meta fs confirmed dirname =
     (case fread fs (meta_of dirname) of
        Some (FJson (JObj meta)) \<Rightarrow>
          let key = py_str (jor (dget0 meta ''key'') (JStr dirname)) in
          if dstr meta ''status'' [] \<noteq> ''promoted'' then Inr None
          else bindr (if truthy (dget0 meta ''test_source'') then Inr (dget0 meta ''test_source'')
                      else jget (dget meta ''test_result'' (JObj [])) ''status'' (JStr [])) (\<lambda>source.
               Inr (if py_str source = ''probe_no_device'' \<and> key \<notin> set confirmed then Some key else None))
      | Some (FJson _) \<Rightarrow> Inl (AttributeError ''get'')
      | _ \<Rightarrow> Inr None)"

definition review_keys :: "files \<Rightarrow> string list" where
  "review_keys fs = glob_stems review_base ''/meta.json'' fs"

definition audit_promoted_adapters :: "files \<Rightarrow> (string list \<times> files) res" where
  "audit_promoted_adapters fs =
     bindr (promotion_load fs session_outcomes_path [(''outcomes'', JObj [])]) (\<lambda>(doc, fs1).
     bindr (as_dict (dget doc ''outcomes'' (JObj []))) (\<lambda>outcomes.
     bindr (mapr as_dict (map snd outcomes)) (\<lambda>os.
     let confirmed = List.map_filter confirmed_family os in
     bindr (mapr (audit_meta fs1 confirmed) (sort (review_keys fs1))) (\<lambda>flags.
       Inr (List.map_filter (\<lambda>x. x) flags, fs1)))))"

section \<open>The learning steps of an assessment\<close>

fun apply_candidates :: "string \<Rightarrow> jdict list \<Rightarrow> files \<Rightarrow> files res" where
  "apply_candidates now [] fs = Inr fs"
| "apply_candidates now (c # cs) fs =
     (if truthy (dget0 c ''auto_apply_allowed'') then
        bindr (bindr (dindex c ''family_key'') as_str) (\<lambda>key.
        bindr (apply_to_master now key fs) (\<lambda>(_, fs'). apply_candidates now cs fs'))
      else apply_candidates now cs fs)"

definition auto_promote_one :: "string \<Rightarrow> string \<Rightarrow> files \<Rightarrow> files res" where
  "auto_promote_one now dirname fs =
     (case fread fs (meta_of dirname) of
        Some (FJson v) \<Rightarrow>
          bindr (jget v ''status'' JNull) (\<lambda>status.
          if status = JStr ''promoted'' then Inr fs
          else
            bindr (bindr (jget v ''key'' (JStr dirname)) as_str) (\<lambda>key.
            if fexists fs (get_master_adapter_path_by_key key) then Inr fs
            else
              bindr (jget v ''test_result'' (JObj [])) (\<lambda>test_result.
              bindr (jget test_result ''status'' (JStr [])) (\<lambda>test_status.
              if test_status \<notin> set [JStr ''probe_pass'', JStr ''probe_no_device''] then Inr fs
              else bindr (apply_to_master now key fs) (\<lambda>(_, fs'). Inr fs')))))
      | _ \<Rightarrow> Inr fs)"

fun auto_promote_all :: "string \<Rightarrow> string list \<Rightarrow> files \<Rightarrow> files res" where
  "auto_promote_all now [] fs = Inr fs"
| "auto_promote_all now (k # ks) fs = bindr (auto_promote_one now k fs) (auto_promote_all now ks)"

definition auto_promote_tested_adapters :: "string \<Rightarrow> files \<Rightarrow> files res" where
  "auto_promote_tested_adapters now fs =
     bindr (promotion_load fs promotion_rules_path DEFAULT_RULES) (\<lambda>(rules, fs1).
       if \<not> truthy (dget0 rules ''auto_apply_master_changes'') then Inr fs1
       else auto_promote_all now (review_keys fs1) fs1)"

definition learning_steps ::
    "string \<Rightarrow> device_profile \<Rightarrow> session_state \<Rightarrow> jdict \<Rightarrow> string \<Rightarrow> files \<Rightarrow> files res" where
  "learning_steps now profile state assessment session_dir fs =
     bindr (record_session_outcome now profile state assessment (Some session_dir) fs) (\<lambda>(_, fs1).
     bindr (rebuild_support_matrix now fs1) (\<lambda>(matrix, fs2).
     bindr (promotion_evaluate now matrix fs2) (\<lambda>(candidates, fs3).
     bindr (apply_candidates now candidates fs3) (\<lambda>fs4.
       auto_promote_tested_adapters now fs4))))"

section \<open>Nothing reaches master without an application\<close>

definition in_master :: "string \<Rightarrow> bool" where
  "in_master p \<longleftrightarrow> starts_with p ''master/''"

definition master_unchanged :: "files \<Rightarrow> files \<Rightarrow> bool" where
  "master_unchanged fs fs' \<longleftrightarrow> (\<forall>p. in_master p \<longrightarrow> fread fs' p = fread fs p)"

lemma master_unchanged_refl [simp]: "master_unchanged fs fs"
  by (simp add: master_unchanged_def)

lemma master_unchanged_trans: "master_unchanged a b \<Longrightarrow> master_unchanged b c \<Longrightarrow> master_unchanged a c"
  by (simp add: master_unchanged_def)

lemma master_fwrite: "\<not> in_master p \<Longrightarrow> master_unchanged fs (fwrite p j fs)"
  by (auto simp: master_unchanged_def fread_fwrite)

lemma master_atomic:
  "\<not> in_master p \<Longrightarrow> \<not> in_master (tmp_path p) \<Longrightarrow> master_unchanged fs (atomic_write_json p j fs)"
  by (auto simp: master_unchanged_def fread_atomic_write)

lemma fread_update: "fread (AList.update p c fs) q = (if q = p then Some c else fread fs q)"
  by (simp add: fread_def AList.update_conv)

lemma master_fcopy: "fcopy src dst fs = Inr fs' \<Longrightarrow> \<not> in_master dst \<Longrightarrow> master_unchanged fs fs'"
  by (auto simp: fcopy_def master_unchanged_def fread_update split: option.splits)

lemma fixed_paths [simp]:
  "\<not> in_master promotion_rules_path" "\<not> in_master (tmp_path promotion_rules_path)"
  "\<not> in_master candidates_path" "\<not> in_master (tmp_path candidates_path)"
  "\<not> in_master session_outcomes_path" "\<not> in_master (tmp_path session_outcomes_path)"
  "\<not> in_master support_matrix_path" "\<not> in_master (tmp_path support_matrix_path)"
  by (simp_all add: in_master_def promotion_rules_path_def candidates_path_def session_outcomes_path_def
      support_matrix_path_def tmp_path_def starts_with_def)

lemma review_not_master [simp]: "\<not> in_master (get_review_dir_by_key key @ s)"
  by (simp add: in_master_def get_review_dir_by_key_def review_base_def starts_with_def)

lemma promotion_load_master:
  "promotion_load fs promotion_rules_path d = Inr (rules, fs') \<Longrightarrow> master_unchanged fs fs'"
  by (auto simp: promotion_load_def bindr_eq_Inr master_atomic split: if_splits)

lemma record_master:
  assumes "record_session_outcome now profile state assessment session_dir fs = Inr (summary, fs')"
  shows "master_unchanged fs fs'"
  unfolding master_unchanged_def
proof (intro allI impI)
  fix p assume "in_master p"
  then have "p \<notin> {session_outcomes_path, tmp_path session_outcomes_path, support_matrix_path, tmp_path support_matrix_path}"
    by auto
  then show "fread fs' p = fread fs p"
    by - (rule record_effect [OF assms], blast)
qed

lemma rebuild_master: "rebuild_support_matrix now fs = Inr (matrix, fs') \<Longrightarrow> master_unchanged fs fs'"
  by (auto simp: rebuild_support_matrix_def bindr_eq_Inr Let_def master_atomic)

lemma evaluate_master: "promotion_evaluate now matrix fs = Inr (cs, fs') \<Longrightarrow> master_unchanged fs fs'"
  unfolding promotion_evaluate_def
  by (auto simp: bindr_eq_Inr intro: master_unchanged_trans [OF promotion_load_master master_atomic])

definition auto_apply_off :: "files \<Rightarrow> bool" where
  "auto_apply_off fs \<longleftrightarrow>
     (case fread fs promotion_rules_path of
        Some (FJson (JObj rules)) \<Rightarrow> \<not> truthy (dget0 rules ''auto_apply_master_changes'') | _ \<Rightarrow> True)"

lemma evaluate_family_auto:
  "evaluate_family rules key family = Inr (Some c) \<Longrightarrow>
     dget0 c ''auto_apply_allowed'' = JBool (truthy (dget0 rules ''auto_apply_master_changes''))"
  unfolding evaluate_family_def Let_def by (auto simp: bindr_eq_Inr split: if_splits)

lemma evaluate_families_auto:
  "evaluate_families rules families = Inr cs \<Longrightarrow> c \<in> set cs \<Longrightarrow>
     dget0 c ''auto_apply_allowed'' = JBool (truthy (dget0 rules ''auto_apply_master_changes''))"
  by (induction rules families arbitrary: cs rule: evaluate_families.induct)
    (auto simp: bindr_eq_Inr dest: evaluate_family_auto split: option.splits)

lemma apply_candidates_none:
  "\<forall>c \<in> set cs. \<not> truthy (dget0 c ''auto_apply_allowed'') \<Longrightarrow> apply_candidates now cs fs = Inr fs"
  by (induction cs) simp_all

lemma promotion_load_off:
  assumes "promotion_load fs promotion_rules_path DEFAULT_RULES = Inr (rules, fs')" "auto_apply_off fs"
  shows "\<not> truthy (dget0 rules ''auto_apply_master_changes'')" "auto_apply_off fs'"
    "fread fs' promotion_rules_path = Some (FJson (JObj rules))"
proof -
  have "\<not> truthy (dget0 rules ''auto_apply_master_changes'') \<and> fread fs' promotion_rules_path = Some (FJson (JObj rules))"
    using assms
    by (auto simp: promotion_load_def auto_apply_off_def fexists_def load_doc_def bindr_eq_Inr DEFAULT_RULES_def
        fread_atomic_write as_dict_Inr split: if_splits option.splits doc.splits)
  then show "\<not> truthy (dget0 rules ''auto_apply_master_changes'')" "auto_apply_off fs'"
    "fread fs' promotion_rules_path = Some (FJson (JObj rules))" by (auto simp: auto_apply_off_def)
qed

lemma rules_path_kept:
  "record_session_outcome now profile state assessment sd fs = Inr (s, fs1) \<Longrightarrow>
     fread fs1 promotion_rules_path = fread fs promotion_rules_path"
  "rebuild_support_matrix now fs = Inr (m, fs2) \<Longrightarrow> fread fs2 promotion_rules_path = fread fs promotion_rules_path"
proof -
  have neq: "promotion_rules_path \<notin> {session_outcomes_path, tmp_path session_outcomes_path, support_matrix_path,
      tmp_path support_matrix_path}"
    by (simp add: promotion_rules_path_def session_outcomes_path_def support_matrix_path_def tmp_path_def)
  then show "record_session_outcome now profile state assessment sd fs = Inr (s, fs1) \<Longrightarrow>
      fread fs1 promotion_rules_path = fread fs promotion_rules_path"
    by - (erule record_effect, blast)
  show "rebuild_support_matrix now fs = Inr (m, fs2) \<Longrightarrow> fread fs2 promotion_rules_path = fread fs promotion_rules_path"
    using neq by (auto simp: rebuild_support_matrix_def bindr_eq_Inr Let_def fread_atomic_write)
qed

text \<open>
  C30. As long as the rules do not allow automatic changes, which is their default, everything the
  program learns from a session leaves \<open>master\<close> as it was: recording the outcome, rebuilding the
  matrix, evaluating candidates and looking through the reviewed adapters.
\<close>

theorem learning_leaves_master_alone:
  assumes "learning_steps now profile state assessment session_dir fs = Inr fs'" and "auto_apply_off fs"
  shows "master_unchanged fs fs'"
proof -
  obtain s fs1 m fs2 cs fs3 fs4 where
    steps: "record_session_outcome now profile state assessment (Some session_dir) fs = Inr (s, fs1)"
      "rebuild_support_matrix now fs1 = Inr (m, fs2)" "promotion_evaluate now m fs2 = Inr (cs, fs3)"
    and apply_steps: "apply_candidates now cs fs3 = Inr fs4" "auto_promote_tested_adapters now fs4 = Inr fs'"
    using assms(1) by (auto simp: learning_steps_def)
  have off2: "auto_apply_off fs2"
    using assms(2) rules_path_kept steps(1,2) by (simp add: auto_apply_off_def)
  obtain rules families fsr where load: "promotion_load fs2 promotion_rules_path DEFAULT_RULES = Inr (rules, fsr)"
    and cs: "evaluate_families rules families = Inr cs"
    and fs3: "fs3 = atomic_write_json candidates_path (JObj [(''generated_at'', JStr now), (''rules'', JObj rules),
        (''candidates'', JList (map JObj cs))]) fsr"
    using steps(3) by (auto simp: promotion_evaluate_def bindr_eq_Inr)
  note off = promotion_load_off [OF load off2]
  have "fread fs3 promotion_rules_path = fread fsr promotion_rules_path"
    by (simp add: fs3 fread_atomic_write promotion_rules_path_def candidates_path_def tmp_path_def)
  then have rules3: "fread fs3 promotion_rules_path = Some (FJson (JObj rules))" using off(3) by simp
  have "\<forall>c \<in> set cs. \<not> truthy (dget0 c ''auto_apply_allowed'')"
    using evaluate_families_auto [OF cs] off(1) by auto
  then have fs4: "fs4 = fs3" using apply_steps(1) apply_candidates_none by simp
  have "promotion_load fs3 promotion_rules_path DEFAULT_RULES = Inr (rules, fs3)"
    using rules3 by (simp add: promotion_load_def fexists_def load_doc_def)
  then have "fs' = fs3" using apply_steps(2) off(1) by (simp add: fs4 auto_promote_tested_adapters_def)
  then show ?thesis
    using master_unchanged_trans [OF record_master [OF steps(1)]
        master_unchanged_trans [OF rebuild_master [OF steps(2)] evaluate_master [OF steps(3)]]] by simp
qed

section \<open>From registration to master\<close>

lemma adapter_key_chars: "CHR '':'' \<notin> set (adapter_key m d)" "CHR ''_'' \<in> set (adapter_key m d)"
proof -
  have "CHR '':'' \<notin> set (adapter_slug v)" for v
    using adapter_slug_chars [of v] by (auto simp: slug_chars_def is_lower_alnum_def code_point_def Let_def)
  then show "CHR '':'' \<notin> set (adapter_key m d)" by (simp add: adapter_key_def)
  show "CHR ''_'' \<in> set (adapter_key m d)" by (simp add: adapter_key_def)
qed

lemma family_key_colon: "CHR '':'' \<in> set (family_key_of m d)"
  by (simp add: family_key_of_def)

lemmas registry_paths = get_review_dir_by_key_def get_master_adapter_path_by_key_def get_master_playbook_path_by_key_def
  review_base_def master_adapters_dir_def master_playbooks_dir_def meta_of_def

lemma register_effect:
  assumes "register_session_adapter s m d codename src playbook tr fs = Inr (review, fs1)"
  defines "key \<equiv> adapter_key m d"
  defines "adapter \<equiv> get_review_dir_by_key key @ ''/'' @ key @ ''.py''"
    and "book \<equiv> get_review_dir_by_key key @ ''/'' @ key @ ''.json''"
  obtains c meta where "fread fs src = Some c" "fread fs1 adapter = Some c" "fread fs1 book = Some (FJson (JObj playbook))"
    "fread fs1 (meta_of key) = Some (FJson (JObj meta))"
    "dindex meta ''adapter_path'' = Inr (JStr adapter)" "dindex meta ''playbook_path'' = Inr (JStr book)"
    "dget0 meta ''status'' = JStr ''pending_review''"
    "\<And>p. p \<notin> {adapter, book, meta_of key} \<Longrightarrow> fread fs1 p = fread fs p"
proof -
  have "key \<noteq> ''meta''" using adapter_key_chars(2) [of m d] by (auto simp: key_def)
  then have neq: "adapter \<noteq> book" "adapter \<noteq> meta_of key" "book \<noteq> meta_of key"
    by (auto simp: adapter_def book_def meta_of_def)
  obtain c where c: "fread fs src = Some c"
    using assms(1) by (auto simp: register_session_adapter_def Let_def fcopy_def split: option.splits)
  let ?meta = "[(''key'', JStr key), (''manufacturer'', jopt JStr m), (''model'', jopt JStr d), (''codename'', codename),
      (''source_session'', JStr s), (''adapter_path'', JStr adapter), (''playbook_path'', JStr book),
      (''test_result'', JObj tr), (''test_source'', dget tr ''status'' (JStr [])), (''status'', JStr ''pending_review'')]"
  have fs1: "fs1 = fwrite (meta_of key) (JObj ?meta) (fwrite book (JObj playbook) (AList.update adapter c fs))"
    using assms(1) c
    by (auto simp: register_session_adapter_def Let_def fcopy_def meta_of_def adapter_def book_def key_def)
  have r: "fread fs1 p = (if p = meta_of key then Some (FJson (JObj ?meta)) else if p = book then Some (FJson (JObj playbook))
      else if p = adapter then Some c else fread fs p)" for p
    by (simp add: fs1 fread_fwrite fread_update)
  show thesis
  proof (rule that [of c ?meta])
    show "fread fs1 adapter = Some c" "fread fs1 book = Some (FJson (JObj playbook))"
      "fread fs1 (meta_of key) = Some (FJson (JObj ?meta))"
      "\<And>p. p \<notin> {adapter, book, meta_of key} \<Longrightarrow> fread fs1 p = fread fs p"
      unfolding r using neq by simp_all
  qed (use c in simp_all)
qed

lemma master_paths_neq:
  "get_master_adapter_path_by_key k \<noteq> get_review_dir_by_key k' @ t" "get_master_playbook_path_by_key k \<noteq> get_review_dir_by_key k' @ t"
  "get_master_adapter_path_by_key k \<noteq> get_master_playbook_path_by_key k'"
  by (simp_all add: registry_paths)

text \<open>
  An adapter that was registered can be applied: under the key of the registry the application
  succeeds and copies the registered adapter, which is the session's, and its playbook into
  \<open>master\<close>, where the registry then finds them.
\<close>

theorem registered_adapter_reaches_master:
  assumes "register_session_adapter s m d codename src playbook tr fs = Inr (review, fs1)"
  shows "\<exists>res fs2. apply_to_master now (adapter_key m d) fs1 = Inr (res, fs2)
    \<and> dget0 res ''status'' = JStr ''promoted''
    \<and> fread fs2 (get_master_adapter_path m d) = fread fs src
    \<and> fread fs2 (get_master_playbook_path m d) = Some (FJson (JObj playbook))
    \<and> has_master_adapter fs2 m d \<and> has_master_playbook fs2 m d"
proof -
  define key where "key = adapter_key m d"
  define a b where "a = get_review_dir_by_key key @ ''/'' @ key @ ''.py''" and "b = get_review_dir_by_key key @ ''/'' @ key @ ''.json''"
  obtain c meta where r: "fread fs src = Some c" "fread fs1 a = Some c" "fread fs1 b = Some (FJson (JObj playbook))"
      "fread fs1 (meta_of key) = Some (FJson (JObj meta))" "dindex meta ''adapter_path'' = Inr (JStr a)"
      "dindex meta ''playbook_path'' = Inr (JStr b)"
    unfolding a_def b_def key_def by (rule register_effect [OF assms]) blast
  define ma mb where "ma = get_master_adapter_path_by_key key" and "mb = get_master_playbook_path_by_key key"
  define fs2 where "fs2 = AList.update mb (FJson (JObj playbook)) (AList.update ma c fs1)"
  have neq: "b \<noteq> ma" "ma \<noteq> mb" "meta_of key \<noteq> ma" "meta_of key \<noteq> mb"
    by (simp_all add: registry_paths b_def ma_def mb_def)
  have b1: "fread (AList.update ma c fs1) b = Some (FJson (JObj playbook))"
    using neq(1) r(3) by (simp add: fread_update)
  have "\<exists>res meta'. apply_to_master now key fs1 = Inr (res, fwrite (meta_of key) (JObj meta') fs2)
      \<and> dget0 res ''status'' = JStr ''promoted''"
    unfolding apply_to_master_def Let_def meta_of_def [symmetric] ma_def [symmetric] mb_def [symmetric]
    using r b1 by (simp add: fexists_def load_doc_def fcopy_def fs2_def) blast
  then obtain res meta' where res: "apply_to_master now key fs1 = Inr (res, fwrite (meta_of key) (JObj meta') fs2)"
      "dget0 res ''status'' = JStr ''promoted''" by blast
  have "fread (fwrite (meta_of key) (JObj meta') fs2) ma = Some c"
      "fread (fwrite (meta_of key) (JObj meta') fs2) mb = Some (FJson (JObj playbook))"
    using neq by (auto simp: fread_fwrite fs2_def fread_update)
  then show ?thesis
    using res r(1) unfolding key_def ma_def mb_def get_master_adapter_path_def get_master_playbook_path_def
      has_master_adapter_def has_master_playbook_def fexists_def by auto
qed

text \<open>
  The automatic application of a candidate never finds the adapter of its family: a candidate
  carries the key of the matrix, which has a colon, and the review area is keyed by the registry,
  so the application is skipped however many adapters of the family were registered.
\<close>

theorem family_candidate_is_skipped:
  assumes "register_session_adapter s m d codename src playbook tr fs = Inr (review, fs1)"
    and "\<not> fexists fs (meta_of (family_key_of m d))"
  shows "apply_to_master now (family_key_of m d) fs1 = Inr (skipped
    (''No promotion candidate found at '' @ get_review_dir_by_key (family_key_of m d)) (family_key_of m d), fs1)"
proof -
  let ?key = "adapter_key m d" and ?p = "meta_of (family_key_of m d)"
  have colon: "CHR '':'' \<in> set ?p" using family_key_colon [of m d] by (simp add: registry_paths)
  have "CHR '':'' \<notin> set (get_review_dir_by_key ?key @ ''/'' @ ?key @ ''.py'')"
      "CHR '':'' \<notin> set (get_review_dir_by_key ?key @ ''/'' @ ?key @ ''.json'')" "CHR '':'' \<notin> set (meta_of ?key)"
    using adapter_key_chars(1) [of m d] by (simp_all add: registry_paths)
  then have "?p \<notin> {get_review_dir_by_key ?key @ ''/'' @ ?key @ ''.py'', get_review_dir_by_key ?key @ ''/'' @ ?key @ ''.json'',
      meta_of ?key}"
    using colon unfolding insert_iff empty_iff by metis
  then have "fread fs1 ?p = fread fs ?p" by - (rule register_effect [OF assms(1)], blast)
  then have "\<not> fexists fs1 ?p" using assms(2) by (simp add: fexists_def)
  then show ?thesis by (simp add: apply_to_master_def Let_def meta_of_def)
qed

section \<open>What a candidate rests on\<close>

definition known_statuses :: "string list" where
  "known_statuses = [''actionable'', ''research_only'', ''blocked'', ''experimental'']"

definition known_evidence :: "evidence list \<Rightarrow> bool" where
  "known_evidence es \<longleftrightarrow> list_all (\<lambda>e. ev_status e \<in> set known_statuses) es"

lemma bump_keys: "k \<in> fst ` set m \<Longrightarrow> map fst (bump k m) = map fst m"
  by (simp add: bump_def AList.update_keys)

lemma tally_statuses:
  "known_evidence es \<Longrightarrow> map_of (tally es) k = Some f \<Longrightarrow> map fst (fam_statuses f) = known_statuses"
proof (induction es arbitrary: k f rule: rev_induct)
  case (snoc e es)
  let ?g = "case map_of (tally es) (ev_family_key e) of None \<Rightarrow> new_family e | Some f \<Rightarrow> f"
  have known: "known_evidence es" "ev_status e \<in> set known_statuses"
    using snoc.prems(1) by (simp_all add: known_evidence_def)
  have g: "map fst (fam_statuses ?g) = known_statuses"
    by (cases "map_of (tally es) (ev_family_key e)")
      (simp_all add: new_family_def known_statuses_def snoc.IH [OF known(1), unfolded known_statuses_def])
  have "ev_status e \<in> fst ` set (fam_statuses ?g)"
    using known(2) arg_cong [OF g, of set] by simp
  from bump_keys [OF this] have "map fst (fam_statuses (observe e ?g)) = known_statuses"
    using g by (simp add: observe_def)
  then show ?case
    using snoc.prems(2) snoc.IH [OF known(1)] by (auto simp: tally_snoc tally_one_lookup split: if_splits)
qed (simp add: tally_def)

lemma family_fields:
  assumes "map fst (fam_statuses f) = known_statuses"
  obtains d where "family_json f = JObj d"
    "dget d ''observations'' x = JInt (fam_observations f)"
    "dget d ''confidence'' x = JFloat (family_confidence f)"
    "dget d ''restore_path_confirmed'' x = JInt (fam_restore_path_confirmed f)"
    "dget d ''average_fitness_score'' x = JFloat (average_fitness_score f)"
    "dget d ''validated_sessions'' x = JInt (fam_validated_sessions f)"
    "dget d ''recommended_strategy'' x = JStr (recommended_strategy f)"
proof -
  from assms obtain n1 n2 n3 n4 where ns: "fam_statuses f = [(''actionable'', n1), (''research_only'', n2), (''blocked'', n3),
      (''experimental'', n4)]"
    by (auto simp: known_statuses_def map_eq_Cons_conv)
  show thesis
    by (rule that, unfold family_json_def, rule refl) (simp_all add: ns)
qed

lemma at_least_True: "at_least x limit rest = Inr True \<longleftrightarrow> (\<exists>l. limit = Inr l \<and> l \<le> x \<and> rest = Inr True)"
  by (auto simp: at_least_def bindr_eq_Inr split: if_splits)

lemma evaluate_family_default:
  assumes "evaluate_family DEFAULT_RULES key d = Inr (Some c)"
    and "\<And>x. dget d ''observations'' x = JInt n" "\<And>x. dget d ''confidence'' x = JFloat conf"
      "\<And>x. dget d ''restore_path_confirmed'' x = JInt r" "\<And>x. dget d ''average_fitness_score'' x = JFloat a"
      "\<And>x. dget d ''validated_sessions'' x = JInt v" "\<And>x. dget d ''recommended_strategy'' x = JStr s"
  shows "3 \<le> n" "75 / 100 \<le> conf" "n \<le> 2 * r" "6 / 10 \<le> a" "3 \<le> v" "s \<noteq> ''research_only''"
    "dget0 c ''family_key'' = JStr key" "dget0 c ''promotion_status'' = JStr ''review_required''"
    "dget0 c ''auto_apply_allowed'' = JBool False"
proof -
  have rules: "number_at DEFAULT_RULES ''min_observations_for_candidate'' = Inr 3"
      "number_at DEFAULT_RULES ''min_confidence_for_candidate'' = Inr (75 / 100)"
      "number_at DEFAULT_RULES ''require_restore_path_ratio'' = Inr (1 / 2)"
      "number_or DEFAULT_RULES ''min_avg_fitness_for_candidate'' 0 = Inr (6 / 10)"
      "number_or DEFAULT_RULES ''require_validation_count'' 0 = Inr 3"
      "dindex DEFAULT_RULES ''require_non_research_strategy'' = Inr (JBool True)"
    by (simp_all add: number_at_def number_or_def DEFAULT_RULES_def)
  have nums: "number_or d ''observations'' 0 = Inr (of_int n)" "number_or d ''confidence'' 0 = Inr conf"
      "number_or d ''restore_path_confirmed'' 0 = Inr (of_int r)" "number_or d ''average_fitness_score'' 0 = Inr a"
    using assms(2-5) by (simp_all add: number_or_def)
  define q where "q = of_int r / max 1 (of_int n :: rat)"
  have *: "3 \<le> (of_int n :: rat) \<and> 75 / 100 \<le> conf \<and> 1 / 2 \<le> q \<and> 6 / 10 \<le> a \<and> 3 \<le> (of_int v :: rat)
      \<and> s \<noteq> ''research_only'' \<and> dget0 c ''family_key'' = JStr key
      \<and> dget0 c ''promotion_status'' = JStr ''review_required'' \<and> dget0 c ''auto_apply_allowed'' = JBool False"
    using assms(1) unfolding evaluate_family_def nums assms(6,7) Let_def bindr_Inr as_simps rules q_def [symmetric]
    by (auto simp: bindr_eq_Inr at_least_True DEFAULT_RULES_def split: if_splits)
  then have n: "3 \<le> (of_int n :: rat)" by simp
  then show "3 \<le> n" by simp
  have "max 1 (of_int n :: rat) = of_int n" using n by (simp add: max_def)
  then have "(of_int n :: rat) \<le> 2 * of_int r" using * n by (simp add: q_def field_simps)
  then show "n \<le> 2 * r" by linarith
  have "3 \<le> (of_int v :: rat)" using * by simp
  then show "3 \<le> v" by linarith
  show "75 / 100 \<le> conf" "6 / 10 \<le> a" "s \<noteq> ''research_only''"
    "dget0 c ''family_key'' = JStr key" "dget0 c ''promotion_status'' = JStr ''review_required''"
    "dget0 c ''auto_apply_allowed'' = JBool False" using * by simp_all
qed

lemma evaluate_families_origin:
  "evaluate_families rules families = Inr cs \<Longrightarrow> c \<in> set cs \<Longrightarrow>
     \<exists>key d. (key, JObj d) \<in> set families \<and> evaluate_family rules key d = Inr (Some c)"
proof (induction rules families arbitrary: cs rule: evaluate_families.induct)
  case (2 rules key v rest)
  then obtain d cand cs' where d: "v = JObj d" "evaluate_family rules key d = Inr cand" "evaluate_families rules rest = Inr cs'"
      "cs = (case cand of None \<Rightarrow> cs' | Some c \<Rightarrow> c # cs')"
    by (auto simp: bindr_eq_Inr as_dict_Inr)
  show ?case
  proof (cases "c \<in> set cs'")
    case True
    then have "\<exists>key d. (key, JObj d) \<in> set rest \<and> evaluate_family rules key d = Inr (Some c)"
      using 2 d by fastforce
    then show ?thesis by auto
  next
    case False
    then have "cand = Some c" using "2.prems"(2) d(4) by (auto split: option.splits)
    then show ?thesis using d by auto
  qed
qed simp


section \<open>Deprecating and auditing\<close>

lemma support_path_not_master: "support_matrix_path \<noteq> master_adapters_dir @ p" "support_matrix_path \<noteq> master_playbooks_dir @ p"
  by (simp_all add: support_matrix_path_def master_adapters_dir_def master_playbooks_dir_def)

lemma fread_fmove: "q \<noteq> src \<Longrightarrow> q \<noteq> dst \<Longrightarrow> fread (fmove src dst fs) q = fread fs q"
  by (auto simp: fmove_def freplace_def fread_update fread_fdelete split: option.split)

lemma tally_keys: "fst ` set (tally es) = ev_family_key ` set es"
proof (induction es rule: rev_induct)
  case (snoc e es)
  then show ?case by (auto simp: tally_snoc tally_one_def Let_def AList.dom_update)
qed (simp add: tally_def)

text \<open>
  Deprecating an adapter never marks its family in the support matrix: the registry key of an
  adapter has no colon and every family key has one, so the matrix keeps the family's level.
\<close>

theorem deprecation_misses_the_matrix:
  assumes "deprecate_adapter now stamp (adapter_key m d) reason fs = Inr fs'"
    and "fread fs support_matrix_path = Some (FJson (JObj (support_matrix now' (tally es))))"
    and "list_all (\<lambda>e. \<exists>a b. ev_family_key e = family_key_of a b) es"
  shows "fread fs' support_matrix_path = fread fs support_matrix_path"
proof -
  let ?key = "adapter_key m d"
  let ?dir = "master_adapters_dir @ ''_deprecated/'' @ ?key @ ''_'' @ stamp"
  define fs3 where "fs3 = fwrite (?dir @ ''/deprecation.json'')
      (JObj [(''deprecated_at'', JStr now), (''reason'', JStr reason), (''family_key'', JStr ?key)])
      (fmove (get_master_playbook_path_by_key ?key) (?dir @ ''/'' @ ?key @ ''.json'')
        (fmove (get_master_adapter_path_by_key ?key) (?dir @ ''/'' @ ?key @ ''.py'') fs))"
  have same: "fread fs3 support_matrix_path = fread fs support_matrix_path"
    unfolding fs3_def get_master_adapter_path_by_key_def get_master_playbook_path_by_key_def
    by (simp add: fread_fwrite fread_fmove support_path_not_master)
  let ?fams = "map (\<lambda>(k, f). (k, family_json f)) (sort_key fst (tally es))"
  have "fst ` set ?fams = ev_family_key ` set es"
    by (simp add: image_image case_prod_beta flip: tally_keys)
  moreover have "CHR '':'' \<in> set k" if "k \<in> ev_family_key ` set es" for k
    using that assms(3) family_key_colon by (fastforce simp: list_all_iff)
  ultimately have "?key \<notin> fst ` set ?fams" using adapter_key_chars(1) by blast
  then have none: "\<not> dhas ?fams ?key" by (simp add: dhas_def map_of_eq_None_iff)
  have "fs' = atomic_write_json support_matrix_path (JObj (support_matrix now' (tally es))) fs3"
  proof -
    have load: "load_doc as_dict fs3 support_matrix_path = Inr (support_matrix now' (tally es))"
        "fexists fs3 support_matrix_path"
      using same assms(2) by (simp_all add: load_doc_def fexists_def)
    have fams: "dget (support_matrix now' (tally es)) ''families'' x = JObj ?fams" for x
      by (simp add: support_matrix_def)
    show ?thesis
      using assms(1) none
      unfolding deprecate_adapter_def Let_def fs3_def [symmetric] by (simp add: load fams)
  qed
  then show ?thesis using assms(2) by (simp add: fread_atomic_write)
qed

text \<open>A Samsung tablet whose adapter was promoted without a device and confirmed afterwards.\<close>

definition confirmed_tablet :: files where
  "confirmed_tablet =
     [(session_outcomes_path, FJson (JObj [(''outcomes'', JObj [(''s1'', JObj
         [(''manufacturer'', JStr ''samsung''), (''model'', JStr ''SM-T500''), (''serial'', JStr ''R52'')])])])),
      (meta_of (adapter_key (Some ''samsung'') (Some ''SM-T500'')), FJson (JObj
         [(''key'', JStr (adapter_key (Some ''samsung'') (Some ''SM-T500''))), (''status'', JStr ''promoted''),
          (''test_source'', JStr ''probe_no_device'')]))]"

text \<open>
  The audit flags a promoted adapter although a session with a real serial confirmed it: the
  audit spells the family with the hyphen of its model name, the registry with an underscore.
\<close>

theorem audit_flags_confirmed_adapter:
  "audit_promoted_adapters confirmed_tablet = Inr ([adapter_key (Some ''samsung'') (Some ''SM-T500'')], confirmed_tablet)"
  by code_simp

section \<open>Witnesses\<close>

definition demo_evidence :: "evidence list" where
  "demo_evidence = replicate 3 \<lparr>ev_family_key = ''google:pixel'', ev_manufacturer = JStr ''google'', ev_model = JStr ''pixel'',
     ev_summary = JNull, ev_status = ''actionable'', ev_restore = True, ev_validated = True, ev_fitness = Some 1,
     ev_strategy = ''hardened''\<rparr>"

definition demo_family :: family where
  "demo_family =
     \<lparr>fam_manufacturer = JStr ''google'', fam_model = JStr ''pixel'', fam_observations = 3,
      fam_statuses = [(''actionable'', 3), (''research_only'', 0), (''blocked'', 0), (''experimental'', 0)],
      fam_restore_path_confirmed = 3, fam_validated_sessions = 3, fam_fitness_total = 3,
      fam_fitness_observations = 3, fam_strategies = [(''hardened'', 3)], fam_latest_summary = JNull\<rparr>"

lemma demo_tally: "tally demo_evidence = [(''google:pixel'', demo_family)]" "known_evidence demo_evidence"
  by (simp_all add: demo_evidence_def numeral_3_eq_3 tally_def tally_one_def Let_def new_family_def observe_def bump_def
      count_of_def demo_family_def known_evidence_def known_statuses_def)

lemma demo_scores: "family_confidence demo_family = 98 / 100" "average_fitness_score demo_family = 1"
    "recommended_strategy demo_family = ''hardened''"
  by (simp_all add: demo_family_def family_confidence_def family_rate_def count_of_def Let_def py_round_def round_even_def
      average_fitness_score_def recommended_strategy_def min_def max_def)

lemma demo_candidates:
  "\<exists>cs fs' c. promotion_evaluate ''t'' (support_matrix ''t'' (tally demo_evidence)) [] = Inr (cs, fs') \<and> c \<in> set cs"
proof -
  define level where "level = support_level_for_family demo_family (98 / 100)"
  have "family_json demo_family = JObj
     [(''manufacturer'', JStr ''google''), (''model'', JStr ''pixel''), (''observations'', JInt 3), (''actionable'', JInt 3),
      (''research_only'', JInt 0), (''blocked'', JInt 0), (''experimental'', JInt 0), (''restore_path_confirmed'', JInt 3),
      (''validated_sessions'', JInt 3), (''fitness_total'', JFloat 3), (''fitness_observations'', JInt 3),
      (''strategies'', JObj [(''hardened'', JInt 3)]), (''latest_summary'', JNull), (''confidence'', JFloat (98 / 100)),
      (''average_fitness_score'', JFloat 1), (''recommended_strategy'', JStr ''hardened''), (''support_level'', JStr level)]"
    unfolding family_json_def demo_scores level_def [symmetric] by (simp add: demo_family_def)
  then show ?thesis
    by (simp add: promotion_evaluate_def promotion_load_def fexists_def fread_def support_matrix_def demo_tally
        evaluate_family_def number_or_def number_at_def at_least_def DEFAULT_RULES_def)
qed


text \<open>A first session on a directory with a file in \<open>master\<close>.\<close>

definition demo_root :: files where
  "demo_root = [(''master/x.py'', FText ''code'')]"

definition demo_profile :: device_profile where
  "demo_profile = bare_profile ''s'' ''f'' T_USB_ADB"

definition demo_state :: session_state where
  "demo_state = default_session_state ''s'' ''t''"

lemma tally_single: "tally [e] = [(ev_family_key e, observe e (new_family e))]"
  by (simp add: tally_def tally_one_def)

lemma knowledge_paths_neq:
  "session_outcomes_path \<noteq> ''master/x.py''" "support_matrix_path \<noteq> ''master/x.py''"
  "promotion_rules_path \<noteq> ''master/x.py''" "''devices/s/reports/autonomous-experiments.json'' \<noteq> ''master/x.py''"
  "promotion_rules_path \<noteq> session_outcomes_path" "promotion_rules_path \<noteq> support_matrix_path"
  "promotion_rules_path \<noteq> tmp_path session_outcomes_path" "promotion_rules_path \<noteq> tmp_path support_matrix_path"
  "promotion_rules_path \<noteq> candidates_path" "promotion_rules_path \<noteq> tmp_path candidates_path"
  by (simp_all add: session_outcomes_path_def support_matrix_path_def promotion_rules_path_def tmp_path_def candidates_path_def)

lemma demo_learning: "\<exists>fs'. learning_steps ''t'' demo_profile demo_state [] ''devices/s'' demo_root = Inr fs'"
proof -
  define e where "e = evidence_of_session demo_profile demo_state [] 0"
  define o1 where "o1 = session_outcome ''t'' demo_profile demo_state [] 0 0"
  define M where "M = support_matrix ''t'' (tally [e])"
  define fs1 where "fs1 = atomic_write_json session_outcomes_path (JObj [(''outcomes'', JObj [(''s'', JObj o1)])]) demo_root"
  define fs2 where "fs2 = atomic_write_json support_matrix_path (JObj M) fs1"
  have root: "fread demo_root p = (if p = ''master/x.py'' then Some (FText ''code'') else None)" for p
    by (simp add: demo_root_def fread_def)
  have ev: "evidence_of (JObj o1) = Inr e" by (simp add: o1_def e_def evidence_of_outcome)
  obtain d where d: "family_json (observe e (new_family e)) = JObj d"
      "dget d ''observations'' x = JInt 1" for x
    by (simp add: family_json_def observe_def new_family_def)
  have fams: "dindex M ''families'' = Inr (JObj [(ev_family_key e, JObj d)])" "dget M ''families'' x = JObj [(ev_family_key e, JObj d)]" for x
    by (simp_all add: M_def support_matrix_def tally_single d)
  have sid: "dp_session_id demo_profile = ''s''" by (simp add: demo_profile_def bare_profile_def)
  have reads: "fread fs1 session_outcomes_path = Some (FJson (JObj [(''outcomes'', JObj [(''s'', JObj o1)])]))"
      "fread fs2 session_outcomes_path = Some (FJson (JObj [(''outcomes'', JObj [(''s'', JObj o1)])]))"
      "fread fs2 promotion_rules_path = None"
    by (simp_all add: fs1_def fs2_def fread_atomic_write root knowledge_paths_neq)
  have rebuild: "rebuild_support_matrix ''t'' fs = Inr (M, atomic_write_json support_matrix_path (JObj M) fs)"
    if "fread fs session_outcomes_path = Some (FJson (JObj [(''outcomes'', JObj [(''s'', JObj o1)])]))" for fs
    using that by (simp add: rebuild_support_matrix_def load_outcomes ev M_def Let_def)
  have key: "family_key demo_profile = ev_family_key e" by (simp add: e_def evidence_of_session_def)
  have "\<exists>s. record_session_outcome ''t'' demo_profile demo_state [] (Some ''devices/s'') demo_root = Inr (s, fs2)"
    using rebuild [OF reads(1)] fams key
    by (simp add: record_session_outcome_def knowledge_load_def fexists_def root knowledge_paths_neq
        experiment_evidence_def Let_def dset_def sid o1_def [symmetric] fs1_def [symmetric] fs2_def [symmetric])
  then obtain s where rec: "record_session_outcome ''t'' demo_profile demo_state [] (Some ''devices/s'') demo_root = Inr (s, fs2)" ..
  have "known_evidence [e]"
    by (cases "ss_support_status demo_state") (simp_all add: known_evidence_def known_statuses_def e_def evidence_of_session_def)
  from tally_statuses [OF this, of "ev_family_key e"]
  have "map fst (fam_statuses (observe e (new_family e))) = known_statuses" by (simp add: tally_single)
  then have fields: "dget d ''confidence'' y = JFloat (family_confidence (observe e (new_family e)))"
      "dget d ''restore_path_confirmed'' y = JInt (fam_restore_path_confirmed (observe e (new_family e)))"
      "dget d ''average_fitness_score'' y = JFloat (average_fitness_score (observe e (new_family e)))"
      "dget d ''validated_sessions'' y = JInt (fam_validated_sessions (observe e (new_family e)))" for y
    using d(1) by - (erule family_fields [of _ y]; simp)+
  have low: "evaluate_family DEFAULT_RULES (ev_family_key e) d = Inr None"
    by (simp add: evaluate_family_def number_or_def number_at_def fields d(2) at_least_def DEFAULT_RULES_def Let_def)
  define fs3 where "fs3 = atomic_write_json support_matrix_path (JObj M) fs2"
  define fs4 where "fs4 = atomic_write_json promotion_rules_path (JObj DEFAULT_RULES) fs3"
  define fs5 where "fs5 = atomic_write_json candidates_path (JObj [(''generated_at'', JStr ''t''),
      (''rules'', JObj DEFAULT_RULES), (''candidates'', JList [])]) fs4"
  have r3: "fread fs3 promotion_rules_path = None" using reads(3) by (simp add: fs3_def fread_atomic_write knowledge_paths_neq)
  have r5: "fread fs5 promotion_rules_path = Some (FJson (JObj DEFAULT_RULES))"
    by (simp add: fs5_def fs4_def fread_atomic_write knowledge_paths_neq)
  have "promotion_evaluate ''t'' M fs3 = Inr ([], fs5)"
    using r3 by (simp add: promotion_evaluate_def promotion_load_def fexists_def fams low fs4_def fs5_def)
  moreover have "auto_promote_tested_adapters ''t'' fs5 = Inr fs5"
    using r5 by (simp add: auto_promote_tested_adapters_def promotion_load_def fexists_def load_doc_def)
      (simp add: DEFAULT_RULES_def)
  ultimately have "learning_steps ''t'' demo_profile demo_state [] ''devices/s'' demo_root = Inr fs5"
    using rebuild [OF reads(2)] by (simp add: learning_steps_def rec fs3_def)
  then show ?thesis by blast
qed

theorem learning_leaves_master_alone_witness:
  "\<exists>fs'. learning_steps ''t'' demo_profile demo_state [] ''devices/s'' demo_root = Inr fs' \<and> master_unchanged demo_root fs'"
proof -
  have "auto_apply_off demo_root" by code_simp
  then show ?thesis using demo_learning learning_leaves_master_alone by blast
qed

lemma demo_register:
  "\<exists>review fs1. register_session_adapter ''s'' (Some ''samsung'') (Some ''SM-T500'') JNull ''a.py'' [] []
      [(''a.py'', FText ''code'')] = Inr (review, fs1)"
  by (simp add: register_session_adapter_def Let_def fcopy_def fread_def)

theorem registered_adapter_reaches_master_witness:
  "\<exists>fs2. fread fs2 (get_master_adapter_path (Some ''samsung'') (Some ''SM-T500'')) = Some (FText ''code'')
     \<and> has_master_adapter fs2 (Some ''samsung'') (Some ''SM-T500'')"
proof -
  obtain review fs1 where "register_session_adapter ''s'' (Some ''samsung'') (Some ''SM-T500'') JNull ''a.py'' [] []
      [(''a.py'', FText ''code'')] = Inr (review, fs1)" using demo_register by blast
  from registered_adapter_reaches_master [OF this] show ?thesis by (auto simp: fread_def)
qed

theorem family_candidate_is_skipped_witness:
  "\<exists>fs1 reason. apply_to_master ''t'' (family_key_of (Some ''samsung'') (Some ''SM-T500'')) fs1
     = Inr (skipped reason (family_key_of (Some ''samsung'') (Some ''SM-T500'')), fs1)"
proof -
  obtain review fs1 where "register_session_adapter ''s'' (Some ''samsung'') (Some ''SM-T500'') JNull ''a.py'' [] []
      [(''a.py'', FText ''code'')] = Inr (review, fs1)" using demo_register by blast
  moreover have "\<not> fexists [(''a.py'', FText ''code'')] (meta_of (family_key_of (Some ''samsung'') (Some ''SM-T500'')))"
    by (simp add: fexists_def fread_def registry_paths)
  ultimately show ?thesis using family_candidate_is_skipped by blast
qed

definition tablet_matrix :: files where
  "tablet_matrix = [(support_matrix_path, FJson (JObj (support_matrix ''t'' (tally [demo_evidence ! 0]))))]"

theorem deprecation_misses_the_matrix_witness:
  "\<exists>fs'. deprecate_adapter ''t'' ''u'' (adapter_key (Some ''google'') (Some ''pixel'')) ''old'' tablet_matrix = Inr fs'
     \<and> fread fs' support_matrix_path = fread tablet_matrix support_matrix_path"
proof -
  have "ev_family_key (demo_evidence ! 0) \<noteq> adapter_key (Some ''google'') (Some ''pixel'')"
  proof -
    have "CHR '':'' \<in> set (ev_family_key (demo_evidence ! 0))" by (simp add: demo_evidence_def)
    then show ?thesis using adapter_key_chars(1) by metis
  qed
  then have "\<exists>fs'. deprecate_adapter ''t'' ''u'' (adapter_key (Some ''google'') (Some ''pixel'')) ''old'' tablet_matrix = Inr fs'"
    by (simp add: deprecate_adapter_def Let_def tablet_matrix_def fmove_def fexists_def fread_def load_doc_def fwrite_def
        support_matrix_def tally_single dhas_def registry_paths support_matrix_path_def)
  then obtain fs' where "deprecate_adapter ''t'' ''u'' (adapter_key (Some ''google'') (Some ''pixel'')) ''old'' tablet_matrix = Inr fs'"
    by blast
  moreover have "fread tablet_matrix support_matrix_path = Some (FJson (JObj (support_matrix ''t'' (tally [demo_evidence ! 0]))))"
    by (simp add: tablet_matrix_def fread_def)
  moreover have "ev_family_key (demo_evidence ! 0) = family_key_of (Some ''google'') (Some ''pixel'')" by code_simp
  then have "list_all (\<lambda>e. \<exists>a b. ev_family_key e = family_key_of a b) [demo_evidence ! 0]" by auto
  ultimately show ?thesis using deprecation_misses_the_matrix by blast
qed

end
