(* ===== verification/Product_Memory.thy ===== *)
theory Product_Memory
  imports Knowledge
begin

text \<open>
  \<open>app/core/product_memory.py\<close>: what ForgeOS remembers of a product and of its versions across
  sessions. Products are kept under a key of manufacturer, model and codename; a product seen
  under a weaker name is merged into the stronger one. The products of the document are typed
  records here; a run that raises writes nothing, since the document is written at the end. The
  hash of a build fingerprint is the parameter \<open>sha256\<close>.
\<close>

section \<open>Keys\<close>

definition pm_slug :: "string \<Rightarrow> string" where
  "pm_slug v =
     (let s = join ''-'' (split_ws (replace_char (CHR ''_'') (CHR ''-'') (lower (strip v))))
      in if s = [] then ''unknown'' else s)"

definition unspecific_names :: "string list" where
  "unspecific_names = [[], ''unknown'', ''none'', ''null'', ''usb-attached-android'', ''android'', ''generic'', ''device'']"

definition is_specific :: "string \<Rightarrow> bool" where
  "is_specific v \<longleftrightarrow> pm_slug v \<notin> set unspecific_names"

definition product_key :: "device_profile \<Rightarrow> string" where
  "product_key profile =
     pm_slug (str_or (dp_manufacturer profile) ''unknown'') @ '':'' @ pm_slug (str_or (dp_model profile) ''unknown'')
       @ '':'' @ pm_slug (str_or (Some (dp_device_codename profile)) ''unknown'')"

definition product_key_parts :: "string \<Rightarrow> string \<times> string \<times> string" where
  "product_key_parts key =
     (let padded = split_on (CHR '':'') key @ [''unknown'', ''unknown'', ''unknown'']
      in (padded ! 0, padded ! 1, padded ! 2))"

definition identity_quality :: "string \<Rightarrow> nat" where
  "identity_quality key =
     (let (manufacturer, model, codename) = product_key_parts key
      in (if is_specific manufacturer then 1 else 0) + (if is_specific model then 1 else 0)
           + (if is_specific codename then 2 else 0))"

definition compatible_product_key :: "string \<Rightarrow> string \<Rightarrow> device_profile option \<Rightarrow> bool" where
  "compatible_product_key existing requested profile =
     (let (em, emo, ec) = product_key_parts existing; (rm, rmo, rc) = product_key_parts requested in
      if is_specific ec \<and> ec = rc then True
      else if is_specific em \<and> is_specific emo \<and> em = rm \<and> emo = rmo then True
      else (case profile of None \<Rightarrow> False
            | Some p \<Rightarrow>
                let codename = pm_slug (str_or (Some (dp_device_codename p)) ''unknown'')
                in is_specific codename \<and> ec = codename))"

definition prefer_specific :: "string \<Rightarrow> string option \<Rightarrow> string" where
  "prefer_specific current candidate =
     (let current_value = (if current = [] then ''Unknown'' else current); candidate_value = str_or candidate []
      in if \<not> is_specific (pm_slug current_value) \<and> is_specific (pm_slug candidate_value) then candidate_value
         else current_value)"

definition pm_build_id :: "device_profile \<Rightarrow> string res" where
  "pm_build_id profile =
     (let raw = dp_raw_probe_data profile in
      bindr (as_dict (jor (dget0 raw ''hardware_snapshot'') (JObj []))) (\<lambda>snapshot.
        Inr (py_str (jor (dget0 snapshot ''build_id'') (jor (dget0 snapshot ''incremental'')
              (jor (dget0 raw ''build_id'') (jor (dget0 raw ''build_incremental'') (JStr []))))))))"

definition version_key_of :: "(string \<Rightarrow> string) \<Rightarrow> device_profile \<Rightarrow> string \<Rightarrow> string" where
  "version_key_of sha256 profile build_id =
     (let android_version = pm_slug (str_or (dp_android_version profile) ''unknown'');
          build = pm_slug (if build_id = [] then ''unknown'' else build_id);
          digest = (if dp_fingerprint profile \<noteq> [] then take 10 (sha256 (dp_fingerprint profile)) else ''nofp'')
      in ''android-'' @ android_version @ '':build-'' @ build @ '':fp-'' @ digest)"

section \<open>Lists with a limit, lists without duplicates\<close>

definition keep_last :: "nat \<Rightarrow> 'a list \<Rightarrow> 'a list" where
  "keep_last n xs = drop (length xs - n) xs"

definition append_unique :: "string list \<Rightarrow> string \<Rightarrow> string list" where
  "append_unique xs x = (if x \<noteq> [] \<and> x \<notin> set xs then xs @ [x] else xs)"

definition append_limited :: "nat \<Rightarrow> 'a list \<Rightarrow> 'a \<Rightarrow> 'a list" where
  "append_limited limit xs x = keep_last limit (xs @ [x])"

definition append_session :: "string list \<Rightarrow> string \<Rightarrow> string list" where
  "append_session sessions name = keep_last 12 (remove1 name sessions @ [name])"

definition count_key :: "json \<Rightarrow> (string \<times> int) list \<Rightarrow> (string \<times> int) list" where
  "count_key key m = bump (py_str (jor key (JStr ''unknown''))) m"

section \<open>Versions and products\<close>

record version =
  vr_version_key :: string
  vr_android_version :: string
  vr_build_fingerprint :: string
  vr_build_id :: string
  vr_first_seen :: string
  vr_last_seen :: string
  vr_observations :: int
  vr_support_status_counts :: "(string \<times> int) list"
  vr_strategies :: "(string \<times> int) list"
  vr_recommended_paths :: "(string \<times> int) list"
  vr_recommended_use_cases :: "(string \<times> int) list"
  vr_blockers :: "(string \<times> int) list"
  vr_artifact_history :: "jdict list"
  vr_source_history :: "jdict list"
  vr_restore_history :: "jdict list"
  vr_lessons :: "string list"

record product =
  pd_product_key :: string
  pd_manufacturer :: string
  pd_model :: string
  pd_codenames :: "string list"
  pd_form_factors :: "string list"
  pd_first_seen :: string
  pd_last_seen :: string
  pd_observations :: int
  pd_sessions :: "string list"
  pd_versions :: "(string \<times> version) list"
  pd_aliases :: "string list"
  pd_related_identities :: "string list"
  pd_reusable_guidance :: "string list"
  pd_merged_products :: "jdict list"

type_synonym products = "(string \<times> product) list"

definition new_product :: "string \<Rightarrow> string \<Rightarrow> device_profile \<Rightarrow> product" where
  "new_product now key profile =
     \<lparr>pd_product_key = key, pd_manufacturer = str_or (dp_manufacturer profile) ''Unknown'',
      pd_model = str_or (dp_model profile) ''Unknown'', pd_codenames = [], pd_form_factors = [],
      pd_first_seen = now, pd_last_seen = now, pd_observations = 0, pd_sessions = [], pd_versions = [],
      pd_aliases = [], pd_related_identities = [], pd_reusable_guidance = [], pd_merged_products = []\<rparr>"

definition new_version :: "string \<Rightarrow> string \<Rightarrow> string \<Rightarrow> device_profile \<Rightarrow> version" where
  "new_version now key build_id profile =
     \<lparr>vr_version_key = key, vr_android_version = str_or (dp_android_version profile) ''unknown'',
      vr_build_fingerprint = dp_fingerprint profile, vr_build_id = build_id,
      vr_first_seen = now, vr_last_seen = now, vr_observations = 0,
      vr_support_status_counts = [], vr_strategies = [], vr_recommended_paths = [], vr_recommended_use_cases = [],
      vr_blockers = [], vr_artifact_history = [], vr_source_history = [], vr_restore_history = [], vr_lessons = []\<rparr>"

section \<open>Merging\<close>

definition merge_counts :: "(string \<times> int) list \<Rightarrow> (string \<times> int) list \<Rightarrow> (string \<times> int) list" where
  "merge_counts target source = foldl (\<lambda>acc (k, n). AList.update k (count_of acc k + n) acc) target source"

definition seen_or :: "string \<Rightarrow> string \<Rightarrow> string" where
  "seen_or s dflt = (if s = [] then dflt else s)"

definition merge_version :: "string \<Rightarrow> version \<Rightarrow> version \<Rightarrow> version" where
  "merge_version merged_at target source =
     target\<lparr>
       vr_first_seen := min (seen_or (vr_first_seen target) merged_at) (seen_or (vr_first_seen source) merged_at),
       vr_last_seen := max (seen_or (vr_last_seen target) merged_at) (seen_or (vr_last_seen source) merged_at),
       vr_observations := vr_observations target + vr_observations source,
       vr_support_status_counts := merge_counts (vr_support_status_counts target) (vr_support_status_counts source),
       vr_strategies := merge_counts (vr_strategies target) (vr_strategies source),
       vr_recommended_paths := merge_counts (vr_recommended_paths target) (vr_recommended_paths source),
       vr_recommended_use_cases := merge_counts (vr_recommended_use_cases target) (vr_recommended_use_cases source),
       vr_blockers := merge_counts (vr_blockers target) (vr_blockers source),
       vr_artifact_history := keep_last 20 (vr_artifact_history target @ vr_artifact_history source),
       vr_source_history := keep_last 20 (vr_source_history target @ vr_source_history source),
       vr_restore_history := keep_last 20 (vr_restore_history target @ vr_restore_history source),
       vr_lessons := foldl append_unique (vr_lessons target) (vr_lessons source)\<rparr>"

definition merge_versions :: "string \<Rightarrow> (string \<times> version) list \<Rightarrow> (string \<times> version) list \<Rightarrow> (string \<times> version) list" where
  "merge_versions merged_at target source =
     foldl (\<lambda>acc (k, v). case map_of acc k of
         None \<Rightarrow> acc @ [(k, v)] | Some t \<Rightarrow> AList.update k (merge_version merged_at t v) acc) target source"

definition merge_product :: "string \<Rightarrow> string \<Rightarrow> product \<Rightarrow> product \<Rightarrow> product" where
  "merge_product merged_at source_key target source =
     target\<lparr>
       pd_first_seen := min (seen_or (pd_first_seen target) merged_at) (seen_or (pd_first_seen source) merged_at),
       pd_last_seen := max (seen_or (pd_last_seen target) merged_at) (seen_or (pd_last_seen source) merged_at),
       pd_observations := pd_observations target + pd_observations source,
       pd_manufacturer := prefer_specific (pd_manufacturer target) (Some (pd_manufacturer source)),
       pd_model := prefer_specific (pd_model target) (Some (pd_model source)),
       pd_codenames := foldl append_unique (pd_codenames target) (pd_codenames source),
       pd_form_factors := foldl append_unique (pd_form_factors target) (pd_form_factors source),
       pd_sessions := keep_last 12 (foldl append_unique (pd_sessions target) (pd_sessions source)),
       pd_reusable_guidance := foldl append_unique (pd_reusable_guidance target) (pd_reusable_guidance source),
       pd_aliases := foldl append_unique (append_unique (pd_aliases target) source_key) (pd_aliases source),
       pd_merged_products := append_limited 30 (pd_merged_products target)
         [(''product_key'', JStr source_key), (''merged_at'', JStr merged_at),
          (''reason'', JStr ''merged weaker compatible product identity'')],
       pd_versions := merge_versions merged_at (pd_versions target) (pd_versions source)\<rparr>"

definition is_weaker :: "string \<Rightarrow> device_profile \<Rightarrow> string \<Rightarrow> bool" where
  "is_weaker canonical profile other \<longleftrightarrow>
     other \<noteq> canonical \<and> compatible_product_key other canonical (Some profile)
     \<and> identity_quality other < identity_quality canonical"

definition merge_step :: "string \<Rightarrow> device_profile \<Rightarrow> string \<Rightarrow> products \<Rightarrow> string \<Rightarrow> products" where
  "merge_step canonical profile merged_at products other =
     (if \<not> is_weaker canonical profile other then products
      else case (map_of products canonical, map_of products other) of
        (Some target, Some source) \<Rightarrow>
          AList.update canonical (merge_product merged_at other target source) (AList.delete other products)
      | _ \<Rightarrow> products)"

definition merge_weaker_products :: "string \<Rightarrow> device_profile \<Rightarrow> string \<Rightarrow> products \<Rightarrow> products" where
  "merge_weaker_products canonical profile merged_at products =
     foldl (merge_step canonical profile merged_at) products (map fst products)"

definition canonical_product_key :: "products \<Rightarrow> string \<Rightarrow> device_profile \<Rightarrow> string" where
  "canonical_product_key products requested profile =
     (case find (\<lambda>(k, p). requested \<in> set (pd_aliases p)) products of
        Some (k, p) \<Rightarrow> k
      | None \<Rightarrow>
          (case max_key identity_quality
                  (filter (\<lambda>k. compatible_product_key k requested (Some profile)) (map fst products)) of
             None \<Rightarrow> requested
           | Some best \<Rightarrow> if identity_quality requested < identity_quality best then best else requested))"

section \<open>Lessons\<close>

definition compiled_lessons :: "version \<Rightarrow> device_profile \<Rightarrow> string list" where
  "compiled_lessons v profile =
     dedupe
      ((if list_ex (\<lambda>item. starts_with (dstr_or item ''builder_reason'' []) ''Android repo tool is missing'') (vr_source_history v)
        then [''Local Android source builds need the Android repo tool before retrying.''] else [])
       @ (if list_ex (\<lambda>item. dget0 item ''status'' = JStr ''blocked_by_host_prerequisite'') (vr_source_history v)
          then [''Skip repeated source build attempts until host prerequisites change.''] else [])
       @ (if 2 \<le> count_of (vr_blockers v) ''source_blocker''
          then [''This version repeatedly reaches source acquisition; prioritize real firmware or known aftermarket packages.''] else [])
       @ (if vr_artifact_history v \<noteq> []
             \<and> \<not> list_ex (\<lambda>item. dget0 item ''status'' = JStr ''ready'') (vr_artifact_history v)
          then [''No usable flashable artifact has been proven for this version yet.''] else [])
       @ (if dp_device_codename profile \<noteq> []
          then [''Reuse codename `'' @ dp_device_codename profile @ ''` when searching firmware, recovery, and aftermarket builds.'']
          else []))"

definition compiled_product_guidance :: "product \<Rightarrow> string list" where
  "compiled_product_guidance p =
     (let lessons = map (\<lambda>(k, v). lower (join '' '' (vr_lessons v))) (pd_versions p);
          codenames = filter (\<lambda>c. c \<noteq> [] \<and> c \<noteq> ''unknown'') (pd_codenames p)
      in dedupe
      ((if list_ex (\<lambda>t. contains t ''source acquisition'') lessons
        then [''Expect source/firmware acquisition to be the main blocker for this product family.''] else [])
       @ (if list_ex (\<lambda>t. contains t ''repo tool'') lessons
          then [''Check host Android build prerequisites before launching local source builds.''] else [])
       @ (if codenames \<noteq> [] then [''Known codenames for reuse: '' @ join '', '' (sort (dedupe codenames)) @ ''.''] else [])))"

definition refresh_related_identities :: "products \<Rightarrow> products" where
  "refresh_related_identities products =
     map (\<lambda>(k, p). (k, p\<lparr>pd_related_identities :=
       sort (filter (\<lambda>other. other \<noteq> k \<and> compatible_product_key other k None) (map fst products))\<rparr>)) products"

section \<open>Recording an observation\<close>

record observation =
  ob_session_name :: string
  ob_profile :: device_profile
  ob_state :: session_state
  ob_assessment :: jdict
  ob_build_plan :: jdict
  ob_build_artifacts :: jdict
  ob_blocker :: jdict
  ob_recommendation :: jdict
  ob_restore_plan :: jdict

text \<open>\<open>(d.get(k) or {})\<close>, where the value is used with \<open>get\<close>.\<close>

definition sub_dict :: "jdict \<Rightarrow> string \<Rightarrow> jdict res" where
  "sub_dict d k = (case jor (dget0 d k) (JObj []) of JObj e \<Rightarrow> Inr e | _ \<Rightarrow> Inl (AttributeError ''get''))"

definition artifact_entry :: "string \<Rightarrow> observation \<Rightarrow> jdict res" where
  "artifact_entry now ob =
     bindr (sub_dict (ob_build_artifacts ob) ''details'') (\<lambda>details.
     Inr [(''recorded_at'', JStr now),
          (''status'', dget0 (ob_build_artifacts ob) ''status''),
          (''install_mode'', dget0 details ''install_mode''),
          (''staged_count'', JInt (json_len (jor (dget0 (ob_build_artifacts ob) ''artifacts'') (JList [])))),
          (''missing_requirements'', dget details ''missing_requirements'' (JList []))])"

definition source_entry :: "string \<Rightarrow> observation \<Rightarrow> jdict res" where
  "source_entry now ob =
     bindr (sub_dict (ob_build_plan ob) ''source_acquisition'') (\<lambda>acq.
     bindr (sub_dict acq ''resolver'') (\<lambda>resolver.
     bindr (sub_dict acq ''builder'') (\<lambda>builder.
     Inr [(''recorded_at'', JStr now),
          (''status'', dget0 acq ''status''),
          (''resolver_status'', dget0 resolver ''status''),
          (''builder_status'', dget0 builder ''status''),
          (''builder_reason'', dget0 builder ''reason'')])))"

definition restore_entry :: "string \<Rightarrow> observation \<Rightarrow> jdict" where
  "restore_entry now ob =
     [(''recorded_at'', JStr now), (''status'', dget0 (ob_restore_plan ob) ''status''),
      (''summary'', dget0 (ob_restore_plan ob) ''summary''),
      (''restore_path_feasible'', JBool (truthy (dget0 (ob_assessment ob) ''restore_path_feasible'')))]"

definition observe_version :: "string \<Rightarrow> observation \<Rightarrow> jdict \<Rightarrow> jdict \<Rightarrow> version \<Rightarrow> version" where
  "observe_version now ob artifact source v =
     (let v' = v\<lparr>
        vr_last_seen := now,
        vr_observations := vr_observations v + 1,
        vr_support_status_counts := count_key (dget (ob_assessment ob) ''support_status'' (JStr ''unknown'')) (vr_support_status_counts v),
        vr_strategies := count_key (JStr (str_or (ss_selected_strategy (ob_state ob)) ''unselected'')) (vr_strategies v),
        vr_recommended_paths := count_key (dget (ob_build_plan ob) ''os_path'' (JStr ''unknown'')) (vr_recommended_paths v),
        vr_recommended_use_cases := count_key (dget (ob_recommendation ob) ''recommended_use_case'' (JStr ''unknown'')) (vr_recommended_use_cases v),
        vr_blockers := count_key (dget (ob_blocker ob) ''blocker_type'' (JStr ''none'')) (vr_blockers v),
        vr_artifact_history := append_limited 20 (vr_artifact_history v) artifact,
        vr_source_history := append_limited 20 (vr_source_history v) source,
        vr_restore_history := append_limited 20 (vr_restore_history v) (restore_entry now ob)\<rparr>
      in v'\<lparr>vr_lessons := compiled_lessons v' (ob_profile ob)\<rparr>)"

definition observe_product ::
    "string \<Rightarrow> observation \<Rightarrow> string \<Rightarrow> string \<Rightarrow> string \<Rightarrow> jdict \<Rightarrow> jdict \<Rightarrow> product \<Rightarrow> product" where
  "observe_product now ob requested version_key build_id artifact source p =
     (let profile = ob_profile ob;
          v = (case map_of (pd_versions p) version_key of
                 None \<Rightarrow> new_version now version_key build_id profile | Some v \<Rightarrow> v);
          p' = p\<lparr>
            pd_last_seen := now,
            pd_observations := pd_observations p + 1,
            pd_manufacturer := prefer_specific (pd_manufacturer p) (dp_manufacturer profile),
            pd_model := prefer_specific (pd_model p) (dp_model profile),
            pd_aliases := append_unique (pd_aliases p) requested,
            pd_codenames := append_unique (pd_codenames p) (str_or (Some (dp_device_codename profile)) ''unknown''),
            pd_form_factors := append_unique (pd_form_factors p) (device_form_factor_value (dp_form_factor profile)),
            pd_sessions := append_session (pd_sessions p) (ob_session_name ob),
            pd_versions := AList.update version_key (observe_version now ob artifact source v) (pd_versions p)\<rparr>
      in p'\<lparr>pd_reusable_guidance := compiled_product_guidance p'\<rparr>)"

text \<open>The products after an observation, with the keys under which it was recorded.\<close>

definition record_observation ::
    "(string \<Rightarrow> string) \<Rightarrow> string \<Rightarrow> observation \<Rightarrow> products \<Rightarrow> (string \<times> string \<times> products) res" where
  "record_observation sha256 now ob products =
     (let profile = ob_profile ob;
          requested = product_key profile;
          key = canonical_product_key products requested profile in
      bindr (pm_build_id profile) (\<lambda>build_id.
      bindr (artifact_entry now ob) (\<lambda>artifact.
      bindr (source_entry now ob) (\<lambda>source.
        let version_key = version_key_of sha256 profile build_id;
            with_product = (case map_of products key of
              None \<Rightarrow> products @ [(key, new_product now key profile)] | Some p \<Rightarrow> products);
            merged = merge_weaker_products key profile now with_product;
            p = the (map_of merged key)
        in Inr (key, version_key,
             refresh_related_identities
               (AList.update key (observe_product now ob requested version_key build_id artifact source p) merged))))))"

record memory_match =
  mm_product_key :: string
  mm_requested_product_key :: string
  mm_version_key :: string
  mm_product :: "product option"
  mm_version :: "version option"

definition memory_lookup :: "(string \<Rightarrow> string) \<Rightarrow> products \<Rightarrow> device_profile \<Rightarrow> memory_match res" where
  "memory_lookup sha256 products profile =
     (let requested = product_key profile; key = canonical_product_key products requested profile in
      bindr (pm_build_id profile) (\<lambda>build_id.
        let version_key = version_key_of sha256 profile build_id; p = map_of products key in
        Inr \<lparr>mm_product_key = key, mm_requested_product_key = requested, mm_version_key = version_key,
             mm_product = p,
             mm_version = (case p of None \<Rightarrow> None | Some p \<Rightarrow> map_of (pd_versions p) version_key)\<rparr>))"

section \<open>Observations are never lost\<close>

definition total_observations :: "products \<Rightarrow> int" where
  "total_observations products = sum_list (map (\<lambda>(k, p). pd_observations p) products)"

definition well_keyed :: "products \<Rightarrow> bool" where
  "well_keyed products \<longleftrightarrow> distinct (map fst products)"

lemma total_update:
  assumes "distinct (map fst ps)" "map_of ps k = Some p"
  shows "total_observations (AList.update k q ps) = total_observations ps - pd_observations p + pd_observations q"
  using assms
proof (induction ps)
  case (Cons x ps)
  then show ?case by (cases x) (auto simp: total_observations_def dest: map_of_SomeD)
qed simp

lemma total_delete:
  assumes "distinct (map fst ps)" "map_of ps k = Some p"
  shows "total_observations (AList.delete k ps) = total_observations ps - pd_observations p"
  using assms
proof (induction ps)
  case (Cons x ps)
  have none: "AList.delete j ps = ps" if "j \<notin> fst ` set ps" for j
    using that by (simp add: AList.delete_eq filter_id_conv) force
  show ?case
    using Cons none by (cases x) (auto simp: total_observations_def)
qed simp

lemma merge_step_keys: "well_keyed ps \<Longrightarrow> well_keyed (merge_step c profile now ps k)"
  by (auto simp: well_keyed_def merge_step_def AList.distinct_update AList.distinct_delete split: option.splits)

lemma merge_step_total:
  assumes "well_keyed ps"
  shows "total_observations (merge_step c profile now ps k) = total_observations ps"
proof (cases "is_weaker c profile k \<and> map_of ps c \<noteq> None \<and> map_of ps k \<noteq> None")
  case True
  then obtain t s where t: "map_of ps c = Some t" and s: "map_of ps k = Some s" by auto
  have neq: "k \<noteq> c" using True by (simp add: is_weaker_def)
  let ?ps = "AList.delete k ps"
  have d: "distinct (map fst ?ps)" using assms by (simp add: well_keyed_def AList.distinct_delete)
  have t': "map_of ?ps c = Some t" using t neq by (simp add: AList.delete_conv)
  show ?thesis
    using True t s total_update [OF d t'] total_delete [OF _ s] assms
    by (simp add: merge_step_def well_keyed_def merge_product_def)
next
  case False
  then show ?thesis by (auto simp: merge_step_def split: option.splits)
qed

lemma keys_delete: "map fst (AList.delete k ps) = removeAll k (map fst ps)"
  by (induction ps) auto

lemma keys_update: "k \<in> fst ` set ps \<Longrightarrow> map fst (AList.update k v ps) = map fst ps"
  by (simp add: AList.update_keys)

lemma merge_step_fsts:
  assumes "c \<in> fst ` set ps"
  shows "map fst (merge_step c profile now ps k) = (if is_weaker c profile k then removeAll k (map fst ps) else map fst ps)"
proof (cases "is_weaker c profile k \<and> k \<in> fst ` set ps")
  case True
  then obtain t s where ts: "map_of ps c = Some t" "map_of ps k = Some s"
    using assms by (metis map_of_eq_None_iff not_None_eq)
  have "c \<in> fst ` set (AList.delete k ps)"
    using True assms by (auto simp: AList.delete_eq is_weaker_def)
  then show ?thesis using True ts by (simp add: merge_step_def keys_update keys_delete)
next
  case False
  have "removeAll k (map fst ps) = map fst ps" if "k \<notin> fst ` set ps" using that by (simp add: removeAll_id)
  moreover have "map_of ps k = None" if "k \<notin> fst ` set ps" using that by (simp add: map_of_eq_None_iff)
  ultimately show ?thesis using False by (auto simp: merge_step_def split: option.split)
qed

lemma merge_fold_fsts:
  assumes "c \<in> fst ` set ps"
  shows "map fst (foldl (merge_step c profile now) ps ks) = filter (\<lambda>k. \<not> (k \<in> set ks \<and> is_weaker c profile k)) (map fst ps)"
  using assms
proof (induction ks arbitrary: ps)
  case (Cons k ks)
  let ?ps = "merge_step c profile now ps k"
  note keys = merge_step_fsts [OF Cons.prems, of profile now k]
  have "\<not> is_weaker c profile c" by (simp add: is_weaker_def)
  then have "c \<in> set (map fst ?ps)" using Cons.prems unfolding keys by auto
  then have c: "c \<in> fst ` set ?ps" by simp
  have "map fst (foldl (merge_step c profile now) ps (k # ks))
      = filter (\<lambda>j. \<not> (j \<in> set ks \<and> is_weaker c profile j)) (map fst ?ps)"
    using Cons.IH [OF c] by simp
  also have "\<dots> = filter (\<lambda>j. \<not> (j \<in> set (k # ks) \<and> is_weaker c profile j)) (map fst ps)"
    unfolding keys by (auto simp: removeAll_filter_not_eq intro: filter_cong)
  finally show ?case .
qed simp

lemma merge_fold_keeps:
  "well_keyed ps \<Longrightarrow> well_keyed (foldl (merge_step c profile now) ps ks)"
  "well_keyed ps \<Longrightarrow> total_observations (foldl (merge_step c profile now) ps ks) = total_observations ps"
  by (induction ks arbitrary: ps) (simp_all add: merge_step_keys merge_step_total)

lemma refresh_keys [simp]: "map fst (refresh_related_identities ps) = map fst ps"
  by (simp add: refresh_related_identities_def case_prod_beta comp_def)

lemma refresh_total [simp]: "total_observations (refresh_related_identities ps) = total_observations ps"
  by (simp add: refresh_related_identities_def total_observations_def split_def comp_def)

lemma observe_product_observations [simp]:
  "pd_observations (observe_product now ob r vk b a s p) = pd_observations p + 1"
  by (simp add: observe_product_def Let_def)

text \<open>The steps of a recording, named.\<close>

lemma record_steps:
  assumes "record_observation sha256 now ob ps = Inr (key, vk, ps')"
  obtains build_id artifact source with_p merged p where
    "key = canonical_product_key ps (product_key (ob_profile ob)) (ob_profile ob)"
    "pm_build_id (ob_profile ob) = Inr build_id" "vk = version_key_of sha256 (ob_profile ob) build_id"
    "with_p = (case map_of ps key of None \<Rightarrow> ps @ [(key, new_product now key (ob_profile ob))] | Some p \<Rightarrow> ps)"
    "merged = merge_weaker_products key (ob_profile ob) now with_p"
    "key \<in> fst ` set with_p" "map_of merged key = Some p"
    "ps' = refresh_related_identities (AList.update key
        (observe_product now ob (product_key (ob_profile ob)) vk build_id artifact source p) merged)"
proof -
  let ?key = "canonical_product_key ps (product_key (ob_profile ob)) (ob_profile ob)"
  let ?w = "case map_of ps ?key of None \<Rightarrow> ps @ [(?key, new_product now ?key (ob_profile ob))] | Some p \<Rightarrow> ps"
  let ?m = "merge_weaker_products ?key (ob_profile ob) now ?w"
  have mem: "?key \<in> fst ` set ?w"
    by (auto split: option.split dest: map_of_SomeD) (metis fst_conv image_eqI map_of_SomeD)
  have "set (map fst ?m) \<supseteq> {?key}"
    using mem unfolding merge_weaker_products_def merge_fold_fsts [OF mem] by (auto simp: is_weaker_def)
  then have "?key \<in> fst ` set ?m" by simp
  then obtain p where p: "map_of ?m ?key = Some p" by (metis map_of_eq_None_iff not_None_eq)
  show thesis
    using assms mem p
    by (auto simp: record_observation_def Let_def bindr_eq_Inr intro: that [OF _ _ _ refl refl])
qed

section \<open>A memory with a weaker name of the same device\<close>

definition pm_demo_profile :: device_profile where
  "pm_demo_profile = (bare_profile ''blueline'' ''fp'' T_USB_ADB)
     \<lparr>dp_manufacturer := Some ''Google'', dp_model := Some ''Pixel''\<rparr>"

definition pm_demo_weak :: product where
  "pm_demo_weak = (new_product ''t0'' ''unknown:unknown:blueline'' pm_demo_profile)\<lparr>pd_observations := 4\<rparr>"

definition pm_demo_products :: products where
  "pm_demo_products = [(''unknown:unknown:blueline'', pm_demo_weak)]"

definition pm_demo_observation :: observation where
  "pm_demo_observation = \<lparr>ob_session_name = ''s'', ob_profile = pm_demo_profile, ob_state = default_session_state ''s'' ''t'',
     ob_assessment = [], ob_build_plan = [], ob_build_artifacts = [], ob_blocker = [], ob_recommendation = [],
     ob_restore_plan = []\<rparr>"

lemma pm_demo_recorded:
  "\<exists>key vk ps'. record_observation (\<lambda>x. x) ''t'' pm_demo_observation pm_demo_products = Inr (key, vk, ps')"
  by (simp add: record_observation_def Let_def pm_demo_observation_def pm_build_id_def artifact_entry_def source_entry_def
      pm_demo_profile_def bare_profile_def sub_dict_def as_dict_def jor_def dget_def)

lemma pm_demo_keyed: "well_keyed pm_demo_products" "total_observations pm_demo_products = 4"
  by (simp_all add: well_keyed_def pm_demo_products_def pm_demo_weak_def new_product_def
      total_observations_def)

lemma pm_demo_weaker: "is_weaker ''google:pixel:blueline'' pm_demo_profile ''unknown:unknown:blueline''"
  by code_simp

lemma pm_demo_key: "canonical_product_key pm_demo_products (product_key pm_demo_profile) pm_demo_profile = ''google:pixel:blueline''"
  by code_simp


text \<open>
  No observation is lost: recording one adds exactly one to the observations of all products
  together, whatever products are merged on the way, and no two products get the same key.
\<close>

theorem recording_adds_one_observation:
  assumes "record_observation sha256 now ob ps = Inr (key, vk, ps')" and "well_keyed ps"
  shows "total_observations ps' = total_observations ps + 1 \<and> well_keyed ps'"
proof -
  from record_steps [OF assms(1)] obtain build_id artifact source with_p merged p where
    w: "with_p = (case map_of ps key of None \<Rightarrow> ps @ [(key, new_product now key (ob_profile ob))] | Some p \<Rightarrow> ps)"
    and m: "merged = merge_weaker_products key (ob_profile ob) now with_p"
    and p: "map_of merged key = Some p"
    and ps': "ps' = refresh_related_identities (AList.update key
        (observe_product now ob (product_key (ob_profile ob)) vk build_id artifact source p) merged)" .
  have wk: "well_keyed with_p" "total_observations with_p = total_observations ps"
    using assms(2)
    by (auto simp: w well_keyed_def total_observations_def new_product_def map_of_eq_None_iff split: option.split)
  have mk: "well_keyed merged" "total_observations merged = total_observations ps"
    using merge_fold_keeps [OF wk(1)] wk(2) by (simp_all add: m merge_weaker_products_def)
  show ?thesis
    using mk p total_update [of merged key p]
    by (auto simp: ps' well_keyed_def AList.distinct_update)
qed

theorem recording_adds_one_observation_witness:
  "\<exists>key vk ps'. record_observation (\<lambda>x. x) ''t'' pm_demo_observation pm_demo_products = Inr (key, vk, ps')
     \<and> total_observations ps' = 5 \<and> well_keyed ps'"
proof -
  obtain key vk ps' where r: "record_observation (\<lambda>x. x) ''t'' pm_demo_observation pm_demo_products = Inr (key, vk, ps')"
    using pm_demo_recorded by blast
  from recording_adds_one_observation [OF r pm_demo_keyed(1)] r show ?thesis by (simp add: pm_demo_keyed(2))
qed

text \<open>
  After a recording no weaker name of the product is left: every other product that is
  compatible with the recorded one and names it less specifically has been merged into it.
\<close>

theorem weaker_identities_are_merged:
  assumes "record_observation sha256 now ob ps = Inr (key, vk, ps')"
  shows "list_all (\<lambda>k. \<not> is_weaker key (ob_profile ob) k) (map fst ps') \<and> key \<in> fst ` set ps'"
proof -
  from record_steps [OF assms] obtain build_id artifact source with_p merged p where
    m: "merged = merge_weaker_products key (ob_profile ob) now with_p"
    and mem: "key \<in> fst ` set with_p" and p: "map_of merged key = Some p"
    and ps': "ps' = refresh_related_identities (AList.update key
        (observe_product now ob (product_key (ob_profile ob)) vk build_id artifact source p) merged)" .
  have "key \<in> fst ` set merged" using p by (metis image_eqI map_of_SomeD fst_conv)
  then have keys: "map fst ps' = map fst merged" by (simp add: ps' keys_update)
  have "map fst merged = filter (\<lambda>k. \<not> (k \<in> set (map fst with_p) \<and> is_weaker key (ob_profile ob) k)) (map fst with_p)"
    unfolding m merge_weaker_products_def by (rule merge_fold_fsts [OF mem])
  then have "list_all (\<lambda>k. \<not> is_weaker key (ob_profile ob) k) (map fst ps')"
    unfolding keys list_all_iff by auto
  moreover have "key \<in> fst ` set ps'"
    using keys \<open>key \<in> fst ` set merged\<close> by (metis set_map)
  ultimately show ?thesis by blast
qed

theorem weaker_identities_are_merged_witness:
  "\<exists>vk ps'. record_observation (\<lambda>x. x) ''t'' pm_demo_observation pm_demo_products = Inr (''google:pixel:blueline'', vk, ps')
     \<and> ''unknown:unknown:blueline'' \<notin> fst ` set ps'"
proof -
  obtain key vk ps' where r: "record_observation (\<lambda>x. x) ''t'' pm_demo_observation pm_demo_products = Inr (key, vk, ps')"
    using pm_demo_recorded by blast
  have p: "ob_profile pm_demo_observation = pm_demo_profile" by (simp add: pm_demo_observation_def)
  from r have key: "key = ''google:pixel:blueline''"
    by (rule record_steps) (simp add: p pm_demo_key)
  from weaker_identities_are_merged [OF r] have "''unknown:unknown:blueline'' \<notin> fst ` set ps'"
    using pm_demo_weaker by (auto simp: list_all_iff p key)
  with r key show ?thesis by blast
qed


section \<open>A recorded product is found again\<close>

definition before_key :: "string \<Rightarrow> products \<Rightarrow> products" where
  "before_key c ps = takeWhile (\<lambda>(k, p). k \<noteq> c) ps"

definition unclaimed :: "string \<Rightarrow> string \<Rightarrow> products \<Rightarrow> bool" where
  "unclaimed r c ps \<longleftrightarrow> list_all (\<lambda>(k, p). r \<notin> set (pd_aliases p)) (before_key c ps)"

lemma unclaimed_Nil [simp]: "unclaimed r c []"
  by (simp add: unclaimed_def before_key_def)

lemma unclaimed_Cons [simp]:
  "unclaimed r c ((k, p) # ps) \<longleftrightarrow> k = c \<or> (r \<notin> set (pd_aliases p) \<and> unclaimed r c ps)"
  by (simp add: unclaimed_def before_key_def)

lemma found_unclaimed:
  "find (\<lambda>(k, p). r \<in> set (pd_aliases p)) ps = Some (c, q) \<Longrightarrow> unclaimed r c ps"
  by (induction ps) (auto split: if_splits)

lemma not_found_unclaimed:
  "find (\<lambda>(k, p). r \<in> set (pd_aliases p)) ps = None \<Longrightarrow> unclaimed r c ps"
  by (induction ps) (auto split: if_splits)

lemma unclaimed_found:
  "unclaimed r c ps \<Longrightarrow> map_of ps c = Some p \<Longrightarrow> r \<in> set (pd_aliases p) \<Longrightarrow>
   find (\<lambda>(k, p). r \<in> set (pd_aliases p)) ps = Some (c, p)"
  by (induction ps) (auto split: if_splits)

lemma unclaimed_append: "unclaimed r c ps \<Longrightarrow> unclaimed r c (ps @ [(c, p)])"
  by (induction ps) auto

lemma unclaimed_delete: "unclaimed r c ps \<Longrightarrow> k \<noteq> c \<Longrightarrow> unclaimed r c (AList.delete k ps)"
  by (induction ps) auto

lemma unclaimed_update: "unclaimed r c ps \<Longrightarrow> unclaimed r c (AList.update c p ps)"
  by (induction ps) auto

lemma unclaimed_refresh [simp]: "unclaimed r c (refresh_related_identities ps) = unclaimed r c ps"
proof -
  have "unclaimed r c (map (\<lambda>(k, p). (k, p\<lparr>pd_related_identities := f k\<rparr>)) ps) = unclaimed r c ps" for f
    by (induction ps) auto
  then show ?thesis by (simp add: refresh_related_identities_def)
qed

lemma unclaimed_merge:
  "unclaimed r c ps \<Longrightarrow> unclaimed r c (foldl (merge_step c profile now) ps ks)"
proof (induction ks arbitrary: ps)
  case (Cons k ks)
  have "unclaimed r c (merge_step c profile now ps k)"
    using Cons.prems
    by (auto simp: merge_step_def is_weaker_def unclaimed_delete unclaimed_update split: option.split)
  then show ?case using Cons.IH by simp
qed simp

lemma canonical_unclaimed:
  assumes "c = canonical_product_key ps r profile"
  shows "unclaimed r c ps"
proof (cases "find (\<lambda>(k, p). r \<in> set (pd_aliases p)) ps")
  case None
  then show ?thesis by (rule not_found_unclaimed)
next
  case (Some kp)
  then show ?thesis using assms found_unclaimed [of r ps "fst kp" "snd kp"]
    by (simp add: canonical_product_key_def split_def)
qed

lemma canonical_of_found:
  assumes "unclaimed r c ps" "map_of ps c = Some p" "r \<in> set (pd_aliases p)"
  shows "canonical_product_key ps r profile = c"
  using unclaimed_found [OF assms] by (simp add: canonical_product_key_def)

lemma refresh_lookup:
  "map_of (refresh_related_identities ps) k =
   map_option (\<lambda>p. p\<lparr>pd_related_identities :=
       sort (filter (\<lambda>other. other \<noteq> k \<and> compatible_product_key other k None) (map fst ps))\<rparr>) (map_of ps k)"
proof -
  have "map_of (map (\<lambda>(k, p). (k, p\<lparr>pd_related_identities := f k\<rparr>)) ps) k
      = map_option (\<lambda>p. p\<lparr>pd_related_identities := f k\<rparr>) (map_of ps k)" for f
    by (induction ps) auto
  then show ?thesis by (simp add: refresh_related_identities_def)
qed

lemma product_key_not_Nil: "product_key profile \<noteq> []"
  by (simp add: product_key_def)

lemma observe_product_alias:
  "r \<noteq> [] \<Longrightarrow> r \<in> set (pd_aliases (observe_product now ob r vk b a s p))"
  by (simp add: observe_product_def Let_def append_unique_def)

lemma observe_product_version:
  "map_of (pd_versions (observe_product now ob r vk b a s p)) vk =
   Some (observe_version now ob a s (case map_of (pd_versions p) vk of
      None \<Rightarrow> new_version now vk b (ob_profile ob) | Some v \<Rightarrow> v))"
  by (simp add: observe_product_def Let_def AList.update_conv)

lemma observe_version_seen: "vr_last_seen (observe_version now ob a s v) = now"
  by (simp add: observe_version_def Let_def)

lemma observe_product_session: "ob_session_name ob \<in> set (pd_sessions (observe_product now ob r vk b a s p))"
  by (simp add: observe_product_def Let_def append_session_def keep_last_def)

text \<open>
  C32. What is recorded is found again: a lookup with the same profile leads to the product and to
  the version the observation was recorded under, the product lists the session, and the version
  was last seen at the time of the recording.
\<close>

theorem recorded_product_is_found:
  assumes "record_observation sha256 now ob ps = Inr (key, vk, ps')"
  shows "\<exists>p v. memory_lookup sha256 ps' (ob_profile ob) =
           Inr \<lparr>mm_product_key = key, mm_requested_product_key = product_key (ob_profile ob), mm_version_key = vk,
                mm_product = Some p, mm_version = Some v\<rparr>
         \<and> ob_session_name ob \<in> set (pd_sessions p) \<and> vr_last_seen v = now"
proof -
  let ?r = "product_key (ob_profile ob)"
  from record_steps [OF assms] obtain build_id artifact source with_p merged p where
    key: "key = canonical_product_key ps ?r (ob_profile ob)"
    and b: "pm_build_id (ob_profile ob) = Inr build_id" "vk = version_key_of sha256 (ob_profile ob) build_id"
    and w: "with_p = (case map_of ps key of None \<Rightarrow> ps @ [(key, new_product now key (ob_profile ob))] | Some p \<Rightarrow> ps)"
    and m: "merged = merge_weaker_products key (ob_profile ob) now with_p"
    and ps': "ps' = refresh_related_identities (AList.update key
        (observe_product now ob ?r vk build_id artifact source p) merged)" .
  let ?q = "observe_product now ob ?r vk build_id artifact source p"
  have "unclaimed ?r key with_p"
    using canonical_unclaimed [OF key] by (auto simp: w unclaimed_append split: option.split)
  then have un: "unclaimed ?r key ps'"
    by (simp add: ps' m merge_weaker_products_def unclaimed_update unclaimed_merge)
  obtain rel where q: "map_of ps' key = Some (?q\<lparr>pd_related_identities := rel\<rparr>)"
    by (simp add: ps' refresh_lookup AList.update_conv)
  have "canonical_product_key ps' ?r (ob_profile ob) = key"
    by (rule canonical_of_found [OF un q]) (simp add: observe_product_alias product_key_not_Nil)
  then show ?thesis
    by (simp add: memory_lookup_def Let_def b q observe_product_version observe_version_seen observe_product_session)
qed

theorem recorded_product_is_found_witness:
  "\<exists>vk ps' m. memory_lookup (\<lambda>x. x) ps' pm_demo_profile = Inr m \<and> mm_version_key m = vk \<and> mm_product m \<noteq> None
     \<and> record_observation (\<lambda>x. x) ''t'' pm_demo_observation pm_demo_products = Inr (mm_product_key m, vk, ps')"
proof -
  obtain key vk ps' where r: "record_observation (\<lambda>x. x) ''t'' pm_demo_observation pm_demo_products = Inr (key, vk, ps')"
    using pm_demo_recorded by blast
  have p: "ob_profile pm_demo_observation = pm_demo_profile" by (simp add: pm_demo_observation_def)
  from recorded_product_is_found [OF r] r show ?thesis unfolding p by fastforce
qed

section \<open>The memory stays bounded\<close>

definition version_bounded :: "version \<Rightarrow> bool" where
  "version_bounded v \<longleftrightarrow> length (vr_artifact_history v) \<le> 20 \<and> length (vr_source_history v) \<le> 20
     \<and> length (vr_restore_history v) \<le> 20"

definition product_bounded :: "product \<Rightarrow> bool" where
  "product_bounded p \<longleftrightarrow> length (pd_sessions p) \<le> 12 \<and> length (pd_merged_products p) \<le> 30
     \<and> list_all (\<lambda>kv. version_bounded (snd kv)) (pd_versions p)"

definition memory_bounded :: "products \<Rightarrow> bool" where
  "memory_bounded ps = list_all (\<lambda>kp. product_bounded (snd kp)) ps"

lemma keep_last_length [simp]: "length (keep_last n xs) = min n (length xs)"
  by (simp add: keep_last_def)

lemma all_update:
  "list_all (\<lambda>kv. P (snd kv)) kvs \<Longrightarrow> P v \<Longrightarrow> list_all (\<lambda>kv. P (snd kv)) (AList.update k v kvs)"
  by (induction kvs) auto

lemma all_delete: "list_all P kvs \<Longrightarrow> list_all P (AList.delete k kvs)"
  by (induction kvs) auto

lemma all_lookup: "list_all (\<lambda>kv. P (snd kv)) kvs \<Longrightarrow> map_of kvs k = Some v \<Longrightarrow> P v"
  by (induction kvs) (auto split: if_splits)

lemma version_bounded_merge: "version_bounded (merge_version now t s)"
  by (simp add: version_bounded_def merge_version_def)

lemma version_bounded_new: "version_bounded (new_version now k b profile)"
  by (simp add: version_bounded_def new_version_def)

lemma version_bounded_observe: "version_bounded (observe_version now ob a s v)"
  by (simp add: version_bounded_def observe_version_def Let_def append_limited_def)

lemma merge_versions_bounded:
  "list_all (\<lambda>kv. version_bounded (snd kv)) t \<Longrightarrow> list_all (\<lambda>kv. version_bounded (snd kv)) s \<Longrightarrow>
   list_all (\<lambda>kv. version_bounded (snd kv)) (merge_versions now t s)"
  unfolding merge_versions_def
proof (induction s arbitrary: t)
  case (Cons kv s)
  then show ?case
    by (cases kv) (auto simp: all_update version_bounded_merge intro!: Cons.IH split: option.split)
qed simp

lemma product_bounded_merge: "product_bounded t \<Longrightarrow> product_bounded s \<Longrightarrow> product_bounded (merge_product now k t s)"
  by (simp add: product_bounded_def merge_product_def append_limited_def merge_versions_bounded)

lemma product_bounded_observe: "product_bounded p \<Longrightarrow> product_bounded (observe_product now ob r vk b a s p)"
  by (simp add: product_bounded_def observe_product_def Let_def append_session_def all_update version_bounded_observe)

lemma merge_step_bounded: "memory_bounded ps \<Longrightarrow> memory_bounded (merge_step c profile now ps k)"
  unfolding memory_bounded_def
  by (auto simp: merge_step_def intro!: all_update all_delete product_bounded_merge
      intro: all_lookup split: option.split)

lemma merge_bounded: "memory_bounded ps \<Longrightarrow> memory_bounded (merge_weaker_products c profile now ps)"
proof -
  have "memory_bounded ps \<Longrightarrow> memory_bounded (foldl (merge_step c profile now) ps ks)" for ks
    by (induction ks arbitrary: ps) (simp_all add: merge_step_bounded)
  then show "memory_bounded ps \<Longrightarrow> memory_bounded (merge_weaker_products c profile now ps)"
    by (simp add: merge_weaker_products_def)
qed

lemma refresh_bounded: "memory_bounded ps \<Longrightarrow> memory_bounded (refresh_related_identities ps)"
  by (simp add: memory_bounded_def refresh_related_identities_def list.pred_map comp_def split_def product_bounded_def)

text \<open>
  The memory of a product stays bounded: recording keeps at most 12 sessions and 30 merge
  notes for each product and at most 20 entries in each history of each version.
\<close>

theorem recording_keeps_bounds:
  assumes "record_observation sha256 now ob ps = Inr (key, vk, ps')" and "memory_bounded ps"
  shows "memory_bounded ps'"
proof -
  from record_steps [OF assms(1)] obtain build_id artifact source with_p merged p where
    w: "with_p = (case map_of ps key of None \<Rightarrow> ps @ [(key, new_product now key (ob_profile ob))] | Some p \<Rightarrow> ps)"
    and m: "merged = merge_weaker_products key (ob_profile ob) now with_p"
    and p: "map_of merged key = Some p"
    and ps': "ps' = refresh_related_identities (AList.update key
        (observe_product now ob (product_key (ob_profile ob)) vk build_id artifact source p) merged)" .
  have "memory_bounded with_p"
    using assms(2)
    by (auto simp: w memory_bounded_def new_product_def product_bounded_def split: option.split)
  then have b: "memory_bounded merged" unfolding m by (rule merge_bounded)
  then have "product_bounded p"
    using p unfolding memory_bounded_def by (rule all_lookup)
  then show ?thesis
    using b unfolding ps' by (intro refresh_bounded) (simp add: memory_bounded_def all_update product_bounded_observe)
qed

lemma pm_demo_bounded: "memory_bounded pm_demo_products"
  by (simp add: memory_bounded_def product_bounded_def pm_demo_products_def pm_demo_weak_def new_product_def)

theorem recording_keeps_bounds_witness:
  "\<exists>key vk ps'. record_observation (\<lambda>x. x) ''t'' pm_demo_observation pm_demo_products = Inr (key, vk, ps') \<and> memory_bounded ps'"
proof -
  obtain key vk ps' where r: "record_observation (\<lambda>x. x) ''t'' pm_demo_observation pm_demo_products = Inr (key, vk, ps')"
    using pm_demo_recorded by blast
  from recording_keeps_bounds [OF r pm_demo_bounded] r show ?thesis by blast
qed

end
