(* ===== verification/Model_Router.thy ===== *)
theory Model_Router
  imports Host_Tools
begin

text \<open>
  \<open>app/core/model_router.py\<close>: which model is asked for a task. The environment is a map from
  variables to values; the installed models are the first words of the lines of \<open>ollama list\<close>.
  A role is a string, as in the source; \<open>routed_roles\<close> lists the ones the router knows.
\<close>

section \<open>Roles\<close>

definition routed_roles :: "string list" where
  "routed_roles = [''fast_triage'', ''general_reasoning'', ''research'', ''coding'', ''frontier'', ''visual_inspection'']"

definition visual_markers :: "string list" where
  "visual_markers = [''vision'', ''visual'', ''screenshot'', ''ocr'', ''image'', ''ui_inspection'']"

record routed_task =
  rt_task_type :: string
  rt_risk :: string
  rt_needs_repo_edit :: bool
  rt_architecture_level :: bool
  rt_repetitive :: bool

definition role_for_task :: "routed_task \<Rightarrow> string" where
  "role_for_task t =
     (let risk = lower (rt_risk t); task = lower (rt_task_type t) in
      if rt_needs_repo_edit t then ''coding''
      else if list_ex (contains task) visual_markers then ''visual_inspection''
      else if rt_architecture_level t \<or> risk \<in> set [''high'', ''critical''] then ''frontier''
      else if contains task ''research'' \<or> contains task ''source'' \<or> contains task ''firmware'' \<or> contains task ''blocker''
           then ''research''
      else if rt_repetitive t \<or> risk = ''low'' then ''fast_triage''
      else ''general_reasoning'')"

section \<open>The router\<close>

definition DEFAULT_FAST_MODEL :: string where "DEFAULT_FAST_MODEL = ''qwen3:8b''"
definition DEFAULT_REASONING_MODEL :: string where "DEFAULT_REASONING_MODEL = ''gemma4:latest''"
definition DEFAULT_RESEARCH_MODEL :: string where "DEFAULT_RESEARCH_MODEL = ''deepseek-r1:14b''"
definition DEFAULT_FRONTIER_MODEL :: string where "DEFAULT_FRONTIER_MODEL = ''gpt-oss:20b''"
definition DEFAULT_VISION_MODEL :: string where "DEFAULT_VISION_MODEL = ''qwen3-vl:8b''"
definition DEFAULT_CODING_MODEL :: string where "DEFAULT_CODING_MODEL = ''qwen2.5-coder:14b''"
definition DEFAULT_LARGE_CODING_MODEL :: string where "DEFAULT_LARGE_CODING_MODEL = ''qwen3-coder:30b''"

type_synonym env = "(string \<times> string) list"

record model_router =
  mr_available_models :: "string set"
  mr_env :: env

record model_selection =
  ms_role :: string
  ms_model :: string
  ms_provider :: string
  ms_reason :: string
  ms_requested_model :: "string option"
  ms_available :: bool
  ms_source :: string

definition selection_as_dict :: "model_selection \<Rightarrow> jdict" where
  "selection_as_dict s =
     [(''role'', JStr (ms_role s)), (''provider'', JStr (ms_provider s)), (''model'', JStr (ms_model s)),
      (''available'', JBool (ms_available s)), (''requested_model'', jopt JStr (ms_requested_model s)),
      (''source'', JStr (ms_source s)), (''reason'', JStr (ms_reason s))]"

definition aider_model :: "model_selection \<Rightarrow> string" where
  "aider_model s =
     (if list_ex (starts_with (ms_model s)) [''ollama/'', ''ollama_chat/'', ''openai/'', ''anthropic/''] then ms_model s
      else ''ollama_chat/'' @ ms_model s)"

definition env_get :: "env \<Rightarrow> string \<Rightarrow> string \<Rightarrow> string" where
  "env_get e k dflt = (case map_of e k of None \<Rightarrow> dflt | Some v \<Rightarrow> v)"

definition env_set :: "env \<Rightarrow> string \<Rightarrow> bool" where
  "env_set e k \<longleftrightarrow> env_get e k [] \<noteq> []"

definition listed_model :: "string \<Rightarrow> string option" where
  "listed_model line =
     (case split_ws line of [] \<Rightarrow> None | w # ws \<Rightarrow> if lower w = ''name'' then None else Some w)"

definition from_ollama_list :: "string \<Rightarrow> env \<Rightarrow> model_router" where
  "from_ollama_list output e =
     \<lparr>mr_available_models = set (List.map_filter listed_model (splitlines output)), mr_env = e\<rparr>"

definition discover :: "host \<Rightarrow> env \<Rightarrow> model_router proc" where
  "discover h e tr =
     (let executable = OTHER (env_get e ''FORGEOS_OLLAMA_EXECUTABLE'' ''ollama'');
          none = \<lparr>mr_available_models = {}, mr_env = e\<rparr>; cmd = (executable, [''list'']) in
      if \<not> h_installed h executable then (none, tr)
      else if h_times_out h tr cmd then (none, tr @ [cmd])
      else let (c, tr') = issue h cmd tr
           in (if cp_returncode c \<noteq> 0 then none else from_ollama_list (cp_stdout c) e, tr'))"

definition base_model :: "model_router \<Rightarrow> string" where
  "base_model r = env_get (mr_env r) ''FORGEOS_OLLAMA_MODEL'' DEFAULT_REASONING_MODEL"

definition role_env :: "(string \<times> string) list" where
  "role_env =
     [(''fast_triage'', ''FORGEOS_FAST_MODEL''), (''general_reasoning'', ''FORGEOS_REASONING_MODEL''),
      (''research'', ''FORGEOS_RESEARCH_MODEL''), (''coding'', ''FORGEOS_CODING_MODEL''),
      (''frontier'', ''FORGEOS_FRONTIER_MODEL''), (''visual_inspection'', ''FORGEOS_VISION_MODEL'')]"

definition env_candidate :: "env \<Rightarrow> string \<Rightarrow> (string \<times> string) list" where
  "env_candidate e k = (if env_set e k then [(env_get e k [], k)] else [])"

definition default_candidates :: "env \<Rightarrow> string \<Rightarrow> (string \<times> string) list" where
  "default_candidates e role =
     (if role = ''fast_triage'' then [(DEFAULT_FAST_MODEL, ''default_fast'')]
      else if role = ''research''
           then [(DEFAULT_RESEARCH_MODEL, ''default_research''), (DEFAULT_FRONTIER_MODEL, ''default_frontier'')]
      else if role = ''frontier''
           then [(DEFAULT_FRONTIER_MODEL, ''default_frontier''), (DEFAULT_RESEARCH_MODEL, ''default_research'')]
      else if role = ''visual_inspection'' then [(DEFAULT_VISION_MODEL, ''default_vision'')]
      else if role = ''coding''
           then env_candidate e ''FORGEOS_AIDER_MODEL''
                  @ [(DEFAULT_CODING_MODEL, ''default_coding''), (DEFAULT_LARGE_CODING_MODEL, ''default_large_coding'')]
      else [])"

definition router_dedupe :: "(string \<times> string) list \<Rightarrow> (string \<times> string) list" where
  "router_dedupe cs = dedupe_by fst [] (filter (\<lambda>(model, source). model \<noteq> []) cs)"

definition candidates :: "model_router \<Rightarrow> string \<Rightarrow> (string \<times> string) list" where
  "candidates r role =
     (let e = mr_env r in
      router_dedupe
        ((case map_of role_env role of None \<Rightarrow> [] | Some k \<Rightarrow> env_candidate e k)
         @ default_candidates e role
         @ (if role = ''frontier'' then env_candidate e ''FORGEOS_REASONING_MODEL'' else [])
         @ [(base_model r, if env_set e ''FORGEOS_OLLAMA_MODEL'' then ''FORGEOS_OLLAMA_MODEL'' else ''default_reasoning'')]))"

definition plain_model_name :: "string \<Rightarrow> string" where
  "plain_model_name model =
     (if starts_with model ''ollama_chat/'' then drop (length ''ollama_chat/'') model
      else if starts_with model ''ollama/'' then drop (length ''ollama/'') model
      else model)"

definition is_available :: "model_router \<Rightarrow> string \<Rightarrow> bool" where
  "is_available r model \<longleftrightarrow>
     starts_with model ''openai/'' \<or> starts_with model ''anthropic/'' \<or> plain_model_name model \<in> mr_available_models r"

definition provider_for :: "string \<Rightarrow> string \<Rightarrow> string" where
  "provider_for model source =
     (if source = ''FORGEOS_AIDER_MODEL'' then ''aider''
      else if starts_with model ''openai/'' then ''openai''
      else if starts_with model ''anthropic/'' then ''anthropic''
      else ''ollama'')"

definition selection_reason :: "string \<Rightarrow> string \<Rightarrow> string \<Rightarrow> string \<Rightarrow> string" where
  "selection_reason role model source requested =
     (if starts_with source ''FORGEOS_'' then ''`'' @ model @ ''` was selected for '' @ role @ '' from `'' @ source @ ''`.''
      else if model \<noteq> requested
           then ''`'' @ requested @ ''` was unavailable, so `'' @ model @ ''` was selected for '' @ role @ ''.''
      else ''`'' @ model @ ''` is the default installed model for '' @ role @ ''.'')"

text \<open>
  Without a candidate the base model is empty, so the requested model is the empty string and
  its source the default.
\<close>

definition router_select :: "model_router \<Rightarrow> string \<Rightarrow> routed_task \<Rightarrow> model_selection" where
  "router_select r role task =
     (let normalized = (if role = [] then role_for_task task else role);
          cs = candidates r normalized;
          fallback = (case cs of [] \<Rightarrow> base_model r | (m, s) # _ \<Rightarrow> m);
          fallback_source = (case cs of [] \<Rightarrow> ''default'' | (m, s) # _ \<Rightarrow> s)
      in case find (\<lambda>(m, s). is_available r m) cs of
           Some (m, s) \<Rightarrow>
             \<lparr>ms_role = normalized, ms_model = m, ms_provider = provider_for m s,
              ms_reason = selection_reason normalized m s fallback,
              ms_requested_model = Some fallback, ms_available = True, ms_source = s\<rparr>
         | None \<Rightarrow>
             \<lparr>ms_role = normalized, ms_model = fallback, ms_provider = provider_for fallback fallback_source,
              ms_reason = ''No installed Ollama model matched the '' @ normalized @ '' route; ForgeOS will attempt `''
                @ fallback @ ''` and report adapter availability separately.'',
              ms_requested_model = (if cs = [] then None else Some fallback),
              ms_available = False, ms_source = fallback_source\<rparr>)"

definition select_for_task :: "model_router \<Rightarrow> routed_task \<Rightarrow> model_selection" where
  "select_for_task r task = router_select r (role_for_task task) task"

definition default_task :: routed_task where
  "default_task = \<lparr>rt_task_type = [], rt_risk = ''low'', rt_needs_repo_edit = False, rt_architecture_level = False,
     rt_repetitive = False\<rparr>"

definition configured_routes :: "model_router \<Rightarrow> (string \<times> jdict) list" where
  "configured_routes r = map (\<lambda>role. (role, selection_as_dict (router_select r role default_task))) routed_roles"

section \<open>What is selected\<close>

lemma role_for_task_routed: "role_for_task t \<in> set routed_roles"
  by (simp add: role_for_task_def routed_roles_def Let_def)

lemma router_dedupe_nonempty: "(m, s) \<in> set (router_dedupe cs) \<Longrightarrow> m \<noteq> []"
  using dedupe_by_subset [of fst "[]" "filter (\<lambda>(m, s). m \<noteq> []) cs"] by (auto simp: router_dedupe_def)

lemma router_dedupe_models: "fst ` set (router_dedupe cs) = fst ` set cs - {[]}"
  by (auto simp: router_dedupe_def dedupe_by_set image_iff)

lemma candidates_distinct: "distinct (map fst (candidates r role))"
  by (simp add: candidates_def Let_def router_dedupe_def dedupe_by_distinct)

lemma base_is_candidate: "base_model r \<noteq> [] \<Longrightarrow> base_model r \<in> fst ` set (candidates r role)"
  by (simp add: candidates_def Let_def router_dedupe_models)

lemma candidates_nonempty: "(m, s) \<in> set (candidates r role) \<Longrightarrow> m \<noteq> []"
  unfolding candidates_def Let_def by (rule router_dedupe_nonempty)

text \<open>The preference order: candidates that come before the selected one are not available.\<close>

definition first_available :: "model_router \<Rightarrow> (string \<times> string) list \<Rightarrow> string \<Rightarrow> string \<Rightarrow> bool" where
  "first_available r cs m s \<longleftrightarrow>
     (\<exists>before after. cs = before @ (m, s) # after \<and> list_all (\<lambda>(m', s'). \<not> is_available r m') before \<and> is_available r m)"

lemma find_first_available:
  "find (\<lambda>(m, s). is_available r m) cs = Some (m, s) \<longleftrightarrow> first_available r cs m s"
proof (induction cs)
  case Nil
  then show ?case by (simp add: first_available_def)
next
  case (Cons c cs)
  obtain m0 s0 where c: "c = (m0, s0)" by force
  show ?case
  proof (cases "is_available r m0")
    case True
    have "first_available r (c # cs) m s \<longleftrightarrow> m = m0 \<and> s = s0"
      using True unfolding first_available_def c
      by (auto simp: Cons_eq_append_conv intro: exI [of _ "[]"])
    then show ?thesis using True c by auto
  next
    case False
    have "first_available r (c # cs) m s \<longleftrightarrow> first_available r cs m s"
    proof
      assume "first_available r (c # cs) m s"
      then show "first_available r cs m s"
        using False unfolding first_available_def c by (auto simp: Cons_eq_append_conv)
    next
      assume "first_available r cs m s"
      then obtain before after where "cs = before @ (m, s) # after"
        "list_all (\<lambda>(m', s'). \<not> is_available r m') before" "is_available r m"
        unfolding first_available_def by blast
      then show "first_available r (c # cs) m s"
        using False unfolding first_available_def c by (intro exI [of _ "(m0, s0) # before"] exI [of _ after]) simp
    qed
    then show ?thesis using False c Cons.IH by simp
  qed
qed

lemma find_none_available:
  "find (\<lambda>(m, s). is_available r m) cs = None \<longleftrightarrow> list_all (\<lambda>(m, s). \<not> is_available r m) cs"
  by (auto simp: find_None_iff list_all_iff)

text \<open>
  A selection follows the preference order: it is marked available exactly when some
  candidate is, and then it is the first available candidate with its source; otherwise it is
  the first candidate of the route.
\<close>

theorem selection_follows_preferences:
  shows "(let s = router_select r role task; cs = candidates r (ms_role s) in
    if ms_available s then first_available r cs (ms_model s) (ms_source s)
    else list_all (\<lambda>(m, src). \<not> is_available r m) cs
         \<and> ms_model s = (case cs of [] \<Rightarrow> base_model r | c # _ \<Rightarrow> fst c))"
proof -
  let ?role = "if role = [] then role_for_task task else role"
  let ?cs = "candidates r ?role"
  show ?thesis
  proof (cases "find (\<lambda>(m, s). is_available r m) ?cs")
    case None
    then show ?thesis
      using find_none_available [of r ?cs]
      by (simp add: router_select_def Let_def split: list.split)
  next
    case (Some c)
    then have "first_available r ?cs (fst c) (snd c)"
      by (simp flip: find_first_available)
    with Some show ?thesis by (simp add: router_select_def Let_def split_def)
  qed
qed



text \<open>
  An empty \<open>FORGEOS_OLLAMA_MODEL\<close> is not replaced by the default, so a general task can be given
  the model with the empty name.
\<close>

lemma empty_base_model:
  "ms_model (router_select \<lparr>mr_available_models = {}, mr_env = [(''FORGEOS_OLLAMA_MODEL'', [])]\<rparr>
     ''general_reasoning'' default_task) = []"
  by code_simp

end
