(* ===== verification/Runtime_Models.thy ===== *)
theory Runtime_Models
  imports Models
begin

text \<open>
  The dataclasses of \<open>app/core/models.py\<close> that describe a runtime cycle and are written to its
  reports, with \<open>to_dict\<close> of each. A field that the program fills from a dictionary without
  looking at it is a JSON value. The runtime planner always gives a preview and a verification.
\<close>

record worker_route_decision =
  wd_task_type :: string
  wd_selected_worker :: worker_role
  wd_selected_tier :: worker_tier
  wd_rationale :: string
  wd_adapter_name :: string
  wd_fallback_worker :: "worker_role option"
  wd_escalation_triggers :: "string list"
  wd_generated_at :: string

definition worker_route_decision_to_dict :: "worker_route_decision \<Rightarrow> json" where
  "worker_route_decision_to_dict r = JObj
     [(''task_type'', JStr (wd_task_type r)),
      (''selected_worker'', JStr (worker_role_value (wd_selected_worker r))),
      (''selected_tier'', JStr (worker_tier_value (wd_selected_tier r))),
      (''rationale'', JStr (wd_rationale r)),
      (''adapter_name'', JStr (wd_adapter_name r)),
      (''fallback_worker'', jopt (\<lambda>w. JStr (worker_role_value w)) (wd_fallback_worker r)),
      (''escalation_triggers'', jstrs (wd_escalation_triggers r)),
      (''generated_at'', JStr (wd_generated_at r))]"

record recommendation_option =
  ro_option_id :: json
  ro_label :: json
  ro_fit_score :: rat
  ro_rationale :: json
  ro_constraints :: json
  ro_evidence :: json

definition recommendation_option_to_dict :: "recommendation_option \<Rightarrow> json" where
  "recommendation_option_to_dict r = JObj
     [(''option_id'', ro_option_id r),
      (''label'', ro_label r),
      (''fit_score'', JFloat (ro_fit_score r)),
      (''rationale'', ro_rationale r),
      (''constraints'', ro_constraints r),
      (''evidence'', ro_evidence r)]"

record retry_telemetry =
  rl_attempts :: int
  rl_retry_budget :: int
  rl_repeated_failure :: bool
  rl_exhausted :: bool
  rl_last_error :: string
  rl_durations_ms :: "int list"

definition retry_telemetry_to_dict :: "retry_telemetry \<Rightarrow> json" where
  "retry_telemetry_to_dict r = JObj
     [(''attempts'', JInt (rl_attempts r)),
      (''retry_budget'', JInt (rl_retry_budget r)),
      (''repeated_failure'', JBool (rl_repeated_failure r)),
      (''exhausted'', JBool (rl_exhausted r)),
      (''last_error'', JStr (rl_last_error r)),
      (''durations_ms'', JList (map JInt (rl_durations_ms r)))]"

record worker_execution =
  we_worker :: string
  we_adapter_name :: string
  we_task_type :: string
  we_status :: string
  we_summary :: string
  we_command :: "string list"
  we_transcript_path :: string
  we_stdout :: string
  we_stderr :: string
  we_exit_code :: "int option"
  we_confidence :: rat
  we_escalation_triggers :: "string list"
  we_telemetry :: retry_telemetry
  we_structured_output :: json
  we_generated_at :: string

definition worker_execution_to_dict :: "worker_execution \<Rightarrow> json" where
  "worker_execution_to_dict r = JObj
     [(''worker'', JStr (we_worker r)),
      (''adapter_name'', JStr (we_adapter_name r)),
      (''task_type'', JStr (we_task_type r)),
      (''status'', JStr (we_status r)),
      (''summary'', JStr (we_summary r)),
      (''command'', jstrs (we_command r)),
      (''transcript_path'', JStr (we_transcript_path r)),
      (''stdout'', JStr (we_stdout r)),
      (''stderr'', JStr (we_stderr r)),
      (''exit_code'', jopt JInt (we_exit_code r)),
      (''confidence'', JFloat (we_confidence r)),
      (''escalation_triggers'', jstrs (we_escalation_triggers r)),
      (''telemetry'', retry_telemetry_to_dict (we_telemetry r)),
      (''structured_output'', we_structured_output r),
      (''generated_at'', JStr (we_generated_at r))]"

record preview_execution =
  pe_status :: string
  pe_summary :: string
  pe_mode :: string
  pe_generated_files :: "string list"
  pe_steps :: "jdict list"
  pe_capability_matrix :: jdict
  pe_generated_at :: string

definition preview_execution_to_dict :: "preview_execution \<Rightarrow> json" where
  "preview_execution_to_dict r = JObj
     [(''status'', JStr (pe_status r)),
      (''summary'', JStr (pe_summary r)),
      (''mode'', JStr (pe_mode r)),
      (''generated_files'', jstrs (pe_generated_files r)),
      (''steps'', JList (map JObj (pe_steps r))),
      (''capability_matrix'', JObj (pe_capability_matrix r)),
      (''generated_at'', JStr (pe_generated_at r))]"

record verification_execution =
  ve_status :: string
  ve_summary :: string
  ve_checkpoints :: "jdict list"
  ve_interactive_checks :: "jdict list"
  ve_generated_files :: "string list"
  ve_generated_at :: string

definition verification_execution_to_dict :: "verification_execution \<Rightarrow> json" where
  "verification_execution_to_dict r = JObj
     [(''status'', JStr (ve_status r)),
      (''summary'', JStr (ve_summary r)),
      (''checkpoints'', JList (map JObj (ve_checkpoints r))),
      (''interactive_checks'', JList (map JObj (ve_interactive_checks r))),
      (''generated_files'', jstrs (ve_generated_files r)),
      (''generated_at'', JStr (ve_generated_at r))]"

definition approval_gate_to_dict :: "approval_gate \<Rightarrow> json" where
  "approval_gate_to_dict r = JObj
     [(''action'', JStr (ag_action r)),
      (''allowed'', JBool (ag_allowed r)),
      (''requires_explicit_approval'', JBool (ag_requires_explicit_approval r)),
      (''reason'', JStr (ag_reason r)),
      (''missing_requirements'', jstrs (ag_missing_requirements r)),
      (''consequences'', jstrs (ag_consequences r)),
      (''generated_at'', JStr (ag_generated_at r))]"

record runtime_session_plan =
  rp_session_id :: string
  rp_phase :: runtime_phase
  rp_mission :: string
  rp_operator_summary :: json
  rp_recommended_use_case :: json
  rp_recommended_path :: json
  rp_end_product_brief :: jdict
  rp_worker_routes :: "worker_route_decision list"
  rp_worker_executions :: "worker_execution list"
  rp_recommendation_options :: "recommendation_option list"
  rp_approval_gates :: "approval_gate list"
  rp_preview_execution :: preview_execution
  rp_verification_execution :: verification_execution
  rp_evidence :: "string list"
  rp_next_actions :: "json list"
  rp_hard_stops :: "json list"
  rp_generated_at :: string

definition runtime_session_plan_to_dict :: "runtime_session_plan \<Rightarrow> json" where
  "runtime_session_plan_to_dict r = JObj
     [(''session_id'', JStr (rp_session_id r)),
      (''phase'', JStr (runtime_phase_value (rp_phase r))),
      (''mission'', JStr (rp_mission r)),
      (''operator_summary'', rp_operator_summary r),
      (''recommended_use_case'', rp_recommended_use_case r),
      (''recommended_path'', rp_recommended_path r),
      (''end_product_brief'', JObj (rp_end_product_brief r)),
      (''worker_routes'', JList (map worker_route_decision_to_dict (rp_worker_routes r))),
      (''worker_executions'', JList (map worker_execution_to_dict (rp_worker_executions r))),
      (''recommendation_options'', JList (map recommendation_option_to_dict (rp_recommendation_options r))),
      (''approval_gates'', JList (map approval_gate_to_dict (rp_approval_gates r))),
      (''preview_execution'', preview_execution_to_dict (rp_preview_execution r)),
      (''verification_execution'', verification_execution_to_dict (rp_verification_execution r)),
      (''evidence'', jstrs (rp_evidence r)),
      (''next_actions'', JList (rp_next_actions r)),
      (''hard_stops'', JList (rp_hard_stops r)),
      (''generated_at'', JStr (rp_generated_at r))]"

end
