(* ===== verification/Runtime_Planner.thy ===== *)
theory Runtime_Planner
  imports Runtime_Models Session_Manager
begin

text \<open>
  \<open>app/core/runtime_planner.py\<close>: the plan of a runtime cycle and the proposal shown to the
  operator, written to the session. Identifiers, paths and scores of a recommendation are strings
  and numbers, as the recommender makes them; another value is an error here. Strings are Latin-1.
\<close>

section \<open>The phase\<close>

fun state_to_phase :: "session_state_name \<Rightarrow> runtime_phase option" where
  "state_to_phase INTAKE = Some RP_INTAKE"
| "state_to_phase ACCESS_ENABLEMENT = Some RP_ACCESS"
| "state_to_phase DEEP_SCAN = Some RP_DISCOVERY"
| "state_to_phase DISCOVER = Some RP_DISCOVERY"
| "state_to_phase ASSESS = Some RP_DISCOVERY"
| "state_to_phase RECOMMEND = Some RP_RECOMMENDATION"
| "state_to_phase BACKUP_PLAN = Some RP_BACKUP"
| "state_to_phase BACKUP_READY = Some RP_BACKUP"
| "state_to_phase PREVIEW_BUILD = Some RP_PREVIEW"
| "state_to_phase PREVIEW_REVIEW = Some RP_PREVIEW"
| "state_to_phase INTERACTIVE_VERIFY = Some RP_VERIFICATION"
| "state_to_phase INSTALL_APPROVAL = Some RP_INSTALL"
| "state_to_phase FLASH_PREP = Some RP_INSTALL"
| "state_to_phase FLASH = Some RP_INSTALL"
| "state_to_phase POST_INSTALL_VERIFY = Some RP_POST_INSTALL"
| "state_to_phase COMPLETE = Some RP_COMPLETE"
| "state_to_phase BLOCKED = Some RP_BLOCKED"
| "state_to_phase _ = None"

record cycle =
  cy_state :: session_state
  cy_assessment :: jdict
  cy_build_plan :: jdict
  cy_backup_plan :: jdict
  cy_blocker :: jdict
  cy_worker_routes :: "worker_route_decision list"
  cy_worker_executions :: "worker_execution list"
  cy_install_gate :: approval_gate
  cy_runtime_gate :: approval_gate
  cy_recommendation :: jdict
  cy_preview :: preview_execution
  cy_verification :: verification_execution
  cy_governance_summary :: jdict
  cy_self_improvement_summary :: jdict
  cy_deliberation :: jdict

definition computed_phase :: "cycle \<Rightarrow> runtime_phase" where
  "computed_phase c =
     (let support_status = dget (cy_assessment c) ''support_status'' (JStr ''unknown'');
          recommended_path = dget (cy_build_plan c) ''os_path'' (JStr ''research_only_path'') in
      if support_status = JStr ''blocked'' then RP_BLOCKED
      else if recommended_path = JStr ''research_only_path'' \<or> support_status = JStr ''research_only''
           then RP_RECOMMENDATION
      else if \<not> truthy (dget0 (cy_backup_plan c) ''backup_bundle_path'') then RP_BACKUP
      else if pe_status (cy_preview c) \<noteq> ''executed'' then RP_PREVIEW
      else if ve_status (cy_verification c) \<noteq> ''executed'' then RP_VERIFICATION
      else if ag_missing_requirements (cy_install_gate c) \<noteq> [] \<or> \<not> ag_allowed (cy_install_gate c)
           then RP_VERIFICATION
      else RP_INSTALL)"

definition phase_for_state :: "cycle \<Rightarrow> runtime_phase" where
  "phase_for_state c =
     (case state_to_phase (ss_state (cy_state c)) of
        None \<Rightarrow> computed_phase c
      | Some phase \<Rightarrow> if phase \<in> {RP_BLOCKED, RP_DISCOVERY} then computed_phase c else phase)"

section \<open>The proposal\<close>

record proposal_feature =
  ft_id :: string
  ft_label :: string
  ft_reason :: string

definition proposed :: "string \<Rightarrow> string \<Rightarrow> string \<Rightarrow> proposal_feature" where
  "proposed i l r = \<lparr>ft_id = i, ft_label = l, ft_reason = r\<rparr>"

definition feature_json :: "proposal_feature \<Rightarrow> json" where
  "feature_json f = JObj [(''id'', JStr (ft_id f)), (''label'', JStr (ft_label f)), (''reason'', JStr (ft_reason f))]"

definition included_map :: "string \<Rightarrow> proposal_feature list" where
  "included_map option_id =
     (if option_id = ''accessibility_focused_phone'' then
        [proposed ''simple_launcher'' ''Simplified launcher and larger touch targets'' ''Supports low-complexity daily use.'',
         proposed ''trusted_contacts'' ''Trusted-contact shortcuts'' ''Keeps key actions close at hand.'',
         proposed ''accessibility_toggles'' ''Accessibility quick toggles'' ''Reduces setup friction for assisted use.'']
      else if option_id = ''lightweight_custom_android'' then
        [proposed ''debloated_apps'' ''Debloated app set'' ''Keeps the device lighter and easier to maintain.'',
         proposed ''focused_home'' ''Focused home screen'' ''Reduces distractions and clutter.'',
         proposed ''recovery_entry'' ''Visible restore and recovery entry point'' ''Preserves reversibility.'']
      else if option_id = ''media_device'' then
        [proposed ''offline_media'' ''Offline media playback shell'' ''Matches the recommended use case.'',
         proposed ''large_controls'' ''Large playback and volume controls'' ''Improves clarity for shared-device use.'']
      else if option_id = ''home_control_panel'' then
        [proposed ''kiosk_mode'' ''Single-purpose kiosk shell'' ''Keeps the device task-specific.'',
         proposed ''control_tiles'' ''Large control tiles'' ''Improves wall-panel usability.'']
      else [])"

definition always_excluded :: "proposal_feature list" where
  "always_excluded =
     [proposed ''wipe_autostart'' ''Automatic wipe/install start'' ''Destructive execution must stay operator-gated.'',
      proposed ''lock_bypass'' ''Account, carrier, or ownership lock bypass''
        ''ForgeOS only plans lawful owner-authorized device work.'',
      proposed ''unlicensed_assets'' ''Unlicensed firmware, apps, or paid content''
        ''ForgeOS must use lawful source and install inputs.'']"

record feature_groups =
  fg_included :: "proposal_feature list"
  fg_optional :: "proposal_feature list"
  fg_excluded :: "proposal_feature list"

record preferences =
  pr_google :: string
  pr_requires_updates :: bool
  pr_prefers_lockdown :: bool
  pr_prefers_battery :: bool
  pr_end_product_brief_present :: bool

definition only_if :: "bool \<Rightarrow> 'a \<Rightarrow> 'a list" where
  "only_if b x = (if b then [x] else [])"

definition feature_groups_for_option :: "string \<Rightarrow> string \<Rightarrow> preferences \<Rightarrow> feature_groups" where
  "feature_groups_for_option option_id recommended_path p =
     (let keep = (pr_google p = ''keep_google_services''); reduce = (pr_google p = ''reduce_google_services'') in
      \<lparr>fg_included = included_map option_id
         @ (if keep then [proposed ''google_services'' ''Keep Google services compatibility'' ''Matches the selected service preference.'']
            else if reduce then []
            else [proposed ''minimize_google'' ''Remove Google services where feasible'' ''Matches the selected service preference.''])
         @ only_if (pr_requires_updates p)
             (proposed ''update_channel'' ''Preserve a reliable update path'' ''Matches the stated restore and maintenance requirements.'')
         @ only_if (pr_prefers_lockdown p)
             (proposed ''lockdown_defaults'' ''Hardened privacy and lockdown defaults'' ''Matches the safety-first profile.'')
         @ only_if (pr_prefers_battery p)
             (proposed ''battery_profile'' ''Battery-preserving runtime tuning'' ''Matches the long-battery-life preference.'')
         @ only_if (pr_end_product_brief_present p)
             (proposed ''end_product_brief'' ''Operator-defined end-product brief''
                ''Keeps path selection tied to the requested finished device role.''),
       fg_optional =
         [proposed ''operator_notes'' ''Pinned operator notes in the setup flow'' ''Helps explain the rehabilitation choices.'']
         @ only_if (\<not> keep \<and> reduce)
             (proposed ''reduced_google'' ''Reduce Google services footprint'' ''Can be accepted or rejected by the operator.'')
         @ only_if (\<not> pr_requires_updates p)
             (proposed ''manual_updates'' ''Manual update workflow'' ''Allowed because reliable updates are not mandatory.''),
       fg_excluded = always_excluded
         @ only_if (\<not> keep \<and> \<not> reduce)
             (proposed ''full_google_bundle'' ''Full Google bundle'' ''Excluded by the selected Google-services preference.'')
         @ only_if (recommended_path = ''research_only_path'')
             (proposed ''emulator_validated_build'' ''Emulator-validated install artifact''
                ''Not available yet while the session remains in research mode.'')\<rparr>)"

text \<open>\<open>set(review.get(k, []) or [])\<close>, used for membership of strings only.\<close>

definition hashable :: "json \<Rightarrow> bool" where
  "hashable v = (case v of JList _ \<Rightarrow> False | JObj _ \<Rightarrow> False | _ \<Rightarrow> True)"

definition id_set :: "jdict \<Rightarrow> string \<Rightarrow> json list res" where
  "id_set review k =
     (case jor (dget review k (JList [])) (JList []) of
        JList xs \<Rightarrow> if list_all hashable xs then Inr xs else Inl (TypeError ''unhashable'')
      | JStr s \<Rightarrow> Inr (map (\<lambda>c. JStr [c]) s)
      | JObj d \<Rightarrow> Inr (map (\<lambda>kv. JStr (fst kv)) d)
      | _ \<Rightarrow> Inl (TypeError ''not iterable''))"

definition named_in :: "json list \<Rightarrow> proposal_feature \<Rightarrow> bool" where
  "named_in ids f \<longleftrightarrow> JStr (ft_id f) \<in> set ids"

text \<open>The decision of the operator on the option that is selected.\<close>

definition accept_features :: "json list \<Rightarrow> feature_groups \<Rightarrow> feature_groups" where
  "accept_features ids g =
     (if ids = [] then g
      else let accepted = filter (named_in ids) (fg_included g @ fg_optional g) in
        g\<lparr>fg_included := (if accepted = [] then fg_included g else accepted),
          fg_optional := filter (\<lambda>f. \<not> named_in ids f) (fg_optional g)\<rparr>)"

definition reject_features :: "json list \<Rightarrow> feature_groups \<Rightarrow> feature_groups" where
  "reject_features ids g =
     (if ids = [] then g
      else g\<lparr>fg_excluded := fg_excluded g @ filter (named_in ids) (fg_included g @ fg_optional g),
             fg_included := filter (\<lambda>f. \<not> named_in ids f) (fg_included g),
             fg_optional := filter (\<lambda>f. \<not> named_in ids f) (fg_optional g)\<rparr>)"

record proposal_option =
  po_option_id :: string
  po_label :: json
  po_fit_score :: rat
  po_rationale :: json
  po_constraints :: json
  po_evidence :: json
  po_proposed_os_name :: string
  po_groups :: feature_groups

definition spaced :: "string \<Rightarrow> string" where
  "spaced s = replace_char (CHR ''_'') (CHR '' '') s"

definition option_os_name :: "string \<Rightarrow> string \<Rightarrow> string" where
  "option_os_name option_id recommended_path =
     (let option_name = (if option_id = [] then ''Unknown Option'' else title (strip (spaced option_id))) in
      if recommended_path = ''research_only_path'' then option_name @ '' concept on a hardened stock Android baseline''
      else if recommended_path \<in> set [''hardened_stock_path'', ''maintainable_hardened_path'']
           then ''Hardened stock Android for '' @ option_name
      else if recommended_path = ''aftermarket_path'' then ''Aftermarket Android build for '' @ option_name
      else if recommended_path = ''managed_family_path'' then ''Managed family build for '' @ option_name
      else if recommended_path = ''device_specific_path'' then ''Device-specific tuned build for '' @ option_name
      else option_name @ '' build on '' @ spaced recommended_path)"

definition proposal_summary :: "string \<Rightarrow> string \<Rightarrow> string" where
  "proposal_summary recommended_path recommended_use_case =
     (let option_name = spaced recommended_use_case in
      if recommended_path = ''research_only_path''
      then ''ForgeOS is presenting a concept proposal for '' @ option_name
             @ '' while transport, preview, and install readiness continue to mature.''
      else if recommended_path \<in> set [''hardened_stock_path'', ''maintainable_hardened_path'']
      then ''ForgeOS is proposing a hardened stock-derived build for '' @ option_name @ '' with rollback visibility preserved.''
      else if recommended_path \<in> set [''aftermarket_path'', ''managed_family_path'', ''device_specific_path'']
      then ''ForgeOS is proposing a customized build track for '' @ option_name
             @ '', still subject to preview and verification review.''
      else ''ForgeOS is proposing a reviewable build direction for '' @ option_name @ ''.'')"

text \<open>\<open>recommendation.get("options", [])\<close>, each with \<open>get\<close>.\<close>

definition raw_options :: "jdict \<Rightarrow> jdict list res" where
  "raw_options recommendation =
     bindr (as_list (dget recommendation ''options'' (JList [])))
       (mapr (\<lambda>v. case v of JObj d \<Rightarrow> Inr d | _ \<Rightarrow> Inl (AttributeError ''get'')))"

definition options_from_recommendation :: "jdict \<Rightarrow> recommendation_option list res" where
  "options_from_recommendation recommendation =
     bindr (raw_options recommendation) (mapr (\<lambda>d.
       bindr (as_float (dget d ''fit_score'' (JFloat 0))) (\<lambda>fit.
       Inr \<lparr>ro_option_id = dget d ''option_id'' (JStr ''unknown''), ro_label = dget d ''label'' (JStr ''Unknown option''),
            ro_fit_score = fit, ro_rationale = dget d ''rationale'' (JStr []),
            ro_constraints = dget d ''constraints'' (JList []), ro_evidence = dget d ''evidence'' (JList [])\<rparr>)))"

record review_choice =
  rc_selected :: json
  rc_accepted :: "json list"
  rc_rejected :: "json list"

definition proposed_option :: "string \<Rightarrow> preferences \<Rightarrow> review_choice \<Rightarrow> jdict \<Rightarrow> proposal_option res" where
  "proposed_option recommended_path prefs choice d =
     bindr (as_str (dget d ''option_id'' (JStr ''unknown''))) (\<lambda>option_id.
     bindr (as_float (dget d ''fit_score'' (JFloat 0))) (\<lambda>fit.
       let groups = feature_groups_for_option option_id recommended_path prefs;
           groups' = (if JStr option_id = rc_selected choice
                      then reject_features (rc_rejected choice) (accept_features (rc_accepted choice) groups) else groups)
       in Inr \<lparr>po_option_id = option_id, po_label = dget d ''label'' (JStr ''Unknown option''), po_fit_score = fit,
            po_rationale = dget d ''rationale'' (JStr []), po_constraints = dget d ''constraints'' (JList []),
            po_evidence = dget d ''evidence'' (JList []),
            po_proposed_os_name = option_os_name option_id recommended_path, po_groups = groups'\<rparr>))"

definition proposal_option_json :: "proposal_option \<Rightarrow> json" where
  "proposal_option_json opt = JObj
     [(''option_id'', JStr (po_option_id opt)), (''label'', po_label opt), (''fit_score'', JFloat (po_fit_score opt)),
      (''rationale'', po_rationale opt), (''constraints'', po_constraints opt), (''evidence'', po_evidence opt),
      (''proposed_os_name'', JStr (po_proposed_os_name opt)),
      (''included_features'', JList (map feature_json (fg_included (po_groups opt)))),
      (''optional_features'', JList (map feature_json (fg_optional (po_groups opt)))),
      (''excluded_features'', JList (map feature_json (fg_excluded (po_groups opt))))]"

definition end_product_brief :: "user_profile \<Rightarrow> jdict" where
  "end_product_brief u =
     [(''intended_user'', JStr (up_intended_user u)), (''desired_end_product'', JStr (up_desired_end_product u)),
      (''success_criteria'', JStr (up_success_criteria u)), (''lawful_use_attested'', JBool (up_lawful_use_attested u))]"

definition preferences_of :: "user_profile \<Rightarrow> os_goals \<Rightarrow> preferences" where
  "preferences_of u g =
     \<lparr>pr_google = google_services_preference_value (up_google_services_preference u),
      pr_requires_updates = og_requires_reliable_updates g, pr_prefers_lockdown = og_prefers_lockdown_defaults g,
      pr_prefers_battery = og_prefers_long_battery_life g,
      pr_end_product_brief_present = (strip (up_desired_end_product u) \<noteq> [])\<rparr>"

definition read_operator_review :: "string \<Rightarrow> disk \<Rightarrow> jdict res" where
  "read_operator_review dir dk =
     (case dk_read dk (sub dir ''runtime/operator-review.json'') of
        Some (FJson (JObj d)) \<Rightarrow> Inr d
      | Some (FJson _) \<Rightarrow> Inl (AttributeError ''get'')
      | _ \<Rightarrow> Inr [])"

record proposal =
  pp_recommended_use_case :: string
  pp_recommended_path :: string
  pp_brief :: jdict
  pp_proposed_os_name :: string
  pp_preview_status :: string
  pp_preview_mode :: string
  pp_summary :: string
  pp_options :: "proposal_option list"
  pp_selected_option_id :: json
  pp_selected :: "proposal_option option"

definition proposal_json :: "proposal \<Rightarrow> jdict" where
  "proposal_json p =
     [(''recommended_use_case'', JStr (pp_recommended_use_case p)), (''recommended_path'', JStr (pp_recommended_path p)),
      (''end_product_brief'', JObj (pp_brief p)), (''proposed_os_name'', JStr (pp_proposed_os_name p)),
      (''preview_status'', JStr (pp_preview_status p)), (''preview_mode'', JStr (pp_preview_mode p)),
      (''proposal_summary'', JStr (pp_summary p)),
      (''options'', JList (map proposal_option_json (pp_options p))),
      (''selected_option_id'', pp_selected_option_id p),
      (''selected_option'', case pp_selected p of None \<Rightarrow> JObj [] | Some opt \<Rightarrow> proposal_option_json opt)]"

definition make_proposal ::
    "user_profile \<Rightarrow> os_goals \<Rightarrow> jdict \<Rightarrow> jdict \<Rightarrow> jdict \<Rightarrow> preview_execution \<Rightarrow> proposal res" where
  "make_proposal user goals review build_plan recommendation preview =
     bindr (as_str (dget recommendation ''recommended_use_case'' (JStr ''research_hold''))) (\<lambda>use_case.
     bindr (as_str (dget build_plan ''os_path'' (JStr ''research_only_path''))) (\<lambda>path.
     bindr (id_set review ''accepted_feature_ids'') (\<lambda>accepted.
     bindr (id_set review ''rejected_feature_ids'') (\<lambda>rejected.
       let selected_id = jor (dget0 review ''selected_option_id'') (JStr use_case);
           choice = \<lparr>rc_selected = selected_id, rc_accepted = accepted, rc_rejected = rejected\<rparr> in
       bindr (bindr (raw_options recommendation) (mapr (proposed_option path (preferences_of user goals) choice))) (\<lambda>options.
         let selected = (case find (\<lambda>opt. JStr (po_option_id opt) = selected_id) options of
                           Some opt \<Rightarrow> Some opt | None \<Rightarrow> (case options of [] \<Rightarrow> None | opt # _ \<Rightarrow> Some opt));
             recommended = (case find (\<lambda>opt. po_option_id opt = use_case) options of Some opt \<Rightarrow> Some opt | None \<Rightarrow> selected);
             recommended_id = (case recommended of Some opt \<Rightarrow> po_option_id opt | None \<Rightarrow> use_case)
         in Inr \<lparr>pp_recommended_use_case = use_case, pp_recommended_path = path, pp_brief = end_product_brief user,
              pp_proposed_os_name = option_os_name recommended_id path,
              pp_preview_status = pe_status preview, pp_preview_mode = pe_mode preview,
              pp_summary = proposal_summary path recommended_id, pp_options = options,
              pp_selected_option_id = (case selected of Some opt \<Rightarrow> JStr (po_option_id opt) | None \<Rightarrow> selected_id),
              pp_selected = selected\<rparr>)))))"

definition proposal_manifest :: "string \<Rightarrow> string \<Rightarrow> cycle \<Rightarrow> disk \<Rightarrow> proposal res \<times> disk" where
  "proposal_manifest now dir c dk =
     (let (user, dk1) = load_user_profile now dir dk in
      case user of Inl e \<Rightarrow> (Inl e, dk1)
      | Inr user \<Rightarrow>
         let (goals, dk2) = load_os_goals now dir dk1 in
         (bindr goals (\<lambda>goals. bindr (read_operator_review dir dk2) (\<lambda>review.
            make_proposal user goals review (cy_build_plan c) (cy_recommendation c) (cy_preview c))), dk2))"


section \<open>The plan\<close>

definition operator_summary :: "cycle \<Rightarrow> json" where
  "operator_summary c =
     (let a = cy_assessment c; b = cy_blocker c in
      if dget0 (cy_build_plan c) ''os_path'' = JStr ''research_only_path'' \<or> dget0 a ''support_status'' = JStr ''research_only''
      then JStr ''ForgeOS is still researching the safest attainable path. Wipe and rebuild remain deferred until transport, feasibility, and restore confidence improve.''
      else if truthy (dget0 b ''blocker_type'') \<and> dget0 b ''blocker_type'' \<noteq> JStr ''none''
      then dget b ''summary'' (dget a ''summary'' (JStr ''ForgeOS is gathering more evidence.''))
      else if \<not> ag_allowed (cy_install_gate c)
      then JStr ''ForgeOS has a candidate plan, but destructive execution remains behind deterministic safety gates.''
      else dget a ''summary'' (JStr ''ForgeOS is ready to continue the rehabilitation flow.''))"

definition evidence_leaves :: "string list" where
  "evidence_leaves =
     [''device-profile.json'', ''session-state.json'', ''reports/assessment.json'', ''reports/engagement.json'',
      ''backup/backup-plan.json'', ''restore/restore-plan.json'', ''execution/flash-plan.json'',
      ''runtime/adapter-health.json'', ''runtime/preview/preview-execution.json'',
      ''runtime/verification/verification-execution.json'']"

definition evidence_paths :: "string \<Rightarrow> disk \<Rightarrow> string list" where
  "evidence_paths dir dk = filter (dk_exists dk) (map (sub dir) evidence_leaves)"

text \<open>\<open>dict(d.get(k) or {})\<close> and \<open>list(d.get(k) or [])\<close>.\<close>

definition dict_at :: "jdict \<Rightarrow> string \<Rightarrow> jdict res" where
  "dict_at d k = as_dict (jor (dget0 d k) (JObj []))"

definition list_at :: "jdict \<Rightarrow> string \<Rightarrow> json list res" where
  "list_at d k = as_list (jor (dget0 d k) (JList []))"

definition missing_requirements :: "cycle \<Rightarrow> json list" where
  "missing_requirements c = map JStr (ag_missing_requirements (cy_install_gate c))"

definition next_actions :: "cycle \<Rightarrow> json list res" where
  "next_actions c =
     bindr (dict_at (cy_build_plan c) ''starter_troubleshooting'') (\<lambda>starter_loop.
     bindr (list_at starter_loop ''next_actions'') (\<lambda>starter_actions.
     if starter_actions \<noteq> [] \<and> \<not> truthy (dget starter_loop ''model_worker_allowed'' (JBool True))
     then Inr (take 6 starter_actions)
     else
       bindr (dict_at (cy_deliberation c) ''action_plan'') (\<lambda>action_plan.
       bindr (list_at action_plan ''operator_questions'') (\<lambda>questions.
       bindr (dict_at action_plan ''execution_policy'') (\<lambda>execution_policy.
       if truthy (dget0 (cy_blocker c) ''machine_solvable'')
          \<and> truthy (dget execution_policy ''machine_remediation_allowed'' (JBool True))
       then Inr (take 6 ([JStr ''Continue local remediation through the routed worker.'',
                          JStr ''Validate the result and retry locally if the failure is recoverable.''] @ questions))
       else if questions \<noteq> [] then Inr (take 6 questions)
       else bindr (as_list (dget (cy_blocker c) ''user_steps'' (JList []))) (\<lambda>steps.
         Inr (take 6 (steps @ missing_requirements c))))))))"

definition hard_stops :: "cycle \<Rightarrow> json list" where
  "hard_stops c =
     only_if (\<not> truthy (dget0 (cy_blocker c) ''machine_solvable'') \<and> dget0 (cy_blocker c) ''blocker_type'' \<noteq> JStr ''none'')
       (dget (cy_blocker c) ''summary'' (JStr ''External action is required.''))
     @ missing_requirements c"

definition make_plan :: "string \<Rightarrow> string \<Rightarrow> user_profile \<Rightarrow> cycle \<Rightarrow> disk \<Rightarrow> runtime_session_plan res" where
  "make_plan now dir user c dk =
     bindr (options_from_recommendation (cy_recommendation c)) (\<lambda>options.
     bindr (next_actions c) (\<lambda>actions.
     Inr \<lparr>rp_session_id = ss_session_id (cy_state c), rp_phase = phase_for_state c,
          rp_mission = ''Rehabilitate this device into a safe, useful, restorable system with the least-risk path available.'',
          rp_operator_summary = operator_summary c,
          rp_recommended_use_case = dget (cy_recommendation c) ''recommended_use_case'' (JStr ''research_hold''),
          rp_recommended_path = dget (cy_build_plan c) ''os_path'' (JStr ''research_only_path''),
          rp_end_product_brief = end_product_brief user, rp_worker_routes = cy_worker_routes c,
          rp_worker_executions = cy_worker_executions c, rp_recommendation_options = options,
          rp_approval_gates = [cy_runtime_gate c, cy_install_gate c], rp_preview_execution = cy_preview c,
          rp_verification_execution = cy_verification c, rp_evidence = evidence_paths dir dk,
          rp_next_actions = actions, rp_hard_stops = hard_stops c, rp_generated_at = now\<rparr>))"

definition worker_routing :: "cycle \<Rightarrow> jdict" where
  "worker_routing c =
     [(''session_id'', JStr (ss_session_id (cy_state c))),
      (''routes'', JList (map worker_route_decision_to_dict (cy_worker_routes c))),
      (''executions'', JList (map worker_execution_to_dict (cy_worker_executions c)))]"

definition runtime_audit :: "user_profile \<Rightarrow> cycle \<Rightarrow> runtime_session_plan \<Rightarrow> jdict res" where
  "runtime_audit user c plan =
     bindr (as_dict (dget (cy_deliberation c) ''action_plan'' (JObj []))) (\<lambda>action_plan.
     Inr [(''session_id'', JStr (ss_session_id (cy_state c))),
          (''phase'', JStr (runtime_phase_value (rp_phase plan))),
          (''recommended_use_case'', rp_recommended_use_case plan),
          (''recommended_path'', rp_recommended_path plan),
          (''end_product_brief'', JObj (end_product_brief user)),
          (''hard_stops'', JList (rp_hard_stops plan)),
          (''next_actions'', JList (rp_next_actions plan)),
          (''governance_summary'', JObj (cy_governance_summary c)),
          (''self_improvement_summary'', JObj (cy_self_improvement_summary c)),
          (''product_memory'', dget (cy_build_plan c) ''product_memory'' (JObj [])),
          (''starter_troubleshooting'', dget (cy_build_plan c) ''starter_troubleshooting'' (JObj [])),
          (''deliberation'', JObj
             [(''selected_action'', dget0 action_plan ''selected_action''),
              (''rationale'', dget0 action_plan ''rationale''),
              (''operator_questions'', dget action_plan ''operator_questions'' (JList [])),
              (''files'', dget (cy_deliberation c) ''files'' (JObj []))])])"

text \<open>The documents are written one after the other, so an error leaves the ones before it.\<close>

definition materialize :: "string \<Rightarrow> string \<Rightarrow> cycle \<Rightarrow> disk \<Rightarrow> jdict res \<times> disk" where
  "materialize now dir c dk =
     (let (user, dk1) = load_user_profile now dir dk in
      case user of Inl e \<Rightarrow> (Inl e, dk1)
      | Inr user \<Rightarrow>
        (case make_plan now dir user c dk1 of Inl e \<Rightarrow> (Inl e, dk1)
         | Inr plan \<Rightarrow>
           let dk2 = dk_atomic (sub dir ''runtime/session-plan.json'') (runtime_session_plan_to_dict plan) dk1;
               (manifest, dk3) = proposal_manifest now dir c dk2 in
           (case manifest of Inl e \<Rightarrow> (Inl e, dk3)
            | Inr manifest \<Rightarrow>
              let dk4 = write_runtime_artifact dir ''runtime/proposal/proposal-manifest.json'' (proposal_json manifest) dk3;
                  dk5 = write_runtime_artifact dir ''runtime/worker-routing.json'' (worker_routing c) dk4 in
              (case runtime_audit user c plan of Inl e \<Rightarrow> (Inl e, dk5)
               | Inr audit \<Rightarrow>
                 let dk6 = write_runtime_artifact dir ''runtime/runtime-audit.json'' audit dk5 in
                 (bindr (as_dict (dget (cy_deliberation c) ''files'' (JObj []))) (\<lambda>files.
                    Inr (dmerge
                      [(''runtime_plan_path'', JStr (sub dir ''runtime/session-plan.json'')),
                       (''proposal_manifest_path'', JStr (sub dir ''runtime/proposal/proposal-manifest.json'')),
                       (''worker_routing_path'', JStr (sub dir ''runtime/worker-routing.json'')),
                       (''audit_log_path'', JStr (sub dir ''runtime/runtime-audit.json'')),
                       (''experiment_log_path'', JStr (sub dir ''reports/autonomous-experiments.json''))] files)), dk6)))))"

section \<open>The phase of a cycle\<close>

definition ready_to_install :: "cycle \<Rightarrow> bool" where
  "ready_to_install c \<longleftrightarrow>
     dget (cy_assessment c) ''support_status'' (JStr ''unknown'') \<notin> {JStr ''blocked'', JStr ''research_only''}
     \<and> dget (cy_build_plan c) ''os_path'' (JStr ''research_only_path'') \<noteq> JStr ''research_only_path''
     \<and> truthy (dget0 (cy_backup_plan c) ''backup_bundle_path'')
     \<and> pe_status (cy_preview c) = ''executed'' \<and> ve_status (cy_verification c) = ''executed''
     \<and> ag_allowed (cy_install_gate c) \<and> ag_missing_requirements (cy_install_gate c) = []"

lemma computed_install: "computed_phase c = RP_INSTALL \<longleftrightarrow> ready_to_install c"
  by (auto simp: computed_phase_def ready_to_install_def Let_def)


text \<open>The next actions are at most six.\<close>

lemma next_actions_bounded: "next_actions c = Inr xs \<Longrightarrow> length xs \<le> 6"
  by (auto simp: next_actions_def bindr_eq_Inr split: if_splits)

section \<open>What a proposal includes\<close>

definition included_ids :: "feature_groups \<Rightarrow> string set" where
  "included_ids g = ft_id ` set (fg_included g) \<union> ft_id ` set (fg_optional g)"

definition safety_ids :: "string list" where
  "safety_ids = map ft_id always_excluded"

definition safe_groups :: "feature_groups \<Rightarrow> bool" where
  "safe_groups g \<longleftrightarrow> included_ids g \<inter> set safety_ids = {} \<and> set always_excluded \<subseteq> set (fg_excluded g)"

lemma feature_fields [simp]: "ft_id (proposed i l r) = i"
  by (simp add: proposed_def)

lemma set_only_if [simp]: "set (only_if b x) = (if b then {x} else {})"
  by (cases b) (simp_all add: only_if_def)

lemma safety_ids_eq: "safety_ids = [''wipe_autostart'', ''lock_bypass'', ''unlicensed_assets'']"
  by (simp add: safety_ids_def always_excluded_def)

definition option_feature_ids :: "string list" where
  "option_feature_ids =
     [''simple_launcher'', ''trusted_contacts'', ''accessibility_toggles'', ''debloated_apps'', ''focused_home'',
      ''recovery_entry'', ''offline_media'', ''large_controls'', ''kiosk_mode'', ''control_tiles'']"

definition preference_feature_ids :: "string list" where
  "preference_feature_ids =
     [''google_services'', ''minimize_google'', ''update_channel'', ''lockdown_defaults'', ''battery_profile'',
      ''end_product_brief'', ''operator_notes'', ''reduced_google'', ''manual_updates'']"

lemma included_map_ids: "ft_id ` set (included_map i) \<subseteq> set option_feature_ids"
  by (cases "i = ''accessibility_focused_phone''"; cases "i = ''lightweight_custom_android''";
      cases "i = ''media_device''"; cases "i = ''home_control_panel''")
     (simp_all add: included_map_def option_feature_ids_def)

lemma ids_only_if [simp]: "ft_id ` set (only_if b f) = (if b then {ft_id f} else {})"
  by simp

lemma groups_ids:
  "included_ids (feature_groups_for_option i path p)
     \<subseteq> ft_id ` set (included_map i) \<union> set preference_feature_ids"
  by (auto simp: included_ids_def feature_groups_for_option_def Let_def image_Un preference_feature_ids_def)

lemma ids_apart:
  "set (option_feature_ids @ preference_feature_ids) \<inter> set safety_ids = {}"
  by (simp add: option_feature_ids_def preference_feature_ids_def safety_ids_eq)

lemma groups_safe: "safe_groups (feature_groups_for_option i path p)"
proof -
  have "included_ids (feature_groups_for_option i path p) \<subseteq> set (option_feature_ids @ preference_feature_ids)"
    using groups_ids [of i path p] included_map_ids [of i] by fastforce
  then have "included_ids (feature_groups_for_option i path p) \<inter> set safety_ids = {}"
    using ids_apart by blast
  moreover have "set always_excluded \<subseteq> set (fg_excluded (feature_groups_for_option i path p))"
    by (simp add: feature_groups_for_option_def Let_def)
  ultimately show ?thesis by (simp add: safe_groups_def)
qed

lemma accept_ids: "included_ids (accept_features ids g) \<subseteq> included_ids g"
  by (auto simp: accept_features_def included_ids_def Let_def)

lemma reject_ids: "included_ids (reject_features ids g) = included_ids g - {i. JStr i \<in> set ids}"
  by (auto simp: reject_features_def included_ids_def named_in_def)

lemma decided_excluded:
  "set (fg_excluded g) \<subseteq> set (fg_excluded (reject_features r (accept_features a g)))"
  by (auto simp: reject_features_def accept_features_def Let_def)

lemma decided_safe: "safe_groups g \<Longrightarrow> safe_groups (reject_features r (accept_features a g))"
  using accept_ids [of a g] decided_excluded [of g r a]
  by (auto simp: safe_groups_def reject_ids)

lemma proposed_groups:
  "proposed_option path prefs choice d = Inr opt \<Longrightarrow> po_groups opt =
     (let groups = feature_groups_for_option (po_option_id opt) path prefs in
      if JStr (po_option_id opt) = rc_selected choice
      then reject_features (rc_rejected choice) (accept_features (rc_accepted choice) groups) else groups)"
  by (auto simp: proposed_option_def bindr_eq_Inr Let_def)

lemma mapr_Inr_set: "mapr f xs = Inr ys \<Longrightarrow> y \<in> set ys \<Longrightarrow> \<exists>x\<in>set xs. f x = Inr y"
  by (induction xs arbitrary: ys) (auto simp: bindr_eq_Inr)

lemma proposal_options:
  assumes "make_proposal user goals review build_plan recommendation preview = Inr p" "opt \<in> set (pp_options p)"
  obtains path choice d rejected where "proposed_option path (preferences_of user goals) choice d = Inr opt"
    "id_set review ''rejected_feature_ids'' = Inr rejected" "rc_rejected choice = rejected"
    "rc_selected choice = jor (dget0 review ''selected_option_id'') (dget recommendation ''recommended_use_case'' (JStr ''research_hold''))"
proof -
  from assms(1) obtain use_case path accepted rejected options where
    uc: "as_str (dget recommendation ''recommended_use_case'' (JStr ''research_hold'')) = Inr use_case"
    and r: "id_set review ''rejected_feature_ids'' = Inr rejected"
    and opts: "bindr (raw_options recommendation) (mapr (proposed_option path (preferences_of user goals)
       \<lparr>rc_selected = jor (dget0 review ''selected_option_id'') (JStr use_case), rc_accepted = accepted, rc_rejected = rejected\<rparr>)) = Inr options"
    and p: "pp_options p = options"
    by (auto simp: make_proposal_def Let_def bindr_eq_Inr)
  from uc have ucj: "dget recommendation ''recommended_use_case'' (JStr ''research_hold'') = JStr use_case"
    by (simp add: as_str_def split: json.splits)
  from opts p assms(2) obtain d where d: "proposed_option path (preferences_of user goals)
       \<lparr>rc_selected = jor (dget0 review ''selected_option_id'') (JStr use_case), rc_accepted = accepted, rc_rejected = rejected\<rparr> d = Inr opt"
    by (auto simp: bindr_eq_Inr dest: mapr_Inr_set)
  show thesis by (rule that [OF d r]) (simp_all add: ucj)
qed

section \<open>A reviewed recommendation\<close>

definition review_demo :: jdict where
  "review_demo = [(''selected_option_id'', JStr ''media_device''), (''rejected_feature_ids'', JList [JStr ''offline_media''])]"

definition recommendation_demo :: jdict where
  "recommendation_demo = [(''recommended_use_case'', JStr ''media_device''),
     (''options'', JList [JObj [(''option_id'', JStr ''media_device''), (''fit_score'', JFloat (8 / 10))]])]"

definition preview_demo :: preview_execution where
  "preview_demo = \<lparr>pe_status = ''planned'', pe_summary = [], pe_mode = ''static'', pe_generated_files = [], pe_steps = [],
     pe_capability_matrix = [], pe_generated_at = ''t''\<rparr>"

lemma proposal_demo:
  "\<exists>p opt. make_proposal (default_user_profile ''s'' ''t'') (default_os_goals ''s'' ''t'') review_demo [] recommendation_demo
      preview_demo = Inr p \<and> opt \<in> set (pp_options p) \<and> po_option_id opt = ''media_device''"
  by (simp add: make_proposal_def review_demo_def recommendation_demo_def id_set_def raw_options_def proposed_option_def
      hashable_def Let_def)

text \<open>
  C33. Whatever the recommendation and the operator's review say, no option of a proposal includes
  or offers an automatic wipe, a lock bypass or unlicensed assets, and every option lists all
  three as excluded.
\<close>

theorem proposal_excludes_unsafe_features:
  assumes "make_proposal user goals review build_plan recommendation preview = Inr p"
  shows "list_all (\<lambda>opt. safe_groups (po_groups opt)) (pp_options p)"
proof -
  have "safe_groups (po_groups opt)" if "opt \<in> set (pp_options p)" for opt
    using assms that
    by (rule proposal_options) (simp add: proposed_groups Let_def groups_safe decided_safe)
  then show ?thesis by (simp add: list_all_iff)
qed

theorem proposal_excludes_unsafe_features_witness:
  "\<exists>p opt. make_proposal (default_user_profile ''s'' ''t'') (default_os_goals ''s'' ''t'') review_demo [] recommendation_demo
      preview_demo = Inr p \<and> opt \<in> set (pp_options p) \<and> safe_groups (po_groups opt)"
proof -
  obtain p opt where p: "make_proposal (default_user_profile ''s'' ''t'') (default_os_goals ''s'' ''t'') review_demo []
      recommendation_demo preview_demo = Inr p" and opt: "opt \<in> set (pp_options p)"
    using proposal_demo by blast
  from proposal_excludes_unsafe_features [OF p] opt have "safe_groups (po_groups opt)"
    unfolding list_all_iff by (rule bspec)
  with p opt show ?thesis by blast
qed

text \<open>
  A feature the operator rejected is neither included nor offered in the option the operator
  selected.
\<close>

theorem rejection_is_respected:
  assumes "make_proposal user goals review build_plan recommendation preview = Inr p"
    and "opt \<in> set (pp_options p)" and "dget0 review ''selected_option_id'' = JStr (po_option_id opt)" and "po_option_id opt \<noteq> []"
    and "id_set review ''rejected_feature_ids'' = Inr rejected" and "JStr i \<in> set rejected"
  shows "i \<notin> included_ids (po_groups opt)"
proof -
  from assms(1,2) obtain path choice d where opt: "proposed_option path (preferences_of user goals) choice d = Inr opt"
    and r: "rc_rejected choice = rejected" and s: "rc_selected choice = JStr (po_option_id opt)"
    using assms(3,4,5) by (elim proposal_options) (auto simp: jor_def)
  from opt s have "po_groups opt = reject_features rejected (accept_features (rc_accepted choice)
      (feature_groups_for_option (po_option_id opt) path (preferences_of user goals)))"
    by (simp add: proposed_groups Let_def r)
  with assms(6) show ?thesis by (simp add: reject_ids)
qed

theorem rejection_is_respected_witness:
  "\<exists>p opt. make_proposal (default_user_profile ''s'' ''t'') (default_os_goals ''s'' ''t'') review_demo [] recommendation_demo
      preview_demo = Inr p \<and> opt \<in> set (pp_options p) \<and> ''offline_media'' \<notin> included_ids (po_groups opt)"
proof -
  obtain p opt where p: "make_proposal (default_user_profile ''s'' ''t'') (default_os_goals ''s'' ''t'') review_demo []
      recommendation_demo preview_demo = Inr p" and opt: "opt \<in> set (pp_options p)" "po_option_id opt = ''media_device''"
    using proposal_demo by blast
  have "id_set review_demo ''rejected_feature_ids'' = Inr [JStr ''offline_media'']"
    "dget0 review_demo ''selected_option_id'' = JStr (po_option_id opt)"
    by (simp_all add: review_demo_def id_set_def hashable_def opt)
  from rejection_is_respected [OF p opt(1) this(2) _ this(1)] opt
  have "''offline_media'' \<notin> included_ids (po_groups opt)" by simp
  with p opt show ?thesis by blast
qed

text \<open>
  The Google-services preference of the operator has no effect on the proposal: the planner
  compares its value with strings that no preference has, so every option of every operator, also
  of one who keeps the services, removes them and excludes the full bundle.
\<close>

theorem google_preference_ignored:
  "(let g = feature_groups_for_option i path (preferences_of user goals) in
    ''minimize_google'' \<in> included_ids g \<and> ''google_services'' \<notin> included_ids g
    \<and> ''full_google_bundle'' \<in> ft_id ` set (fg_excluded g))"
proof -
  have "pr_google (preferences_of user goals) \<notin> set [''keep_google_services'', ''reduce_google_services'']"
    by (cases "up_google_services_preference user") (simp_all add: preferences_of_def)
  moreover have "''google_services'' \<notin> ft_id ` set (included_map i)"
    using included_map_ids [of i] by (auto simp: option_feature_ids_def)
  ultimately show ?thesis
    by (simp add: included_ids_def feature_groups_for_option_def Let_def image_Un)
qed

section \<open>The session of a cycle\<close>

text \<open>The writes of the planner are steps of the session that leave its state document alone.\<close>

definition quiet_step :: "string \<Rightarrow> disk \<Rightarrow> disk \<Rightarrow> bool" where
  "quiet_step dir dk dk' \<longleftrightarrow> (session_step dir)\<^sup>*\<^sup>* dk dk'
     \<and> fread (dk_files dk') (sub dir ''session-state.json'') = fread (dk_files dk) (sub dir ''session-state.json'')"

lemma quiet_refl [intro]: "quiet_step dir dk dk"
  by (simp add: quiet_step_def)

lemma quiet_trans: "quiet_step dir dk1 dk2 \<Longrightarrow> quiet_step dir dk2 dk3 \<Longrightarrow> quiet_step dir dk1 dk3"
  by (auto simp: quiet_step_def)

lemma quiet_artifact:
  assumes "starts_with rel ''runtime/''"
  shows "quiet_step dir dk (write_runtime_artifact dir rel d dk)"
proof -
  from assms obtain r where r: "rel = ''runtime/'' @ r" by (auto simp: starts_with_def prefix_def)
  then have "rel \<noteq> ''session-state.json''" by simp
  then show ?thesis
    using step_artifact [of rel dir dk d]
    by (auto simp: quiet_step_def write_runtime_artifact_def fread_atomic_write tmp_path_def r)
qed

lemma quiet_one:
  "session_step dir dk dk' \<Longrightarrow> fread (dk_files dk') (sub dir ''session-state.json'') = fread (dk_files dk) (sub dir ''session-state.json'')
    \<Longrightarrow> quiet_step dir dk dk'"
  by (simp add: quiet_step_def r_into_rtranclp)

lemma quiet_user_write: "quiet_step dir dk (write_user_profile now dir u dk)"
  by (rule quiet_one [OF step_profile]) (simp add: write_user_profile_def fread_fwrite)

lemma quiet_goals_write: "quiet_step dir dk (write_os_goals now dir g dk)"
  by (rule quiet_one [OF step_goals]) (simp add: write_os_goals_def fread_fwrite)

lemma quiet_user: "quiet_step dir dk (snd (load_user_profile now dir dk))"
  by (simp add: load_user_profile_def Let_def quiet_user_write quiet_refl)

lemma quiet_goals: "quiet_step dir dk (snd (load_os_goals now dir dk))"
  by (simp add: load_os_goals_def Let_def quiet_goals_write quiet_refl)

lemma quiet_manifest: "quiet_step dir dk (snd (proposal_manifest now dir c dk))"
  using quiet_user [of dir dk now] quiet_goals [of dir "snd (load_user_profile now dir dk)" now]
  by (auto simp: proposal_manifest_def Let_def split_def split: sum.split intro: quiet_trans)

lemma quiet_materialize: "quiet_step dir dk (snd (materialize now dir c dk))"
proof -
  let ?put = "\<lambda>rel d dk. write_runtime_artifact dir (''runtime/'' @ rel) d dk"
  have w: "quiet_step dir dk dk' \<Longrightarrow> quiet_step dir dk (?put rel d dk')" for rel d dk'
    by (rule quiet_trans [OF _ quiet_artifact]) (simp_all add: starts_with_def)
  have m: "quiet_step dir dk dk' \<Longrightarrow> quiet_step dir dk (snd (proposal_manifest now dir c dk'))" for dk'
    by (rule quiet_trans [OF _ quiet_manifest])
  have pw: "quiet_step dir dk dk' \<Longrightarrow> quiet_step dir dk (dk_atomic (dir @ ''/runtime/session-plan.json'')
      (runtime_session_plan_to_dict plan) dk')" for plan dk'
  proof -
    assume q: "quiet_step dir dk dk'"
    obtain d where d: "runtime_session_plan_to_dict plan = JObj d" by (simp add: runtime_session_plan_to_dict_def)
    from w [OF q, of "''session-plan.json''" d] show ?thesis by (simp add: write_runtime_artifact_def d)
  qed
  note quiet = quiet_user m pw w [of _ "''proposal/proposal-manifest.json''", simplified]
    w [of _ "''worker-routing.json''", simplified] w [of _ "''runtime-audit.json''", simplified]
  show ?thesis
    unfolding materialize_def Let_def split_def
    by (auto split: sum.split intro!: quiet)
qed

text \<open>
  C35. Writing the plan of a cycle is made of steps of the session and leaves its state as it was,
  on the error paths too; so the history of the session stays a legal path of the state machine.
\<close>

theorem materialize_keeps_the_session:
  "(session_step dir)\<^sup>*\<^sup>* dk (snd (materialize now dir c dk))
   \<and> load_session_state n (snd (materialize now dir c dk)) dir = load_session_state n dk dir"
  using quiet_materialize [of dir dk now c] by (auto simp: quiet_step_def intro: load_session_state_cong)

end
