(* ===== verification/Deliberation.thy ===== *)
theory Deliberation
  imports Session_Manager
begin

text \<open>
  \<open>app/core/deliberation.py\<close>: what is known of a session, the lessons drawn from earlier attempts,
  and the next action they allow. The directory of staged sources holds binary files, so its
  entries, in the order of their names, are given by the parameter \<open>listing\<close>, and \<open>dumps\<close> is the
  text of a journal line. The questions and rationales are the strings of the source.
\<close>

section \<open>Staged sources\<close>

text \<open>\<open>sf_content\<close> is \<open>None\<close> where reading the file raises an \<open>OSError\<close>.\<close>

record source_file =
  sf_name :: string
  sf_is_file :: bool
  sf_size :: nat
  sf_content :: "string option"

type_synonym listing = "string \<Rightarrow> source_file list option"

text \<open>\<open>Path.suffix\<close> and \<open>Path.stem\<close> of a file name.\<close>

definition path_suffix :: "string \<Rightarrow> string" where
  "path_suffix name =
     (let ext = rev (takeWhile (\<lambda>c. c \<noteq> CHR ''.'') (rev name)) in
      if CHR ''.'' \<in> set name \<and> ext \<noteq> [] \<and> length ext + 1 < length name then CHR ''.'' # ext else [])"

definition path_stem :: "string \<Rightarrow> string" where
  "path_stem name = take (length name - length (path_suffix name)) name"

definition plausible_suffixes :: "string list" where
  "plausible_suffixes = [''.zip'', ''.img'', ''.gz'', ''.tar'', ''.bin'']"

definition mock_markers :: "string list" where
  "mock_markers = [''mock content'', ''simulated firmware content'', ''placeholder'']"

definition plausible_file :: "source_file \<Rightarrow> bool" where
  "plausible_file f \<longleftrightarrow>
     sf_is_file f \<and> sf_name f \<noteq> ''README.md'' \<and> lower (path_suffix (sf_name f)) \<in> set plausible_suffixes
     \<and> 1024 * 1024 \<le> sf_size f
     \<and> (case sf_content f of None \<Rightarrow> False
        | Some content \<Rightarrow> \<not> list_ex (contains (lower (take 256 content))) mock_markers)"

definition plausible_source_files :: "listing \<Rightarrow> string \<Rightarrow> string list" where
  "plausible_source_files listing dir =
     (case listing dir of None \<Rightarrow> [] | Some files \<Rightarrow> map (\<lambda>f. sub dir (sf_name f)) (filter plausible_file files))"

definition has_plausible_source_artifact :: "listing \<Rightarrow> string \<Rightarrow> bool" where
  "has_plausible_source_artifact listing dir =
     (case listing dir of None \<Rightarrow> False | Some files \<Rightarrow> list_ex plausible_file files)"

section \<open>What was tried before\<close>

definition read_json_dict :: "disk \<Rightarrow> string \<Rightarrow> jdict" where
  "read_json_dict dk p = (case dk_read dk p of Some (FJson (JObj d)) \<Rightarrow> d | _ \<Rightarrow> [])"

text \<open>Both counts walk back from the last entry.\<close>

fun count_repeated :: "json \<Rightarrow> json list \<Rightarrow> nat res" where
  "count_repeated bt [] = Inr 0"
| "count_repeated bt (c # cs) =
     bindr (jget c ''blocker_type'' JNull) (\<lambda>b. bindr (jget c ''advanced'' JNull) (\<lambda>a.
       if b \<noteq> bt \<or> a = JBool True then Inr 0 else bindr (count_repeated bt cs) (\<lambda>n. Inr (Suc n))))"

fun count_failed :: "json \<Rightarrow> json list \<Rightarrow> nat res" where
  "count_failed bt [] = Inr 0"
| "count_failed bt (e # es) =
     bindr (jget e ''blocker_before'' JNull) (\<lambda>b.
       if b \<noteq> bt then count_failed bt es
       else bindr (jget e ''advanced'' JNull) (\<lambda>a.
         if a = JBool True then Inr 0 else bindr (count_failed bt es) (\<lambda>n. Inr (Suc n))))"

definition entries_of :: "jdict \<Rightarrow> string \<Rightarrow> json list res" where
  "entries_of d k = as_list (jor (dget0 d k) (JList []))"

definition repeated_blocker_count :: "jdict \<Rightarrow> string \<Rightarrow> nat res" where
  "repeated_blocker_count retry_heat blocker_type =
     bindr (entries_of retry_heat ''cycles'') (\<lambda>cycles. count_repeated (JStr blocker_type) (rev cycles))"

definition failed_experiment_count :: "jdict \<Rightarrow> string \<Rightarrow> nat res" where
  "failed_experiment_count experiments blocker_type =
     bindr (entries_of experiments ''experiments'') (\<lambda>es. count_failed (JStr blocker_type) (rev es))"

section \<open>Lessons\<close>

datatype lesson = Missing_Repo_Tool | Repeated_Attempts | Real_Artifact_Required

fun lesson_id :: "lesson \<Rightarrow> string" where
  "lesson_id Missing_Repo_Tool = ''missing_android_repo_tool''"
| "lesson_id Repeated_Attempts = ''repeated_non_advancing_source_attempts''"
| "lesson_id Real_Artifact_Required = ''real_artifact_required''"

fun lesson_json :: "lesson \<Rightarrow> json" where
  "lesson_json Missing_Repo_Tool = JObj
     [(''id'', JStr ''missing_android_repo_tool''),
      (''summary'', JStr ''Local Android source builds cannot run until the host has the Android repo tool.''),
      (''behavior_change'', JStr ''Do not keep launching source-build remediation; ask for host setup or a staged artifact.'')]"
| "lesson_json Repeated_Attempts = JObj
     [(''id'', JStr ''repeated_non_advancing_source_attempts''),
      (''summary'', JStr ''Multiple experiments on this blocker were discarded without advancing the session.''),
      (''behavior_change'', JStr ''Require new evidence before another machine-remediation loop.'')]"
| "lesson_json Real_Artifact_Required = JObj
     [(''id'', JStr ''real_artifact_required''),
      (''summary'', JStr ''A real OTA, firmware archive, or partition image is required; mock files are not progress.''),
      (''behavior_change'', JStr ''Reject placeholder artifacts and keep install gates closed.'')]"

definition repo_tool_missing :: "json \<Rightarrow> bool" where
  "repo_tool_missing stderr \<longleftrightarrow> contains (lower (py_str stderr)) ''repo tool is required''"

definition source_transcript :: "string \<Rightarrow> disk \<Rightarrow> jdict" where
  "source_transcript dir dk = read_json_dict dk (sub dir ''runtime/build-from-source/build-transcript.json'')"

definition experiments_doc :: "string \<Rightarrow> disk \<Rightarrow> jdict" where
  "experiments_doc dir dk = read_json_dict dk (sub dir ''reports/autonomous-experiments.json'')"

definition derive_lessons :: "string \<Rightarrow> disk \<Rightarrow> jdict \<Rightarrow> jdict \<Rightarrow> lesson list res" where
  "derive_lessons dir dk blocker build_artifacts =
     bindr (failed_experiment_count (experiments_doc dir dk) (dstr blocker ''blocker_type'' ''none'')) (\<lambda>failed_same.
     bindr (as_dict (jor (dget0 build_artifacts ''details'') (JObj []))) (\<lambda>details.
     Inr ((if repo_tool_missing (dget (source_transcript dir dk) ''stderr'' (JStr [])) then [Missing_Repo_Tool] else [])
          @ (if 2 \<le> failed_same then [Repeated_Attempts] else [])
          @ (if truthy (dget0 details ''missing_requirements'') \<and> py_str (dget0 blocker ''blocker_type'') = ''source_blocker''
             then [Real_Artifact_Required] else []))))"

section \<open>The situation\<close>

text \<open>A value used with \<open>get\<close>.\<close>

definition getter :: "json \<Rightarrow> jdict res" where
  "getter v = (case v of JObj d \<Rightarrow> Inr d | _ \<Rightarrow> Inl (AttributeError ''get''))"


record observed =
  ob_profile :: device_profile
  ob_state :: session_state
  ob_assessment :: jdict
  ob_engagement :: jdict
  ob_build_plan :: jdict
  ob_build_artifacts :: jdict
  ob_blocker :: jdict
  ob_recommendation :: jdict
  ob_user :: user_profile
  ob_product_memory :: jdict

definition memory_facts :: "jdict \<Rightarrow> jdict res" where
  "memory_facts pm =
     bindr (jget (jor (dget0 pm ''product'') (JObj [])) ''observations'' JNull) (\<lambda>observations.
     bindr (jget (jor (dget0 pm ''product'') (JObj [])) ''reusable_guidance'' JNull) (\<lambda>guidance.
     bindr (jget (jor (dget0 pm ''version'') (JObj [])) ''lessons'' (JList [])) (\<lambda>lessons.
     Inr [(''product_key'', dget0 pm ''product_key''), (''version_key'', dget0 pm ''version_key''),
          (''observations'', jor observations (dget pm ''observations'' (JInt 0))),
          (''reusable_guidance'', jor guidance (dget pm ''reusable_guidance'' (JList []))),
          (''version_lessons'', lessons)])))"

definition device_facts :: "device_profile \<Rightarrow> jdict" where
  "device_facts p =
     [(''manufacturer'', jopt JStr (dp_manufacturer p)), (''model'', jopt JStr (dp_model p)),
      (''codename'', JStr (dp_device_codename p)), (''serial'', jopt JStr (dp_serial p)),
      (''form_factor'', JStr (device_form_factor_value (dp_form_factor p))),
      (''transport'', JStr (transport_value (dp_transport p)))]"

definition session_facts :: "session_state \<Rightarrow> jdict" where
  "session_facts st =
     [(''state'', JStr (session_state_name_value (ss_state st))),
      (''selected_strategy'', jopt JStr (ss_selected_strategy st)),
      (''remediation_iteration'', JInt (ss_remediation_iteration st))]"

definition staged_source_dir :: "string \<Rightarrow> disk \<Rightarrow> string" where
  "staged_source_dir dir dk =
     py_str (jor (dget0 (read_json_dict dk (sub dir ''runtime/build/artifact-manifest.json'')) ''source_dir'')
                 (JStr (sub dir ''artifacts/os-source'')))"

definition situation_facts :: "listing \<Rightarrow> string \<Rightarrow> disk \<Rightarrow> observed \<Rightarrow> jdict res" where
  "situation_facts listing dir dk ob =
     (let blocker_type = dstr (ob_blocker ob) ''blocker_type'' ''none''; transcript = source_transcript dir dk in
      bindr (repeated_blocker_count (read_json_dict dk (sub dir ''reports/retry-heat.json'')) blocker_type) (\<lambda>repeated.
      bindr (failed_experiment_count (experiments_doc dir dk) blocker_type) (\<lambda>failed.
      bindr (memory_facts (ob_product_memory ob)) (\<lambda>memory.
      Inr [(''device'', JObj (device_facts (ob_profile ob))),
           (''session'', JObj (session_facts (ob_state ob))),
           (''support_status'', dget0 (ob_assessment ob) ''support_status''),
           (''engagement_status'', dget0 (ob_engagement ob) ''engagement_status''),
           (''recommended_use_case'', dget0 (ob_recommendation ob) ''recommended_use_case''),
           (''recommended_path'', dget0 (ob_build_plan ob) ''os_path''),
           (''artifact_status'', dget0 (ob_build_artifacts ob) ''status''),
           (''plausible_source_files'', jstrs (plausible_source_files listing (staged_source_dir dir dk))),
           (''source_build_status'', dget0 transcript ''status''),
           (''source_build_error'', dget transcript ''stderr'' (JStr [])),
           (''blocker_type'', JStr blocker_type),
           (''blocker_machine_solvable'', JBool (truthy (dget0 (ob_blocker ob) ''machine_solvable''))),
           (''repeated_blocker_count'', JInt (int repeated)),
           (''failed_experiment_count'', JInt (int failed)),
           (''product_memory'', JObj memory)]))))"

text \<open>Values are compared as JSON values, as they are written and read in the same order.\<close>

definition fact_changes :: "jdict \<Rightarrow> jdict \<Rightarrow> json list" where
  "fact_changes previous current =
     take 12 (map (\<lambda>(k, v). JObj [(''field'', JStr k), (''from'', dget0 previous k), (''to'', v)])
                (filter (\<lambda>(k, v). dget0 previous k \<noteq> v) current))"

definition no_end_product :: "user_profile \<Rightarrow> bool" where
  "no_end_product u \<longleftrightarrow> strip (up_desired_end_product u) = []"

definition unknowns :: "jdict \<Rightarrow> observed \<Rightarrow> json list \<Rightarrow> string list" where
  "unknowns facts ob version_lessons =
     (case dp_model (ob_profile ob) of
        None \<Rightarrow> [''Exact model identity is not stable enough.'']
      | Some m \<Rightarrow> if m = [] \<or> lower m = ''unknown'' then [''Exact model identity is not stable enough.''] else [])
     @ (if \<not> truthy (dget0 facts ''plausible_source_files'') \<and> dget0 facts ''blocker_type'' = JStr ''source_blocker''
        then [''No real firmware, OTA, or image artifact has been staged.''] else [])
     @ (if repo_tool_missing (dget0 facts ''source_build_error'')
        then [''Android repo tool is missing, so local Android source builds cannot run.''] else [])
     @ map (\<lambda>lesson. ''Product memory: '' @ py_str lesson) (take 3 version_lessons)
     @ (if no_end_product (ob_user ob) then [''The operator has not fully described the desired end product.''] else [])"

definition facts_lessons :: "jdict \<Rightarrow> json res" where
  "facts_lessons facts = jget (dget facts ''product_memory'' (JObj [])) ''version_lessons'' JNull"

definition situation_of :: "listing \<Rightarrow> string \<Rightarrow> string \<Rightarrow> disk \<Rightarrow> observed \<Rightarrow> lesson list \<Rightarrow> jdict \<Rightarrow> jdict res" where
  "situation_of listing now dir dk ob lessons previous =
     bindr (situation_facts listing dir dk ob) (\<lambda>facts.
     bindr (facts_lessons facts) (\<lambda>vl.
     bindr (as_list (jor vl (JList []))) (\<lambda>version_lessons.
     bindr (getter (dget previous ''facts'' (JObj []))) (\<lambda>before.
     Inr [(''generated_at'', JStr now),
          (''mission'', JStr ''Save the connected device from the waste stream by producing a safe, useful, restorable configuration.''),
          (''facts'', JObj facts),
          (''unknowns'', jstrs (unknowns facts ob version_lessons)),
          (''active_blocker'', JObj (ob_blocker ob)),
          (''lessons_considered'', JList (map lesson_json lessons)),
          (''changes_since_last_cycle'', JList (fact_changes before facts))]))))"

section \<open>The action plan\<close>

definition considered_option :: "string \<Rightarrow> string \<Rightarrow> string \<Rightarrow> string \<Rightarrow> string \<Rightarrow> json" where
  "considered_option option_id action likely failure second_order = JObj
     [(''option_id'', JStr option_id), (''action'', JStr action), (''likely_outcome'', JStr likely),
      (''failure_mode'', JStr failure), (''second_order_consequence'', JStr second_order)]"

definition options_considered :: "json list" where
  "options_considered =
     [considered_option ''continue_remediation'' ''Run bounded machine remediation against the current blocker.''
        ''Useful only when the blocker has not already failed the same way.''
        ''Can waste time or duplicate generated artifacts if no new evidence exists.''
        ''Repeated bad retries pollute memory and make the agent look busy instead of useful.'',
      considered_option ''ask_operator'' ''Ask one targeted question or request one missing resource.''
        ''Clarifies the desired outcome or obtains a real firmware/source input.''
        ''Pauses autonomy if the question is too broad.''
        ''A precise question prevents destructive or irrelevant work.'',
      considered_option ''install_host_tool_or_stage_source''
        ''Stop generated remediation and address the missing host/source prerequisite.''
        ''Unblocks real source/build work when the operator installs `repo` or stages firmware.''
        ''Requires operator action outside A1 autonomy.''
        ''Prevents the agent from fabricating artifacts or hammering unsupported web paths.'']"

record action_plan =
  ap_selected_action :: string
  ap_rationale :: string
  ap_questions :: "string list"
  ap_machine_allowed :: bool

definition goal_stack :: "string list" where
  "goal_stack =
     [''Confirm the operator'' @ [CHR 0x27] @ ''s desired end product.'', ''Preserve backup and restore confidence.'',
      ''Establish a real artifact or source path.'', ''Preview and verify before any destructive install.'',
      ''Avoid repeated non-advancing work.'']"

definition action_plan_json :: "string \<Rightarrow> action_plan \<Rightarrow> jdict" where
  "action_plan_json now p =
     [(''generated_at'', JStr now),
      (''primary_goal'', JStr ''Produce a safe, useful, restorable device configuration from old hardware.''),
      (''goal_stack'', jstrs goal_stack),
      (''selected_action'', JStr (ap_selected_action p)), (''rationale'', JStr (ap_rationale p)),
      (''operator_questions'', jstrs (ap_questions p)),
      (''options_considered'', JList options_considered),
      (''execution_policy'', JObj
         [(''machine_remediation_allowed'', JBool (ap_machine_allowed p)),
          (''worker_mode'', JStr (if ap_machine_allowed p then ''bounded_remediation'' else ''research_and_operator_question'')),
          (''never_stage_mock_artifacts'', JBool True), (''requires_new_evidence_for_repeat'', JBool True)])]"

definition action_plan_of :: "jdict \<Rightarrow> lesson list \<Rightarrow> user_profile \<Rightarrow> action_plan res" where
  "action_plan_of situation lessons user =
     bindr (as_dict (dget situation ''facts'' (JObj []))) (\<lambda>facts.
     bindr (facts_lessons facts) (\<lambda>version_lessons.
     let lesson_ids = map lesson_id lessons;
         machine_solvable = truthy (dget0 facts ''blocker_machine_solvable'');
         no_tool = ''missing_android_repo_tool'' \<in> set lesson_ids;
         repeated = ''repeated_non_advancing_source_attempts'' \<in> set lesson_ids;
         questions =
           (if no_end_product user
            then [''What should this device become when it is done: media player, family tablet, control panel, backup phone, or something else?'']
            else [])
           @ (if dstr facts ''blocker_type'' ''none'' = ''source_blocker'' \<and> \<not> truthy (dget0 facts ''plausible_source_files'')
              then [''Can you stage a real firmware/OTA/image package for this exact device, or should ForgeOS prepare the host to build/source one?'']
              else [])
           @ (if no_tool
              then [''May I install/configure the Android `repo` tool for local source builds, or should we stay on firmware-staging only?'']
              else [])
     in Inr \<lparr>ap_selected_action =
                (if no_tool then ''install_host_tool_or_stage_source'' else if repeated then ''ask_operator''
                 else if machine_solvable then ''continue_remediation'' else ''observe_or_ask''),
              ap_rationale =
                (if no_tool then ''Local Android source build already failed because the `repo` tool is missing.''
                 else if repeated
                 then ''Repeated source acquisition attempts did not advance; the next useful step needs new evidence or a real artifact.''
                 else if truthy version_lessons
                 then ''Prior product/version memory is available and should constrain the next remediation attempt.''
                 else ''The blocker is machine-solvable and no learning rule blocks another bounded attempt.''),
              ap_questions = take 3 (dedupe questions),
              ap_machine_allowed = (machine_solvable \<and> \<not> no_tool \<and> \<not> repeated)\<rparr>))"

definition journal_entry :: "string \<Rightarrow> jdict \<Rightarrow> action_plan \<Rightarrow> jdict res" where
  "journal_entry now situation plan =
     bindr (as_dict (dget situation ''facts'' (JObj []))) (\<lambda>facts.
     Inr [(''timestamp'', JStr now), (''blocker_type'', dget0 facts ''blocker_type''),
          (''selected_action'', JStr (ap_selected_action plan)), (''rationale'', JStr (ap_rationale plan)),
          (''expected_evidence'', jstrs [''new plausible firmware/source artifact'', ''clear host prerequisite status'',
             ''operator answer to the highest-value question'']),
          (''stop_conditions'', jstrs [''same blocker repeats without new evidence'',
             ''generated artifact emits mock/placeholders'', ''destructive gate remains unmet''])])"

section \<open>A deliberation\<close>

record thought =
  th_situation :: jdict
  th_action_plan :: action_plan
  th_lessons :: "lesson list"
  th_journal_entry :: jdict
  th_files :: jdict

definition thought_json :: "string \<Rightarrow> thought \<Rightarrow> jdict" where
  "thought_json now t =
     [(''situation'', JObj (th_situation t)), (''action_plan'', JObj (action_plan_json now (th_action_plan t))),
      (''lessons'', JList (map lesson_json (th_lessons t))), (''journal_entry'', JObj (th_journal_entry t)),
      (''files'', JObj (th_files t))]"

text \<open>\<open>open("a")\<close>: a journal that parses as a document is the text of that document.\<close>

definition append_text :: "(json \<Rightarrow> string) \<Rightarrow> string \<Rightarrow> string \<Rightarrow> disk \<Rightarrow> disk" where
  "append_text dumps p line dk =
     (let old = (case dk_read dk p of None \<Rightarrow> [] | Some (FText s) \<Rightarrow> s | Some (FJson j) \<Rightarrow> dumps j)
      in dk\<lparr>dk_files := AList.update p (FText (old @ line)) (dk_files dk)\<rparr>)"

definition think :: "listing \<Rightarrow> (json \<Rightarrow> string) \<Rightarrow> string \<Rightarrow> string \<Rightarrow> observed \<Rightarrow> disk \<Rightarrow> thought res \<times> disk" where
  "think listing dumps now dir ob dk =
     (let thinking = sub dir ''runtime/thinking'';
          previous = read_json_dict dk (sub thinking ''current-situation.json'');
          result = bindr (derive_lessons dir dk (ob_blocker ob) (ob_build_artifacts ob)) (\<lambda>lessons.
            bindr (situation_of listing now dir dk ob lessons previous) (\<lambda>situation.
            bindr (action_plan_of situation lessons (ob_user ob)) (\<lambda>plan.
            bindr (journal_entry now situation plan) (\<lambda>entry.
            Inr \<lparr>th_situation = situation, th_action_plan = plan, th_lessons = lessons, th_journal_entry = entry,
                 th_files =
                   [(''current_situation_path'', JStr (sub thinking ''current-situation.json'')),
                    (''action_plan_path'', JStr (sub thinking ''action-plan.json'')),
                    (''lessons_path'', JStr (sub thinking ''lessons-learned.json'')),
                    (''decision_journal_path'', JStr (sub thinking ''decision-journal.jsonl''))]\<rparr>))))
      in (result, case result of Inl e \<Rightarrow> dk
          | Inr t \<Rightarrow>
              append_text dumps (sub thinking ''decision-journal.jsonl'') (dumps (JObj (th_journal_entry t)) @ [CHR 0x0A])
                (dk_atomic (sub thinking ''lessons-learned.json'')
                   (JObj [(''generated_at'', JStr now), (''lessons'', JList (map lesson_json (th_lessons t)))])
                   (dk_atomic (sub thinking ''action-plan.json'') (JObj (action_plan_json now (th_action_plan t)))
                      (dk_atomic (sub thinking ''current-situation.json'') (JObj (th_situation t)) dk)))))"

section \<open>The counts\<close>

text \<open>What the backward walks count, as operations on the whole list.\<close>

definition field_is :: "string \<Rightarrow> json \<Rightarrow> json \<Rightarrow> bool" where
  "field_is k v e \<longleftrightarrow> (case e of JObj d \<Rightarrow> dget0 d k = v | _ \<Rightarrow> False)"

definition is_obj :: "json \<Rightarrow> bool" where
  "is_obj v \<longleftrightarrow> (case v of JObj _ \<Rightarrow> True | _ \<Rightarrow> False)"

lemma count_failed_spec:
  "list_all is_obj es \<Longrightarrow> count_failed bt es =
     Inr (length (takeWhile (\<lambda>e. \<not> field_is ''advanced'' (JBool True) e) (filter (field_is ''blocker_before'' bt) es)))"
  by (induction es) (auto simp: is_obj_def field_is_def split: json.splits)

lemma count_repeated_spec:
  "list_all is_obj cs \<Longrightarrow> count_repeated bt cs =
     Inr (length (takeWhile (\<lambda>c. field_is ''blocker_type'' bt c \<and> \<not> field_is ''advanced'' (JBool True) c) cs))"
  by (induction cs) (auto simp: is_obj_def field_is_def split: json.splits)

section \<open>What a deliberation decides\<close>

lemma think_steps:
  assumes "think listing dumps now dir ob dk = (Inr t, dk')"
  obtains facts situation where
    "derive_lessons dir dk (ob_blocker ob) (ob_build_artifacts ob) = Inr (th_lessons t)"
    "situation_facts listing dir dk ob = Inr facts"
    "th_situation t = situation" "dget situation ''facts'' (JObj []) = JObj facts"
    "action_plan_of situation (th_lessons t) (ob_user ob) = Inr (th_action_plan t)"
  using assms
  by (auto simp: think_def Let_def bindr_eq_Inr situation_of_def intro!: that)

lemma facts_solvable:
  assumes "situation_facts listing dir dk ob = Inr facts"
  shows "dget0 facts ''blocker_machine_solvable'' = JBool (truthy (dget0 (ob_blocker ob) ''machine_solvable''))"
    "dget facts ''blocker_type'' (JStr ''none'') = JStr (dstr (ob_blocker ob) ''blocker_type'' ''none'')"
    "dget0 facts ''plausible_source_files'' = jstrs (plausible_source_files listing (staged_source_dir dir dk))"
  using assms by (auto simp: situation_facts_def Let_def bindr_eq_Inr)

lemma lessons_spec:
  assumes "derive_lessons dir dk blocker artifacts = Inr ls"
  obtains n where "failed_experiment_count (experiments_doc dir dk) (dstr blocker ''blocker_type'' ''none'') = Inr n"
    "Missing_Repo_Tool \<in> set ls \<longleftrightarrow> repo_tool_missing (dget (source_transcript dir dk) ''stderr'' (JStr []))"
    "Repeated_Attempts \<in> set ls \<longleftrightarrow> 2 \<le> n"
  using assms by (auto simp: derive_lessons_def bindr_eq_Inr intro!: that)

lemma inj_lesson_id: "inj lesson_id"
proof (rule injI)
  show "a = b" if "lesson_id a = lesson_id b" for a b using that by (cases a; cases b) simp_all
qed

lemma lesson_ids [simp]:
  "''missing_android_repo_tool'' \<in> lesson_id ` set ls \<longleftrightarrow> Missing_Repo_Tool \<in> set ls"
  "''repeated_non_advancing_source_attempts'' \<in> lesson_id ` set ls \<longleftrightarrow> Repeated_Attempts \<in> set ls"
  using inj_image_mem_iff [OF inj_lesson_id, of Missing_Repo_Tool "set ls"]
    inj_image_mem_iff [OF inj_lesson_id, of Repeated_Attempts "set ls"] by simp_all

lemma action_plan_spec:
  assumes "action_plan_of situation ls user = Inr p" "dget situation ''facts'' (JObj []) = JObj facts"
  shows "ap_machine_allowed p \<longleftrightarrow> truthy (dget0 facts ''blocker_machine_solvable'')
       \<and> Missing_Repo_Tool \<notin> set ls \<and> Repeated_Attempts \<notin> set ls"
    "ap_selected_action p = ''continue_remediation'' \<longleftrightarrow> ap_machine_allowed p"
    "length (ap_questions p) \<le> 3 \<and> distinct (ap_questions p)"
proof -
  have d: "distinct (take 3 (dedupe qs))" for qs :: "string list" by simp
  show "ap_machine_allowed p \<longleftrightarrow> truthy (dget0 facts ''blocker_machine_solvable'')
       \<and> Missing_Repo_Tool \<notin> set ls \<and> Repeated_Attempts \<notin> set ls"
    using assms by (auto simp: action_plan_of_def bindr_eq_Inr Let_def)
  show "ap_selected_action p = ''continue_remediation'' \<longleftrightarrow> ap_machine_allowed p"
    using assms
    by (cases "Missing_Repo_Tool \<in> set ls"; cases "Repeated_Attempts \<in> set ls";
        cases "truthy (dget0 facts ''blocker_machine_solvable'')")
       (auto simp: action_plan_of_def bindr_eq_Inr Let_def)
  show "length (ap_questions p) \<le> 3 \<and> distinct (ap_questions p)"
    using assms d by (auto simp: action_plan_of_def bindr_eq_Inr Let_def)
qed

text \<open>
  C37. Autonomy is earned: a deliberation lets the machine continue exactly when the blocker is
  machine-solvable, the last source build did not stop at the missing repo tool, and fewer than
  two experiments on this blocker failed since the last one that advanced; it then selects the
  remediation, and otherwise never does.
\<close>

theorem deliberation_allows_machine:
  assumes "think listing dumps now dir ob dk = (Inr t, dk')"
  shows "\<exists>n. failed_experiment_count (experiments_doc dir dk) (dstr (ob_blocker ob) ''blocker_type'' ''none'') = Inr n
    \<and> (ap_machine_allowed (th_action_plan t) \<longleftrightarrow>
         truthy (dget0 (ob_blocker ob) ''machine_solvable'')
         \<and> \<not> repo_tool_missing (dget (source_transcript dir dk) ''stderr'' (JStr [])) \<and> n < 2)
    \<and> (ap_selected_action (th_action_plan t) = ''continue_remediation'' \<longleftrightarrow> ap_machine_allowed (th_action_plan t))"
proof -
  from think_steps [OF assms] obtain facts situation where
    l: "derive_lessons dir dk (ob_blocker ob) (ob_build_artifacts ob) = Inr (th_lessons t)"
    and f: "situation_facts listing dir dk ob = Inr facts" and d: "dget situation ''facts'' (JObj []) = JObj facts"
    and a: "action_plan_of situation (th_lessons t) (ob_user ob) = Inr (th_action_plan t)" by metis
  from lessons_spec [OF l] obtain n where
    "failed_experiment_count (experiments_doc dir dk) (dstr (ob_blocker ob) ''blocker_type'' ''none'') = Inr n"
    "Missing_Repo_Tool \<in> set (th_lessons t) \<longleftrightarrow> repo_tool_missing (dget (source_transcript dir dk) ''stderr'' (JStr []))"
    "Repeated_Attempts \<in> set (th_lessons t) \<longleftrightarrow> 2 \<le> n" by metis
  with action_plan_spec [OF a d] facts_solvable(1) [OF f] show ?thesis by auto
qed

definition demo_observed :: observed where
  "demo_observed = \<lparr>ob_profile = bare_profile ''d'' ''fp'' T_USB_ADB, ob_state = default_session_state ''s'' ''t'',
     ob_assessment = [], ob_engagement = [], ob_build_plan = [], ob_build_artifacts = [],
     ob_blocker = [(''blocker_type'', JStr ''transport_blocker''), (''machine_solvable'', JBool True)],
     ob_recommendation = [], ob_user = default_user_profile ''s'' ''t'', ob_product_memory = []\<rparr>"

lemma demo_no_files: "read_json_dict \<lparr>dk_files = [], dk_dirs = []\<rparr> p = []"
  by (simp add: read_json_dict_def fread_def)

lemma demo_think:
  "\<exists>t dk'. think (\<lambda>_. None) (\<lambda>_. []) ''t'' ''devices/d'' demo_observed \<lparr>dk_files = [], dk_dirs = []\<rparr> = (Inr t, dk')"
  by (simp add: think_def Let_def derive_lessons_def failed_experiment_count_def experiments_doc_def demo_no_files
      entries_of_def source_transcript_def repo_tool_missing_def situation_of_def situation_facts_def
      repeated_blocker_count_def memory_facts_def facts_lessons_def getter_def action_plan_of_def journal_entry_def
      demo_observed_def)

theorem deliberation_allows_machine_witness:
  "\<exists>t dk'. think (\<lambda>_. None) (\<lambda>_. []) ''t'' ''devices/d'' demo_observed \<lparr>dk_files = [], dk_dirs = []\<rparr> = (Inr t, dk')
     \<and> ap_machine_allowed (th_action_plan t)"
proof -
  obtain t dk' where t: "think (\<lambda>_. None) (\<lambda>_. []) ''t'' ''devices/d'' demo_observed \<lparr>dk_files = [], dk_dirs = []\<rparr> = (Inr t, dk')"
    using demo_think by blast
  have "failed_experiment_count (experiments_doc ''devices/d'' \<lparr>dk_files = [], dk_dirs = []\<rparr>) bt = Inr 0" for bt
    by (simp add: failed_experiment_count_def experiments_doc_def demo_no_files entries_of_def)
  moreover have "\<not> repo_tool_missing (dget (source_transcript ''devices/d'' \<lparr>dk_files = [], dk_dirs = []\<rparr>) ''stderr'' (JStr []))"
    by (simp add: source_transcript_def demo_no_files repo_tool_missing_def lower_def)
  moreover have "truthy (dget0 (ob_blocker demo_observed) ''machine_solvable'')" by (simp add: demo_observed_def)
  ultimately show ?thesis using deliberation_allows_machine [OF t] t by auto
qed

text \<open>
  A blocker that the machine cannot solve is given the rationale that it is machine-solvable,
  when no lesson or memory gives another one.
\<close>

lemma contradicting_rationale:
  "\<exists>p. action_plan_of [(''facts'', JObj [(''blocker_machine_solvable'', JBool False)])] [] user = Inr p
     \<and> \<not> ap_machine_allowed p \<and> ap_selected_action p = ''observe_or_ask''
     \<and> ap_rationale p = ''The blocker is machine-solvable and no learning rule blocks another bounded attempt.''"
  by (simp add: action_plan_of_def facts_lessons_def)

text \<open>A staged file is listed as plausible exactly when the orchestrator's check finds one.\<close>

lemma plausible_agrees:
  "has_plausible_source_artifact listing dir \<longleftrightarrow> plausible_source_files listing dir \<noteq> []"
  by (auto simp: has_plausible_source_artifact_def plausible_source_files_def list_ex_iff filter_empty_conv
      split: option.split)

text \<open>A deliberation writes its own documents only.\<close>

lemma fread_text: "fread (AList.update p d fs) q = (if q = p then Some d else fread fs q)"
  by (simp add: fread_def AList.update_conv)

lemma think_writes_its_documents:
  assumes "\<not> starts_with p (sub dir ''runtime/thinking/'')"
  shows "dk_read (snd (think listing dumps now dir ob dk)) p = dk_read dk p"
proof -
  have "p \<noteq> sub dir ''runtime/thinking/'' @ leaf" for leaf
    using assms by (auto simp: starts_with_def)
  from this [of "''current-situation.json''"] this [of "''action-plan.json''"] this [of "''lessons-learned.json''"]
    this [of "''decision-journal.jsonl''"] this [of "''current-situation.json.tmp''"] this [of "''action-plan.json.tmp''"]
    this [of "''lessons-learned.json.tmp''"]
  show ?thesis
    by (simp add: think_def Let_def append_text_def fread_atomic_write tmp_path_def
        fread_text split: sum.split)
qed

end
