(* ===== verification/Starter_Troubleshooting.thy ===== *)
theory Starter_Troubleshooting
  imports Deliberation Runtime_Planner "HOL-Library.Multiset"
begin

text \<open>
  \<open>app/core/starter_troubleshooting.py\<close>: the deterministic first pass over a blocker, which reviews
  the staged artifacts, moves incompatible ones to quarantine and decides which workers may be
  asked. The two artifact directories of a session are explicit; the files listed in a review are
  there when they are moved.
\<close>

section \<open>The artifact directories\<close>

record artifact_tree =
  at_source :: "source_file list option"
  at_rejected :: "source_file list"

definition rejection_reason :: "string \<Rightarrow> string \<Rightarrow> bool \<Rightarrow> string \<Rightarrow> string" where
  "rejection_reason abi boot_slot dynamic_partitions raw_name =
     (let name = lower raw_name in
      if contains name ''arm64'' \<and> abi = ''armeabi-v7a''
      then ''artifact targets arm64 but device reports 32-bit armeabi-v7a''
      else if (contains name ''-ab'' \<or> contains name ''_ab'' \<or> contains name ''a-b'') \<and> boot_slot = [] \<and> \<not> dynamic_partitions
      then ''artifact appears to target A/B or dynamic-partition devices, but this device exposes no slot/dynamic-partition evidence''
      else if ends_with name ''.img.xz''
      then ''compressed raw image is not directly flashable; extract and verify compatibility first''
      else [])"

definition snapshot_of_profile :: "device_profile \<Rightarrow> jdict res" where
  "snapshot_of_profile profile = as_dict (jor (dget0 (dp_raw_probe_data profile) ''hardware_snapshot'') (JObj []))"

definition snapshot_reason :: "jdict \<Rightarrow> source_file \<Rightarrow> string" where
  "snapshot_reason snapshot f =
     rejection_reason (lower (dstr_or snapshot ''abi'' [])) (strip (dstr_or snapshot ''boot_slot'' []))
       (lower (strip (dstr_or snapshot ''dynamic_partitions'' [])) \<in> set [''1'', ''true'', ''yes'']) (sf_name f)"

definition reviewed_files :: "artifact_tree \<Rightarrow> source_file list" where
  "reviewed_files t = (case at_source t of None \<Rightarrow> [] | Some fs \<Rightarrow> filter (\<lambda>f. sf_is_file f \<and> sf_name f \<noteq> ''README.md'') fs)"

definition accepted_files :: "jdict \<Rightarrow> artifact_tree \<Rightarrow> source_file list" where
  "accepted_files snapshot t = filter (\<lambda>f. snapshot_reason snapshot f = []) (reviewed_files t)"

definition rejected_files :: "jdict \<Rightarrow> artifact_tree \<Rightarrow> source_file list" where
  "rejected_files snapshot t = filter (\<lambda>f. snapshot_reason snapshot f \<noteq> []) (reviewed_files t)"

definition source_dir_of :: "string \<Rightarrow> string" where
  "source_dir_of dir = sub dir ''artifacts/os-source''"

definition artifact_item :: "string \<Rightarrow> source_file \<Rightarrow> jdict" where
  "artifact_item dir f =
     [(''path'', JStr (sub (source_dir_of dir) (sf_name f))), (''name'', JStr (sf_name f)), (''size_bytes'', JInt (int (sf_size f)))]"

definition rejected_item :: "string \<Rightarrow> jdict \<Rightarrow> source_file \<Rightarrow> jdict" where
  "rejected_item dir snapshot f = artifact_item dir f @ [(''reason'', JStr (snapshot_reason snapshot f))]"

definition artifact_review :: "string \<Rightarrow> jdict \<Rightarrow> artifact_tree \<Rightarrow> jdict" where
  "artifact_review dir snapshot t =
     [(''source_dir'', JStr (source_dir_of dir)),
      (''accepted_artifacts'', JList (map (\<lambda>f. JObj (artifact_item dir f)) (accepted_files snapshot t))),
      (''rejected_artifacts'', JList (map (\<lambda>f. JObj (rejected_item dir snapshot f)) (rejected_files snapshot t)))]"

section \<open>Quarantine\<close>

text \<open>
  The loop tries \<open>stem-1.suffix\<close>, \<open>stem-2.suffix\<close> and so on until a name is free; one of the first
  \<open>n + 1\<close> is, where \<open>n\<close> files are there.
\<close>

definition numbered :: "string \<Rightarrow> nat \<Rightarrow> string" where
  "numbered name counter = path_stem name @ ''-'' @ nat_digits counter @ path_suffix name"

definition fresh_name :: "string list \<Rightarrow> string \<Rightarrow> string" where
  "fresh_name taken name =
     (if name \<notin> set taken then name
      else case find (\<lambda>n. numbered name n \<notin> set taken) [1..<length taken + 2] of
             Some n \<Rightarrow> numbered name n | None \<Rightarrow> name)"

definition quarantine_one :: "artifact_tree \<Rightarrow> source_file \<Rightarrow> string \<times> artifact_tree" where
  "quarantine_one t f =
     (let destination = fresh_name (map sf_name (at_rejected t)) (sf_name f) in
      (destination,
       \<lparr>at_source = map_option (remove1 f) (at_source t), at_rejected = at_rejected t @ [f\<lparr>sf_name := destination\<rparr>]\<rparr>))"

fun quarantine :: "string \<Rightarrow> jdict \<Rightarrow> source_file list \<Rightarrow> artifact_tree \<Rightarrow> jdict list \<times> artifact_tree" where
  "quarantine dir snapshot [] t = ([], t)"
| "quarantine dir snapshot (f # fs) t =
     (let (destination, t1) = quarantine_one t f;
          (items, t2) = quarantine dir snapshot fs t1
      in ((rejected_item dir snapshot f
             @ [(''original_path'', JStr (sub (source_dir_of dir) (sf_name f))),
                (''quarantine_path'', JStr (sub dir (''artifacts/rejected/'' @ destination)))]) # items, t2))"

section \<open>Learned rules\<close>

definition rule_json :: "string \<Rightarrow> string \<Rightarrow> json" where
  "rule_json rule_id behavior = JObj
     [(''rule_id'', JStr rule_id), (''source'', JStr ''product_version_memory''), (''behavior'', JStr behavior)]"

definition version_of :: "jdict \<Rightarrow> jdict res" where
  "version_of product_memory = as_dict (jor (dget0 product_memory ''version'') (JObj []))"

definition joined_lessons :: "jdict \<Rightarrow> string res" where
  "joined_lessons product_memory =
     bindr (version_of product_memory) (\<lambda>version.
     bindr (as_list (dget version ''lessons'' (JList []))) (\<lambda>lessons.
     Inr (lower (join '' '' (map py_str lessons)))))"

definition learned_rules :: "string \<Rightarrow> json list" where
  "learned_rules joined =
     (if contains joined ''repo tool''
      then [rule_json ''require_android_repo_before_source_build''
              ''Do not start another local Android source-build worker until Android repo setup changes.''] else [])
     @ (if contains joined ''no usable flashable artifact''
        then [rule_json ''require_verified_flashable_artifact''
                ''Keep install planning blocked until an exact OTA, recovery ZIP, Samsung firmware archive, or partition bundle is verified.''] else [])
     @ (if contains joined ''repeatedly reaches source acquisition''
        then [rule_json ''prefer_artifact_or_host_setup_over_more_research''
                ''Use product-specific artifact staging or host setup questions before asking broad model research prompts again.''] else [])"

section \<open>The decision\<close>

record starter_facts =
  sx_blocker_type :: string
  sx_repo_missing :: bool
  sx_learned_repo :: bool
  sx_source_blockers :: int
  sx_compatible :: bool
  sx_quarantined :: bool
  sx_policy_allows :: bool

record starter_decision =
  sd_status :: string
  sd_model_allowed :: bool
  sd_machine_allowed :: bool
  sd_next_actions :: "json list"

definition samsung_actions :: "string list" where
  "samsung_actions =
     [''Run deterministic source acquisition for Samsung SM-T377W/gteslte before asking more broad model questions.'',
      ''Stage a verified firmware/OTA/recovery package, or set up Android source-build prerequisites including the repo tool.'']"

definition quarantine_actions :: "string list" where
  "quarantine_actions =
     [''Continue bounded source acquisition for an exact Samsung SM-T377W/gteslte OTA, recovery ZIP, or Samsung firmware package.'',
      ''Keep quarantined generic artifacts out of install planning.'']"

definition needs_source :: "starter_facts \<Rightarrow> bool" where
  "needs_source x \<longleftrightarrow> sx_blocker_type x = ''source_blocker''
     \<and> (sx_repo_missing x \<or> sx_learned_repo x \<or> 3 \<le> sx_source_blockers x) \<and> \<not> sx_compatible x"

definition starter_decide :: "starter_facts \<Rightarrow> starter_decision" where
  "starter_decide x =
     (if sx_quarantined x \<and> \<not> sx_compatible x then
        \<lparr>sd_status = ''quarantined_incompatible_artifact'', sd_model_allowed = True,
         sd_machine_allowed = sx_policy_allows x, sd_next_actions = map JStr quarantine_actions\<rparr>
      else if needs_source x then
        \<lparr>sd_status = ''source_acquisition_required'', sd_model_allowed = False,
         sd_machine_allowed = sx_policy_allows x, sd_next_actions = map JStr samsung_actions\<rparr>
      else if \<not> sx_policy_allows x then
        \<lparr>sd_status = ''waiting_for_operator_answer'', sd_model_allowed = False,
         sd_machine_allowed = False, sd_next_actions = []\<rparr>
      else
        \<lparr>sd_status = ''ready_for_bounded_model_help'', sd_model_allowed = True,
         sd_machine_allowed = sx_policy_allows x, sd_next_actions = []\<rparr>)"

definition starter_notes :: "jdict \<Rightarrow> starter_facts \<Rightarrow> bool \<Rightarrow> string list" where
  "starter_notes build_artifacts x rejected_left =
     (if dget0 build_artifacts ''status'' \<noteq> JStr ''ready'' then [''No deterministic install path is ready yet.''] else [])
     @ (if sx_repo_missing x then [''Local Android source builds are blocked until the Android repo tool is available.''] else [])
     @ (if sx_learned_repo x then [''Product memory already learned that source builds need Android repo setup first.''] else [])
     @ (if 3 \<le> sx_source_blockers x then [''This product/version has repeatedly hit source acquisition blockers.''] else [])
     @ (if sx_quarantined x
        then [''One or more incompatible staged artifacts were quarantined before source acquisition continued.'']
        else if rejected_left then [''One or more staged artifacts were rejected before model escalation.''] else [])"

text \<open>\<open>int(v)\<close>.\<close>

definition py_int :: "json \<Rightarrow> int res" where
  "py_int v =
     (case v of
        JInt i \<Rightarrow> Inr i | JBool b \<Rightarrow> Inr (if b then 1 else 0)
      | JFloat x \<Rightarrow> Inr (if x < 0 then - \<lfloor>- x\<rfloor> else \<lfloor>x\<rfloor>)
      | JStr s \<Rightarrow> (case parse_int s of Some i \<Rightarrow> Inr i | None \<Rightarrow> Inl (ValueError s))
      | _ \<Rightarrow> Inl (TypeError ''int''))"

text \<open>The loop that drops empty and repeated entries; entries are compared as JSON values.\<close>

definition starter_dedupe :: "json list \<Rightarrow> json list" where
  "starter_dedupe vs = dedupe (filter truthy vs)"

record starter_input =
  si_profile :: device_profile
  si_build_plan :: jdict
  si_build_artifacts :: jdict
  si_blocker :: jdict
  si_deliberation :: jdict

text \<open>What a run reads from the plans before it touches a file.\<close>

record starter_context =
  sc_snapshot :: jdict
  sc_product_memory :: jdict
  sc_version :: jdict
  sc_joined_lessons :: string
  sc_builder :: jdict
  sc_action_plan :: jdict
  sc_policy :: jdict
  sc_source_blockers :: int

definition starter_context_of :: "starter_input \<Rightarrow> starter_context res" where
  "starter_context_of inp =
     bindr (snapshot_of_profile (si_profile inp)) (\<lambda>snapshot.
     bindr (dict_at (si_build_plan inp) ''product_memory'') (\<lambda>product_memory.
     bindr (version_of product_memory) (\<lambda>version.
     bindr (joined_lessons product_memory) (\<lambda>joined.
     bindr (dict_at (si_build_plan inp) ''source_acquisition'') (\<lambda>acquisition.
     bindr (dict_at acquisition ''builder'') (\<lambda>builder.
     bindr (getter (jor (dget0 (si_deliberation inp) ''action_plan'') (JObj []))) (\<lambda>action_plan.
     bindr (dict_at action_plan ''execution_policy'') (\<lambda>policy.
     bindr (bindr (jget (jor (dget0 version ''blockers'') (JObj [])) ''source_blocker'' (JInt 0)) py_int) (\<lambda>source_blockers.
     Inr \<lparr>sc_snapshot = snapshot, sc_product_memory = product_memory, sc_version = version, sc_joined_lessons = joined,
          sc_builder = builder, sc_action_plan = action_plan, sc_policy = policy, sc_source_blockers = source_blockers\<rparr>)))))))))"

definition starter_blocker_type :: "starter_input \<Rightarrow> string" where
  "starter_blocker_type inp = dstr_or (si_blocker inp) ''blocker_type'' ''none''"

definition must_quarantine :: "starter_input \<Rightarrow> jdict \<Rightarrow> artifact_tree \<Rightarrow> bool" where
  "must_quarantine inp snapshot t \<longleftrightarrow>
     starter_blocker_type inp = ''source_blocker'' \<and> rejected_files snapshot t \<noteq> [] \<and> accepted_files snapshot t = []"

definition starter_quarantine :: "string \<Rightarrow> starter_input \<Rightarrow> jdict \<Rightarrow> artifact_tree \<Rightarrow> jdict list \<times> artifact_tree" where
  "starter_quarantine dir inp snapshot t =
     (if must_quarantine inp snapshot t then quarantine dir snapshot (rejected_files snapshot t) t else ([], t))"

definition starter_facts_of :: "starter_input \<Rightarrow> starter_context \<Rightarrow> artifact_tree \<Rightarrow> jdict list \<Rightarrow> starter_facts" where
  "starter_facts_of inp c t items =
     \<lparr>sx_blocker_type = starter_blocker_type inp,
      sx_repo_missing = contains (lower (dstr_or (sc_builder c) ''reason'' [])) ''repo tool is missing'',
      sx_learned_repo = contains (sc_joined_lessons c) ''repo tool'', sx_source_blockers = sc_source_blockers c,
      sx_compatible = (accepted_files (sc_snapshot c) t \<noteq> []), sx_quarantined = (items \<noteq> []),
      sx_policy_allows = truthy (dget (sc_policy c) ''machine_remediation_allowed'' (JBool True))\<rparr>"

definition starter_result ::
    "string \<Rightarrow> string \<Rightarrow> starter_input \<Rightarrow> starter_context \<Rightarrow> artifact_tree \<Rightarrow> jdict list \<Rightarrow> json list \<Rightarrow> jdict" where
  "starter_result now dir inp c t items questions =
     (let x = starter_facts_of inp c t items; d = starter_decide x; moves = must_quarantine inp (sc_snapshot c) t;
          review = artifact_review dir (sc_snapshot c) t;
          review' = (if moves then dset review ''quarantined_artifacts'' (JList (map JObj items)) else review)
      in [(''generated_at'', JStr now), (''status'', JStr (sd_status d)), (''blocker_type'', JStr (sx_blocker_type x)),
          (''model_worker_allowed'', JBool (sd_model_allowed d)), (''machine_worker_allowed'', JBool (sd_machine_allowed d)),
          (''next_actions'', JList (starter_dedupe (sd_next_actions d @ questions))),
          (''notes'', jstrs (dedupe (starter_notes (si_build_artifacts inp) x
             (rejected_files (sc_snapshot c) t \<noteq> [] \<and> \<not> moves)))),
          (''artifact_review'', JObj review'),
          (''host_prerequisites'', JObj
            [(''android_repo_missing'', JBool (sx_repo_missing x)), (''builder_status'', dget0 (sc_builder c) ''status''),
             (''builder_reason'', dget0 (sc_builder c) ''reason'')]),
          (''memory_checks'', JObj
            [(''product_key'', dget0 (sc_product_memory c) ''product_key''),
             (''version_key'', dget0 (sc_product_memory c) ''version_key''),
             (''source_blocker_count'', JInt (sc_source_blockers c)),
             (''lessons'', dget (sc_version c) ''lessons'' (JList []))]),
          (''learned_augmentations'', JList (learned_rules (sc_joined_lessons c)))])"

definition starter_run ::
    "string \<Rightarrow> string \<Rightarrow> starter_input \<Rightarrow> artifact_tree \<Rightarrow> (jdict \<times> artifact_tree) res" where
  "starter_run now dir inp t =
     bindr (starter_context_of inp) (\<lambda>c.
       let (items, t') = starter_quarantine dir inp (sc_snapshot c) t;
           waits = (sd_status (starter_decide (starter_facts_of inp c t items)) = ''waiting_for_operator_answer'')
       in bindr (if waits then list_at (sc_action_plan c) ''operator_questions'' else Inr []) (\<lambda>questions.
          Inr (starter_result now dir inp c t items questions, t')))"

section \<open>The memory overlay\<close>

definition overlay_path :: string where
  "overlay_path = ''knowledge/starter_troubleshooting_memory.json''"

definition load_memory_overlay :: "string \<Rightarrow> disk \<Rightarrow> jdict" where
  "load_memory_overlay now dk =
     (case dk_read dk overlay_path of
        Some (FJson (JObj d)) \<Rightarrow> d | _ \<Rightarrow> [(''generated_at'', JStr now), (''products'', JObj [])])"

definition setdefault :: "jdict \<Rightarrow> string \<Rightarrow> json \<Rightarrow> json" where
  "setdefault d k dflt = dget d k dflt"

definition overlay_with :: "jdict \<Rightarrow> jdict \<Rightarrow> jdict res" where
  "overlay_with result payload =
     bindr (getter (dget result ''memory_checks'' (JObj []))) (\<lambda>checks.
     let key = dstr_or checks ''product_key'' ''unknown''; version_key = dstr_or checks ''version_key'' ''unknown'' in
     bindr (dindex result ''generated_at'') (\<lambda>at_time.
     bindr (getter (setdefault payload ''products'' (JObj []))) (\<lambda>products.
     bindr (as_dict (setdefault products key (JObj [(''versions'', JObj [])]))) (\<lambda>product.
     bindr (bindr (dindex product ''versions'') as_dict) (\<lambda>versions.
       let entry = JObj [(''last_seen'', at_time), (''last_status'', dget0 result ''status''),
                         (''learned_augmentations'', dget result ''learned_augmentations'' (JList [])),
                         (''last_next_actions'', dget result ''next_actions'' (JList []))];
           product' = dset (dset product ''last_seen'' at_time) ''versions'' (JObj (dset versions version_key entry))
       in Inr (dset (dset payload ''products'' (JObj (dset products key (JObj product')))) ''generated_at'' at_time))))))"

text \<open>The report is written before the overlay, so it stays when the overlay cannot be read.\<close>

definition starter_loop ::
    "string \<Rightarrow> string \<Rightarrow> starter_input \<Rightarrow> artifact_tree \<Rightarrow> disk \<Rightarrow> jdict res \<times> artifact_tree \<times> disk" where
  "starter_loop now dir inp t dk =
     (case starter_run now dir inp t of
        Inl e \<Rightarrow> (Inl e, t, dk)
      | Inr (result, t') \<Rightarrow>
          let dk1 = write_runtime_artifact dir ''runtime/troubleshooting/starter-loop.json'' result dk in
          (case overlay_with result (load_memory_overlay now dk1) of
             Inl e \<Rightarrow> (Inl e, t', dk1)
           | Inr payload \<Rightarrow> (Inr result, t', dk_atomic overlay_path (JObj payload) dk1)))"

section \<open>Quarantine loses nothing\<close>

lemma nat_digits_inj: "nat_digits m = nat_digits n \<Longrightarrow> m = n"
  by (metis option.inject parse_nat_digits)

lemma numbered_inj: "inj_on (numbered name) A"
  by (auto simp: inj_on_def numbered_def dest: nat_digits_inj)

lemma fresh_name_fresh: "fresh_name taken name \<notin> set taken"
proof (cases "find (\<lambda>n. numbered name n \<notin> set taken) [1..<length taken + 2]")
  case None
  let ?ns = "{1..<length taken + 2}"
  from None have "\<not> (\<exists>n. n \<in> ?ns \<and> numbered name n \<notin> set taken)"
    by (simp only: find_None_iff set_upt) auto
  then have "numbered name ` ?ns \<subseteq> set taken" by blast
  then have "card (numbered name ` ?ns) \<le> card (set taken)" by (simp add: card_mono)
  also have "\<dots> \<le> length taken" by (rule card_length)
  finally have "card ?ns \<le> length taken" by (simp add: card_image [OF numbered_inj])
  then show ?thesis by simp
next
  case (Some n)
  then have "numbered name n \<notin> set taken" by (auto simp: find_Some_iff)
  with Some show ?thesis by (simp add: fresh_name_def)
qed

definition unnamed :: "source_file \<Rightarrow> source_file" where
  "unnamed f = f\<lparr>sf_name := []\<rparr>"

definition tree_contents :: "artifact_tree \<Rightarrow> source_file multiset" where
  "tree_contents t = mset (map unnamed (case at_source t of None \<Rightarrow> [] | Some fs \<Rightarrow> fs)) + mset (map unnamed (at_rejected t))"

definition well_named :: "artifact_tree \<Rightarrow> bool" where
  "well_named t \<longleftrightarrow> distinct (map sf_name (at_rejected t))"

lemma quarantine_one_keeps:
  assumes "quarantine_one t f = (d, t')" "at_source t = Some fs" "f \<in> set fs"
  shows "tree_contents t' = tree_contents t" "well_named t \<Longrightarrow> well_named t'" "at_source t' = Some (remove1 f fs)"
proof -
  have t': "t' = \<lparr>at_source = Some (remove1 f fs), at_rejected = at_rejected t @ [f\<lparr>sf_name := d\<rparr>]\<rparr>"
    and d: "d = fresh_name (map sf_name (at_rejected t)) (sf_name f)"
    using assms by (auto simp: quarantine_one_def Let_def)
  have "image_mset unnamed (mset fs) = add_mset (unnamed f) (image_mset unnamed (mset (remove1 f fs)))"
    using assms(3) by (metis image_mset_add_mset insert_DiffM mset_remove1 set_mset_mset)
  then show "tree_contents t' = tree_contents t"
    by (simp add: t' tree_contents_def assms(2) unnamed_def)
  show "well_named t \<Longrightarrow> well_named t'"
    using fresh_name_fresh [of "map sf_name (at_rejected t)" "sf_name f"] by (auto simp: well_named_def t' d)
  show "at_source t' = Some (remove1 f fs)" by (simp add: t')
qed

lemma quarantine_keeps:
  assumes "quarantine dir snapshot qs t = (items, t')" "at_source t = Some fs" "mset qs \<subseteq># mset fs"
  shows "tree_contents t' = tree_contents t \<and> (well_named t \<longrightarrow> well_named t') \<and> length items = length qs"
  using assms
proof (induction qs arbitrary: t fs items t')
  case (Cons f qs)
  obtain d t1 where one: "quarantine_one t f = (d, t1)" by force
  obtain items1 t2 where rest: "quarantine dir snapshot qs t1 = (items1, t2)" by force
  have f: "f \<in> set fs" using Cons.prems(3) by (auto dest: mset_subset_eqD)
  note keeps = quarantine_one_keeps [OF one Cons.prems(2) f]
  have "mset qs \<subseteq># mset (remove1 f fs)"
    using Cons.prems(3) f by (simp add: insert_subset_eq_iff)
  from Cons.IH [OF rest keeps(3) this] keeps(1,2) one rest Cons.prems(1) show ?case by auto
qed simp

lemma rejected_mset: "at_source t = Some fs \<Longrightarrow> mset (rejected_files snapshot t) \<subseteq># mset fs"
  by (simp add: rejected_files_def reviewed_files_def mset_filter multiset_filter_subset
      subset_mset.order_trans [OF multiset_filter_subset])

lemma starter_quarantine_keeps:
  assumes "starter_quarantine dir inp snapshot t = (items, t')"
  shows "tree_contents t' = tree_contents t \<and> (well_named t \<longrightarrow> well_named t')"
proof (cases "must_quarantine inp snapshot t")
  case True
  then obtain fs where fs: "at_source t = Some fs"
    by (cases "at_source t") (simp_all add: must_quarantine_def rejected_files_def reviewed_files_def)
  show ?thesis
    using quarantine_keeps [OF _ fs rejected_mset [OF fs]] assms True by (simp add: starter_quarantine_def)
qed (use assms in \<open>simp add: starter_quarantine_def\<close>)

lemma run_steps:
  assumes "starter_run now dir inp t = Inr (result, t')"
  obtains c items questions where "starter_context_of inp = Inr c"
    "starter_quarantine dir inp (sc_snapshot c) t = (items, t')"
    "result = starter_result now dir inp c t items questions"
    "sd_status (starter_decide (starter_facts_of inp c t items)) = ''waiting_for_operator_answer'' \<or> questions = []"
proof -
  from assms obtain c where c: "starter_context_of inp = Inr c" by (auto simp: starter_run_def bindr_eq_Inr)
  obtain items t1 where q: "starter_quarantine dir inp (sc_snapshot c) t = (items, t1)" by force
  from assms c q have t: "t1 = t'" by (auto simp: starter_run_def bindr_eq_Inr Let_def)
  from assms c q show thesis
    by (auto simp: starter_run_def bindr_eq_Inr Let_def split: if_splits intro: that [OF c q [unfolded t]])
qed

lemma run_tree:
  assumes "starter_run now dir inp t = Inr (result, t')"
  shows "tree_contents t' = tree_contents t \<and> (well_named t \<longrightarrow> well_named t')"
  using assms by (rule run_steps) (rule starter_quarantine_keeps)

text \<open>
  C38. Quarantining loses nothing and overwrites nothing: after a run of the starter loop, with its
  errors, the two artifact directories hold the same files as before, up to their names, and the
  names in the quarantine are still distinct.
\<close>

theorem quarantine_loses_nothing:
  assumes "well_named t"
  shows "(let t' = fst (snd (starter_loop now dir inp t dk)) in tree_contents t' = tree_contents t \<and> well_named t')"
  using assms run_tree [of now dir inp t]
  by (auto simp: starter_loop_def Let_def split: sum.split)

section \<open>Deliberation, starter loop, plan\<close>

text \<open>The starter loop passes the policy of the deliberation on to the machine worker.\<close>

lemma decide_machine: "sd_machine_allowed (starter_decide x) = sx_policy_allows x"
  by (simp add: starter_decide_def)

lemma decide_model:
  "sd_model_allowed (starter_decide x) \<longleftrightarrow>
     (sx_quarantined x \<and> \<not> sx_compatible x) \<or> (\<not> needs_source x \<and> sx_policy_allows x)"
  by (simp add: starter_decide_def)

lemma decide_status:
  "sd_status (starter_decide x) = ''source_acquisition_required'' \<longleftrightarrow>
     \<not> (sx_quarantined x \<and> \<not> sx_compatible x) \<and> needs_source x"
  by (simp add: starter_decide_def)

lemma loop_result:
  assumes "starter_loop now dir inp t dk = (Inr result, t', dk')"
  shows "starter_run now dir inp t = Inr (result, t')"
  using assms by (auto simp: starter_loop_def Let_def split: sum.splits)

lemma thought_policy:
  "dget0 (thought_json now th) ''action_plan'' = JObj (action_plan_json now (th_action_plan th))"
  "dget (action_plan_json now p) ''execution_policy'' d = JObj
     [(''machine_remediation_allowed'', JBool (ap_machine_allowed p)),
      (''worker_mode'', JStr (if ap_machine_allowed p then ''bounded_remediation'' else ''research_and_operator_question'')),
      (''never_stage_mock_artifacts'', JBool True), (''requires_new_evidence_for_repeat'', JBool True)]"
  by (simp_all add: thought_json_def action_plan_json_def)

lemma action_plan_nonempty [simp]: "action_plan_json now p \<noteq> []"
  by (simp add: action_plan_json_def)

lemma context_policy:
  assumes "starter_context_of inp = Inr c" "si_deliberation inp = thought_json now th"
  shows "truthy (dget (sc_policy c) ''machine_remediation_allowed'' (JBool True)) = ap_machine_allowed (th_action_plan th)"
  using assms by (auto simp: starter_context_of_def bindr_eq_Inr thought_policy getter_def dict_at_def jor_def)

text \<open>A phone of another maker, blocked for want of sources.\<close>

definition demo_thought :: thought where
  "demo_thought = \<lparr>th_situation = [], th_action_plan = \<lparr>ap_selected_action = ''continue_remediation'', ap_rationale = [],
     ap_questions = [], ap_machine_allowed = True\<rparr>, th_lessons = [], th_journal_entry = [], th_files = []\<rparr>"

definition demo_starter :: starter_input where
  "demo_starter = \<lparr>si_profile = (bare_profile ''blueline'' ''fp'' T_USB_ADB)\<lparr>dp_manufacturer := Some ''Google''\<rparr>,
     si_build_plan = [(''source_acquisition'', JObj [(''builder'', JObj [(''reason'', JStr ''repo tool is missing'')])])],
     si_build_artifacts = [], si_blocker = [(''blocker_type'', JStr ''source_blocker'')],
     si_deliberation = thought_json ''t'' demo_thought\<rparr>"

definition demo_tree :: artifact_tree where
  "demo_tree = \<lparr>at_source = None, at_rejected = []\<rparr>"

theorem quarantine_loses_nothing_witness:
  "(let t = \<lparr>at_source = Some [\<lparr>sf_name = ''gsi-arm64.img.xz'', sf_is_file = True, sf_size = 1, sf_content = None\<rparr>],
             at_rejected = []\<rparr>;
        t' = fst (snd (starter_loop ''t'' ''devices/d'' demo_starter t \<lparr>dk_files = [], dk_dirs = []\<rparr>))
    in tree_contents t' = tree_contents t \<and> well_named t')"
proof -
  let ?t = "\<lparr>at_source = Some [\<lparr>sf_name = ''gsi-arm64.img.xz'', sf_is_file = True, sf_size = 1, sf_content = None\<rparr>],
             at_rejected = []\<rparr>"
  have "well_named ?t" by (simp add: well_named_def)
  from quarantine_loses_nothing [OF this, of "''t''" "''devices/d''" demo_starter "\<lparr>dk_files = [], dk_dirs = []\<rparr>"]
  show ?thesis by (simp add: Let_def)
qed

lemma demo_context:
  "\<exists>c. starter_context_of demo_starter = Inr c \<and> contains (lower (dstr_or (sc_builder c) ''reason'' [])) ''repo tool is missing''"
proof -
  have "contains (lower ''repo tool is missing'') ''repo tool is missing''" by code_simp
  then show ?thesis
    by (simp add: starter_context_of_def demo_starter_def snapshot_of_profile_def bare_profile_def dict_at_def version_of_def
        joined_lessons_def thought_policy getter_def py_int_def dstr_or_def
        jor_def)
qed

lemma overlay_fresh:
  "\<exists>payload. overlay_with (starter_result now dir inp c t items qs) (load_memory_overlay n \<lparr>dk_files = fs, dk_dirs = ds\<rparr>) = Inr payload"
  if "fread fs overlay_path = None"
  using that
  by (simp add: overlay_with_def starter_result_def Let_def load_memory_overlay_def getter_def setdefault_def)

lemma demo_loop:
  "\<exists>result t' dk'. starter_loop ''t'' ''devices/d'' demo_starter demo_tree \<lparr>dk_files = [], dk_dirs = []\<rparr> = (Inr result, t', dk')
     \<and> dget0 result ''status'' = JStr ''source_acquisition_required''"
proof -
  obtain c where c: "starter_context_of demo_starter = Inr c"
    and repo: "contains (lower (dstr_or (sc_builder c) ''reason'' [])) ''repo tool is missing''"
    using demo_context by blast
  have q: "starter_quarantine dir demo_starter s demo_tree = ([], demo_tree)" for dir s
    by (simp add: starter_quarantine_def must_quarantine_def demo_tree_def rejected_files_def reviewed_files_def)
  have st: "sd_status (starter_decide (starter_facts_of demo_starter c demo_tree [])) = ''source_acquisition_required''"
    using repo by (simp add: decide_status needs_source_def starter_facts_of_def starter_blocker_type_def demo_starter_def
        dstr_or_def accepted_files_def reviewed_files_def demo_tree_def)
  let ?r = "starter_result ''t'' ''devices/d'' demo_starter c demo_tree [] []"
  have run: "starter_run ''t'' ''devices/d'' demo_starter demo_tree = Inr (?r, demo_tree)"
    by (simp add: starter_run_def c q st)
  have "fread (atomic_write_json (sub ''devices/d'' ''runtime/troubleshooting/starter-loop.json'') j []) overlay_path = None" for j
    by (simp add: fread_atomic_write overlay_path_def tmp_path_def) (simp add: fread_def)
  then have "\<exists>payload. overlay_with ?r (load_memory_overlay ''t'' (write_runtime_artifact ''devices/d''
      ''runtime/troubleshooting/starter-loop.json'' ?r \<lparr>dk_files = [], dk_dirs = []\<rparr>)) = Inr payload"
    by (simp add: write_runtime_artifact_def dk_atomic_def overlay_fresh)
  moreover have "dget0 ?r ''status'' = JStr ''source_acquisition_required''"
    by (simp add: starter_result_def Let_def st)
  ultimately show ?thesis by (auto simp: starter_loop_def run Let_def)
qed

text \<open>
  C39. No worker gets more than the deliberation allows: the machine worker is allowed exactly when
  the deliberation of the cycle allowed the machine to continue, and the model worker is allowed
  then, or when incompatible artifacts were just quarantined.
\<close>

theorem workers_follow_the_deliberation:
  assumes "starter_loop now dir inp t dk = (Inr result, t', dk')"
    and "si_deliberation inp = thought_json now' th"
  shows "dget0 result ''machine_worker_allowed'' = JBool (ap_machine_allowed (th_action_plan th))
    \<and> (dget0 result ''model_worker_allowed'' = JBool True \<longleftrightarrow>
         dget0 result ''status'' = JStr ''quarantined_incompatible_artifact''
         \<or> (ap_machine_allowed (th_action_plan th) \<and> dget0 result ''status'' \<noteq> JStr ''source_acquisition_required''))"
proof -
  from run_steps [OF loop_result [OF assms(1)]] obtain c items questions where
    c: "starter_context_of inp = Inr c" and r: "result = starter_result now dir inp c t items questions" by metis
  let ?x = "starter_facts_of inp c t items"
  have "sx_policy_allows ?x = ap_machine_allowed (th_action_plan th)"
    by (simp add: starter_facts_of_def context_policy [OF c assms(2)])
  then show ?thesis
    by (auto simp: r starter_result_def Let_def starter_decide_def)
qed

theorem workers_follow_the_deliberation_witness:
  "\<exists>result t' dk'. starter_loop ''t'' ''devices/d'' demo_starter demo_tree \<lparr>dk_files = [], dk_dirs = []\<rparr> = (Inr result, t', dk')
     \<and> dget0 result ''machine_worker_allowed'' = JBool True"
proof -
  obtain result t' dk' where r: "starter_loop ''t'' ''devices/d'' demo_starter demo_tree \<lparr>dk_files = [], dk_dirs = []\<rparr>
      = (Inr result, t', dk')" using demo_loop by blast
  have "si_deliberation demo_starter = thought_json ''t'' demo_thought" by (simp add: demo_starter_def)
  from workers_follow_the_deliberation [OF r this] r show ?thesis by (simp add: demo_thought_def)
qed

text \<open>
  Every device whose sources are missing is sent to the same product: once the starter loop
  asks for source acquisition, whatever the device is, the next actions of the runtime plan are to
  get the firmware of the Samsung SM-T377W, the text of one device that the loop has built in.
\<close>

theorem every_device_is_sent_to_samsung:
  assumes "starter_loop now dir inp t dk = (Inr result, t', dk')"
    and "dget0 result ''status'' = JStr ''source_acquisition_required''"
    and "dget0 (cy_build_plan c) ''starter_troubleshooting'' = JObj result"
  shows "next_actions c = Inr (map JStr samsung_actions)"
proof -
  from run_steps [OF loop_result [OF assms(1)]] obtain ctx items questions where
    r: "result = starter_result now dir inp ctx t items questions"
    and q: "sd_status (starter_decide (starter_facts_of inp ctx t items)) = ''waiting_for_operator_answer'' \<or> questions = []"
    by metis
  let ?d = "starter_decide (starter_facts_of inp ctx t items)"
  have st: "sd_status ?d = ''source_acquisition_required''"
    using assms(2) by (simp add: r starter_result_def Let_def)
  then have d: "sd_next_actions ?d = map JStr samsung_actions" "sd_model_allowed ?d = False"
    by (auto simp: starter_decide_def split: if_splits)
  have "dget0 result ''next_actions'' = JList (map JStr samsung_actions)"
    using q st d by (simp add: r starter_result_def Let_def starter_dedupe_def samsung_actions_def)
  moreover have "dget result ''model_worker_allowed'' (JBool True) = JBool False"
    using d by (simp add: r starter_result_def Let_def)
  moreover have "truthy (JObj result)" by (simp add: r starter_result_def Let_def)
  ultimately show ?thesis
    using assms(3) by (simp add: next_actions_def dict_at_def list_at_def jor_def samsung_actions_def)
qed

theorem every_device_is_sent_to_samsung_witness:
  "dp_manufacturer (si_profile demo_starter) = Some ''Google''
   \<and> (\<exists>c. next_actions c = Inr (map JStr samsung_actions))"
proof -
  obtain result t' dk' where r: "starter_loop ''t'' ''devices/d'' demo_starter demo_tree \<lparr>dk_files = [], dk_dirs = []\<rparr>
      = (Inr result, t', dk')" "dget0 result ''status'' = JStr ''source_acquisition_required''" using demo_loop by blast
  fix c0 :: cycle
  let ?c = "c0\<lparr>cy_build_plan := [(''starter_troubleshooting'', JObj result)]\<rparr>"
  have "dget0 (cy_build_plan ?c) ''starter_troubleshooting'' = JObj result" by simp
  from every_device_is_sent_to_samsung [OF r this] show ?thesis by (auto simp: demo_starter_def)
qed

end
