(* ===== verification/Self_Improvement.thy ===== *)
theory Self_Improvement
  imports Naming Retry_Planner Policy_Guard Runtime_Models "HOL-Library.Product_Lexorder"
begin

text \<open>
  \<open>app/core/self_improvement.py\<close>: the loop that tries variants of a generated remediation within
  the limits of the policy. The runtime that executes a variant is an argument of the loop in the
  source, and the parameter \<open>attempt\<close> here; \<open>dumps\<close> is \<open>json.dumps\<close>, \<open>resolve\<close> resolves paths. What
  the strategy memory retrieves is an argument, what is recorded in it part of the outcome.
\<close>

section \<open>Proposals\<close>

record variant =
  va_id :: string
  va_summary :: string
  va_env :: jdict

definition variant_json :: "variant \<Rightarrow> json" where
  "variant_json p = JObj [(''proposal_id'', JStr (va_id p)), (''summary'', JStr (va_summary p)), (''env_overrides'', JObj (va_env p))]"

definition choice_terms :: "jdict \<Rightarrow> string list" where
  "choice_terms item =
     filter (\<lambda>t. t \<noteq> []) (split_on (CHR ''_'') (replace_char (CHR ''.'') (CHR ''_'') (dstr_or item ''source_choice'' [])))"

definition feature_tokens :: "device_profile \<Rightarrow> string" where
  "feature_tokens profile =
     join ''_'' (filter (\<lambda>t. t \<noteq> [])
       [lower (str_or (dp_manufacturer profile) []), lower (str_or (dp_model profile) []), lower (dp_device_codename profile)])"

definition selection_env :: "string \<Rightarrow> string list \<Rightarrow> jdict" where
  "selection_env mode keywords =
     [(''FORGEOS_SOURCE_SELECTION_MODE'', JStr mode), (''FORGEOS_PRIORITY_KEYWORDS'', JStr (join '','' keywords))]"

definition blocker_variants :: "string \<Rightarrow> string list \<Rightarrow> string \<Rightarrow> variant list" where
  "blocker_variants blocker_type learned tokens =
     (if blocker_type = ''source_blocker'' then
        [\<lparr>va_id = ''exact_match_local'',
          va_summary = ''Prioritize exact device-keyword local candidates before broader matches.'',
          va_env = selection_env ''exact_match'' (if take 6 learned = [] then split_on (CHR ''_'') tokens else take 6 learned)\<rparr>,
         \<lparr>va_id = ''images_first'', va_summary = ''Prefer fastboot-style images before sideload archives.'',
          va_env = selection_env ''images_first'' (take 4 learned)\<rparr>,
         \<lparr>va_id = ''remote_first'',
          va_summary = ''Try trusted remote acquisition before local staging when local evidence is weak.'',
          va_env = selection_env ''remote_first'' (take 4 learned)\<rparr>]
      else
        [\<lparr>va_id = ''low_cost_retry'', va_summary = ''Retry with low-cost preference and device-specific keywords.'',
          va_env = [(''FORGEOS_PRIORITY_KEYWORDS'', JStr (replace_char (CHR ''_'') (CHR '','') tokens))]\<rparr>])"

definition memory_variant :: "jdict \<Rightarrow> variant list res" where
  "memory_variant item =
     bindr (as_dict (jor (dget0 item ''env_overrides'') (JObj []))) (\<lambda>env.
       if env = [] then Inr []
       else bindr (dindex item ''proposal_id'') (\<lambda>pid.
         Inr [\<lparr>va_id = ''memory_'' @ py_str pid,
               va_summary = ''Replay a historically successful proposal from strategy memory.'', va_env = env\<rparr>]))"

definition baseline :: variant where
  "baseline = \<lparr>va_id = ''baseline'', va_summary = ''Use the generated remediation artifact as-is.'', va_env = []\<rparr>"

definition env_key :: "(json \<Rightarrow> string) \<Rightarrow> variant \<Rightarrow> string" where
  "env_key dumps p = dumps (JObj (sort_key fst (va_env p)))"

definition build_proposals :: "(json \<Rightarrow> string) \<Rightarrow> device_profile \<Rightarrow> string \<Rightarrow> jdict list \<Rightarrow> variant list res" where
  "build_proposals dumps profile blocker_type retrieved =
     bindr (mapr memory_variant (take 2 retrieved)) (\<lambda>replays.
       Inr (dedupe_by (env_key dumps) []
         ([baseline] @ blocker_variants blocker_type (concat (map choice_terms retrieved)) (feature_tokens profile)
          @ concat replays)))"

section \<open>The loop\<close>

definition estimate_candidate_tokens :: "(json \<Rightarrow> string) \<Rightarrow> jdict \<Rightarrow> variant \<Rightarrow> int" where
  "estimate_candidate_tokens dumps generated p =
     max 1 ((int (length (dumps (dget generated ''task'' (JObj [])))) + int (length (dumps (variant_json p)))) div 4)"

definition evidence_at :: "jdict \<Rightarrow> string \<Rightarrow> string \<Rightarrow> json \<Rightarrow> json res" where
  "evidence_at inspection section key dflt =
     bindr (jget (dget inspection ''evidence'' (JObj [])) section (JObj [])) (\<lambda>s. jget s key dflt)"

definition score_result :: "jdict \<Rightarrow> bool \<Rightarrow> string \<Rightarrow> int \<Rightarrow> rat res" where
  "score_result inspection advanced decision estimated_tokens =
     bindr (evidence_at inspection ''source_acquisition'' ''staged_files'' (JList [])) (\<lambda>staged_files.
     bindr (evidence_at inspection ''remote_source_resolution'' ''status'' (JStr [])) (\<lambda>remote.
     Inr (py_round
       ((if advanced then 10 else 0) + (if decision = ''advance'' then 5 else 0) + (if truthy staged_files then 4 else 0)
        + (if remote = JStr ''ok'' then 2 else 0) - of_int estimated_tokens / 10000) 3)))"

record attempt_result =
  ar_variant :: variant
  ar_execution :: jdict
  ar_inspection :: jdict
  ar_score :: rat
  ar_decision :: string
  ar_advanced :: bool
  ar_gate :: approval_gate

datatype loop_result = Ran attempt_result | Stopped_By_Policy variant approval_gate

type_synonym runtime = "nat \<Rightarrow> variant \<Rightarrow> jdict \<times> jdict"

record loop_env =
  le_resolve :: "string \<Rightarrow> string"
  le_root :: string
  le_dumps :: "json \<Rightarrow> string"
  le_attempt :: runtime
  le_now :: string
  le_session_dir :: string
  le_generated :: jdict
  le_blocker_before :: jdict
  le_policy :: policy_model

definition loop_gate :: "loop_env \<Rightarrow> nat \<Rightarrow> int \<Rightarrow> variant \<Rightarrow> approval_gate" where
  "loop_gate e index tokens p =
     evaluate_self_improvement_gate (le_resolve e) (le_root e) (le_now e) (le_policy e) (le_session_dir e) tokens
       (int index) [le_session_dir e @ ''/runtime/self-improvement/'' @ va_id p @ ''.json'']"

definition run_variant :: "loop_env \<Rightarrow> nat \<Rightarrow> int \<Rightarrow> variant \<Rightarrow> attempt_result res" where
  "run_variant e index tokens p =
     (let (execution, inspection) = le_attempt e index p; before = le_blocker_before e in
      bindr (evaluate_experiment before
          [(''blocker_type'', dget inspection ''next_blocker_type'' (dget before ''blocker_type'' (JStr ''none'')))] inspection)
        (\<lambda>experiment.
      let advanced = truthy (dget0 experiment ''advanced''); decision = dstr experiment ''decision'' [] in
      bindr (score_result inspection advanced decision tokens) (\<lambda>score.
      Inr \<lparr>ar_variant = p, ar_execution = execution, ar_inspection = inspection, ar_score = score,
           ar_decision = decision, ar_advanced = advanced, ar_gate = loop_gate e index tokens p\<rparr>)))"

text \<open>The results with the tokens estimated; the loop ends at the first closed gate.\<close>

fun try_variants :: "loop_env \<Rightarrow> nat \<Rightarrow> int \<Rightarrow> variant list \<Rightarrow> (loop_result list \<times> int) res" where
  "try_variants e index tokens [] = Inr ([], tokens)"
| "try_variants e index tokens (p # ps) =
     (let tokens' = tokens + estimate_candidate_tokens (le_dumps e) (le_generated e) p in
      if \<not> ag_allowed (loop_gate e index tokens' p)
      then Inr ([Stopped_By_Policy p (loop_gate e index tokens' p)], tokens')
      else bindr (run_variant e index tokens' p) (\<lambda>r.
           bindr (try_variants e (Suc index) tokens' ps) (\<lambda>(rs, used). Inr (Ran r # rs, used))))"

fun viable :: "loop_result list \<Rightarrow> attempt_result list" where
  "viable [] = []"
| "viable (Ran r # rs) = r # viable rs"
| "viable (Stopped_By_Policy p g # rs) = viable rs"

definition select_best_result :: "loop_result list \<Rightarrow> attempt_result option" where
  "select_best_result rs = max_key (\<lambda>r. (ar_score r, ar_advanced r)) (viable rs)"

definition blocked_summary :: string where
  "blocked_summary = ''Governance policy blocked additional self-improvement attempts.''"

text \<open>
  The result that is selected when the policy stopped the loop before the first attempt: the first
  proposal, without evidence.
\<close>

definition policy_blocked_result :: "variant \<Rightarrow> approval_gate \<Rightarrow> attempt_result" where
  "policy_blocked_result p g =
     \<lparr>ar_variant = p,
      ar_execution = [(''status'', JStr ''policy_blocked''), (''summary'', JStr blocked_summary), (''transcript_path'', JStr []),
        (''result'', JObj []), (''returncode'', JNull), (''elapsed_seconds'', JFloat 0)],
      ar_inspection = [(''status'', JStr ''policy_blocked''), (''summary'', JStr blocked_summary), (''evidence'', JObj [])],
      ar_score = - 1, ar_decision = ''discard'', ar_advanced = False, ar_gate = g\<rparr>"

fun result_gate :: "loop_result \<Rightarrow> approval_gate" where
  "result_gate (Ran r) = ar_gate r"
| "result_gate (Stopped_By_Policy p g) = g"

record attempt_record =
  at_blocker_type :: string
  at_strategy_id :: string
  at_proposal_id :: string
  at_env_overrides :: jdict
  at_source_candidates :: "json list"
  at_source_choice :: string
  at_decision :: string
  at_advanced :: bool
  at_score :: rat
  at_elapsed_seconds :: rat
  at_estimated_tokens :: int

record loop_outcome =
  lo_selected :: attempt_result
  lo_proposals :: "variant list"
  lo_results :: "loop_result list"
  lo_tokens :: int
  lo_recorded :: attempt_record
  lo_anomalies :: "string list"

definition final_component :: "string \<Rightarrow> string" where
  "final_component p = (case filter (\<lambda>s. s \<noteq> []) (split_on (CHR ''/'') p) of [] \<Rightarrow> [] | parts \<Rightarrow> last parts)"

definition recorded_attempt :: "string \<Rightarrow> string \<Rightarrow> attempt_result \<Rightarrow> int \<Rightarrow> attempt_record res" where
  "recorded_attempt blocker_type strategy_id selected tokens =
     bindr (bindr (evidence_at (ar_inspection selected) ''source_acquisition'' ''local_candidates'' (JList [])) as_list)
       (\<lambda>source_candidates.
     bindr (evidence_at (ar_inspection selected) ''source_acquisition'' ''staged_files'' (JList [])) (\<lambda>staged.
     bindr (if truthy staged then bindr (as_list staged) (\<lambda>fs. Inr (final_component (py_str (hd fs)))) else Inr []) (\<lambda>source_choice.
     bindr (as_float (jor (dget (ar_execution selected) ''elapsed_seconds'' (JFloat 0)) (JFloat 0))) (\<lambda>elapsed.
     Inr \<lparr>at_blocker_type = blocker_type, at_strategy_id = (if strategy_id = [] then ''unselected'' else strategy_id),
          at_proposal_id = va_id (ar_variant selected), at_env_overrides = va_env (ar_variant selected),
          at_source_candidates = source_candidates, at_source_choice = source_choice,
          at_decision = ar_decision selected, at_advanced = ar_advanced selected, at_score = ar_score selected,
          at_elapsed_seconds = elapsed, at_estimated_tokens = tokens\<rparr>))))"

definition anomalies :: "loop_result list \<Rightarrow> string list" where
  "anomalies rs = concat (map (\<lambda>r. case r of Stopped_By_Policy p g \<Rightarrow> [ag_reason g] | Ran a \<Rightarrow> []) rs)"

fun loop_result_json :: "loop_result \<Rightarrow> json" where
  "loop_result_json (Ran r) = JObj
     [(''proposal'', variant_json (ar_variant r)), (''score'', JFloat (ar_score r)), (''decision'', JStr (ar_decision r)),
      (''advanced'', JBool (ar_advanced r)), (''inspection_summary'', dget0 (ar_inspection r) ''summary''),
      (''governance_gate'', approval_gate_to_dict (ar_gate r))]"
| "loop_result_json (Stopped_By_Policy p g) = JObj
     [(''proposal'', variant_json p), (''score'', JFloat (- 1)), (''decision'', JStr ''discard''),
      (''advanced'', JBool False), (''inspection_summary'', JStr (ag_reason g)), (''governance_gate'', approval_gate_to_dict g)]"

definition loop_manifest :: "loop_env \<Rightarrow> jdict list \<Rightarrow> loop_result list \<Rightarrow> attempt_result \<Rightarrow> json" where
  "loop_manifest e retrieved results selected = JObj
     [(''generated_at'', JStr (le_now e)), (''blocker_before'', JObj (le_blocker_before e)),
      (''retrieved_strategies'', JList (map JObj retrieved)),
      (''results'', JList (map loop_result_json results)), (''selected_proposal'', variant_json (ar_variant selected))]"

text \<open>The manifest is written before the attempt is recorded.\<close>

definition run_loop :: "loop_env \<Rightarrow> device_profile \<Rightarrow> string \<Rightarrow> jdict list \<Rightarrow> files \<Rightarrow> loop_outcome res \<times> files" where
  "run_loop e profile strategy_id retrieved fs =
     (let blocker_type = dstr_or (le_blocker_before e) ''blocker_type'' ''none'' in
      case build_proposals (le_dumps e) profile blocker_type retrieved of Inl err \<Rightarrow> (Inl err, fs)
      | Inr proposals \<Rightarrow>
        (case try_variants e 0 0 proposals of Inl err \<Rightarrow> (Inl err, fs)
         | Inr (results, tokens) \<Rightarrow>
           let selected = (case select_best_result results of
                             Some r \<Rightarrow> r | None \<Rightarrow> policy_blocked_result (hd proposals) (result_gate (hd results)));
               fs' = atomic_write_json (le_session_dir e @ ''/runtime/self-improvement/loop-manifest.json'')
                       (loop_manifest e retrieved results selected) fs
           in (bindr (recorded_attempt blocker_type strategy_id selected tokens) (\<lambda>recorded.
                 Inr \<lparr>lo_selected = selected, lo_proposals = proposals, lo_results = results, lo_tokens = tokens,
                      lo_recorded = recorded, lo_anomalies = anomalies results\<rparr>), fs')))"

section \<open>The limits of the loop\<close>

lemma gate_within_limits:
  "ag_allowed (loop_gate e index tokens p) \<Longrightarrow>
     int index < pol_max_experiment_loop_iterations (le_policy e) \<and> tokens < pol_max_api_tokens_per_session (le_policy e)"
  by (simp add: loop_gate_def evaluate_self_improvement_gate_def self_improvement_missing_def missing_if_def Let_def
      split: if_splits)

lemma run_variant_gate: "run_variant e i t p = Inr r \<Longrightarrow> ar_gate r = loop_gate e i t p \<and> ar_variant r = p"
  by (auto simp: run_variant_def bindr_eq_Inr Let_def split: prod.splits)

lemma try_variants_limits:
  assumes "try_variants e i t ps = Inr (rs, used)"
  shows "list_all (\<lambda>r. ag_allowed (ar_gate r)) (viable rs)
    \<and> int i + int (length (viable rs)) \<le> max (int i) (pol_max_experiment_loop_iterations (le_policy e))
    \<and> map ar_variant (viable rs) = take (length (viable rs)) ps"
  using assms
proof (induction ps arbitrary: i t rs)
  case (Cons p ps)
  let ?t = "t + estimate_candidate_tokens (le_dumps e) (le_generated e) p"
  show ?case
  proof (cases "ag_allowed (loop_gate e i ?t p)")
    case True
    with Cons.prems obtain r rs' where r: "run_variant e i ?t p = Inr r" and rest: "try_variants e (Suc i) ?t ps = Inr (rs', used)"
      and rs: "rs = Ran r # rs'" by (auto simp: bindr_eq_Inr Let_def)
    from Cons.IH [OF rest] gate_within_limits [OF True] run_variant_gate [OF r] True show ?thesis
      by (auto simp: rs)
  qed (use Cons.prems in \<open>auto simp: Let_def\<close>)
qed simp

lemma run_loop_results:
  assumes "run_loop e profile strategy_id retrieved fs = (Inr out, fs')"
  shows "try_variants e 0 0 (lo_proposals out) = Inr (lo_results out, lo_tokens out)"
    "lo_selected out = (case select_best_result (lo_results out) of
        Some r \<Rightarrow> r | None \<Rightarrow> policy_blocked_result (hd (lo_proposals out)) (result_gate (hd (lo_results out))))"
  using assms by (auto simp: run_loop_def Let_def bindr_eq_Inr split: sum.splits option.splits)

lemma run_loop_recorded:
  assumes "run_loop e profile strategy_id retrieved fs = (Inr out, fs')"
  shows "at_proposal_id (lo_recorded out) = va_id (ar_variant (lo_selected out))"
  using assms by (auto simp: run_loop_def Let_def bindr_eq_Inr recorded_attempt_def split: sum.splits option.splits)

definition demo_env :: loop_env where
  "demo_env = \<lparr>le_resolve = (\<lambda>p. p), le_root = ''forge'', le_dumps = (\<lambda>_. ''task''), le_attempt = (\<lambda>i p. ([], [])),
     le_now = ''t'', le_session_dir = ''devices/d'', le_generated = [],
     le_blocker_before = [(''blocker_type'', JStr ''transport_blocker'')], le_policy = default_policy\<rparr>"

lemma demo_gate: "ag_allowed (loop_gate demo_env 0 2 baseline)"
  by (simp add: loop_gate_def evaluate_self_improvement_gate_def self_improvement_missing_def missing_if_def demo_env_def
      default_policy_def baseline_def path_allowed_def scope_allows_def path_join_def starts_with_def)

lemma demo_run_loop:
  "\<exists>out fs'. run_loop demo_env (bare_profile ''d'' ''fp'' T_USB_ADB) [] [] [] = (Inr out, fs') \<and> viable (lo_results out) \<noteq> []"
proof -
  have k: "env_key (le_dumps demo_env) p = ''task''" for p by (simp add: env_key_def demo_env_def)
  have p: "build_proposals (le_dumps demo_env) (bare_profile ''d'' ''fp'' T_USB_ADB) ''transport_blocker'' [] = Inr [baseline]"
    by (simp add: build_proposals_def k blocker_variants_def)
  have t: "estimate_candidate_tokens (le_dumps demo_env) (le_generated demo_env) baseline = 2"
    by (simp add: estimate_candidate_tokens_def demo_env_def)
  have "dget0 (le_blocker_before demo_env) ''blocker_type'' = JStr ''transport_blocker''" by (simp add: demo_env_def)
  then have "\<exists>r. run_variant demo_env 0 2 baseline = Inr r
      \<and> (\<exists>a. recorded_attempt ''transport_blocker'' [] r 2 = Inr a)"
    by (simp add: run_variant_def demo_env_def evaluate_experiment_def score_result_def evidence_at_def
        recorded_attempt_def Let_def)
  then obtain r a where r: "run_variant demo_env 0 2 baseline = Inr r" "recorded_attempt ''transport_blocker'' [] r 2 = Inr a"
    by blast
  have tv: "try_variants demo_env 0 0 [baseline] = Inr ([Ran r], 2)"
    by (simp add: t demo_gate r)
  have bt: "dstr_or (le_blocker_before demo_env) ''blocker_type'' ''none'' = ''transport_blocker''"
    by (simp add: demo_env_def dstr_or_def)
  show ?thesis
    by (simp add: run_loop_def bt p tv select_best_result_def r del: try_variants.simps)
qed

text \<open>
  C40. The loop stays within the policy: every variant it runs passed the gate, it runs no more of
  them than the policy allows iterations, and it runs the first proposals, in their order.
\<close>

theorem loop_within_policy:
  assumes "run_loop e profile strategy_id retrieved fs = (Inr out, fs')"
  shows "list_all (\<lambda>r. ag_allowed (ar_gate r)) (viable (lo_results out))
    \<and> int (length (viable (lo_results out))) \<le> max 0 (pol_max_experiment_loop_iterations (le_policy e))
    \<and> map ar_variant (viable (lo_results out)) = take (length (viable (lo_results out))) (lo_proposals out)"
  using try_variants_limits [OF run_loop_results(1) [OF assms]] by simp

theorem loop_within_policy_witness:
  "\<exists>out fs'. run_loop demo_env (bare_profile ''d'' ''fp'' T_USB_ADB) [] [] [] = (Inr out, fs')
     \<and> list_all (\<lambda>r. ag_allowed (ar_gate r)) (viable (lo_results out)) \<and> viable (lo_results out) \<noteq> []"
proof -
  obtain out fs' where r: "run_loop demo_env (bare_profile ''d'' ''fp'' T_USB_ADB) [] [] [] = (Inr out, fs')"
    "viable (lo_results out) \<noteq> []" using demo_run_loop by blast
  from loop_within_policy [OF r(1)] r show ?thesis by blast
qed

text \<open>
  The selected result is the best of those that ran: none of them has a higher score, nor the
  same score and an advance that the selected one lacks. When the policy stopped the loop before
  the first run, the outcome is the first proposal, discarded.
\<close>

theorem selected_is_best:
  assumes "run_loop e profile strategy_id retrieved fs = (Inr out, fs')"
  shows "(if viable (lo_results out) = []
     then ar_decision (lo_selected out) = ''discard'' \<and> \<not> ar_advanced (lo_selected out)
          \<and> ar_variant (lo_selected out) = hd (lo_proposals out)
     else lo_selected out \<in> set (viable (lo_results out))
          \<and> list_all (\<lambda>r. ar_score r < ar_score (lo_selected out)
               \<or> (ar_score r = ar_score (lo_selected out) \<and> ar_advanced r \<le> ar_advanced (lo_selected out)))
             (viable (lo_results out)))"
proof (cases "select_best_result (lo_results out)")
  case None
  then show ?thesis
    by (simp add: run_loop_results(2) [OF assms] select_best_result_def policy_blocked_result_def)
next
  case (Some r)
  then have "lo_selected out = r" by (simp add: run_loop_results(2) [OF assms])
  with Some max_key_Some [of _ "viable (lo_results out)" r] show ?thesis
    by (fastforce simp: select_best_result_def list_all_iff less_eq_prod_def)
qed

theorem selected_is_best_witness:
  "\<exists>out fs'. run_loop demo_env (bare_profile ''d'' ''fp'' T_USB_ADB) [] [] [] = (Inr out, fs')
     \<and> lo_selected out \<in> set (viable (lo_results out))"
proof -
  obtain out fs' where r: "run_loop demo_env (bare_profile ''d'' ''fp'' T_USB_ADB) [] [] [] = (Inr out, fs')"
    "viable (lo_results out) \<noteq> []" using demo_run_loop by blast
  from selected_is_best [OF r(1)] r show ?thesis by auto
qed

text \<open>The runtime is not asked before the gate is open.\<close>

lemma closed_gate_asks_nothing:
  assumes "\<not> ag_allowed (loop_gate e 0 (estimate_candidate_tokens (le_dumps e) (le_generated e) p) p)"
  shows "try_variants e 0 0 (p # ps) = try_variants (e\<lparr>le_attempt := f\<rparr>) 0 0 (p # ps)"
  using assms by (simp add: loop_gate_def)

section \<open>The proposals\<close>

lemma proposals_baseline:
  "build_proposals dumps profile bt retrieved = Inr ps \<Longrightarrow> ps \<noteq> [] \<and> hd ps = baseline \<and> distinct (map (env_key dumps) ps)"
proof -
  let ?all = "\<lambda>replays. baseline # (blocker_variants bt (concat (map choice_terms retrieved)) (feature_tokens profile) @ concat replays)"
  assume "build_proposals dumps profile bt retrieved = Inr ps"
  then obtain replays where ps: "ps = dedupe_by (env_key dumps) [] (?all replays)"
    by (auto simp: build_proposals_def bindr_eq_Inr)
  show ?thesis using dedupe_by_distinct [of "env_key dumps" "[]" "?all replays"] unfolding ps by simp
qed

text \<open>
  A retrieved strategy is replayed as historically successful whatever its decision was, also when
  the attempt was discarded.
\<close>

lemma discarded_attempt_is_replayed:
  "\<exists>ps. build_proposals (\<lambda>j. case j of JObj [] \<Rightarrow> ''a'' | JObj [(''K'', v)] \<Rightarrow> ''b'' | _ \<Rightarrow> ''c'') profile ''none''
      [[(''proposal_id'', JStr ''p''), (''decision'', JStr ''discard''), (''env_overrides'', JObj [(''K'', JStr ''V'')])]] = Inr ps
    \<and> \<lparr>va_id = ''memory_p'', va_summary = ''Replay a historically successful proposal from strategy memory.'',
        va_env = [(''K'', JStr ''V'')]\<rparr> \<in> set ps"
  by (simp add: build_proposals_def memory_variant_def env_key_def baseline_def blocker_variants_def)

end
