(* ===== verification/Strategy_Memory.thy ===== *)
theory Strategy_Memory
  imports Self_Improvement Knowledge "HOL-Library.Multiset"
begin

text \<open>
  \<open>app/core/strategy_memory.py\<close>: the table of the attempts of the self-improvement loop, the
  retrieval of similar ones by feature vector, the ranking of source candidates by what worked,
  and the loop composed with its memory. The table is the list of its rows in the order of
  insertion; SQL leaves the order of rows with one time stamp open, here the later one comes
  first. \<open>nm_hash\<close> is Python's \<open>hash\<close> of a string, which differs between processes, and \<open>nm_sqrt\<close>
  is \<open>math.sqrt\<close>. A column that holds JSON text is its value.
\<close>

section \<open>Features\<close>

record numerics =
  nm_hash :: "string \<Rightarrow> int"
  nm_sqrt :: "rat \<Rightarrow> rat"

definition lock_token :: "bool option \<Rightarrow> string" where
  "lock_token locked =
     (case locked of Some True \<Rightarrow> ''locked'' | Some False \<Rightarrow> ''unlocked'' | None \<Rightarrow> ''bootloader_unknown'')"

definition slot_tokens :: "jdict option \<Rightarrow> string list" where
  "slot_tokens slot_info =
     (case slot_info of
        Some (f # fs) \<Rightarrow>
          [dstr_or (f # fs) ''active_slot'' ''slot_unknown'',
           if truthy (dget0 (f # fs) ''a_b_device'') then ''ab_device'' else ''single_slot'']
      | _ \<Rightarrow> [])"

definition memory_tokens :: "device_profile \<Rightarrow> string \<Rightarrow> string list" where
  "memory_tokens profile blocker_type =
     map (\<lambda>v. replace_char (CHR '' '') (CHR ''_'') (lower (strip v)))
       (filter (\<lambda>v. strip v \<noteq> [])
         ([str_or (dp_manufacturer profile) ''unknown'', str_or (dp_model profile) ''unknown'',
           str_or (dp_android_version profile) ''unknown'', transport_value (dp_transport profile),
           lock_token (dp_bootloader_locked profile),
           str_or (dp_verified_boot_state profile) ''verified_boot_unknown'',
           if blocker_type = [] then ''none'' else blocker_type] @ slot_tokens (dp_slot_info profile)))"

definition vector_dims :: nat where
  "vector_dims = 16"

definition token_counts :: "numerics \<Rightarrow> string list \<Rightarrow> rat list" where
  "token_counts nm tokens =
     foldl (\<lambda>v t. let i = nat (\<bar>nm_hash nm t\<bar> mod int vector_dims) in v[i := v ! i + 1])
       (replicate vector_dims 0) tokens"

definition norm_of :: "numerics \<Rightarrow> rat list \<Rightarrow> rat" where
  "norm_of nm v = (let n = nm_sqrt nm (sum_list (map (\<lambda>x. x * x) v)) in if n = 0 then 1 else n)"

definition vector_for :: "numerics \<Rightarrow> string list \<Rightarrow> rat list" where
  "vector_for nm tokens =
     (if tokens = [] then replicate vector_dims 0
      else let v = token_counts nm tokens in map (\<lambda>x. py_round (x / norm_of nm v) 6) v)"

definition cosine_similarity :: "numerics \<Rightarrow> rat list \<Rightarrow> rat list \<Rightarrow> rat" where
  "cosine_similarity nm left right =
     (if left = [] \<or> right = [] then 0
      else sum_list (map2 (*) left right) / (norm_of nm left * norm_of nm right))"

section \<open>The table\<close>

record attempt_row =
  sr_recorded_at :: string
  sr_session_id :: string
  sr_family_key :: string
  sr_blocker_type :: string
  sr_strategy_id :: string
  sr_proposal_id :: string
  sr_feature_tokens :: "string list"
  sr_feature_vector :: "rat list"
  sr_env_overrides :: jdict
  sr_source_candidates :: "json list"
  sr_source_choice :: string
  sr_decision :: string
  sr_advanced :: bool
  sr_score :: rat
  sr_elapsed_seconds :: rat
  sr_estimated_tokens :: int

definition attempt_row_of :: "numerics \<Rightarrow> string \<Rightarrow> device_profile \<Rightarrow> attempt_record \<Rightarrow> attempt_row" where
  "attempt_row_of nm now profile a =
     (let tokens = memory_tokens profile (at_blocker_type a) in
      \<lparr>sr_recorded_at = now, sr_session_id = dp_session_id profile, sr_family_key = family_key profile,
       sr_blocker_type = at_blocker_type a, sr_strategy_id = at_strategy_id a, sr_proposal_id = at_proposal_id a,
       sr_feature_tokens = tokens, sr_feature_vector = vector_for nm tokens,
       sr_env_overrides = sort_key fst (at_env_overrides a), sr_source_candidates = at_source_candidates a,
       sr_source_choice = at_source_choice a, sr_decision = at_decision a, sr_advanced = at_advanced a,
       sr_score = at_score a, sr_elapsed_seconds = at_elapsed_seconds a, sr_estimated_tokens = at_estimated_tokens a\<rparr>)"

text \<open>\<open>ORDER BY recorded_at DESC LIMIT n\<close>.\<close>

definition newest :: "nat \<Rightarrow> attempt_row list \<Rightarrow> attempt_row list" where
  "newest n rows = take n (rev (sort_key sr_recorded_at rows))"

definition snapshot_row :: "attempt_row \<Rightarrow> json" where
  "snapshot_row r = JObj
     [(''family_key'', JStr (sr_family_key r)), (''blocker_type'', JStr (sr_blocker_type r)),
      (''strategy_id'', JStr (sr_strategy_id r)), (''proposal_id'', JStr (sr_proposal_id r)),
      (''decision'', JStr (sr_decision r)), (''advanced'', JBool (sr_advanced r)), (''score'', JFloat (sr_score r)),
      (''source_choice'', JStr (sr_source_choice r)), (''recorded_at'', JStr (sr_recorded_at r))]"

definition snapshot_path :: string where
  "snapshot_path = ''knowledge/strategy_memory_snapshot.json''"

definition write_snapshot :: "string \<Rightarrow> attempt_row list \<Rightarrow> files \<Rightarrow> files" where
  "write_snapshot now db fs =
     atomic_write_json snapshot_path
       (JObj [(''generated_at'', JStr now), (''attempts'', JList (map snapshot_row (newest 50 db)))]) fs"

definition record_attempt ::
    "numerics \<Rightarrow> string \<Rightarrow> device_profile \<Rightarrow> attempt_record \<Rightarrow> attempt_row list \<times> files \<Rightarrow> attempt_row list \<times> files" where
  "record_attempt nm now profile a =
     (\<lambda>(db, fs). let db' = db @ [attempt_row_of nm now profile a] in (db', write_snapshot now db' fs))"

section \<open>Retrieval\<close>

record hint =
  hi_proposal_id :: string
  hi_strategy_id :: string
  hi_decision :: string
  hi_advanced :: bool
  hi_score :: rat
  hi_elapsed_seconds :: rat
  hi_estimated_tokens :: int
  hi_env_overrides :: jdict
  hi_source_candidates :: "json list"
  hi_source_choice :: string
  hi_similarity :: rat

definition hint_json :: "hint \<Rightarrow> jdict" where
  "hint_json h =
     [(''proposal_id'', JStr (hi_proposal_id h)), (''strategy_id'', JStr (hi_strategy_id h)),
      (''decision'', JStr (hi_decision h)), (''advanced'', JBool (hi_advanced h)), (''score'', JFloat (hi_score h)),
      (''elapsed_seconds'', JFloat (hi_elapsed_seconds h)), (''estimated_tokens'', JInt (hi_estimated_tokens h)),
      (''env_overrides'', JObj (hi_env_overrides h)), (''source_candidates'', JList (hi_source_candidates h)),
      (''source_choice'', JStr (hi_source_choice h)), (''similarity'', JFloat (hi_similarity h))]"

definition hint_of :: "numerics \<Rightarrow> rat list \<Rightarrow> attempt_row \<Rightarrow> hint" where
  "hint_of nm target r =
     \<lparr>hi_proposal_id = sr_proposal_id r, hi_strategy_id = sr_strategy_id r, hi_decision = sr_decision r,
      hi_advanced = sr_advanced r, hi_score = sr_score r, hi_elapsed_seconds = sr_elapsed_seconds r,
      hi_estimated_tokens = sr_estimated_tokens r, hi_env_overrides = sr_env_overrides r,
      hi_source_candidates = sr_source_candidates r, hi_source_choice = sr_source_choice r,
      hi_similarity = py_round (cosine_similarity nm target (sr_feature_vector r)) 4\<rparr>"

text \<open>The sort key: more similar first, then the higher score, the advance, the shorter time.\<close>

definition hint_key :: "hint \<Rightarrow> rat \<times> rat \<times> bool \<times> rat" where
  "hint_key h = (- hi_similarity h, - hi_score h, \<not> hi_advanced h, hi_elapsed_seconds h)"

definition retrieve_similar :: "numerics \<Rightarrow> device_profile \<Rightarrow> string \<Rightarrow> nat \<Rightarrow> attempt_row list \<Rightarrow> hint list" where
  "retrieve_similar nm profile blocker_type limit db =
     (let target = vector_for nm (memory_tokens profile blocker_type);
          rows = newest 100 (filter (\<lambda>r. sr_blocker_type r = blocker_type) db)
      in take limit (sort_key hint_key (map (hint_of nm target) rows)))"

section \<open>Ranking source candidates\<close>

definition preferred_names :: "hint list \<Rightarrow> string list" where
  "preferred_names hints = filter (\<lambda>c. c \<noteq> []) (map (\<lambda>h. lower (hi_source_choice h)) hints)"

definition preferred_terms :: "hint list \<Rightarrow> string list" where
  "preferred_terms hints =
     concat (map (\<lambda>c. split_on (CHR ''_'') (replace_char (CHR ''.'') (CHR ''_'') c)) (preferred_names hints))"

definition candidate_name :: "jdict \<Rightarrow> string" where
  "candidate_name c =
     lower (py_str (jor (dget0 c ''name'') (jor (dget0 c ''filename'') (jor (dget0 c ''url'') (JStr [])))))"

definition ranked_candidate :: "hint list \<Rightarrow> jdict \<Rightarrow> jdict res" where
  "ranked_candidate hints c =
     bindr (as_float (dget c ''score'' (JFloat 0))) (\<lambda>score.
     Inr (dset c ''score'' (JFloat (py_round
       (score + (if candidate_name c \<in> set (preferred_names hints) then 6 else 0)
        + sum_list (map (\<lambda>t. 125 / 100) (filter (\<lambda>t. t \<noteq> [] \<and> contains (candidate_name c) t) (preferred_terms hints)))) 3))))"

definition candidate_key :: "jdict \<Rightarrow> rat \<times> string" where
  "candidate_key c =
     (- (case dget c ''score'' (JFloat 0) of JFloat x \<Rightarrow> x | JInt i \<Rightarrow> of_int i | _ \<Rightarrow> 0),
      py_str (jor (dget0 c ''name'') (jor (dget0 c ''url'') (JStr []))))"

definition rank_source_candidates ::
    "numerics \<Rightarrow> device_profile \<Rightarrow> string \<Rightarrow> nat \<Rightarrow> attempt_row list \<Rightarrow> jdict list \<Rightarrow> jdict list res" where
  "rank_source_candidates nm profile blocker_type limit db candidates =
     bindr (mapr (ranked_candidate (retrieve_similar nm profile blocker_type limit db)) candidates)
       (\<lambda>ranked. Inr (sort_key candidate_key ranked))"

section \<open>The loop with its memory\<close>

definition self_improve ::
    "numerics \<Rightarrow> loop_env \<Rightarrow> device_profile \<Rightarrow> string \<Rightarrow> attempt_row list \<Rightarrow> files
       \<Rightarrow> loop_outcome res \<times> attempt_row list \<times> files" where
  "self_improve nm e profile strategy_id db fs =
     (let blocker_type = dstr_or (le_blocker_before e) ''blocker_type'' ''none'';
          retrieved = map hint_json (retrieve_similar nm profile blocker_type 3 db) in
      case run_loop e profile strategy_id retrieved fs of
        (Inl err, fs') \<Rightarrow> (Inl err, db, fs')
      | (Inr out, fs') \<Rightarrow> (Inr out, record_attempt nm (le_now e) profile (lo_recorded out) (db, fs')))"

section \<open>Properties\<close>

lemma newest_all: "length rows \<le> n \<Longrightarrow> set (newest n rows) = set rows"
  by (simp add: newest_def)

lemma best_part:
  "\<exists>rest. sorted (map f (take n (sort_key f xs) @ rest)) \<and> mset (take n (sort_key f xs) @ rest) = mset xs
     \<and> length (take n (sort_key f xs)) \<le> n \<and> (rest = [] \<or> length (take n (sort_key f xs)) = n)"
proof -
  let ?all = "sort_key f xs"
  have "take n ?all @ drop n ?all = ?all" by (rule append_take_drop_id)
  then have "sorted (map f (take n ?all @ drop n ?all))" "mset (take n ?all @ drop n ?all) = mset xs"
    by simp_all
  then show ?thesis by (intro exI [of _ "drop n ?all"]) auto
qed

text \<open>
  The retrieval is the best part of the recent attempts on the blocker: it continues to a sorted
  arrangement of all of them, it has at most \<open>limit\<close> entries, and fewer only when it has all.
\<close>

theorem retrieval_is_best:
  "\<exists>rest. sorted (map hint_key (retrieve_similar nm profile bt limit db @ rest))
     \<and> mset (retrieve_similar nm profile bt limit db @ rest)
         = mset (map (hint_of nm (vector_for nm (memory_tokens profile bt)))
                  (newest 100 (filter (\<lambda>r. sr_blocker_type r = bt) db)))
     \<and> length (retrieve_similar nm profile bt limit db) \<le> limit
     \<and> (rest = [] \<or> length (retrieve_similar nm profile bt limit db) = limit)"
  unfolding retrieve_similar_def Let_def by (rule best_part)

text \<open>
  C19. What is recorded is retrieved: an attempt on a blocker comes back, with its overrides and its
  choice, from a retrieval for that blocker whose limit is not used up by the earlier attempts on
  it.
\<close>

theorem recorded_attempt_is_retrieved:
  assumes "length (filter (\<lambda>r. sr_blocker_type r = at_blocker_type a) db) < limit" and "limit \<le> 100"
  shows "(let (db', fs') = record_attempt nm now profile a (db, fs) in
     \<exists>h. h \<in> set (retrieve_similar nm' profile' (at_blocker_type a) limit db')
       \<and> hi_proposal_id h = at_proposal_id a \<and> hi_env_overrides h = sort_key fst (at_env_overrides a)
       \<and> hi_source_choice h = at_source_choice a \<and> hi_decision h = at_decision a)"
proof -
  let ?row = "attempt_row_of nm now profile a"
  let ?rows = "filter (\<lambda>r. sr_blocker_type r = at_blocker_type a) (db @ [?row])"
  let ?h = "hint_of nm' (vector_for nm' (memory_tokens profile' (at_blocker_type a))) ?row"
  have bt: "sr_blocker_type ?row = at_blocker_type a" by (simp add: attempt_row_of_def Let_def)
  have len: "length ?rows \<le> limit" using assms(1) bt by simp
  then have "length (newest 100 ?rows) \<le> limit" by (simp add: newest_def)
  moreover have "?row \<in> set (newest 100 ?rows)" using newest_all [of ?rows 100] len assms(2) bt by simp
  ultimately have "?h \<in> set (retrieve_similar nm' profile' (at_blocker_type a) limit (db @ [?row]))"
    by (simp add: retrieve_similar_def Let_def)
  then show ?thesis
    by (auto simp: record_attempt_def Let_def hint_of_def attempt_row_of_def intro!: bexI [of _ ?h])
qed


definition demo_attempt :: attempt_record where
  "demo_attempt = \<lparr>at_blocker_type = ''source_blocker'', at_strategy_id = ''unselected'', at_proposal_id = ''images_first'',
     at_env_overrides = [], at_source_candidates = [], at_source_choice = ''boot.img'', at_decision = ''advance'',
     at_advanced = True, at_score = 15, at_elapsed_seconds = 0, at_estimated_tokens = 1\<rparr>"

definition demo_numerics :: numerics where
  "demo_numerics = \<lparr>nm_hash = (\<lambda>s. int (length s)), nm_sqrt = (\<lambda>x. x)\<rparr>"

theorem recorded_attempt_is_retrieved_witness:
  "\<exists>h. h \<in> set (retrieve_similar demo_numerics (bare_profile ''d'' ''fp'' T_USB_ADB) ''source_blocker'' 3
          (fst (record_attempt demo_numerics ''t'' (bare_profile ''d'' ''fp'' T_USB_ADB) demo_attempt ([], []))))
     \<and> hi_source_choice h = ''boot.img''"
proof -
  have "length (filter (\<lambda>r. sr_blocker_type r = at_blocker_type demo_attempt) []) < 3" "(3 :: nat) \<le> 100" by simp_all
  from recorded_attempt_is_retrieved [OF this, of demo_numerics "''t''" "bare_profile ''d'' ''fp'' T_USB_ADB" "[]" demo_numerics
    "bare_profile ''d'' ''fp'' T_USB_ADB"]
  show ?thesis by (auto simp: split_def demo_attempt_def)
qed

section \<open>The ranking\<close>

lemma ranked_candidate_rest: "ranked_candidate hints c = Inr c' \<Longrightarrow> AList.delete ''score'' c' = AList.delete ''score'' c"
  by (auto simp: ranked_candidate_def dset_def AList.delete_update_same)

lemma mapr_ranked_rest:
  "mapr (ranked_candidate hints) cs = Inr cs' \<Longrightarrow> map (AList.delete ''score'') cs' = map (AList.delete ''score'') cs"
  by (induction cs arbitrary: cs') (auto simp: ranked_candidate_rest)

text \<open>
  Ranking neither drops nor invents a candidate and changes nothing of it but its score; the
  result is sorted by score and name.
\<close>

theorem ranking_keeps_candidates:
  assumes "rank_source_candidates nm profile bt limit db candidates = Inr ranked"
  shows "image_mset (AList.delete ''score'') (mset ranked) = image_mset (AList.delete ''score'') (mset candidates)
    \<and> sorted (map candidate_key ranked)"
proof -
  obtain cs where "mapr (ranked_candidate (retrieve_similar nm profile bt limit db)) candidates = Inr cs"
    and r: "ranked = sort_key candidate_key cs"
    using assms by (auto simp: rank_source_candidates_def)
  from mapr_ranked_rest [OF this(1)] have "mset (map (AList.delete ''score'') cs) = mset (map (AList.delete ''score'') candidates)"
    by simp
  then show ?thesis by (simp add: r)
qed

theorem ranking_keeps_candidates_witness:
  "\<exists>ranked. rank_source_candidates demo_numerics (bare_profile ''d'' ''fp'' T_USB_ADB) ''source_blocker'' 5 []
       [[(''name'', JStr ''a''), (''score'', JInt 1)], [(''name'', JStr ''b''), (''score'', JInt 2)]] = Inr ranked
     \<and> image_mset (AList.delete ''score'') (mset ranked) = {#[(''name'', JStr ''a'')], [(''name'', JStr ''b'')]#}"
proof -
  have "retrieve_similar demo_numerics (bare_profile ''d'' ''fp'' T_USB_ADB) ''source_blocker'' 5 [] = []" by (simp add: retrieve_similar_def newest_def Let_def)
  then obtain ranked where r: "rank_source_candidates demo_numerics (bare_profile ''d'' ''fp'' T_USB_ADB) ''source_blocker'' 5 []
       [[(''name'', JStr ''a''), (''score'', JInt 1)], [(''name'', JStr ''b''), (''score'', JInt 2)]] = Inr ranked"
    by (simp add: rank_source_candidates_def ranked_candidate_def)
  from ranking_keeps_candidates [OF r] r show ?thesis by (simp add: add_mset_commute)
qed

section \<open>The loop and its memory\<close>

text \<open>
  One run of the loop that returns records one attempt, the selected one, and writes the snapshot
  of the table; a run that raises records nothing.
\<close>

theorem loop_records_one_attempt:
  "(case self_improve nm e profile strategy_id db fs of
      (Inl err, db', fs') \<Rightarrow> db' = db
    | (Inr out, db', fs') \<Rightarrow>
        db' = db @ [attempt_row_of nm (le_now e) profile (lo_recorded out)]
        \<and> at_proposal_id (lo_recorded out) = va_id (ar_variant (lo_selected out))
        \<and> fread fs' snapshot_path = Some (FJson (JObj
            [(''generated_at'', JStr (le_now e)), (''attempts'', JList (map snapshot_row (newest 50 db')))])))"
proof -
  let ?r = "map hint_json (retrieve_similar nm profile (dstr_or (le_blocker_before e) ''blocker_type'' ''none'') 3 db)"
  obtain res fs1 where r: "run_loop e profile strategy_id ?r fs = (res, fs1)" by force
  show ?thesis
  proof (cases res)
    case (Inl err) with r show ?thesis by (simp add: self_improve_def Let_def)
  next
    case (Inr out)
    have "at_proposal_id (lo_recorded out) = va_id (ar_variant (lo_selected out))"
      using run_loop_recorded [OF r [unfolded Inr]] .
    with r Inr show ?thesis
      by (simp add: self_improve_def Let_def record_attempt_def write_snapshot_def fread_atomic_write)
  qed
qed

text \<open>
  A stored vector is only comparable under the hash of the process that stored it: another hash
  makes the vectors of the same tokens orthogonal.
\<close>

lemma other_hash_loses_similarity:
  "\<exists>nm nm'. nm_sqrt nm = nm_sqrt nm'
     \<and> cosine_similarity nm (vector_for nm tokens) (vector_for nm tokens) = 1
     \<and> cosine_similarity nm (vector_for nm tokens) (vector_for nm' tokens) = 0"
  if "tokens = [''unknown'']"
  using that
  by (intro exI [of _ "\<lparr>nm_hash = (\<lambda>_. 0), nm_sqrt = (\<lambda>x. x)\<rparr>"] exI [of _ "\<lparr>nm_hash = (\<lambda>_. 1), nm_sqrt = (\<lambda>x. x)\<rparr>"])
    (simp add: cosine_similarity_def vector_for_def token_counts_def norm_of_def vector_dims_def Let_def
      numeral_eq_Suc py_round_def round_even_def)

end
