(* ===== verification/Gemma_Engine.thy ===== *)
theory Gemma_Engine
  imports Py_Repr Py_Text
begin

text \<open>
  \<open>app/core/gemma_engine.py\<close>: the replies of the local language model. The model is a parameter:
  \<open>gm_http\<close> is the reply to a request of a model with its system text, prompt and temperature,
  \<open>gm_cli\<close> the output of the command line, both \<open>None\<close> where the call raises. \<open>gm_loads\<close> is
  \<open>json.loads\<close>, \<open>gm_dumps\<close> is \<open>json.dumps\<close>, \<open>gm_parses\<close> is whether \<open>ast.parse\<close> accepts a text. A text
  that starts with a brace parses to a dictionary or not at all. The long dashes of the
  prompts are written \<open>-\<close>.
\<close>

record language_model =
  gm_http :: "string \<Rightarrow> string \<Rightarrow> string \<Rightarrow> rat \<Rightarrow> string option"
  gm_cli :: "string list \<Rightarrow> string option"
  gm_loads :: "string \<Rightarrow> json option"
  gm_dumps :: "json \<Rightarrow> string"
  gm_parses :: "string \<Rightarrow> bool"
  gm_default :: string

text \<open>The model of an engine: the one asked for, else the configured one.\<close>

definition engine_model :: "language_model \<Rightarrow> string \<Rightarrow> string" where
  "engine_model lm model = (if model = [] then gm_default lm else model)"

text \<open>The part from the first opening to the last closing brace; \<open>None\<close> where parsing raises.\<close>

definition braced :: "string \<Rightarrow> string" where
  "braced text = rev (dropWhile (\<lambda>c. c \<noteq> CHR ''}'') (rev (dropWhile (\<lambda>c. c \<noteq> CHR ''{'') (strip text))))"

definition reply_json :: "language_model \<Rightarrow> string \<Rightarrow> jdict option" where
  "reply_json lm text =
     (if braced text = [] then Some []
      else case gm_loads lm (braced text) of Some (JObj d) \<Rightarrow> Some d | _ \<Rightarrow> None)"

definition strip_markdown_fences :: "string \<Rightarrow> string" where
  "strip_markdown_fences text =
     (let ls = splitlines text;
          ls1 = (case ls of l # rest \<Rightarrow> if starts_with l ''```'' then rest else ls | [] \<Rightarrow> []);
          ls2 = (if ls1 \<noteq> [] \<and> strip (last ls1) = ''```'' then butlast ls1 else ls1)
      in join [CHR 0x0A] ls2)"

definition ask_system :: "language_model \<Rightarrow> json \<Rightarrow> string" where
  "ask_system lm schema =
     ''You are the decision engine for ForgeOS, an autonomous Android device rehabilitation agent. Always respond with valid JSON and nothing else.''
     @ (if truthy schema then [CHR 0x0A, CHR 0x0A] @ ''Expected JSON schema:'' @ [CHR 0x0A] @ gm_dumps lm schema else [])"

definition subprocess_ask :: "language_model \<Rightarrow> string \<Rightarrow> string \<Rightarrow> jdict" where
  "subprocess_ask lm model prompt =
     (case gm_cli lm [''ollama'', ''run'', engine_model lm model, prompt, ''--format'', ''json'', ''--hidethinking''] of
        None \<Rightarrow> []
      | Some out \<Rightarrow> (case reply_json lm (strip out) of None \<Rightarrow> [] | Some d \<Rightarrow> d))"

definition ask :: "language_model \<Rightarrow> string \<Rightarrow> string \<Rightarrow> json \<Rightarrow> rat \<Rightarrow> jdict" where
  "ask lm model prompt schema temperature =
     (case gm_http lm (engine_model lm model) (ask_system lm schema) prompt temperature of
        None \<Rightarrow> subprocess_ask lm model prompt
      | Some raw \<Rightarrow> (case reply_json lm raw of None \<Rightarrow> subprocess_ask lm model prompt | Some d \<Rightarrow> d))"

definition code_system :: "string \<Rightarrow> string" where
  "code_system language =
     ''You are writing '' @ language @ '' code for ForgeOS, an autonomous Android device rehabilitation agent. ''
     @ ''Output ONLY the code - no explanation, no markdown fences, no comments unless they document a non-obvious constraint.''"

definition code_prompt :: "language_model \<Rightarrow> string \<Rightarrow> jdict \<Rightarrow> string \<Rightarrow> string" where
  "code_prompt lm task_description device_context language =
     ''Device context:'' @ [CHR 0x0A] @ gm_dumps lm (JObj device_context) @ [CHR 0x0A, CHR 0x0A]
     @ ''Task:'' @ [CHR 0x0A] @ task_description @ [CHR 0x0A, CHR 0x0A]
     @ ''Write a complete, runnable '' @ language @ '' script that accomplishes this task for the specific device described above.''"

definition write_code :: "language_model \<Rightarrow> string \<Rightarrow> string \<Rightarrow> jdict \<Rightarrow> string \<Rightarrow> string" where
  "write_code lm model task_description device_context language =
     (case gm_http lm (engine_model lm model) (code_system language)
             (code_prompt lm task_description device_context language) (3 / 10) of
        None \<Rightarrow> []
      | Some raw \<Rightarrow>
          (let code = strip_markdown_fences raw in
           if language = ''python'' \<and> \<not> gm_parses lm code then [] else code))"

text \<open>Python code that the engine hands out parses; nothing else of it is checked.\<close>

lemma written_code_parses:
  "write_code lm model t c ''python'' \<noteq> [] \<Longrightarrow> gm_parses lm (write_code lm model t c ''python'')"
  by (auto simp: write_code_def Let_def split: option.splits if_splits)

lemma braced_ends:
  assumes "braced text \<noteq> []"
  shows "hd (braced text) = CHR ''{'' \<and> last (braced text) = CHR ''}''"
proof -
  let ?s = "dropWhile (\<lambda>c. c \<noteq> CHR ''{'') (strip text)"
  let ?r = "dropWhile (\<lambda>c. c \<noteq> CHR ''}'') (rev ?s)"
  have r: "braced text = rev ?r" by (simp add: braced_def)
  then have "?r \<noteq> []" using assms by simp
  then have last: "last (braced text) = CHR ''}''"
    using hd_dropWhile [of "\<lambda>c. c \<noteq> CHR ''}''" "rev ?s"] r by (simp add: last_rev)
  have s: "?s \<noteq> []" using \<open>?r \<noteq> []\<close> by (metis dropWhile.simps(1) rev.simps(1))
  have "?s = braced text @ rev (takeWhile (\<lambda>c. c \<noteq> CHR ''}'') (rev ?s))"
    using takeWhile_dropWhile_id [of "\<lambda>c. c \<noteq> CHR ''}''" "rev ?s"] r
    by (metis rev_append rev_rev_ident)
  then have "hd ?s = hd (braced text)" using assms by (metis hd_append2)
  moreover have "hd ?s = CHR ''{''" using hd_dropWhile [of "\<lambda>c. c \<noteq> CHR ''{''" "strip text"] s by simp
  ultimately show ?thesis using last by simp
qed

end
