(* ===== verification/Host_Capabilities.thy ===== *)
theory Host_Capabilities
  imports Model_Router Install_Flow
begin

text \<open>
  \<open>app/core/host_capabilities.py\<close>: which workers the host can run. The only commands are version
  and list commands of the tools that are installed; a time-out is reported in the text of
  \<open>subprocess.TimeoutExpired\<close>.
\<close>

section \<open>Probing the tools\<close>

definition timeout_text :: "string \<Rightarrow> string list \<Rightarrow> string" where
  "timeout_text executable args =
     ''Command '' @ [CHR 0x27] @ py_repr (jstrs (executable # args)) @ [CHR 0x27] @ '' timed out after 10 seconds''"

definition safe_run :: "host \<Rightarrow> string \<Rightarrow> string list \<Rightarrow> jdict proc" where
  "safe_run h executable args tr =
     (let c = (program executable, args) in
      if h_times_out h tr c
      then ([(''ok'', JBool False), (''returncode'', JInt (- 1)), (''stdout'', JStr []),
             (''stderr'', JStr (timeout_text executable args))], tr @ [c])
      else let (r, tr') = issue h c tr
           in ([(''ok'', JBool (cp_returncode r = 0)), (''returncode'', JInt (cp_returncode r)),
                (''stdout'', JStr (strip (cp_stdout r))), (''stderr'', JStr (strip (cp_stderr r)))], tr'))"

definition which :: "host \<Rightarrow> string \<Rightarrow> string option" where
  "which h executable = h_path h (program executable)"

definition run_if_installed :: "host \<Rightarrow> string \<Rightarrow> string list \<Rightarrow> string \<Rightarrow> jdict proc" where
  "run_if_installed h executable args missing tr =
     (if which h executable = None
      then ([(''ok'', JBool False), (''stdout'', JStr []), (''stderr'', JStr missing)], tr)
      else safe_run h executable args tr)"

definition tool_record :: "host \<Rightarrow> string \<times> string \<Rightarrow> jdict proc" where
  "tool_record h = (\<lambda>(name, executable) tr.
     let (version, tr') = run_if_installed h executable [''--version''] ''not installed'' tr in
     ([(''name'', JStr name), (''executable'', JStr executable), (''path'', jopt JStr (which h executable)),
       (''available'', JBool (which h executable \<noteq> None)), (''version'', dget version ''stdout'' (JStr [])),
       (''error'', dget version ''stderr'' (JStr []))], tr'))"

fun tool_records :: "host \<Rightarrow> (string \<times> string) list \<Rightarrow> jdict list proc" where
  "tool_records h [] tr = ([], tr)"
| "tool_records h (t # ts) tr =
     (let (r, tr1) = tool_record h t tr; (rs, tr2) = tool_records h ts tr1 in (r # rs, tr2))"

section \<open>Readiness\<close>

definition goose_exec :: "env \<Rightarrow> string" where
  "goose_exec e = env_get e ''FORGEOS_GOOSE_EXECUTABLE'' ''goose''"

definition aider_exec :: "env \<Rightarrow> string" where
  "aider_exec e = env_get e ''FORGEOS_AIDER_EXECUTABLE'' ''aider''"

definition ollama_exec :: "env \<Rightarrow> string" where
  "ollama_exec e = env_get e ''FORGEOS_OLLAMA_EXECUTABLE'' ''ollama''"

definition frontier_exec :: "env \<Rightarrow> string" where
  "frontier_exec e = env_get e ''FORGEOS_FRONTIER_EXECUTABLE'' ''codex''"

definition probed_tools :: "env \<Rightarrow> (string \<times> string) list" where
  "probed_tools e =
     [(''codex'', frontier_exec e), (''goose'', goose_exec e), (''aider'', aider_exec e), (''ollama'', ollama_exec e)]"

definition local_model :: "env \<Rightarrow> string" where
  "local_model e = env_get e ''FORGEOS_OLLAMA_MODEL'' ''gemma4:latest''"

definition model_listed :: "env \<Rightarrow> jdict \<Rightarrow> bool" where
  "model_listed e models = contains (py_str (dget models ''stdout'' (JStr []))) (local_model e)"

definition goose_ready :: "host \<Rightarrow> env \<Rightarrow> jdict \<Rightarrow> bool" where
  "goose_ready h e models \<longleftrightarrow>
     which h (goose_exec e) \<noteq> None \<and> which h (ollama_exec e) \<noteq> None \<and> model_listed e models"

definition aider_ready :: "host \<Rightarrow> env \<Rightarrow> jdict \<Rightarrow> bool" where
  "aider_ready h e models \<longleftrightarrow>
     which h (aider_exec e) \<noteq> None
     \<and> (list_ex (env_set e) [''FORGEOS_AIDER_MODEL'', ''AIDER_MODEL'', ''OPENAI_API_KEY'', ''ANTHROPIC_API_KEY'']
        \<or> (which h (ollama_exec e) \<noteq> None \<and> model_listed e models))"

definition ready_or :: "bool \<Rightarrow> string \<Rightarrow> json" where
  "ready_or b reason = JStr (if b then ''ready'' else reason)"

definition avd_names :: "jdict \<Rightarrow> string list" where
  "avd_names listing = filter (\<lambda>l. l \<noteq> []) (map strip (splitlines (py_str (dget listing ''stdout'' (JStr [])))))"

definition emulator_listing :: "host \<Rightarrow> jdict proc" where
  "emulator_listing h tr =
     (case which h ''emulator'' of
        None \<Rightarrow> ([(''ok'', JBool False), (''stdout'', JStr []), (''stderr'', JStr ''emulator unavailable'')], tr)
      | Some path \<Rightarrow> safe_run h path [''-list-avds''] tr)"

definition capability_report :: "host \<Rightarrow> env \<Rightarrow> string \<Rightarrow> jdict list \<Rightarrow> jdict \<Rightarrow> jdict \<Rightarrow> jdict" where
  "capability_report h e workspace tools models avds =
     (let installed = (\<lambda>x. JBool (which h x \<noteq> None)) in
      [(''workspace_root'', JStr workspace), (''local_model'', JStr (local_model e)),
       (''model_routes'', JObj (map (\<lambda>(role, s). (role, JObj s))
          (configured_routes (from_ollama_list (py_str (dget models ''stdout'' (JStr []))) e)))),
       (''ollama_api_base'', JStr (env_get e ''OLLAMA_API_BASE'' ''http://127.0.0.1:11434'')),
       (''tools'', JList (map JObj tools)),
       (''adb_available'', JBool (h_installed h ADB)), (''fastboot_available'', JBool (h_installed h FASTBOOT)),
       (''goose_available'', installed (goose_exec e)), (''goose_ready'', JBool (goose_ready h e models)),
       (''aider_available'', installed (aider_exec e)), (''aider_ready'', JBool (aider_ready h e models)),
       (''ollama_available'', installed (ollama_exec e)), (''ollama_model_available'', JBool (model_listed e models)),
       (''ollama_models_output'', dget models ''stdout'' (JStr [])),
       (''codex_available'', installed (frontier_exec e)), (''emulator_available'', installed ''emulator''),
       (''avdmanager_available'', installed ''avdmanager''), (''sdkmanager_available'', installed ''sdkmanager''),
       (''available_avds'', jstrs (avd_names avds)),
       (''reasons'', JObj
         [(''goose'', ready_or (goose_ready h e models) ''Goose requires both the CLI and a ready local Ollama model.''),
          (''aider'', ready_or (aider_ready h e models)
             ''Aider needs the CLI plus either a configured provider or a ready local Ollama model.''),
          (''ollama'', ready_or (model_listed e models)
             (''Ollama is missing the configured model `'' @ local_model e @ ''`.'')),
          (''codex'', ready_or (which h (frontier_exec e) \<noteq> None) ''Codex CLI is unavailable on this host.''),
          (''policy_guard'', JStr ''ready''),
          (''emulator'', ready_or (which h ''emulator'' \<noteq> None \<and> avd_names avds \<noteq> [])
             ''Android emulator or AVD definitions are unavailable on this host.'')])])"

definition discover_host_capabilities :: "host \<Rightarrow> env \<Rightarrow> string \<Rightarrow> jdict proc" where
  "discover_host_capabilities h e workspace tr =
     (let (tools, tr1) = tool_records h (probed_tools e) tr;
          (models, tr2) = run_if_installed h (ollama_exec e) [''list''] ''ollama unavailable'' tr1;
          (avds, tr3) = emulator_listing h tr2
      in (capability_report h e workspace tools models avds, tr3))"

section \<open>What the discovery runs\<close>

definition probing_args :: "string list list" where
  "probing_args = [[''--version''], [''list''], [''-list-avds'']]"

definition only_probes :: "nat \<Rightarrow> trace \<Rightarrow> trace \<Rightarrow> bool" where
  "only_probes n tr tr' \<longleftrightarrow> (\<exists>cs. tr' = tr @ cs \<and> length cs \<le> n \<and> list_all (\<lambda>(tool, args). args \<in> set probing_args) cs)"

lemma only_probes_refl: "only_probes n tr tr"
  by (simp add: only_probes_def)

lemma only_probes_trans: "only_probes n tr tr1 \<Longrightarrow> only_probes m tr1 tr2 \<Longrightarrow> only_probes (n + m) tr tr2"
  by (force simp: only_probes_def)

lemma safe_run_probe: "args \<in> set probing_args \<Longrightarrow> only_probes (Suc 0) tr (snd (safe_run h x args tr))"
  by (auto simp: safe_run_def only_probes_def issue_def Let_def)

lemma run_if_installed_probe: "args \<in> set probing_args \<Longrightarrow> only_probes (Suc 0) tr (snd (run_if_installed h x args m tr))"
  by (simp add: run_if_installed_def safe_run_probe only_probes_refl)

lemma tool_record_probe: "only_probes (Suc 0) tr (snd (tool_record h t tr))"
  using run_if_installed_probe [of "[''--version'']" tr h "snd t" "''not installed''"]
  by (simp add: tool_record_def split_def probing_args_def Let_def)

lemma tool_records_probe: "only_probes (length ts) tr (snd (tool_records h ts tr))"
proof (induction ts arbitrary: tr)
  case (Cons t ts)
  from only_probes_trans [OF tool_record_probe Cons.IH] show ?case by (simp add: split_def Let_def)
qed (simp add: only_probes_refl)

lemma emulator_probe: "only_probes (Suc 0) tr (snd (emulator_listing h tr))"
  by (simp add: emulator_listing_def safe_run_probe only_probes_refl probing_args_def split: option.split)

lemma discovered_probes: "only_probes 6 tr (snd (discover_host_capabilities h e workspace tr))"
proof -
  have l: "[''list''] \<in> set probing_args" by (simp add: probing_args_def)
  note steps = only_probes_trans [OF only_probes_trans [OF tool_records_probe run_if_installed_probe [OF l]] emulator_probe]
  from steps [of "probed_tools e" tr h h "ollama_exec e" "''ollama unavailable''" h] show ?thesis
    by (simp add: discover_host_capabilities_def split_def probed_tools_def Let_def eval_nat_numeral)
qed

text \<open>Discovering the host runs at most six commands, and each only asks a tool for its version or a list.\<close>

theorem discovery_only_probes:
  "\<exists>cs. snd (discover_host_capabilities h e workspace tr) = tr @ cs \<and> length cs \<le> 6
     \<and> list_all (\<lambda>(tool, args). args \<in> set [[''--version''], [''list''], [''-list-avds'']]) cs"
  using discovered_probes [of tr h e workspace] by (simp add: only_probes_def probing_args_def)

text \<open>What the report says of the workers.\<close>

lemma report_ready:
  "dget0 (capability_report h e ws tools models avds) ''goose_ready'' = JBool (goose_ready h e models)"
  "dget0 (capability_report h e ws tools models avds) ''aider_ready'' = JBool (aider_ready h e models)"
  "dget0 (capability_report h e ws tools models avds) ''codex_available'' = JBool (which h (frontier_exec e) \<noteq> None)"
  by (simp_all add: capability_report_def Let_def)

end
