(* ===== verification/Runtime_Workers.thy ===== *)
theory Runtime_Workers
  imports Host_Capabilities Gemma_Engine Runtime_Models
begin

text \<open>
  \<open>app/core/runtime_workers.py\<close>: the workers a task is routed to, and their execution. Processes
  are those of the \<open>host\<close>, and every command is threaded through its trace; the environment and
  the directory a worker is started with belong to the host. The language model and \<open>json.loads\<close>
  are in \<open>language_model\<close>. \<open>wk_stamp\<close> is the time stamp of a file name, \<open>wk_ms\<close> the duration of a
  command, after the commands issued so far.
\<close>

section \<open>Tasks and adapters\<close>

record worker_task =
  wt_task_type :: string
  wt_summary :: string
  wt_prompt :: string
  wt_risk :: task_risk
  wt_needs_repo_edit :: bool
  wt_architecture_level :: bool
  wt_repetitive :: bool
  wt_local_retry_count :: int
  wt_retry_budget :: int
  wt_context :: jdict
  wt_target_files :: "string list"
  wt_invocation_override :: "string list option"

record worker_adapter =
  wa_role :: worker_role
  wa_tier :: worker_tier
  wa_label :: string
  wa_executable :: string
  wa_purpose :: string
  wa_available :: bool
  wa_fallback_role :: "worker_role option"

definition adapter_name :: "worker_adapter \<Rightarrow> string" where
  "adapter_name a = replace_char (CHR '' '') (CHR ''_'') (lower (wa_label a))"

definition task_text :: "worker_task \<Rightarrow> string" where
  "task_text t = (if wt_prompt t = [] then wt_summary t else wt_prompt t)"

text \<open>\<open>if task.invocation_override: return list(task.invocation_override)\<close>.\<close>

definition overridden :: "worker_task \<Rightarrow> string list \<Rightarrow> string list" where
  "overridden t command = (case wt_invocation_override t of Some (c # cs) \<Rightarrow> c # cs | _ \<Rightarrow> command)"

definition ollama_command :: "env \<Rightarrow> worker_task \<Rightarrow> string \<Rightarrow> string list" where
  "ollama_command e t model =
     overridden t
       [ollama_exec e, ''run'', if model = [] then local_model e else model, task_text t, ''--format'', ''json'', ''--hidethinking'']"

definition goose_command :: "env \<Rightarrow> worker_task \<Rightarrow> string \<Rightarrow> string list" where
  "goose_command e t model =
     overridden t
       [goose_exec e, ''run'', ''--text'', task_text t, ''--no-session'', ''--quiet'', ''--output-format'', ''json'',
        ''--provider'', env_get e ''FORGEOS_GOOSE_PROVIDER'' ''ollama'',
        ''--model'', if model = [] then env_get e ''FORGEOS_GOOSE_MODEL'' ''gemma4:latest'' else model]"

definition aider_command :: "env \<Rightarrow> worker_task \<Rightarrow> string \<Rightarrow> string \<Rightarrow> string list" where
  "aider_command e t dir model =
     (let selected = (if model = [] then env_get e ''FORGEOS_AIDER_MODEL'' ''ollama_chat/gemma4:latest'' else model) in
      overridden t
        ([aider_exec e, ''--message'', task_text t, ''--yes-always'', ''--no-auto-commits'', ''--no-pretty'', ''--no-stream'',
          ''--map-tokens'', ''0'', ''--no-show-release-notes'', ''--no-check-update'',
          ''--input-history-file'', sub dir ''runtime/.aider.input.history'',
          ''--chat-history-file'', sub dir ''runtime/.aider.chat.history.md'',
          ''--llm-history-file'', sub dir ''runtime/.aider.llm.history.log'']
         @ (if selected = [] then [] else [''--model'', selected])
         @ concat (map (\<lambda>target. [''--file'', target]) (wt_target_files t))))"

section \<open>The registry\<close>

type_synonym registry = "(worker_role \<times> worker_adapter) list"

definition registered :: "env \<Rightarrow> worker_adapter list" where
  "registered e =
     [\<lparr>wa_role = WR_FRONTIER_ARCHITECT, wa_tier = WT_FRONTIER, wa_label = ''Frontier architect path'',
       wa_executable = frontier_exec e,
       wa_purpose = ''Major architecture changes, high-risk planning, and escalation work.'',
       wa_available = False, wa_fallback_role = None\<rparr>,
      \<lparr>wa_role = WR_LOCAL_GENERAL, wa_tier = WT_LOCAL, wa_label = ''Goose local worker'', wa_executable = goose_exec e,
       wa_purpose = ''General autonomous execution, remediation loops, and local tool use.'',
       wa_available = False, wa_fallback_role = Some WR_FRONTIER_ARCHITECT\<rparr>,
      \<lparr>wa_role = WR_LOCAL_EDITOR, wa_tier = WT_LOCAL, wa_label = ''Aider local editor'', wa_executable = aider_exec e,
       wa_purpose = ''Repo-aware edits, patch creation, and test-fix loops.'',
       wa_available = False, wa_fallback_role = Some WR_FRONTIER_ARCHITECT\<rparr>,
      \<lparr>wa_role = WR_POLICY_GUARD, wa_tier = WT_DETERMINISTIC, wa_label = ''Deterministic policy guard'',
       wa_executable = ''internal-policy-guard'', wa_purpose = ''Approvals, hard stops, and destructive-action checks.'',
       wa_available = False, wa_fallback_role = None\<rparr>]"

fun role_available :: "jdict \<Rightarrow> worker_role \<Rightarrow> bool" where
  "role_available caps WR_LOCAL_GENERAL = truthy (dget0 caps ''goose_ready'')"
| "role_available caps WR_LOCAL_EDITOR = truthy (dget0 caps ''aider_ready'')"
| "role_available caps WR_FRONTIER_ARCHITECT = truthy (dget0 caps ''codex_available'')"
| "role_available caps WR_POLICY_GUARD = True"

definition discover_registry :: "env \<Rightarrow> jdict \<Rightarrow> registry" where
  "discover_registry e caps =
     map (\<lambda>a. (wa_role a, a\<lparr>wa_available := role_available caps (wa_role a)\<rparr>)) (registered e)"

definition get_adapter :: "registry \<Rightarrow> worker_role \<Rightarrow> worker_adapter res" where
  "get_adapter reg role =
     (case map_of reg role of
        None \<Rightarrow> Inl (KeyError (''Worker adapter for '' @ worker_role_value role @ '' is not registered''))
      | Some a \<Rightarrow> Inr a)"

fun reason_key :: "worker_role \<Rightarrow> string" where
  "reason_key WR_LOCAL_GENERAL = ''goose''"
| "reason_key WR_LOCAL_EDITOR = ''aider''"
| "reason_key WR_FRONTIER_ARCHITECT = ''codex''"
| "reason_key WR_POLICY_GUARD = ''policy_guard''"

text \<open>Of two tools with one executable the later record is found.\<close>

definition tool_version :: "jdict \<Rightarrow> string \<Rightarrow> json res" where
  "tool_version caps executable =
     bindr (as_list (dget caps ''tools'' (JList []))) (\<lambda>tools.
     bindr (mapr as_dict tools) (\<lambda>ds.
     bindr (mapr (\<lambda>d. bindr (dindex d ''executable'') as_str) ds) (\<lambda>names.
     Inr (case map_of (rev (zip names ds)) executable of None \<Rightarrow> JStr [] | Some d \<Rightarrow> dget d ''version'' (JStr [])))))"

definition inventory_entry :: "jdict \<Rightarrow> worker_adapter \<Rightarrow> jdict res" where
  "inventory_entry caps a =
     bindr (tool_version caps (wa_executable a)) (\<lambda>version.
     bindr (jget (dget caps ''reasons'' (JObj [])) (reason_key (wa_role a)) (JStr [])) (\<lambda>reason.
     Inr [(''role'', JStr (worker_role_value (wa_role a))), (''tier'', JStr (worker_tier_value (wa_tier a))),
          (''label'', JStr (wa_label a)), (''purpose'', JStr (wa_purpose a)),
          (''adapter_name'', JStr (adapter_name a)), (''executable'', JStr (wa_executable a)),
          (''available'', JBool (wa_available a)),
          (''fallback_role'', jopt (\<lambda>r. JStr (worker_role_value r)) (wa_fallback_role a)),
          (''version'', version), (''readiness_reason'', reason)]))"

definition inventory :: "registry \<Rightarrow> jdict \<Rightarrow> jdict list res" where
  "inventory reg caps = mapr (inventory_entry caps) (map snd reg)"

section \<open>Routing\<close>

definition route_decision :: "string \<Rightarrow> registry \<Rightarrow> worker_task \<Rightarrow> worker_role \<Rightarrow> string \<Rightarrow> string list \<Rightarrow> worker_route_decision res" where
  "route_decision now reg t role rationale triggers =
     bindr (get_adapter reg role) (\<lambda>primary.
     bindr (case wa_fallback_role primary of
              Some fallback \<Rightarrow>
                if wa_available primary then Inr (primary, rationale)
                else bindr (get_adapter reg fallback) (\<lambda>a.
                  Inr (a, rationale @ '' Primary adapter is unavailable, so ForgeOS falls back to ''
                            @ worker_role_value (wa_role a) @ ''.''))
            | None \<Rightarrow> Inr (primary, rationale))
       (\<lambda>(a, why).
     Inr \<lparr>wd_task_type = wt_task_type t, wd_selected_worker = wa_role a, wd_selected_tier = wa_tier a,
          wd_rationale = why, wd_adapter_name = adapter_name a, wd_fallback_worker = wa_fallback_role primary,
          wd_escalation_triggers = triggers, wd_generated_at = now\<rparr>))"

definition high_risk :: "worker_task \<Rightarrow> bool" where
  "high_risk t \<longleftrightarrow> wt_architecture_level t \<or> wt_risk t \<in> {TR_HIGH, TR_CRITICAL}"

definition route :: "string \<Rightarrow> registry \<Rightarrow> worker_task \<Rightarrow> worker_route_decision res" where
  "route now reg t =
     (if high_risk t then
        route_decision now reg t WR_FRONTIER_ARCHITECT
          ''High-risk or architecture-level work must escalate to the frontier architect path.''
          [''confidence is low'', ''task affects irreversible install planning'', ''local retries are exhausted'']
      else if wt_needs_repo_edit t then
        route_decision now reg t WR_LOCAL_EDITOR ''Repo-aware code changes should default to the local editor worker.''
          [''edit loop stalls repeatedly'', ''patches touch safety-critical install logic'',
           ''requested change expands into architecture work'']
      else if 2 \<le> wt_local_retry_count t then
        route_decision now reg t WR_FRONTIER_ARCHITECT
          ''The local retry budget is exhausted, so the task escalates to the frontier path.''
          [''route back to local only after a narrower remediation plan exists'']
      else
        route_decision now reg t WR_LOCAL_GENERAL
          ''Default to the cheapest suitable worker for general runtime execution.''
          [''worker stalls on the same blocker'', ''result quality is too low for the risk level''])"

section \<open>Attempts\<close>

record worker_world =
  wk_host :: host
  wk_lm :: language_model
  wk_env :: env
  wk_stamp :: "trace \<Rightarrow> string"
  wk_ms :: "trace \<Rightarrow> int"
  wk_now :: string

definition parse_lines :: "language_model \<Rightarrow> string \<Rightarrow> jdict" where
  "parse_lines lm stdout =
     (case filter (\<lambda>l. l \<noteq> []) (map strip (splitlines stdout)) of
        [] \<Rightarrow> []
      | ls \<Rightarrow> [(''responses'', JList (map (\<lambda>l. case gm_loads lm l of Some v \<Rightarrow> v | None \<Rightarrow> JObj [(''text'', JStr l)])
                 (take 20 ls)))])"

definition change_hints :: "string \<Rightarrow> string list" where
  "change_hints stdout =
     filter (\<lambda>l. starts_with l ''Applied edit to'' \<or> starts_with l ''Added '') (splitlines stdout)"

text \<open>The whole output may be any JSON value, not only a dictionary.\<close>

definition parse_output :: "language_model \<Rightarrow> string \<Rightarrow> string \<Rightarrow> string \<Rightarrow> json" where
  "parse_output lm name stdout stderr =
     (if stdout = [] then JObj (if stderr = [] then [] else [(''stderr_summary'', JStr (take 400 stderr))])
      else case gm_loads lm stdout of
        Some v \<Rightarrow> v
      | None \<Rightarrow>
          JObj (if starts_with name ''ollama'' then parse_lines lm stdout
                else if name = ''goose_local_worker'' then [(''response_text'', JStr (take 2000 stdout))]
                else if name = ''aider_local_editor''
                     then [(''response_text'', JStr (take 2000 stdout)), (''change_hints'', jstrs (change_hints stdout))]
                else [(''response_text'', JStr (take 2000 stdout))]))"

record attempt_log =
  lg_outputs :: "string list"
  lg_durations :: "int list"
  lg_exit :: "int option"
  lg_stdout :: string
  lg_stderr :: string
  lg_structured :: json

definition empty_log :: attempt_log where
  "empty_log = \<lparr>lg_outputs = [], lg_durations = [], lg_exit = None, lg_stdout = [], lg_stderr = [], lg_structured = JObj []\<rparr>"

definition log_attempt :: "language_model \<Rightarrow> string \<Rightarrow> completed \<Rightarrow> int \<Rightarrow> attempt_log \<Rightarrow> attempt_log" where
  "log_attempt lm name r ms lg =
     (let out = strip (cp_stdout r); err = strip (cp_stderr r); parsed = parse_output lm name out err in
      \<lparr>lg_outputs = lg_outputs lg @ [out], lg_durations = lg_durations lg @ [ms], lg_exit = Some (cp_returncode r),
       lg_stdout = out, lg_stderr = err, lg_structured = (if truthy parsed then parsed else lg_structured lg)\<rparr>)"

text \<open>
  \<open>subprocess.run\<close> raises where the program is not installed. The loop runs at most the budget, and
  ends early when a command succeeds with an output.
\<close>

fun attempts_loop :: "worker_world \<Rightarrow> string \<Rightarrow> string list \<Rightarrow> nat \<Rightarrow> attempt_log \<Rightarrow> attempt_log res proc" where
  "attempts_loop w name command 0 lg tr = (Inr lg, tr)"
| "attempts_loop w name command (Suc n) lg tr =
     (if command = [] then (Inl (IndexError ''list index out of range''), tr)
      else if \<not> h_installed (wk_host w) (program (hd command)) then (Inl (FileNotFoundError (hd command)), tr)
      else let (r, tr') = issue (wk_host w) (program (hd command), tl command) tr;
               lg' = log_attempt (wk_lm w) name r (wk_ms w tr') lg
           in if cp_returncode r = 0 \<and> lg_stdout lg' \<noteq> [] then (Inr lg', tr')
              else attempts_loop w name command n lg' tr')"

definition attempt_budget :: "worker_task \<Rightarrow> int" where
  "attempt_budget t = max 1 (wt_retry_budget t)"

definition failed_exit :: "attempt_log \<Rightarrow> bool" where
  "failed_exit lg \<longleftrightarrow> (case lg_exit lg of None \<Rightarrow> False | Some c \<Rightarrow> c \<noteq> 0)"

definition telemetry_of :: "worker_task \<Rightarrow> attempt_log \<Rightarrow> retry_telemetry" where
  "telemetry_of t lg =
     (let attempts = length (lg_outputs lg) in
      \<lparr>rl_attempts = int attempts, rl_retry_budget = attempt_budget t,
       rl_repeated_failure = (length (dedupe (lg_outputs lg)) = 1 \<and> 1 < attempts \<and> failed_exit lg),
       rl_exhausted = (attempt_budget t \<le> int attempts \<and> failed_exit lg),
       rl_last_error = lg_stderr lg, rl_durations_ms = lg_durations lg\<rparr>)"

definition score_confidence :: "attempt_log \<Rightarrow> retry_telemetry \<Rightarrow> rat" where
  "score_confidence lg tel =
     (let score = 1 / 10 + (if lg_exit lg = Some 0 then 45 / 100 else 0) + (if lg_stdout lg \<noteq> [] then 2 / 10 else 0)
            + (if truthy (lg_structured lg) then 15 / 100 else 0) - (if lg_stderr lg \<noteq> [] then 1 / 10 else 0)
            - (if rl_repeated_failure tel then 15 / 100 else 0)
            - (if rl_exhausted tel \<and> lg_exit lg \<noteq> Some 0 then 25 / 100 else 0)
      in max 0 (min (99 / 100) (py_round score 2)))"

definition final_triggers :: "string list \<Rightarrow> attempt_log \<Rightarrow> rat \<Rightarrow> retry_telemetry \<Rightarrow> string list" where
  "final_triggers triggers lg confidence tel =
     triggers @ (if failed_exit lg then [''worker exited non-zero''] else [])
     @ (if confidence < 45 / 100 then [''worker confidence fell below acceptable threshold''] else [])
     @ (if rl_exhausted tel then [''retry budget exhausted''] else [])
     @ (if rl_repeated_failure tel then [''worker repeated the same failing output''] else [])"

section \<open>Executions\<close>

text \<open>\<open>f"{x:.2f}"\<close> of a number that is not negative.\<close>

definition fixed2 :: "rat \<Rightarrow> string" where
  "fixed2 x =
     (let n = nat (round_even (100 * x)) in
      nat_digits (n div 100) @ ''.'' @ nat_digits (n mod 100 div 10) @ nat_digits (n mod 10))"

definition build_summary :: "worker_task \<Rightarrow> int option \<Rightarrow> rat \<Rightarrow> retry_telemetry \<Rightarrow> string" where
  "build_summary t exit_code confidence tel =
     (if exit_code = Some 0
      then ''Executed `'' @ wt_task_type t @ ''` with confidence '' @ fixed2 confidence @ '' after ''
             @ int_str (rl_attempts tel) @ '' attempt(s).''
      else ''`'' @ wt_task_type t @ ''` failed after '' @ int_str (rl_attempts tel) @ '' attempt(s) with confidence ''
             @ fixed2 confidence @ ''.'')"

definition no_telemetry :: retry_telemetry where
  "no_telemetry = \<lparr>rl_attempts = 0, rl_retry_budget = 0, rl_repeated_failure = False, rl_exhausted = False,
     rl_last_error = [], rl_durations_ms = []\<rparr>"

definition bare_execution :: "string \<Rightarrow> worker_role \<Rightarrow> string \<Rightarrow> worker_task \<Rightarrow> string \<Rightarrow> string \<Rightarrow> worker_execution" where
  "bare_execution now role name t status summary =
     \<lparr>we_worker = worker_role_value role, we_adapter_name = name, we_task_type = wt_task_type t, we_status = status,
      we_summary = summary, we_command = [], we_transcript_path = [], we_stdout = [], we_stderr = [], we_exit_code = None,
      we_confidence = 0, we_escalation_triggers = [], we_telemetry = no_telemetry, we_structured_output = JObj [],
      we_generated_at = now\<rparr>"

definition transcript_json :: "string \<Rightarrow> worker_execution \<Rightarrow> jdict \<Rightarrow> jdict" where
  "transcript_json now x extra =
     [(''generated_at'', JStr now), (''worker'', JStr (we_worker x)), (''adapter_name'', JStr (we_adapter_name x)),
      (''task_type'', JStr (we_task_type x)), (''status'', JStr (we_status x)), (''summary'', JStr (we_summary x)),
      (''command'', jstrs (we_command x)), (''stdout'', JStr (we_stdout x)), (''stderr'', JStr (we_stderr x)),
      (''exit_code'', jopt JInt (we_exit_code x)), (''confidence'', JFloat (we_confidence x)),
      (''escalation_triggers'', jstrs (we_escalation_triggers x)), (''telemetry'', retry_telemetry_to_dict (we_telemetry x)),
      (''structured_output'', we_structured_output x), (''task'', JObj extra),
      (''model_selection'', dget0 extra ''model_selection'')]"

definition worker_transcript_path :: "string \<Rightarrow> string \<Rightarrow> string \<Rightarrow> string" where
  "worker_transcript_path dir task_type stamp =
     sub dir (''runtime/workers/'' @ replace_char (CHR '' '') (CHR ''_'') (replace_char (CHR ''/'') (CHR ''-'') task_type)
       @ ''-'' @ stamp @ ''.json'')"

type_synonym 'a work = "trace \<times> disk \<Rightarrow> 'a res \<times> trace \<times> disk"

definition write_transcript :: "worker_world \<Rightarrow> string \<Rightarrow> worker_execution \<Rightarrow> jdict \<Rightarrow> worker_execution work" where
  "write_transcript w dir x extra = (\<lambda>(tr, dk).
     let path = worker_transcript_path dir (we_task_type x) (wk_stamp w tr) in
     (Inr (x\<lparr>we_transcript_path := path\<rparr>), tr,
      dk_write path (JObj (transcript_json (wk_now w) x extra)) (dk_mkdir (sub dir ''runtime/workers'') dk)))"

definition adapter_execution ::
    "string \<Rightarrow> worker_role \<Rightarrow> string \<Rightarrow> worker_task \<Rightarrow> string list \<Rightarrow> string list \<Rightarrow> attempt_log \<Rightarrow> worker_execution" where
  "adapter_execution now role name t command triggers lg =
     (let tel = telemetry_of t lg; confidence = score_confidence lg tel in
      (bare_execution now role name t (if lg_exit lg = Some 0 then ''completed'' else ''failed'')
         (build_summary t (lg_exit lg) confidence tel))
      \<lparr>we_command := command, we_stdout := lg_stdout lg, we_stderr := lg_stderr lg, we_exit_code := lg_exit lg,
       we_confidence := confidence, we_escalation_triggers := final_triggers triggers lg confidence tel,
       we_telemetry := tel, we_structured_output := lg_structured lg\<rparr>)"

definition run_adapter ::
    "worker_world \<Rightarrow> worker_role \<Rightarrow> string \<Rightarrow> worker_task \<Rightarrow> string \<Rightarrow> string list \<Rightarrow> string list
       \<Rightarrow> model_selection option \<Rightarrow> worker_execution work" where
  "run_adapter w role name t dir command triggers selection = (\<lambda>(tr, dk).
     case attempts_loop w name command (nat (attempt_budget t)) empty_log tr of
       (Inl err, tr') \<Rightarrow> (Inl err, tr', dk)
     | (Inr lg, tr') \<Rightarrow>
         write_transcript w dir (adapter_execution (wk_now w) role name t command triggers lg)
           [(''task'', JStr (wt_summary t)), (''prompt'', JStr (wt_prompt t)), (''context'', JObj (wt_context t)),
            (''model_selection'', jopt (\<lambda>s. JObj (selection_as_dict s)) selection)] (tr', dk))"

record worker_runtime =
  wn_capabilities :: jdict
  wn_router :: model_router

definition worker_runtime_of :: "env \<Rightarrow> jdict \<Rightarrow> worker_runtime" where
  "worker_runtime_of e caps =
     \<lparr>wn_capabilities = caps, wn_router = from_ollama_list (dstr caps ''ollama_models_output'' []) e\<rparr>"

definition ollama_available :: "worker_runtime \<Rightarrow> bool" where
  "ollama_available rt \<longleftrightarrow> truthy (dget0 (wn_capabilities rt) ''ollama_available'') \<and> mr_available_models (wn_router rt) \<noteq> {}"

definition goose_available :: "worker_runtime \<Rightarrow> bool" where
  "goose_available rt \<longleftrightarrow> truthy (dget0 (wn_capabilities rt) ''goose_ready'')"

definition adapter_health :: "worker_runtime \<Rightarrow> jdict" where
  "adapter_health rt =
     dset (wn_capabilities rt) ''model_routes'' (JObj (map (\<lambda>(role, s). (role, JObj s)) (configured_routes (wn_router rt))))"

definition routed :: "worker_task \<Rightarrow> bool \<Rightarrow> bool \<Rightarrow> routed_task" where
  "routed t repo_edit architecture =
     \<lparr>rt_task_type = wt_task_type t, rt_risk = task_risk_value (wt_risk t), rt_needs_repo_edit = repo_edit,
      rt_architecture_level = architecture, rt_repetitive = wt_repetitive t\<rparr>"

definition helper_name :: "model_selection \<Rightarrow> string" where
  "helper_name s = ''ollama_'' @ replace_char (CHR '':'') (CHR ''_'') (ms_model s) @ ''_local_helper''"

text \<open>\<open>fallback.summary = ...\<close> after the transcript was written.\<close>

definition with_summary :: "string \<Rightarrow> worker_execution work \<Rightarrow> worker_execution work" where
  "with_summary s m st = (case m st of (Inr x, st') \<Rightarrow> (Inr (x\<lparr>we_summary := s\<rparr>), st') | (Inl e, st') \<Rightarrow> (Inl e, st'))"

definition good_help :: "worker_execution \<Rightarrow> bool" where
  "good_help x \<longleftrightarrow> 55 / 100 \<le> we_confidence x \<and> we_status x = ''completed''"

definition no_local_worker :: "worker_world \<Rightarrow> worker_route_decision \<Rightarrow> worker_task \<Rightarrow> string \<Rightarrow> worker_execution work" where
  "no_local_worker w d t dir =
     write_transcript w dir
       ((bare_execution (wk_now w) (wd_selected_worker d) (wd_adapter_name d) t ''unavailable''
          ''Neither Goose nor the Ollama local helper was available for this local-general task.'')
        \<lparr>we_escalation_triggers := wd_escalation_triggers d @ [''local worker executable unavailable''],
         we_telemetry := no_telemetry\<lparr>rl_retry_budget := wt_retry_budget t\<rparr>\<rparr>)
       [(''task'', JStr (wt_summary t))]"

definition run_goose :: "worker_world \<Rightarrow> worker_runtime \<Rightarrow> worker_route_decision \<Rightarrow> worker_task \<Rightarrow> string \<Rightarrow> model_selection
     \<Rightarrow> worker_execution work" where
  "run_goose w rt d t dir s =
     (if goose_available rt then
        run_adapter w (wd_selected_worker d) (wd_adapter_name d) t dir (goose_command (wk_env w) t (ms_model s))
          (wd_escalation_triggers d) (Some s)
      else if ollama_available rt then
        with_summary ''Goose was unavailable, so ForgeOS used the Ollama local helper as the execution path.''
          (run_adapter w (wd_selected_worker d) (helper_name s) t dir (ollama_command (wk_env w) t (ms_model s))
             (wd_escalation_triggers d) (Some s))
      else no_local_worker w d t dir)"

definition run_local_general :: "worker_world \<Rightarrow> worker_runtime \<Rightarrow> worker_route_decision \<Rightarrow> worker_task \<Rightarrow> string
     \<Rightarrow> worker_execution work" where
  "run_local_general w rt d t dir st =
     (case wt_invocation_override t of
        Some (c # cs) \<Rightarrow>
          run_adapter w (wd_selected_worker d) (wd_adapter_name d) t dir (c # cs) (wd_escalation_triggers d) None st
      | _ \<Rightarrow>
          let s = select_for_task (wn_router rt) (routed t (wt_needs_repo_edit t) (wt_architecture_level t)) in
          if (wt_repetitive t \<or> wt_risk t = TR_LOW) \<and> ollama_available rt then
            (case run_adapter w (wd_selected_worker d) (helper_name s) t dir (ollama_command (wk_env w) t (ms_model s))
                    (wd_escalation_triggers d) (Some s) st of
               (Inl err, st') \<Rightarrow> (Inl err, st')
             | (Inr helper, st') \<Rightarrow> if good_help helper then (Inr helper, st') else run_goose w rt d t dir s st')
          else run_goose w rt d t dir s st)"

definition write_text :: "string \<Rightarrow> string \<Rightarrow> disk \<Rightarrow> disk" where
  "write_text path text dk = dk\<lparr>dk_files := AList.update path (FText text) (dk_files dk)\<rparr>"

definition reply_summary :: "jdict \<Rightarrow> string res" where
  "reply_summary response =
     bindr (as_str (jor (dget0 response ''response'') (jor (dget0 response ''summary'') (JStr (py_str (JObj response))))))
       (\<lambda>text. Inr (take 500 (if text = [] then ''Gemma returned no response.'' else text)))"

definition run_gemma_frontier :: "worker_world \<Rightarrow> worker_runtime \<Rightarrow> worker_route_decision \<Rightarrow> worker_task \<Rightarrow> string
     \<Rightarrow> worker_execution work" where
  "run_gemma_frontier w rt d t dir = (\<lambda>(tr, dk).
     let s = select_for_task (wn_router rt) (routed t (wt_needs_repo_edit t) True);
         code = write_code (wk_lm w) (ms_model s) (task_text t) (wt_context t) ''python'';
         script = sub dir (''runtime/gemma_frontier_'' @ wk_stamp w tr @ ''.py'') in
     if code \<noteq> [] then
       run_adapter w (wd_selected_worker d) ''gemma_frontier_codegen'' t dir [''python3'', script]
         (wd_escalation_triggers d) (Some s) (tr, write_text script code (dk_mkdir (sub dir ''runtime'') dk))
     else
       (let response = ask (wk_lm w) (ms_model s) (task_text t) JNull (2 / 10) in
        case reply_summary response of
          Inl err \<Rightarrow> (Inl err, tr, dk)
        | Inr summary \<Rightarrow>
            write_transcript w dir
              ((bare_execution (wk_now w) (wd_selected_worker d) ''gemma_frontier_ask'' t
                  (if response = [] then ''failed'' else ''completed'') summary)
               \<lparr>we_confidence := (if response = [] then 1 / 10 else 65 / 100),
                we_escalation_triggers := wd_escalation_triggers d,
                we_telemetry := no_telemetry\<lparr>rl_attempts := 1, rl_retry_budget := wt_retry_budget t\<rparr>\<rparr>)
              [(''task'', JStr (wt_summary t)), (''gemma_response'', JObj response),
               (''model_selection'', JObj (selection_as_dict s))] (tr, dk)))"

text \<open>
  The health document is written first. The four roles are all there are, so the branch of the
  source behind them is never reached.
\<close>

definition execute_worker :: "worker_world \<Rightarrow> worker_runtime \<Rightarrow> worker_route_decision \<Rightarrow> worker_task \<Rightarrow> string
     \<Rightarrow> worker_execution work" where
  "execute_worker w rt d t dir = (\<lambda>(tr, dk).
     let st = (tr, dk_write (sub dir ''runtime/adapter-health.json'') (JObj (adapter_health rt))
                     (dk_mkdir (sub dir ''runtime'') dk)) in
     case wd_selected_worker d of
       WR_POLICY_GUARD \<Rightarrow>
         write_transcript w dir
           ((bare_execution (wk_now w) WR_POLICY_GUARD (wd_adapter_name d) t ''deterministic''
               ''Task stays inside deterministic application logic.'')\<lparr>we_confidence := 99 / 100\<rparr>)
           [(''task'', JStr (wt_summary t))] st
     | WR_LOCAL_GENERAL \<Rightarrow> run_local_general w rt d t dir st
     | WR_LOCAL_EDITOR \<Rightarrow>
         (let s = select_for_task (wn_router rt) (routed t True (wt_architecture_level t)) in
          run_adapter w WR_LOCAL_EDITOR (wd_adapter_name d) t dir (aider_command (wk_env w) t dir (aider_model s))
            (wd_escalation_triggers d) (Some s) st)
     | WR_FRONTIER_ARCHITECT \<Rightarrow> run_gemma_frontier w rt d t dir st)"

section \<open>Routes\<close>

definition preferred_role :: "worker_task \<Rightarrow> worker_role" where
  "preferred_role t = (if wt_needs_repo_edit t then WR_LOCAL_EDITOR else WR_LOCAL_GENERAL)"

definition escalates :: "worker_task \<Rightarrow> bool" where
  "escalates t \<longleftrightarrow> high_risk t \<or> (\<not> wt_needs_repo_edit t \<and> 2 \<le> wt_local_retry_count t)"

lemma get_registered [simp]:
  "get_adapter (discover_registry e caps) WR_FRONTIER_ARCHITECT
     = Inr ((registered e ! 0)\<lparr>wa_available := role_available caps WR_FRONTIER_ARCHITECT\<rparr>)"
  "get_adapter (discover_registry e caps) WR_LOCAL_GENERAL
     = Inr ((registered e ! 1)\<lparr>wa_available := role_available caps WR_LOCAL_GENERAL\<rparr>)"
  "get_adapter (discover_registry e caps) WR_LOCAL_EDITOR
     = Inr ((registered e ! 2)\<lparr>wa_available := role_available caps WR_LOCAL_EDITOR\<rparr>)"
  by (simp_all add: get_adapter_def discover_registry_def registered_def)

lemma every_route_succeeds: "\<exists>d. route now (discover_registry e caps) t = Inr d"
  by (simp add: route_def route_decision_def registered_def)

text \<open>
  Every task is routed, never to the policy guard: an escalated task and a task whose worker the
  host cannot run go to the frontier architect, the others to the local worker of their kind,
  which then is available.
\<close>

theorem every_task_is_routed:
  "\<exists>d. route now (discover_registry e caps) t = Inr d
     \<and> wd_selected_worker d = (if escalates t \<or> \<not> role_available caps (preferred_role t) then WR_FRONTIER_ARCHITECT
                               else preferred_role t)
     \<and> wd_selected_tier d = (if wd_selected_worker d = WR_FRONTIER_ARCHITECT then WT_FRONTIER else WT_LOCAL)"
  by (simp add: route_def route_decision_def escalates_def preferred_role_def registered_def)

text \<open>
  On a host whose capabilities were discovered, the routing succeeds for every task, and a local
  worker is only selected when its program is installed.
\<close>

theorem routed_worker_is_installed:
  "(case route now (discover_registry e (fst (discover_host_capabilities h e workspace tr))) t of
      Inl err \<Rightarrow> False
    | Inr d \<Rightarrow> (case wd_selected_worker d of
          WR_FRONTIER_ARCHITECT \<Rightarrow> True
        | WR_LOCAL_GENERAL \<Rightarrow> h_installed h (program (goose_exec e))
        | WR_LOCAL_EDITOR \<Rightarrow> h_installed h (program (aider_exec e))
        | WR_POLICY_GUARD \<Rightarrow> False))"
proof -
  obtain tools models avds where c: "fst (discover_host_capabilities h e workspace tr) = capability_report h e workspace tools models avds"
    by (simp add: discover_host_capabilities_def split_def Let_def)
  show ?thesis
    by (simp add: c route_def route_decision_def registered_def report_ready goose_ready_def aider_ready_def which_def
        h_installed_def)
qed

section \<open>Attempts and confidence\<close>

lemma attempts_loop_commands:
  "attempts_loop w name command n lg tr = (r, tr') \<Longrightarrow>
     \<exists>cs. tr' = tr @ cs \<and> length cs \<le> n \<and> set cs \<subseteq> {(program (hd command), tl command)}
       \<and> (case r of Inl e \<Rightarrow> True | Inr lg' \<Rightarrow> length (lg_outputs lg') = length (lg_outputs lg) + length cs)"
proof (induction n arbitrary: lg tr)
  case 0
  then show ?case by auto
next
  case (Suc n)
  show ?case
  proof (cases "command = [] \<or> \<not> h_installed (wk_host w) (program (hd command))")
    case True
    with Suc.prems show ?thesis by (auto split: if_splits)
  next
    case False
    let ?c = "(program (hd command), tl command)"
    let ?r = "h_exec (wk_host w) tr ?c"
    let ?lg = "log_attempt (wk_lm w) name ?r (wk_ms w (tr @ [?c])) lg"
    have out: "length (lg_outputs ?lg) = Suc (length (lg_outputs lg))" by (simp add: log_attempt_def Let_def)
    show ?thesis
    proof (cases "cp_returncode ?r = 0 \<and> lg_stdout ?lg \<noteq> []")
      case True
      with False Suc.prems out show ?thesis by (intro exI [of _ "[?c]"]) (auto simp: issue_def Let_def)
    next
      case again: False
      with False Suc.prems have "attempts_loop w name command n ?lg (tr @ [?c]) = (r, tr')"
        by (auto simp: issue_def Let_def)
      from Suc.IH [OF this] obtain cs where "tr' = (tr @ [?c]) @ cs" "length cs \<le> n" "set cs \<subseteq> {?c}"
        "case r of Inl e \<Rightarrow> True | Inr lg' \<Rightarrow> length (lg_outputs lg') = length (lg_outputs ?lg) + length cs" by blast
      then show ?thesis using out by (intro exI [of _ "?c # cs"]) (auto split: sum.splits)
    qed
  qed
qed

text \<open>What an operation adds to the trace.\<close>

definition adds_at_most :: "int \<Rightarrow> trace \<times> disk \<Rightarrow> 'a res \<times> trace \<times> disk \<Rightarrow> bool" where
  "adds_at_most n st r \<longleftrightarrow> (\<exists>cs. fst (snd r) = fst st @ cs \<and> int (length cs) \<le> n)"

lemma adds_none: "0 \<le> n \<Longrightarrow> adds_at_most n st (r, fst st, dk)"
  by (simp add: adds_at_most_def)

lemma adds_transcript [simp]: "0 \<le> n \<Longrightarrow> adds_at_most n st (write_transcript w dir x extra st)"
  by (cases st) (simp add: write_transcript_def Let_def adds_at_most_def)

lemma budget_pos: "1 \<le> attempt_budget t"
  by (simp add: attempt_budget_def)

lemma adds_adapter: "adds_at_most (attempt_budget t) st (run_adapter w role name t dir command triggers s st)"
proof (cases st)
  case (Pair tr dk)
  obtain r tr' where a: "attempts_loop w name command (nat (attempt_budget t)) empty_log tr = (r, tr')" by force
  from attempts_loop_commands [OF a] budget_pos [of t] show ?thesis
    by (auto simp: Pair run_adapter_def a adds_at_most_def write_transcript_def Let_def split: sum.split)
qed

lemma adds_mono: "adds_at_most n st r \<Longrightarrow> n \<le> m \<Longrightarrow> adds_at_most m st r"
  by (force simp: adds_at_most_def)

lemma adds_trans: "adds_at_most n st (r, st') \<Longrightarrow> adds_at_most m st' q \<Longrightarrow> adds_at_most (n + m) st q"
  by (force simp: adds_at_most_def)

lemma adds_summary: "adds_at_most n st (m st) \<Longrightarrow> adds_at_most n st (with_summary s m st)"
  by (auto simp: with_summary_def adds_at_most_def split: prod.splits sum.splits)

lemma adds_goose: "adds_at_most (attempt_budget t) st (run_goose w rt d t dir s st)"
  using budget_pos [of t]
  by (simp add: run_goose_def adds_adapter adds_summary no_local_worker_def)

lemma adds_local: "adds_at_most (2 * attempt_budget t) st (run_local_general w rt d t dir st)"
proof -
  let ?s = "select_for_task (wn_router rt) (routed t (wt_needs_repo_edit t) (wt_architecture_level t))"
  let ?helper = "run_adapter w (wd_selected_worker d) (helper_name ?s) t dir (ollama_command (wk_env w) t (ms_model ?s))
                    (wd_escalation_triggers d) (Some ?s) st"
  have one: "adds_at_most (2 * attempt_budget t) st r" if "adds_at_most (attempt_budget t) st r" for r :: "worker_execution res \<times> trace \<times> disk"
    using adds_mono [OF that] budget_pos [of t] by simp
  obtain h st' where h: "?helper = (h, st')" using prod.exhaust by blast
  have a: "adds_at_most (attempt_budget t) st (h, st')" unfolding h [symmetric] by (rule adds_adapter)
  have "adds_at_most (2 * attempt_budget t) st (case ?helper of (Inl err, s1) \<Rightarrow> (Inl err, s1)
      | (Inr x, s1) \<Rightarrow> if good_help x then (Inr x, s1) else run_goose w rt d t dir ?s s1)"
    using one [OF a] adds_trans [OF a adds_goose, of t w rt d dir ?s] unfolding h by (cases h) simp_all
  then show ?thesis
    unfolding run_local_general_def Let_def
    by (auto simp only: split: option.split list.split if_split intro: one [OF adds_adapter] one [OF adds_goose])
qed

lemma adds_disk: "adds_at_most n (tr, dk) r \<longleftrightarrow> adds_at_most n (tr, dk') r"
  by (simp add: adds_at_most_def)

lemma adds_frontier: "adds_at_most (attempt_budget t) (tr, dk) (run_gemma_frontier w rt d t dir (tr, dk))"
proof -
  have "0 \<le> attempt_budget t" using budget_pos [of t] by simp
  then show ?thesis
    by (auto simp: run_gemma_frontier_def Let_def adds_none [of _ "(tr, dk)", simplified] split: sum.split
        intro: adds_disk [THEN iffD1, OF adds_adapter])
qed

lemma executions_bounded_lemma: "adds_at_most (2 * attempt_budget t) (tr, dk) (execute_worker w rt d t dir (tr, dk))"
  using budget_pos [of t]
  by (cases "wd_selected_worker d")
    (auto simp: execute_worker_def Let_def intro!: adds_disk [THEN iffD1, OF adds_local] adds_disk [THEN iffD1, OF adds_transcript]
      adds_disk [THEN iffD1, OF adds_mono [OF adds_adapter]] adds_disk [THEN iffD1, OF adds_mono [OF adds_frontier]])

text \<open>
  A worker is started a bounded number of times: an execution issues at most twice the retry
  budget of its task, one round of the helper and one of the worker, whatever the commands answer.
\<close>

theorem executions_are_bounded:
  "\<exists>cs. fst (snd (execute_worker w rt d t dir (tr, dk))) = tr @ cs \<and> int (length cs) \<le> 2 * attempt_budget t"
  using executions_bounded_lemma [of t tr dk w rt d dir] by (simp add: adds_at_most_def)

lemma py_round_ge: "of_int a \<le> x * 10 ^ n \<Longrightarrow> of_int a / 10 ^ n \<le> py_round x n"
  and py_round_le: "x * 10 ^ n \<le> of_int b \<Longrightarrow> py_round x n \<le> of_int b / 10 ^ n"
  by (simp_all add: py_round_def divide_right_mono round_even_ge round_even_le)

lemma clamped_ge: "45 / 100 \<le> x \<Longrightarrow> 45 / 100 \<le> max 0 (min (99 / 100) (py_round x 2))"
  using py_round_ge [of 45 x 2] by simp

lemma clamped_le: "x \<le> 45 / 100 \<Longrightarrow> max 0 (min (99 / 100) (py_round x 2)) \<le> 45 / 100"
  using py_round_le [of x 2 45] by simp

text \<open>
  The confidence separates success from failure: a command that exited with zero has at least
  0.45, the threshold of the warning, and one that did not has at most 0.45.
\<close>

theorem confidence_separates:
  "(if lg_exit lg = Some 0 then 45 / 100 \<le> score_confidence lg (telemetry_of t lg)
    else score_confidence lg (telemetry_of t lg) \<le> 45 / 100)
   \<and> 0 \<le> score_confidence lg (telemetry_of t lg) \<and> score_confidence lg (telemetry_of t lg) \<le> 99 / 100"
proof (intro conjI)
  let ?c = "score_confidence lg (telemetry_of t lg)"
  show "if lg_exit lg = Some 0 then 45 / 100 \<le> ?c else ?c \<le> 45 / 100"
  proof (cases "lg_exit lg = Some 0")
    case True
    then have "\<not> failed_exit lg" by (simp add: failed_exit_def)
    then have f: "\<not> rl_exhausted (telemetry_of t lg)" "\<not> rl_repeated_failure (telemetry_of t lg)"
      by (simp_all add: telemetry_of_def Let_def)
    have "45 / 100 \<le> ?c"
      unfolding score_confidence_def Let_def
      by (rule clamped_ge, cases "lg_stdout lg = []"; cases "truthy (lg_structured lg)"; cases "lg_stderr lg = []"; simp add: True f)
    with True show ?thesis by simp
  next
    case False
    have "?c \<le> 45 / 100"
      unfolding score_confidence_def Let_def
      by (rule clamped_le, cases "lg_stdout lg = []"; cases "truthy (lg_structured lg)"; cases "lg_stderr lg = []";
          cases "rl_repeated_failure (telemetry_of t lg)"; cases "rl_exhausted (telemetry_of t lg)"; simp add: False)
    with False show ?thesis by simp
  qed
  show "0 \<le> ?c" "?c \<le> 99 / 100" by (simp_all add: score_confidence_def Let_def)
qed

section \<open>Transcripts\<close>

definition transcribed :: "worker_execution res \<times> trace \<times> disk \<Rightarrow> bool" where
  "transcribed r \<longleftrightarrow> (case r of (Inl err, st) \<Rightarrow> True | (Inr x, tr, dk) \<Rightarrow>
     (\<exists>doc. dk_read dk (we_transcript_path x) = Some (FJson (JObj doc)) \<and> dget0 doc ''status'' = JStr (we_status x)
        \<and> dget0 doc ''command'' = jstrs (we_command x) \<and> dget0 doc ''confidence'' = JFloat (we_confidence x)
        \<and> dget0 doc ''escalation_triggers'' = jstrs (we_escalation_triggers x)))"

lemma transcribed_error [simp]: "transcribed (Inl err, st)"
  by (simp add: transcribed_def)

lemma transcribed_write [simp]: "transcribed (write_transcript w dir x extra st)"
  by (cases st) (simp add: transcribed_def write_transcript_def Let_def transcript_json_def fread_fwrite)

lemma transcribed_adapter [simp]: "transcribed (run_adapter w role name t dir command triggers s st)"
proof (cases st)
  case (Pair tr dk)
  obtain r tr' where "attempts_loop w name command (nat (attempt_budget t)) empty_log tr = (r, tr')" by force
  then show ?thesis by (cases r) (simp_all add: Pair run_adapter_def)
qed

lemma transcribed_summary: "transcribed (m st) \<Longrightarrow> transcribed (with_summary s m st)"
  by (auto simp: with_summary_def transcribed_def split: prod.splits sum.splits)

lemma transcribed_goose [simp]: "transcribed (run_goose w rt d t dir s st)"
  by (simp add: run_goose_def no_local_worker_def transcribed_summary)

lemma transcribed_local [simp]: "transcribed (run_local_general w rt d t dir st)"
proof -
  have "transcribed (case m of (Inl err, s1) \<Rightarrow> (Inl err, s1)
      | (Inr x, s1) \<Rightarrow> if good_help x then (Inr x, s1) else run_goose w rt d t dir s s1)" if "transcribed m" for m s
    using that by (auto split: prod.split sum.split)
  from this [OF transcribed_adapter] show ?thesis
    unfolding run_local_general_def Let_def by (simp split: option.split list.split)
qed

lemma transcribed_frontier [simp]: "transcribed (run_gemma_frontier w rt d t dir st)"
  by (cases st) (simp add: run_gemma_frontier_def Let_def split: sum.split)

text \<open>
  An execution that returns has left its transcript: the document at the path it names holds its
  status, command, confidence and escalation triggers.
\<close>

theorem executions_are_transcribed:
  assumes "execute_worker w rt d t dir (tr, dk) = (Inr x, tr', dk')"
  shows "\<exists>doc. dk_read dk' (we_transcript_path x) = Some (FJson (JObj doc)) \<and> dget0 doc ''status'' = JStr (we_status x)
        \<and> dget0 doc ''command'' = jstrs (we_command x) \<and> dget0 doc ''confidence'' = JFloat (we_confidence x)
        \<and> dget0 doc ''escalation_triggers'' = jstrs (we_escalation_triggers x)"
proof -
  have "transcribed (execute_worker w rt d t dir (tr, dk))"
    by (cases "wd_selected_worker d") (simp_all add: execute_worker_def Let_def)
  then show ?thesis by (simp add: assms transcribed_def)
qed

section \<open>The frontier path\<close>

lemma fread_write_text: "dk_read (write_text p text dk) q = (if q = p then Some (FText text) else dk_read dk q)"
  by (simp add: write_text_def fread_def AList.update_conv)

definition frontier_code :: "worker_world \<Rightarrow> worker_runtime \<Rightarrow> worker_task \<Rightarrow> string" where
  "frontier_code w rt t =
     write_code (wk_lm w) (ms_model (select_for_task (wn_router rt) (routed t (wt_needs_repo_edit t) True)))
       (task_text t) (wt_context t) ''python''"

lemma high_risk_route:
  "high_risk t \<Longrightarrow> route now (discover_registry e caps) t = Inr d \<Longrightarrow> wd_selected_worker d = WR_FRONTIER_ARCHITECT"
  by (auto simp: route_def route_decision_def registered_def)

lemma attempts_loop_first:
  assumes "h_installed (wk_host w) (program (hd command))" "command \<noteq> []" "0 < n"
  shows "\<exists>rest. snd (attempts_loop w name command n lg tr) = tr @ (program (hd command), tl command) # rest"
proof -
  obtain m where n: "n = Suc m" using assms(3) by (cases n) auto
  obtain r tr' where a: "attempts_loop w name command m
     (log_attempt (wk_lm w) name (h_exec (wk_host w) tr (program (hd command), tl command))
        (wk_ms w (tr @ [(program (hd command), tl command)])) lg) (tr @ [(program (hd command), tl command)]) = (r, tr')" by force
  from attempts_loop_commands [OF a] show ?thesis using assms a by (auto simp: n issue_def Let_def)
qed

lemma run_adapter_first:
  assumes "h_installed (wk_host w) (program (hd command))" "command \<noteq> []"
    and "\<And>task stamp. worker_transcript_path dir task stamp \<noteq> q"
  obtains r rest dk' where
    "run_adapter w role name t dir command triggers s (tr, dk) = (r, tr @ (program (hd command), tl command) # rest, dk')"
    "dk_read dk' q = dk_read dk q"
proof -
  obtain r tr' where a: "attempts_loop w name command (nat (attempt_budget t)) empty_log tr = (r, tr')" by force
  then obtain rest where "tr' = tr @ (program (hd command), tl command) # rest"
    using attempts_loop_first [OF assms(1,2), of "nat (attempt_budget t)" name empty_log tr] budget_pos [of t] by auto
  then show thesis
    by (cases r) (auto simp: run_adapter_def a write_transcript_def Let_def fread_fwrite assms(3) assms(3) [symmetric] intro: that)
qed

text \<open>
  C13. The riskiest tasks run unreviewed code: whatever the capabilities of the host, a task of high
  risk or at architecture level is routed to the frontier worker, and as soon as the language model
  replies with a text that parses as Python, that text is written to the session and executed. No
  policy, approval or gate is an input of the execution.
\<close>

theorem high_risk_task_runs_model_code:
  assumes "high_risk t" and "route now (discover_registry e caps) t = Inr d"
    and "frontier_code w rt t \<noteq> []" and "h_installed (wk_host w) (OTHER ''python3'')"
  shows "(let script = sub dir (''runtime/gemma_frontier_'' @ wk_stamp w tr @ ''.py'');
              (r, tr', dk') = execute_worker w rt d t dir (tr, dk)
          in (\<exists>rest. tr' = tr @ (OTHER ''python3'', [script]) # rest)
             \<and> dk_read dk' script = Some (FText (frontier_code w rt t)))"
proof -
  let ?script = "sub dir (''runtime/gemma_frontier_'' @ wk_stamp w tr @ ''.py'')"
  let ?s = "select_for_task (wn_router rt) (routed t (wt_needs_repo_edit t) True)"
  let ?dk = "dk_mkdir (sub dir ''runtime'') (dk_write (sub dir ''runtime/adapter-health.json'') (JObj (adapter_health rt))
               (dk_mkdir (sub dir ''runtime'') dk))"
  have p: "program ''python3'' = OTHER ''python3''" by (simp add: program_def)
  have run: "execute_worker w rt d t dir (tr, dk)
      = run_adapter w (wd_selected_worker d) ''gemma_frontier_codegen'' t dir [''python3'', ?script]
          (wd_escalation_triggers d) (Some ?s) (tr, write_text ?script (frontier_code w rt t) ?dk)"
    using high_risk_route [OF assms(1,2)] assms(3)
    by (simp add: execute_worker_def run_gemma_frontier_def frontier_code_def Let_def)
  have other: "worker_transcript_path dir task stamp \<noteq> ?script" for task stamp
    by (simp add: worker_transcript_path_def)
  have "h_installed (wk_host w) (program (hd [''python3'', ?script]))" using assms(4) by (simp add: p)
  then obtain r rest dk' where "execute_worker w rt d t dir (tr, dk) = (r, tr @ (OTHER ''python3'', [?script]) # rest, dk')"
    "dk_read dk' ?script = dk_read (write_text ?script (frontier_code w rt t) ?dk) ?script"
    unfolding run by (rule run_adapter_first [OF _ _ other]) (simp_all add: p)
  then show ?thesis by (simp add: Let_def fread_write_text)
qed

definition demo_lm :: language_model where
  "demo_lm = \<lparr>gm_http = (\<lambda>model system prompt temp. Some ''import os''), gm_cli = (\<lambda>_. None), gm_loads = (\<lambda>_. None),
     gm_dumps = (\<lambda>_. []), gm_parses = (\<lambda>_. True), gm_default = ''gemma4:latest''\<rparr>"

definition demo_world :: worker_world where
  "demo_world = \<lparr>wk_host = \<lparr>h_path = (\<lambda>_. Some ''/usr/bin/tool''), h_exec = (\<lambda>_ _. \<lparr>cp_returncode = 0, cp_stdout = ''ok'', cp_stderr = []\<rparr>),
       h_times_out = (\<lambda>_ _. False)\<rparr>, wk_lm = demo_lm, wk_env = [], wk_stamp = (\<lambda>tr. int_str (int (length tr))),
     wk_ms = (\<lambda>_. 1), wk_now = ''t''\<rparr>"

definition demo_task :: worker_task where
  "demo_task = \<lparr>wt_task_type = ''install_planning'', wt_summary = ''Plan the install.'', wt_prompt = [], wt_risk = TR_CRITICAL,
     wt_needs_repo_edit = False, wt_architecture_level = False, wt_repetitive = False, wt_local_retry_count = 0,
     wt_retry_budget = 1, wt_context = [], wt_target_files = [], wt_invocation_override = None\<rparr>"

lemma demo_code: "frontier_code demo_world rt demo_task = ''import os''"
proof -
  have "strip_markdown_fences ''import os'' = ''import os''" by code_simp
  then show ?thesis by (simp add: frontier_code_def demo_world_def demo_lm_def write_code_def)
qed

theorem high_risk_task_runs_model_code_witness:
  "\<exists>d r rest dk'. route ''t'' (discover_registry [] []) demo_task = Inr d
     \<and> execute_worker demo_world (worker_runtime_of [] []) d demo_task ''devices/d'' ([], \<lparr>dk_files = [], dk_dirs = []\<rparr>)
       = (r, (OTHER ''python3'', [''devices/d/runtime/gemma_frontier_0.py'']) # rest, dk')"
proof -
  have high: "high_risk demo_task" by (simp add: high_risk_def demo_task_def)
  obtain d where d: "route ''t'' (discover_registry [] []) demo_task = Inr d"
    using high by (simp add: route_def route_decision_def registered_def)
  have "frontier_code demo_world (worker_runtime_of [] []) demo_task \<noteq> []" by (simp add: demo_code)
  moreover have "h_installed (wk_host demo_world) (OTHER ''python3'')" by (simp add: demo_world_def h_installed_def)
  ultimately have "let script = sub ''devices/d'' (''runtime/gemma_frontier_'' @ wk_stamp demo_world [] @ ''.py'');
              (r, tr', dk') = execute_worker demo_world (worker_runtime_of [] []) d demo_task ''devices/d''
                ([], \<lparr>dk_files = [], dk_dirs = []\<rparr>)
          in (\<exists>rest. tr' = [] @ (OTHER ''python3'', [script]) # rest)
             \<and> dk_read dk' script = Some (FText (frontier_code demo_world (worker_runtime_of [] []) demo_task))"
    by (rule high_risk_task_runs_model_code [OF high d])
  moreover have "wk_stamp demo_world [] = ''0''" by (simp add: demo_world_def) code_simp
  ultimately show ?thesis using d by (auto simp: Let_def split: prod.splits)
qed

text \<open>The text for an empty reply is never used: the empty reply prints as \<open>{}\<close>.\<close>

lemma empty_reply_prints_braces: "reply_summary [] = Inr ''{}''"
  by (simp add: reply_summary_def py_str_def)

end
