(* ===== verification/Runtime_Pipelines.thy ===== *)
theory Runtime_Pipelines
  imports Runtime_Workers Device_Tools Runtime_Planner
begin

text \<open>
  \<open>app/core/runtime_pipelines.py\<close>: the preview and the verification of a cycle, executed or
  deferred. \<open>bundle\<close> is the archive \<open>tarfile\<close> writes of the preview files. Texts are written as the
  source writes them.
\<close>

section \<open>Preview\<close>

definition newline :: string where
  "newline = [CHR 0x0A]"

definition adapter_readiness :: "jdict \<Rightarrow> json res" where
  "adapter_readiness connection_plan = jget (dget connection_plan ''recommended_adapter'' (JObj [])) ''adapter_id'' (JStr ''unknown'')"

record preview_input =
  pv_build_plan :: jdict
  pv_recommendation :: jdict
  pv_assessment :: jdict
  pv_connection_plan :: jdict

definition shared_capabilities :: "preview_input \<Rightarrow> jdict res" where
  "shared_capabilities p =
     bindr (adapter_readiness (pv_connection_plan p)) (\<lambda>readiness.
     Inr [(''resolved_path'', dget (pv_build_plan p) ''os_path'' (JStr ''unknown'')),
          (''recommended_use_case'', dget (pv_recommendation p) ''recommended_use_case'' (JStr ''unknown'')),
          (''support_status'', dget (pv_assessment p) ''support_status'' (JStr ''unknown'')),
          (''transport_readiness'', readiness)])"

definition capability_matrix :: "preview_input \<Rightarrow> jdict \<Rightarrow> jdict res" where
  "capability_matrix p caps =
     bindr (shared_capabilities p) (\<lambda>shared.
     Inr (shared @ [(''host_emulator_available'', dget caps ''emulator_available'' (JBool False)),
                    (''available_avds'', dget caps ''available_avds'' (JList []))]))"

definition walkthrough :: "preview_input \<Rightarrow> string \<Rightarrow> string" where
  "walkthrough p mode = join newline
     [''# ForgeOS Preview'', [],
      ''Recommended use case: '' @ dstr (pv_recommendation p) ''recommended_use_case'' ''unknown'',
      ''Resolved path: '' @ dstr (pv_build_plan p) ''os_path'' ''unknown'',
      ''Support status: '' @ dstr (pv_assessment p) ''support_status'' ''unknown'',
      ''Preview mode: '' @ mode, [],
      ''## Operator-facing simulation'', [],
      ''1. Device boots into a simplified, task-oriented experience.'',
      ''2. Recovery and restore notes remain visible to the operator.'',
      ''3. Limitations discovered during assessment remain explicitly listed before install.'']"

definition label_lines :: "jdict \<Rightarrow> string \<Rightarrow> nat \<Rightarrow> string \<Rightarrow> string res" where
  "label_lines build_plan key limit none =
     bindr (as_list (dget build_plan key (JList []))) (\<lambda>labels.
     Inr (if take limit labels = [] then none else join newline (map (\<lambda>l. ''- '' @ py_str l) (take limit labels))))"

definition experience_preview :: "preview_input \<Rightarrow> string \<Rightarrow> string \<Rightarrow> string" where
  "experience_preview p features held_back = join newline
     [''# Experience Preview'', [],
      ''Proposed OS profile: '' @ dstr (pv_build_plan p) ''proposed_os_name'' ''Unknown build profile'',
      ''Resolved build path: '' @ dstr (pv_build_plan p) ''os_path'' ''unknown'', [],
      ''## What the device should feel like'', [],
      ''- Boot into a simplified, operator-reviewed experience.'',
      ''- Keep restore and rollback guidance visible before any destructive action.'',
      ''- Preserve the chosen safety and usability features from the review panel.'', [],
      ''## Included features'', [], features, [],
      ''## Held back or default-off items'', [], held_back, [],
      ''## Home-screen sketch'', [], ''```text'',
      ''+--------------------------------------+'',
      ''| ForgeOS Home                         |'',
      ''|--------------------------------------|'',
      ''| Phone  Messages  Camera  Help        |'',
      ''|                                      |'',
      ''| Accessibility  Battery  Restore      |'',
      ''|                                      |'',
      ''| Trusted Contacts  Notes  Updates     |'',
      ''+--------------------------------------+'', ''```'']"

definition preview_next_steps :: string where
  "preview_next_steps = join newline
     [''# Next Steps'', [],
      ''1. Review the proposed OS profile and feature selections in the GUI.'',
      ''2. Open the preview bundle and confirm the experience preview matches the intended user.'',
      ''3. Confirm backup and restore readiness before any install approval is recorded.'',
      ''4. Save the Verification Review decisions so ForgeOS can carry them into install planning.'',
      ''5. Use the dry run before any live destructive execution.'']"

definition first_avd :: "jdict \<Rightarrow> json res" where
  "first_avd caps = bindr (as_list (dget0 caps ''available_avds'')) (\<lambda>avds. Inr (hd avds))"

text \<open>The emulator step with the mode it leaves.\<close>

definition emulator_step :: "host \<Rightarrow> jdict \<Rightarrow> (jdict \<times> bool) res proc" where
  "emulator_step h caps tr =
     (if truthy (dget0 caps ''emulator_available'') \<and> truthy (dget0 caps ''available_avds'') then
        (case first_avd caps of
           Inl err \<Rightarrow> (Inl err, tr)
         | Inr avd \<Rightarrow>
             let (probe, tr') = emulator_listing h tr; ok = truthy (dget0 probe ''ok'') in
             (Inr ([(''name'', JStr ''emulator_probe''), (''status'', JStr (if ok then ''completed'' else ''failed'')),
                    (''detail'', jor (dget0 probe ''stdout'') (dget probe ''stderr'' (JStr []))), (''avd'', avd)], ok), tr'))
      else
        (bindr (jget (dget caps ''reasons'' (JObj [])) ''emulator'' (JStr ''Emulator unavailable.'')) (\<lambda>detail.
           Inr ([(''name'', JStr ''emulator_probe''), (''status'', JStr ''skipped''), (''detail'', detail)], False)), tr))"

definition preview_file :: "string \<Rightarrow> string \<Rightarrow> string" where
  "preview_file dir name = sub dir (''runtime/preview/'' @ name)"

definition done_step :: "string \<Rightarrow> jdict" where
  "done_step name = [(''name'', JStr name), (''status'', JStr ''completed'')]"

definition preview_documents :: "string list" where
  "preview_documents = [''capability-matrix.json'', ''simulated-walkthrough.md'', ''experience-preview.md'', ''next-steps.md'']"

definition preview_summary :: "bool \<Rightarrow> string" where
  "preview_summary emulated =
     (if emulated then ''ForgeOS executed an emulator-backed preview probe and generated companion preview artifacts.''
      else ''ForgeOS executed a simulated preview pipeline and generated a reviewable preview bundle.'')"

definition preview_mode :: "bool \<Rightarrow> string" where
  "preview_mode emulated = (if emulated then ''emulator_probe'' else ''simulated'')"

definition preview_execution_of :: "string \<Rightarrow> string \<Rightarrow> jdict \<Rightarrow> jdict \<Rightarrow> bool \<Rightarrow> preview_execution" where
  "preview_execution_of now dir matrix step emulated =
     \<lparr>pe_status = ''executed'', pe_summary = preview_summary emulated, pe_mode = preview_mode emulated,
      pe_generated_files = map (preview_file dir) (preview_documents @ [''proposed-os-preview.tar.gz'']),
      pe_steps = [step, done_step ''simulated_walkthrough'', done_step ''experience_preview'', done_step ''next_steps'',
        done_step ''preview_bundle'' @ [(''detail'', JStr (preview_file dir ''proposed-os-preview.tar.gz''))]],
      pe_capability_matrix = matrix, pe_generated_at = now\<rparr>"

text \<open>The document does not list itself, the value returned does.\<close>

definition record_preview :: "string \<Rightarrow> preview_execution \<Rightarrow> disk \<Rightarrow> preview_execution \<times> disk" where
  "record_preview dir x dk =
     (let path = preview_file dir ''preview-execution.json'' in
      (x\<lparr>pe_generated_files := pe_generated_files x @ [path]\<rparr>, dk_write path (preview_execution_to_dict x) dk))"

definition write_bundle :: "((string \<times> doc option) list \<Rightarrow> string) \<Rightarrow> string \<Rightarrow> disk \<Rightarrow> disk" where
  "write_bundle bundle dir dk =
     write_text (preview_file dir ''proposed-os-preview.tar.gz'')
       (bundle (map (\<lambda>n. (n, dk_read dk (preview_file dir n))) preview_documents)) dk"

definition preview_texts :: "preview_input \<Rightarrow> (string \<times> string) res" where
  "preview_texts p =
     bindr (label_lines (pv_build_plan p) ''included_feature_labels'' 8 ''- Default profile features are still being used.'')
       (\<lambda>features.
     bindr (label_lines (pv_build_plan p) ''rejected_feature_labels'' 6 ''- No explicit feature exclusions recorded yet.'')
       (\<lambda>held_back. Inr (features, held_back)))"

definition preview_execute ::
    "((string \<times> doc option) list \<Rightarrow> string) \<Rightarrow> host \<Rightarrow> env \<Rightarrow> string \<Rightarrow> string \<Rightarrow> string \<Rightarrow> preview_input
       \<Rightarrow> trace \<times> disk \<Rightarrow> preview_execution res \<times> trace \<times> disk" where
  "preview_execute bundle h e workspace now dir p = (\<lambda>(tr, dk).
     let dk0 = dk_mkdir (sub dir ''runtime/preview'') dk; (caps, tr1) = discover_host_capabilities h e workspace tr in
     case capability_matrix p caps of Inl err \<Rightarrow> (Inl err, tr1, dk0)
     | Inr matrix \<Rightarrow>
       let dk1 = dk_write (preview_file dir ''capability-matrix.json'') (JObj matrix) dk0 in
       case emulator_step h caps tr1 of (Inl err, tr2) \<Rightarrow> (Inl err, tr2, dk1)
       | (Inr (step, emulated), tr2) \<Rightarrow>
         let dk2 = write_text (preview_file dir ''simulated-walkthrough.md'') (walkthrough p (preview_mode emulated)) dk1 in
         case preview_texts p of Inl err \<Rightarrow> (Inl err, tr2, dk2)
         | Inr (features, held_back) \<Rightarrow>
           let dk3 = write_text (preview_file dir ''experience-preview.md'') (experience_preview p features held_back) dk2;
               dk4 = write_text (preview_file dir ''next-steps.md'') preview_next_steps dk3;
               (x, dk5) = record_preview dir (preview_execution_of now dir matrix step emulated) (write_bundle bundle dir dk4)
           in (Inr x, tr2, dk5))"

definition preview_defer :: "string \<Rightarrow> string \<Rightarrow> string \<Rightarrow> preview_input \<Rightarrow> disk \<Rightarrow> preview_execution res \<times> disk" where
  "preview_defer now dir reason p dk =
     (let dk0 = dk_mkdir (sub dir ''runtime/preview'') dk in
      case shared_capabilities p of Inl err \<Rightarrow> (Inl err, dk0)
      | Inr shared \<Rightarrow>
          let (x, dk1) = record_preview dir
                \<lparr>pe_status = ''deferred'', pe_summary = reason, pe_mode = ''deferred'', pe_generated_files = [],
                 pe_steps = [[(''name'', JStr ''preview_gate''), (''status'', JStr ''deferred''), (''detail'', JStr reason)]],
                 pe_capability_matrix = shared @ [(''deferred_reason'', JStr reason)], pe_generated_at = now\<rparr> dk0
          in (Inr x, dk1))"

section \<open>Verification\<close>

definition checkpoint :: "string \<Rightarrow> string \<Rightarrow> json \<Rightarrow> jdict" where
  "checkpoint name status detail = [(''name'', JStr name), (''status'', JStr status), (''detail'', detail)]"

definition yes_no :: "bool \<Rightarrow> 'a \<Rightarrow> 'a \<Rightarrow> 'a" where
  "yes_no b x y = (if b then x else y)"

record verification_input =
  vi_assessment :: jdict
  vi_backup_plan :: jdict
  vi_restore_plan :: jdict
  vi_flash_plan :: jdict

definition restore_recorded :: "verification_input \<Rightarrow> bool" where
  "restore_recorded i \<longleftrightarrow>
     truthy (dget0 (vi_restore_plan i) ''restore_plan_path'') \<or> truthy (dget0 (vi_restore_plan i) ''details'')"

definition plan_checkpoints :: "verification_input \<Rightarrow> jdict \<Rightarrow> jdict list" where
  "plan_checkpoints i caps =
     (let adb = truthy (dget0 caps ''adb_available''); fastboot = truthy (dget0 caps ''fastboot_available'');
          backup = truthy (dget0 (vi_backup_plan i) ''backup_bundle_path'');
          flash = truthy (dget0 (vi_flash_plan i) ''build_path'') in
      [checkpoint ''support_status''
         (yes_no (dget0 (vi_assessment i) ''support_status'' \<noteq> JStr ''blocked'') ''passed'' ''warning'')
         (dget (vi_assessment i) ''summary'' (JStr ''No assessment summary available.'')),
       checkpoint ''host_adb'' (yes_no adb ''passed'' ''warning'')
         (JStr (yes_no adb ''adb is available.'' ''adb is unavailable on this host.'')),
       checkpoint ''host_fastboot'' (yes_no fastboot ''passed'' ''warning'')
         (JStr (yes_no fastboot ''fastboot is available.'' ''fastboot is unavailable on this host.'')),
       checkpoint ''backup_bundle'' (yes_no backup ''passed'' ''warning'')
         (JStr (yes_no backup ''Pre-wipe backup bundle captured.'' ''Backup bundle is missing.'')),
       checkpoint ''restore_readiness'' (yes_no (restore_recorded i) ''passed'' ''warning'')
         (JStr (yes_no (restore_recorded i) ''Restore plan is recorded.'' ''Restore plan is missing.'')),
       checkpoint ''flash_path'' (yes_no flash ''passed'' ''pending'')
         (JStr (yes_no flash ''Flash path is recorded.'' ''Flash path is not ready yet.''))])"

definition transport_checkpoints :: "jdict list \<Rightarrow> raw_device list \<Rightarrow> jdict list \<Rightarrow> jdict list" where
  "transport_checkpoints adb_devices raw_adb fastboot_devices =
     [checkpoint ''adb_transport''
        (if adb_devices \<noteq> [] then ''passed'' else if raw_adb \<noteq> [] then ''warning'' else ''pending'')
        (JStr (''adb device count: '' @ int_str (int (length adb_devices)) @ ''; raw entries: ''
               @ int_str (int (length raw_adb)))),
      checkpoint ''fastboot_transport'' (yes_no (fastboot_devices \<noteq> []) ''passed'' ''pending'')
        (JStr (''fastboot device count: '' @ int_str (int (length fastboot_devices))))]"

definition probe_checkpoint :: "string \<Rightarrow> jdict \<Rightarrow> jdict" where
  "probe_checkpoint name reply =
     checkpoint name (yes_no (truthy (dget0 reply ''ok'')) ''passed'' ''warning'')
       (jor (JStr (take 240 (dstr reply ''stdout'' []))) (dget reply ''stderr'' (JStr [])))"

definition device_checkpoints :: "host \<Rightarrow> jdict list \<Rightarrow> jdict list proc" where
  "device_checkpoints h adb_devices tr =
     (case adb_devices of
        [] \<Rightarrow> ([], tr)
      | d # ds \<Rightarrow>
          let serial = dstr d ''serial'' [];
              (getprop, tr1) = adb_shell h serial [''getprop'', ''ro.build.fingerprint''] tr;
              (battery, tr2) = adb_shell h serial [''dumpsys'', ''battery''] tr1
          in ([probe_checkpoint ''adb_getprop_probe'' getprop, probe_checkpoint ''adb_battery_probe'' battery], tr2))"

definition interactive_checks :: "jdict list" where
  "interactive_checks =
     map (\<lambda>prompt. [(''prompt'', JStr prompt), (''status'', JStr ''pending_operator_review'')])
       [''Confirm the recommended use case still matches the intended user.'',
        ''Confirm restore notes are understandable before install.'',
        ''Review known limitations before destructive actions.'']"

definition record_verification :: "string \<Rightarrow> verification_execution \<Rightarrow> disk \<Rightarrow> verification_execution \<times> disk" where
  "record_verification dir x dk =
     (let path = sub dir ''runtime/verification/verification-execution.json'' in
      (x\<lparr>ve_generated_files := ve_generated_files x @ [path]\<rparr>, dk_write path (verification_execution_to_dict x) dk))"

definition verification_execute ::
    "host \<Rightarrow> env \<Rightarrow> string \<Rightarrow> string \<Rightarrow> string \<Rightarrow> verification_input
       \<Rightarrow> trace \<times> disk \<Rightarrow> verification_execution \<times> trace \<times> disk" where
  "verification_execute h e workspace now dir i = (\<lambda>(tr, dk).
     let (caps, tr1) = discover_host_capabilities h e workspace tr;
         (adb_devices, tr2) = adb_list_devices h tr1;
         (raw_adb, tr3) = adb_raw_devices h tr2;
         (fastboot_devices, tr4) = fastboot_list_devices h tr3;
         (probes, tr5) = device_checkpoints h adb_devices tr4;
         (x, dk') = record_verification dir
            \<lparr>ve_status = ''executed'',
             ve_summary = ''ForgeOS executed host-side and transport-aware verification checks and recorded operator review items.'',
             ve_checkpoints = plan_checkpoints i caps @ transport_checkpoints adb_devices raw_adb fastboot_devices @ probes,
             ve_interactive_checks = interactive_checks, ve_generated_files = [], ve_generated_at = now\<rparr>
            (dk_mkdir (sub dir ''runtime/verification'') dk)
     in (x, tr5, dk'))"

definition verification_defer :: "string \<Rightarrow> string \<Rightarrow> string \<Rightarrow> disk \<Rightarrow> verification_execution \<times> disk" where
  "verification_defer now dir reason dk =
     record_verification dir
       \<lparr>ve_status = ''deferred'', ve_summary = reason,
        ve_checkpoints = [checkpoint ''verification_gate'' ''deferred'' (JStr reason)],
        ve_interactive_checks = [], ve_generated_files = [], ve_generated_at = now\<rparr>
       (dk_mkdir (sub dir ''runtime/verification'') dk)"

section \<open>The pipelines only look\<close>

text \<open>Queries of the device, versions and lists of the host's tools, and the two probes of the verification.\<close>

definition inspects :: "cmd \<Rightarrow> bool" where
  "inspects c \<longleftrightarrow> read_only c \<or> snd c \<in> set probing_args
     \<or> (case c of (ADB, a # s # b # command) \<Rightarrow>
           a = ''-s'' \<and> b = ''shell'' \<and> command \<in> set [[''getprop'', ''ro.build.fingerprint''], [''dumpsys'', ''battery'']]
         | _ \<Rightarrow> False)"

lemma grew_mono: "grew P tr tr' \<Longrightarrow> (\<And>c. P c \<Longrightarrow> Q c) \<Longrightarrow> grew Q tr tr'"
  by (auto simp: grew_def list_all_iff)

lemma grew_trans: "grew P tr tr1 \<Longrightarrow> grew P tr1 tr2 \<Longrightarrow> grew P tr tr2"
  by (force simp: grew_def)

lemma inspects_probes: "only_probes n tr tr' \<Longrightarrow> grew inspects tr tr'"
  unfolding only_probes_def grew_def by (auto simp: inspects_def list_all_iff split_beta)

lemma inspects_discovery: "grew inspects tr (snd (discover_host_capabilities h e ws tr))"
  using discovered_probes [of tr h e ws] by (rule inspects_probes)

lemma read_only_listing: "grew read_only tr (snd (adb_list_devices h tr))"
  unfolding adb_list_devices_def trace_simps by (intro grew_rules)

lemma inspects_device: "grew inspects tr (snd (device_checkpoints h ds tr))"
proof (cases ds)
  case (Cons d ds')
  have "grew inspects tr (snd (adb_shell h s command tr))"
    if "command \<in> set [[''getprop'', ''ro.build.fingerprint''], [''dumpsys'', ''battery'']]" for s command tr
    unfolding adb_shell_def by (rule grew_adb_run [OF _ grew_refl]) (use that in \<open>simp add: inspects_def\<close>)
  note two = grew_trans [OF this this]
  show ?thesis unfolding device_checkpoints_def Cons by (simp add: split_def Let_def two)
qed (simp add: device_checkpoints_def grew_refl)

text \<open>
  C14. Preview and verification only look: whatever they are given and whatever the tools answer, each
  command they run lists, reads a property or a setting, or asks a tool of the host for its version.
\<close>

theorem pipelines_only_inspect:
  "(\<exists>cs. fst (snd (preview_execute bundle h e ws now dir p (tr, dk))) = tr @ cs \<and> list_all inspects cs)
   \<and> (\<exists>cs. fst (snd (verification_execute h e ws now dir i (tr, dk))) = tr @ cs \<and> list_all inspects cs)"
proof -
  have em: "grew inspects tr (snd (emulator_step h caps tr))" for caps tr
    using inspects_probes [OF emulator_probe [of tr h]]
    by (auto simp: emulator_step_def split_def Let_def grew_refl split: sum.split)
  have "grew inspects tr (fst (snd (preview_execute bundle h e ws now dir p (tr, dk))))"
  proof -
    obtain caps tr1 where d: "discover_host_capabilities h e ws tr = (caps, tr1)" by force
    obtain s tr2 where s: "emulator_step h caps tr1 = (s, tr2)" by force
    have g: "grew inspects tr tr1" "grew inspects tr1 tr2"
      using inspects_discovery [of tr h e ws] em [of tr1 caps] by (simp_all add: d s)
    have "fst (snd (preview_execute bundle h e ws now dir p (tr, dk))) \<in> {tr1, tr2}"
      by (cases s) (simp_all add: preview_execute_def d s record_preview_def Let_def split: sum.split prod.split)
    with g(1) grew_trans [OF g] show ?thesis by auto
  qed
  moreover have "grew inspects tr (fst (snd (verification_execute h e ws now dir i (tr, dk))))"
  proof -
    have ro: "grew inspects tr tr'" if "grew read_only tr tr'" for tr tr'
      using that by (rule grew_mono) (simp add: inspects_def)
    note l = ro [OF read_only_listing] ro [OF grew_listings(3) [OF grew_refl]] ro [OF grew_listings(4) [OF grew_refl]]
    obtain caps tr1 where d: "discover_host_capabilities h e ws tr = (caps, tr1)" by force
    obtain ds tr2 where a: "adb_list_devices h tr1 = (ds, tr2)" by force
    obtain rs tr3 where b: "adb_raw_devices h tr2 = (rs, tr3)" by force
    obtain fs tr4 where f: "fastboot_list_devices h tr3 = (fs, tr4)" by force
    obtain ps tr5 where p: "device_checkpoints h ds tr4 = (ps, tr5)" by force
    have "grew inspects tr tr1" "grew inspects tr1 tr2" "grew inspects tr2 tr3" "grew inspects tr3 tr4" "grew inspects tr4 tr5"
      using inspects_discovery [of tr h e ws] l(1) [of tr1 h] l(2) [of tr2 h] l(3) [of tr3 h] inspects_device [of tr4 h ds]
      by (simp_all add: d a b f p)
    then have "grew inspects tr tr5" by (blast intro: grew_trans)
    moreover have "fst (snd (verification_execute h e ws now dir i (tr, dk))) = tr5"
      by (simp add: verification_execute_def d a b f p record_verification_def Let_def)
    ultimately show ?thesis by simp
  qed
  ultimately show ?thesis by (auto simp: grew_def)
qed

section \<open>What is left behind\<close>

lemma fexists_write:
  "fexists (fwrite p j fs) q \<longleftrightarrow> q = p \<or> fexists fs q"
  "fexists (dk_files (write_text p s dk)) q \<longleftrightarrow> q = p \<or> fexists (dk_files dk) q"
  by (simp_all add: fexists_def fread_fwrite fread_write_text)

lemma preview_file_inject: "preview_file dir a = preview_file dir b \<longleftrightarrow> a = b"
  by (simp add: preview_file_def)

text \<open>
  A preview that returns has written what it lists: every generated file exists, among them the
  record of the execution itself.
\<close>

theorem preview_files_exist:
  assumes "preview_execute bundle h e ws now dir p (tr, dk) = (Inr x, tr', dk')"
  shows "list_all (\<lambda>q. fexists (dk_files dk') q) (pe_generated_files x)
    \<and> pe_generated_files x = map (preview_file dir)
        (preview_documents @ [''proposed-os-preview.tar.gz'', ''preview-execution.json''])
    \<and> (pe_mode x = ''emulator_probe'' \<or> pe_mode x = ''simulated'')"
proof -
  from assms obtain matrix step emulated features held_back dk0 where
    x: "x = (preview_execution_of now dir matrix step emulated)
          \<lparr>pe_generated_files := map (preview_file dir) (preview_documents @ [''proposed-os-preview.tar.gz''])
             @ [preview_file dir ''preview-execution.json'']\<rparr>"
    and dk': "dk' = dk_write (preview_file dir ''preview-execution.json'')
          (preview_execution_to_dict (preview_execution_of now dir matrix step emulated))
          (write_bundle bundle dir (write_text (preview_file dir ''next-steps.md'') preview_next_steps
            (write_text (preview_file dir ''experience-preview.md'') (experience_preview p features held_back)
              (write_text (preview_file dir ''simulated-walkthrough.md'') (walkthrough p (preview_mode emulated))
                (dk_write (preview_file dir ''capability-matrix.json'') (JObj matrix) dk0)))))"
    by (auto simp: preview_execute_def record_preview_def preview_execution_of_def Let_def split: prod.splits sum.splits)
  show ?thesis
    unfolding x dk' write_bundle_def
    by (simp add: preview_execution_of_def preview_documents_def preview_mode_def fexists_write preview_file_inject)
qed

lemma computed_phase_cong:
  "ve_status v = ve_status v' \<Longrightarrow> computed_phase (c\<lparr>cy_verification := v\<rparr>) = computed_phase (c\<lparr>cy_verification := v'\<rparr>)"
  by (simp add: computed_phase_def Let_def)

lemma verification_executed: "ve_status (fst (verification_execute h e ws now dir i st)) = ''executed''"
  by (simp add: verification_execute_def record_verification_def split_def Let_def)

text \<open>
  The phase of a cycle does not depend on what a verification found: two verifications of any
  inputs on any hosts, one with every check passed and one with every check failed, leave the
  cycle in the same phase.
\<close>

theorem phase_ignores_the_checks:
  "phase_for_state (c\<lparr>cy_verification := fst (verification_execute h e ws now dir i st)\<rparr>)
   = phase_for_state (c\<lparr>cy_verification := fst (verification_execute h' e' ws' now' dir' i' st')\<rparr>)"
  using computed_phase_cong [of "fst (verification_execute h e ws now dir i st)" "fst (verification_execute h' e' ws' now' dir' i' st')" c]
  by (simp add: phase_for_state_def verification_executed split: option.split)

definition demo_preview :: preview_input where
  "demo_preview = \<lparr>pv_build_plan = [], pv_recommendation = [], pv_assessment = [], pv_connection_plan = []\<rparr>"

end
