(* ===== verification/Self_Heal.thy ===== *)
theory Self_Heal
  imports Runtime_Workers Starter_Troubleshooting
begin

text \<open>
  \<open>ForgeOrchestrator._run_local_worker_fix_loop\<close> of \<open>app/core/orchestrator.py\<close> and the policy document
  it reads and writes: local workers that failed are repaired and retried in rounds, three by
  default and more when the operator granted extra ones.
\<close>

section \<open>The self-heal policy\<close>

definition self_heal_path :: "string \<Rightarrow> string" where
  "self_heal_path dir = sub dir ''runtime/self-heal-policy.json''"

definition no_self_heal_policy :: jdict where
  "no_self_heal_policy = [(''granted_extra_loops'', JInt 0), (''consumed_extra_loops'', JInt 0)]"

text \<open>A document that cannot be read as JSON counts as absent; any JSON value is returned.\<close>

definition read_self_heal_policy :: "string \<Rightarrow> disk \<Rightarrow> json" where
  "read_self_heal_policy dir dk =
     (case dk_read dk (self_heal_path dir) of Some (FJson j) \<Rightarrow> j | _ \<Rightarrow> JObj no_self_heal_policy)"

definition write_self_heal_policy :: "string \<Rightarrow> jdict \<Rightarrow> disk \<Rightarrow> disk" where
  "write_self_heal_policy dir payload = write_runtime_artifact dir ''runtime/self-heal-policy.json'' payload"

definition policy_count :: "string \<Rightarrow> json \<Rightarrow> int res" where
  "policy_count key policy = bindr (jget policy key (JInt 0)) py_int"

definition available_loops :: "json \<Rightarrow> int res" where
  "available_loops policy =
     bindr (policy_count ''granted_extra_loops'' policy) (\<lambda>granted.
     bindr (policy_count ''consumed_extra_loops'' policy) (\<lambda>consumed.
     Inr (max 0 (granted - consumed))))"

section \<open>Failures, remediation and retries\<close>

type_synonym triplet = "worker_route_decision \<times> worker_task \<times> worker_execution"

fun failing :: "triplet \<Rightarrow> bool" where
  "failing (d, t, x) \<longleftrightarrow>
     wd_selected_tier d = WT_LOCAL
     \<and> (we_status x = ''failed'' \<or> we_status x = ''unavailable'' \<or> rl_repeated_failure (we_telemetry x))"

fun failure_entry :: "triplet \<Rightarrow> json" where
  "failure_entry (d, t, x) = JObj
     [(''task_type'', JStr (we_task_type x)), (''worker'', JStr (we_worker x)), (''adapter_name'', JStr (we_adapter_name x)),
      (''status'', JStr (we_status x)), (''summary'', JStr (we_summary x)), (''stderr'', JStr (take 1200 (we_stderr x))),
      (''exit_code'', jopt JInt (we_exit_code x)), (''telemetry'', retry_telemetry_to_dict (we_telemetry x))]"

definition remediation_task :: "nat \<Rightarrow> triplet list \<Rightarrow> worker_task" where
  "remediation_task k failures =
     (let entries = JList (map failure_entry failures) in
      \<lparr>wt_task_type = ''worker_self_heal'',
       wt_summary = ''Diagnose and repair repeated local worker failures in the ForgeOS runtime.'',
       wt_prompt = ''A local runtime worker failed or repeated the same failure. ''
         @ ''Apply the smallest safe repo fix that improves ForgeOS resilience, then stop.'' @ [CHR 0x0A, CHR 0x0A]
         @ ''Self-heal round: '' @ int_str (int k + 1) @ [CHR 0x0A]
         @ ''Recent local worker failures: '' @ py_str entries,
       wt_risk = TR_MEDIUM, wt_needs_repo_edit = True, wt_architecture_level = False, wt_repetitive = True,
       wt_local_retry_count = 0, wt_retry_budget = 1,
       wt_context = [(''failures'', entries), (''self_heal_round'', JInt (int k + 1))],
       wt_target_files = [''app/core/orchestrator.py'', ''app/core/runtime_workers.py'', ''app/core/retry_planner.py''],
       wt_invocation_override = None\<rparr>)"

definition retry_task :: "nat \<Rightarrow> worker_task \<Rightarrow> worker_execution \<Rightarrow> worker_task" where
  "retry_task k t x =
     t\<lparr>wt_local_retry_count := wt_local_retry_count t + 1 + int k, wt_retry_budget := 1, wt_repetitive := True,
       wt_prompt := task_text t @ [CHR 0x0A, CHR 0x0A] @ ''Retry after a local self-heal remediation pass. ''
         @ ''Previous failure summary: '' @ we_summary x,
       wt_context := dmerge (wt_context t)
         [(''self_heal_retry'', JBool True), (''self_heal_round'', JInt (int k + 1)),
          (''previous_failure'', JObj [(''status'', JStr (we_status x)), (''summary'', JStr (we_summary x)),
             (''stderr'', JStr (take 1200 (we_stderr x)))])]\<rparr>"

text \<open>\<open>worker_router.route\<close>, then \<open>worker_runtime.execute\<close>.\<close>

record healer =
  he_world :: worker_world
  he_runtime :: worker_runtime
  he_registry :: registry
  he_dir :: string

definition run_task :: "healer \<Rightarrow> worker_task \<Rightarrow> triplet work" where
  "run_task h t st =
     (case route (wk_now (he_world h)) (he_registry h) t of
        Inl err \<Rightarrow> (Inl err, st)
      | Inr d \<Rightarrow>
          (case execute_worker (he_world h) (he_runtime h) d t (he_dir h) st of
             (Inl err, st') \<Rightarrow> (Inl err, st')
           | (Inr x, st') \<Rightarrow> (Inr (d, t, x), st')))"

fun run_retries :: "healer \<Rightarrow> nat \<Rightarrow> triplet list \<Rightarrow> triplet list work" where
  "run_retries h k [] st = (Inr [], st)"
| "run_retries h k ((d, t, x) # failures) st =
     (case run_task h (retry_task k t x) st of
        (Inl err, st1) \<Rightarrow> (Inl err, st1)
      | (Inr r, st1) \<Rightarrow>
          (case run_retries h k failures st1 of
             (Inl err, st2) \<Rightarrow> (Inl err, st2)
           | (Inr rs, st2) \<Rightarrow> (Inr (r # rs), st2)))"

section \<open>Rounds\<close>

record heal_log =
  hl_runs :: "triplet list"
  hl_retried :: nat
  hl_recovered :: nat
  hl_consumed :: nat
  hl_remaining :: "triplet list"
  hl_last :: string

fun completed_run :: "triplet \<Rightarrow> bool" where
  "completed_run (d, t, x) \<longleftrightarrow> we_status x = ''completed''"

definition log_round :: "nat \<Rightarrow> triplet \<Rightarrow> triplet list \<Rightarrow> heal_log \<Rightarrow> heal_log" where
  "log_round k remediation retries lg =
     \<lparr>hl_runs = hl_runs lg @ remediation # retries,
      hl_retried = hl_retried lg + length retries,
      hl_recovered = hl_recovered lg + length (filter completed_run retries),
      hl_consumed = hl_consumed lg + (if 0 < k then 1 else 0),
      hl_remaining = filter (\<lambda>r. \<not> completed_run r) retries,
      hl_last = we_status (snd (snd remediation))\<rparr>"

definition heal_round :: "healer \<Rightarrow> nat \<Rightarrow> heal_log \<Rightarrow> heal_log work" where
  "heal_round h k lg st =
     (case run_task h (remediation_task k (hl_remaining lg)) st of
        (Inl err, st1) \<Rightarrow> (Inl err, st1)
      | (Inr remediation, st1) \<Rightarrow>
          (case run_retries h k (hl_remaining lg) st1 of
             (Inl err, st2) \<Rightarrow> (Inl err, st2)
           | (Inr retries, st2) \<Rightarrow> (Inr (log_round k remediation retries lg), st2)))"

fun heal_rounds :: "healer \<Rightarrow> nat \<Rightarrow> nat \<Rightarrow> heal_log \<Rightarrow> heal_log work" where
  "heal_rounds h 0 k lg st = (Inr lg, st)"
| "heal_rounds h (Suc n) k lg st =
     (case heal_round h k lg st of
        (Inl err, st1) \<Rightarrow> (Inl err, st1)
      | (Inr lg1, st1) \<Rightarrow> if hl_remaining lg1 = [] then (Inr lg1, st1) else heal_rounds h n (Suc k) lg1 st1)"

definition loop_status :: "int \<Rightarrow> heal_log \<Rightarrow> string" where
  "loop_status available lg =
     (if hl_retried lg \<noteq> 0 \<and> hl_recovered lg = hl_retried lg then ''recovered''
      else if hl_last lg \<noteq> ''completed'' then ''repair_failed''
      else if hl_remaining lg \<noteq> [] \<and> available = 0 then ''permission_required''
      else if hl_remaining lg \<noteq> [] then ''retry_failed''
      else ''attempted'')"

definition default_self_heal_rounds :: nat where
  "default_self_heal_rounds = 3"

definition extra_self_heal_round_batch :: nat where
  "extra_self_heal_round_batch = 3"

text \<open>\<open>self_heal_policy["consumed_extra_loops"] = ...\<close> and the policy document, when a round was charged.\<close>

definition charge_policy :: "string \<Rightarrow> nat \<Rightarrow> json \<Rightarrow> json work" where
  "charge_policy dir consumed policy st =
     (if consumed = 0 then (Inr policy, st)
      else (case bindr (policy_count ''consumed_extra_loops'' policy) (\<lambda>before. bindr (as_dict policy) (\<lambda>d. Inr (before, d))) of
              Inl err \<Rightarrow> (Inl err, st)
            | Inr (before, d) \<Rightarrow>
                (let policy' = dset d ''consumed_extra_loops'' (JInt (before + int consumed)) in
                 (Inr (JObj policy'), fst st, write_self_heal_policy dir policy' (snd st)))))"

definition heal_report :: "triplet list \<Rightarrow> int \<Rightarrow> json \<Rightarrow> heal_log \<Rightarrow> jdict res" where
  "heal_report failures available policy lg =
     bindr (available_loops policy) (\<lambda>left.
     bindr (policy_count ''consumed_extra_loops'' policy) (\<lambda>consumed.
     Inr [(''status'', JStr (loop_status available lg)),
          (''summary'', JStr (''ForgeOS ran a bounded local self-heal loop for '' @ int_str (int (hl_retried lg))
             @ '' failed local worker task(s) '' @ ''and recovered '' @ int_str (int (hl_recovered lg)) @ '' of them.'')),
          (''failed_tasks'', jstrs (map (\<lambda>(d, t, x). we_task_type x) failures)),
          (''retried_tasks'', JInt (int (hl_retried lg))),
          (''recovered_tasks'', JInt (int (hl_recovered lg))),
          (''repair_execution_status'', JStr (hl_last lg)),
          (''repair_transcript_path'',
             JStr (case hl_runs lg of (d, t, x) # _ \<Rightarrow> we_transcript_path x | [] \<Rightarrow> [])),
          (''available_extra_loops'', JInt left),
          (''consumed_extra_loops'', JInt consumed),
          (''permission_message'', JStr (if hl_remaining lg \<noteq> [] then
             ''ForgeOS can try another batch of '' @ int_str (int extra_self_heal_round_batch)
               @ '' autonomous fix rounds if the operator grants extra self-heal permission.'' else []))]))"

definition heal_start :: "triplet list \<Rightarrow> heal_log" where
  "heal_start failures =
     \<lparr>hl_runs = [], hl_retried = 0, hl_recovered = 0, hl_consumed = 0, hl_remaining = failures, hl_last = ''not_run''\<rparr>"

definition heal_failures :: "healer \<Rightarrow> json \<Rightarrow> int \<Rightarrow> triplet list \<Rightarrow> (triplet list \<times> jdict) work" where
  "heal_failures h policy available failures st =
     (case heal_rounds h (default_self_heal_rounds + nat available) 0 (heal_start failures) st of
        (Inl err, st1) \<Rightarrow> (Inl err, st1)
      | (Inr lg, st1) \<Rightarrow>
          (case charge_policy (he_dir h) (hl_consumed lg) policy st1 of
             (Inl err, st2) \<Rightarrow> (Inl err, st2)
           | (Inr policy', st2) \<Rightarrow> (bindr (heal_report failures available policy' lg) (\<lambda>report. Inr (hl_runs lg, report)), st2)))"

text \<open>
  The extra routes and executions are the components of the runs. Of the failing local workers the
  first three are repaired.
\<close>

definition run_local_worker_fix_loop ::
    "healer \<Rightarrow> worker_route_decision list \<Rightarrow> worker_task list \<Rightarrow> worker_execution list \<Rightarrow> (triplet list \<times> jdict) work" where
  "run_local_worker_fix_loop h routes tasks executions = (\<lambda>(tr, dk).
     let policy = read_self_heal_policy (he_dir h) dk;
         failures = filter failing (zip routes (zip tasks executions)) in
     case available_loops policy of
       Inl err \<Rightarrow> (Inl err, tr, dk)
     | Inr available \<Rightarrow>
         if failures = [] then
           (bindr (policy_count ''consumed_extra_loops'' policy) (\<lambda>consumed.
              Inr ([], [(''status'', JStr ''not_needed''),
                        (''summary'', JStr ''Local workers completed without needing self-heal remediation.''),
                        (''available_extra_loops'', JInt available), (''consumed_extra_loops'', JInt consumed)])), tr, dk)
         else heal_failures h policy available (take 3 failures) (tr, dk))"

section \<open>The loop is bounded\<close>

lemma run_task_adds: "adds_at_most (2 * attempt_budget t) st (run_task h t st)"
proof (cases "route (wk_now (he_world h)) (he_registry h) t")
  case (Inl err)
  then show ?thesis using adds_none [of "2 * attempt_budget t" st "Inl err" "snd st"] budget_pos [of t]
    by (simp add: run_task_def)
next
  case (Inr d)
  obtain tr dk where st: "st = (tr, dk)" by (cases st)
  obtain r tr' dk' where x: "execute_worker (he_world h) (he_runtime h) d t (he_dir h) (tr, dk) = (r, tr', dk')"
    using prod.exhaust by metis
  from executions_bounded_lemma [of t tr dk "he_world h" "he_runtime h" d "he_dir h"] show ?thesis
    by (cases r) (simp_all add: run_task_def Inr st x adds_at_most_def)
qed

lemma retry_budget_one [simp]: "attempt_budget (retry_task k t x) = 1"
  by (simp add: retry_task_def attempt_budget_def)

lemma remediation_budget_one [simp]: "attempt_budget (remediation_task k fs) = 1"
  by (simp add: remediation_task_def attempt_budget_def Let_def)

lemma adds_fail: "adds_at_most n st (Inl err, st') \<Longrightarrow> n \<le> m \<Longrightarrow> adds_at_most m st (Inl err', st')"
  by (force simp: adds_at_most_def)

lemma adds_result: "adds_at_most n st (r, st') = adds_at_most n st (r', st')"
  by (simp add: adds_at_most_def)

lemma run_retries_adds: "adds_at_most (2 * int (length fs)) st (run_retries h k fs st)"
proof (induction fs arbitrary: st)
  case Nil
  show ?case by (simp add: adds_at_most_def)
next
  case (Cons f fs)
  obtain d t x where f: "f = (d, t, x)" by (cases f)
  obtain r st1 where a: "run_task h (retry_task k t x) st = (r, st1)" using prod.exhaust by blast
  obtain rs st2 where b: "run_retries h k fs st1 = (rs, st2)" using prod.exhaust by blast
  have first: "adds_at_most 2 st (r, st1)" using run_task_adds [of "retry_task k t x" st h] by (simp add: a)
  have both: "adds_at_most (2 + 2 * int (length fs)) st (rs, st2)" using adds_trans [OF first Cons.IH] by (simp add: b)
  show ?case
  proof (cases r)
    case (Inl err)
    with first show ?thesis by (simp add: f a adds_fail)
  next
    case (Inr run)
    with both show ?thesis by (cases rs) (simp_all add: f a b adds_result [of _ _ "Inr _" _ "Inr _"] adds_at_most_def)
  qed
qed

lemma run_retries_length: "run_retries h k fs st = (Inr rs, st') \<Longrightarrow> length rs = length fs"
  by (induction fs arbitrary: st rs st') (auto split: prod.splits sum.splits)

lemma heal_round_adds: "adds_at_most (2 + 2 * int (length (hl_remaining lg))) st (heal_round h k lg st)"
proof -
  obtain r st1 where a: "run_task h (remediation_task k (hl_remaining lg)) st = (r, st1)" using prod.exhaust by blast
  obtain rs st2 where b: "run_retries h k (hl_remaining lg) st1 = (rs, st2)" using prod.exhaust by blast
  have first: "adds_at_most 2 st (r, st1)" using run_task_adds [of "remediation_task k (hl_remaining lg)" st h] by (simp add: a)
  have both: "adds_at_most (2 + 2 * int (length (hl_remaining lg))) st (rs, st2)"
    using adds_trans [OF first run_retries_adds [of "hl_remaining lg" st1 h k]] by (simp add: b)
  show ?thesis
  proof (cases r)
    case (Inl err)
    with first show ?thesis by (simp add: heal_round_def a adds_fail)
  next
    case (Inr run)
    with both show ?thesis by (cases rs) (simp_all add: heal_round_def a b adds_at_most_def)
  qed
qed

lemma heal_roundE:
  assumes "heal_round h k lg st = (Inr lg', st')"
  obtains remediation retries where "lg' = log_round k remediation retries lg" "length retries = length (hl_remaining lg)"
proof -
  obtain r st1 where a: "run_task h (remediation_task k (hl_remaining lg)) st = (r, st1)" using prod.exhaust by blast
  obtain rs st2 where b: "run_retries h k (hl_remaining lg) st1 = (rs, st2)" using prod.exhaust by blast
  from assms obtain remediation where r: "r = Inr remediation" by (cases r) (simp_all add: heal_round_def a)
  from assms obtain retries where rs: "rs = Inr retries" by (cases rs) (simp_all add: heal_round_def a b r)
  have "lg' = log_round k remediation retries lg" using assms by (simp add: heal_round_def a b r rs)
  then show thesis using that run_retries_length b rs by blast
qed

lemma heal_round_remaining:
  "heal_round h k lg st = (Inr lg', st') \<Longrightarrow> length (hl_remaining lg') \<le> length (hl_remaining lg)"
  by (erule heal_roundE) (metis length_filter_le log_round_def heal_log.select_convs(5))

lemma heal_rounds_adds: "adds_at_most (int n * (2 + 2 * int (length (hl_remaining lg)))) st (heal_rounds h n k lg st)"
proof (induction n arbitrary: k lg st)
  case 0
  show ?case by (simp add: adds_at_most_def)
next
  case (Suc n)
  let ?b = "2 + 2 * int (length (hl_remaining lg))"
  obtain r st1 where a: "heal_round h k lg st = (r, st1)" using prod.exhaust by blast
  have first: "adds_at_most ?b st (r, st1)" using heal_round_adds [of lg st h k] by (simp add: a)
  have le: "?b \<le> int (Suc n) * ?b" by (simp add: algebra_simps)
  show ?case
  proof (cases r)
    case (Inl err)
    from adds_fail [OF first [unfolded Inl] le] show ?thesis by (simp add: a Inl)
  next
    case (Inr lg1)
    have one: "adds_at_most (int (Suc n) * ?b) st (Inr lg1, st1)" using adds_mono [OF first [unfolded Inr] le] .
    have rem: "length (hl_remaining lg1) \<le> length (hl_remaining lg)" using heal_round_remaining a Inr by blast
    have "int n * (2 + 2 * int (length (hl_remaining lg1))) \<le> int n * ?b" using rem by (intro mult_left_mono) simp_all
    then have "adds_at_most (int n * ?b) st1 (heal_rounds h n (Suc k) lg1 st1)" using adds_mono [OF Suc.IH] by blast
    from adds_trans [OF first this] have "adds_at_most (int (Suc n) * ?b) st (heal_rounds h n (Suc k) lg1 st1)"
      by (simp add: algebra_simps)
    with one show ?thesis by (simp add: a Inr)
  qed
qed

lemma charge_trace [simp]: "fst (snd (charge_policy dir n policy st)) = fst st"
  by (auto simp: charge_policy_def Let_def split: sum.split)

lemma heal_failures_trace:
  "fst (snd (heal_failures h policy a fs st))
     = fst (snd (heal_rounds h (default_self_heal_rounds + nat a) 0 (heal_start fs) st))"
proof -
  obtain r st1 where a: "heal_rounds h (default_self_heal_rounds + nat a) 0 (heal_start fs) st = (r, st1)"
    using prod.exhaust by blast
  show ?thesis
  proof (cases r)
    case (Inl err)
    then show ?thesis by (simp add: heal_failures_def a)
  next
    case (Inr lg)
    obtain q st2 where c: "charge_policy (he_dir h) (hl_consumed lg) policy st1 = (q, st2)" using prod.exhaust by blast
    have "fst st2 = fst st1" using charge_trace [of "he_dir h" "hl_consumed lg" policy st1] by (simp only: c fst_conv snd_conv)
    then show ?thesis by (cases q) (simp_all add: heal_failures_def a Inr c)
  qed
qed

lemma available_nonneg: "available_loops policy = Inr a \<Longrightarrow> 0 \<le> a"
  by (auto simp: available_loops_def bindr_eq_Inr)

lemma heal_rounds_start:
  assumes "length fs \<le> 3" "0 \<le> a"
  shows "adds_at_most (8 * (3 + a)) st (heal_rounds h (default_self_heal_rounds + nat a) 0 (heal_start fs) st)"
proof -
  let ?n = "default_self_heal_rounds + nat a"
  have "int ?n * (2 + 2 * int (length fs)) \<le> int ?n * 8" using assms(1) by (intro mult_left_mono) simp_all
  also have "\<dots> = 8 * (3 + a)" using assms(2) by (simp add: default_self_heal_rounds_def)
  finally show ?thesis
    using adds_mono [OF heal_rounds_adds [of ?n "heal_start fs" st h 0]] by (simp add: heal_start_def)
qed

text \<open>
  C10. The self-heal loop is bounded. Whatever the workers and the repairs answer, it starts at most
  eight commands for each of its three rounds and of the extra rounds the policy document leaves:
  two for the repair and two for each of three retries. With a policy it cannot read it starts none.
\<close>

theorem self_heal_is_bounded:
  "\<exists>cs. fst (snd (run_local_worker_fix_loop h routes tasks executions (tr, dk))) = tr @ cs
     \<and> (case available_loops (read_self_heal_policy (he_dir h) dk) of
          Inl err \<Rightarrow> cs = [] | Inr a \<Rightarrow> int (length cs) \<le> 8 * (3 + a))"
proof (cases "available_loops (read_self_heal_policy (he_dir h) dk)")
  case (Inl err)
  then show ?thesis by (simp add: run_local_worker_fix_loop_def Let_def)
next
  case (Inr a)
  let ?fs = "filter failing (zip routes (zip tasks executions))"
  have "adds_at_most (8 * (3 + a)) (tr, dk) (heal_rounds h (default_self_heal_rounds + nat a) 0 (heal_start (take 3 ?fs)) (tr, dk))"
    by (rule heal_rounds_start) (simp_all add: available_nonneg [OF Inr])
  moreover have "adds_at_most (8 * (3 + a)) (tr, dk) (r, tr, dk)" for r :: "(triplet list \<times> jdict) res"
    using available_nonneg [OF Inr] by (simp add: adds_at_most_def)
  ultimately show ?thesis
    by (simp add: run_local_worker_fix_loop_def Let_def Inr heal_failures_trace adds_at_most_def)
qed

section \<open>Escalation\<close>

text \<open>
  From the second round on a failing task leaves the local workers: unless it needs an edit of the
  repository, its retry is routed to the frontier worker, whatever its risk and the capabilities of
  the host.
\<close>

theorem later_rounds_escalate:
  assumes "1 \<le> k" and "0 \<le> wt_local_retry_count t" and "\<not> wt_needs_repo_edit t"
  shows "\<exists>d. route now (discover_registry e caps) (retry_task k t x) = Inr d \<and> wd_selected_worker d = WR_FRONTIER_ARCHITECT"
  using assms by (auto simp: route_def route_decision_def registered_def retry_task_def high_risk_def)

section \<open>Charged rounds\<close>

definition charge :: "nat \<Rightarrow> nat \<Rightarrow> nat" where
  "charge k n = (if k = 0 then n - 1 else n)"

lemma charge_Suc: "charge k (Suc n) = (if 0 < k then 1 else 0) + charge (Suc k) n"
  by (simp add: charge_def)

lemma heal_rounds_consumed:
  "heal_rounds h n k lg st = (Inr lg', st') \<Longrightarrow>
     hl_consumed lg' \<le> hl_consumed lg + charge k n
     \<and> (hl_remaining lg' \<noteq> [] \<longrightarrow> hl_consumed lg' = hl_consumed lg + charge k n)"
proof (induction n arbitrary: k lg st)
  case 0
  then show ?case by (simp add: charge_def)
next
  case (Suc n)
  obtain r st1 where a: "heal_round h k lg st = (r, st1)" using prod.exhaust by blast
  from Suc.prems obtain lg1 where r: "r = Inr lg1" by (cases r) (simp_all add: a)
  obtain remediation retries where lg1: "lg1 = log_round k remediation retries lg"
    using heal_roundE a r by metis
  have c: "hl_consumed lg1 = hl_consumed lg + (if 0 < k then 1 else 0)" by (simp add: lg1 log_round_def)
  show ?case
  proof (cases "hl_remaining lg1 = []")
    case True
    with Suc.prems have "lg' = lg1" by (simp add: a r)
    with True c show ?thesis by (simp add: charge_Suc)
  next
    case False
    with Suc.prems have "heal_rounds h n (Suc k) lg1 st1 = (Inr lg', st')" by (simp add: a r)
    from Suc.IH [OF this] c show ?thesis by (simp add: charge_Suc)
  qed
qed

lemma read_charged:
  "read_self_heal_policy dir (write_self_heal_policy dir d dk) = JObj d"
  by (simp add: read_self_heal_policy_def write_self_heal_policy_def write_runtime_artifact_def self_heal_path_def
      fread_atomic_write)

lemma count_charged:
  "policy_count ''consumed_extra_loops'' (JObj (dset d ''consumed_extra_loops'' (JInt n))) = Inr n"
  by (simp add: policy_count_def dget_dset py_int_def)

lemma charge_policyE:
  assumes "charge_policy dir n policy (tr, dk) = (Inr policy', tr', dk')"
    and "policy_count ''consumed_extra_loops'' policy = Inr c" and "0 < n"
  shows "policy_count ''consumed_extra_loops'' (read_self_heal_policy dir dk') = Inr (c + int n)"
  using assms by (auto simp: charge_policy_def Let_def read_charged count_charged split: sum.splits)

definition report_status :: "jdict \<Rightarrow> string" where
  "report_status report = dstr report ''status'' []"

lemma heal_failuresE:
  assumes "heal_failures h policy a fs st = (Inr (runs, report), tr', dk')"
  obtains lg tr1 dk1 policy' where
    "heal_rounds h (default_self_heal_rounds + nat a) 0 (heal_start fs) st = (Inr lg, tr1, dk1)"
    "charge_policy (he_dir h) (hl_consumed lg) policy (tr1, dk1) = (Inr policy', tr', dk')"
    "runs = hl_runs lg" "heal_report fs a policy' lg = Inr report"
proof -
  obtain r tr1 dk1 where a: "heal_rounds h (default_self_heal_rounds + nat a) 0 (heal_start fs) st = (r, tr1, dk1)"
    using prod.exhaust by metis
  from assms obtain lg where r: "r = Inr lg" by (cases r) (simp_all add: heal_failures_def a)
  obtain q st2 where c: "charge_policy (he_dir h) (hl_consumed lg) policy (tr1, dk1) = (q, st2)" using prod.exhaust by blast
  from assms obtain policy' where q: "q = Inr policy'" by (cases q) (simp_all add: heal_failures_def a r c)
  from assms have "st2 = (tr', dk')" "bindr (heal_report fs a policy' lg) (\<lambda>report. Inr (hl_runs lg, report)) = Inr (runs, report)"
    by (simp_all add: heal_failures_def a r c q)
  with a c r q that show thesis by (auto simp: bindr_eq_Inr)
qed

lemma counts_available:
  "policy_count ''granted_extra_loops'' policy = Inr g \<Longrightarrow> policy_count ''consumed_extra_loops'' policy = Inr c \<Longrightarrow>
     available_loops policy = Inr (max 0 (g - c))"
  by (simp add: available_loops_def)

lemma fix_loop_run:
  assumes "run_local_worker_fix_loop h routes tasks executions (tr, dk) = (Inr (runs, report), tr', dk')"
    and "filter failing (zip routes (zip tasks executions)) \<noteq> []"
  obtains a where "available_loops (read_self_heal_policy (he_dir h) dk) = Inr a"
    "heal_failures h (read_self_heal_policy (he_dir h) dk) a (take 3 (filter failing (zip routes (zip tasks executions)))) (tr, dk)
       = (Inr (runs, report), tr', dk')"
  using assms by (auto simp: run_local_worker_fix_loop_def Let_def split: sum.splits)

text \<open>
  C11. The default rounds are charged to the operator's grant. A loop that still has failures at its
  end, as it then says, has recorded two rounds more than were granted, whatever was granted and
  consumed before: the second and third of the default rounds count as extra ones.
\<close>

theorem failing_loop_overdraws_the_grant:
  assumes "run_local_worker_fix_loop h routes tasks executions (tr, dk) = (Inr (runs, report), tr', dk')"
    and "policy_count ''granted_extra_loops'' (read_self_heal_policy (he_dir h) dk) = Inr g"
    and "policy_count ''consumed_extra_loops'' (read_self_heal_policy (he_dir h) dk) = Inr c"
    and "truthy (dget0 report ''permission_message'')"
  shows "policy_count ''consumed_extra_loops'' (read_self_heal_policy (he_dir h) dk') = Inr (max g c + 2)"
proof -
  let ?policy = "read_self_heal_policy (he_dir h) dk"
  let ?fs = "filter failing (zip routes (zip tasks executions))"
  have "?fs \<noteq> []" using assms by (auto simp: run_local_worker_fix_loop_def Let_def bindr_eq_Inr split: sum.splits)
  from fix_loop_run [OF assms(1) this] counts_available [OF assms(2,3)]
  have "heal_failures h ?policy (max 0 (g - c)) (take 3 ?fs) (tr, dk) = (Inr (runs, report), tr', dk')" by auto
  then obtain lg tr1 dk1 policy' where
    run: "heal_rounds h (default_self_heal_rounds + nat (max 0 (g - c))) 0 (heal_start (take 3 ?fs)) (tr, dk) = (Inr lg, tr1, dk1)"
    and paid: "charge_policy (he_dir h) (hl_consumed lg) ?policy (tr1, dk1) = (Inr policy', tr', dk')"
    and report: "heal_report (take 3 ?fs) (max 0 (g - c)) policy' lg = Inr report"
    by (rule heal_failuresE)
  have "hl_remaining lg \<noteq> []" using assms(4) report by (auto simp: heal_report_def bindr_eq_Inr)
  with heal_rounds_consumed [OF run] have n: "hl_consumed lg = 2 + nat (max 0 (g - c))"
    by (simp add: heal_start_def charge_def default_self_heal_rounds_def)
  from charge_policyE [OF paid assms(3)] n have
    "policy_count ''consumed_extra_loops'' (read_self_heal_policy (he_dir h) dk') = Inr (c + int (hl_consumed lg))" by simp
  then show ?thesis by (simp add: n max_def)
qed

section \<open>What counts as recovered\<close>

lemma log_round_deficit:
  assumes "length retries = length (hl_remaining lg)"
  shows "hl_recovered (log_round k remediation retries lg) + hl_retried lg + length (hl_remaining (log_round k remediation retries lg))
    = hl_retried (log_round k remediation retries lg) + hl_recovered lg"
  using sum_length_filter_compl [of completed_run retries] assms by (simp add: log_round_def)

lemma heal_rounds_deficit:
  "heal_rounds h n k lg st = (Inr lg', st') \<Longrightarrow> hl_recovered lg < hl_retried lg \<Longrightarrow>
     hl_recovered lg' < hl_retried lg' \<and> length (hl_runs lg) + min 1 n \<le> length (hl_runs lg')"
proof (induction n arbitrary: k lg st)
  case 0
  then show ?case by simp
next
  case (Suc n)
  obtain r st1 where a: "heal_round h k lg st = (r, st1)" using prod.exhaust by blast
  from Suc.prems obtain lg1 where r: "r = Inr lg1" by (cases r) (simp_all add: a)
  obtain remediation retries where lg1: "lg1 = log_round k remediation retries lg" and len: "length retries = length (hl_remaining lg)"
    using heal_roundE a r by metis
  have d: "hl_recovered lg1 < hl_retried lg1" using log_round_deficit [OF len, of k remediation] Suc.prems(2) by (simp add: lg1)
  have runs: "length (hl_runs lg) + 1 \<le> length (hl_runs lg1)" by (simp add: lg1 log_round_def)
  show ?case
  proof (cases "hl_remaining lg1 = []")
    case True
    with Suc.prems d runs show ?thesis by (simp add: a r)
  next
    case False
    with Suc.prems have "heal_rounds h n (Suc k) lg1 st1 = (Inr lg', st')" by (simp add: a r)
    from Suc.IH [OF this d] runs show ?thesis by simp
  qed
qed

lemma heal_rounds_recovered:
  assumes "heal_rounds h (Suc (Suc n)) 0 (heal_start fs) st = (Inr lg, st')" and "fs \<noteq> []"
  shows "hl_retried lg \<noteq> 0 \<and> (hl_recovered lg = hl_retried lg
    \<longleftrightarrow> length (hl_runs lg) = Suc (length fs) \<and> (\<forall>r \<in> set (tl (hl_runs lg)). completed_run r))"
proof -
  obtain r st1 where a: "heal_round h 0 (heal_start fs) st = (r, st1)" using prod.exhaust by blast
  from assms obtain lg1 where r: "r = Inr lg1" by (cases r) (simp_all add: a)
  obtain remediation retries where lg1: "lg1 = log_round 0 remediation retries (heal_start fs)" and len: "length retries = length fs"
    using heal_roundE [OF a [unfolded r]] unfolding heal_start_def heal_log.select_convs by metis
  show ?thesis
  proof (cases "hl_remaining lg1 = []")
    case True
    with assms have "lg = lg1" by (simp add: a r)
    moreover have "\<forall>x \<in> set retries. completed_run x" using True by (simp add: lg1 log_round_def filter_empty_conv)
    ultimately show ?thesis using assms(2) len by (simp add: lg1 log_round_def heal_start_def)
  next
    case False
    then have "0 < length (hl_remaining lg1)" by simp
    moreover have "hl_recovered lg1 + length (hl_remaining lg1) = hl_retried lg1"
      using log_round_deficit [of retries "heal_start fs" 0 remediation] len unfolding lg1 by (simp add: heal_start_def)
    ultimately have "hl_recovered lg1 < hl_retried lg1" by linarith
    moreover have "heal_rounds h (Suc n) 1 lg1 st1 = (Inr lg, st')" using assms(1) False by (simp add: a r)
    ultimately have "hl_recovered lg < hl_retried lg \<and> length (hl_runs lg1) + 1 \<le> length (hl_runs lg)"
      using heal_rounds_deficit by fastforce
    moreover have "length (hl_runs lg1) = Suc (length fs)" using len by (simp add: lg1 log_round_def heal_start_def)
    ultimately show ?thesis by simp
  qed
qed

text \<open>
  C12. The loop reports that the workers recovered exactly when the retries of its first round all
  completed: a worker that recovers in a later round is counted as retried more often than it
  recovered, and the loop reports a failed repair or an attempt even when no failure is left.
\<close>

theorem recovered_means_in_the_first_round:
  assumes "run_local_worker_fix_loop h routes tasks executions (tr, dk) = (Inr (runs, report), tr', dk')"
    and "filter failing (zip routes (zip tasks executions)) \<noteq> []"
  shows "dget0 report ''status'' = JStr ''recovered''
    \<longleftrightarrow> length runs = Suc (min 3 (length (filter failing (zip routes (zip tasks executions)))))
        \<and> (\<forall>r \<in> set (tl runs). completed_run r)"
proof -
  let ?fs = "filter failing (zip routes (zip tasks executions))"
  obtain a where "heal_failures h (read_self_heal_policy (he_dir h) dk) a (take 3 ?fs) (tr, dk) = (Inr (runs, report), tr', dk')"
    by (rule fix_loop_run [OF assms])
  then obtain lg tr1 dk1 policy' where
    run: "heal_rounds h (default_self_heal_rounds + nat a) 0 (heal_start (take 3 ?fs)) (tr, dk) = (Inr lg, tr1, dk1)"
    and runs: "runs = hl_runs lg" and report: "heal_report (take 3 ?fs) a policy' lg = Inr report"
    by (rule heal_failuresE)
  have "dget0 report ''status'' = JStr (loop_status a lg)" using report by (auto simp: heal_report_def bindr_eq_Inr)
  moreover have n: "default_self_heal_rounds + nat a = Suc (Suc (Suc (nat a)))" by (simp add: default_self_heal_rounds_def)
  have "hl_retried lg \<noteq> 0 \<and> (hl_recovered lg = hl_retried lg
    \<longleftrightarrow> length (hl_runs lg) = Suc (length (take 3 ?fs)) \<and> (\<forall>r \<in> set (tl (hl_runs lg)). completed_run r))"
    by (rule heal_rounds_recovered [OF run [unfolded n]]) (use assms(2) in simp)
  moreover have "loop_status a lg = ''recovered'' \<longleftrightarrow> hl_retried lg \<noteq> 0 \<and> hl_recovered lg = hl_retried lg"
    by (simp add: loop_status_def)
  ultimately show ?thesis by (simp add: runs min.commute)
qed

section \<open>A host on which every worker fails\<close>

definition failing_world :: "worker_world \<Rightarrow> bool" where
  "failing_world w \<longleftrightarrow> (\<forall>p. h_installed (wk_host w) p) \<and> (\<forall>tr c. cp_returncode (h_exec (wk_host w) tr c) \<noteq> 0)
     \<and> gm_http (wk_lm w) = (\<lambda>_ _ _ _. None) \<and> gm_cli (wk_lm w) = (\<lambda>_. None)"

definition fails :: "worker_execution res \<times> trace \<times> disk \<Rightarrow> bool" where
  "fails r \<longleftrightarrow> (\<exists>x. fst r = Inr x \<and> we_status x \<noteq> ''completed'')"

lemma failing_attempts:
  "failing_world w \<Longrightarrow> command \<noteq> [] \<Longrightarrow> lg_exit lg \<noteq> Some 0 \<Longrightarrow>
     \<exists>lg' tr'. attempts_loop w name command n lg tr = (Inr lg', tr') \<and> lg_exit lg' \<noteq> Some 0"
proof (induction n arbitrary: lg tr)
  case 0
  then show ?case by simp
next
  case (Suc n)
  from Suc.prems have e: "lg_exit (log_attempt lm name (h_exec (wk_host w) tr c) ms lg) \<noteq> Some 0" for lm c ms
    by (cases c) (simp add: failing_world_def log_attempt_def Let_def)
  from Suc.prems Suc.IH [OF _ _ e] show ?case by (simp add: failing_world_def issue_def Let_def)
qed

lemma fails_transcript: "we_status x \<noteq> ''completed'' \<Longrightarrow> fails (write_transcript w dir x extra st)"
  by (cases st) (simp add: fails_def write_transcript_def Let_def)

lemma fails_adapter:
  assumes "failing_world w" "command \<noteq> []"
  shows "fails (run_adapter w role name t dir command triggers s st)"
proof (cases st)
  case (Pair tr dk)
  obtain lg' tr' where "attempts_loop w name command (nat (attempt_budget t)) empty_log tr = (Inr lg', tr')" "lg_exit lg' \<noteq> Some 0"
    using failing_attempts [OF assms, of empty_log name "nat (attempt_budget t)" tr] by (auto simp: empty_log_def)
  then show ?thesis
    by (simp add: Pair run_adapter_def fails_transcript adapter_execution_def bare_execution_def Let_def)
qed

lemma fails_summary: "fails (m st) \<Longrightarrow> fails (with_summary s m st)"
  by (auto simp: fails_def with_summary_def split: prod.splits)

lemma overridden_nonempty [simp]: "c \<noteq> [] \<Longrightarrow> overridden t c \<noteq> []"
  by (simp add: overridden_def split: option.split list.split)

lemma commands_nonempty [simp]:
  "ollama_command e t m \<noteq> []" "goose_command e t m \<noteq> []" "aider_command e t d m \<noteq> []"
  by (simp_all add: ollama_command_def goose_command_def aider_command_def Let_def)

lemma fails_goose: "failing_world w \<Longrightarrow> fails (run_goose w rt d t dir s st)"
  by (simp add: run_goose_def no_local_worker_def fails_transcript fails_adapter fails_summary bare_execution_def)

lemma fails_local:
  assumes "failing_world w"
  shows "fails (run_local_general w rt d t dir st)"
proof -
  have "fails (case m of (Inl err, s1) \<Rightarrow> (Inl err, s1)
      | (Inr x, s1) \<Rightarrow> if good_help x then (Inr x, s1) else run_goose w rt d t dir s s1)" if "fails m" for m s
    using that fails_goose [OF assms] by (auto simp: fails_def good_help_def split: prod.split)
  from this [OF fails_adapter [OF assms]] fails_adapter [OF assms] fails_goose [OF assms] show ?thesis
    unfolding run_local_general_def Let_def by (simp split: option.split list.split)
qed

lemma fails_frontier:
  assumes "failing_world w"
  shows "fails (run_gemma_frontier w rt d t dir st)"
proof -
  have "write_code (wk_lm w) m a c l = []" "ask (wk_lm w) m a j x = []" for m a c l j x
    using assms by (simp_all add: failing_world_def write_code_def ask_def subprocess_ask_def)
  then show ?thesis
    by (cases st) (simp add: run_gemma_frontier_def Let_def empty_reply_prints_braces fails_transcript bare_execution_def)
qed

lemma fails_execution: "failing_world w \<Longrightarrow> fails (execute_worker w rt d t dir st)"
  by (cases st; cases "wd_selected_worker d")
    (simp_all add: execute_worker_def Let_def fails_local fails_frontier fails_adapter fails_transcript bare_execution_def)

definition hopeless :: "healer \<Rightarrow> bool" where
  "hopeless h \<longleftrightarrow> failing_world (he_world h) \<and> (\<exists>e caps. he_registry h = discover_registry e caps)"

lemma run_task_fails:
  assumes "hopeless h"
  shows "\<exists>r st'. run_task h t st = (Inr r, st') \<and> \<not> completed_run r"
proof -
  obtain d where d: "route (wk_now (he_world h)) (he_registry h) t = Inr d"
    using assms every_route_succeeds unfolding hopeless_def by metis
  have "fails (execute_worker (he_world h) (he_runtime h) d t (he_dir h) st)"
    using assms by (simp add: hopeless_def fails_execution)
  then show ?thesis
    by (cases "execute_worker (he_world h) (he_runtime h) d t (he_dir h) st") (auto simp: run_task_def d fails_def)
qed

lemma run_retries_fail:
  assumes "hopeless h"
  shows "\<exists>rs st'. run_retries h k fs st = (Inr rs, st') \<and> (\<forall>r \<in> set rs. \<not> completed_run r)"
proof (induction fs arbitrary: st)
  case Nil
  show ?case by simp
next
  case (Cons f fs)
  obtain d t x where f: "f = (d, t, x)" by (cases f)
  obtain r st1 where "run_task h (retry_task k t x) st = (Inr r, st1)" "\<not> completed_run r"
    using run_task_fails [OF assms] by blast
  moreover obtain rs st2 where "run_retries h k fs st1 = (Inr rs, st2)" "\<forall>r \<in> set rs. \<not> completed_run r"
    using Cons.IH by blast
  ultimately show ?case by (simp add: f)
qed

lemma heal_round_fails:
  assumes "hopeless h"
  shows "\<exists>lg' st'. heal_round h k lg st = (Inr lg', st') \<and> length (hl_remaining lg') = length (hl_remaining lg)
    \<and> hl_recovered lg' = hl_recovered lg"
proof -
  obtain r st1 where r: "run_task h (remediation_task k (hl_remaining lg)) st = (Inr r, st1)"
    using run_task_fails [OF assms] by blast
  obtain rs st2 where rs: "run_retries h k (hl_remaining lg) st1 = (Inr rs, st2)" "\<forall>r \<in> set rs. \<not> completed_run r"
    using run_retries_fail [OF assms] by blast
  have "filter completed_run rs = []" "filter (\<lambda>r. \<not> completed_run r) rs = rs" using rs(2) by auto
  then show ?thesis using run_retries_length [OF rs(1)] by (simp add: heal_round_def r rs(1) log_round_def)
qed

lemma heal_rounds_fail:
  "hopeless h \<Longrightarrow> \<exists>lg' st'. heal_rounds h n k lg st = (Inr lg', st') \<and> length (hl_remaining lg') = length (hl_remaining lg)
    \<and> hl_recovered lg' = hl_recovered lg"
proof (induction n arbitrary: k lg st)
  case 0
  then show ?case by simp
next
  case (Suc n)
  obtain lg1 st1 where one: "heal_round h k lg st = (Inr lg1, st1)" "length (hl_remaining lg1) = length (hl_remaining lg)"
    "hl_recovered lg1 = hl_recovered lg" using heal_round_fails [OF Suc.prems] by blast
  from Suc.IH [OF Suc.prems, of "Suc k" lg1 st1] one show ?case by auto
qed

lemma hopeless_loop:
  assumes "hopeless h" and "filter failing (zip routes (zip tasks executions)) \<noteq> []"
    and "read_self_heal_policy (he_dir h) dk = JObj no_self_heal_policy"
  shows "\<exists>runs report tr' dk'. run_local_worker_fix_loop h routes tasks executions (tr, dk) = (Inr (runs, report), tr', dk')
    \<and> truthy (dget0 report ''permission_message'')"
proof -
  let ?fs = "filter failing (zip routes (zip tasks executions))"
  let ?policy' = "dset no_self_heal_policy ''consumed_extra_loops'' (JInt 2)"
  have counts: "policy_count ''consumed_extra_loops'' (JObj no_self_heal_policy) = Inr 0"
    "available_loops (JObj no_self_heal_policy) = Inr 0" "available_loops (JObj ?policy') = Inr 0"
    "policy_count ''consumed_extra_loops'' (JObj ?policy') = Inr 2"
    by (simp_all add: policy_count_def available_loops_def no_self_heal_policy_def py_int_def dset_def)
  obtain lg tr1 dk1 where run: "heal_rounds h 3 0 (heal_start (take 3 ?fs)) (tr, dk) = (Inr lg, tr1, dk1)"
    and rem: "length (hl_remaining lg) = length (hl_remaining (heal_start (take 3 ?fs)))"
    using heal_rounds_fail [OF assms(1), of 3 0 "heal_start (take 3 ?fs)" "(tr, dk)"] by auto
  have start: "hl_remaining (heal_start (take 3 ?fs)) \<noteq> []" using assms(2) by (simp add: heal_start_def)
  then have left: "hl_remaining lg \<noteq> []" using rem unfolding length_0_conv [symmetric] by simp
  with heal_rounds_consumed [OF run] have two: "hl_consumed lg = 2" by (simp add: heal_start_def charge_def)
  have charged: "charge_policy (he_dir h) 2 (JObj no_self_heal_policy) st
      = (Inr (JObj ?policy'), fst st, write_self_heal_policy (he_dir h) ?policy' (snd st))" for st
    by (simp add: charge_policy_def counts Let_def)
  have report: "\<exists>report. heal_report (take 3 ?fs) 0 (JObj ?policy') lg = Inr report \<and> truthy (dget0 report ''permission_message'')"
    using left by (simp add: heal_report_def counts)
  from report assms(2) run show ?thesis
    by (auto simp: run_local_worker_fix_loop_def Let_def assms(3) counts heal_failures_def default_self_heal_rounds_def two charged)
qed

definition demo_healer :: healer where
  "demo_healer =
     \<lparr>he_world = demo_world\<lparr>wk_host := \<lparr>h_path = (\<lambda>_. Some ''/usr/bin/tool''),
          h_exec = (\<lambda>_ _. \<lparr>cp_returncode = 1, cp_stdout = [], cp_stderr = ''no''\<rparr>), h_times_out = (\<lambda>_ _. False)\<rparr>,
        wk_lm := demo_lm\<lparr>gm_http := (\<lambda>_ _ _ _. None)\<rparr>\<rparr>,
      he_runtime = worker_runtime_of [] [], he_registry = discover_registry [] [], he_dir = ''devices/d''\<rparr>"

definition demo_local_route :: worker_route_decision where
  "demo_local_route = \<lparr>wd_task_type = ''runtime_audit'', wd_selected_worker = WR_LOCAL_GENERAL, wd_selected_tier = WT_LOCAL,
     wd_rationale = [], wd_adapter_name = ''goose_local_worker'', wd_fallback_worker = Some WR_FRONTIER_ARCHITECT,
     wd_escalation_triggers = [], wd_generated_at = ''t''\<rparr>"

definition demo_low_task :: worker_task where
  "demo_low_task = demo_task\<lparr>wt_risk := TR_LOW\<rparr>"

definition demo_failure :: worker_execution where
  "demo_failure = bare_execution ''t'' WR_LOCAL_GENERAL ''goose_local_worker'' demo_low_task ''failed'' ''failed''"

lemma demo_healer_hopeless: "hopeless demo_healer"
  by (auto simp: hopeless_def failing_world_def demo_healer_def demo_world_def demo_lm_def h_installed_def)

lemma demo_heal_run:
  "\<exists>runs report tr' dk'. run_local_worker_fix_loop demo_healer [demo_local_route] [demo_low_task] [demo_failure]
       ([], \<lparr>dk_files = [], dk_dirs = []\<rparr>) = (Inr (runs, report), tr', dk') \<and> truthy (dget0 report ''permission_message'')"
  by (rule hopeless_loop [OF demo_healer_hopeless])
    (simp_all add: demo_local_route_def demo_failure_def bare_execution_def read_self_heal_policy_def fread_def)

theorem failing_loop_overdraws_the_grant_witness:
  "\<exists>runs report tr' dk'. run_local_worker_fix_loop demo_healer [demo_local_route] [demo_low_task] [demo_failure]
       ([], \<lparr>dk_files = [], dk_dirs = []\<rparr>) = (Inr (runs, report), tr', dk')
     \<and> policy_count ''consumed_extra_loops'' (read_self_heal_policy (he_dir demo_healer) dk') = Inr 2"
proof -
  let ?dk = "\<lparr>dk_files = [], dk_dirs = []\<rparr>"
  obtain runs report tr' dk' where
    "run_local_worker_fix_loop demo_healer [demo_local_route] [demo_low_task] [demo_failure] ([], ?dk) = (Inr (runs, report), tr', dk')"
    and "truthy (dget0 report ''permission_message'')" using demo_heal_run by blast
  moreover have "policy_count key (read_self_heal_policy (he_dir demo_healer) ?dk) = Inr 0"
    if "key \<in> {''granted_extra_loops'', ''consumed_extra_loops''}" for key
    using that by (auto simp: read_self_heal_policy_def fread_def policy_count_def no_self_heal_policy_def py_int_def)
  ultimately have "policy_count ''consumed_extra_loops'' (read_self_heal_policy (he_dir demo_healer) dk') = Inr (max 0 0 + 2)"
    by (intro failing_loop_overdraws_the_grant) blast+
  then show ?thesis using \<open>run_local_worker_fix_loop _ _ _ _ _ = _\<close> by auto
qed

theorem recovered_means_in_the_first_round_witness:
  "\<exists>runs report tr' dk'. run_local_worker_fix_loop demo_healer [demo_local_route] [demo_low_task] [demo_failure]
       ([], \<lparr>dk_files = [], dk_dirs = []\<rparr>) = (Inr (runs, report), tr', dk')
     \<and> (dget0 report ''status'' = JStr ''recovered'' \<longleftrightarrow> length runs = 2 \<and> (\<forall>r \<in> set (tl runs). completed_run r))"
proof -
  obtain runs report tr' dk' where run: "run_local_worker_fix_loop demo_healer [demo_local_route] [demo_low_task] [demo_failure]
      ([], \<lparr>dk_files = [], dk_dirs = []\<rparr>) = (Inr (runs, report), tr', dk')" using demo_heal_run by blast
  have one: "filter failing (zip [demo_local_route] (zip [demo_low_task] [demo_failure])) = [(demo_local_route, demo_low_task, demo_failure)]"
    by (simp add: demo_local_route_def demo_failure_def bare_execution_def)
  from recovered_means_in_the_first_round [OF run, unfolded one] run show ?thesis by fastforce
qed

theorem later_rounds_escalate_witness:
  "\<exists>d. route ''t'' (discover_registry [] [(''goose_ready'', JBool True)]) (retry_task 1 demo_low_task demo_failure) = Inr d
     \<and> wd_selected_worker d = WR_FRONTIER_ARCHITECT"
  by (rule later_rounds_escalate) (simp_all add: demo_low_task_def demo_task_def)

end
