(* ===== verification/Attach.thy ===== *)
theory Attach
  imports Self_Heal Device_Tools Planning_Tools Install_Flow Runtime_Planner
begin

text \<open>
  \<open>ForgeOrchestrator.handle_device_event\<close> of \<open>app/core/orchestrator.py\<close> up to the runtime cycle,
  with \<open>app/tools/device_probe.py\<close>, the deep scan and the update of a profile from a remediation.
  The operations act on the trace of the commands and the disk; an exception ends them and leaves
  both as they are at that moment.
\<close>

section \<open>Operations in sequence\<close>

definition andthen :: "'a work \<Rightarrow> ('a \<Rightarrow> 'b work) \<Rightarrow> 'b work" where
  "andthen m f st = (case m st of (Inl err, st') \<Rightarrow> (Inl err, st') | (Inr x, st') \<Rightarrow> f x st')"

definition done_with :: "'a \<Rightarrow> 'a work" where
  "done_with x st = (Inr x, st)"

definition pure_step :: "'a res \<Rightarrow> 'a work" where
  "pure_step r st = (r, st)"

definition on_disk :: "(disk \<Rightarrow> 'a res \<times> disk) \<Rightarrow> 'a work" where
  "on_disk f st = (fst (f (snd st)), fst st, snd (f (snd st)))"

definition on_host :: "'a proc \<Rightarrow> 'a work" where
  "on_host p st = (Inr (fst (p (fst st))), snd (p (fst st)), snd st)"

definition from_disk :: "(disk \<Rightarrow> 'a res) \<Rightarrow> 'a work" where
  "from_disk f st = (f (snd st), st)"

definition to_disk :: "(disk \<Rightarrow> disk) \<Rightarrow> unit work" where
  "to_disk f st = (Inr (), fst st, f (snd st))"

section \<open>The probe\<close>

definition probe_device :: "jdict \<Rightarrow> jdict res" where
  "probe_device event =
     bindr (as_enum transports transport_value
       (dget event ''transport'' (dget event ''transport_hint'' (JStr (transport_value T_UNKNOWN))))) (\<lambda>transport.
     Inr [(''manufacturer'', jor (dget0 event ''manufacturer'') (JStr ''unknown'')),
          (''model'', jor (dget0 event ''model'') (JStr ''unknown'')),
          (''serial'', jor (dget0 event ''serial'') (JStr ''unknown-serial'')),
          (''android_version'', dget0 event ''android_version''),
          (''bootloader_locked'', dget0 event ''bootloader_locked''),
          (''verified_boot_state'', dget0 event ''verified_boot_state''),
          (''slot_info'', dget event ''slot_info'' (JObj [])),
          (''battery'', dget event ''battery'' (JObj [])),
          (''transport'', JStr (transport_value transport)),
          (''reachability'', dget event ''reachability'' (JStr ''detected'')),
          (''vendor_id'', dget0 event ''vendor_id''),
          (''product_id'', dget0 event ''product_id''),
          (''raw_event'', JObj event)])"

section \<open>Refreshing a profile\<close>

definition refreshed_keys :: "string list" where
  "refreshed_keys =
     [''manufacturer'', ''model'', ''serial'', ''android_version'', ''bootloader_locked'', ''verified_boot_state'',
      ''slot_info'', ''battery'']"

text \<open>\<open>setattr(profile, key, value)\<close> for the keys the callers use, at the type of the field.\<close>

definition set_profile_field :: "string \<Rightarrow> json \<Rightarrow> device_profile \<Rightarrow> device_profile res" where
  "set_profile_field key v p =
     (if key = ''manufacturer'' then bindr (as_str v) (\<lambda>s. Inr (p\<lparr>dp_manufacturer := Some s\<rparr>))
      else if key = ''model'' then bindr (as_str v) (\<lambda>s. Inr (p\<lparr>dp_model := Some s\<rparr>))
      else if key = ''serial'' then bindr (as_str v) (\<lambda>s. Inr (p\<lparr>dp_serial := Some s\<rparr>))
      else if key = ''android_version'' then bindr (as_str v) (\<lambda>s. Inr (p\<lparr>dp_android_version := Some s\<rparr>))
      else if key = ''bootloader_locked'' then bindr (as_bool v) (\<lambda>b. Inr (p\<lparr>dp_bootloader_locked := Some b\<rparr>))
      else if key = ''verified_boot_state'' then bindr (as_str v) (\<lambda>s. Inr (p\<lparr>dp_verified_boot_state := Some s\<rparr>))
      else if key = ''slot_info'' then bindr (as_dict v) (\<lambda>d. Inr (p\<lparr>dp_slot_info := Some d\<rparr>))
      else if key = ''battery'' then bindr (as_dict v) (\<lambda>d. Inr (p\<lparr>dp_battery := Some d\<rparr>))
      else Inr p)"

fun refresh_fields :: "string list \<Rightarrow> jdict \<Rightarrow> device_profile \<Rightarrow> device_profile res" where
  "refresh_fields [] device p = Inr p"
| "refresh_fields (key # keys) device p =
     (let v = dget0 device key in
      if v = JNull \<or> v = JStr [] \<or> v = JObj [] then refresh_fields keys device p
      else bindr (set_profile_field key v p) (refresh_fields keys device))"

definition refresh_transport :: "jdict \<Rightarrow> device_profile \<Rightarrow> device_profile res" where
  "refresh_transport device p =
     (if truthy (dget0 device ''transport'')
      then bindr (as_enum transports transport_value (dget0 device ''transport'')) (\<lambda>t. Inr (p\<lparr>dp_transport := t\<rparr>))
      else Inr p)"

definition refresh_evidence :: "jdict \<Rightarrow> device_profile \<Rightarrow> device_profile" where
  "refresh_evidence device p =
     apply_form_factor_inference (p\<lparr>dp_raw_probe_data := dmerge (dp_raw_probe_data p) device\<rparr>) device"

text \<open>The profile of a session that waits for its device.\<close>

definition refresh_profile :: "jdict \<Rightarrow> device_profile \<Rightarrow> device_profile res" where
  "refresh_profile device p =
     bindr (refresh_fields refreshed_keys device p) (\<lambda>p1.
     bindr (refresh_transport device p1) (\<lambda>p2.
     Inr (refresh_evidence device p2)))"

definition update_waiting_session :: "string \<Rightarrow> jdict \<Rightarrow> string \<Rightarrow> disk \<Rightarrow> unit res \<times> disk" where
  "update_waiting_session now device dir dk =
     (case bindr (load_device_profile dk dir) (refresh_profile device) of
        Inl err \<Rightarrow> (Inl err, dk)
      | Inr p \<Rightarrow> safe_transition now dir BLOCKER_CLASSIFY
          ''Device state changed while waiting at QUESTION_GATE - re-entering blocker classification''
          (write_device_profile dir p dk))"

section \<open>The deep scan\<close>

definition lists_serial :: "string \<Rightarrow> jdict list \<Rightarrow> bool" where
  "lists_serial serial devices \<longleftrightarrow> list_ex (\<lambda>d. dget0 d ''serial'' = JStr serial) devices"

text \<open>Without a serial number no tool is asked; of the three the first that lists the device describes it.\<close>

definition rescan :: "host \<Rightarrow> string \<Rightarrow> jdict option proc" where
  "rescan h serial tr =
     (if serial = [] then (None, tr)
      else let (adb_devices, tr1) = adb_list_devices h tr in
        if lists_serial serial adb_devices then
          let (d, tr2) = describe_device h serial tr1; (snapshot, tr3) = hardware_snapshot h serial tr2
          in (Some (dset (dset d ''hardware_snapshot'' (JObj snapshot)) ''transport'' (JStr (transport_value T_USB_ADB))), tr3)
        else let (fastboot_devices, tr2) = fastboot_list_devices h tr1 in
          if lists_serial serial fastboot_devices then
            let (d, tr3) = describe_device_fastboot h serial tr2
            in (Some (dmerge [(''serial'', JStr serial), (''transport'', JStr (transport_value T_USB_FASTBOOT))] d), tr3)
          else let (fastbootd_devices, tr3) = fastbootd_list_devices h tr2 in
            if lists_serial serial fastbootd_devices
            then (Some [(''serial'', JStr serial), (''transport'', JStr (transport_value T_USB_FASTBOOTD))], tr3)
            else (None, tr3))"

definition refresh_codename :: "jdict \<Rightarrow> device_profile \<Rightarrow> device_profile res" where
  "refresh_codename device p =
     (if truthy (dget0 device ''device_codename'')
      then bindr (as_str (dget0 device ''device_codename'')) (\<lambda>s. Inr (p\<lparr>dp_device_codename := s\<rparr>)) else Inr p)"

definition rescan_profile :: "jdict \<Rightarrow> device_profile \<Rightarrow> device_profile res" where
  "rescan_profile device p =
     bindr (refresh_fields refreshed_keys device p) (\<lambda>p1.
     bindr (refresh_transport device p1) (\<lambda>p2.
     bindr (refresh_codename device p2) (\<lambda>p3.
     Inr (refresh_evidence device p3))))"

definition record_rescan :: "string \<Rightarrow> jdict \<Rightarrow> disk \<Rightarrow> jdict res \<times> disk" where
  "record_rescan dir refreshed dk =
     (case bindr (probe_device refreshed) (\<lambda>device.
             bindr (load_device_profile dk dir) (\<lambda>p. bindr (rescan_profile device p) (\<lambda>p'. Inr (device, p')))) of
        Inl err \<Rightarrow> (Inl err, dk)
      | Inr (device, p') \<Rightarrow> (Inr device, write_device_profile dir p' dk))"

definition perform_deep_scan :: "host \<Rightarrow> string \<Rightarrow> device_profile \<Rightarrow> jdict option work" where
  "perform_deep_scan h dir profile =
     andthen (on_host (rescan h (case dp_serial profile of None \<Rightarrow> [] | Some s \<Rightarrow> s))) (\<lambda>found.
     case found of
       None \<Rightarrow> done_with None
     | Some refreshed \<Rightarrow> andthen (on_disk (record_rescan dir refreshed)) (\<lambda>device. done_with (Some device)))"

section \<open>Intake of a device\<close>

definition user_profile_facts :: "user_profile \<Rightarrow> jdict" where
  "user_profile_facts u =
     [(''persona'', JStr (user_persona_value (up_persona u))),
      (''technical_comfort'', JStr (technical_comfort_value (up_technical_comfort u))),
      (''primary_priority'', JStr (priority_focus_value (up_primary_priority u))),
      (''google_services_preference'', JStr (google_services_preference_value (up_google_services_preference u))),
      (''autonomy_limit'', JStr (autonomy_limit_value (up_autonomy_limit u))),
      (''risk_tolerance'', JStr (risk_tolerance_value (up_risk_tolerance u))),
      (''restore_expectation'', JStr (restore_expectation_value (up_restore_expectation u))),
      (''target_use_case'', JStr (use_case_category_value (up_target_use_case u))),
      (''intended_user'', JStr (up_intended_user u)),
      (''desired_end_product'', JStr (up_desired_end_product u)),
      (''success_criteria'', JStr (up_success_criteria u)),
      (''lawful_use_attested'', JBool (up_lawful_use_attested u))]"

definition os_goal_facts :: "os_goals \<Rightarrow> jdict" where
  "os_goal_facts g =
     [(''top_goal'', JStr (priority_focus_value (og_top_goal g))),
      (''secondary_goal'', JStr (priority_focus_value (og_secondary_goal g))),
      (''requires_reliable_updates'', JBool (og_requires_reliable_updates g)),
      (''prefers_long_battery_life'', JBool (og_prefers_long_battery_life g)),
      (''prefers_lockdown_defaults'', JBool (og_prefers_lockdown_defaults g))]"

definition device_payload :: "jdict \<Rightarrow> device_profile \<Rightarrow> jdict" where
  "device_payload device p =
     dmerge device
       [(''form_factor'', JStr (device_form_factor_value (dp_form_factor p))),
        (''form_factor_source'', JStr (dp_form_factor_source p)),
        (''form_factor_confidence'', JFloat (dp_form_factor_confidence p)),
        (''form_factor_override'', jopt (\<lambda>f. JStr (device_form_factor_value f)) (dp_form_factor_override p))]"

definition move :: "string \<Rightarrow> string \<Rightarrow> session_state_name \<Rightarrow> string \<Rightarrow> unit work" where
  "move now dir target reason = on_disk (safe_transition now dir target reason)"

definition note_down :: "string \<Rightarrow> string \<Rightarrow> jdict \<Rightarrow> session_state work" where
  "note_down now dir result = on_disk (annotate now dir (dstr result ''summary'' []))"

text \<open>The transition to \<open>BLOCKED\<close> is made on the state that was read, which the annotations left alone.\<close>

definition block_session :: "string \<Rightarrow> string \<Rightarrow> jdict \<Rightarrow> session_state \<Rightarrow> unit work" where
  "block_session now dir assessment current =
     (if is_transition_allowed (ss_state current) BLOCKED
      then andthen (on_disk (transition now dir BLOCKED (dstr assessment ''summary'' []))) (\<lambda>_. done_with ())
      else done_with ())"

definition adopt_strategy :: "string \<Rightarrow> string \<Rightarrow> jdict \<Rightarrow> jdict \<Rightarrow> user_profile \<Rightarrow> os_goals \<Rightarrow> unit work" where
  "adopt_strategy now dir device assessment user goals =
     andthen (pure_step (select_strategy
       [(''assessment'', JObj assessment), (''device'', JObj device), (''user_profile'', JObj (user_profile_facts user)),
        (''os_goals'', JObj (os_goal_facts goals))])) (\<lambda>strategy.
     andthen (from_disk (\<lambda>dk. load_session_state now dk dir)) (\<lambda>st.
     andthen (pure_step (as_enum support_statuss support_status_value (dget0 assessment ''support_status''))) (\<lambda>support.
     andthen (to_disk (write_session_state now dir
       (st\<lparr>ss_selected_strategy := Some (dstr strategy ''strategy_id'' []), ss_support_status := support\<rparr>))) (\<lambda>_.
     move now dir PATH_SELECT (''Selected strategy '' @ dstr strategy ''strategy_id'' [])))))"

definition assess_session :: "host \<Rightarrow> string \<Rightarrow> string \<Rightarrow> jdict \<Rightarrow> (jdict \<times> jdict) work" where
  "assess_session h now dir device =
     andthen (move now dir ASSESS ''Device assessment started'') (\<lambda>_.
     andthen (pure_step (assess [(''device'', JObj device), (''session_dir'', JStr dir)])) (\<lambda>assessment.
     andthen (note_down now dir assessment) (\<lambda>_.
     andthen (on_host (engage h device)) (\<lambda>engagement.
     andthen (note_down now dir engagement) (\<lambda>_.
     done_with (assessment, engagement))))))"

definition choose_path :: "string \<Rightarrow> string \<Rightarrow> jdict \<Rightarrow> jdict \<Rightarrow> unit work" where
  "choose_path now dir device assessment =
     andthen (move now dir MATCH_MASTER ''Matching master framework and prior knowledge'') (\<lambda>_.
     andthen (on_disk (load_user_profile now dir)) (\<lambda>user.
     andthen (on_disk (load_os_goals now dir)) (\<lambda>goals.
     andthen (move now dir BACKUP_PLAN ''Entering safety-first backup and restore planning'') (\<lambda>_.
     andthen (from_disk (\<lambda>dk. load_session_state now dk dir)) (\<lambda>current.
     if dget0 assessment ''support_status'' = JStr ''blocked'' then block_session now dir assessment current
     else adopt_strategy now dir device assessment user goals)))))"

definition intake_session :: "host \<Rightarrow> string \<Rightarrow> jdict \<Rightarrow> string \<Rightarrow> (jdict \<times> jdict \<times> jdict) work" where
  "intake_session h now device dir =
     andthen (move now dir DEVICE_ATTACHED ''Device attachment event received'') (\<lambda>_.
     andthen (move now dir DISCOVER ''Runtime discovery started'') (\<lambda>_.
     andthen (move now dir PROFILE_SYNTHESIS ''Device profile synthesis started'') (\<lambda>_.
     andthen (from_disk (\<lambda>dk. load_device_profile dk dir)) (\<lambda>profile.
     let payload = device_payload device profile in
     andthen (assess_session h now dir payload) (\<lambda>(assessment, engagement).
     andthen (choose_path now dir payload assessment) (\<lambda>_.
     done_with (payload, assessment, engagement)))))))"

text \<open>
  An event either wakes the session that waits for its device, or creates or resumes the session
  of the device and takes it in; \<open>Inl\<close> of the result is the waiting session, \<open>Inr\<close> what the
  runtime cycle goes on with.
\<close>

definition attach_device ::
    "(string \<Rightarrow> string) \<Rightarrow> host \<Rightarrow> string \<Rightarrow> string \<Rightarrow> jdict \<Rightarrow> (string + string \<times> jdict \<times> jdict \<times> jdict) work" where
  "attach_device sha256 h now date_part event =
     andthen (pure_step (probe_device event)) (\<lambda>device.
     andthen (from_disk (\<lambda>dk. find_waiting_session dk (py_str (jor (dget0 device ''serial'') (JStr []))))) (\<lambda>waiting.
     case waiting of
       Some dir \<Rightarrow> andthen (on_disk (update_waiting_session now device dir)) (\<lambda>_. done_with (Inl dir))
     | None \<Rightarrow>
         andthen (on_disk (create_or_resume sha256 now date_part device)) (\<lambda>dir.
         andthen (intake_session h now device dir) (\<lambda>r. done_with (Inr (dir, r))))))"

section \<open>Remediation results\<close>

text \<open>
  \<open>value not in {None, ""}\<close> asks for the hash of the value, which a list or a dictionary has not.
\<close>

definition profile_key :: "string \<Rightarrow> bool" where
  "profile_key key \<longleftrightarrow> key \<in> set
     ([''session_id'', ''canonical_name'', ''device_codename'', ''fingerprint'', ''transport'', ''form_factor'',
       ''form_factor_source'', ''form_factor_confidence'', ''form_factor_override'', ''raw_probe_data''] @ refreshed_keys)"

text \<open>
  The inferred fields are overwritten by the inference that follows. An override must be a form
  factor, which no JSON value is.
\<close>

definition apply_profile_update :: "string \<Rightarrow> json \<Rightarrow> device_profile \<Rightarrow> device_profile res" where
  "apply_profile_update key v p =
     (if \<not> profile_key key then Inr p
      else if \<not> hashable v then Inl (TypeError ''unhashable type'')
      else if v = JNull \<or> v = JStr [] then Inr p
      else if key = ''transport''
      then bindr (as_enum transports transport_value v) (\<lambda>t. Inr (p\<lparr>dp_transport := t\<rparr>))
      else if key = ''form_factor_override'' then Inl (TypeError ''form_factor_override'')
      else if key = ''device_codename'' then bindr (as_str v) (\<lambda>s. Inr (p\<lparr>dp_device_codename := s\<rparr>))
      else if key = ''session_id'' then bindr (as_str v) (\<lambda>s. Inr (p\<lparr>dp_session_id := s\<rparr>))
      else if key = ''canonical_name'' then bindr (as_str v) (\<lambda>s. Inr (p\<lparr>dp_canonical_name := s\<rparr>))
      else if key = ''fingerprint'' then bindr (as_str v) (\<lambda>s. Inr (p\<lparr>dp_fingerprint := s\<rparr>))
      else if key = ''raw_probe_data'' then bindr (as_dict v) (\<lambda>d. Inr (p\<lparr>dp_raw_probe_data := d\<rparr>))
      else set_profile_field key v p)"

fun apply_profile_updates :: "jdict \<Rightarrow> device_profile \<Rightarrow> device_profile res" where
  "apply_profile_updates [] p = Inr p"
| "apply_profile_updates ((key, v) # updates) p = bindr (apply_profile_update key v p) (apply_profile_updates updates)"

text \<open>The dictionaries of the caller are returned updated.\<close>

definition apply_inspection_updates ::
    "string \<Rightarrow> string \<Rightarrow> jdict \<Rightarrow> jdict \<Rightarrow> jdict \<Rightarrow> disk \<Rightarrow> (jdict \<times> jdict) res \<times> disk" where
  "apply_inspection_updates now dir inspection assessment engagement dk =
     (let merged = bindr (if truthy (dget0 inspection ''engagement_updates'')
              then bindr (as_dict (dget0 inspection ''engagement_updates'')) (\<lambda>d. Inr (dmerge engagement d)) else Inr engagement)
            (\<lambda>engagement'. bindr (if truthy (dget0 inspection ''assessment_updates'')
              then bindr (as_dict (dget0 inspection ''assessment_updates'')) (\<lambda>d. Inr (dmerge assessment d)) else Inr assessment)
            (\<lambda>assessment'. Inr (assessment', engagement'))) in
      if \<not> truthy (dget inspection ''profile_updates'' (JObj [])) then (merged, dk)
      else case bindr (load_device_profile dk dir) (\<lambda>p.
                bindr (as_dict (dget0 inspection ''profile_updates'')) (\<lambda>updates. apply_profile_updates updates p)) of
             Inl err \<Rightarrow> (Inl err, dk)
           | Inr p \<Rightarrow>
               (case annotate now dir (dstr inspection ''summary'' ''Remediation artifact updated the device profile.'')
                   (write_device_profile dir (apply_form_factor_inference p (dp_raw_probe_data p)) dk) of
                  (Inl err, dk') \<Rightarrow> (Inl err, dk')
                | (Inr st, dk') \<Rightarrow> (merged, dk')))"

section \<open>The state of a session\<close>

definition in_state :: "string \<Rightarrow> session_state_name \<Rightarrow> disk \<Rightarrow> bool" where
  "in_state dir s dk \<longleftrightarrow> (\<forall>n. \<exists>st. load_session_state n dk dir = Inr st \<and> ss_state st = s)"

text \<open>Moving to each of a list of states where that is allowed.\<close>

definition walk :: "session_state_name \<Rightarrow> session_state_name list \<Rightarrow> session_state_name" where
  "walk = foldl (\<lambda>s t. if is_transition_allowed s t then t else s)"

lemma walk_simps [simp]:
  "walk s [] = s"
  "walk s (t # ts) = walk (if is_transition_allowed s t then t else s) ts"
  "walk s (ts @ us) = walk (walk s ts) us"
  by (simp_all add: walk_def)

lemma in_state_written [simp]: "in_state dir s (write_session_state now dir st dk) \<longleftrightarrow> ss_state st = s"
  by (simp add: in_state_def)

lemma in_state_cong:
  "dk_read dk' (sub dir ''session-state.json'') = dk_read dk (sub dir ''session-state.json'') \<Longrightarrow> in_state dir s dk \<Longrightarrow> in_state dir s dk'"
  by (simp add: in_state_def load_session_state_def load_doc_def)

lemma in_stateE:
  assumes "in_state dir s dk"
  obtains st where "load_session_state n dk dir = Inr st" "ss_state st = s"
  using assms by (auto simp: in_state_def)

lemma safe_transition_walks:
  assumes s: "in_state dir s dk"
  shows "in_state dir (walk s [t]) (snd (safe_transition now dir t r dk))"
proof -
  obtain st where st: "load_session_state now dk dir = Inr st" "ss_state st = s" by (rule in_stateE [OF s])
  show ?thesis
  proof (cases "is_transition_allowed s t")
    case True
    then show ?thesis using st by (simp add: safe_transition_def transition_def Let_def push_transition_def)
  next
    case False
    then show ?thesis using st s by (simp add: safe_transition_def)
  qed
qed

lemma annotate_stays: "in_state dir s dk \<Longrightarrow> in_state dir s (snd (annotate now dir note dk))"
  by (erule in_stateE [where n = now]) (auto simp: annotate_def Let_def)

text \<open>What an operation, when it returns, makes of the state of a session.\<close>

definition walks :: "string \<Rightarrow> 'a work \<Rightarrow> session_state_name list \<Rightarrow> bool" where
  "walks dir m ts \<longleftrightarrow> (\<forall>s tr dk x tr' dk'. in_state dir s dk \<longrightarrow> m (tr, dk) = (Inr x, tr', dk') \<longrightarrow> in_state dir (walk s ts) dk')"

lemma walksD: "walks dir m ts \<Longrightarrow> in_state dir s dk \<Longrightarrow> m (tr, dk) = (Inr x, tr', dk') \<Longrightarrow> in_state dir (walk s ts) dk'"
  by (simp add: walks_def)

lemma walks_disk:
  assumes "\<And>s dk. in_state dir s dk \<Longrightarrow> in_state dir (walk s ts) (snd (f dk))"
  shows "walks dir (on_disk f) ts"
  using assms by (auto simp: walks_def on_disk_def)

lemma walks_move: "walks dir (move now dir t r) [t]"
  unfolding move_def by (rule walks_disk) (rule safe_transition_walks)

lemma walks_note: "walks dir (note_down now dir result) []"
  unfolding note_down_def by (rule walks_disk) (use annotate_stays in simp)

lemma walks_pure: "walks dir (pure_step r) []" "walks dir (on_host p) []" "walks dir (from_disk f) []" "walks dir (done_with x) []"
  by (simp_all add: walks_def pure_step_def on_host_def from_disk_def done_with_def)

lemma walks_then: "walks dir m ts \<Longrightarrow> (\<And>x. walks dir (f x) us) \<Longrightarrow> walks dir (andthen m f) (ts @ us)"
  unfolding walks_def andthen_def by (fastforce split: prod.splits sum.splits)

lemma walks_then0: "walks dir m [] \<Longrightarrow> (\<And>x. walks dir (f x) us) \<Longrightarrow> walks dir (andthen m f) us"
  using walks_then [of dir m "[]" f us] by simp

lemma walks_then1: "walks dir m [t] \<Longrightarrow> (\<And>x. walks dir (f x) us) \<Longrightarrow> walks dir (andthen m f) (t # us)"
  using walks_then [of dir m "[t]" f us] by simp

lemma walks_user: "walks dir (on_disk (load_user_profile now dir)) []"
  by (auto simp: walks_def on_disk_def load_user_profile_def write_user_profile_def Let_def fread_fwrite elim!: in_state_cong [rotated])

lemma walks_goals: "walks dir (on_disk (load_os_goals now dir)) []"
  by (auto simp: walks_def on_disk_def load_os_goals_def write_os_goals_def Let_def fread_fwrite elim!: in_state_cong [rotated])

lemma walks_load:
  assumes "\<And>st tr dk x tr' dk'. in_state dir (ss_state st) dk \<Longrightarrow> f st (tr, dk) = (Inr x, tr', dk')
    \<Longrightarrow> in_state dir (walk (ss_state st) us) dk'"
  shows "walks dir (andthen (from_disk (\<lambda>dk. load_session_state now dk dir)) f) us"
  unfolding walks_def
proof (intro allI impI)
  fix s tr dk x tr' dk'
  assume s: "in_state dir s dk"
    and run: "andthen (from_disk (\<lambda>dk. load_session_state now dk dir)) f (tr, dk) = (Inr x, tr', dk')"
  obtain st where "load_session_state now dk dir = Inr st" "ss_state st = s" by (rule in_stateE [OF s])
  with run s assms show "in_state dir (walk s us) dk'" by (auto simp: andthen_def from_disk_def)
qed

lemma block_session_walks:
  assumes "in_state dir (ss_state st) dk" "block_session now dir a st (tr, dk) = (Inr x, tr', dk')"
  shows "in_state dir (walk (ss_state st) [BLOCKED]) dk'"
proof -
  obtain st' where "load_session_state now dk dir = Inr st'" "ss_state st' = ss_state st" by (rule in_stateE [OF assms(1)])
  with assms show ?thesis
    by (auto simp: block_session_def andthen_def on_disk_def done_with_def transition_def Let_def push_transition_def split: if_splits)
qed

lemma walks_adopt: "walks dir (adopt_strategy now dir device a u g) [PATH_SELECT]"
proof -
  have stored: "in_state dir (walk (ss_state st) [PATH_SELECT]) dk'"
    if run: "andthen (pure_step r) (\<lambda>y. andthen (to_disk (write_session_state now dir
          (st\<lparr>ss_selected_strategy := q, ss_support_status := y\<rparr>))) (\<lambda>_. move now dir PATH_SELECT t)) (tr, dk) = (Inr x, tr', dk')"
    for r st q t tr dk x tr' dk'
  proof -
    obtain y where "r = Inr y" using run by (auto simp: andthen_def pure_step_def split: sum.splits)
    with run have "move now dir PATH_SELECT t (tr, write_session_state now dir (st\<lparr>ss_selected_strategy := q, ss_support_status := y\<rparr>) dk)
        = (Inr x, tr', dk')" by (simp add: andthen_def pure_step_def to_disk_def)
    from walksD [OF walks_move _ this] show ?thesis by simp
  qed
  show ?thesis unfolding adopt_strategy_def by (intro walks_then0 walks_pure walks_load) (rule stored)
qed

lemma walks_choose:
  "walks dir (choose_path now dir device a)
     [MATCH_MASTER, BACKUP_PLAN, if dget0 a ''support_status'' = JStr ''blocked'' then BLOCKED else PATH_SELECT]"
proof -
  have "in_state dir (walk (ss_state st) [if b then BLOCKED else PATH_SELECT]) dk'"
    if "in_state dir (ss_state st) dk"
      "(if b then block_session now dir a st else adopt_strategy now dir device a u g) (tr, dk) = (Inr x, tr', dk')"
    for b st dk u g tr x tr' dk'
    using that(2) block_session_walks [OF that(1)] walksD [OF walks_adopt that(1)] by (cases b) (simp_all only: if_True if_False)
  then show ?thesis unfolding choose_path_def
    by (intro walks_then1 [OF walks_move] walks_then0 [OF walks_user] walks_then0 [OF walks_goals] walks_load)
qed

lemma walks_assess: "walks dir (assess_session h now dir device) [ASSESS]"
  unfolding assess_session_def
  by (intro walks_then1 [OF walks_move] walks_then0 [OF walks_pure(1)] walks_then0 [OF walks_note] walks_then0 [OF walks_pure(2)]
      walks_pure(4))

definition intake_targets :: "session_state_name list" where
  "intake_targets = [DEVICE_ATTACHED, DISCOVER, PROFILE_SYNTHESIS, ASSESS, MATCH_MASTER, BACKUP_PLAN]"

lemma intake_steps:
  assumes "intake_session h now device dir (tr, dk) = (Inr (payload, assessment, engagement), tr', dk')"
  obtains tr1 dk1 profile tr2 dk2 u where
    "andthen (move now dir DEVICE_ATTACHED ''Device attachment event received'') (\<lambda>_.
     andthen (move now dir DISCOVER ''Runtime discovery started'') (\<lambda>_.
     move now dir PROFILE_SYNTHESIS ''Device profile synthesis started'')) (tr, dk) = (Inr (), tr1, dk1)"
    "payload = device_payload device profile"
    "assess_session h now dir payload (tr1, dk1) = (Inr (assessment, engagement), tr2, dk2)"
    "choose_path now dir payload assessment (tr2, dk2) = (Inr u, tr', dk')"
  using assms by (auto simp: intake_session_def Let_def andthen_def from_disk_def done_with_def split: prod.splits sum.splits)

lemma intake_walks:
  assumes "in_state dir s dk" and "intake_session h now device dir (tr, dk) = (Inr (payload, assessment, engagement), tr', dk')"
  shows "in_state dir (walk s (intake_targets @ [if dget0 assessment ''support_status'' = JStr ''blocked'' then BLOCKED else PATH_SELECT])) dk'"
proof -
  obtain tr1 dk1 profile tr2 dk2 u where
    one: "andthen (move now dir DEVICE_ATTACHED ''Device attachment event received'') (\<lambda>_.
     andthen (move now dir DISCOVER ''Runtime discovery started'') (\<lambda>_.
     move now dir PROFILE_SYNTHESIS ''Device profile synthesis started'')) (tr, dk) = (Inr (), tr1, dk1)"
    and two: "assess_session h now dir payload (tr1, dk1) = (Inr (assessment, engagement), tr2, dk2)"
    and three: "choose_path now dir payload assessment (tr2, dk2) = (Inr u, tr', dk')"
    by (rule intake_steps [OF assms(2)])
  have "walks dir (andthen (move now dir DEVICE_ATTACHED ''Device attachment event received'') (\<lambda>_.
     andthen (move now dir DISCOVER ''Runtime discovery started'') (\<lambda>_.
     move now dir PROFILE_SYNTHESIS ''Device profile synthesis started''))) [DEVICE_ATTACHED, DISCOVER, PROFILE_SYNTHESIS]"
    by (intro walks_then1 [OF walks_move] walks_move)
  from walksD [OF walks_choose walksD [OF walks_assess walksD [OF this assms(1) one] two] three] show ?thesis
    by (simp only: intake_targets_def walk_simps append.simps)
qed

section \<open>Where an attached device is led\<close>

text \<open>The states from which the intake starts the session over.\<close>

definition early_states :: "session_state_name list" where
  "early_states = [IDLE, DEVICE_ATTACHED, INTAKE, DISCOVER, DEEP_SCAN, ASSESS, PROFILE_SYNTHESIS, MATCH_MASTER, RECOMMEND,
     BACKUP_PLAN, BASELINE_CAPTURE, PATH_SELECT, ITERATE, RESTORE, BLOCKED]"

lemma intake_walk: "walk s (intake_targets @ [PATH_SELECT]) = (if s \<in> set early_states then PATH_SELECT else s)"
  by (cases s) (simp_all add: intake_targets_def early_states_def is_transition_allowed_def)

text \<open>
  Where an attached device is led. An intake that finds the device assessable takes a session that
  has not committed itself yet to the selection of its path, and leaves every other session in the
  state it is in: a session that waits for an answer, remediates, builds, previews or flashes is not
  taken back.
\<close>

theorem intake_selects_a_path:
  assumes "in_state dir s dk" and "intake_session h now device dir (tr, dk) = (Inr (payload, assessment, engagement), tr', dk')"
    and "dget0 assessment ''support_status'' \<noteq> JStr ''blocked''"
  shows "in_state dir (if s \<in> set early_states then PATH_SELECT else s) dk'"
  using intake_walks [OF assms(1,2)] assms(3) intake_walk [of s] by simp

lemma andthen_done: "m st = (Inr x, st') \<Longrightarrow> andthen m f st = f x st'"
  by (simp add: andthen_def)

text \<open>A session whose documents can be read.\<close>

definition readable :: "string \<Rightarrow> string \<Rightarrow> device_profile \<Rightarrow> user_profile \<Rightarrow> os_goals \<Rightarrow> disk \<Rightarrow> bool" where
  "readable now dir p u g dk \<longleftrightarrow> load_device_profile dk dir = Inr p
     \<and> fexists (dk_files dk) (sub dir ''user-profile.json'')
     \<and> load_doc (user_profile_from_dict now) (dk_files dk) (sub dir ''user-profile.json'') = Inr u
     \<and> fexists (dk_files dk) (sub dir ''os-goals.json'')
     \<and> load_doc (os_goals_from_dict now) (dk_files dk) (sub dir ''os-goals.json'') = Inr g"

lemma readable_state [simp]: "readable now dir p u g (write_session_state n dir st dk) = readable now dir p u g dk"
  by (simp add: readable_def write_session_state_def load_device_profile_def load_doc_def fread_atomic_write tmp_path_def fexists_def)

lemma readable_loads:
  assumes "readable now dir p u g dk"
  shows "load_user_profile now dir dk = (Inr u, dk)" "load_os_goals now dir dk = (Inr g, dk)"
  using assms by (simp_all add: readable_def load_user_profile_def load_os_goals_def dk_exists_def)

lemma move_returns:
  assumes "in_state dir s dk" "readable now' dir p u g dk"
  obtains dk' where "move now dir t r (tr, dk) = (Inr (), tr, dk')" "in_state dir (walk s [t]) dk'" "readable now' dir p u g dk'"
proof -
  obtain st where "load_session_state now dk dir = Inr st" "ss_state st = s" by (rule in_stateE [OF assms(1)])
  with assms show thesis
    by (intro that [of "snd (safe_transition now dir t r dk)"] safe_transition_walks)
      (simp_all add: move_def on_disk_def safe_transition_def transition_def Let_def)
qed

lemma note_returns:
  assumes "in_state dir s dk" "readable now' dir p u g dk"
  obtains st dk' where "note_down now dir d (tr, dk) = (Inr st, tr, dk')" "in_state dir s dk'" "readable now' dir p u g dk'"
proof -
  obtain st where "load_session_state now dk dir = Inr st" "ss_state st = s" by (rule in_stateE [OF assms(1)])
  with assms show thesis
    by (intro that [of _ "snd (annotate now dir (dstr d ''summary'' []) dk)"] annotate_stays)
      (simp_all add: note_down_def on_disk_def annotate_def Let_def)
qed

lemma assess_shape:
  assumes "assess payload = Inr a"
  shows "\<exists>s q f r. s \<in> set [SUP_RESEARCH_ONLY, SUP_BLOCKED, SUP_ACTIONABLE] \<and> a = assessment_json (support_status_value s) q f r"
proof -
  have pick: "\<exists>s q f r. s \<in> set [SUP_RESEARCH_ONLY, SUP_BLOCKED, SUP_ACTIONABLE] \<and> x = assessment_json (support_status_value s) q f r"
    if "x = (if b1 then assessment_json ''research_only'' q1 f1 r1 else if b2 then assessment_json ''blocked'' q2 f2 r2
      else if b3 then assessment_json ''research_only'' q3 f3 r3 else assessment_json ''actionable'' q4 f4 r4)"
    for x b1 b2 b3 q1 q2 q3 q4 f1 f2 f3 f4 r1 r2 r3 r4
    using that by (cases b1; cases b2; cases b3) force+
  from assms obtain device evidence where "Inr a = (Inr (if dstr device ''transport'' ''unknown'' = ''usb-mtp'' then
            assessment_json ''research_only'' ''USB phone detected in MTP/media mode. ForgeOS can engage autonomously only after adb, fastboot, or recovery transport becomes available.'' False ''transport_engagement''
          else if blocked_reasons (dstr device ''transport'' ''unknown'') (dget0 device ''serial'') \<noteq> [] then
            assessment_json ''blocked'' (join ''; '' (blocked_reasons (dstr device ''transport'' ''unknown'') (dget0 device ''serial''))) False ''research_only''
          else if evidence = JBool True then
            assessment_json ''research_only'' ''Device detected with a locked bootloader. Non-destructive planning continues; unlock and flash paths are gated until restore viability is confirmed.'' False ''research_only''
          else
            assessment_json ''actionable'' ''Assessment passed initial feasibility gates for non-destructive planning.'' True ''hardened_existing_os'') :: jdict res)"
    unfolding assess_def Let_def bindr_eq_Inr by metis
  from this [unfolded sum.inject] show ?thesis by (rule pick)
qed

lemma assess_support:
  assumes "assess payload = Inr a"
  shows "\<exists>s. as_enum support_statuss support_status_value (dget0 a ''support_status'') = Inr s"
proof -
  obtain s q f r where "s \<in> set [SUP_RESEARCH_ONLY, SUP_BLOCKED, SUP_ACTIONABLE]" "a = assessment_json (support_status_value s) q f r"
    using assess_shape [OF assms] by blast
  then show ?thesis by (auto simp: assessment_json_def as_enum_def as_str_def enum_of_def support_statuss_def)
qed

lemma strategy_selected:
  "\<exists>strategy. select_strategy
     [(''assessment'', JObj a), (''device'', JObj d), (''user_profile'', JObj u), (''os_goals'', JObj g)] = Inr strategy"
  by (simp add: select_strategy_def dict_req_def dict_arg_def dindex_def Let_def)

lemma adopt_returns:
  assumes "in_state dir s dk" "as_enum support_statuss support_status_value (dget0 a ''support_status'') = Inr status"
  shows "\<exists>tr' dk'. adopt_strategy now dir device a user goals (tr, dk) = (Inr (), tr', dk')"
proof -
  obtain strategy where "select_strategy [(''assessment'', JObj a), (''device'', JObj device),
     (''user_profile'', JObj (user_profile_facts user)), (''os_goals'', JObj (os_goal_facts goals))] = Inr strategy"
    using strategy_selected by blast
  moreover obtain st where "load_session_state now dk dir = Inr st" by (rule in_stateE [OF assms(1)])
  ultimately show ?thesis using assms(2)
    by (simp add: adopt_strategy_def andthen_def pure_step_def from_disk_def to_disk_def move_def on_disk_def
        safe_transition_def transition_def Let_def)
qed

lemma block_returns:
  assumes "in_state dir (ss_state st) dk"
  shows "\<exists>tr' dk'. block_session now dir a st (tr, dk) = (Inr (), tr', dk')"
proof -
  obtain st' where "load_session_state now dk dir = Inr st'" "ss_state st' = ss_state st" by (rule in_stateE [OF assms])
  then show ?thesis by (simp add: block_session_def andthen_def on_disk_def done_with_def transition_def Let_def)
qed

lemma choose_returns:
  assumes "in_state dir s dk" "readable now dir p u g dk"
    and "as_enum support_statuss support_status_value (dget0 a ''support_status'') = Inr status"
  shows "\<exists>tr' dk'. choose_path now dir device a (tr, dk) = (Inr (), tr', dk')"
proof -
  obtain dk1 where 1: "move now dir MATCH_MASTER ''Matching master framework and prior knowledge'' (tr, dk) = (Inr (), tr, dk1)"
    "in_state dir (walk s [MATCH_MASTER]) dk1" "readable now dir p u g dk1" by (rule move_returns [OF assms(1,2)])
  obtain dk2 where 2: "move now dir BACKUP_PLAN ''Entering safety-first backup and restore planning'' (tr, dk1) = (Inr (), tr, dk2)"
    "in_state dir (walk (walk s [MATCH_MASTER]) [BACKUP_PLAN]) dk2" "readable now dir p u g dk2" by (rule move_returns [OF 1(2,3)])
  obtain st where st: "load_session_state now dk2 dir = Inr st" "ss_state st = walk (walk s [MATCH_MASTER]) [BACKUP_PLAN]"
    by (rule in_stateE [OF 2(2)])
  have "choose_path now dir device a (tr, dk) =
    (if dget0 a ''support_status'' = JStr ''blocked'' then block_session now dir a st else adopt_strategy now dir device a u g) (tr, dk2)"
    using 1(1) 2(1) st(1) by (simp add: choose_path_def andthen_def on_disk_def readable_loads [OF 1(3)] from_disk_def)
  then show ?thesis using block_returns [of dir st dk2 now a tr] adopt_returns [OF 2(2) assms(3)] 2(2) st(2) by simp
qed

lemma assess_returns: "lock_evidence d = Inr b \<Longrightarrow> \<exists>a. assess [(''device'', JObj d), (''session_dir'', JStr dir)] = Inr a"
  by (simp add: assess_def dict_req_def dindex_def Let_def)

lemma assess_session_returns:
  assumes "in_state dir s dk" "readable now' dir p u g dk" "lock_evidence d = Inr b"
  obtains a e tr' dk' where "assess_session h now dir d (tr, dk) = (Inr (a, e), tr', dk')"
    "assess [(''device'', JObj d), (''session_dir'', JStr dir)] = Inr a"
    "in_state dir (walk s [ASSESS]) dk'" "readable now' dir p u g dk'"
proof -
  obtain dk1 where 1: "move now dir ASSESS ''Device assessment started'' (tr, dk) = (Inr (), tr, dk1)"
    "in_state dir (walk s [ASSESS]) dk1" "readable now' dir p u g dk1" by (rule move_returns [OF assms(1,2)])
  obtain a where a: "assess [(''device'', JObj d), (''session_dir'', JStr dir)] = Inr a" using assess_returns [OF assms(3)] by blast
  obtain st2 dk2 where 2: "note_down now dir a (tr, dk1) = (Inr st2, tr, dk2)" "in_state dir (walk s [ASSESS]) dk2"
    "readable now' dir p u g dk2" by (rule note_returns [OF 1(2,3)])
  obtain e tr3 where e: "engage h d tr = (e, tr3)" using prod.exhaust by blast
  obtain st4 dk4 where 4: "note_down now dir e (tr3, dk2) = (Inr st4, tr3, dk4)" "in_state dir (walk s [ASSESS]) dk4"
    "readable now' dir p u g dk4" by (rule note_returns [OF 2(2,3)])
  show thesis
    by (rule that [OF _ a 4(2,3)])
      (simp add: assess_session_def andthen_def 1(1) pure_step_def a 2(1) on_host_def e 4(1) done_with_def)
qed

lemma intake_returns:
  assumes "in_state dir s dk" "readable now dir p u g dk" "lock_evidence (device_payload device p) = Inr b"
  shows "\<exists>payload a e tr' dk'. intake_session h now device dir (tr, dk) = (Inr (payload, a, e), tr', dk')"
proof -
  obtain dk1 where 1: "move now dir DEVICE_ATTACHED ''Device attachment event received'' (tr, dk) = (Inr (), tr, dk1)"
    "in_state dir (walk s [DEVICE_ATTACHED]) dk1" "readable now dir p u g dk1" by (rule move_returns [OF assms(1,2)])
  obtain dk2 where 2: "move now dir DISCOVER ''Runtime discovery started'' (tr, dk1) = (Inr (), tr, dk2)"
    "in_state dir (walk (walk s [DEVICE_ATTACHED]) [DISCOVER]) dk2" "readable now dir p u g dk2" by (rule move_returns [OF 1(2,3)])
  obtain dk3 where 3: "move now dir PROFILE_SYNTHESIS ''Device profile synthesis started'' (tr, dk2) = (Inr (), tr, dk3)"
    "in_state dir (walk (walk (walk s [DEVICE_ATTACHED]) [DISCOVER]) [PROFILE_SYNTHESIS]) dk3" "readable now dir p u g dk3"
    by (rule move_returns [OF 2(2,3)])
  obtain a e tr4 dk4 where 4: "assess_session h now dir (device_payload device p) (tr, dk3) = (Inr (a, e), tr4, dk4)"
    "assess [(''device'', JObj (device_payload device p)), (''session_dir'', JStr dir)] = Inr a"
    "in_state dir (walk (walk (walk (walk s [DEVICE_ATTACHED]) [DISCOVER]) [PROFILE_SYNTHESIS]) [ASSESS]) dk4"
    "readable now dir p u g dk4" by (rule assess_session_returns [OF 3(2,3) assms(3)])
  obtain status where "as_enum support_statuss support_status_value (dget0 a ''support_status'') = Inr status"
    using assess_support [OF 4(2)] by blast
  then obtain tr5 dk5 where 5: "choose_path now dir (device_payload device p) a (tr4, dk4) = (Inr (), tr5, dk5)"
    using choose_returns [OF 4(3,4)] by blast
  have "load_device_profile dk3 dir = Inr p" using 3(3) by (simp add: readable_def)
  then show ?thesis
    by (simp add: intake_session_def Let_def andthen_def 1(1) 2(1) 3(1) from_disk_def 4(1) 5 done_with_def)
qed

lemma created_readable:
  "\<exists>u g. readable now dir (finish_profile pb (new_profile name fp t pb)) u g (create_session now name dir fp t pb dk)"
proof -
  let ?dk = "create_session now name dir fp t pb dk"
  have "\<exists>u. fexists (dk_files ?dk) (sub dir ''user-profile.json'')
      \<and> load_doc (user_profile_from_dict now) (dk_files ?dk) (sub dir ''user-profile.json'') = Inr u"
    by (simp add: create_session_def write_user_profile_def write_os_goals_def write_destructive_approval_def fexists_def fread_fwrite load_doc_def fread_atomic_write tmp_path_def)
  moreover have "\<exists>g. fexists (dk_files ?dk) (sub dir ''os-goals.json'')
      \<and> load_doc (os_goals_from_dict now) (dk_files ?dk) (sub dir ''os-goals.json'') = Inr g"
    by (simp add: create_session_def write_os_goals_def write_destructive_approval_def fexists_def fread_fwrite load_doc_def fread_atomic_write tmp_path_def)
  ultimately show ?thesis by (auto simp: readable_def new_session_documents)
qed


definition demo_event :: jdict where
  "demo_event = [(''transport'', JStr ''usb-adb''), (''serial'', JStr ''R52'')]"

definition demo_created :: disk where
  "demo_created = create_session ''t'' ''d'' ''devices/d'' demo_fingerprint T_USB_ADB demo_probe \<lparr>dk_files = [], dk_dirs = []\<rparr>"

lemma demo_lock: "\<exists>b. lock_evidence (device_payload demo_event p) = Inr b"
  by (simp add: demo_event_def lock_evidence_def device_payload_def dmerge_def dset_def dict_or_def)


lemma assess_unblocked:
  assumes "assess [(''device'', JObj d), x] = Inr a" "blocked_reasons (dstr d ''transport'' ''unknown'') (dget0 d ''serial'') = []"
  shows "dget0 a ''support_status'' \<noteq> JStr ''blocked''"
  using assms by (auto simp: assess_def dict_req_def dindex_def Let_def bindr_eq_Inr assessment_json_def split: if_splits)

theorem intake_selects_a_path_witness:
  "\<exists>payload a e tr' dk'. intake_session demo_host ''t'' demo_event ''devices/d'' ([], demo_created) = (Inr (payload, a, e), tr', dk')
    \<and> in_state ''devices/d'' PATH_SELECT dk'"
proof -
  obtain p where p: "p = finish_profile demo_probe (new_profile ''d'' demo_fingerprint T_USB_ADB demo_probe)" by blast
  obtain b where b: "lock_evidence (device_payload demo_event p) = Inr b" using demo_lock by blast
  obtain u g where r: "readable ''t'' ''devices/d'' p u g demo_created" unfolding demo_created_def p using created_readable by blast
  have s: "in_state ''devices/d'' DEVICE_ATTACHED demo_created"
    using new_session_documents by (simp add: in_state_def new_session_state_def demo_created_def)
  obtain payload a e tr' dk' where run: "intake_session demo_host ''t'' demo_event ''devices/d'' ([], demo_created) = (Inr (payload, a, e), tr', dk')"
    using intake_returns [OF s r b] by blast
  then obtain profile tr1 dk1 tr2 dk2 where "payload = device_payload demo_event profile"
    "assess_session demo_host ''t'' ''devices/d'' payload (tr1, dk1) = (Inr (a, e), tr2, dk2)" by (rule intake_steps)
  then have "assess [(''device'', JObj (device_payload demo_event profile)), (''session_dir'', JStr ''devices/d'')] = Inr a"
    by (auto simp: assess_session_def andthen_def pure_step_def done_with_def on_host_def split: prod.splits sum.splits)
  then have "dget0 a ''support_status'' \<noteq> JStr ''blocked''"
    by (rule assess_unblocked) (simp add: device_payload_def demo_event_def dmerge_def dset_def dstr_def py_str_def blocked_reasons_def)
  from intake_selects_a_path [OF s run this] run show ?thesis by (auto simp: early_states_def)
qed

section \<open>What a refresh forgets\<close>

lemma fields_keep_manufacturer:
  "\<lbrakk>refresh_fields keys device p = Inr p'; ''manufacturer'' \<notin> set keys\<rbrakk> \<Longrightarrow> dp_manufacturer p' = dp_manufacturer p"
  by (induction keys arbitrary: p) (auto simp: Let_def bindr_eq_Inr set_profile_field_def split: if_splits)

lemma transport_keeps_manufacturer: "refresh_transport device p = Inr p' \<Longrightarrow> dp_manufacturer p' = dp_manufacturer p"
  by (auto simp: refresh_transport_def bindr_eq_Inr split: if_splits)

lemma evidence_keeps_manufacturer: "dp_manufacturer (refresh_evidence device p) = dp_manufacturer p"
  by (simp add: refresh_evidence_def apply_form_factor_inference_def split: option.split prod.split)

text \<open>
  A refresh does not keep what is known. The update of a waiting session skips the fields the
  device does not tell, but the probe has filled them in before: after an event without a
  manufacturer the profile's manufacturer is \<open>unknown\<close>, whatever it was.
\<close>

theorem refresh_forgets_the_manufacturer:
  assumes "probe_device event = Inr device" and "refresh_profile device p = Inr p'"
    and "\<not> truthy (dget0 event ''manufacturer'')"
  shows "dp_manufacturer p' = Some ''unknown''"
proof -
  have m: "dget0 device ''manufacturer'' = JStr ''unknown''"
    using assms(1,3) by (auto simp: probe_device_def bindr_eq_Inr)
  obtain p1 p2 where p1: "refresh_fields refreshed_keys device p = Inr p1" and p2: "refresh_transport device p1 = Inr p2"
    and p': "p' = refresh_evidence device p2" using assms(2) by (auto simp: refresh_profile_def bindr_eq_Inr)
  have "refresh_fields (tl refreshed_keys) device (p\<lparr>dp_manufacturer := Some ''unknown''\<rparr>) = Inr p1"
    using p1 by (simp add: refreshed_keys_def m set_profile_field_def as_str_def)
  from fields_keep_manufacturer [OF this] have "dp_manufacturer p1 = Some ''unknown''" by (simp add: refreshed_keys_def)
  then show ?thesis using transport_keeps_manufacturer [OF p2] by (simp add: p' evidence_keeps_manufacturer)
qed

theorem refresh_forgets_the_manufacturer_witness:
  "\<exists>device p'. probe_device demo_event = Inr device
     \<and> refresh_profile device (new_profile ''d'' demo_fingerprint T_USB_ADB demo_probe) = Inr p'
     \<and> dp_manufacturer (new_profile ''d'' demo_fingerprint T_USB_ADB demo_probe) = Some ''samsung''
     \<and> dp_manufacturer p' = Some ''unknown''"
proof -
  let ?device = "[(''manufacturer'', JStr ''unknown''), (''model'', JStr ''unknown''), (''serial'', JStr ''R52''),
     (''android_version'', JNull), (''bootloader_locked'', JNull), (''verified_boot_state'', JNull), (''slot_info'', JObj []),
     (''battery'', JObj []), (''transport'', JStr ''usb-adb''), (''reachability'', JStr ''detected''), (''vendor_id'', JNull),
     (''product_id'', JNull), (''raw_event'', JObj demo_event)]"
  let ?p = "new_profile ''d'' demo_fingerprint T_USB_ADB demo_probe"
  have d: "probe_device demo_event = Inr ?device"
    by (simp add: probe_device_def demo_event_def as_enum_def as_str_def enum_of_def transports_def)
  obtain p' where r: "refresh_profile ?device ?p = Inr p'"
    by (auto simp: refresh_profile_def refreshed_keys_def set_profile_field_def as_str_def refresh_transport_def as_enum_def
        enum_of_def transports_def)
  have "\<not> truthy (dget0 demo_event ''manufacturer'')" by (simp add: demo_event_def)
  from refresh_forgets_the_manufacturer [OF d r this] d r show ?thesis
    by (simp add: new_profile_def demo_probe_def)
qed

end
