(* ===== verification/Research_Worker.thy ===== *)
theory Research_Worker
  imports Runtime_Workers
begin

text \<open>
  \<open>app/workers/research_worker.py\<close>: the facts of the session backup, the questions put to the local
  model runners, the JSON object found in an answer, and the document written for each topic. The
  programs run on the \<open>host\<close>; \<open>json.loads\<close>, the text of its error and \<open>float\<close> of a text are
  parameters. An object text parses to a dictionary or not at all. The working directory of the
  runner is not part of the model.
\<close>

record researcher =
  rs_host :: host
  rs_env :: env
  rs_router :: model_router
  rs_loads :: "string \<Rightarrow> json option"
  rs_json_error :: "string \<Rightarrow> string"
  rs_float :: "string \<Rightarrow> rat option"

section \<open>The backup of the device\<close>

text \<open>
  \<open>re.match(r"\[(.+?)\]:\s*\[(.*)?\]", line)\<close>: the shortest key behind which a value follows, and
  the longest such value.
\<close>

definition prop_value :: "string \<Rightarrow> string option" where
  "prop_value s =
     (case lstrip s of
        [] \<Rightarrow> None
      | c # t \<Rightarrow> if c = CHR ''['' \<and> CHR '']'' \<in> set t
                then Some (rev (tl (dropWhile (\<lambda>x. x \<noteq> CHR '']'') (rev t)))) else None)"

fun prop_from :: "string \<Rightarrow> string \<Rightarrow> (string \<times> string) option" where
  "prop_from k [] = None"
| "prop_from k (c # s) =
     (case (if k \<noteq> [] \<and> c = CHR '']'' \<and> s \<noteq> [] \<and> hd s = CHR '':'' then prop_value (tl s) else None) of
        Some v \<Rightarrow> Some (k, v)
      | None \<Rightarrow> prop_from (k @ [c]) s)"

definition prop_line :: "string \<Rightarrow> (string \<times> string) option" where
  "prop_line line = (case line of c # s \<Rightarrow> if c = CHR ''['' then prop_from [] s else None | [] \<Rightarrow> None)"

definition parse_getprop :: "string \<Rightarrow> (string \<times> string) list" where
  "parse_getprop out = foldl (\<lambda>m (k, v). AList.update k v m) [] (List.map_filter prop_line (splitlines out))"

definition parse_packages :: "string \<Rightarrow> string list" where
  "parse_packages out =
     map (\<lambda>l. strip (drop (length ''package:'') l)) (filter (\<lambda>l. starts_with l ''package:'') (splitlines out))"

definition android_prop :: "(string \<times> string) list \<Rightarrow> string \<Rightarrow> string" where
  "android_prop m k = (case map_of m k of None \<Rightarrow> [] | Some v \<Rightarrow> v)"

definition key_props :: "(string \<times> string) list \<Rightarrow> (string \<times> string) list" where
  "key_props m = filter (\<lambda>(k, v). v \<noteq> [])
     [(''manufacturer'', or_else (android_prop m ''ro.product.manufacturer'') (android_prop m ''ro.product.brand'')),
      (''model'', android_prop m ''ro.product.model''), (''device'', android_prop m ''ro.product.device''),
      (''name'', android_prop m ''ro.product.name''),
      (''board'', or_else (android_prop m ''ro.board.platform'') (android_prop m ''ro.hardware'')),
      (''android_version'', android_prop m ''ro.build.version.release''), (''android_sdk'', android_prop m ''ro.build.version.sdk''),
      (''build_fingerprint'', android_prop m ''ro.build.fingerprint''), (''build_type'', android_prop m ''ro.build.type''),
      (''cpu_abi'', android_prop m ''ro.product.cpu.abi''), (''cpu_abi2'', android_prop m ''ro.product.cpu.abi2''),
      (''slot_suffix'', android_prop m ''ro.boot.slot_suffix''),
      (''dynamic_partitions'', android_prop m ''ro.boot.dynamic_partitions''), (''ab_update'', android_prop m ''ro.build.ab_update''),
      (''verified_boot'', android_prop m ''ro.boot.verifiedbootstate''), (''bootloader'', android_prop m ''ro.bootloader''),
      (''baseband'', or_else (android_prop m ''ro.baseband'') (android_prop m ''gsm.version.baseband'')),
      (''security_patch'', android_prop m ''ro.build.version.security_patch''), (''treble'', android_prop m ''ro.treble.enabled'')]"

definition jprops :: "(string \<times> string) list \<Rightarrow> json" where
  "jprops m = JObj (map (\<lambda>(k, v). (k, JStr v)) m)"

definition capture_text :: "json \<Rightarrow> string \<Rightarrow> string res" where
  "capture_text captures name =
     bindr (jget captures name (JObj [])) (\<lambda>c. bindr (jget c ''stdout'' (JStr [])) as_str)"

definition no_backup_facts :: "string \<Rightarrow> jdict" where
  "no_backup_facts reason = [(''available'', JBool False), (''reason'', JStr reason)]"

definition backup_facts :: "json \<Rightarrow> jdict res" where
  "backup_facts backup =
     bindr (jget backup ''captures'' (JObj [])) (\<lambda>captures.
     bindr (capture_text captures ''getprop'') (\<lambda>getprop.
     bindr (capture_text captures ''packages'') (\<lambda>packages.
     bindr (capture_text captures ''battery'') (\<lambda>battery.
     bindr (jget backup ''transport'' (JStr ''unknown'')) (\<lambda>transport.
     bindr (jget backup ''adb_metadata_available'' (JBool False)) (\<lambda>metadata.
     let props = parse_getprop getprop in
     Inr [(''available'', JBool True), (''key_props'', jprops (key_props props)), (''props'', jprops props),
          (''packages'', jstrs (parse_packages packages)), (''battery_raw'', JStr battery),
          (''transport'', transport), (''adb_metadata_available'', metadata)]))))))"

definition backup_path :: "string \<Rightarrow> string" where
  "backup_path dir = sub dir ''backup/device-metadata-backup.json''"

definition read_backup_facts :: "researcher \<Rightarrow> string \<Rightarrow> disk \<Rightarrow> jdict res" where
  "read_backup_facts rs dir dk =
     (if \<not> dk_exists dk (backup_path dir) then Inr (no_backup_facts ''backup file not found'')
      else case dk_read dk (backup_path dir) of
          Some (FJson j) \<Rightarrow> backup_facts j
        | Some (FText s) \<Rightarrow> Inr (no_backup_facts (''backup parse error: '' @ rs_json_error rs s))
        | None \<Rightarrow> Inr (no_backup_facts (''backup parse error: [Errno 21] Is a directory: '' @ repr_str (backup_path dir))))"

definition facts_props :: "jdict \<Rightarrow> jdict" where
  "facts_props facts = (case dget facts ''key_props'' (JObj []) of JObj d \<Rightarrow> d | _ \<Rightarrow> [])"

definition field_labels :: "(string \<times> string) list" where
  "field_labels =
     [(''manufacturer'', ''Manufacturer''), (''model'', ''Model''), (''device'', ''Codename''), (''name'', ''Product name''),
      (''board'', ''Board/SoC''), (''android_version'', ''Android version''), (''android_sdk'', ''SDK level''),
      (''cpu_abi'', ''CPU ABI''), (''slot_suffix'', ''Slot suffix (A/B indicator)''),
      (''dynamic_partitions'', ''Dynamic partitions''), (''ab_update'', ''A/B update''),
      (''verified_boot'', ''Verified boot state''), (''security_patch'', ''Security patch''),
      (''treble'', ''Treble enabled''), (''build_fingerprint'', ''Build fingerprint'')]"

definition packages_of :: "jdict \<Rightarrow> json list" where
  "packages_of facts = (case dget facts ''packages'' (JList []) of JList xs \<Rightarrow> xs | _ \<Rightarrow> [])"

definition format_device_summary :: "jdict \<Rightarrow> jdict \<Rightarrow> string" where
  "format_device_summary kp facts =
     (let labelled = List.map_filter (\<lambda>(key, label).
            if dstr kp key [] \<noteq> [] then Some (''  '' @ label @ '': '' @ dstr kp key []) else None) field_labels;
          count = length (packages_of facts);
          transport = dget facts ''transport'' (JStr []);
          ls = labelled
            @ (if count \<noteq> 0 then [''  Installed packages: '' @ int_str (int count) @ '' apps captured''] else [])
            @ (if truthy transport then [''  Transport at backup time: '' @ py_str transport] else [])
      in if ls = [] then ''  (no getprop data available)'' else join [CHR 0x0A] ls)"

section \<open>The runners\<close>

definition capture_failed :: "string \<Rightarrow> jdict" where
  "capture_failed err = [(''ok'', JBool False), (''stdout'', JStr []), (''stderr'', JStr err)]"

definition run_model :: "host \<Rightarrow> string \<Rightarrow> string \<Rightarrow> string list \<Rightarrow> jdict proc" where
  "run_model h name executable args tr =
     (let c = (program executable, args) in
      if \<not> h_installed h (program executable)
      then (capture_failed (''[Errno 2] No such file or directory: '' @ repr_str executable), tr)
      else if h_times_out h tr c then (capture_failed (name @ '' timed out''), tr @ [c])
      else let (r, tr') = issue h c tr
           in ([(''ok'', JBool (cp_returncode r = 0)), (''stdout'', JStr (strip (cp_stdout r))),
                (''stderr'', JStr (strip (cp_stderr r)))], tr'))"

definition run_ollama :: "researcher \<Rightarrow> string \<Rightarrow> string \<Rightarrow> jdict proc" where
  "run_ollama rs prompt model =
     run_model (rs_host rs) ''ollama'' (ollama_exec (rs_env rs))
       [''run'', or_else model (env_get (rs_env rs) ''FORGEOS_OLLAMA_MODEL'' ''gemma4:latest''), prompt, ''--format'', ''json'',
        ''--hidethinking'']"

definition run_goose_search :: "researcher \<Rightarrow> string \<Rightarrow> string \<Rightarrow> jdict proc" where
  "run_goose_search rs prompt model =
     run_model (rs_host rs) ''goose'' (goose_exec (rs_env rs))
       [''run'', ''--text'', prompt, ''--no-session'', ''--quiet'',
        ''--provider'', env_get (rs_env rs) ''FORGEOS_GOOSE_PROVIDER'' ''ollama'',
        ''--model'', or_else model (env_get (rs_env rs) ''FORGEOS_GOOSE_MODEL'' ''gemma4:latest'')]"

definition ollama_found :: "researcher \<Rightarrow> bool" where
  "ollama_found rs \<longleftrightarrow> which (rs_host rs) (ollama_exec (rs_env rs)) \<noteq> None"

definition goose_found :: "researcher \<Rightarrow> bool" where
  "goose_found rs \<longleftrightarrow> which (rs_host rs) (goose_exec (rs_env rs)) \<noteq> None"

section \<open>The object in an answer\<close>

text \<open>\<open>re.sub(r"\x1b\[[0-9;]*[A-Za-z]|\x1b\][^\x07]*\x07|\r", "", text)\<close>.\<close>

definition is_letter :: "char \<Rightarrow> bool" where
  "is_letter c \<longleftrightarrow> (let n = code_point c in 65 \<le> n \<and> n \<le> 90 \<or> 97 \<le> n \<and> n \<le> 122)"

definition behind :: "(char \<Rightarrow> bool) \<Rightarrow> (char \<Rightarrow> bool) \<Rightarrow> string \<Rightarrow> string option" where
  "behind skipped final s =
     (case dropWhile skipped s of [] \<Rightarrow> None | x # r \<Rightarrow> if final x then Some r else None)"

definition escape_rest :: "string \<Rightarrow> string option" where
  "escape_rest s =
     (case s of
        [] \<Rightarrow> None
      | c # t \<Rightarrow>
          if c = CHR ''['' then behind (\<lambda>x. is_digit x \<or> x = CHR '';'') is_letter t
          else if c = CHR '']'' then behind (\<lambda>x. x \<noteq> CHR 0x07) (\<lambda>x. True) t
          else None)"

lemma behind_shorter: "behind P Q s = Some r \<Longrightarrow> length r < length s"
  using length_dropWhile_le [of P s] by (auto simp: behind_def split: list.splits if_splits)

lemma escape_rest_shorter: "escape_rest s = Some r \<Longrightarrow> length r < length s"
  by (cases s) (auto simp: escape_rest_def split: if_splits dest!: behind_shorter)

function strip_ansi :: "string \<Rightarrow> string" where
  "strip_ansi [] = []"
| "strip_ansi (c # s) =
     (if c = CHR 0x0D then strip_ansi s
      else if c = CHR 0x1B then (case escape_rest s of Some r \<Rightarrow> strip_ansi r | None \<Rightarrow> c # strip_ansi s)
      else c # strip_ansi s)"
  by pat_completeness auto
termination
  by (relation "measure length") (auto dest: escape_rest_shorter less_SucI)

definition as_object :: "json option \<Rightarrow> jdict option" where
  "as_object r = (case r of Some (JObj d) \<Rightarrow> Some d | _ \<Rightarrow> None)"

text \<open>
  The loop over the characters: \<open>block\<close> holds, when a block is open, what was read of it so far.
  As in the source a block is opened at depth 0 only.
\<close>

fun scan_object :: "(string \<Rightarrow> json option) \<Rightarrow> int \<Rightarrow> string option \<Rightarrow> string \<Rightarrow> jdict option" where
  "scan_object loads level block [] = None"
| "scan_object loads level block (c # s) =
     (let block' = map_option (\<lambda>b. b @ [c]) block in
      if c = CHR ''{'' then scan_object loads (level + 1) (if level = 0 then Some [c] else block') s
      else if c = CHR ''}'' then
        (case (if level = 1 then block' else None) of
           None \<Rightarrow> scan_object loads (level - 1) block' s
         | Some b \<Rightarrow> (case as_object (loads b) of Some d \<Rightarrow> Some d | None \<Rightarrow> scan_object loads 0 None s))
      else scan_object loads level block' s)"

definition try_parse_json :: "(string \<Rightarrow> json option) \<Rightarrow> string \<Rightarrow> jdict option" where
  "try_parse_json loads text =
     (let t = strip_ansi text in
      case as_object (loads t) of Some d \<Rightarrow> Some d | None \<Rightarrow> scan_object loads 0 None t)"

section \<open>What is kept of an answer\<close>

text \<open>\<open>float(v)\<close>; \<open>None\<close> where it raises.\<close>

definition py_float :: "researcher \<Rightarrow> json \<Rightarrow> rat option" where
  "py_float rs v =
     (case v of JBool b \<Rightarrow> Some (if b then 1 else 0) | JInt i \<Rightarrow> Some (of_int i) | JFloat x \<Rightarrow> Some x
      | JStr s \<Rightarrow> rs_float rs s | _ \<Rightarrow> None)"

definition picked :: "jdict \<Rightarrow> jdict \<Rightarrow> jdict" where
  "picked parsed defaults = map (\<lambda>(k, dflt). (k, dget parsed k dflt)) defaults"

text \<open>
  An extractor keeps its fields of a parsed answer and its confidence, which is 0.5 where it is
  not given; of a text without an object, or with the empty one, it keeps the beginning.
\<close>

definition extract_answer :: "researcher \<Rightarrow> jdict \<Rightarrow> (string \<Rightarrow> jdict) \<Rightarrow> string \<Rightarrow> jdict option" where
  "extract_answer rs defaults unparsed raw =
     (case try_parse_json (rs_loads rs) raw of
        Some (e # entries) \<Rightarrow>
          map_option (\<lambda>x. picked (e # entries) defaults @ [(''confidence'', JFloat x)])
            (py_float rs (dget (e # entries) ''confidence'' (JFloat (1 / 2))))
      | _ \<Rightarrow> Some (unparsed raw))"

definition firmware_defaults :: jdict where
  "firmware_defaults =
     [(''firmware_sources'', JList []), (''flash_procedure_hints'', JList []), (''lineageos_supported'', JNull),
      (''twrp_supported'', JNull), (''grapheneos_supported'', JNull), (''unlock_procedure'', JStr []),
      (''anti_rollback_risk'', JNull), (''community_notes'', JStr [])]"

definition firmware_unparsed :: "string \<Rightarrow> jdict" where
  "firmware_unparsed raw =
     dset firmware_defaults ''community_notes'' (JStr (take 1000 raw)) @ [(''confidence'', JFloat (3 / 10))]"

definition firmware_fallback :: jdict where
  "firmware_fallback = firmware_defaults @ [(''confidence'', JFloat 0)]"

definition extract_firmware :: "researcher \<Rightarrow> string \<Rightarrow> jdict option" where
  "extract_firmware rs = extract_answer rs firmware_defaults firmware_unparsed"

definition device_defaults :: jdict where
  "device_defaults =
     [(''device_facts'', JObj []), (''unlock_procedure'', JStr []), (''known_issues'', JList []),
      (''recommended_approach'', JStr ''research_only'')]"

definition device_unparsed :: "string \<Rightarrow> jdict" where
  "device_unparsed raw =
     dset device_defaults ''unlock_procedure'' (JStr (take 400 raw)) @ [(''confidence'', JFloat (1 / 4))]"

definition device_fallback :: jdict where
  "device_fallback = device_defaults @ [(''confidence'', JFloat 0)]"

definition extract_device :: "researcher \<Rightarrow> string \<Rightarrow> jdict option" where
  "extract_device rs = extract_answer rs device_defaults device_unparsed"

definition blocker_defaults :: jdict where
  "blocker_defaults = [(''solutions'', JList []), (''next_steps'', JList []), (''references'', JList [])]"

definition blocker_unparsed :: "string \<Rightarrow> jdict" where
  "blocker_unparsed raw =
     dset blocker_defaults ''next_steps'' (jstrs [take 400 raw]) @ [(''confidence'', JFloat (1 / 4))]"

definition blocker_fallback :: jdict where
  "blocker_fallback = blocker_defaults @ [(''confidence'', JFloat 0)]"

definition extract_blocker :: "researcher \<Rightarrow> string \<Rightarrow> jdict option" where
  "extract_blocker rs = extract_answer rs blocker_defaults blocker_unparsed"

section \<open>One question\<close>

record question =
  qn_topic :: string
  qn_ollama :: string
  qn_goose :: string
  qn_extract :: "string \<Rightarrow> jdict option"
  qn_fallback :: jdict

text \<open>The text of a run that ended well, else the empty text.\<close>

definition output_of :: "jdict \<Rightarrow> string" where
  "output_of r = (if truthy (dget0 r ''ok'') then dstr r ''stdout'' [] else [])"

definition ask_ollama :: "researcher \<Rightarrow> question \<Rightarrow> string \<Rightarrow> string proc" where
  "ask_ollama rs q model tr =
     (if ollama_found rs then let (r, tr') = run_ollama rs (qn_ollama q) model tr in (output_of r, tr') else ([], tr))"

definition ask_goose :: "researcher \<Rightarrow> question \<Rightarrow> string \<Rightarrow> string proc" where
  "ask_goose rs q model tr =
     (if goose_found rs then let (r, tr') = run_goose_search rs (qn_goose q) model tr in (output_of r, tr') else ([], tr))"

text \<open>
  The answer of the second runner replaces that of the first when there is none, or when it holds
  an object that is not empty.
\<close>

definition gather :: "researcher \<Rightarrow> question \<Rightarrow> string \<Rightarrow> (string \<times> string) proc" where
  "gather rs q model tr =
     (let (local, tr1) = ask_ollama rs q model tr; (found, tr2) = ask_goose rs q model tr1 in
      ((if local = [] then (found, if found = [] then ''none'' else ''goose'')
        else if found \<noteq> [] \<and> (case try_parse_json (rs_loads rs) found of Some (e # d) \<Rightarrow> True | _ \<Rightarrow> False)
        then (found, ''goose+ollama'') else (local, ''ollama'')), tr2))"

definition unanswered :: "string \<Rightarrow> question \<Rightarrow> model_selection \<Rightarrow> string \<Rightarrow> string \<Rightarrow> jdict" where
  "unanswered now q s status note_text =
     dmerge (qn_fallback q)
       [(''status'', JStr status), (''topic'', JStr (qn_topic q)), (''generated_at'', JStr now),
        (''model_selection'', JObj (selection_as_dict s)), (''note'', JStr note_text)]"

definition answered :: "string \<Rightarrow> question \<Rightarrow> model_selection \<Rightarrow> string \<Rightarrow> string \<Rightarrow> jdict" where
  "answered now q s raw source =
     dmerge (case qn_extract q raw of Some d \<Rightarrow> d | None \<Rightarrow> qn_fallback q)
       [(''status'', JStr ''researched''), (''topic'', JStr (qn_topic q)), (''source'', JStr source),
        (''model_selection'', JObj (selection_as_dict s)), (''generated_at'', JStr now), (''fetched_at'', JStr now)]"

definition research_path :: "string \<Rightarrow> string \<Rightarrow> string" where
  "research_path dir topic = sub dir (''research/'' @ topic @ ''.json'')"

definition run_with_fallback :: "researcher \<Rightarrow> string \<Rightarrow> string \<Rightarrow> question \<Rightarrow> trace \<times> disk \<Rightarrow> jdict \<times> trace \<times> disk" where
  "run_with_fallback rs now dir q = (\<lambda>(tr, dk).
     let s = router_select (rs_router rs) ''research'' default_task;
         save = (\<lambda>r. dk_write (research_path dir (qn_topic q)) (JObj r) (dk_mkdir (sub dir ''research'') dk)) in
     if \<not> ollama_found rs \<and> \<not> goose_found rs then
       let r = unanswered now q s ''workers_unavailable'' ''Install ollama or goose to enable autonomous device research.''
       in (r, tr, save r)
     else
       let ((raw, source), tr') = gather rs q (ms_model s) tr;
           r = (if raw = [] then unanswered now q s ''no_response'' ''Local workers ran but produced no output.''
                else answered now q s raw source)
       in (r, tr', save r))"

section \<open>The questions\<close>

definition firmware_question :: "string \<Rightarrow> string" where
  "firmware_question summary =
     join [CHR 0x0A]
       [''You are a mobile device firmware expert. Based on the following device profile,'',
        ''identify the best available firmware and custom ROM options.'',
        [],
        ''DEVICE PROFILE (from live getprop backup):'',
        summary,
        [],
        ''Please provide a JSON response with these fields:'',
        ''{'',
        ''  \"firmware_sources\": ['',
        ''    {\"name\": \"...\", \"url_hint\": \"...\", \"notes\": \"...\"}'',
        ''  ],'',
        ''  \"flash_procedure_hints\": [\"step 1\", \"step 2\"],'',
        ''  \"lineageos_supported\": true/false/null,'',
        ''  \"twrp_supported\": true/false/null,'',
        ''  \"grapheneos_supported\": true/false/null,'',
        ''  \"unlock_procedure\": \"brief description\",'',
        ''  \"anti_rollback_risk\": true/false,'',
        ''  \"community_notes\": \"any important warnings or tips\",'',
        ''  \"confidence\": 0.0-1.0'',
        ''}'',
        [],
        ''Base your answer on your training knowledge of this device.'']"

definition firmware_search :: "string \<Rightarrow> string \<Rightarrow> string \<Rightarrow> string \<Rightarrow> string \<Rightarrow> string" where
  "firmware_search manufacturer model codename board version =
     join [CHR 0x0A]
       [''You are researching firmware options for '' @ manufacturer @ '' '' @ model @ '' (codename: '' @ codename @ '', board: '' @ board @ '', Android '' @ version @ '').'',
        [],
        ''Use shell commands to fetch these pages and extract relevant information:'',
        ''  curl -sL '' @ [CHR 0x27] @ ''https://wiki.lineageos.org/devices/'' @ codename @ [CHR 0x27] @ '' 2>/dev/null | head -200'',
        ''  curl -sL '' @ [CHR 0x27] @ ''https://twrp.me/search/?q='' @ codename @ [CHR 0x27] @ '' 2>/dev/null | grep -i '' @ [CHR 0x27] @ codename @ [CHR 0x5C] @ ''|download'' @ [CHR 0x27] @ '' | head -30'',
        ''  curl -sL '' @ [CHR 0x27] @ ''https://xdaforums.com/search/?\"q='' @ codename @ ''+firmware&o=date'' @ [CHR 0x27] @ '' 2>/dev/null | grep -i '' @ [CHR 0x27] @ ''title'' @ [CHR 0x5C] @ ''|href'' @ [CHR 0x27] @ '' | head -30'',
        [],
        ''Then summarise what you found and return JSON with fields:'',
        ''firmware_sources (list of {name, url_hint, notes}), flash_procedure_hints (list of steps), lineageos_supported (true/false/null), twrp_supported (true/false/null), unlock_procedure (string), community_notes (string), confidence (0.0-1.0)'']"

definition device_question :: "string \<Rightarrow> string" where
  "device_question summary =
     join [CHR 0x0A]
       [''You are a mobile device expert. Analyze this device profile and provide technical guidance.'',
        [],
        ''DEVICE PROFILE (from live getprop backup):'',
        summary,
        [],
        ''Respond with JSON:'',
        ''{'',
        ''  \"device_facts\": {'',
        ''    \"partition_scheme\": \"A/B or single-slot\",'',
        ''    \"treble_compliant\": true/false/null,'',
        ''    \"dynamic_partitions\": true/false/null,'',
        ''    \"oem_tool_required\": \"none or tool name (e.g. Heimdall, SP Flash Tool)\"'',
        ''  },'',
        ''  \"unlock_procedure\": \"step-by-step summary\",'',
        ''  \"known_issues\": [\"issue 1\", \"issue 2\"],'',
        ''  \"recommended_approach\": \"one of: lineageos, grapheneos, stock_reflash, research_only\",'',
        ''  \"confidence\": 0.0-1.0'',
        ''}'']"

definition device_search :: "string \<Rightarrow> string \<Rightarrow> string \<Rightarrow> string \<Rightarrow> string \<Rightarrow> string" where
  "device_search manufacturer model codename board abi =
     join [CHR 0x0A]
       [''Research technical details for '' @ manufacturer @ '' '' @ model @ '' (codename: '' @ codename @ '', board: '' @ board @ '', ABI: '' @ abi @ '').'',
        [],
        ''Use shell commands:'',
        ''  curl -sL '' @ [CHR 0x27] @ ''https://wiki.lineageos.org/devices/'' @ codename @ [CHR 0x27] @ '' 2>/dev/null | head -150'',
        ''  curl -sL '' @ [CHR 0x27] @ ''https://twrp.me/search/?q='' @ codename @ [CHR 0x27] @ '' 2>/dev/null | head -80'',
        [],
        ''Return JSON with: device_facts (partition_scheme, treble_compliant, dynamic_partitions, oem_tool_required), unlock_procedure, known_issues (list), recommended_approach, confidence (0.0-1.0)'']"

text \<open>\<open>s.replace(x, "")\<close> for a text \<open>x\<close> that is not empty.\<close>

function remove_text :: "string \<Rightarrow> string \<Rightarrow> string" where
  "remove_text x [] = []"
| "remove_text x (c # s) =
     (if x \<noteq> [] \<and> starts_with (c # s) x then remove_text x (drop (length x) (c # s)) else c # remove_text x s)"
  by pat_completeness auto
termination
  by (relation "measure (\<lambda>(x, s). length s)") (auto simp: length_greater_0_conv)

definition blocker_question :: "string \<Rightarrow> string \<Rightarrow> string \<Rightarrow> string \<Rightarrow> string" where
  "blocker_question summary blocker_summary blocker_type transport =
     join [CHR 0x0A]
       [''You are a mobile device repair expert. Help solve this problem.'',
        [],
        ''DEVICE PROFILE:'',
        summary,
        [],
        ''PROBLEM: '' @ blocker_summary,
        ''BLOCKER TYPE: '' @ blocker_type,
        ''TRANSPORT: '' @ transport,
        [],
        ''Respond with JSON:'',
        ''{'',
        ''  \"solutions\": [\"solution 1\", \"solution 2\"],'',
        ''  \"next_steps\": [\"step 1\", \"step 2\"],'',
        ''  \"references\": [\"XDA thread title or URL hint\"],'',
        ''  \"confidence\": 0.0-1.0'',
        ''}'']"

definition blocker_search :: "string \<Rightarrow> string \<Rightarrow> string \<Rightarrow> string \<Rightarrow> string \<Rightarrow> string" where
  "blocker_search manufacturer model blocker_summary blocker_type transport =
     join [CHR 0x0A]
       [''I have a '' @ manufacturer @ '' '' @ model @ '' stuck on: '' @ blocker_summary,
        ''Transport: '' @ transport,
        [],
        ''Use shell commands to search for solutions:'',
        ''  curl -sL '' @ [CHR 0x27] @ ''https://xdaforums.com/search/?q='' @ manufacturer @ ''+'' @ model @ ''+'' @ remove_text ''_blocker'' blocker_type @ ''&o=date'' @ [CHR 0x27] @ '' 2>/dev/null | grep -i '' @ [CHR 0x27] @ ''title'' @ [CHR 0x5C] @ ''|solution'' @ [CHR 0x5C] @ ''|fix'' @ [CHR 0x27] @ '' | head -30'',
        [],
        ''Return JSON with: solutions (list), next_steps (list), references (list of url/title), confidence (0.0-1.0)'']"

type_synonym researching = "trace \<times> disk \<Rightarrow> jdict res \<times> trace \<times> disk"

text \<open>The facts of the backup come before those of the caller.\<close>

definition with_backup :: "researcher \<Rightarrow> string \<Rightarrow> (jdict \<Rightarrow> string \<Rightarrow> trace \<times> disk \<Rightarrow> jdict \<times> trace \<times> disk) \<Rightarrow> researching" where
  "with_backup rs dir run = (\<lambda>(tr, dk).
     case read_backup_facts rs dir dk of
       Inl err \<Rightarrow> (Inl err, tr, dk)
     | Inr facts \<Rightarrow>
         let kp = facts_props facts; (r, st') = run kp (format_device_summary kp facts) (tr, dk) in (Inr r, st'))"

definition research_firmware ::
    "researcher \<Rightarrow> string \<Rightarrow> string \<Rightarrow> string \<Rightarrow> string \<Rightarrow> string \<Rightarrow> string \<Rightarrow> researching" where
  "research_firmware rs now dir manufacturer model codename version =
     with_backup rs dir (\<lambda>kp summary st.
       let q = \<lparr>qn_topic = ''firmware_sources'', qn_ollama = firmware_question summary,
                qn_goose = firmware_search (dstr_or kp ''manufacturer'' manufacturer) (dstr_or kp ''model'' model)
                  (dstr_or kp ''device'' codename) (dstr kp ''board'' []) (dstr_or kp ''android_version'' version),
                qn_extract = extract_firmware rs, qn_fallback = firmware_fallback\<rparr>;
           (r, st') = run_with_fallback rs now dir q st
       in (dset r ''device_summary'' (JStr summary), st'))"

definition research_device ::
    "researcher \<Rightarrow> string \<Rightarrow> string \<Rightarrow> string \<Rightarrow> string \<Rightarrow> string \<Rightarrow> string \<Rightarrow> string \<Rightarrow> researching" where
  "research_device rs now dir manufacturer model codename board abi =
     with_backup rs dir (\<lambda>kp summary.
       run_with_fallback rs now dir
         \<lparr>qn_topic = ''device_community'', qn_ollama = device_question summary,
          qn_goose = device_search (dstr_or kp ''manufacturer'' manufacturer) (dstr_or kp ''model'' model)
            (dstr_or kp ''device'' codename) (dstr_or kp ''board'' board) (dstr_or kp ''cpu_abi'' abi),
          qn_extract = extract_device rs, qn_fallback = device_fallback\<rparr>)"

definition research_open_question ::
    "researcher \<Rightarrow> string \<Rightarrow> string \<Rightarrow> string \<Rightarrow> string \<Rightarrow> string \<Rightarrow> string \<Rightarrow> string \<Rightarrow> researching" where
  "research_open_question rs now dir manufacturer model blocker_type blocker_summary transport =
     with_backup rs dir (\<lambda>kp summary.
       run_with_fallback rs now dir
         \<lparr>qn_topic = ''blocker_'' @ blocker_type,
          qn_ollama = blocker_question summary blocker_summary blocker_type transport,
          qn_goose = blocker_search (dstr_or kp ''manufacturer'' manufacturer) (dstr_or kp ''model'' model)
            blocker_summary blocker_type transport,
          qn_extract = extract_blocker rs, qn_fallback = blocker_fallback\<rparr>)"

section \<open>What research may do\<close>

definition asks_models :: "researcher \<Rightarrow> nat \<Rightarrow> trace \<Rightarrow> trace \<Rightarrow> bool" where
  "asks_models rs n tr tr' \<longleftrightarrow>
     (\<exists>cs. tr' = tr @ cs \<and> length cs \<le> n
         \<and> set (map fst cs) \<subseteq> {program (ollama_exec (rs_env rs)), program (goose_exec (rs_env rs))})"

lemma asks_refl [simp]: "asks_models rs n tr tr"
  by (simp add: asks_models_def)

lemma asks_trans: "asks_models rs m tr tr1 \<Longrightarrow> asks_models rs n tr1 tr2 \<Longrightarrow> asks_models rs (m + n) tr tr2"
proof -
  assume "asks_models rs m tr tr1" "asks_models rs n tr1 tr2"
  then obtain cs ds where "tr1 = tr @ cs" "length cs \<le> m" "tr2 = tr1 @ ds" "length ds \<le> n"
    "set (map fst cs) \<subseteq> {program (ollama_exec (rs_env rs)), program (goose_exec (rs_env rs))}"
    "set (map fst ds) \<subseteq> {program (ollama_exec (rs_env rs)), program (goose_exec (rs_env rs))}"
    unfolding asks_models_def by blast
  then have "tr2 = tr @ (cs @ ds) \<and> length (cs @ ds) \<le> m + n
    \<and> set (map fst (cs @ ds)) \<subseteq> {program (ollama_exec (rs_env rs)), program (goose_exec (rs_env rs))}"
    by (simp add: image_Un)
  then show ?thesis unfolding asks_models_def by blast
qed

lemma asks_run_model:
  "program exe \<in> {program (ollama_exec (rs_env rs)), program (goose_exec (rs_env rs))}
   \<Longrightarrow> asks_models rs 1 tr (snd (run_model h name exe args tr))"
  by (simp add: run_model_def asks_models_def issue_def Let_def)

lemma asks_ollama: "asks_models rs 1 tr (snd (ask_ollama rs q model tr))"
  using asks_run_model [where rs = rs and exe = "ollama_exec (rs_env rs)"]
  by (simp add: ask_ollama_def run_ollama_def split_def Let_def)

lemma asks_goose: "asks_models rs 1 tr (snd (ask_goose rs q model tr))"
  using asks_run_model [where rs = rs and exe = "goose_exec (rs_env rs)"]
  by (simp add: ask_goose_def run_goose_search_def split_def Let_def)

lemma asks_gather: "asks_models rs 2 tr (snd (gather rs q model tr))"
  using asks_trans [OF asks_ollama asks_goose] by (simp add: gather_def split_def Let_def numeral_2_eq_2)

lemma run_with_fallback_saves:
  "(case run_with_fallback rs now dir q (tr, dk) of (r, tr', dk') \<Rightarrow>
      asks_models rs 2 tr tr'
      \<and> dk' = dk_write (research_path dir (qn_topic q)) (JObj r) (dk_mkdir (sub dir ''research'') dk))"
  using asks_gather [of rs tr q "ms_model (router_select (rs_router rs) ''research'' default_task)"]
  by (auto simp: run_with_fallback_def Let_def split_def)


section \<open>Finding the object\<close>

lemma scan_plain:
  "CHR ''{'' \<notin> set pre \<Longrightarrow> CHR ''}'' \<notin> set pre \<Longrightarrow> scan_object loads n None (pre @ s) = scan_object loads n None s"
  by (induction pre) auto

text \<open>A text that closes \<open>n\<close> open braces with its last character.\<close>

fun closes :: "nat \<Rightarrow> string \<Rightarrow> bool" where
  "closes n [] = False"
| "closes n (c # s) =
     (if c = CHR ''{'' then closes (Suc n) s
      else if c = CHR ''}'' then (if n = 1 then s = [] else closes (n - 1) s)
      else closes n s)"

lemma scan_closes:
  "closes n s \<Longrightarrow> 0 < n \<Longrightarrow>
   scan_object loads (int n) (Some b) (s @ post)
   = (case as_object (loads (b @ s)) of Some d \<Rightarrow> Some d | None \<Rightarrow> scan_object loads 0 None post)"
proof (induction n s arbitrary: b rule: closes.induct)
  case (2 n c s)
  show ?case
  proof (cases "c = CHR ''}'' \<and> n = 1")
    case True
    with 2 show ?thesis by simp
  next
    case False
    with 2 show ?thesis by (auto simp: add.commute of_nat_diff Let_def split: if_splits)
  qed
qed simp

text \<open>
  An object after a text without braces is found: when the answer as a whole is not an object, the
  first block of balanced braces that parses is what the extraction returns.
\<close>

lemma object_is_found:
  assumes "strip_ansi text = pre @ CHR ''{'' # s @ post" and "CHR ''{'' \<notin> set pre" "CHR ''}'' \<notin> set pre"
    and "closes 1 s" and "as_object (loads (strip_ansi text)) = None" and "as_object (loads (CHR ''{'' # s)) = Some d"
  shows "try_parse_json loads text = Some d"
  using assms scan_closes [OF assms(4), of loads "''{''" post] by (simp add: try_parse_json_def scan_plain)

lemma scan_below:
  "CHR ''{'' \<notin> set s \<Longrightarrow> n \<noteq> 1 \<Longrightarrow> n \<le> 0 \<Longrightarrow> scan_object loads n None s = None"
  by (induction s arbitrary: n) auto

text \<open>
  A closing brace before the object hides it: the depth is then below zero, so the brace that opens
  the object does not open a block.
\<close>

theorem stray_brace_hides_the_object:
  assumes "strip_ansi text = pre @ CHR ''}'' # mid @ CHR ''{'' # post"
    and "CHR ''{'' \<notin> set pre" "CHR ''}'' \<notin> set pre" "CHR ''{'' \<notin> set mid" "CHR ''}'' \<notin> set mid" "CHR ''{'' \<notin> set post"
    and "as_object (loads (strip_ansi text)) = None"
  shows "try_parse_json loads text = None"
  using assms by (simp add: try_parse_json_def scan_plain scan_below)

section \<open>The property list\<close>

definition prop_text :: "string \<times> string \<Rightarrow> string" where
  "prop_text = (\<lambda>(k, v). ''['' @ k @ '']: ['' @ v @ '']'' @ [CHR 0x0A])"

definition printable :: "string \<times> string \<Rightarrow> bool" where
  "printable = (\<lambda>(k, v). k \<noteq> [] \<and> CHR '']'' \<notin> set k \<and> list_all (\<lambda>c. \<not> is_eol c) (k @ v))"

lemma prop_from_key:
  "CHR '']'' \<notin> set k \<Longrightarrow> prop_from acc (k @ s) = prop_from (acc @ k) s"
  by (induction k arbitrary: acc) auto

lemma prop_value_shown: "prop_value (CHR '' '' # CHR ''['' # v @ [CHR '']'']) = Some v"
  by (simp add: prop_value_def lstrip_def is_space_def code_point_def)

lemma prop_line_shown:
  assumes "k \<noteq> []" "CHR '']'' \<notin> set k"
  shows "prop_line (''['' @ k @ '']: ['' @ v @ '']'') = Some (k, v)"
  using assms by (simp add: prop_line_def prop_from_key prop_value_shown)

lemma update_new: "k \<notin> fst ` set m \<Longrightarrow> AList.update k v m = m @ [(k, v)]"
  by (induction m) auto

lemma foldl_update_distinct:
  "distinct (map fst (m @ ps)) \<Longrightarrow> foldl (\<lambda>m (k, v). AList.update k v m) m ps = m @ ps"
proof (induction ps arbitrary: m)
  case (Cons p ps)
  then have "AList.update (fst p) (snd p) m = m @ [p]" by (simp add: update_new)
  with Cons.IH [of "m @ [p]"] Cons.prems show ?case by (simp add: split_def)
qed simp

lemma map_filter_known: "(\<And>x. x \<in> set xs \<Longrightarrow> f (g x) = Some x) \<Longrightarrow> List.map_filter f (map g xs) = xs"
  by (induction xs) (auto simp: List.map_filter_simps)

text \<open>
  The property list is read back. Printed in the format of the device, properties with distinct
  keys are what the parser returns, in their order, also when a value holds brackets.
\<close>

theorem getprop_roundtrip:
  assumes "distinct (map fst props)" and "list_all printable props"
  shows "parse_getprop (concat (map prop_text props)) = props"
proof -
  let ?line = "\<lambda>(k, v). ''['' @ k @ '']: ['' @ v @ '']''"
  have "concat (map prop_text props) = concat (map (\<lambda>l. l @ [CHR 0x0A]) (map ?line props))"
    by (simp add: prop_text_def comp_def split_def)
  moreover have "\<forall>l \<in> set (map ?line props). \<forall>c \<in> set l. \<not> is_eol c"
    using assms(2) by (auto simp: printable_def list_all_iff is_eol_def code_point_def)
  ultimately have "splitlines (concat (map prop_text props)) = map ?line props"
    by (metis splitlines_unlines)
  moreover have "List.map_filter prop_line (map ?line props) = props"
    by (rule map_filter_known) (use assms(2) in \<open>auto simp: list_all_iff printable_def prop_line_shown [simplified]\<close>)
  ultimately show ?thesis using foldl_update_distinct [of "[]" props] assms(1) by (simp add: parse_getprop_def)
qed

theorem getprop_roundtrip_witness:
  "parse_getprop (concat (map prop_text [(''ro.product.model'', ''SM-T720''), (''ro.x'', ''[a]'')]))
   = [(''ro.product.model'', ''SM-T720''), (''ro.x'', ''[a]'')]"
  by (rule getprop_roundtrip) (simp_all add: printable_def is_eol_def code_point_def)

theorem stray_brace_hides_the_object_witness:
  "try_parse_json (\<lambda>s. if s = ''{}'' then Some (JObj [(''confidence'', JInt 1)]) else None) ''ok} {}'' = None"
  by (rule stray_brace_hides_the_object [where pre = "''ok''" and mid = "'' ''" and post = "''}''"])
    (simp_all add: as_object_def)

end
