(* ===== verification/Cycle_Tail.thy ===== *)
theory Cycle_Tail
  imports Attach Runtime_Pipelines Research_Worker
begin

text \<open>
  The end of \<open>ForgeOrchestrator._run_runtime_cycle\<close> of \<open>app/core/orchestrator.py\<close>: an open blocker
  is put to the language model or the operator, then the cycle reviews a destructive install,
  evaluates the gates, runs or defers preview and verification, settles the session in a state and
  writes the plan. \<open>bundle\<close> and \<open>ws\<close> are the parameters of the pipelines.
\<close>

section \<open>What the cycle has worked out\<close>

record cycle_input =
  ci_policy :: policy_model
  ci_flash_plan :: flash_plan
  ci_backup_plan :: jdict
  ci_restore_plan :: jdict
  ci_blocker :: jdict
  ci_assessment :: jdict
  ci_build_plan :: jdict
  ci_recommendation :: jdict
  ci_connection_plan :: jdict
  ci_transport :: transport
  ci_execute_workers :: bool
  ci_execute_pipelines :: bool

definition manageable_transports :: "string list" where
  "manageable_transports = [''usb-adb'', ''usb-fastboot'', ''usb-fastbootd'', ''usb-recovery'']"

definition manageable_transport :: "cycle_input \<Rightarrow> bool" where
  "manageable_transport ci \<longleftrightarrow> transport_value (ci_transport ci) \<in> set manageable_transports"

definition install_candidate :: "cycle_input \<Rightarrow> bool" where
  "install_candidate ci \<longleftrightarrow>
     dget0 (ci_assessment ci) ''support_status'' = JStr ''actionable''
     \<and> dget0 (ci_build_plan ci) ''os_path'' \<noteq> JStr ''research_only_path''
     \<and> fp_status (ci_flash_plan ci) \<noteq> ''deferred'' \<and> manageable_transport ci"

definition verification_ready :: "cycle_input \<Rightarrow> bool" where
  "verification_ready ci \<longleftrightarrow> install_candidate ci \<and> truthy (dget (ci_backup_plan ci) ''restore_path_feasible'' (JBool False))"

definition install_ready :: "cycle_input \<Rightarrow> preview_execution \<Rightarrow> verification_execution \<Rightarrow> bool" where
  "install_ready ci preview verification \<longleftrightarrow>
     fp_status (ci_flash_plan ci) \<noteq> ''deferred'' \<and> pe_status preview = ''executed''
     \<and> ve_status verification = ''executed'' \<and> manageable_transport ci"

section \<open>Reviewing a destructive install\<close>

definition install_artifacts_ready :: "cycle_input \<Rightarrow> bool" where
  "install_artifacts_ready ci \<longleftrightarrow>
     truthy (dget0 (ci_build_plan ci) ''artifacts_ready'') \<and> fp_status (ci_flash_plan ci) \<notin> set [''deferred'', ''blocked'']"

definition install_planning_task :: "flash_plan \<Rightarrow> worker_task" where
  "install_planning_task plan =
     \<lparr>wt_task_type = ''install_planning'', wt_summary = ''Review destructive install planning and safety gates.'',
      wt_prompt = ''Review this install plan and explain whether ForgeOS should escalate rather than continue locally.''
        @ [CHR 0x0A, CHR 0x0A] @ ''Flash plan: '' @ py_str (flash_plan_to_dict plan),
      wt_risk = TR_HIGH, wt_needs_repo_edit = False, wt_architecture_level = True, wt_repetitive = False,
      wt_local_retry_count = 0, wt_retry_budget = 1, wt_context = [(''flash_plan'', flash_plan_to_dict plan)],
      wt_target_files = [], wt_invocation_override = None\<rparr>"

text \<open>The task is routed without its prompt and its context.\<close>

definition review_install :: "healer \<Rightarrow> cycle_input \<Rightarrow> triplet option work" where
  "review_install h ci =
     (if fp_requires_wipe (ci_flash_plan ci) \<and> ci_execute_workers ci \<and> install_artifacts_ready ci then
        let t = install_planning_task (ci_flash_plan ci) in
        andthen (pure_step (route (wk_now (he_world h)) (he_registry h) (t\<lparr>wt_prompt := [], wt_context := []\<rparr>))) (\<lambda>d.
        andthen (execute_worker (he_world h) (he_runtime h) d t (he_dir h)) (\<lambda>x. done_with (Some (d, t, x))))
      else done_with None)"

section \<open>Gates\<close>

definition evaluate_gates :: "string \<Rightarrow> string \<Rightarrow> cycle_input \<Rightarrow> (approval_gate \<times> approval_gate) work" where
  "evaluate_gates now dir ci =
     andthen (on_disk (load_destructive_approval now dir)) (\<lambda>approval.
     andthen (pure_step (evaluate_research_gate now (ci_blocker ci))) (\<lambda>runtime_gate.
     done_with (evaluate_install_gate now (ci_policy ci) (ci_flash_plan ci) approval (ci_backup_plan ci), runtime_gate)))"

section \<open>Preview and verification\<close>

definition preview_input_of :: "cycle_input \<Rightarrow> preview_input" where
  "preview_input_of ci =
     \<lparr>pv_build_plan = ci_build_plan ci, pv_recommendation = ci_recommendation ci, pv_assessment = ci_assessment ci,
      pv_connection_plan = ci_connection_plan ci\<rparr>"

definition verification_input_of :: "cycle_input \<Rightarrow> verification_input" where
  "verification_input_of ci =
     \<lparr>vi_assessment = ci_assessment ci, vi_backup_plan = ci_backup_plan ci, vi_restore_plan = ci_restore_plan ci,
      vi_flash_plan = (case flash_plan_to_dict (ci_flash_plan ci) of JObj d \<Rightarrow> d | _ \<Rightarrow> [])\<rparr>"

definition he_now :: "healer \<Rightarrow> string" where
  "he_now h = wk_now (he_world h)"

type_synonym bundler = "(string \<times> doc option) list \<Rightarrow> string"

definition preview_step :: "bundler \<Rightarrow> healer \<Rightarrow> string \<Rightarrow> cycle_input \<Rightarrow> preview_execution work" where
  "preview_step bundle h ws ci =
     (if install_candidate ci \<and> ci_execute_pipelines ci then
        andthen (move (he_now h) (he_dir h) PREVIEW_BUILD ''ForgeOS is generating a preview for the proposed path'') (\<lambda>_.
        andthen (preview_execute bundle (wk_host (he_world h)) (wk_env (he_world h)) ws (he_now h) (he_dir h) (preview_input_of ci)) (\<lambda>x.
        andthen (move (he_now h) (he_dir h) PREVIEW_REVIEW ''Preview output is ready for review'') (\<lambda>_.
        done_with x)))
      else on_disk (preview_defer (he_now h) (he_dir h)
        (''Preview is deferred until ForgeOS has a manageable transport, an actionable assessment, ''
         @ ''and a non-research replacement path.'') (preview_input_of ci)))"

definition returned :: "'a \<times> 'b \<Rightarrow> 'a res \<times> 'b" where
  "returned r = (Inr (fst r), snd r)"

definition verification_step :: "healer \<Rightarrow> string \<Rightarrow> cycle_input \<Rightarrow> verification_execution work" where
  "verification_step h ws ci =
     (if verification_ready ci \<and> ci_execute_pipelines ci then
        andthen (move (he_now h) (he_dir h) INTERACTIVE_VERIFY ''ForgeOS is running verification before any install decision'') (\<lambda>_ st.
        returned (verification_execute (wk_host (he_world h)) (wk_env (he_world h)) ws (he_now h) (he_dir h) (verification_input_of ci) st))
      else on_disk (\<lambda>dk. returned (verification_defer (he_now h) (he_dir h)
        (if ci_execute_pipelines ci
         then ''Verification is deferred until preview and backup readiness are complete and ForgeOS has a viable install candidate.''
         else ''Verification is deferred in lightweight GUI mode until explicit runtime execution is requested.'') dk)))"

section \<open>Settling the session\<close>

definition set_iterations :: "string \<Rightarrow> string \<Rightarrow> int \<Rightarrow> unit work" where
  "set_iterations now dir n =
     andthen (from_disk (\<lambda>dk. load_session_state now dk dir)) (\<lambda>st.
     to_disk (write_session_state now dir (st\<lparr>ss_iterate_count := n\<rparr>)))"

text \<open>The second cycle in a row without a candidate scans the device again.\<close>

definition hold_session :: "healer \<Rightarrow> unit work" where
  "hold_session h =
     andthen (move (he_now h) (he_dir h) ITERATE ''Runtime cycle complete - no active blocker, waiting for next condition change'') (\<lambda>_.
     andthen (from_disk (\<lambda>dk. load_session_state (he_now h) dk (he_dir h))) (\<lambda>st.
     if 2 \<le> ss_iterate_count st + 1 then
       andthen (to_disk (write_session_state (he_now h) (he_dir h) (st\<lparr>ss_iterate_count := 0\<rparr>))) (\<lambda>_.
       andthen (move (he_now h) (he_dir h) DEEP_SCAN ''Consecutive ITERATE cycles detected - forcing device re-probe'') (\<lambda>_.
       andthen (from_disk (\<lambda>dk. load_device_profile dk (he_dir h))) (\<lambda>profile.
       andthen (perform_deep_scan (wk_host (he_world h)) (he_dir h) profile) (\<lambda>_. done_with ()))))
     else to_disk (write_session_state (he_now h) (he_dir h) (st\<lparr>ss_iterate_count := ss_iterate_count st + 1\<rparr>))))"

definition settle_session :: "healer \<Rightarrow> cycle_input \<Rightarrow> bool \<Rightarrow> unit work" where
  "settle_session h ci ready =
     andthen (pure_step (dindex (ci_blocker ci) ''blocker_type'')) (\<lambda>blocker_type.
     if blocker_type = JStr ''none'' then
       if ready \<or> install_candidate ci \<and> ci_execute_pipelines ci then set_iterations (he_now h) (he_dir h) 0
       else if install_candidate ci then
         andthen (set_iterations (he_now h) (he_dir h) 0) (\<lambda>_.
         move (he_now h) (he_dir h) BUILD_GENERIC ''No blockers detected - advancing toward build stage'')
       else hold_session h
     else if \<not> truthy (dget0 (ci_blocker ci) ''machine_solvable'')
     then move (he_now h) (he_dir h) QUESTION_GATE ''Runtime hit a true external-action or approval boundary''
     else done_with ())"

record tail_result =
  tl_review :: "triplet option"
  tl_install_gate :: approval_gate
  tl_runtime_gate :: approval_gate
  tl_preview :: preview_execution
  tl_verification :: verification_execution

definition approve_step :: "healer \<Rightarrow> bool \<Rightarrow> unit work" where
  "approve_step h ready =
     (if ready then move (he_now h) (he_dir h) INSTALL_APPROVAL ''The session is ready for operator install review''
      else done_with ())"

definition pipeline_steps :: "bundler \<Rightarrow> healer \<Rightarrow> string \<Rightarrow> cycle_input \<Rightarrow> (preview_execution \<times> verification_execution) work" where
  "pipeline_steps bundle h ws ci =
     andthen (move (he_now h) (he_dir h) BACKUP_READY ''Backup and restore readiness recorded for this session'') (\<lambda>_.
     andthen (preview_step bundle h ws ci) (\<lambda>preview.
     andthen (verification_step h ws ci) (\<lambda>verification.
     done_with (preview, verification))))"

definition cycle_tail :: "bundler \<Rightarrow> healer \<Rightarrow> string \<Rightarrow> cycle_input \<Rightarrow> tail_result work" where
  "cycle_tail bundle h ws ci =
     andthen (review_install h ci) (\<lambda>review.
     andthen (evaluate_gates (he_now h) (he_dir h) ci) (\<lambda>(install_gate, runtime_gate).
     andthen (pipeline_steps bundle h ws ci) (\<lambda>(preview, verification).
     let ready = install_ready ci preview verification in
     andthen (approve_step h ready) (\<lambda>_.
     andthen (settle_session h ci ready) (\<lambda>_.
     done_with \<lparr>tl_review = review, tl_install_gate = install_gate, tl_runtime_gate = runtime_gate, tl_preview = preview,
                tl_verification = verification\<rparr>)))))"

section \<open>The state of the session is only moved\<close>

definition keeps :: "string \<Rightarrow> trace \<times> disk \<Rightarrow> 'a res \<times> trace \<times> disk \<Rightarrow> bool" where
  "keeps dir st r \<longleftrightarrow> dk_read (snd (snd r)) (sub dir ''session-state.json'') = dk_read (snd st) (sub dir ''session-state.json'')"

lemma keeps_same [simp]: "keeps dir (tr, dk) (r, tr', dk)"
  by (simp add: keeps_def)

lemma keeps_walks: "(\<And>tr dk. keeps dir (tr, dk) (m (tr, dk))) \<Longrightarrow> walks dir m []"
  unfolding walks_def keeps_def by (metis in_state_cong prod.sel(2) walk_simps(1))

lemma keeps_transcript [simp]: "keeps dir st (write_transcript w dir x extra st)"
  by (cases st) (simp add: keeps_def write_transcript_def Let_def fread_fwrite worker_transcript_path_def)

lemma keeps_adapter [simp]: "keeps dir st (run_adapter w role name t dir command triggers s st)"
proof (cases st)
  case (Pair tr dk)
  obtain r tr' where a: "attempts_loop w name command (nat (attempt_budget t)) empty_log tr = (r, tr')" by force
  show ?thesis
  proof (cases r)
    case (Inr lg)
    then show ?thesis
      using keeps_transcript [of dir "(tr', dk)" w "adapter_execution (wk_now w) role name t command triggers lg"]
      by (simp add: Pair run_adapter_def a keeps_def)
  qed (simp add: Pair run_adapter_def a)
qed

lemma keeps_summary: "keeps dir st (m st) \<Longrightarrow> keeps dir st (with_summary s m st)"
  by (auto simp: with_summary_def keeps_def split: prod.splits sum.splits)

lemma keeps_goose [simp]: "keeps dir st (run_goose w rt d t dir s st)"
  by (simp add: run_goose_def no_local_worker_def keeps_summary)

lemma keeps_local [simp]: "keeps dir st (run_local_general w rt d t dir st)"
proof -
  have "keeps dir st (case m of (Inl err, s1) \<Rightarrow> (Inl err, s1)
      | (Inr x, s1) \<Rightarrow> if good_help x then (Inr x, s1) else run_goose w rt d t dir s s1)" if "keeps dir st m" for m s
    using that keeps_goose [of dir _ w rt d t s] by (auto simp: keeps_def split: prod.split sum.split)
  from this [OF keeps_adapter] show ?thesis
    unfolding run_local_general_def Let_def by (simp split: option.split list.split)
qed

lemma keeps_disk:
  "keeps dir (tr', dk') r \<Longrightarrow> dk_read dk' (sub dir ''session-state.json'') = dk_read dk (sub dir ''session-state.json'') \<Longrightarrow>
    keeps dir (tr, dk) r"
  by (simp add: keeps_def)

lemma keeps_frontier [simp]: "keeps dir st (run_gemma_frontier w rt d t dir st)"
proof (cases st)
  case (Pair tr dk)
  let ?s = "select_for_task (wn_router rt) (routed t (wt_needs_repo_edit t) True)"
  let ?code = "write_code (wk_lm w) (ms_model ?s) (task_text t) (wt_context t) ''python''"
  obtain script where s: "script = sub dir (''runtime/gemma_frontier_'' @ wk_stamp w tr @ ''.py'')" by blast
  have k: "keeps dir (tr, dk) (run_adapter w (wd_selected_worker d) ''gemma_frontier_codegen'' t dir [''python3'', script]
     (wd_escalation_triggers d) (Some ?s) (tr, write_text script ?code (dk_mkdir (sub dir ''runtime'') dk)))"
    by (rule keeps_disk [OF keeps_adapter]) (simp add: fread_write_text s)
  show ?thesis
    unfolding Pair run_gemma_frontier_def Let_def prod.case s [symmetric] using k
    by (simp split: sum.split del: append.simps)
qed

lemma keeps_execution: "keeps dir st (execute_worker w rt d t dir st)"
proof (cases st)
  case (Pair tr dk)
  let ?dk = "dk_write (sub dir ''runtime/adapter-health.json'') (JObj (adapter_health rt)) (dk_mkdir (sub dir ''runtime'') dk)"
  have health: "keeps dir (tr, ?dk) r \<Longrightarrow> keeps dir (tr, dk) r" for r :: "worker_execution res \<times> trace \<times> disk"
    by (erule keeps_disk) (simp add: fread_fwrite)
  show ?thesis unfolding Pair execute_worker_def Let_def prod.case
    by (cases "wd_selected_worker d")
      (simp_all only: worker_role.case health [OF keeps_transcript] health [OF keeps_local] health [OF keeps_adapter] health [OF keeps_frontier])
qed

lemma walks_worker: "walks dir (execute_worker w rt d t dir) []"
  by (rule keeps_walks) (rule keeps_execution)

lemma walks_review: "he_dir h = dir \<Longrightarrow> walks dir (review_install h ci) []"
  unfolding review_install_def Let_def using walks_worker [of dir] walks_pure(4)
  by (auto split: if_split intro!: walks_then0 walks_pure)

lemma walks_gates: "walks dir (evaluate_gates now dir ci) []"
proof -
  have "walks dir (on_disk (load_destructive_approval now dir)) []"
    by (rule walks_disk, unfold walk_simps(1), erule in_state_cong [rotated])
      (simp add: load_destructive_approval_def write_destructive_approval_def Let_def fread_fwrite)
  then show ?thesis unfolding evaluate_gates_def
    by (intro walks_then0 walks_pure) simp_all
qed

lemma read_preview_file:
  "dk_read (dk_write (preview_file dir n) j dk) (dir @ ''/session-state.json'') = dk_read dk (dir @ ''/session-state.json'')"
  "dk_read (write_text (preview_file dir n) s dk) (dir @ ''/session-state.json'') = dk_read dk (dir @ ''/session-state.json'')"
  "dk_read (dk_mkdir d dk) (dir @ ''/session-state.json'') = dk_read dk (dir @ ''/session-state.json'')"
  by (simp_all add: fread_fwrite fread_write_text preview_file_def)

lemma keeps_preview: "keeps dir (tr, dk) (preview_execute bundle h e ws now dir p (tr, dk))"
proof -
  obtain caps tr1 where c: "discover_host_capabilities h e ws tr = (caps, tr1)" by force
  obtain s tr2 where s: "emulator_step h caps tr1 = (s, tr2)" by force
  show ?thesis
    unfolding keeps_def preview_execute_def Let_def c s record_preview_def write_bundle_def prod.case
    by (cases s) (simp_all add: split_def read_preview_file del: dk_files_simps split: sum.split)
qed

lemma keeps_preview_defer:
  "dk_read (snd (preview_defer now dir reason p dk)) (sub dir ''session-state.json'') = dk_read dk (sub dir ''session-state.json'')"
  unfolding preview_defer_def Let_def record_preview_def
  by (simp add: read_preview_file del: dk_files_simps split: sum.split)

lemma keeps_verification:
  "dk_read (snd (record_verification dir x (dk_mkdir d dk))) (dir @ ''/session-state.json'') = dk_read dk (dir @ ''/session-state.json'')"
  by (simp add: record_verification_def Let_def fread_fwrite)

definition preview_moves :: "cycle_input \<Rightarrow> session_state_name list" where
  "preview_moves ci = (if install_candidate ci \<and> ci_execute_pipelines ci then [PREVIEW_BUILD, PREVIEW_REVIEW] else [])"

definition verification_moves :: "cycle_input \<Rightarrow> session_state_name list" where
  "verification_moves ci = (if verification_ready ci \<and> ci_execute_pipelines ci then [INTERACTIVE_VERIFY] else [])"

lemma walks_preview: "walks (he_dir h) (preview_step bundle h ws ci) (preview_moves ci)"
proof (cases "install_candidate ci \<and> ci_execute_pipelines ci")
  case True
  show ?thesis unfolding preview_step_def preview_moves_def if_P [OF True]
    by (intro walks_then1 [OF walks_move] walks_then0 [OF keeps_walks [OF keeps_preview]] walks_then [OF walks_move walks_pure(4), simplified])
next
  case False
  show ?thesis unfolding preview_step_def preview_moves_def if_not_P [OF False]
    by (rule walks_disk, unfold walk_simps(1), erule in_state_cong [rotated]) (rule keeps_preview_defer)
qed

lemma preview_value:
  assumes "preview_step bundle h ws ci st = (Inr x, st')"
  shows "pe_status x = ''executed'' \<longleftrightarrow> install_candidate ci \<and> ci_execute_pipelines ci"
proof (cases "install_candidate ci \<and> ci_execute_pipelines ci")
  case True
  then obtain st1 st2 where "preview_execute bundle (wk_host (he_world h)) (wk_env (he_world h)) ws (he_now h) (he_dir h) (preview_input_of ci) st1
      = (Inr x, st2)"
    using assms by (auto simp: preview_step_def andthen_def done_with_def split: prod.splits sum.splits)
  then have "pe_status x = ''executed''"
    by (cases st1) (auto simp: preview_execute_def record_preview_def preview_execution_of_def Let_def split: prod.splits sum.splits)
  with True show ?thesis by simp
next
  case False
  with assms show ?thesis
    by (auto simp: preview_step_def on_disk_def preview_defer_def record_preview_def Let_def split: sum.splits)
qed

lemma walks_verification: "walks (he_dir h) (verification_step h ws ci) (verification_moves ci)"
proof (cases "verification_ready ci \<and> ci_execute_pipelines ci")
  case True
  have "walks (he_dir h) (\<lambda>st. returned (verification_execute (wk_host (he_world h)) (wk_env (he_world h)) ws (he_now h) (he_dir h)
      (verification_input_of ci) st)) []"
    by (rule keeps_walks)
      (simp add: keeps_def returned_def verification_execute_def Let_def split_def keeps_verification del: dk_files_simps)
  then show ?thesis unfolding verification_step_def verification_moves_def if_P [OF True]
    by (intro walks_then1 [OF walks_move])
next
  case False
  show ?thesis unfolding verification_step_def verification_moves_def if_not_P [OF False]
    by (rule walks_disk, unfold walk_simps(1), erule in_state_cong [rotated])
      (simp add: returned_def verification_defer_def keeps_verification del: dk_files_simps)
qed

lemma verification_value:
  assumes "verification_step h ws ci st = (Inr x, st')"
  shows "ve_status x = ''executed'' \<longleftrightarrow> verification_ready ci \<and> ci_execute_pipelines ci"
  using assms
  by (cases st) (auto simp: verification_step_def andthen_def on_disk_def returned_def verification_execute_def verification_defer_def
      record_verification_def Let_def split_def split: prod.splits sum.splits if_splits)

section \<open>Where a cycle ends\<close>

definition kept_from :: "string \<Rightarrow> session_state_name \<Rightarrow> 'a work \<Rightarrow> bool" where
  "kept_from dir s m \<longleftrightarrow> (\<forall>tr dk x tr' dk'. in_state dir s dk \<longrightarrow> m (tr, dk) = (Inr x, tr', dk') \<longrightarrow>
     (\<exists>s'. in_state dir s' dk' \<and> (s' = INSTALL_APPROVAL \<longleftrightarrow> s = INSTALL_APPROVAL)))"

definition approval_kept :: "string \<Rightarrow> 'a work \<Rightarrow> bool" where
  "approval_kept dir m \<longleftrightarrow> (\<forall>s. kept_from dir s m)"

lemma andthenE:
  assumes "andthen m f (tr, dk) = (Inr y, tr', dk')"
  obtains x tr1 dk1 where "m (tr, dk) = (Inr x, tr1, dk1)" "f x (tr1, dk1) = (Inr y, tr', dk')"
proof -
  obtain r tr1 dk1 where m: "m (tr, dk) = (r, tr1, dk1)" using prod.exhaust by metis
  with assms obtain x where "r = Inr x" by (cases r) (simp_all add: andthen_def)
  with m assms that show thesis by (simp add: andthen_def)
qed

lemma kept_walks: "walks dir m ts \<Longrightarrow> (\<And>s. walk s ts = INSTALL_APPROVAL \<longleftrightarrow> s = INSTALL_APPROVAL) \<Longrightarrow> approval_kept dir m"
  unfolding walks_def approval_kept_def kept_from_def by metis

lemma kept_move: "t \<notin> set [INSTALL_APPROVAL, FLASH, BLOCKED] \<Longrightarrow> approval_kept dir (move now dir t r)"
  by (rule kept_walks [OF walks_move]) (auto simp: is_transition_allowed_def)

lemma kept_from_then: "kept_from dir s m \<Longrightarrow> (\<And>x. approval_kept dir (f x)) \<Longrightarrow> kept_from dir s (andthen m f)"
  unfolding kept_from_def approval_kept_def by (blast elim: andthenE)

lemma kept_then: "approval_kept dir m \<Longrightarrow> (\<And>x. approval_kept dir (f x)) \<Longrightarrow> approval_kept dir (andthen m f)"
  using kept_from_then unfolding approval_kept_def by blast

lemma kept_pure: "approval_kept dir (pure_step r)" "approval_kept dir (from_disk f)" "approval_kept dir (done_with x)"
  by (rule kept_walks [OF walks_pure(1)] kept_walks [OF walks_pure(3)] kept_walks [OF walks_pure(4)], simp)+

lemma kept_load:
  assumes "\<And>st. kept_from dir (ss_state st) (f st)"
  shows "approval_kept dir (andthen (from_disk (\<lambda>dk. load_session_state now dk dir)) f)"
  unfolding approval_kept_def kept_from_def
proof (intro allI impI)
  fix s tr dk x tr' dk'
  assume s: "in_state dir s dk" and run: "andthen (from_disk (\<lambda>dk. load_session_state now dk dir)) f (tr, dk) = (Inr x, tr', dk')"
  obtain st where st: "load_session_state now dk dir = Inr st" "ss_state st = s" by (rule in_stateE [OF s])
  with run have "f st (tr, dk) = (Inr x, tr', dk')" by (simp add: andthen_def from_disk_def)
  with assms [of st] s st show "\<exists>s'. in_state dir s' dk' \<and> (s' = INSTALL_APPROVAL \<longleftrightarrow> s = INSTALL_APPROVAL)"
    unfolding kept_from_def by blast
qed

lemma kept_count: "kept_from dir (ss_state st) (to_disk (write_session_state now dir (st\<lparr>ss_iterate_count := n\<rparr>)))"
  unfolding kept_from_def to_disk_def by (auto intro!: exI [of _ "ss_state st"])

lemma kept_iterations: "approval_kept dir (set_iterations now dir n)"
  unfolding set_iterations_def by (intro kept_load kept_count)

lemma kept_scan: "approval_kept dir (perform_deep_scan host dir p)"
proof -
  have "walks dir (on_disk (record_rescan dir d)) []" for d
    by (rule walks_disk, unfold walk_simps(1), erule in_state_cong [rotated])
      (auto simp: record_rescan_def write_device_profile_def fread_fwrite split: sum.split)
  then have "walks dir (perform_deep_scan host dir p) []"
    unfolding perform_deep_scan_def
    by (intro walks_then0 [OF walks_pure(2)]) (auto split: option.split intro: walks_pure walks_then0)
  then show ?thesis by (rule kept_walks) simp
qed

lemma kept_hold: "approval_kept (he_dir h) (hold_session h)"
proof -
  have "approval_kept (he_dir h) (andthen (move (he_now h) (he_dir h) DEEP_SCAN ''Consecutive ITERATE cycles detected - forcing device re-probe'') (\<lambda>_.
       andthen (from_disk (\<lambda>dk. load_device_profile dk (he_dir h))) (\<lambda>profile.
       andthen (perform_deep_scan (wk_host (he_world h)) (he_dir h) profile) (\<lambda>_. done_with ()))))"
    by (intro kept_then kept_move kept_pure kept_scan) simp
  note again = kept_from_then [OF kept_count this]
  have "kept_from (he_dir h) (ss_state st) (if 2 \<le> ss_iterate_count st + 1 then
       andthen (to_disk (write_session_state (he_now h) (he_dir h) (st\<lparr>ss_iterate_count := 0\<rparr>))) (\<lambda>_.
       andthen (move (he_now h) (he_dir h) DEEP_SCAN ''Consecutive ITERATE cycles detected - forcing device re-probe'') (\<lambda>_.
       andthen (from_disk (\<lambda>dk. load_device_profile dk (he_dir h))) (\<lambda>profile.
       andthen (perform_deep_scan (wk_host (he_world h)) (he_dir h) profile) (\<lambda>_. done_with ()))))
     else to_disk (write_session_state (he_now h) (he_dir h) (st\<lparr>ss_iterate_count := ss_iterate_count st + 1\<rparr>)))" for st
    using again [of st] kept_count [of "he_dir h" st]
    by (cases "2 \<le> ss_iterate_count st + 1") (simp_all only: if_True if_False simp_thms)
  then show ?thesis unfolding hold_session_def by (intro kept_then kept_move kept_load) simp_all
qed

lemma kept_settle: "approval_kept (he_dir h) (settle_session h ci ready)"
proof -
  have "approval_kept (he_dir h) (andthen (set_iterations (he_now h) (he_dir h) 0) (\<lambda>_.
         move (he_now h) (he_dir h) BUILD_GENERIC ''No blockers detected - advancing toward build stage''))"
    by (intro kept_then kept_iterations kept_move) simp
  moreover have "approval_kept (he_dir h) (move (he_now h) (he_dir h) QUESTION_GATE ''Runtime hit a true external-action or approval boundary'')"
    by (rule kept_move) simp
  ultimately show ?thesis unfolding settle_session_def
    by (intro kept_then kept_pure) (simp add: kept_iterations kept_hold kept_pure)
qed

section \<open>The open blocker\<close>

text \<open>The question put to the language model; a field that is missing prints as \<open>None\<close>.\<close>

definition opt_str :: "string option \<Rightarrow> string" where
  "opt_str v = py_str (jopt JStr v)"

definition gemma_prompt :: "device_profile \<Rightarrow> jdict \<Rightarrow> jdict \<Rightarrow> string" where
  "gemma_prompt p device_context blocker =
     ''Device: '' @ opt_str (dp_manufacturer p) @ '' '' @ opt_str (dp_model p) @ '' ('' @ dp_device_codename p @ ''), Android ''
     @ opt_str (dp_android_version p) @ '', transport='' @ dstr device_context ''transport'' ''unknown'' @ ''.'' @ [CHR 0x0A]
     @ ''Blocker type: '' @ py_str (dget0 blocker ''blocker_type'') @ [CHR 0x0A]
     @ ''Summary: '' @ dstr blocker ''summary'' [] @ [CHR 0x0A]
     @ ''User steps: '' @ py_str (dget blocker ''user_steps'' (JList [])) @ [CHR 0x0A, CHR 0x0A]
     @ ''Decide the best autonomous action. Reply with exactly one of:'' @ [CHR 0x0A]
     @ ''{\"action\":\"install_tool\",\"tool\":\"<tool_name>\"}'' @ [CHR 0x0A]
     @ ''{\"action\":\"download_firmware\",\"codename\":\"<codename>\"}'' @ [CHR 0x0A]
     @ ''{\"action\":\"run_command\",\"command\":\"<adb or fastboot command>\"}'' @ [CHR 0x0A]
     @ ''{\"action\":\"ask_operator\",\"reason\":\"<why human is needed>\"}''"

definition try_gemma_resolution ::
    "healer \<Rightarrow> (string \<Rightarrow> bool) \<Rightarrow> (string \<Rightarrow> bool) \<Rightarrow> device_profile \<Rightarrow> jdict \<Rightarrow> jdict \<Rightarrow> bool proc" where
  "try_gemma_resolution h ensure download p device_context blocker =
     gemma_resolution (wk_host (he_world h)) ensure download (dp_device_codename p)
       (ask (wk_lm (he_world h)) (ms_model (router_select (wn_router (he_runtime h)) ''frontier'' default_task))
          (gemma_prompt p device_context blocker) JNull (1 / 10))"

definition opt_or :: "string option \<Rightarrow> string \<Rightarrow> string" where
  "opt_or v dflt = (case v of None \<Rightarrow> dflt | Some s \<Rightarrow> or_else s dflt)"

text \<open>
  Research on the open blocker, once per type of blocker: a document that is already there is not
  asked for again.
\<close>

definition research_open_blocker :: "healer \<Rightarrow> researcher \<Rightarrow> bool \<Rightarrow> device_profile \<Rightarrow> jdict \<Rightarrow> cycle_input \<Rightarrow> json \<Rightarrow> unit work" where
  "research_open_blocker h rs model_worker_allowed p device_context ci blocker_type = (\<lambda>(tr, dk).
     if ci_execute_workers ci \<and> model_worker_allowed
        \<and> blocker_type \<notin> set [JStr ''none'', JStr ''policy_blocker'', JStr ''source_blocker'']
        \<and> \<not> dk_exists dk (research_path (he_dir h) (''blocker_'' @ py_str blocker_type))
     then (case research_open_question rs (he_now h) (he_dir h) (opt_or (dp_manufacturer p) ''Unknown'') (opt_or (dp_model p) ''Unknown'')
                  (py_str blocker_type) (py_str (dget (ci_blocker ci) ''summary'' blocker_type))
                  (dstr device_context ''transport'' ''unknown'') (tr, dk) of
             (r, st') \<Rightarrow> (bindr r (\<lambda>_. Inr ()), st'))
     else (Inr (), tr, dk))"

text \<open>The branch of a cycle whose blocker no machine remediates: whether the language model acted.\<close>

definition face_blocker ::
    "healer \<Rightarrow> (string \<Rightarrow> bool) \<Rightarrow> (string \<Rightarrow> bool) \<Rightarrow> researcher \<Rightarrow> bool \<Rightarrow> device_profile \<Rightarrow> jdict \<Rightarrow> cycle_input \<Rightarrow> bool work" where
  "face_blocker h ensure download rs model_worker_allowed p device_context ci =
     andthen (pure_step (dindex (ci_blocker ci) ''blocker_type'')) (\<lambda>blocker_type.
     if blocker_type = JStr ''none'' then done_with False
     else andthen (if ci_execute_workers ci \<and> model_worker_allowed \<and> blocker_type \<noteq> JStr ''policy_blocker''
                   then on_host (try_gemma_resolution h ensure download p device_context (ci_blocker ci)) else done_with False)
       (\<lambda>acted. if acted then done_with True
                else andthen (research_open_blocker h rs model_worker_allowed p device_context ci blocker_type) (\<lambda>_.
                     andthen (move (he_now h) (he_dir h) QUESTION_GATE ''Blocker requires external action or approval'')
                       (\<lambda>_. done_with False))))"

lemma walks_research: "he_dir h = dir \<Longrightarrow> walks dir (research_open_blocker h rs allowed p context ci b) []"
proof (rule keeps_walks)
  fix tr dk
  assume dir: "he_dir h = dir"
  have "keeps dir (tr, dk) (research_open_question rs now dir m n t s u (tr, dk))" for now m n t s u
  proof (cases "read_backup_facts rs dir dk")
    case (Inr facts)
    define q where "q = \<lparr>qn_topic = ''blocker_'' @ t,
          qn_ollama = blocker_question (format_device_summary (facts_props facts) facts) s t u,
          qn_goose = blocker_search (dstr_or (facts_props facts) ''manufacturer'' m) (dstr_or (facts_props facts) ''model'' n) s t u,
          qn_extract = extract_blocker rs, qn_fallback = blocker_fallback\<rparr>"
    obtain r tr' dk' where run: "run_with_fallback rs now dir q (tr, dk) = (r, tr', dk')" by (metis prod_cases3)
    from run_with_fallback_saves [where rs = rs and now = now and dir = dir and q = q and tr = tr and dk = dk] run
    have "dk_read dk' (sub dir ''session-state.json'') = dk_read dk (sub dir ''session-state.json'')"
      by (simp add: research_path_def fread_fwrite)
    with run show ?thesis by (simp add: research_open_question_def with_backup_def Inr Let_def q_def keeps_def)
  qed (simp add: research_open_question_def with_backup_def)
  then show "keeps dir (tr, dk) (research_open_blocker h rs allowed p context ci b (tr, dk))"
    by (simp add: research_open_blocker_def dir keeps_def split_def)
qed

section \<open>Which cycles end in the approval of the install\<close>

definition tail_moves :: "cycle_input \<Rightarrow> session_state_name list" where
  "tail_moves ci = BACKUP_READY # preview_moves ci @ verification_moves ci"

lemma walks_pipeline: "walks (he_dir h) (pipeline_steps bundle h ws ci) (tail_moves ci)"
  unfolding pipeline_steps_def tail_moves_def
  by (intro walks_then1 [OF walks_move] walks_then [OF walks_preview] walks_then [OF walks_verification walks_pure(4), simplified])

lemma pipeline_ready:
  assumes "pipeline_steps bundle h ws ci st = (Inr (x, y), st')"
  shows "install_ready ci x y \<longleftrightarrow> verification_ready ci \<and> ci_execute_pipelines ci"
proof -
  obtain st1 st2 st3 where "preview_step bundle h ws ci st1 = (Inr x, st2)" "verification_step h ws ci st2 = (Inr y, st3)"
    using assms by (auto simp: pipeline_steps_def andthen_def done_with_def split: prod.splits sum.splits)
  from preview_value [OF this(1)] verification_value [OF this(2)] show ?thesis
    by (auto simp: install_ready_def verification_ready_def install_candidate_def)
qed

lemma tail_steps:
  assumes "cycle_tail bundle h ws ci (tr, dk) = (Inr r, tr', dk')"
  obtains q tr1 dk1 g tr2 dk2 x y tr3 dk3 u tr4 dk4 v where
    "review_install h ci (tr, dk) = (Inr q, tr1, dk1)"
    "evaluate_gates (he_now h) (he_dir h) ci (tr1, dk1) = (Inr g, tr2, dk2)"
    "pipeline_steps bundle h ws ci (tr2, dk2) = (Inr (x, y), tr3, dk3)"
    "approve_step h (install_ready ci x y) (tr3, dk3) = (Inr u, tr4, dk4)"
    "settle_session h ci (install_ready ci x y) (tr4, dk4) = (Inr v, tr', dk')"
  using assms unfolding cycle_tail_def
  by (auto simp: Let_def done_with_def elim!: andthenE)

lemma tail_approval:
  assumes "in_state (he_dir h) s dk" and "s \<in> set [BLOCKER_CLASSIFY, QUESTION_GATE]"
    and "cycle_tail bundle h ws ci (tr, dk) = (Inr r, tr', dk')"
  shows "\<exists>s'. in_state (he_dir h) s' dk'
    \<and> (s' = INSTALL_APPROVAL \<longleftrightarrow> s = QUESTION_GATE \<and> verification_ready ci \<and> ci_execute_pipelines ci)"
proof -
  obtain q tr1 dk1 g tr2 dk2 x y tr3 dk3 u tr4 dk4 v where
    1: "review_install h ci (tr, dk) = (Inr q, tr1, dk1)"
    and 2: "evaluate_gates (he_now h) (he_dir h) ci (tr1, dk1) = (Inr g, tr2, dk2)"
    and 3: "pipeline_steps bundle h ws ci (tr2, dk2) = (Inr (x, y), tr3, dk3)"
    and 4: "approve_step h (install_ready ci x y) (tr3, dk3) = (Inr u, tr4, dk4)"
    and 5: "settle_session h ci (install_ready ci x y) (tr4, dk4) = (Inr v, tr', dk')"
    by (rule tail_steps [OF assms(3)])
  have s3: "in_state (he_dir h) (walk (walk (walk s []) []) (tail_moves ci)) dk3"
    by (rule walksD [OF walks_pipeline walksD [OF walks_gates walksD [OF walks_review assms(1) 1] 2] 3]) simp
  have a: "walks (he_dir h) (approve_step h b) (if b then [INSTALL_APPROVAL] else [])" for b
    by (simp add: approve_step_def walks_move walks_pure)
  have s4: "in_state (he_dir h) (walk s (tail_moves ci @ (if install_ready ci x y then [INSTALL_APPROVAL] else []))) dk4"
    using walksD [OF a s3 4] by simp
  let ?s4 = "walk s (tail_moves ci @ (if install_ready ci x y then [INSTALL_APPROVAL] else []))"
  have "verification_ready ci \<Longrightarrow> install_candidate ci" by (simp add: verification_ready_def)
  then have "?s4 = INSTALL_APPROVAL \<longleftrightarrow> s = QUESTION_GATE \<and> verification_ready ci \<and> ci_execute_pipelines ci"
    using assms(2) pipeline_ready [OF 3]
    by (auto simp: tail_moves_def preview_moves_def verification_moves_def is_transition_allowed_def)
  with kept_settle [of h ci] s4 5 show ?thesis unfolding approval_kept_def kept_from_def by metis
qed


section \<open>A cycle that asks for the approval\<close>

lemma emulator_returns: "\<exists>step emulated tr'. emulator_step h (capability_report h e ws tools models avds) tr = (Inr (step, emulated), tr')"
  by (auto simp: emulator_step_def capability_report_def first_avd_def jstrs_def Let_def split_def)

lemma preview_returns:
  assumes "adapter_readiness (pv_connection_plan p) = Inr a" "preview_texts p = Inr b"
  shows "\<exists>x tr' dk'. preview_execute bundle h e ws now dir p (tr, dk) = (Inr x, tr', dk')"
proof -
  obtain tools models avds tr1 where c: "discover_host_capabilities h e ws tr = (capability_report h e ws tools models avds, tr1)"
    by (simp add: discover_host_capabilities_def split_def Let_def)
  obtain step emulated tr2 where "emulator_step h (capability_report h e ws tools models avds) tr1 = (Inr (step, emulated), tr2)"
    using emulator_returns by blast
  moreover obtain m where "capability_matrix p (capability_report h e ws tools models avds) = Inr m"
    by (simp add: capability_matrix_def shared_capabilities_def assms(1))
  moreover obtain f g where "b = (f, g)" by (cases b)
  ultimately show ?thesis
    by (simp add: preview_execute_def c Let_def assms(2) record_preview_def)
qed

text \<open>Operations that return from every disk on which the session can be read.\<close>

definition total :: "string \<Rightarrow> 'a work \<Rightarrow> bool" where
  "total dir m \<longleftrightarrow> (\<forall>s tr dk. in_state dir s dk \<longrightarrow> (\<exists>x tr' dk' s'. m (tr, dk) = (Inr x, tr', dk') \<and> in_state dir s' dk'))"

lemma total_then: "total dir m \<Longrightarrow> (\<And>x. total dir (f x)) \<Longrightarrow> total dir (andthen m f)"
  unfolding total_def andthen_def by (metis (mono_tags, lifting) old.prod.case old.sum.simps(6))

lemma total_walks: "walks dir m ts \<Longrightarrow> (\<And>s tr dk. in_state dir s dk \<Longrightarrow> \<exists>x tr' dk'. m (tr, dk) = (Inr x, tr', dk')) \<Longrightarrow> total dir m"
  unfolding total_def walks_def by metis

lemma total_move: "total dir (move now dir t r)"
proof (rule total_walks [OF walks_move])
  fix s tr dk
  assume s: "in_state dir s dk"
  obtain st where "load_session_state now dk dir = Inr st" by (rule in_stateE [OF s])
  then show "\<exists>x tr' dk'. move now dir t r (tr, dk) = (Inr x, tr', dk')"
    by (simp add: move_def on_disk_def safe_transition_def transition_def Let_def)
qed

lemma total_done: "total dir (done_with x)" "total dir (pure_step (Inr x))"
  by (auto simp: total_def done_with_def pure_step_def)

lemma total_preview:
  assumes "adapter_readiness (ci_connection_plan ci) = Inr a" "preview_texts (preview_input_of ci) = Inr b"
  shows "total (he_dir h) (preview_step bundle h ws ci)"
proof -
  have "total (he_dir h) (preview_execute bundle host e ws now (he_dir h) (preview_input_of ci))" for host e now
    using preview_returns [of "preview_input_of ci"] assms
    by (intro total_walks [OF keeps_walks [OF keeps_preview]]) (simp add: preview_input_of_def)
  moreover have "total (he_dir h) (on_disk (preview_defer now (he_dir h) why (preview_input_of ci)))" for now why
    by (rule total_walks [where ts = "[]"], rule walks_disk, unfold walk_simps(1), erule in_state_cong [rotated], rule keeps_preview_defer)
      (use assms(1) in \<open>simp add: on_disk_def preview_defer_def shared_capabilities_def record_preview_def preview_input_of_def Let_def\<close>)
  ultimately show ?thesis
    unfolding preview_step_def by (auto intro!: total_then total_move total_done)
qed

lemma total_verification: "total (he_dir h) (verification_step h ws ci)"
proof (rule total_walks [OF walks_verification])
  fix s tr dk
  assume "in_state (he_dir h) s dk"
  then obtain u tr1 dk1 where "move (he_now h) (he_dir h) INTERACTIVE_VERIFY ''ForgeOS is running verification before any install decision'' (tr, dk)
      = (Inr u, tr1, dk1)"
    using total_move unfolding total_def by metis
  then have "\<exists>x st'. verification_step h ws ci (tr, dk) = (Inr x, st')"
    by (simp add: verification_step_def andthen_def returned_def on_disk_def)
  then show "\<exists>x tr' dk'. verification_step h ws ci (tr, dk) = (Inr x, tr', dk')" by (metis surj_pair)
qed

lemma total_pipeline:
  assumes "adapter_readiness (ci_connection_plan ci) = Inr a" "preview_texts (preview_input_of ci) = Inr b"
  shows "total (he_dir h) (pipeline_steps bundle h ws ci)"
  unfolding pipeline_steps_def by (intro total_then total_move total_preview [OF assms] total_verification total_done)

lemma total_approve: "total (he_dir h) (approve_step h b)"
  by (simp add: approve_step_def total_move total_done)

lemma then_known: "andthen (pure_step (Inr b)) f = f b"
  by (rule ext) (simp add: andthen_def pure_step_def split: prod.splits)

lemma total_settle:
  assumes "dindex (ci_blocker ci) ''blocker_type'' = Inr b" "b \<noteq> JStr ''none''"
  shows "total (he_dir h) (settle_session h ci ready)"
  by (simp add: settle_session_def assms then_known total_move total_done)

definition approval_on :: "string \<Rightarrow> destructive_approval \<Rightarrow> disk \<Rightarrow> bool" where
  "approval_on dir approval dk \<longleftrightarrow>
     (\<exists>j. dk_read dk (sub dir ''destructive-approval.json'') = Some (FJson j)
        \<and> (\<forall>now. destructive_approval_from_dict now j = Inr approval))"

lemma approval_loads: "approval_on dir approval dk \<Longrightarrow> load_destructive_approval now dir dk = (Inr approval, dk)"
  by (auto simp: approval_on_def load_destructive_approval_def dk_exists_def fexists_def load_doc_def)

lemma approval_on_written [simp]: "approval_on dir approval (write_session_state now dir st dk) = approval_on dir approval dk"
  by (simp add: approval_on_def write_session_state_def fread_atomic_write tmp_path_def)

text \<open>With a blocker, and once the gates can be evaluated, the rest of the cycle always returns.\<close>

lemma tail_returns:
  assumes s: "in_state (he_dir h) s dk" and "\<not> fp_requires_wipe (ci_flash_plan ci)"
    and "approval_on (he_dir h) approval dk"
    and "evaluate_research_gate (he_now h) (ci_blocker ci) = Inr g"
    and ok: "adapter_readiness (ci_connection_plan ci) = Inr a" "preview_texts (preview_input_of ci) = Inr b"
    and q: "dindex (ci_blocker ci) ''blocker_type'' = Inr blocker" "blocker \<noteq> JStr ''none''"
  shows "\<exists>r tr' dk'. cycle_tail bundle h ws ci (tr, dk) = (Inr r, tr', dk')"
proof -
  let ?gates = "(evaluate_install_gate (he_now h) (ci_policy ci) (ci_flash_plan ci) approval (ci_backup_plan ci), g)"
  have 1: "review_install h ci (tr, dk) = (Inr None, tr, dk)" using assms(2) by (simp add: review_install_def done_with_def)
  have 2: "evaluate_gates (he_now h) (he_dir h) ci (tr, dk) = (Inr ?gates, tr, dk)"
    using approval_loads [OF assms(3)] assms(4) by (simp add: evaluate_gates_def andthen_def on_disk_def pure_step_def done_with_def)
  obtain x y tr3 dk3 s3 where 3: "pipeline_steps bundle h ws ci (tr, dk) = (Inr (x, y), tr3, dk3)" "in_state (he_dir h) s3 dk3"
    using total_pipeline [OF ok, of h "bundle" ws] s unfolding total_def by (metis surj_pair)
  obtain u tr4 dk4 s4 where 4: "approve_step h (install_ready ci x y) (tr3, dk3) = (Inr u, tr4, dk4)" "in_state (he_dir h) s4 dk4"
    using total_approve [of h] 3(2) unfolding total_def by metis
  obtain v tr5 dk5 where 5: "settle_session h ci (install_ready ci x y) (tr4, dk4) = (Inr v, tr5, dk5)"
    using total_settle [OF q, of h] 4(2) unfolding total_def by metis
  show ?thesis by (simp add: cycle_tail_def andthen_def 1 2 3(1) 4(1) 5 Let_def done_with_def)
qed

lemma face_policy_blocker:
  assumes "in_state (he_dir h) BLOCKER_CLASSIFY dk" "dindex (ci_blocker ci) ''blocker_type'' = Inr (JStr ''policy_blocker'')"
    and "approval_on (he_dir h) approval dk"
  obtains dk1 where "face_blocker h ensure download rs allowed p context ci (tr, dk) = (Inr False, tr, dk1)"
    "in_state (he_dir h) QUESTION_GATE dk1" "approval_on (he_dir h) approval dk1"
proof -
  obtain st where st: "load_session_state (he_now h) dk (he_dir h) = Inr st" "ss_state st = BLOCKER_CLASSIFY"
    by (rule in_stateE [OF assms(1)])
  let ?dk1 = "write_session_state (he_now h) (he_dir h)
     (push_transition (he_now h) QUESTION_GATE ''Blocker requires external action or approval'' st) dk"
  have "safe_transition (he_now h) (he_dir h) QUESTION_GATE ''Blocker requires external action or approval'' dk = (Inr (), ?dk1)"
    using st by (simp add: safe_transition_def transition_def Let_def is_transition_allowed_def)
  then have "face_blocker h ensure download rs allowed p context ci (tr, dk) = (Inr False, tr, ?dk1)"
    by (simp add: face_blocker_def research_open_blocker_def andthen_def pure_step_def done_with_def assms(2) move_def on_disk_def)
  moreover have "in_state (he_dir h) QUESTION_GATE ?dk1" by (simp add: push_transition_def)
  moreover have "approval_on (he_dir h) approval ?dk1" using assms(3) by simp
  ultimately show thesis by (rule that)
qed

definition demo_researcher :: researcher where
  "demo_researcher = \<lparr>rs_host = wk_host (he_world demo_healer), rs_env = [], rs_router = wn_router (he_runtime demo_healer),
     rs_loads = (\<lambda>_. None), rs_json_error = (\<lambda>_. []), rs_float = (\<lambda>_. None)\<rparr>"

definition demo_profile :: device_profile where
  "demo_profile = bare_profile ''d'' ''fp'' T_USB_ADB"

definition demo_plan :: flash_plan where
  "demo_plan =
     \<lparr>fp_session_id = ''d'', fp_build_path = ''maintainable_hardened_path'', fp_dry_run = True, fp_requires_unlock = False,
      fp_requires_wipe = False, fp_restore_path_available = True, fp_artifacts_ready = True, fp_install_mode = ''sideload'',
      fp_artifact_manifest_path = [], fp_artifact_bundle_path = [], fp_transport = ''usb-adb'', fp_step_count = 0, fp_steps = [],
      fp_artifact_hints = [], fp_status = ''planned'', fp_summary = [], fp_generated_at = ''t'', fp_updated_at = ''t''\<rparr>"

definition demo_blocked_cycle :: cycle_input where
  "demo_blocked_cycle =
     \<lparr>ci_policy = default_policy, ci_flash_plan = demo_plan,
      ci_backup_plan = [(''restore_path_feasible'', JBool True)], ci_restore_plan = [],
      ci_blocker = [(''blocker_type'', JStr ''policy_blocker''), (''machine_solvable'', JBool True)],
      ci_assessment = [(''support_status'', JStr ''actionable'')], ci_build_plan = [], ci_recommendation = [],
      ci_connection_plan = [], ci_transport = T_USB_ADB, ci_execute_workers = True, ci_execute_pipelines = True\<rparr>"

lemma demo_cycle_ready: "verification_ready demo_blocked_cycle"
  by (simp add: verification_ready_def install_candidate_def manageable_transport_def manageable_transports_def
      demo_blocked_cycle_def demo_plan_def)

definition demo_classified :: disk where
  "demo_classified = write_session_state ''t'' ''devices/d'' ((new_session_state ''d'' ''t'')\<lparr>ss_state := BLOCKER_CLASSIFY\<rparr>)
     (write_destructive_approval ''t'' ''devices/d'' (default_destructive_approval ''d'' ''t'') \<lparr>dk_files = [], dk_dirs = []\<rparr>)"

lemma demo_classified_state: "in_state ''devices/d'' BLOCKER_CLASSIFY demo_classified"
  by (simp add: demo_classified_def)

lemma demo_classified_approval: "\<exists>a. approval_on ''devices/d'' a demo_classified"
  by (simp add: demo_classified_def approval_on_def write_destructive_approval_def write_session_state_def
      fread_atomic_write fread_fwrite tmp_path_def)


end
