(* ===== verification/Firmware_Downloader.thy ===== *)
theory Firmware_Downloader
  imports Deliberation Gemma_Engine Host_Capabilities
begin

text \<open>
  \<open>app/tools/firmware_downloader.py\<close>: firmware from a list of sources, one after the other, into the
  folder of the staged sources; and \<open>app/tools/tool_installer.py\<close>. The network is a parameter:
  \<open>wb_json\<close> and \<open>wb_page\<close> are what a query returns, decoded, and \<open>wb_body\<close> the bytes a download reads
  and whether it came to its end; \<open>None\<close> is a request that raises. \<open>wb_opens\<close> tells where a file can be
  created. The state is the list of the addresses downloaded from and the files by path.
\<close>

record web =
  wb_json :: "string \<Rightarrow> json option"
  wb_page :: "string \<Rightarrow> string option"
  wb_body :: "string \<Rightarrow> (string \<times> bool) option"
  wb_opens :: "string \<Rightarrow> bool"

type_synonym blobs = "(string \<times> string) list"
type_synonym downloads = "string list \<times> blobs"

section \<open>Trusted hosts\<close>

definition trusted_host_suffixes :: "string list" where
  "trusted_host_suffixes =
     [''google.com'', ''android.com'', ''lineageos.org'', ''twrp.me'', ''grapheneos.org'', ''calyxos.org'', ''github.com'',
      ''githubusercontent.com'', ''sourceforge.net'', ''samfw.com'', ''firmwarefile.com'']"

text \<open>
  \<open>urlparse(url).netloc\<close>: leading blanks and control characters and all tabs and line ends are dropped,
  then a scheme, then what is between two slashes and the path. A single bracket raises; the check
  of a bracketed address is left out.
\<close>

definition ascii_letter :: "char \<Rightarrow> bool" where
  "ascii_letter c \<longleftrightarrow> (let n = code_point c in 65 \<le> n \<and> n \<le> 90 \<or> 97 \<le> n \<and> n \<le> 122)"

definition scheme_char :: "char \<Rightarrow> bool" where
  "scheme_char c \<longleftrightarrow> ascii_letter c \<or> is_digit c \<or> c \<in> set ''+-.''"

definition clean_url :: "string \<Rightarrow> string" where
  "clean_url url =
     filter (\<lambda>c. c \<notin> {CHR 0x09, CHR 0x0A, CHR 0x0D}) (dropWhile (\<lambda>c. code_point c \<le> 32) url)"

definition without_scheme :: "string \<Rightarrow> string" where
  "without_scheme url =
     (let scheme = takeWhile (\<lambda>c. c \<noteq> CHR '':'') url in
      if CHR '':'' \<in> set url \<and> scheme \<noteq> [] \<and> ascii_letter (hd scheme) \<and> list_all scheme_char scheme
      then drop (length scheme + 1) url else url)"

definition netloc_of :: "string \<Rightarrow> string res" where
  "netloc_of url =
     (let rest = without_scheme (clean_url url);
          netloc = (if starts_with rest ''//'' then takeWhile (\<lambda>c. c \<notin> set ''/?#'') (drop 2 rest) else [])
      in if (CHR ''['' \<in> set netloc) \<noteq> (CHR '']'' \<in> set netloc) then Inl (ValueError ''Invalid IPv6 URL'') else Inr netloc)"

definition trusted_netloc :: "string \<Rightarrow> bool" where
  "trusted_netloc host \<longleftrightarrow> list_ex (\<lambda>s. host = s \<or> ends_with host (''.'' @ s)) trusted_host_suffixes"

definition is_trusted_host :: "json \<Rightarrow> bool res" where
  "is_trusted_host url = bindr (as_str url) (\<lambda>u. bindr (netloc_of u) (\<lambda>host. Inr (trusted_netloc (lower host))))"

section \<open>Downloading\<close>

definition blob :: "blobs \<Rightarrow> string \<Rightarrow> string option" where
  "blob bs p = map_of bs p"

definition file_name_of :: "string \<Rightarrow> string" where
  "file_name_of url = last (split_on (CHR ''/'') url)"

text \<open>\<open>path.with_suffix(".part")\<close>.\<close>

definition part_path :: "string \<Rightarrow> string" where
  "part_path p = take (length p - length (path_suffix (file_name_of p))) p @ ''.part''"

definition mib :: nat where
  "mib = 1024 * 1024"

text \<open>A download that breaks off leaves what it wrote; one that is too small is removed.\<close>

definition download :: "web \<Rightarrow> string \<Rightarrow> string \<Rightarrow> nat \<Rightarrow> downloads \<Rightarrow> bool \<times> downloads" where
  "download w url path min_size_mb = (\<lambda>(urls, bs).
     case wb_body w url of
       None \<Rightarrow> (False, urls @ [url], bs)
     | Some (body, ended) \<Rightarrow>
         if \<not> wb_opens w (part_path path) then (False, urls @ [url], bs)
         else if \<not> ended then (False, urls @ [url], AList.update (part_path path) body bs)
         else if length body < min_size_mb * mib then (False, urls @ [url], AList.delete (part_path path) bs)
         else (True, urls @ [url], AList.update path body (AList.delete (part_path path) bs)))"

text \<open>A file that is already there is taken as it is.\<close>

definition stage_unless_there :: "web \<Rightarrow> json \<Rightarrow> string \<Rightarrow> nat \<Rightarrow> downloads \<Rightarrow> string option \<times> downloads" where
  "stage_unless_there w url path min_size_mb st =
     (if blob (snd st) path \<noteq> None then (Some path, st)
      else case url of
          JStr u \<Rightarrow> (case download w u path min_size_mb st of (ok, st') \<Rightarrow> (if ok then Some path else None, st'))
        | _ \<Rightarrow> (None, st))"

section \<open>The sources\<close>

definition lineageos_api :: "string \<Rightarrow> string" where
  "lineageos_api codename = ''https://download.lineageos.org/api/v1/device/'' @ codename @ ''/builds/nightly''"

definition fetch_lineageos :: "web \<Rightarrow> string \<Rightarrow> json" where
  "fetch_lineageos w codename =
     (case wb_json w (lineageos_api codename) of
        Some (JList builds) \<Rightarrow> JList builds
      | Some (JObj d) \<Rightarrow> jor (dget d ''response'' (JList [])) (JList [])
      | _ \<Rightarrow> JList [])"

definition latest_build :: "json \<Rightarrow> jdict res" where
  "latest_build builds = (case builds of JList (b # _) \<Rightarrow> as_dict b | _ \<Rightarrow> Inl (TypeError ''builds''))"

definition try_lineageos :: "web \<Rightarrow> string \<Rightarrow> string \<Rightarrow> downloads \<Rightarrow> string option res \<times> downloads" where
  "try_lineageos w codename dest st =
     (let builds = fetch_lineageos w codename in
      if \<not> truthy builds then (Inr None, st)
      else case bindr (latest_build builds) (\<lambda>b.
              let url = jor (dget0 b ''url'') (dget b ''download_url'' (JStr [])) in
              if truthy url then bindr (is_trusted_host url) (\<lambda>ok. Inr (url, ok)) else Inr (url, False)) of
          Inl err \<Rightarrow> (Inl err, st)
        | Inr (url, ok) \<Rightarrow>
            if \<not> ok then (Inr None, st)
            else let name = or_else (file_name_of (py_str url)) (''lineageos-'' @ codename @ ''.zip'');
                     (r, st') = stage_unless_there w url (path_join dest name) 50 st
                 in (Inr r, st'))"

definition twrp_base :: "string \<Rightarrow> string" where
  "twrp_base codename = ''https://dl.twrp.me/'' @ codename @ ''/''"

text \<open>\<open>re.compile(r'href="([^"]+\.img)"', re.IGNORECASE).findall(html)\<close>.\<close>

definition href_at :: "string \<Rightarrow> string option" where
  "href_at s =
     (let v = takeWhile (\<lambda>c. c \<noteq> CHR 0x22) (drop 6 s) in
      if lower (take 6 s) = ''href='' @ [CHR 0x22] \<and> length v + 6 < length s \<and> 4 < length v \<and> ends_with (lower v) ''.img''
      then Some v else None)"

fun image_links :: "string \<Rightarrow> string list" where
  "image_links [] = []"
| "image_links (c # s) = (case href_at (c # s) of Some v \<Rightarrow> [v] | None \<Rightarrow> []) @ image_links s"

definition fetch_twrp :: "web \<Rightarrow> string \<Rightarrow> string option" where
  "fetch_twrp w codename =
     (case wb_page w (twrp_base codename) of
        None \<Rightarrow> None
      | Some html \<Rightarrow>
          (let links = image_links html; link = last links in
           if links = [] then None
           else if starts_with link ''http'' then Some link
           else if starts_with link ''/'' then Some (''https://dl.twrp.me'' @ link)
           else Some (twrp_base codename @ link)))"

definition try_twrp :: "web \<Rightarrow> string \<Rightarrow> string \<Rightarrow> downloads \<Rightarrow> string option res \<times> downloads" where
  "try_twrp w codename dest st =
     (case fetch_twrp w codename of
        None \<Rightarrow> (Inr None, st)
      | Some url \<Rightarrow>
          (case is_trusted_host (JStr url) of
             Inl err \<Rightarrow> (Inl err, st)
           | Inr ok \<Rightarrow>
               if \<not> ok then (Inr None, st)
               else let (r, st') = stage_unless_there w (JStr url)
                          (path_join dest (or_else (file_name_of url) (''twrp-'' @ codename @ ''.img''))) 5 st
                    in (Inr r, st')))"

definition gsi_api :: string where
  "gsi_api = ''https://api.github.com/repos/phhusson/treble_experimentations/releases/latest''"

definition asset_parts :: "json \<Rightarrow> (string \<times> json \<times> string) res" where
  "asset_parts asset =
     bindr (as_dict asset) (\<lambda>d. bindr (as_str (dget d ''name'' (JStr []))) (\<lambda>name.
     Inr (lower name, dget d ''browser_download_url'' (JStr []), name)))"

text \<open>
  The preferred image, an arm64 vanilla system image, is taken whatever its address; only another
  arm64 asset has to come from a trusted host.
\<close>

fun preferred_asset :: "json list \<Rightarrow> (json \<times> string) option res" where
  "preferred_asset [] = Inr None"
| "preferred_asset (a # assets) =
     bindr (asset_parts a) (\<lambda>(name, url, given).
     if truthy url \<and> (ends_with name ''.img.xz'' \<or> ends_with name ''.img'')
        \<and> list_all (contains name) [''arm64'', ''vanilla'', ''system'']
     then Inr (Some (url, given)) else preferred_asset assets)"

fun trusted_asset :: "json list \<Rightarrow> (json \<times> string) option res" where
  "trusted_asset [] = Inr None"
| "trusted_asset (a # assets) =
     bindr (asset_parts a) (\<lambda>(name, url, given).
     if contains name ''arm64'' \<and> truthy url
     then bindr (is_trusted_host url) (\<lambda>ok. if ok then Inr (Some (url, given)) else trusted_asset assets)
     else trusted_asset assets)"

definition release_assets :: "web \<Rightarrow> json list res" where
  "release_assets w =
     (case wb_json w gsi_api of
        Some release \<Rightarrow> bindr (jget release ''assets'' (JList [])) as_list
      | None \<Rightarrow> Inl (ValueError ''request''))"

definition gsi_asset :: "web \<Rightarrow> (json \<times> string) option res" where
  "gsi_asset w =
     bindr (release_assets w) (\<lambda>assets. bindr (preferred_asset assets) (\<lambda>best.
     case best of None \<Rightarrow> trusted_asset assets | Some b \<Rightarrow> Inr (Some b)))"

text \<open>Whatever raises here is caught.\<close>

definition try_gsi :: "web \<Rightarrow> string \<Rightarrow> downloads \<Rightarrow> string option \<times> downloads" where
  "try_gsi w dest st =
     (case gsi_asset w of
        Inr (Some (url, name)) \<Rightarrow> stage_unless_there w url (path_join dest name) 100 st
      | _ \<Rightarrow> (None, st))"

definition hint_prompt :: "string \<Rightarrow> string \<Rightarrow> string" where
  "hint_prompt codename version =
     ''Device codename: '' @ codename @ '', Android version: '' @ version @ ''.'' @ [CHR 0x0A]
     @ ''Provide the best direct download URL for LineageOS or TWRP firmware ''
     @ ''for this device. Return JSON: {\"url\": \"<url>\"}''"

definition try_gemma_hint ::
    "web \<Rightarrow> language_model \<Rightarrow> model_router \<Rightarrow> string \<Rightarrow> string \<Rightarrow> string \<Rightarrow> downloads \<Rightarrow> string option \<times> downloads" where
  "try_gemma_hint w lm r codename version dest st =
     (let reply = ask lm (ms_model (router_select r ''research'' default_task)) (hint_prompt codename version)
                    (JObj [(''url'', JStr ''string'')]) (2 / 10);
          url = dget reply ''url'' (JStr []) in
      case (if truthy url then is_trusted_host url else Inr False) of
        Inr True \<Rightarrow>
          (let path = path_join dest (or_else (file_name_of (py_str url)) (''firmware-'' @ codename @ ''.zip'')) in
           case download w (py_str url) path 5 st of (ok, st') \<Rightarrow> (if ok then Some path else None, st'))
      | _ \<Rightarrow> (None, st))"

section \<open>The pipeline\<close>

definition downloaded :: "string \<Rightarrow> string \<Rightarrow> jdict" where
  "downloaded path source = [(''status'', JStr ''downloaded''), (''files'', jstrs [path]), (''source'', JStr source)]"

definition os_source_dir :: "string \<Rightarrow> string" where
  "os_source_dir dir = sub dir ''artifacts/os-source''"

definition resolve_and_download ::
    "web \<Rightarrow> language_model \<Rightarrow> model_router \<Rightarrow> string \<Rightarrow> string \<Rightarrow> string \<Rightarrow> downloads \<Rightarrow> jdict res \<times> downloads" where
  "resolve_and_download w lm r codename version dir st =
     (let dest = os_source_dir dir in
      case try_lineageos w codename dest st of
        (Inl err, st1) \<Rightarrow> (Inl err, st1)
      | (Inr (Some f), st1) \<Rightarrow> (Inr (downloaded f ''lineageos''), st1)
      | (Inr None, st1) \<Rightarrow>
        (case try_twrp w codename dest st1 of
           (Inl err, st2) \<Rightarrow> (Inl err, st2)
         | (Inr (Some f), st2) \<Rightarrow> (Inr (downloaded f ''twrp''), st2)
         | (Inr None, st2) \<Rightarrow>
           (case try_gsi w dest st2 of
              (Some f, st3) \<Rightarrow> (Inr (downloaded f ''gsi_phhusson''), st3)
            | (None, st3) \<Rightarrow>
              (case try_gemma_hint w lm r codename version dest st3 of
                 (Some f, st4) \<Rightarrow> (Inr (downloaded f ''gemma_hint''), st4)
               | (None, st4) \<Rightarrow>
                   (Inr [(''status'', JStr ''not_found''), (''files'', JList []), (''source'', JNull)], st4)))))"

section \<open>Installing host tools\<close>

text \<open>
  \<open>ToolInstaller\<close>. What is found on the path depends on what was run, so it is a parameter over the
  trace; an installer that is missing or times out raises.
\<close>

record recipe =
  rc_apt :: "string option"
  rc_pip :: "string option"
  rc_snap :: "string option"

definition tool_recipes :: "(string \<times> recipe) list" where
  "tool_recipes =
     [(''adb'', \<lparr>rc_apt = Some ''android-tools-adb'', rc_pip = None, rc_snap = None\<rparr>),
      (''fastboot'', \<lparr>rc_apt = Some ''android-tools-fastboot'', rc_pip = None, rc_snap = None\<rparr>),
      (''heimdall'', \<lparr>rc_apt = Some ''heimdall-flash'', rc_pip = None, rc_snap = None\<rparr>),
      (''simg2img'', \<lparr>rc_apt = Some ''android-tools-fstools'', rc_pip = None, rc_snap = None\<rparr>),
      (''brotli'', \<lparr>rc_apt = Some ''brotli'', rc_pip = None, rc_snap = None\<rparr>),
      (''lz4'', \<lparr>rc_apt = Some ''lz4'', rc_pip = None, rc_snap = None\<rparr>),
      (''e2fsck'', \<lparr>rc_apt = Some ''e2fsprogs'', rc_pip = None, rc_snap = None\<rparr>),
      (''ollama'', \<lparr>rc_apt = None, rc_pip = None, rc_snap = Some ''ollama''\<rparr>),
      (''goose'', \<lparr>rc_apt = None, rc_pip = Some ''goose-ai'', rc_snap = None\<rparr>)]"

definition install_with :: "host \<Rightarrow> string list \<Rightarrow> bool res proc" where
  "install_with h command tr =
     (let c = (program (hd command), tl command) in
      if \<not> h_installed h (fst c) then (Inl (FileNotFoundError (hd command)), tr)
      else if h_times_out h tr c then (Inl (ValueError ''timed out''), tr @ [c])
      else let (r, tr') = issue h c tr in (Inr (cp_returncode r = 0), tr'))"

definition apt_command :: "string \<Rightarrow> string list" where
  "apt_command package = [''sudo'', ''apt-get'', ''install'', ''-y'', package]"

definition pip_command :: "string \<Rightarrow> string list" where
  "pip_command package = [''pip'', ''install'', ''--user'', package]"

definition snap_command :: "string \<Rightarrow> string list" where
  "snap_command package = [''sudo'', ''snap'', ''install'', package]"

definition recipe_commands :: "recipe \<Rightarrow> string list list" where
  "recipe_commands r =
     List.map_filter id
       [map_option apt_command (rc_apt r), map_option pip_command (rc_pip r), map_option snap_command (rc_snap r)]"

fun run_installers :: "host \<Rightarrow> string list list \<Rightarrow> bool res proc" where
  "run_installers h [] tr = (Inr False, tr)"
| "run_installers h (c # cs) tr =
     (case install_with h c tr of
        (Inl err, tr1) \<Rightarrow> (Inl err, tr1)
      | (Inr ok, tr1) \<Rightarrow> if ok then (Inr True, tr1) else run_installers h cs tr1)"

definition ensure_tool :: "host \<Rightarrow> (trace \<Rightarrow> string \<Rightarrow> bool) \<Rightarrow> string \<Rightarrow> bool res proc" where
  "ensure_tool h found name tr =
     (if found tr name then (Inr True, tr)
      else case map_of tool_recipes name of
          None \<Rightarrow> (Inr False, tr)
        | Some r \<Rightarrow> (case run_installers h (recipe_commands r) tr of
              (Inl err, tr1) \<Rightarrow> (Inl err, tr1)
            | (Inr ok, tr1) \<Rightarrow> (Inr (ok \<and> found tr1 name), tr1)))"

fun ensure_all :: "host \<Rightarrow> (trace \<Rightarrow> string \<Rightarrow> bool) \<Rightarrow> string list \<Rightarrow> (string \<times> bool) list res proc" where
  "ensure_all h found [] tr = (Inr [], tr)"
| "ensure_all h found (t # ts) tr =
     (case ensure_tool h found t tr of
        (Inl err, tr1) \<Rightarrow> (Inl err, tr1)
      | (Inr ok, tr1) \<Rightarrow>
          (case ensure_all h found ts tr1 of
             (Inl err, tr2) \<Rightarrow> (Inl err, tr2)
           | (Inr oks, tr2) \<Rightarrow> (Inr ((t, ok) # oks), tr2)))"

section \<open>What an installation runs\<close>

definition as_cmd :: "string list \<Rightarrow> cmd" where
  "as_cmd command = (program (hd command), tl command)"

lemma install_with_runs: "\<exists>cs. snd (install_with h c tr) = tr @ cs \<and> set cs \<subseteq> {as_cmd c}"
  by (simp add: install_with_def as_cmd_def issue_def Let_def)

lemma run_installers_runs: "\<exists>cs. snd (run_installers h commands tr) = tr @ cs \<and> set cs \<subseteq> as_cmd ` set commands"
proof (induction commands arbitrary: tr)
  case (Cons c commands)
  obtain r tr1 where a: "install_with h c tr = (r, tr1)" by (metis surj_pair)
  obtain cs where cs: "tr1 = tr @ cs" "set cs \<subseteq> {as_cmd c}" using install_with_runs [of h c tr] a by auto
  obtain ds where ds: "snd (run_installers h commands tr1) = tr1 @ ds" "set ds \<subseteq> as_cmd ` set commands" using Cons.IH by blast
  show ?case
  proof (cases "r = Inr False")
    case True
    with ds cs show ?thesis by (intro exI [of _ "cs @ ds"]) (auto simp: a)
  next
    case False
    with cs show ?thesis by (intro exI [of _ cs]) (auto simp: a split: sum.splits)
  qed
qed simp

text \<open>
  The installer follows its recipes. Whatever name it is given, also by the language model, it runs
  only the install commands of the recipe of that name, and it reports a tool as there only when
  the tool is found.
\<close>

theorem installer_follows_the_recipes:
  "(case ensure_tool h found name tr of (r, tr') \<Rightarrow>
      (\<exists>cs. tr' = tr @ cs \<and> set cs \<subseteq> as_cmd ` set (case map_of tool_recipes name of None \<Rightarrow> [] | Some rc \<Rightarrow> recipe_commands rc))
      \<and> (case r of Inr True \<Rightarrow> found tr' name | _ \<Rightarrow> True))"
proof (cases "map_of tool_recipes name")
  case (Some rc)
  obtain cs where "snd (run_installers h (recipe_commands rc) tr) = tr @ cs" "set cs \<subseteq> as_cmd ` set (recipe_commands rc)"
    using run_installers_runs by blast
  then show ?thesis
    by (auto simp: ensure_tool_def Some split: prod.splits sum.splits bool.splits)
qed (simp add: ensure_tool_def)

section \<open>Where the files come from\<close>

definition trusted :: "string \<Rightarrow> bool" where
  "trusted url \<longleftrightarrow> is_trusted_host (JStr url) = Inr True"

definition preferred_url :: "web \<Rightarrow> string \<Rightarrow> bool" where
  "preferred_url w url \<longleftrightarrow> (\<exists>name. bindr (release_assets w) preferred_asset = Inr (Some (JStr url, name)))"

text \<open>
  A step of the pipeline downloads from addresses of a kind, and leaves new files under \<open>.part\<close> only,
  unless it returns the path of one: that file then was there, or is a whole download of the
  smallest size.
\<close>

definition staged_ok :: "web \<Rightarrow> string option \<Rightarrow> downloads \<Rightarrow> downloads \<Rightarrow> bool" where
  "staged_ok w r st st' \<longleftrightarrow>
     (case r of
        None \<Rightarrow> \<forall>p. blob (snd st') p \<noteq> None \<longrightarrow> blob (snd st) p \<noteq> None \<or> ends_with p ''.part''
      | Some f \<Rightarrow> blob (snd st) f \<noteq> None
          \<or> (\<exists>u \<in> set (fst st'). \<exists>body. wb_body w u = Some (body, True) \<and> 5 * mib \<le> length body \<and> blob (snd st') f = Some body))"

definition fetches :: "(string \<Rightarrow> bool) \<Rightarrow> downloads \<Rightarrow> downloads \<Rightarrow> bool" where
  "fetches P st st' \<longleftrightarrow> (\<exists>new. fst st' = fst st @ new \<and> list_all P new)"

lemma fetches_refl [simp]: "fetches P st st"
  by (simp add: fetches_def)

lemma fetches_trans: "fetches P st st1 \<Longrightarrow> fetches P st1 st2 \<Longrightarrow> fetches P st st2"
  unfolding fetches_def by (metis append_assoc list_all_append)

lemma fetches_mono: "fetches P st st' \<Longrightarrow> (\<And>u. P u \<Longrightarrow> Q u) \<Longrightarrow> fetches Q st st'"
  unfolding fetches_def by (metis list.pred_mono_strong)

lemma part_path_ends: "ends_with (part_path p) ''.part''"
  by (simp add: part_path_def ends_with_def suffix_def)

lemma download_fetches: "P u \<Longrightarrow> fetches P st (snd (download w u path n st))"
  by (cases st) (simp add: download_def fetches_def split: option.split prod.split)

lemma download_staged:
  assumes "5 \<le> n" "download w u path n st = (ok, st')"
  shows "staged_ok w (if ok then Some path else None) st st'"
proof -
  have n: "\<not> m < n * mib \<Longrightarrow> 5 * mib \<le> m" for m
    using mult_le_mono1 [OF assms(1), of mib] by linarith
  obtain urls bs where st: "st = (urls, bs)" by (cases st)
  show ?thesis
    using assms(2) n part_path_ends [of path]
    by (auto simp: st download_def staged_ok_def blob_def AList.update_conv AList.delete_conv
        split: option.splits prod.splits if_splits)
qed

lemma stage_fetches: "(\<And>u. url = JStr u \<Longrightarrow> P u) \<Longrightarrow> fetches P st (snd (stage_unless_there w url path n st))"
  using download_fetches [of P _ st w path n] by (auto simp: stage_unless_there_def split: json.split prod.split) (metis snd_conv)

lemma stage_staged:
  assumes "5 \<le> n" "stage_unless_there w url path n st = (r, st')"
  shows "staged_ok w r st st'"
proof -
  have same: "staged_ok w None st st" by (simp add: staged_ok_def)
  show ?thesis
  proof (cases "blob (snd st) path = None")
    case True
    show ?thesis
    proof (cases url)
      case (JStr u)
      obtain ok st1 where d: "download w u path n st = (ok, st1)" by (metis surj_pair)
      from download_staged [OF assms(1) d] show ?thesis
        using assms(2) True by (simp add: stage_unless_there_def JStr d split: if_splits)
    qed (use assms(2) True same in \<open>simp_all add: stage_unless_there_def\<close>)
  next
    case False
    then show ?thesis using assms(2) by (auto simp: stage_unless_there_def staged_ok_def)
  qed
qed

lemma staged_trans:
  assumes "staged_ok w None st st1" "staged_ok w r st1 st2" "\<And>f. r = Some f \<Longrightarrow> \<not> ends_with f ''.part''"
  shows "staged_ok w r st st2"
proof (cases r)
  case (Some f)
  with assms(1,2) assms(3) [OF Some] show ?thesis by (auto simp: staged_ok_def)
qed (use assms(1,2) in \<open>fastforce simp: staged_ok_def\<close>)

lemma staged_same [simp]: "staged_ok w None st st"
  by (simp add: staged_ok_def)

lemma stage_step:
  assumes "stage_unless_there w url path n st = (r, st')" "5 \<le> n" "\<And>u. url = JStr u \<Longrightarrow> P u"
  shows "fetches P st st' \<and> staged_ok w r st st'"
  using stage_fetches [of url P st w path n] stage_staged [OF assms(2,1)] assms(1,3) by simp

lemma stage_trusted:
  "stage_unless_there w url path n st = (r, st') \<Longrightarrow> is_trusted_host url = Inr True \<Longrightarrow> 5 \<le> n
   \<Longrightarrow> fetches trusted st st' \<and> staged_ok w r st st'"
  by (rule stage_step) (auto simp: trusted_def)

lemma lineageos_step:
  "try_lineageos w codename dest st = (r, st') \<Longrightarrow> fetches trusted st st' \<and> (\<forall>f. r = Inr f \<longrightarrow> staged_ok w f st st')"
  by (auto simp: try_lineageos_def Let_def bindr_eq_Inr split: if_splits sum.splits prod.splits dest: stage_trusted)

lemma twrp_step:
  "try_twrp w codename dest st = (r, st') \<Longrightarrow> fetches trusted st st' \<and> (\<forall>f. r = Inr f \<longrightarrow> staged_ok w f st st')"
  by (auto simp: try_twrp_def Let_def split: if_splits sum.splits prod.splits option.splits dest: stage_trusted)

lemma trusted_asset_host: "trusted_asset assets = Inr (Some (url, name)) \<Longrightarrow> is_trusted_host url = Inr True"
  by (induction assets) (auto simp: bindr_eq_Inr split: if_splits)

lemma gsi_url:
  "gsi_asset w = Inr (Some (JStr u, name)) \<Longrightarrow> trusted u \<or> preferred_url w u"
  by (auto simp: gsi_asset_def bindr_eq_Inr trusted_def preferred_url_def dest: trusted_asset_host split: option.splits)

lemma gsi_step:
  "try_gsi w dest st = (r, st') \<Longrightarrow> fetches (\<lambda>u. trusted u \<or> preferred_url w u) st st' \<and> staged_ok w r st st'"
  by (auto simp: try_gsi_def split: sum.splits option.splits prod.splits
      dest!: stage_step [where P = "\<lambda>u. trusted u \<or> preferred_url w u"] gsi_url)

lemma hint_step:
  assumes "try_gemma_hint w lm r codename version dest st = (f, st')"
  shows "fetches trusted st st' \<and> staged_ok w f st st'"
proof -
  let ?url = "dget (ask lm (ms_model (router_select r ''research'' default_task)) (hint_prompt codename version)
                    (JObj [(''url'', JStr ''string'')]) (2 / 10)) ''url'' (JStr [])"
  let ?path = "path_join dest (or_else (file_name_of (py_str ?url)) (''firmware-'' @ codename @ ''.zip''))"
  show ?thesis
  proof (cases "truthy ?url \<and> is_trusted_host ?url = Inr True")
    case True
    then obtain u where u: "?url = JStr u" by (cases ?url) (auto simp: is_trusted_host_def as_str_def)
    obtain ok st1 where d: "download w u ?path 5 st = (ok, st1)" by (metis surj_pair)
    have "trusted u" using True u by (simp add: trusted_def)
    moreover have "f = (if ok then Some ?path else None)" "st' = st1"
      using assms True u d by (auto simp: try_gemma_hint_def Let_def)
    ultimately show ?thesis
      using download_fetches [of trusted u st w ?path 5] download_staged [OF order_refl d] d by auto
  next
    case False
    then show ?thesis using assms by (auto simp: try_gemma_hint_def Let_def split: sum.splits bool.splits if_splits)
  qed
qed

definition named_file :: "jdict \<Rightarrow> string option" where
  "named_file d = (case dget0 d ''files'' of JList [JStr f] \<Rightarrow> Some f | _ \<Rightarrow> None)"

lemma named_file_simps [simp]: "named_file (downloaded f source) = Some f"
  by (simp add: named_file_def downloaded_def jstrs_def)

lemma fetches_trusted: "fetches trusted st st' \<Longrightarrow> fetches (\<lambda>u. trusted u \<or> preferred_url w u) st st'"
  by (erule fetches_mono) simp

lemma pipeline_step:
  assumes "resolve_and_download w lm r codename version dir st = (res, st')"
  shows "fetches (\<lambda>u. trusted u \<or> preferred_url w u) st st'
     \<and> (\<forall>d. res = Inr d \<longrightarrow> (\<forall>f. named_file d = Some f \<longrightarrow> \<not> ends_with f ''.part'') \<longrightarrow> staged_ok w (named_file d) st st')"
proof -
  let ?P = "\<lambda>u. trusted u \<or> preferred_url w u" and ?dest = "os_source_dir dir"
  obtain r1 st1 where 1: "try_lineageos w codename ?dest st = (r1, st1)" by (metis surj_pair)
  obtain r2 st2 where 2: "try_twrp w codename ?dest st1 = (r2, st2)" by (metis surj_pair)
  obtain r3 st3 where 3: "try_gsi w ?dest st2 = (r3, st3)" by (metis surj_pair)
  obtain r4 st4 where 4: "try_gemma_hint w lm r codename version ?dest st3 = (r4, st4)" by (metis surj_pair)
  have f1: "fetches ?P st st1" using lineageos_step [OF 1] fetches_trusted by blast
  have s1: "staged_ok w x st st1" if "r1 = Inr x" for x using lineageos_step [OF 1] that by blast
  have f2: "fetches ?P st st2" using fetches_trans [OF f1 fetches_trusted] twrp_step [OF 2] by blast
  have s2: "staged_ok w x st st2" if "r1 = Inr None" "r2 = Inr x" "\<And>p. x = Some p \<Longrightarrow> \<not> ends_with p ''.part''" for x
    using staged_trans [OF s1 [OF that(1)] _ that(3)] twrp_step [OF 2] that(2) by blast
  have f3: "fetches ?P st st3" using fetches_trans [OF f2] gsi_step [OF 3] by blast
  have s3: "staged_ok w r3 st st3" if "r1 = Inr None" "r2 = Inr None" "\<And>p. r3 = Some p \<Longrightarrow> \<not> ends_with p ''.part''"
    using staged_trans [OF s2 [OF that(1,2)] _ that(3)] gsi_step [OF 3] by blast
  have f4: "fetches ?P st st4" using fetches_trans [OF f3 fetches_trusted] hint_step [OF 4] by blast
  have s4: "staged_ok w r4 st st4"
    if "r1 = Inr None" "r2 = Inr None" "r3 = None" "\<And>p. r4 = Some p \<Longrightarrow> \<not> ends_with p ''.part''"
    using staged_trans [OF s3 [OF that(1,2), unfolded that(3)] _ that(4)] hint_step [OF 4] by blast
  have none: "named_file [(''status'', JStr ''not_found''), (''files'', JList []), (''source'', JNull)] = None"
    by (simp add: named_file_def)
  show ?thesis
  proof (cases "r1 = Inr None \<and> r2 = Inr None")
    case True
    then show ?thesis using assms f3 f4 s3 s4 none
      by (cases r3; cases r4) (auto simp: resolve_and_download_def Let_def 1 2 3 4)
  next
    case False
    then show ?thesis using assms f1 f2 s1 s2
      by (auto simp: resolve_and_download_def Let_def 1 2 split: sum.splits option.splits)
  qed
qed

text \<open>
  C17. Downloads come from the trusted hosts. Whatever the sources and the language model answer, every
  address the pipeline downloads from is on a trusted host, but for the image of the release it
  prefers.
\<close>

theorem downloads_are_trusted:
  "(case resolve_and_download w lm r codename version dir st of (res, st') \<Rightarrow>
      \<exists>new. fst st' = fst st @ new \<and> list_all (\<lambda>u. is_trusted_host (JStr u) = Inr True \<or> preferred_url w u) new)"
proof -
  obtain res st' where run: "resolve_and_download w lm r codename version dir st = (res, st')" by (metis surj_pair)
  from pipeline_step [OF run] show ?thesis by (simp add: run fetches_def trusted_def)
qed

text \<open>
  A file reported as downloaded, if it was not there before, holds all the bytes of a download that
  came to its end, at least five mebibytes.
\<close>

theorem reported_download_is_whole:
  assumes "resolve_and_download w lm r codename version dir st = (Inr d, st')"
    and "named_file d = Some f" "\<not> ends_with f ''.part''" "blob (snd st) f = None"
  shows "\<exists>u \<in> set (fst st'). \<exists>body. wb_body w u = Some (body, True) \<and> 5 * 1024 * 1024 \<le> length body \<and> blob (snd st') f = Some body"
  using pipeline_step [OF assms(1)] assms(2-4) by (simp add: staged_ok_def mib_def)

lemma quiet_sources:
  assumes "wb_json w (lineageos_api codename) = None" "wb_page w (twrp_base codename) = None"
  shows "try_lineageos w codename dest st = (Inr None, st)" "try_twrp w codename dest st = (Inr None, st)"
  using assms by (simp_all add: try_lineageos_def fetch_lineageos_def try_twrp_def fetch_twrp_def)

lemma preferred_image_run:
  assumes "wb_json w (lineageos_api codename) = None" "wb_page w (twrp_base codename) = None"
    and "bindr (release_assets w) preferred_asset = Inr (Some (JStr u, name))"
    and "wb_body w u = Some (body, True)" "100 * 1024 * 1024 \<le> length body"
    and "wb_opens w (part_path (path_join (os_source_dir dir) name))" "blob bs (path_join (os_source_dir dir) name) = None"
  shows "\<exists>bs'. resolve_and_download w lm r codename version dir (urls, bs)
      = (Inr (downloaded (path_join (os_source_dir dir) name) ''gsi_phhusson''), urls @ [u], bs')
     \<and> blob bs' (path_join (os_source_dir dir) name) = Some body"
proof -
  obtain assets where "release_assets w = Inr assets" "preferred_asset assets = Inr (Some (JStr u, name))"
    using assms(3) by (auto simp: bindr_eq_Inr)
  then have g: "gsi_asset w = Inr (Some (JStr u, name))" by (simp add: gsi_asset_def)
  have "\<not> length body < 100 * mib" using assms(5) by (simp add: mib_def)
  then have "download w u (path_join (os_source_dir dir) name) 100 (urls, bs)
      = (True, urls @ [u], AList.update (path_join (os_source_dir dir) name) body
          (AList.delete (part_path (path_join (os_source_dir dir) name)) bs))"
    using assms(4,6) by (simp add: download_def)
  then show ?thesis
    using assms(7)
    by (simp add: resolve_and_download_def Let_def quiet_sources [OF assms(1,2)] try_gsi_def g stage_unless_there_def
        blob_def AList.update_conv)
qed

text \<open>
  The preferred image is not checked. When the other sources know nothing, the first arm64 vanilla
  system image of the release is downloaded and reported, whatever host its address names.
\<close>

theorem preferred_image_is_not_checked:
  assumes "wb_json w (lineageos_api codename) = None" "wb_page w (twrp_base codename) = None"
    and "bindr (release_assets w) preferred_asset = Inr (Some (JStr u, name))"
    and "wb_body w u = Some (body, True)" "100 * 1024 * 1024 \<le> length body"
    and "wb_opens w (part_path (path_join (os_source_dir dir) name))" "blob bs (path_join (os_source_dir dir) name) = None"
  shows "\<exists>bs'. resolve_and_download w lm r codename version dir (urls, bs)
      = (Inr (downloaded (path_join (os_source_dir dir) name) ''gsi_phhusson''), urls @ [u], bs')
     \<and> blob bs' (path_join (os_source_dir dir) name) = Some body"
  using preferred_image_run [OF assms] .

definition demo_image :: json where
  "demo_image = JObj [(''name'', JStr ''system-arm64-vanilla.img''),
     (''browser_download_url'', JStr ''http://evil.example/system.img'')]"

definition demo_web :: web where
  "demo_web =
     \<lparr>wb_json = (\<lambda>u. if u = gsi_api then Some (JObj [(''assets'', JList [demo_image])]) else None), wb_page = (\<lambda>u. None),
      wb_body = (\<lambda>u. Some (replicate (100 * 1024 * 1024) CHR ''x'', True)), wb_opens = (\<lambda>p. True)\<rparr>"

lemma demo_asset:
  "bindr (release_assets demo_web) preferred_asset
   = Inr (Some (JStr ''http://evil.example/system.img'', ''system-arm64-vanilla.img''))"
  by (simp add: release_assets_def demo_web_def demo_image_def asset_parts_def ends_with_def lower_def as_list_def as_dict_def as_str_def
      jget_def dget_def lower_char_def code_point_def is_upper_point_def suffix_to_prefix)

lemma demo_untrusted: "is_trusted_host (JStr ''http://evil.example/system.img'') = Inr False"
proof -
  have "netloc_of ''http://evil.example/system.img'' = Inr ''evil.example''"
    by (simp add: netloc_of_def clean_url_def without_scheme_def ascii_letter_def scheme_char_def is_digit_def code_point_def
        starts_with_def Let_def)
  moreover have "\<not> trusted_netloc (lower ''evil.example'')"
    by (simp add: trusted_netloc_def trusted_host_suffixes_def ends_with_def suffix_to_prefix lower_def lower_char_def code_point_def
        is_upper_point_def)
  ultimately show ?thesis by (simp add: is_trusted_host_def as_str_def)
qed

lemma demo_download:
  "\<exists>bs'. resolve_and_download demo_web lm r ''d'' ''13'' ''devices/d'' ([], [])
      = (Inr (downloaded (path_join (os_source_dir ''devices/d'') ''system-arm64-vanilla.img'') ''gsi_phhusson''),
         [''http://evil.example/system.img''], bs')"
  if "\<exists>bs'. resolve_and_download demo_web lm r ''d'' ''13'' ''devices/d'' ([], [])
      = (Inr (downloaded (path_join (os_source_dir ''devices/d'') ''system-arm64-vanilla.img'') ''gsi_phhusson''),
         [] @ [''http://evil.example/system.img''], bs') \<and> P bs'" for P
  using that by auto

lemma demo_web_quiet: "wb_json demo_web (lineageos_api ''d'') = None" "wb_page demo_web (twrp_base ''d'') = None"
  by (simp_all add: demo_web_def gsi_api_def lineageos_api_def)

theorem preferred_image_is_not_checked_witness:
  "\<forall>lm r. (\<exists>bs'. resolve_and_download demo_web lm r ''d'' ''13'' ''devices/d'' ([], [])
      = (Inr (downloaded (path_join (os_source_dir ''devices/d'') ''system-arm64-vanilla.img'') ''gsi_phhusson''),
         [''http://evil.example/system.img''], bs'))
     \<and> is_trusted_host (JStr ''http://evil.example/system.img'') = Inr False"
proof (intro allI conjI)
  fix lm r
  have b: "wb_body demo_web ''http://evil.example/system.img'' = Some (replicate (100 * 1024 * 1024) CHR ''x'', True)"
    by (simp add: demo_web_def)
  have l: "100 * 1024 * 1024 \<le> length (replicate (100 * 1024 * 1024) CHR ''x'')" by (simp only: length_replicate order_refl)
  have o: "wb_opens demo_web p" for p by (simp add: demo_web_def)
  show "\<exists>bs'. resolve_and_download demo_web lm r ''d'' ''13'' ''devices/d'' ([], [])
      = (Inr (downloaded (path_join (os_source_dir ''devices/d'') ''system-arm64-vanilla.img'') ''gsi_phhusson''),
         [''http://evil.example/system.img''], bs')"
    by (rule demo_download, rule preferred_image_is_not_checked [OF demo_web_quiet demo_asset b l o]) (simp add: blob_def)
qed (rule demo_untrusted)

theorem reported_download_is_whole_witness:
  "\<forall>lm r. \<exists>st'. \<exists>u \<in> set (fst st'). \<exists>body. wb_body demo_web u = Some (body, True) \<and> 5 * 1024 * 1024 \<le> length body
     \<and> blob (snd st') (path_join (os_source_dir ''devices/d'') ''system-arm64-vanilla.img'') = Some body
     \<and> fst st' = [''http://evil.example/system.img'']"
proof (intro allI)
  fix lm r
  let ?path = "path_join (os_source_dir ''devices/d'') ''system-arm64-vanilla.img''"
  have b: "wb_body demo_web ''http://evil.example/system.img'' = Some (replicate (100 * 1024 * 1024) CHR ''x'', True)"
    by (simp add: demo_web_def)
  have l: "100 * 1024 * 1024 \<le> length (replicate (100 * 1024 * 1024) CHR ''x'')" by (simp only: length_replicate order_refl)
  have o: "wb_opens demo_web p" for p by (simp add: demo_web_def)
  have "blob [] ?path = None" by (simp add: blob_def)
  from preferred_image_run [OF demo_web_quiet demo_asset b l o this, of lm r "''13''" "[]"]
  obtain bs' where run: "resolve_and_download demo_web lm r ''d'' ''13'' ''devices/d'' ([], [])
      = (Inr (downloaded ?path ''gsi_phhusson''), [''http://evil.example/system.img''], bs')" by auto
  have "\<not> ends_with ?path ''.part''"
    by (simp add: ends_with_def suffix_to_prefix path_join_def os_source_dir_def starts_with_def)
  from reported_download_is_whole [OF run named_file_simps this] show
    "\<exists>st'. \<exists>u \<in> set (fst st'). \<exists>body. wb_body demo_web u = Some (body, True) \<and> 5 * 1024 * 1024 \<le> length body
     \<and> blob (snd st') ?path = Some body \<and> fst st' = [''http://evil.example/system.img'']"
    by (intro exI [of _ "([''http://evil.example/system.img''], bs')"]) (auto simp: blob_def)
qed

end
