(* ===== verification/Image_Builder.thy ===== *)
theory Image_Builder
  imports Firmware_Downloader Runtime_Workers
begin

text \<open>
  \<open>app/tools/image_builder.py\<close>: which of the staged sources can be installed, how, and with which
  steps. Files are bytes by path, all of them readable; what an archive holds, what \<open>lz4 -d\<close> writes
  and the packed bundle are parameters. A member of an archive whose path is not plain stops the
  extraction of that archive.
\<close>

record archives =
  ar_zip :: "string \<Rightarrow> (string \<times> string) list option"
  ar_tar :: "string \<Rightarrow> (string \<times> bool \<times> string) list option"
  ar_lz4 :: "string \<Rightarrow> string option"
  ar_pack :: "(string \<times> string) list \<Rightarrow> string"

section \<open>Files of a folder\<close>

definition names_in :: "blobs \<Rightarrow> string \<Rightarrow> string list" where
  "names_in bs dir =
     List.map_filter (\<lambda>(p, c). let d = dir @ ''/''; name = drop (length d) p in
       if starts_with p d \<and> CHR ''/'' \<notin> set name then Some name else None) bs"

definition sorted_glob :: "blobs \<Rightarrow> string \<Rightarrow> string \<Rightarrow> string list" where
  "sorted_glob bs dir ext = sort (filter (\<lambda>n. ends_with n ext) (names_in bs dir))"

definition put :: "string \<Rightarrow> string \<Rightarrow> blobs \<Rightarrow> blobs" where
  "put p c bs = AList.update p c bs"

definition clear_folder :: "string \<Rightarrow> blobs \<Rightarrow> blobs" where
  "clear_folder dir bs = filter (\<lambda>(p, c). \<not> (starts_with p (dir @ ''/'') \<and> CHR ''/'' \<notin> set (drop (length dir + 1) p))) bs"

section \<open>What can be installed\<close>

definition plausible_image :: "string \<Rightarrow> bool" where
  "plausible_image c \<longleftrightarrow> mib \<le> length c \<and> \<not> list_ex (contains (lower (take 256 c))) mock_markers"

definition sideload_members :: "string list" where
  "sideload_members =
     [''payload.bin'', ''META-INF/com/google/android/update-binary'', ''META-INF/com/android/metadata'',
      ''META-INF/com/google/android/metadata'']"

definition is_android_sideload_zip :: "archives \<Rightarrow> string \<Rightarrow> bool" where
  "is_android_sideload_zip ar c =
     (case ar_zip ar c of None \<Rightarrow> False | Some members \<Rightarrow> list_ex (\<lambda>m. m \<in> fst ` set members) sideload_members)"

definition find_sideload_zip :: "archives \<Rightarrow> blobs \<Rightarrow> string \<Rightarrow> string option" where
  "find_sideload_zip ar bs dir =
     find (\<lambda>name. case blob bs (sub dir name) of None \<Rightarrow> False | Some c \<Rightarrow> is_android_sideload_zip ar c)
       ([''update.zip'', ''ota.zip'', ''payload.zip''] @ sorted_glob bs dir ''.zip'')"

definition fastboot_order :: "string list" where
  "fastboot_order =
     [''boot.img'', ''init_boot.img'', ''vendor_boot.img'', ''dtbo.img'', ''vbmeta.img'', ''vbmeta_system.img'',
      ''recovery.img'', ''system.img'', ''vendor.img'', ''product.img'', ''super.img'']"

definition plausible_at :: "blobs \<Rightarrow> string \<Rightarrow> bool" where
  "plausible_at bs p \<longleftrightarrow> (case blob bs p of None \<Rightarrow> False | Some c \<Rightarrow> plausible_image c)"

definition find_fastboot_images :: "blobs \<Rightarrow> string \<Rightarrow> (string \<times> string) list" where
  "find_fastboot_images bs dir =
     map (\<lambda>name. (take (length name - 4) name, sub dir name)) (filter (\<lambda>name. plausible_at bs (sub dir name)) fastboot_order)"

definition heimdall_patterns :: "(string \<times> string list) list" where
  "heimdall_patterns =
     [(''RECOVERY'', [''recovery.img'', ''twrp*.img'', ''recovery*.img'']), (''BOOT'', [''boot.img'']),
      (''SYSTEM'', [''system.img'']), (''VENDOR'', [''vendor.img'']), (''USERDATA'', [''userdata.img'']),
      (''CACHE'', [''cache.img'']), (''BL'', [''bl.img'', ''bootloader.img'']), (''CP'', [''cp.img'', ''modem.img''])]"

text \<open>\<open>fnmatch\<close> for patterns whose only wild card is the star.\<close>

fun star_match :: "string \<Rightarrow> string \<Rightarrow> bool" where
  "star_match [] [] = True"
| "star_match [] (c # s) = False"
| "star_match (p # ps) [] = (p = CHR ''*'' \<and> star_match ps [])"
| "star_match (p # ps) (c # s) =
     (if p = CHR ''*'' then star_match ps (c # s) \<or> star_match (p # ps) s else p = c \<and> star_match ps s)"

definition first_image :: "string list \<Rightarrow> string list \<Rightarrow> string option" where
  "first_image images patterns =
     (case List.map_filter (\<lambda>pattern. find (\<lambda>i. star_match pattern (lower i)) images) patterns of [] \<Rightarrow> None | i # is \<Rightarrow> Some i)"

definition find_heimdall_images :: "blobs \<Rightarrow> string \<Rightarrow> (string \<times> string) list" where
  "find_heimdall_images bs dir =
     (let images = filter (\<lambda>n. ends_with n ''.img'' \<and> plausible_at bs (sub dir n)) (names_in bs dir) in
      List.map_filter (\<lambda>(partition, patterns). map_option (\<lambda>i. (partition, sub dir i)) (first_image images patterns))
        heimdall_patterns)"

section \<open>Archives\<close>

definition plain_member :: "string \<Rightarrow> bool" where
  "plain_member m \<longleftrightarrow> list_all (\<lambda>part. part \<notin> set [[], ''.'', ''..'']) (split_on (CHR ''/'') m)"

definition extract_flat :: "string \<Rightarrow> string \<Rightarrow> string \<Rightarrow> blobs \<Rightarrow> blobs" where
  "extract_flat target m c bs =
     (let bs1 = put (sub target m) c bs in
      if m = file_name_of m then bs1 else put (sub target (file_name_of m)) c bs1)"

text \<open>The members that are images to flash, one after the other; \<open>False\<close> where one of them raises.\<close>

fun extract_images :: "string \<Rightarrow> (string \<times> string) list \<Rightarrow> blobs \<Rightarrow> bool \<times> blobs" where
  "extract_images target [] bs = (True, bs)"
| "extract_images target ((m, c) # ms) bs =
     (if file_name_of m \<notin> set fastboot_order then extract_images target ms bs
      else if \<not> plain_member m then (False, bs)
      else extract_images target ms (extract_flat target m c bs))"

definition regular_files :: "(string \<times> bool \<times> string) list \<Rightarrow> (string \<times> string) list" where
  "regular_files members = map (\<lambda>(m, f, c). (m, c)) (filter (\<lambda>(m, f, c). f) members)"

definition archive_members :: "archives \<Rightarrow> string \<Rightarrow> string \<Rightarrow> (string \<times> string) list option" where
  "archive_members ar name c =
     (if path_suffix name = ''.zip'' then ar_zip ar c
      else case ar_tar ar c of None \<Rightarrow> Some [] | Some members \<Rightarrow> Some (regular_files members))"

definition extraction_target :: "string \<Rightarrow> string \<Rightarrow> string" where
  "extraction_target extracted name = sub extracted (replace_char (CHR ''.'') (CHR ''_'') name)"

definition extract_archive :: "archives \<Rightarrow> string \<Rightarrow> string \<Rightarrow> string \<Rightarrow> blobs \<Rightarrow> bool \<times> blobs" where
  "extract_archive ar source extracted name bs =
     (case blob bs (sub source name) of
        None \<Rightarrow> (False, bs)
      | Some c \<Rightarrow>
          (case archive_members ar name c of
             None \<Rightarrow> (False, bs)
           | Some members \<Rightarrow> extract_images (extraction_target extracted name) members bs))"

fun extract_archives :: "archives \<Rightarrow> string \<Rightarrow> string \<Rightarrow> string list \<Rightarrow> blobs \<Rightarrow> (string \<times> string) list \<times> blobs" where
  "extract_archives ar source extracted [] bs = ([], bs)"
| "extract_archives ar source extracted (name # names) bs =
     (case extract_archive ar source extracted name bs of
        (False, bs1) \<Rightarrow> extract_archives ar source extracted names bs1
      | (True, bs1) \<Rightarrow>
          (let images = find_fastboot_images bs1 (extraction_target extracted name) in
           if images \<noteq> [] then (images, bs1) else extract_archives ar source extracted names bs1))"

definition extract_fastboot_archive :: "archives \<Rightarrow> string \<Rightarrow> string \<Rightarrow> blobs \<Rightarrow> (string \<times> string) list \<times> blobs" where
  "extract_fastboot_archive ar source extracted bs =
     extract_archives ar source extracted
       (concat (map (sorted_glob bs source) [''.zip'', ''.tar'', ''.tar.gz'', ''.tgz''])) bs"

section \<open>Samsung archives\<close>

definition samsung_archives :: "blobs \<Rightarrow> string \<Rightarrow> string list" where
  "samsung_archives bs source =
     sorted_glob bs source ''.tar.md5''
     @ filter (\<lambda>n. starts_with n ''AP_'') (sorted_glob bs source ''.tar'')
     @ filter (\<lambda>n. starts_with n ''BL_'') (sorted_glob bs source ''.tar'')"

definition samsung_image :: "string \<Rightarrow> bool" where
  "samsung_image m \<longleftrightarrow> ends_with (file_name_of m) ''.img'' \<or> ends_with (file_name_of m) ''.img.lz4''"

fun extract_samsung_members :: "string \<Rightarrow> (string \<times> string) list \<Rightarrow> blobs \<Rightarrow> blobs" where
  "extract_samsung_members target [] bs = bs"
| "extract_samsung_members target ((m, c) # ms) bs =
     (if \<not> samsung_image m then extract_samsung_members target ms bs
      else if \<not> plain_member m then bs
      else extract_samsung_members target ms (put (sub target m) c bs))"

text \<open>An archive with a checksum behind it is first copied to its name without \<open>.md5\<close>.\<close>

definition open_samsung :: "string \<Rightarrow> string \<Rightarrow> blobs \<Rightarrow> string \<times> blobs" where
  "open_samsung source name bs =
     (if path_suffix name = ''.md5'' then
        let plain = path_stem name in
        (plain, if blob bs (sub source plain) \<noteq> None then bs
                else case blob bs (sub source name) of None \<Rightarrow> bs | Some c \<Rightarrow> put (sub source plain) c bs)
      else (name, bs))"

definition extract_samsung_one :: "archives \<Rightarrow> string \<Rightarrow> string \<Rightarrow> string \<Rightarrow> blobs \<Rightarrow> blobs" where
  "extract_samsung_one ar source target name bs =
     (case open_samsung source name bs of (plain, bs1) \<Rightarrow>
        (case blob bs1 (sub source plain) of
           None \<Rightarrow> bs1
         | Some c \<Rightarrow> (case ar_tar ar c of
              None \<Rightarrow> bs1 | Some members \<Rightarrow> extract_samsung_members target (regular_files members) bs1)))"

fun extract_samsung_all :: "archives \<Rightarrow> string \<Rightarrow> string \<Rightarrow> string list \<Rightarrow> blobs \<Rightarrow> blobs" where
  "extract_samsung_all ar source target [] bs = bs"
| "extract_samsung_all ar source target (name # names) bs =
     extract_samsung_all ar source target names (extract_samsung_one ar source target name bs)"

definition unpack_lz4 :: "archives \<Rightarrow> string \<Rightarrow> blobs \<Rightarrow> blobs" where
  "unpack_lz4 ar p bs =
     (let out = take (length p - 4) p in
      if blob bs out \<noteq> None then bs
      else case blob bs p of None \<Rightarrow> bs | Some c \<Rightarrow> (case ar_lz4 ar c of None \<Rightarrow> bs | Some d \<Rightarrow> put out d bs))"

definition lz4_files :: "string \<Rightarrow> blobs \<Rightarrow> string list" where
  "lz4_files target bs = filter (\<lambda>p. starts_with p (target @ ''/'') \<and> ends_with p ''.img.lz4'') (map fst bs)"

definition extract_samsung_archive :: "archives \<Rightarrow> string \<Rightarrow> string \<Rightarrow> blobs \<Rightarrow> (string \<times> string) list \<times> blobs" where
  "extract_samsung_archive ar source extracted bs =
     (if samsung_archives bs source = [] then ([], bs)
      else let target = sub extracted ''samsung_extracted'';
               bs1 = extract_samsung_all ar source target (samsung_archives bs source) bs;
               bs2 = fold (unpack_lz4 ar) (lz4_files target bs1) bs1
           in (find_heimdall_images bs2 target, bs2))"

section \<open>Staging\<close>

record selection =
  se_status :: string
  se_mode :: string
  se_images :: "(string \<times> string) list"
  se_steps :: "jdict list"
  se_missing :: "string list"

definition staged_name :: "string \<times> string \<Rightarrow> string" where
  "staged_name im = file_name_of (snd im)"

definition heimdall_step :: "(string \<times> string) list \<Rightarrow> jdict" where
  "heimdall_step images =
     [(''name'', JStr ''flash_samsung''), (''kind'', JStr ''flash''),
      (''command'', JStr (''heimdall flash ''
         @ join '' '' (map (\<lambda>i. ''--'' @ fst i @ '' '' @ staged_name i) images))),
      (''partitions'', JObj (map (\<lambda>i. (fst i, JStr (staged_name i))) images)),
      (''description'', JStr ''Flash Samsung partitions via Heimdall in Download Mode.'')]"

definition sideload_step :: "string \<times> string \<Rightarrow> jdict" where
  "sideload_step im =
     [(''name'', JStr ''sideload_update''), (''kind'', JStr ''flash''),
      (''command'', JStr (''adb sideload '' @ staged_name im)),
      (''description'', JStr ''Apply the staged OTA or recovery package over adb sideload.'')]"

definition fastboot_step :: "string \<times> string \<Rightarrow> jdict" where
  "fastboot_step im =
     [(''name'', JStr (''flash_'' @ fst im)), (''kind'', JStr ''flash''),
      (''command'', JStr (''fastboot flash '' @ fst im @ '' '' @ staged_name im)),
      (''description'', JStr (''Flash `'' @ fst im @ ''` from `'' @ staged_name im @ ''`.''))]"

definition missing_source_texts :: "string \<Rightarrow> string list" where
  "missing_source_texts source =
     [''Stage an Android OTA or recovery ZIP under '' @ source,
      ''or stage real fastboot images such as `boot.img`, `system.img`, or `vendor.img` under '' @ source @ ''.'',
      ''Tiny placeholders and simulated image files are ignored.'',
      ''Fastboot image archives are also supported when they contain recognized `.img` partition files larger than 1 MiB.'']"

text \<open>Of what was found, Samsung images come first, then a package to sideload, then fastboot images.\<close>

definition choose_images :: "string \<Rightarrow> (string \<times> string) list \<Rightarrow> string option \<Rightarrow> (string \<times> string) list \<Rightarrow> selection" where
  "choose_images source heimdall zip_name fastboot =
     (if heimdall \<noteq> [] then
        \<lparr>se_status = ''ready'', se_mode = ''heimdall_flash'', se_images = heimdall, se_steps = [heimdall_step heimdall],
         se_missing = []\<rparr>
      else case zip_name of
        Some name \<Rightarrow>
          (let im = (''sideload'', sub source name) in
           \<lparr>se_status = ''ready'', se_mode = ''adb_sideload'', se_images = [im], se_steps = [sideload_step im],
            se_missing = []\<rparr>)
      | None \<Rightarrow>
          if fastboot \<noteq> [] then
            \<lparr>se_status = ''ready'', se_mode = ''fastboot_images'', se_images = fastboot, se_steps = map fastboot_step fastboot,
             se_missing = []\<rparr>
          else
            \<lparr>se_status = ''missing_source'', se_mode = ''unavailable'', se_images = [], se_steps = [],
             se_missing = missing_source_texts source\<rparr>)"

definition stage_image :: "string \<Rightarrow> string \<times> string \<Rightarrow> blobs \<Rightarrow> blobs" where
  "stage_image staged im bs =
     (case blob bs (snd im) of None \<Rightarrow> bs | Some c \<Rightarrow> put (sub staged (staged_name im)) c bs)"

definition source_readme :: string where
  "source_readme =
     join [CHR 0x0A]
       [''# Stage Install Source Artifacts Here'', [], ''Supported generic inputs:'',
        ''- Android OTA or recovery ZIP packages, including LineageOS-style named ZIPs'',
        ''- fastboot images such as `boot.img`, `system.img`, `vendor.img`, `vbmeta.img`, `super.img`'',
        ''- ZIP or tar archives containing fastboot images'', [],
        ''ForgeOS will stage these into `runtime/build/` and only enable install execution when a real artifact set is present.'']
     @ [CHR 0x0A]"

definition readme_text :: "jdict \<Rightarrow> string" where
  "readme_text manifest =
     (let items = (\<lambda>k. case dget manifest k (JList []) of JList xs \<Rightarrow> xs | _ \<Rightarrow> []);
          step_command = (\<lambda>s. case s of JObj d \<Rightarrow> dstr d ''command'' [] | _ \<Rightarrow> []) in
      join [CHR 0x0A]
        ([''# ForgeOS Build Staging'', [], ''Status: '' @ dstr manifest ''status'' ''unknown'',
          ''Install mode: '' @ dstr manifest ''install_mode'' ''unknown'',
          ''Proposed OS profile: '' @ dstr manifest ''proposed_os_name'' ''Unknown build profile'',
          ''Source directory: '' @ dstr manifest ''source_dir'' ''unknown'', []]
         @ (if dget0 manifest ''status'' = JStr ''ready'' then
              [''Staged files:''] @ map (\<lambda>p. ''- '' @ file_name_of (py_str p)) (items ''staged_files'')
              @ [[], ''Planned install commands:''] @ map (\<lambda>s. ''- '' @ step_command s) (items ''flash_steps'')
            else [''Missing requirements:''] @ map (\<lambda>m. ''- '' @ py_str m) (items ''missing_requirements'')))
      @ [CHR 0x0A])"

record found_sources =
  fs_heimdall :: "(string \<times> string) list"
  fs_zip :: "string option"
  fs_fastboot :: "(string \<times> string) list"
  fs_artifact :: string
  fs_blobs :: blobs

definition parent_dir :: "string \<Rightarrow> string" where
  "parent_dir p = take (length p - length (file_name_of p) - 1) p"

text \<open>Archives are only opened when nothing else was found.\<close>

definition find_sources :: "archives \<Rightarrow> string \<Rightarrow> string \<Rightarrow> bool \<Rightarrow> blobs \<Rightarrow> found_sources" where
  "find_sources ar source extracted samsung bs =
     (let zip_name = find_sideload_zip ar bs source;
          fastboot = find_fastboot_images bs source;
          heimdall = (if samsung then find_heimdall_images bs source else []);
          artifact = (case zip_name of None \<Rightarrow> [] | Some n \<Rightarrow> sub source n) in
      if zip_name \<noteq> None \<or> fastboot \<noteq> [] \<or> heimdall \<noteq> [] then
        \<lparr>fs_heimdall = heimdall, fs_zip = zip_name, fs_fastboot = fastboot, fs_artifact = artifact, fs_blobs = bs\<rparr>
      else let (images, bs1) = extract_fastboot_archive ar source extracted bs in
        if images \<noteq> [] then
          \<lparr>fs_heimdall = [], fs_zip = None, fs_fastboot = images, fs_artifact = parent_dir (snd (hd images)), fs_blobs = bs1\<rparr>
        else let (samsung_images, bs2) = (if samsung then extract_samsung_archive ar source extracted bs1 else ([], bs1)) in
          \<lparr>fs_heimdall = samsung_images, fs_zip = None, fs_fastboot = [], fs_artifact = [], fs_blobs = bs2\<rparr>)"

definition is_samsung :: "jdict \<Rightarrow> bool" where
  "is_samsung device \<longleftrightarrow> lower (strip (dstr_or device ''manufacturer'' [])) = ''samsung''"

definition build_dir :: "string \<Rightarrow> string" where
  "build_dir dir = sub dir ''runtime/build''"

definition build_manifest :: "string \<Rightarrow> jdict \<Rightarrow> found_sources \<Rightarrow> selection \<Rightarrow> jdict" where
  "build_manifest dir build_plan found s =
     [(''status'', JStr (se_status s)), (''install_mode'', JStr (se_mode s)), (''source_dir'', JStr (os_source_dir dir)),
      (''build_path'', dget build_plan ''os_path'' (JStr ''unknown'')),
      (''proposed_os_name'', dget build_plan ''proposed_os_name'' (JStr ''Unknown build profile'')),
      (''staged_files'', jstrs (map (\<lambda>i. sub (sub (build_dir dir) ''staged'') (staged_name i)) (se_images s))),
      (''source_artifact'', JStr (fs_artifact found)),
      (''bundle_path'', JStr (if se_status s = ''ready'' then sub (build_dir dir) ''flashable-artifacts.tar.gz'' else [])),
      (''flash_steps'', JList (map JObj (se_steps s))), (''missing_requirements'', jstrs (se_missing s))]"

definition built_artifacts :: "string \<Rightarrow> selection \<Rightarrow> string list" where
  "built_artifacts dir s =
     [sub (build_dir dir) ''artifact-manifest.json'', sub (build_dir dir) ''README.md'', sub (os_source_dir dir) ''README.md'']
     @ (if se_status s = ''ready''
        then sub (build_dir dir) ''flashable-artifacts.tar.gz''
             # map (\<lambda>i. sub (sub (build_dir dir) ''staged'') (staged_name i)) (se_images s)
        else [])"

definition stage_all :: "string \<Rightarrow> (string \<times> string) list \<Rightarrow> blobs \<Rightarrow> blobs" where
  "stage_all staged images bs = fold (stage_image staged) images bs"

definition pack_bundle :: "archives \<Rightarrow> string \<Rightarrow> selection \<Rightarrow> blobs \<Rightarrow> blobs" where
  "pack_bundle ar dir s bs =
     (let bundle_path = sub (build_dir dir) ''flashable-artifacts.tar.gz'';
          staged = (\<lambda>i. (staged_name i, case blob bs (sub (sub (build_dir dir) ''staged'') (staged_name i)) of None \<Rightarrow> [] | Some c \<Rightarrow> c))
      in if se_status s = ''ready'' then put bundle_path (ar_pack ar (map staged (se_images s))) bs
         else AList.delete bundle_path bs)"

definition build_images :: "archives \<Rightarrow> string \<Rightarrow> jdict \<Rightarrow> jdict \<Rightarrow> blobs \<times> disk \<Rightarrow> jdict \<times> blobs \<times> disk" where
  "build_images ar dir build_plan device = (\<lambda>(bs, dk).
     let source = os_source_dir dir; staged = sub (build_dir dir) ''staged'';
         bs0 = clear_folder staged bs;
         readme_path = sub source ''README.md'';
         bs1 = (if blob bs0 readme_path = None then put readme_path source_readme bs0 else bs0);
         found = find_sources ar source (sub (build_dir dir) ''extracted'') (is_samsung device) bs1;
         s = choose_images source (fs_heimdall found) (fs_zip found) (fs_fastboot found);
         bs2 = pack_bundle ar dir s (stage_all staged (se_images s) (fs_blobs found));
         manifest = build_manifest dir build_plan found s;
         dk1 = dk_write (sub (build_dir dir) ''artifact-manifest.json'') (JObj manifest) (dk_mkdir (build_dir dir) dk);
         dk2 = write_text (sub (build_dir dir) ''README.md'') (readme_text manifest) dk1
     in ([(''status'', JStr (se_status s)), (''artifacts'', jstrs (built_artifacts dir s)), (''details'', JObj manifest)],
         bs2, dk2))"

section \<open>Which files change\<close>

definition below_dir :: "string \<Rightarrow> string \<Rightarrow> bool" where
  "below_dir dir p \<longleftrightarrow> starts_with p (dir @ ''/'')"

definition writes_in :: "(string \<Rightarrow> bool) \<Rightarrow> blobs \<Rightarrow> blobs \<Rightarrow> bool" where
  "writes_in P bs bs' \<longleftrightarrow> (\<forall>p. \<not> P p \<longrightarrow> blob bs' p = blob bs p)"

lemma blob_put [simp]: "blob (put p c bs) q = (if q = p then Some c else blob bs q)"
  by (simp add: blob_def put_def AList.update_conv)

lemma writes_refl [simp]: "writes_in P bs bs"
  by (simp add: writes_in_def)

lemma writes_trans: "writes_in P bs bs1 \<Longrightarrow> writes_in P bs1 bs2 \<Longrightarrow> writes_in P bs bs2"
  by (simp add: writes_in_def)

lemma writes_put: "P p \<Longrightarrow> writes_in P bs (put p c bs)"
  by (auto simp: writes_in_def)

lemma below_sub [simp]: "below_dir dir (dir @ CHR ''/'' # x)"
  by (simp_all add: below_dir_def starts_with_def)

lemma extract_flat_writes: "writes_in (below_dir extracted) bs (extract_flat (sub extracted x) m c bs)"
  by (auto simp: extract_flat_def Let_def writes_in_def below_dir_def starts_with_def)

lemma extract_images_writes: "writes_in (below_dir extracted) bs (snd (extract_images (sub extracted x) ms bs))"
proof (induction "sub extracted x" ms bs rule: extract_images.induct)
  case (2 m c ms bs)
  then show ?case using extract_flat_writes [of extracted bs x m c] by (auto intro: writes_trans)
qed simp

lemma extract_archives_writes: "writes_in (below_dir extracted) bs (snd (extract_archives ar source extracted names bs))"
proof (induction names arbitrary: bs)
  case (Cons name names)
  obtain ok bs1 where a: "extract_archive ar source extracted name bs = (ok, bs1)" by (metis surj_pair)
  have "writes_in (below_dir extracted) bs (snd (extract_archive ar source extracted name bs))"
    using extract_images_writes [of extracted bs "replace_char (CHR ''.'') (CHR ''_'') name"]
    by (simp add: extract_archive_def extraction_target_def split: option.split)
  then have "writes_in (below_dir extracted) bs bs1" by (simp add: a)
  with Cons.IH [of bs1] show ?case by (cases ok) (auto simp: a Let_def intro: writes_trans)
qed simp

definition near :: "string \<Rightarrow> string \<Rightarrow> string \<Rightarrow> bool" where
  "near source extracted p \<longleftrightarrow> below_dir source p \<or> below_dir extracted p"

lemma samsung_members_writes: "writes_in (near source extracted) bs (extract_samsung_members (sub extracted x) ms bs)"
proof (induction "sub extracted x" ms bs rule: extract_samsung_members.induct)
  case (2 m c ms bs)
  have "writes_in (near source extracted) bs (put (sub (sub extracted x) m) c bs)" by (rule writes_put) (simp add: near_def below_dir_def starts_with_def)
  with 2 show ?case by (auto intro: writes_trans)
qed simp

lemma samsung_one_writes: "writes_in (near source extracted) bs (extract_samsung_one ar source (sub extracted x) name bs)"
proof -
  have o: "writes_in (near source extracted) bs (snd (open_samsung source name bs))"
    by (auto simp: open_samsung_def Let_def writes_in_def near_def split: option.split)
  obtain plain bs1 where a: "open_samsung source name bs = (plain, bs1)" by (metis surj_pair)
  then have "writes_in (near source extracted) bs bs1" using o by simp
  then show ?thesis
    using samsung_members_writes [of source extracted bs1 x]
    by (auto simp: extract_samsung_one_def a split: option.split intro: writes_trans)
qed

lemma samsung_all_writes: "writes_in (near source extracted) bs (extract_samsung_all ar source (sub extracted x) names bs)"
proof (induction names arbitrary: bs)
  case (Cons name names)
  from writes_trans [OF samsung_one_writes Cons.IH] show ?case by simp
qed simp

lemma unpack_writes:
  assumes "below_dir extracted p" "ends_with p ''.img.lz4''"
  shows "writes_in (near source extracted) bs (unpack_lz4 ar p bs)"
proof -
  obtain r where r: "p = extracted @ CHR ''/'' # r" using assms(1) by (auto simp: below_dir_def starts_with_def prefix_def)
  have "''.img.lz4'' \<noteq> xs @ CHR ''/'' # r" for xs
  proof
    assume e: "''.img.lz4'' = xs @ CHR ''/'' # r"
    have "CHR ''/'' \<in> set ''.img.lz4''" unfolding e by simp
    then show False by simp
  qed
  then have "suffix ''.img.lz4'' (CHR ''/'' # r)" using assms(2) unfolding r ends_with_def suffix_append by blast
  then have "4 \<le> length r" by (auto dest: suffix_length_le)
  then have "near source extracted (take (length p - 4) p)"
    by (simp add: r near_def below_dir_def starts_with_def take_Cons')
  then show ?thesis
    by (auto simp: unpack_lz4_def Let_def writes_in_def split: option.split)
qed

lemma fold_writes:
  "(\<And>x bs. x \<in> set xs \<Longrightarrow> writes_in P bs (f x bs)) \<Longrightarrow> writes_in P bs (fold f xs bs)"
proof (induction xs arbitrary: bs)
  case (Cons x xs)
  then have "writes_in P bs (f x bs)" "writes_in P (f x bs) (fold f xs (f x bs))" by simp_all
  then show ?case by (auto intro: writes_trans)
qed simp

lemma lz4_under: "p \<in> set (lz4_files (sub extracted x) bs) \<Longrightarrow> below_dir extracted p \<and> ends_with p ''.img.lz4''"
  by (auto simp: lz4_files_def below_dir_def starts_with_def prefix_def)

lemma samsung_writes: "writes_in (near source extracted) bs (snd (extract_samsung_archive ar source extracted bs))"
proof -
  let ?bs1 = "extract_samsung_all ar source (sub extracted ''samsung_extracted'') (samsung_archives bs source) bs"
  have "writes_in (near source extracted) ?bs1 (fold (unpack_lz4 ar) (lz4_files (sub extracted ''samsung_extracted'') ?bs1) ?bs1)"
    by (rule fold_writes, rule unpack_writes) (use lz4_under in blast)+
  from writes_trans [OF samsung_all_writes this] show ?thesis by (simp add: extract_samsung_archive_def Let_def)
qed

lemma writes_mono: "writes_in P bs bs' \<Longrightarrow> (\<And>p. P p \<Longrightarrow> Q p) \<Longrightarrow> writes_in Q bs bs'"
  by (auto simp: writes_in_def)

lemma find_sources_writes: "writes_in (near source extracted) bs (fs_blobs (find_sources ar source extracted samsung bs))"
proof -
  obtain images bs1 where e: "extract_fastboot_archive ar source extracted bs = (images, bs1)" by (metis surj_pair)
  have "writes_in (below_dir extracted) bs (snd (extract_fastboot_archive ar source extracted bs))"
    unfolding extract_fastboot_archive_def by (rule extract_archives_writes)
  then have "writes_in (below_dir extracted) bs bs1" by (simp add: e)
  then have 1: "writes_in (near source extracted) bs bs1" by (rule writes_mono) (simp add: near_def)
  obtain si bs2 where s: "extract_samsung_archive ar source extracted bs1 = (si, bs2)" by (metis surj_pair)
  have "writes_in (near source extracted) bs bs2" using writes_trans [OF 1 samsung_writes] s by (metis snd_conv)
  with 1 show ?thesis by (simp add: find_sources_def Let_def e s)
qed

section \<open>What is found\<close>

text \<open>The images found are plausible files of a folder that is not the staging folder.\<close>

definition image_source :: "string \<Rightarrow> blobs \<Rightarrow> string \<times> string \<Rightarrow> bool" where
  "image_source staged bs im \<longleftrightarrow>
     \<not> below_dir staged (snd im) \<and> plausible_at bs (snd im) \<and> CHR ''/'' \<notin> set (staged_name im)"

lemma split_on_at_sep: "split_on c (xs @ c # ys) = split_on c xs @ split_on c ys"
proof (induction xs)
  case (Cons x xs)
  then show ?case using split_on_nonempty [of c xs] by (auto split: list.split)
qed simp

lemma file_name_sub: "CHR ''/'' \<notin> set n \<Longrightarrow> file_name_of (dir @ CHR ''/'' # n) = n"
  by (simp add: file_name_of_def split_on_at_sep split_on_no_sep)

lemma below_sub_iff: "CHR ''/'' \<notin> set n \<Longrightarrow> below_dir staged (dir @ CHR ''/'' # n) \<Longrightarrow> below_dir staged (dir @ ''/'')"
proof -
  assume n: "CHR ''/'' \<notin> set n" and "below_dir staged (dir @ CHR ''/'' # n)"
  then have "prefix (staged @ ''/'') ((dir @ ''/'') @ n)" by (simp add: below_dir_def starts_with_def)
  from prefix_append [of "staged @ ''/''" "dir @ ''/''" n, THEN iffD1, OF this] show ?thesis
  proof
    assume "\<exists>us. staged @ ''/'' = (dir @ ''/'') @ us \<and> prefix us n"
    then obtain us where us: "staged @ ''/'' = (dir @ ''/'') @ us" "prefix us n" by blast
    show ?thesis
    proof (cases "us = []")
      case False
      with us(1) have "last us = CHR ''/''" by (metis last_appendR last_snoc)
      with us(2) n False show ?thesis by (metis last_in_set set_mono_prefix subsetD)
    qed (use us in \<open>simp add: below_dir_def starts_with_def\<close>)
  qed (simp add: below_dir_def starts_with_def)
qed

lemma fastboot_sources:
  assumes "\<not> below_dir staged (dir @ ''/'')"
  shows "list_all (image_source staged bs) (find_fastboot_images bs dir)"
proof -
  have plain: "CHR ''/'' \<notin> set n" if "n \<in> set fastboot_order" for n using that by (auto simp: fastboot_order_def)
  then show ?thesis
    using assms below_sub_iff by (auto simp: find_fastboot_images_def image_source_def list_all_iff staged_name_def file_name_sub)
qed

lemma in_map_filter: "y \<in> set (List.map_filter f xs) \<longleftrightarrow> (\<exists>x \<in> set xs. f x = Some y)"
  by (induction xs) (auto simp: List.map_filter_simps split: option.split)

lemma names_in_plain: "n \<in> set (names_in bs dir) \<Longrightarrow> CHR ''/'' \<notin> set n"
  by (auto simp: names_in_def in_map_filter Let_def split: if_splits)

lemma first_image_in:
  assumes "first_image images patterns = Some i"
  shows "i \<in> set images"
proof -
  let ?f = "\<lambda>pattern. find (\<lambda>i. star_match pattern (lower i)) images"
  have "i \<in> set (List.map_filter ?f patterns)"
    using assms by (auto simp: first_image_def split: list.splits)
  then show ?thesis by (auto simp: in_map_filter find_Some_iff)
qed

lemma heimdall_sources:
  assumes "\<not> below_dir staged (dir @ ''/'')"
  shows "list_all (image_source staged bs) (find_heimdall_images bs dir)"
proof -
  have "image_source staged bs (partition, dir @ CHR ''/'' # i)"
    if "i \<in> set (names_in bs dir)" "plausible_at bs (dir @ CHR ''/'' # i)" for partition i
    using that assms below_sub_iff [OF names_in_plain [OF that(1)]] names_in_plain [OF that(1)]
    by (auto simp: image_source_def staged_name_def file_name_sub)
  then show ?thesis
    by (auto simp: find_heimdall_images_def Let_def list_all_iff in_map_filter dest!: first_image_in)
qed

lemma archive_sources:
  assumes "\<And>x. \<not> below_dir staged (sub extracted x @ ''/'')" "extract_archives ar source extracted names bs = (images, bs')"
  shows "list_all (image_source staged bs') images"
  using assms(2)
proof (induction names arbitrary: bs)
  case (Cons name names)
  obtain ok bs1 where a: "extract_archive ar source extracted name bs = (ok, bs1)" by (metis surj_pair)
  have "list_all (image_source staged bs1) (find_fastboot_images bs1 (extraction_target extracted name))"
    using fastboot_sources assms(1) by (simp add: extraction_target_def)
  with Cons show ?case by (cases ok) (auto simp: a Let_def split: if_splits)
qed simp

definition found_images :: "found_sources \<Rightarrow> (string \<times> string) list" where
  "found_images found = fs_heimdall found @ fs_fastboot found"

lemma found_are_sources:
  assumes "\<not> below_dir staged (source @ ''/'')" "\<And>x. \<not> below_dir staged (sub extracted x @ ''/'')"
  shows "list_all (image_source staged (fs_blobs (find_sources ar source extracted samsung bs)))
           (found_images (find_sources ar source extracted samsung bs))"
proof -
  obtain images bs1 where e: "extract_fastboot_archive ar source extracted bs = (images, bs1)" by (metis surj_pair)
  then have 1: "list_all (image_source staged bs1) images"
    using archive_sources [OF assms(2)] unfolding extract_fastboot_archive_def by blast
  obtain si bs2 where s: "extract_samsung_archive ar source extracted bs1 = (si, bs2)" by (metis surj_pair)
  then have 2: "list_all (image_source staged bs2) si"
    using heimdall_sources [of staged "sub extracted ''samsung_extracted''" bs2] assms(2) [of "''samsung_extracted''"]
    by (auto simp: extract_samsung_archive_def Let_def split: if_splits)
  show ?thesis
    using 1 2 fastboot_sources [OF assms(1)] heimdall_sources [OF assms(1)]
    by (simp add: find_sources_def found_images_def Let_def e s)
qed

lemma find_found: "find P xs = Some x \<Longrightarrow> x \<in> set xs \<and> P x"
  by (metis find_Some_iff nth_mem)

lemma zip_source:
  assumes "fs_zip (find_sources ar source extracted samsung bs) = Some n"
  shows "CHR ''/'' \<notin> set n \<and> blob (fs_blobs (find_sources ar source extracted samsung bs)) (source @ CHR ''/'' # n) \<noteq> None"
proof -
  have f: "find_sideload_zip ar bs source = Some n \<and> fs_blobs (find_sources ar source extracted samsung bs) = bs"
    using assms by (auto simp: find_sources_def Let_def split: if_splits prod.splits)
  then have n: "n \<in> set ([''update.zip'', ''ota.zip'', ''payload.zip''] @ sorted_glob bs source ''.zip'')"
    and b: "case blob bs (sub source n) of None \<Rightarrow> False | Some c \<Rightarrow> is_android_sideload_zip ar c"
    unfolding find_sideload_zip_def by (blast dest: find_found)+
  from b have "blob bs (source @ CHR ''/'' # n) \<noteq> None" by (auto split: option.splits)
  moreover have "CHR ''/'' \<notin> set n" using n by (auto simp: sorted_glob_def dest: names_in_plain)
  ultimately show ?thesis using f by simp
qed

section \<open>What is staged\<close>

lemma blob_stage: "blob (stage_image staged im bs) p
    = (if p = sub staged (staged_name im) \<and> blob bs (snd im) \<noteq> None then blob bs (snd im) else blob bs p)"
  by (auto simp: stage_image_def split: option.split)

lemma stage_plausible:
  assumes "plausible_at bs (snd im)"
  shows "plausible_at (stage_image staged im bs) (sub staged (staged_name im))"
    and "plausible_at bs p \<Longrightarrow> plausible_at (stage_image staged im bs) p"
  using assms by (auto simp: plausible_at_def blob_stage split: option.splits)

lemma stage_all_plausible:
  assumes "list_all (\<lambda>im. plausible_at bs (snd im)) ims"
  shows "(\<forall>p. plausible_at bs p \<longrightarrow> plausible_at (stage_all staged ims bs) p)
     \<and> (\<forall>im \<in> set ims. plausible_at (stage_all staged ims bs) (sub staged (staged_name im)))"
  using assms
proof (induction ims arbitrary: bs)
  case (Cons im ims)
  let ?bs = "stage_image staged im bs"
  have "list_all (\<lambda>im. plausible_at ?bs (snd im)) ims"
    using Cons.prems stage_plausible(2) by (auto simp: list_all_iff)
  from Cons.IH [OF this] stage_plausible [where bs = bs and im = im and staged = staged] Cons.prems show ?case
    by (auto simp: stage_all_def)
qed (simp add: stage_all_def)

lemma stage_all_names:
  assumes "list_all (\<lambda>im. blob bs (snd im) \<noteq> None) ims"
  shows "blob (stage_all staged ims bs) p \<noteq> None \<longleftrightarrow> blob bs p \<noteq> None \<or> p \<in> (\<lambda>im. sub staged (staged_name im)) ` set ims"
  using assms
proof (induction ims arbitrary: bs)
  case (Cons im ims)
  let ?bs = "stage_image staged im bs"
  have "list_all (\<lambda>im. blob ?bs (snd im) \<noteq> None) ims"
    using Cons.prems by (auto simp: list_all_iff blob_stage)
  from Cons.IH [OF this] Cons.prems show ?case
    by (auto simp: stage_all_def blob_stage)
qed (simp add: stage_all_def)

abbreviation staged_dir :: "string \<Rightarrow> string" where
  "staged_dir dir \<equiv> sub (build_dir dir) ''staged''"

abbreviation extracted_dir :: "string \<Rightarrow> string" where
  "extracted_dir dir \<equiv> sub (build_dir dir) ''extracted''"

text \<open>The sources found and the choice among them in a run of the builder.\<close>

definition prepared :: "string \<Rightarrow> blobs \<Rightarrow> blobs" where
  "prepared dir bs =
     (let bs0 = clear_folder (staged_dir dir) bs; readme_path = sub (os_source_dir dir) ''README.md'' in
      if blob bs0 readme_path = None then put readme_path source_readme bs0 else bs0)"

definition found_in :: "archives \<Rightarrow> string \<Rightarrow> jdict \<Rightarrow> blobs \<Rightarrow> found_sources" where
  "found_in ar dir device bs = find_sources ar (os_source_dir dir) (extracted_dir dir) (is_samsung device) (prepared dir bs)"

definition chosen_in :: "archives \<Rightarrow> string \<Rightarrow> jdict \<Rightarrow> blobs \<Rightarrow> selection" where
  "chosen_in ar dir device bs =
     (let found = found_in ar dir device bs in
      choose_images (os_source_dir dir) (fs_heimdall found) (fs_zip found) (fs_fastboot found))"

lemma build_run:
  assumes "build_images ar dir bp device (bs, dk) = (r, bs', dk')" "dget0 r ''details'' = JObj m"
  shows "bs' = pack_bundle ar dir (chosen_in ar dir device bs)
           (stage_all (staged_dir dir) (se_images (chosen_in ar dir device bs)) (fs_blobs (found_in ar dir device bs)))"
    and "m = build_manifest dir bp (found_in ar dir device bs) (chosen_in ar dir device bs)"
  using assms by (auto simp: build_images_def chosen_in_def found_in_def prepared_def Let_def)

lemma apart:
  "\<not> below_dir (staged_dir dir) (os_source_dir dir @ ''/'')" "\<not> below_dir (staged_dir dir) (sub (extracted_dir dir) x @ ''/'')"
  "\<not> near (os_source_dir dir) (extracted_dir dir) (staged_dir dir @ CHR ''/'' # n)"
  by (simp_all add: below_dir_def starts_with_def build_dir_def os_source_dir_def near_def)

lemma chosen_plausible:
  assumes "se_mode (chosen_in ar dir device bs) \<in> {''fastboot_images'', ''heimdall_flash''}"
  shows "list_all (\<lambda>im. plausible_at (fs_blobs (found_in ar dir device bs)) (snd im)) (se_images (chosen_in ar dir device bs))"
    and "se_images (chosen_in ar dir device bs) \<noteq> []"
proof -
  have "list_all (image_source (staged_dir dir) (fs_blobs (found_in ar dir device bs))) (found_images (found_in ar dir device bs))"
    unfolding found_in_def by (rule found_are_sources) (rule apart)+
  then show "list_all (\<lambda>im. plausible_at (fs_blobs (found_in ar dir device bs)) (snd im)) (se_images (chosen_in ar dir device bs))"
    using assms by (auto simp: chosen_in_def choose_images_def Let_def found_images_def image_source_def list_all_iff
        split: if_splits option.splits)
  show "se_images (chosen_in ar dir device bs) \<noteq> []"
    using assms by (auto simp: chosen_in_def choose_images_def Let_def split: if_splits option.splits)
qed

lemma blob_bundle:
  "blob (pack_bundle ar dir s bs) (staged_dir dir @ CHR ''/'' # n) = blob bs (staged_dir dir @ CHR ''/'' # n)"
  by (simp add: pack_bundle_def Let_def build_dir_def) (simp add: blob_def AList.delete_conv)

lemma plausible_atD:
  "plausible_at bs f \<Longrightarrow> \<exists>c. blob bs f = Some c \<and> 1024 * 1024 \<le> length c \<and> \<not> list_ex (contains (lower (take 256 c))) mock_markers"
  by (auto simp: plausible_at_def plausible_image_def mib_def split: option.splits)

text \<open>
  C15. Only real images are staged. When the builder decides for fastboot or Samsung images, it lists
  at least one staged file, and each of them is there, has at least one mebibyte and none of the
  marks of a mock image.
\<close>

theorem staged_images_are_plausible:
  assumes "build_images ar dir bp device (bs, dk) = (r, bs', dk')" "dget0 r ''details'' = JObj m"
    and "dget0 m ''install_mode'' = JStr mode" "mode \<in> {''fastboot_images'', ''heimdall_flash''}"
  shows "\<exists>files. dget0 m ''staged_files'' = jstrs files \<and> files \<noteq> []
     \<and> (\<forall>f \<in> set files. \<exists>c. blob bs' f = Some c \<and> 1024 * 1024 \<le> length c \<and> \<not> list_ex (contains (lower (take 256 c))) mock_markers)"
proof -
  let ?s = "chosen_in ar dir device bs" and ?found = "found_in ar dir device bs"
  have m: "m = build_manifest dir bp ?found ?s" by (rule build_run(2) [OF assms(1,2)])
  then have "se_mode ?s \<in> {''fastboot_images'', ''heimdall_flash''}" using assms(3,4) by (auto simp: build_manifest_def)
  note c = chosen_plausible [OF this]
  have "plausible_at bs' (staged_dir dir @ CHR ''/'' # staged_name im)" if "im \<in> set (se_images ?s)" for im
    using stage_all_plausible [OF c(1), of "staged_dir dir"] that
    by (simp add: build_run(1) [OF assms(1,2)] plausible_at_def blob_bundle [simplified])
  then have "plausible_at bs' f" if "f \<in> set (map (\<lambda>i. staged_dir dir @ CHR ''/'' # staged_name i) (se_images ?s))" for f
    using that unfolding set_map by blast
  then have "\<exists>c. blob bs' f = Some c \<and> 1024 * 1024 \<le> length c \<and> \<not> list_ex (contains (lower (take 256 c))) mock_markers"
    if "f \<in> set (map (\<lambda>i. staged_dir dir @ CHR ''/'' # staged_name i) (se_images ?s))" for f
    using that by (metis plausible_atD)
  moreover have "dget0 m ''staged_files'' = jstrs (map (\<lambda>i. staged_dir dir @ CHR ''/'' # staged_name i) (se_images ?s))"
    by (simp add: m build_manifest_def)
  ultimately show ?thesis using c(2) by blast
qed

lemma chosen_present:
  "list_all (\<lambda>im. blob (fs_blobs (found_in ar dir device bs)) (snd im) \<noteq> None) (se_images (chosen_in ar dir device bs))"
proof (cases "se_mode (chosen_in ar dir device bs) \<in> {''fastboot_images'', ''heimdall_flash''}")
  case True
  from chosen_plausible(1) [OF this] show ?thesis by (auto simp: list_all_iff plausible_at_def split: option.splits)
next
  case False
  then show ?thesis
    using zip_source [of ar "os_source_dir dir" "extracted_dir dir" "is_samsung device" "prepared dir bs"]
    by (auto simp: chosen_in_def found_in_def choose_images_def Let_def split: if_splits option.splits)
qed

lemma chosen_plain_names:
  "im \<in> set (se_images (chosen_in ar dir device bs)) \<Longrightarrow> CHR ''/'' \<notin> set (staged_name im)"
proof -
  assume im: "im \<in> set (se_images (chosen_in ar dir device bs))"
  have f: "list_all (image_source (staged_dir dir) (fs_blobs (found_in ar dir device bs))) (found_images (found_in ar dir device bs))"
    unfolding found_in_def by (rule found_are_sources) (rule apart)+
  show ?thesis
    using im f zip_source [of ar "os_source_dir dir" "extracted_dir dir" "is_samsung device" "prepared dir bs"]
    by (auto simp: chosen_in_def choose_images_def Let_def found_images_def image_source_def list_all_iff found_in_def
        staged_name_def file_name_sub split: if_splits option.splits)
qed

lemma staged_cleared:
  assumes "CHR ''/'' \<notin> set n"
  shows "blob (fs_blobs (found_in ar dir device bs)) (staged_dir dir @ CHR ''/'' # n) = None"
proof -
  have "blob (prepared dir bs) (staged_dir dir @ CHR ''/'' # n) = None"
    using assms
    by (auto simp: prepared_def Let_def build_dir_def os_source_dir_def)
      (auto simp: blob_def clear_folder_def map_of_eq_None_iff starts_with_def)
  then show ?thesis
    using find_sources_writes [of "os_source_dir dir" "extracted_dir dir" "prepared dir bs" ar "is_samsung device"] apart(3)
    by (simp add: found_in_def writes_in_def)
qed


lemma extracted_fastboot:
  "extract_archives ar source extracted names bs = (images, bs') \<Longrightarrow> images = [] \<or> (\<exists>d. images = find_fastboot_images bs' d)"
  by (induction names arbitrary: bs) (auto simp: Let_def split: prod.splits bool.splits if_splits)

lemma fastboot_found:
  "\<exists>bs1 d. fs_fastboot (find_sources ar source extracted samsung bs) = find_fastboot_images bs1 d
     \<or> fs_fastboot (find_sources ar source extracted samsung bs) = []"
proof -
  obtain images bs1 where e: "extract_fastboot_archive ar source extracted bs = (images, bs1)" by (metis surj_pair)
  obtain si bs2 where s: "extract_samsung_archive ar source extracted bs1 = (si, bs2)" by (metis surj_pair)
  have "\<exists>d. images = [] \<or> images = find_fastboot_images bs1 d"
    using extracted_fastboot e unfolding extract_fastboot_archive_def by blast
  then show ?thesis by (auto simp: find_sources_def Let_def e s)
qed

text \<open>
  Fastboot images are flashed in the fixed order of the partitions, each at most once, and every
  command names the staged file of its partition.
\<close>

theorem fastboot_steps_in_order:
  assumes "build_images ar dir bp device (bs, dk) = (r, bs', dk')" "dget0 r ''details'' = JObj m"
    and "dget0 m ''install_mode'' = JStr ''fastboot_images''"
  shows "\<exists>names steps. subseq names fastboot_order \<and> dget0 m ''flash_steps'' = JList (map JObj steps)
     \<and> map (\<lambda>s. dstr s ''command'' []) steps = map (\<lambda>n. ''fastboot flash '' @ take (length n - 4) n @ '' '' @ n) names"
proof -
  let ?s = "chosen_in ar dir device bs" and ?found = "found_in ar dir device bs"
  have m: "m = build_manifest dir bp ?found ?s" by (rule build_run(2) [OF assms(1,2)])
  then have "se_mode ?s = ''fastboot_images''" using assms(3) by (simp add: build_manifest_def)
  then have s: "se_steps ?s = map fastboot_step (fs_fastboot ?found)"
    by (auto simp: chosen_in_def choose_images_def Let_def split: if_splits option.splits)
  obtain bs1 d where "fs_fastboot ?found = find_fastboot_images bs1 d \<or> fs_fastboot ?found = []"
    using fastboot_found unfolding found_in_def by blast
  then obtain P where f: "fs_fastboot ?found = map (\<lambda>n. (take (length n - 4) n, sub d n)) (filter P fastboot_order)"
  proof
    assume "fs_fastboot ?found = find_fastboot_images bs1 d"
    then show thesis unfolding find_fastboot_images_def by (rule that)
  next
    assume "fs_fastboot ?found = []"
    then show thesis by (intro that [of "\<lambda>n. False"]) simp
  qed
  have "CHR ''/'' \<notin> set n" if "n \<in> set fastboot_order" for n using that by (auto simp: fastboot_order_def)
  then have "dstr (fastboot_step (take (length n - 4) n, sub d n)) ''command'' []
      = ''fastboot flash '' @ take (length n - 4) n @ '' '' @ n" if "n \<in> set fastboot_order" for n
    using that by (simp add: fastboot_step_def staged_name_def file_name_sub dstr_def)
  then have "map (\<lambda>s. dstr s ''command'' []) (se_steps ?s)
      = map (\<lambda>n. ''fastboot flash '' @ take (length n - 4) n @ '' '' @ n) (filter P fastboot_order)"
    by (simp add: s f)
  moreover have "dget0 m ''flash_steps'' = JList (map JObj (se_steps ?s))" by (simp add: m build_manifest_def)
  ultimately show ?thesis using subseq_filter_left by blast
qed

definition demo_boot :: string where
  "demo_boot = replicate (1024 * 1024) CHR ''x''"

definition demo_blobs :: blobs where
  "demo_blobs = [(os_source_dir ''d'' @ ''/boot.img'', demo_boot)]"

definition demo_archives :: archives where
  "demo_archives = \<lparr>ar_zip = (\<lambda>_. None), ar_tar = (\<lambda>_. None), ar_lz4 = (\<lambda>_. None), ar_pack = (\<lambda>_. [])\<rparr>"

lemma contains_replicate: "x \<noteq> c \<Longrightarrow> \<not> contains (replicate n c) (x # m)"
  by (induction n) (auto simp: starts_with_def)

lemma demo_plausible: "plausible_image demo_boot"
proof -
  have "take 256 demo_boot = replicate 256 CHR ''x''" unfolding demo_boot_def by (simp add: take_replicate)
  moreover have "lower (replicate n CHR ''x'') = replicate n CHR ''x''" for n
  proof -
    have "lower_char CHR ''x'' = CHR ''x''" by code_simp
    then show ?thesis by (simp add: lower_def)
  qed
  moreover have "length demo_boot = mib" by (simp add: demo_boot_def mib_def)
  ultimately show ?thesis
    by (simp add: plausible_image_def mock_markers_def contains_replicate)
qed

lemma demo_blob:
  "blob (prepared ''d'' demo_blobs) p
     = (if p = os_source_dir ''d'' @ ''/boot.img'' then Some demo_boot
        else if p = os_source_dir ''d'' @ ''/README.md'' then Some source_readme else None)"
proof -
  have "clear_folder (staged_dir ''d'') demo_blobs = demo_blobs"
    by (simp add: clear_folder_def demo_blobs_def starts_with_def os_source_dir_def build_dir_def)
  moreover have "blob demo_blobs q = (if q = os_source_dir ''d'' @ ''/boot.img'' then Some demo_boot else None)" for q
    by (simp add: demo_blobs_def blob_def)
  ultimately show ?thesis by (simp add: prepared_def Let_def)
qed

lemma demo_found:
  "find_fastboot_images (prepared ''d'' demo_blobs) (os_source_dir ''d'') = [(''boot'', sub (os_source_dir ''d'') ''boot.img'')]"
  by (simp add: find_fastboot_images_def fastboot_order_def plausible_at_def demo_blob demo_plausible)

lemma demo_no_zip: "find_sideload_zip demo_archives bs dir = None"
  by (auto simp: find_sideload_zip_def find_None_iff is_android_sideload_zip_def demo_archives_def split: option.split)

lemma demo_chosen: "se_mode (chosen_in demo_archives ''d'' [] demo_blobs) = ''fastboot_images''"
proof -
  have "\<not> is_samsung []" by code_simp
  then show ?thesis
    by (simp add: chosen_in_def found_in_def find_sources_def demo_no_zip demo_found choose_images_def)
qed

lemma demo_run:
  "\<exists>r bs dk m. build_images demo_archives ''d'' [] [] (demo_blobs, \<lparr>dk_files = [], dk_dirs = []\<rparr>) = (r, bs, dk)
     \<and> dget0 r ''details'' = JObj m \<and> dget0 m ''install_mode'' = JStr ''fastboot_images''"
proof -
  let ?out = "build_images demo_archives ''d'' [] [] (demo_blobs, \<lparr>dk_files = [], dk_dirs = []\<rparr>)"
  let ?m = "build_manifest ''d'' [] (found_in demo_archives ''d'' [] demo_blobs) (chosen_in demo_archives ''d'' [] demo_blobs)"
  obtain r bs dk where e: "?out = (r, bs, dk)" by (metis prod_cases3)
  then have d: "dget0 r ''details'' = JObj ?m"
    by (auto simp: build_images_def chosen_in_def found_in_def prepared_def Let_def)
  have "dget0 ?m ''install_mode'' = JStr ''fastboot_images''" by (simp add: build_manifest_def demo_chosen)
  with e d show ?thesis by blast
qed

theorem staged_images_are_plausible_witness:
  "\<exists>r bs dk m files. build_images demo_archives ''d'' [] [] (demo_blobs, \<lparr>dk_files = [], dk_dirs = []\<rparr>) = (r, bs, dk)
     \<and> dget0 r ''details'' = JObj m \<and> dget0 m ''staged_files'' = jstrs files \<and> files \<noteq> []
     \<and> (\<forall>f \<in> set files. \<exists>c. blob bs f = Some c \<and> 1024 * 1024 \<le> length c)"
proof -
  from demo_run obtain r bs dk m where
    1: "build_images demo_archives ''d'' [] [] (demo_blobs, \<lparr>dk_files = [], dk_dirs = []\<rparr>) = (r, bs, dk)"
    and 2: "dget0 r ''details'' = JObj m" "dget0 m ''install_mode'' = JStr ''fastboot_images''" by blast
  from staged_images_are_plausible [OF 1 2] 1 2 show ?thesis by blast
qed


theorem fastboot_steps_in_order_witness:
  "\<exists>r bs dk m names steps. build_images demo_archives ''d'' [] [] (demo_blobs, \<lparr>dk_files = [], dk_dirs = []\<rparr>) = (r, bs, dk)
     \<and> dget0 r ''details'' = JObj m \<and> subseq names fastboot_order \<and> dget0 m ''flash_steps'' = JList (map JObj steps)
     \<and> map (\<lambda>s. dstr s ''command'' []) steps = map (\<lambda>n. ''fastboot flash '' @ take (length n - 4) n @ '' '' @ n) names"
proof -
  from demo_run obtain r bs dk m where
    1: "build_images demo_archives ''d'' [] [] (demo_blobs, \<lparr>dk_files = [], dk_dirs = []\<rparr>) = (r, bs, dk)"
    and 2: "dget0 r ''details'' = JObj m" "dget0 m ''install_mode'' = JStr ''fastboot_images''" by blast
  from fastboot_steps_in_order [OF 1 2] 1 2 show ?thesis by blast
qed

end
