(* ===== verification/Byte_Data.thy ===== *)
theory Byte_Data
  imports Forge_Prelude "HOL-Library.Word"
begin

text \<open>
  Byte strings for the tools of the appliance: Python's \<open>bytes\<close> as lists of 8-bit words, slices,
  the little-endian integers of \<open>struct\<close>, alignment, the padding with zero bytes and its
  removal. Sizes and offsets are read as unsigned integers and never become negative, so they
  are natural numbers.
\<close>

type_synonym byte = "8 word"
type_synonym bytes = "byte list"

text \<open>A slice \<open>data[a:b]\<close> for \<open>0 \<le> a\<close> and \<open>0 \<le> b\<close>.\<close>

definition segment :: "nat \<Rightarrow> nat \<Rightarrow> 'a list \<Rightarrow> 'a list" where
  "segment a b xs = take (b - a) (drop a xs)"

text \<open>\<open>data[a:b] = ys\<close> on a \<open>bytearray\<close> with \<open>a \<le> b\<close>.\<close>

definition splice :: "nat \<Rightarrow> nat \<Rightarrow> 'a list \<Rightarrow> 'a list \<Rightarrow> 'a list" where
  "splice a b ys xs = take a xs @ ys @ drop b xs"

primrec le_nat :: "bytes \<Rightarrow> nat" where
  "le_nat [] = 0"
| "le_nat (b # bs) = unat b + 256 * le_nat bs"

primrec le_bytes :: "nat \<Rightarrow> nat \<Rightarrow> bytes" where
  "le_bytes 0 v = []"
| "le_bytes (Suc n) v = word_of_nat v # le_bytes n (v div 256)"

definition zeros :: "nat \<Rightarrow> bytes" where
  "zeros n = replicate n 0"

text \<open>\<open>any(data)\<close> and \<open>data.rstrip(b"\0")\<close>.\<close>

definition any_set :: "bytes \<Rightarrow> bool" where
  "any_set bs \<longleftrightarrow> \<not> list_all (\<lambda>b. b = 0) bs"

definition rstrip_zeros :: "bytes \<Rightarrow> bytes" where
  "rstrip_zeros bs = rev (dropWhile (\<lambda>b. b = 0) (rev bs))"

text \<open>The rounding of \<open>_align\<close>, for a positive page.\<close>

definition align_up :: "nat \<Rightarrow> nat \<Rightarrow> nat" where
  "align_up v page = (v + page - 1) div page * page"

text \<open>The text of an ASCII literal as bytes.\<close>

definition ascii :: "string \<Rightarrow> bytes" where
  "ascii s = map (\<lambda>c. word_of_nat (of_char c)) s"

section \<open>Slices\<close>

lemma length_segment [simp]: "length (segment a b xs) = min (b - a) (length xs - a)"
  by (simp add: segment_def)

lemma segment_full [simp]: "segment 0 (length xs) xs = xs"
  by (simp add: segment_def)

lemma segment_append_left: "b \<le> length xs \<Longrightarrow> segment a b (xs @ ys) = segment a b xs"
  by (cases "a \<le> b") (simp_all add: segment_def)

lemma segment_append_right: "length xs \<le> a \<Longrightarrow> segment a b (xs @ ys) = segment (a - length xs) (b - length xs) ys"
  by (simp add: segment_def)

lemma segment_append_exact [simp]: "segment (length xs) (length xs + length ys) (xs @ ys @ zs) = ys"
  by (simp add: segment_def)

lemma segment_drop: "segment a b (drop n xs) = segment (n + a) (n + b) xs"
  by (simp add: segment_def add.commute)

lemma segment_split: "a \<le> b \<Longrightarrow> b \<le> c \<Longrightarrow> segment a b xs @ segment b c xs = segment a c xs"
proof -
  assume ab: "a \<le> b" and bc: "b \<le> c"
  have "take (c - a) (drop a xs) = take (b - a) (drop a xs) @ take (c - b) (drop (b - a) (drop a xs))"
    using take_add [of "b - a" "c - b" "drop a xs"] ab bc by simp
  then show ?thesis using ab by (simp add: segment_def)
qed

lemma segment_to_end: "segment a (length xs) xs = drop a xs"
  by (simp add: segment_def)

lemma take_segment: "take n xs = segment 0 n xs"
  by (simp add: segment_def)

lemma segment_take: "b \<le> n \<Longrightarrow> segment a b (take n xs) = segment a b xs"
  by (simp add: segment_def drop_take min_def)

lemma segment_segment: "b \<le> d - c \<Longrightarrow> segment a b (segment c d xs) = segment (c + a) (c + b) xs"
  by (simp add: segment_def drop_take add.commute)

lemma length_splice:
  "a \<le> b \<Longrightarrow> b \<le> length xs \<Longrightarrow> length ys = b - a \<Longrightarrow> length (splice a b ys xs) = length xs"
  by (simp add: splice_def)

lemma segment_splice_same:
  "a \<le> length xs \<Longrightarrow> length ys = b - a \<Longrightarrow> segment a b (splice a b ys xs) = ys"
  by (simp add: segment_def splice_def)

lemma segment_splice_before:
  "d \<le> a \<Longrightarrow> a \<le> length xs \<Longrightarrow> segment c d (splice a b ys xs) = segment c d xs"
proof -
  assume d: "d \<le> a" and a: "a \<le> length xs"
  then have "segment c d (take a xs @ ys @ drop b xs) = segment c d (take a xs)"
    by (intro segment_append_left) simp
  with d show ?thesis by (simp add: splice_def segment_take)
qed

lemma segment_splice_after:
  "b \<le> c \<Longrightarrow> a \<le> b \<Longrightarrow> b \<le> length xs \<Longrightarrow> length ys = b - a \<Longrightarrow> segment c d (splice a b ys xs) = segment c d xs"
  by (auto simp: splice_def segment_def)

lemma splice_id: "a \<le> b \<Longrightarrow> splice a b (segment a b xs) xs = xs"
proof -
  assume ab: "a \<le> b"
  have "segment a b xs @ drop b xs = drop a xs"
    using append_take_drop_id [of "b - a" "drop a xs"] ab by (simp add: segment_def)
  then show ?thesis by (simp add: splice_def)
qed

section \<open>Little-endian integers\<close>

lemma length_le_bytes [simp]: "length (le_bytes n v) = n"
  by (induction n arbitrary: v) simp_all

lemma unat_byte [simp]: "unat (word_of_nat v :: byte) = v mod 256"
  by (simp add: unat_of_nat)

lemma le_nat_le_bytes: "le_nat (le_bytes n v) = v mod 256 ^ n"
proof (induction n arbitrary: v)
  case (Suc n)
  have "v mod 256 + 256 * (v div 256 mod 256 ^ n) = v mod (256 * 256 ^ n)"
    by (metis mod_mult2_eq add.commute)
  with Suc show ?case by simp
qed simp

lemma le_nat_bound: "le_nat bs < 256 ^ length bs"
proof (induction bs)
  case (Cons b bs)
  have "unat b < 256" using unsigned_less [of b] by simp
  with Cons show ?case by simp
qed simp

lemma le_bytes_le_nat: "length bs = n \<Longrightarrow> le_bytes n (le_nat bs) = bs"
proof (induction bs arbitrary: n)
  case (Cons b bs)
  have b: "unat b < 256" using unsigned_less [of b] by simp
  then have "(unat b + 256 * le_nat bs) div 256 = le_nat bs" by simp
  moreover have "word_of_nat (unat b + 256 * le_nat bs) = b"
    unfolding word_unat_eq_iff unat_byte using b by simp
  ultimately show ?case using Cons by auto
qed simp

lemma le_nat_eq: "length bs = n \<Longrightarrow> length cs = n \<Longrightarrow> le_nat bs = le_nat cs \<longleftrightarrow> bs = cs"
  by (metis le_bytes_le_nat)

section \<open>Zero padding\<close>

lemma length_zeros [simp]: "length (zeros n) = n"
  by (simp add: zeros_def)

lemma zeros_0 [simp]: "zeros 0 = []"
  by (simp add: zeros_def)

lemma zeros_add: "zeros (m + n) = zeros m @ zeros n"
  by (simp add: zeros_def replicate_add)

lemma segment_whole: "length xs \<le> n \<Longrightarrow> segment 0 n xs = xs"
  by (simp add: segment_def)

lemma segment_zeros: "segment a b (zeros n) = zeros (min (b - a) (n - a))"
  by (simp add: segment_def zeros_def min_def)

lemma le_nat_zeros [simp]: "le_nat (zeros n) = 0"
  by (induction n) (simp_all add: zeros_def)

lemma any_set_zeros [simp]: "\<not> any_set (zeros n)"
  by (simp add: any_set_def zeros_def list_all_iff)

lemma not_any_set: "\<not> any_set bs \<longleftrightarrow> bs = zeros (length bs)"
  by (simp add: any_set_def zeros_def list_all_iff list_eq_iff_nth_eq all_set_conv_all_nth)

lemma rstrip_zeros_append [simp]: "rstrip_zeros (bs @ zeros n) = rstrip_zeros bs"
proof -
  have "dropWhile (\<lambda>b. b = (0::byte)) (replicate n 0 @ xs) = dropWhile (\<lambda>b. b = 0) xs" for xs
    by (simp add: dropWhile_append)
  then show ?thesis by (simp add: rstrip_zeros_def zeros_def)
qed

lemma rstrip_zeros_split: "bs = rstrip_zeros bs @ zeros (length bs - length (rstrip_zeros bs))"
proof -
  let ?z = "takeWhile (\<lambda>b. b = (0::byte)) (rev bs)"
  have split: "bs = rstrip_zeros bs @ rev ?z"
    by (metis rstrip_zeros_def rev_append rev_rev_ident takeWhile_dropWhile_id)
  have "list_all (\<lambda>b. b = 0) (rev ?z)"
    by (auto simp: list_all_iff dest: set_takeWhileD)
  then have "rev ?z = zeros (length (rev ?z))"
    using not_any_set [of "rev ?z"] by (simp add: any_set_def)
  moreover have "length (rev ?z) = length bs - length (rstrip_zeros bs)"
    using arg_cong [OF split, of length] by simp
  ultimately show ?thesis using split by argo
qed

lemma rstrip_zeros_idem [simp]: "rstrip_zeros (rstrip_zeros bs) = rstrip_zeros bs"
  by (metis rstrip_zeros_append rstrip_zeros_split)

lemma length_rstrip_zeros: "length (rstrip_zeros bs) \<le> length bs"
  by (metis length_append le_add1 rstrip_zeros_split)

section \<open>Alignment\<close>

lemma align_up_ge: "0 < page \<Longrightarrow> v \<le> align_up v page"
proof -
  assume p: "0 < page"
  have "v + page - 1 = (v + page - 1) div page * page + (v + page - 1) mod page" by simp
  moreover have "(v + page - 1) mod page \<le> page - 1" using p by (metis Suc_pred' less_Suc_eq_le mod_less_divisor)
  ultimately show ?thesis using p unfolding align_up_def by linarith
qed

lemma align_up_less: "0 < page \<Longrightarrow> align_up v page < v + page"
  unfolding align_up_def by (metis Suc_diff_1 add_gr_0 div_times_less_eq_dividend le_imp_less_Suc)

lemma align_up_dvd [simp]: "page dvd align_up v page"
  by (simp add: align_up_def)

lemma align_up_multiple: "0 < page \<Longrightarrow> page dvd v \<Longrightarrow> align_up v page = v"
proof -
  assume p: "0 < page" and d: "page dvd v"
  obtain k where v: "v = page * k" using d by blast
  have "v + page - 1 = (page - 1) + k * page" using p by (simp add: v mult.commute)
  moreover have "((page - 1) + k * page) div page = k"
    using p div_mult_self1 [of page "page - 1" k] by (simp del: div_mult_self1)
  ultimately show ?thesis using p by (simp add: align_up_def v)
qed

lemma length_ascii [simp]: "length (ascii s) = length s"
  by (simp add: ascii_def)

end
