(* ===== verification/Cpio_Archive.thy ===== *)
theory Cpio_Archive
  imports Byte_Data
begin

unbundle bit_operations_syntax

text \<open>
  The ramdisk check of \<open>appliance/standalone/boot_image.py\<close> (\<open>validate_gzip_newc\<close>) and the
  archive builder of \<open>appliance/standalone/build_probe.py\<close> (\<open>archive\<close>).
  Decompression and compression are parameters. Names are the bytes of the archive: decoding
  them with surrogate escapes is injective and keeps NUL and \<open>/\<close>, so the tests on the decoded
  text are tests on the bytes.
\<close>

section \<open>Errors and ranges\<close>

text \<open>\<open>BootImageError\<close> is the tool's own error; \<open>StructError\<close> and \<open>ZlibError\<close> are the exceptions
  of \<open>struct.pack\<close> and of the decompressor that the tool does not catch.\<close>

datatype image_error = BootImageError string | StructError | ZlibError

type_synonym 'a image_res = "image_error + 'a"

definition ensure :: "bool \<Rightarrow> string \<Rightarrow> unit image_res" where
  "ensure c msg = (if c then Inr () else Inl (BootImageError msg))"

lemma ensure_Inr [simp]: "ensure c msg = Inr u \<longleftrightarrow> c"
  and ensure_True [simp]: "ensure True msg = Inr ()"
  by (simp_all add: ensure_def)

definition range_of :: "bytes \<Rightarrow> nat \<Rightarrow> int \<Rightarrow> string \<Rightarrow> bytes image_res" where
  "range_of data start len label =
     (if len < 0 \<or> int start + len > int (length data) then Inl (BootImageError (''truncated '' @ label))
      else Inr (segment start (start + nat len) data))"

lemma range_of_Inr:
  "range_of data start len label = Inr r \<longleftrightarrow>
     0 \<le> len \<and> int start + len \<le> int (length data) \<and> r = segment start (start + nat len) data"
  by (auto simp: range_of_def)

section \<open>\<open>int(field, 16)\<close>\<close>

definition hex_value :: "byte \<Rightarrow> nat option" where
  "hex_value b =
     (let n = unat b in
      if 48 \<le> n \<and> n \<le> 57 then Some (n - 48)
      else if 97 \<le> n \<and> n \<le> 102 then Some (n - 87)
      else if 65 \<le> n \<and> n \<le> 70 then Some (n - 55)
      else None)"

definition is_blank :: "byte \<Rightarrow> bool" where
  "is_blank b \<longleftrightarrow> (let n = unat b in 9 \<le> n \<and> n \<le> 13 \<or> n = 32)"

definition hex_or_underscore :: "byte \<Rightarrow> bool" where
  "hex_or_underscore b \<longleftrightarrow> hex_value b \<noteq> None \<or> b = 95"

text \<open>The prefix \<open>0x\<close> and one underscore behind it are skipped.\<close>

fun strip_prefix :: "bytes \<Rightarrow> bytes" where
  "strip_prefix (z # x # bs) =
     (if z = 48 \<and> (x = 120 \<or> x = 88)
      then (case bs of [] \<Rightarrow> [] | u # us \<Rightarrow> if u = 95 then us else bs)
      else z # x # bs)"
| "strip_prefix bs = bs"

fun double_underscore :: "bytes \<Rightarrow> bool" where
  "double_underscore (a # b # bs) \<longleftrightarrow> a = 95 \<and> b = 95 \<or> double_underscore (b # bs)"
| "double_underscore bs \<longleftrightarrow> False"

definition hex_number :: "bytes \<Rightarrow> nat" where
  "hex_number ds = foldl (\<lambda>n d. case hex_value d of None \<Rightarrow> n | Some v \<Rightarrow> 16 * n + v) 0 ds"

definition py_hex :: "bytes \<Rightarrow> int option" where
  "py_hex bs =
     (let s = dropWhile is_blank bs;
          (negative, s1) = (case s of [] \<Rightarrow> (False, []) | c # cs \<Rightarrow>
             if c = 43 then (False, cs) else if c = 45 then (True, cs) else (False, s));
          s2 = strip_prefix s1;
          digits = takeWhile hex_or_underscore s2;
          trailing = dropWhile is_blank (dropWhile hex_or_underscore s2)
      in if digits = [] \<or> hd digits = 95 \<or> last digits = 95 \<or> double_underscore digits \<or> trailing \<noteq> []
         then None
         else Some (if negative then - int (hex_number digits) else int (hex_number digits)))"

section \<open>The walk over the entries\<close>

definition MAX_CPIO_ENTRIES :: nat where "MAX_CPIO_ENTRIES = 4096"
definition MAX_CPIO_BYTES :: nat where "MAX_CPIO_BYTES = 64 * 1024 * 1024"

definition trailer_name :: bytes where "trailer_name = ascii ''TRAILER!!!''"
definition init_name :: bytes where "init_name = ascii ''init''"
definition slash :: byte where "slash = 47"

definition header_values :: "bytes \<Rightarrow> int list option" where
  "header_values header = those (map (\<lambda>i. py_hex (segment (6 + i * 8) (14 + i * 8) header)) [0..<13])"

fun split_byte :: "byte \<Rightarrow> bytes \<Rightarrow> bytes list" where
  "split_byte c [] = [[]]"
| "split_byte c (b # bs) =
     (if b = c then [] # split_byte c bs
      else (case split_byte c bs of [] \<Rightarrow> [[b]] | p # ps \<Rightarrow> (b # p) # ps))"

definition safe_name :: "bytes \<Rightarrow> bool" where
  "safe_name name \<longleftrightarrow> 0 \<notin> set name \<and> \<not> (name \<noteq> [] \<and> hd name = slash)
     \<and> list_all (\<lambda>p. p \<noteq> [] \<and> p \<noteq> ascii ''.'' \<and> p \<noteq> ascii ''..'') (split_byte slash name)"

definition executable_init :: "bytes \<Rightarrow> int \<Rightarrow> bool" where
  "executable_init name mode \<longleftrightarrow> name = init_name \<and> mode AND 61440 = 32768 \<and> mode AND 73 \<noteq> 0"

text \<open>One header with its name and payload: name, mode, size and the position behind it.\<close>

definition read_entry :: "bytes \<Rightarrow> nat \<Rightarrow> bytes list \<Rightarrow> (bytes \<times> int \<times> int \<times> nat) image_res" where
  "read_entry archive pos names =
     bindr (range_of archive pos 110 ''cpio header'') (\<lambda>header.
     bindr (ensure (segment 0 6 header = ascii ''070701'' \<or> segment 0 6 header = ascii ''070702'')
              ''cpio is not newc/crc'') (\<lambda>_.
     case header_values header of
       None \<Rightarrow> Inl (BootImageError ''non-hex cpio header'')
     | Some values \<Rightarrow>
         let mode = values ! 1; size = values ! 6; name_size = values ! 11 in
         bindr (ensure (1 \<le> name_size \<and> name_size \<le> 4096) ''invalid cpio name length'') (\<lambda>_.
         bindr (range_of archive (pos + 110) name_size ''cpio name'') (\<lambda>name_raw.
         bindr (ensure (last name_raw = 0) ''unterminated cpio name'') (\<lambda>_.
         let name = butlast name_raw in
         bindr (ensure (name \<notin> set names \<and> safe_name name) ''unsafe cpio path'') (\<lambda>_.
         let data_start = align_up (pos + 110 + nat name_size) 4 in
         bindr (range_of archive data_start size ''cpio payload'') (\<lambda>_.
           Inr (name, mode, size, align_up (data_start + nat size) 4))))))))"

fun cpio_walk :: "nat \<Rightarrow> bytes \<Rightarrow> nat \<Rightarrow> bytes list \<Rightarrow> bool \<Rightarrow> bool image_res" where
  "cpio_walk 0 archive pos names found = Inl (BootImageError ''cpio entry limit exceeded'')"
| "cpio_walk (Suc left) archive pos names found =
     bindr (read_entry archive pos names) (\<lambda>(name, mode, size, next_pos).
       if name = trailer_name then
         bindr (ensure (size = 0 \<and> \<not> any_set (drop next_pos archive)) ''invalid cpio trailer'') (\<lambda>_. Inr found)
       else cpio_walk left archive next_pos (name # names) (found \<or> executable_init name mode))"

datatype gzip_read = Expanded bytes | BadGzip | CorruptDeflate

definition gzip_magic :: bytes where "gzip_magic = [0x1f, 0x8b]"

text \<open>\<open>inflate ramdisk n\<close> is what reading at most \<open>n\<close> bytes of the decompressed stream gives.\<close>

definition validate_gzip_newc :: "(bytes \<Rightarrow> nat \<Rightarrow> gzip_read) \<Rightarrow> bytes \<Rightarrow> unit image_res" where
  "validate_gzip_newc inflate ramdisk =
     bindr (ensure (take 2 ramdisk = gzip_magic) ''ramdisk is not gzip'') (\<lambda>_.
     case inflate ramdisk (MAX_CPIO_BYTES + 1) of
       BadGzip \<Rightarrow> Inl (BootImageError ''ramdisk gzip is invalid'')
     | CorruptDeflate \<Rightarrow> Inl ZlibError
     | Expanded archive \<Rightarrow>
         bindr (ensure (length archive \<le> MAX_CPIO_BYTES) ''cpio archive exceeds expanded limit'') (\<lambda>_.
         bindr (cpio_walk MAX_CPIO_ENTRIES archive 0 [] False) (\<lambda>found.
           ensure found ''cpio has no executable /init'')))"

section \<open>Building an archive\<close>

definition hex_char :: "nat \<Rightarrow> byte" where
  "hex_char d = word_of_nat (if d < 10 then 48 + d else 87 + d)"

primrec hex_fixed :: "nat \<Rightarrow> nat \<Rightarrow> bytes" where
  "hex_fixed 0 n = []"
| "hex_fixed (Suc k) n = hex_fixed k (n div 16) @ [hex_char (n mod 16)]"

fun hex_len :: "nat \<Rightarrow> nat" where
  "hex_len n = (if n < 16 then 1 else Suc (hex_len (n div 16)))"

declare hex_len.simps [simp del]

text \<open>The format \<open>08x\<close>.\<close>

definition hex08 :: "nat \<Rightarrow> bytes" where
  "hex08 n = hex_fixed (max 8 (hex_len n)) n"

type_synonym cpio_file = "bytes \<times> nat \<times> bytes"

definition device_name :: bytes where "device_name = ascii ''dev/kmsg''"

definition entry_fields :: "nat \<Rightarrow> cpio_file \<Rightarrow> nat list" where
  "entry_fields number f = (case f of (name, mode, data) \<Rightarrow>
     [number, mode, 0, 0, 1, 0, length data, 0, 0]
       @ (if name = device_name then [1, 11] else [0, 0]) @ [Suc (length name), 0])"

definition pad4 :: "bytes \<Rightarrow> bytes" where
  "pad4 bs = bs @ zeros (align_up (length bs) 4 - length bs)"

definition append_entry :: "bytes \<Rightarrow> nat \<Rightarrow> cpio_file \<Rightarrow> bytes" where
  "append_entry result number f = (case f of (name, mode, data) \<Rightarrow>
     pad4 (pad4 (result @ ascii ''070701'' @ concat (map hex08 (entry_fields number f)) @ name @ [0]) @ data))"

fun append_entries :: "bytes \<Rightarrow> nat \<Rightarrow> cpio_file list \<Rightarrow> bytes" where
  "append_entries result number [] = result"
| "append_entries result number (f # fs) = append_entries (append_entry result number f) (Suc number) fs"

definition newc_archive :: "cpio_file list \<Rightarrow> bytes" where
  "newc_archive entries = append_entries [] 1 (entries @ [(trailer_name, 0, [])])"

definition archive_of :: "(bytes \<Rightarrow> bytes) \<Rightarrow> cpio_file list \<Rightarrow> bytes" where
  "archive_of deflate entries = deflate (newc_archive entries)"

section \<open>The format, declaratively\<close>

text \<open>An entry of the format at a position, and an archive as its list of entries: the trailer
  comes last, is empty, and only zero bytes follow it.\<close>

definition entry_at :: "bytes \<Rightarrow> nat \<Rightarrow> bytes \<Rightarrow> int \<Rightarrow> int \<Rightarrow> nat \<Rightarrow> bool" where
  "entry_at archive pos name mode fsize next_pos \<longleftrightarrow>
     pos + 110 \<le> length archive
     \<and> segment pos (pos + 6) archive \<in> set [ascii ''070701'', ascii ''070702'']
     \<and> (\<exists>vals. header_values (segment pos (pos + 110) archive) = Some vals
          \<and> mode = vals ! 1 \<and> fsize = vals ! 6 \<and> vals ! 11 = int (length name) + 1)
     \<and> length name < 4096 \<and> 0 \<le> fsize
     \<and> pos + 111 + length name \<le> length archive
     \<and> segment (pos + 110) (pos + 111 + length name) archive = name @ [0]
     \<and> align_up (pos + 111 + length name) 4 + nat fsize \<le> length archive
     \<and> next_pos = align_up (align_up (pos + 111 + length name) 4 + nat fsize) 4"

inductive newc :: "bytes \<Rightarrow> nat \<Rightarrow> (bytes \<times> int) list \<Rightarrow> bool" for archive :: bytes where
  trailer: "entry_at archive pos trailer_name mode 0 next_pos \<Longrightarrow> \<not> any_set (drop next_pos archive)
    \<Longrightarrow> newc archive pos [(trailer_name, mode)]"
| entry: "entry_at archive pos name mode fsize next_pos \<Longrightarrow> name \<noteq> trailer_name \<Longrightarrow> newc archive next_pos es
    \<Longrightarrow> newc archive pos ((name, mode) # es)"

inductive_cases newc_ConsE: "newc archive pos (e # es)"
inductive_cases newc_NilE: "newc archive pos []"

lemma read_entry_Inr:
  "read_entry archive pos names = Inr (name, mode, fsize, next_pos) \<longleftrightarrow>
     entry_at archive pos name mode fsize next_pos \<and> name \<notin> set names \<and> safe_name name"
    (is "?l \<longleftrightarrow> ?r")
proof
  assume ?l
  then obtain vals name_raw where v: "pos + 110 \<le> length archive"
      "segment pos (pos + 6) archive = ascii ''070701'' \<or> segment pos (pos + 6) archive = ascii ''070702''"
      "header_values (segment pos (pos + 110) archive) = Some vals"
      "1 \<le> vals ! 11" "vals ! 11 \<le> 4096"
      "int pos + 110 + vals ! 11 \<le> int (length archive)"
      "name_raw = segment (pos + 110) (pos + 110 + nat (vals ! 11)) archive" "last name_raw = 0"
      "name = butlast name_raw" "name \<notin> set names" "safe_name name" "mode = vals ! 1" "fsize = vals ! 6"
      "0 \<le> fsize" "int (align_up (pos + 110 + nat (vals ! 11)) 4) + fsize \<le> int (length archive)"
      "next_pos = align_up (align_up (pos + 110 + nat (vals ! 11)) 4 + nat fsize) 4"
    by (auto simp: read_entry_def range_of_Inr Let_def bindr_eq_Inr segment_segment split: option.splits)
  have len: "length name_raw = nat (vals ! 11)" using v(4,6,7) by simp
  then have "name_raw \<noteq> []" using v(4) by auto
  then have raw: "name_raw = name @ [0]" using v(8,9) append_butlast_last_id by metis
  with len have n: "nat (vals ! 11) = Suc (length name)" by simp
  have at: "pos + 110 + nat (vals ! 11) = pos + 111 + length name" using n by simp
  obtain d where d: "align_up (pos + 111 + length name) 4 = d" by simp
  have "name @ [0] = segment (pos + 110) (pos + 111 + length name) archive"
    using v(7) unfolding raw at .
  moreover have "d + nat fsize \<le> length archive" "next_pos = align_up (d + nat fsize) 4"
    using v(14,15,16) unfolding at d by simp_all
  moreover have "vals ! 11 = int (length name) + 1" using n v(4) by linarith
  ultimately show ?r
    using v(1,2,3,5,6,10-14) unfolding entry_at_def d by auto
next
  assume r: ?r
  then obtain vals where v: "header_values (segment pos (pos + 110) archive) = Some vals"
      "mode = vals ! 1" "fsize = vals ! 6" "vals ! 11 = int (length name) + 1"
    by (auto simp: entry_at_def)
  have at: "pos + 110 + nat (int (length name) + 1) = pos + 111 + length name" by simp
  obtain d where d: "align_up (pos + 111 + length name) 4 = d" by simp
  show ?l
    using r v unfolding read_entry_def entry_at_def
    by (auto simp: range_of_def ensure_def segment_segment at d Let_def)
qed

text \<open>The walk accepts exactly the archives of the format whose names are distinct and safe.\<close>

definition accepted_names :: "bytes list \<Rightarrow> (bytes \<times> int) list \<Rightarrow> bool" where
  "accepted_names names es \<longleftrightarrow> distinct (map fst es) \<and> set (map fst es) \<inter> set names = {}
     \<and> list_all (\<lambda>e. safe_name (fst e)) es"

definition has_init :: "(bytes \<times> int) list \<Rightarrow> bool" where
  "has_init es \<longleftrightarrow> list_ex (\<lambda>(name, mode). executable_init name mode) es"

lemma trailer_not_init [simp]: "\<not> executable_init trailer_name mode"
  by (simp add: executable_init_def trailer_name_def init_name_def ascii_def)

lemma walk_sound:
  "cpio_walk left archive pos names found = Inr r \<Longrightarrow>
     \<exists>es. newc archive pos es \<and> length es \<le> left \<and> accepted_names names es \<and> (r \<longleftrightarrow> found \<or> has_init es)"
proof (induction left archive pos names found rule: cpio_walk.induct)
  case (2 left archive pos names found)
  from "2.prems" obtain name mode fsize next_pos where
    e: "read_entry archive pos names = Inr (name, mode, fsize, next_pos)"
    and rest: "(if name = trailer_name then
         bindr (ensure (fsize = 0 \<and> \<not> any_set (drop next_pos archive)) ''invalid cpio trailer'') (\<lambda>_. Inr found)
       else cpio_walk left archive next_pos (name # names) (found \<or> executable_init name mode)) = Inr r"
    by (auto simp: bindr_eq_Inr)
  note at = e [unfolded read_entry_Inr]
  show ?case
  proof (cases "name = trailer_name")
    case True
    with rest have t: "fsize = 0" "\<not> any_set (drop next_pos archive)" "r = found"
      by (auto simp: bindr_eq_Inr)
    have "newc archive pos [(trailer_name, mode)]"
      using at t True by (auto intro: newc.trailer)
    with at t True show ?thesis
      by (intro exI [of _ "[(trailer_name, mode)]"]) (auto simp: accepted_names_def has_init_def)
  next
    case False
    with rest have "cpio_walk left archive next_pos (name # names) (found \<or> executable_init name mode) = Inr r" by simp
    from "2.IH" [OF False this] obtain es where
      es: "newc archive next_pos es" "length es \<le> left" "accepted_names (name # names) es"
        "r \<longleftrightarrow> (found \<or> executable_init name mode) \<or> has_init es" by blast
    have "newc archive pos ((name, mode) # es)"
      using at False es(1) by (blast intro: newc.entry)
    with at es(2-4) show ?thesis
      by (intro exI [of _ "(name, mode) # es"]) (auto simp: accepted_names_def has_init_def)
  qed
qed simp

lemma walk_complete:
  "newc archive pos es \<Longrightarrow> length es \<le> left \<Longrightarrow> accepted_names names es \<Longrightarrow>
     cpio_walk left archive pos names found = Inr (found \<or> has_init es)"
proof (induction arbitrary: left names found rule: newc.induct)
  case (trailer pos mode next_pos)
  then obtain l where "left = Suc l" by (cases left) auto
  moreover have "read_entry archive pos names = Inr (trailer_name, mode, 0, next_pos)"
    using trailer by (auto simp: read_entry_Inr accepted_names_def)
  ultimately show ?case using trailer by (simp add: has_init_def)
next
  case (entry pos name mode fsize next_pos es)
  then obtain l where l: "left = Suc l" "length es \<le> l" by (cases left) auto
  have "read_entry archive pos names = Inr (name, mode, fsize, next_pos)"
    using entry by (auto simp: read_entry_Inr accepted_names_def)
  moreover have "accepted_names (name # names) es"
    using entry.prems(2) by (auto simp: accepted_names_def)
  ultimately show ?case
    using entry.IH [OF l(2)] entry.hyps l(1) by (simp add: has_init_def disj_assoc)
qed

lemma validate_iff:
  "validate_gzip_newc inflate ramdisk = Inr () \<longleftrightarrow>
     take 2 ramdisk = gzip_magic
     \<and> (\<exists>archive es. inflate ramdisk (MAX_CPIO_BYTES + 1) = Expanded archive \<and> length archive \<le> MAX_CPIO_BYTES
          \<and> newc archive 0 es \<and> length es \<le> MAX_CPIO_ENTRIES \<and> accepted_names [] es \<and> has_init es)"
    (is "?l \<longleftrightarrow> ?r")
proof
  assume ?l
  then obtain archive where a: "take 2 ramdisk = gzip_magic" "inflate ramdisk (MAX_CPIO_BYTES + 1) = Expanded archive"
      "length archive \<le> MAX_CPIO_BYTES" "cpio_walk MAX_CPIO_ENTRIES archive 0 [] False = Inr True"
    by (auto simp: validate_gzip_newc_def bindr_eq_Inr split: gzip_read.splits)
  from walk_sound [OF a(4)] a show ?r by auto
next
  assume ?r
  then show ?l
    using walk_complete [where names = "[]" and found = False]
    by (fastforce simp: validate_gzip_newc_def)
qed

section \<open>Reading back what the builder writes\<close>

lemma below_16: "d < 16 \<Longrightarrow> d \<in> {0, 1, 2, 3, 4, 5, 6, 7, 8, 9, 10, 11, 12, 13, 14, 15::nat}"
  by (auto simp: numeral_eq_Suc less_Suc_eq)

lemma hex_char_facts:
  assumes "d < 16"
  shows "hex_value (hex_char d) = Some d" "hex_char d \<noteq> 95" "\<not> is_blank (hex_char d)" "hex_char d \<noteq> 43"
    "hex_char d \<noteq> 45" "hex_char d \<noteq> 120" "hex_char d \<noteq> 88"
  using below_16 [OF assms]
  by (auto simp: hex_char_def hex_value_def is_blank_def Let_def)

lemma length_hex_fixed [simp]: "length (hex_fixed k n) = k"
  by (induction k arbitrary: n) simp_all

lemma set_hex_fixed: "b \<in> set (hex_fixed k n) \<Longrightarrow> \<exists>d < 16. b = hex_char d"
  by (induction k arbitrary: n) (auto intro: exI [of _ "n mod 16" for n])

lemma hex_number_snoc: "d < 16 \<Longrightarrow> hex_number (ds @ [hex_char d]) = 16 * hex_number ds + d"
  by (simp add: hex_number_def hex_char_facts)

lemma hex_number_fixed: "hex_number (hex_fixed k n) = n mod 16 ^ k"
proof (induction k arbitrary: n)
  case (Suc k)
  have "16 * (n div 16 mod 16 ^ k) + n mod 16 = n mod (16 * 16 ^ k)"
    by (metis mod_mult2_eq)
  with Suc show ?case by (simp add: hex_number_snoc)
qed (simp add: hex_number_def)

lemma strip_prefix_digits: "(\<And>b. b \<in> set bs \<Longrightarrow> b \<noteq> 120 \<and> b \<noteq> 88) \<Longrightarrow> strip_prefix bs = bs"
  by (cases bs rule: strip_prefix.cases) auto

lemma no_double_underscore: "(\<And>b. b \<in> set bs \<Longrightarrow> b \<noteq> 95) \<Longrightarrow> \<not> double_underscore bs"
  by (induction bs rule: double_underscore.induct) auto

lemma py_hex_fixed:
  assumes "0 < k"
  shows "py_hex (hex_fixed k n) = Some (int (n mod 16 ^ k))"
proof -
  let ?ds = "hex_fixed k n"
  have char: "hex_value b \<noteq> None \<and> b \<noteq> 95 \<and> \<not> is_blank b \<and> b \<noteq> 43 \<and> b \<noteq> 45 \<and> b \<noteq> 120 \<and> b \<noteq> 88"
    if "b \<in> set ?ds" for b using set_hex_fixed [OF that] hex_char_facts by auto
  have ne: "?ds \<noteq> []" using assms by (metis length_0_conv length_hex_fixed less_numeral_extra(3))
  then obtain c cs where c: "?ds = c # cs" by (cases ?ds) auto
  have "dropWhile is_blank ?ds = ?ds" using char c by auto
  moreover have "takeWhile hex_or_underscore ?ds = ?ds" "dropWhile hex_or_underscore ?ds = []"
    using char by (auto simp: hex_or_underscore_def)
  moreover have "strip_prefix ?ds = ?ds" using char by (intro strip_prefix_digits) auto
  moreover have "\<not> double_underscore ?ds" using char by (intro no_double_underscore) auto
  moreover have "hd ?ds \<noteq> 95" "last ?ds \<noteq> 95" using char ne by auto
  moreover have "(case ?ds of [] \<Rightarrow> (False, []) | c # cs \<Rightarrow>
      if c = 43 then (False, cs) else if c = 45 then (True, cs) else (False, ?ds)) = (False, ?ds)"
    using char c by auto
  ultimately show ?thesis
    using ne by (simp add: py_hex_def Let_def hex_number_fixed del: takeWhile_eq_all_conv dropWhile_eq_Nil_conv)
qed

lemma hex_len_le: "n < 16 ^ k \<Longrightarrow> 0 < k \<Longrightarrow> hex_len n \<le> k"
proof (induction k arbitrary: n)
  case (Suc k)
  show ?case
  proof (cases "n < 16")
    case False
    with Suc.prems have "n div 16 < 16 ^ k" "0 < k"
      by (cases k; simp add: less_mult_imp_div_less mult.commute)+
    then show ?thesis using Suc.IH by (simp add: hex_len.simps [of n] False)
  qed (simp add: hex_len.simps)
qed simp

lemma hex08_small: "n < 2 ^ 32 \<Longrightarrow> hex08 n = hex_fixed 8 n"
  using hex_len_le [of n 8] by (simp add: hex08_def)

lemma py_hex_hex08: "n < 2 ^ 32 \<Longrightarrow> py_hex (hex08 n) = Some (int n)"
  by (simp add: hex08_small py_hex_fixed)

lemma segment_blocks:
  "(\<And>x. x \<in> set xs \<Longrightarrow> length (f x) = n) \<Longrightarrow> i < length xs \<Longrightarrow>
     segment (i * n) (i * n + n) (concat (map f xs)) = f (xs ! i)"
proof (induction xs arbitrary: i)
  case (Cons x xs)
  show ?case
  proof (cases i)
    case 0
    with Cons.prems(1) [of x] show ?thesis by (simp add: segment_def)
  next
    case (Suc j)
    have x: "length (f x) = n" using Cons.prems(1) by simp
    have "segment (i * n) (i * n + n) (f x @ concat (map f xs)) = segment (j * n) (j * n + n) (concat (map f xs))"
      using x Suc by (simp add: segment_append_right add.commute)
    with Cons Suc show ?thesis by simp
  qed
qed simp

lemma segment_at: "length ys = n \<Longrightarrow> segment (length xs) (length xs + n) (xs @ ys @ zs) = ys"
  by auto

lemma those_map_Some: "those (map Some xs) = Some xs"
  by (induction xs) simp_all

definition cpio_header :: "nat \<Rightarrow> cpio_file \<Rightarrow> bytes" where
  "cpio_header number f = ascii ''070701'' @ concat (map hex08 (entry_fields number f))"

lemma length_entry_fields [simp]: "length (entry_fields number f) = 13"
  by (cases f) (simp add: entry_fields_def)

definition small_file :: "cpio_file \<Rightarrow> bool" where
  "small_file f \<longleftrightarrow> (case f of (name, mode, data) \<Rightarrow> length name < 4096 \<and> mode < 2 ^ 32 \<and> length data < 2 ^ 32)"

lemma fields_small:
  "number < 2 ^ 32 \<Longrightarrow> small_file f \<Longrightarrow> v \<in> set (entry_fields number f) \<Longrightarrow> v < 2 ^ 32"
  by (cases f) (auto simp: entry_fields_def small_file_def split: if_splits)

lemma cpio_header_facts:
  assumes "number < 2 ^ 32" "small_file f"
  shows "length (cpio_header number f) = 110"
    and "header_values (cpio_header number f) = Some (map int (entry_fields number f))"
proof -
  let ?fs = "entry_fields number f"
  have len: "length (hex08 v) = 8" if "v \<in> set ?fs" for v
    using fields_small [OF assms that] by (simp add: hex08_small)
  have "length (concat (map hex08 ?fs)) = sum_list (map (\<lambda>_. 8) ?fs)"
    using len by (simp add: length_concat o_def cong: map_cong)
  also have "\<dots> = 8 * length ?fs" by (simp add: sum_list_triv)
  finally show "length (cpio_header number f) = 110" by (simp add: cpio_header_def)
  have field: "py_hex (segment (6 + i * 8) (14 + i * 8) (cpio_header number f)) = Some (int (?fs ! i))" if "i < 13" for i
  proof -
    have "segment (6 + i * 8) (14 + i * 8) (cpio_header number f) = segment (i * 8) (i * 8 + 8) (concat (map hex08 ?fs))"
      by (simp add: cpio_header_def segment_append_right add.commute)
    also have "\<dots> = hex08 (?fs ! i)" using len that by (intro segment_blocks) auto
    finally show ?thesis using fields_small [OF assms, of "?fs ! i"] that by (simp add: py_hex_hex08)
  qed
  have "map (\<lambda>i. py_hex (segment (6 + i * 8) (14 + i * 8) (cpio_header number f))) [0..<13] = map (\<lambda>i. Some (int (?fs ! i))) [0..<13]"
    using field by (intro map_cong) auto
  also have "\<dots> = map Some (map int (map (nth ?fs) [0..<length ?fs]))" by simp
  finally show "header_values (cpio_header number f) = Some (map int ?fs)"
    unfolding header_values_def map_nth by (simp only: those_map_Some)
qed

lemma length_pad4 [simp]: "length (pad4 bs) = align_up (length bs) 4"
  using align_up_ge [of 4 "length bs"] by (simp add: pad4_def)

lemma pad4_append: "\<exists>z. pad4 bs = bs @ z"
  by (simp add: pad4_def)

lemma length_append_entry:
  assumes "number < 2 ^ 32" "small_file (name, mode, data)"
  shows "length (append_entry pre number (name, mode, data))
    = align_up (align_up (length pre + 111 + length name) 4 + length data) 4"
proof -
  let ?A = "pre @ cpio_header number (name, mode, data) @ name @ [0]"
  have A: "length ?A = length pre + 111 + length name" using cpio_header_facts(1) [OF assms] by simp
  have "append_entry pre number (name, mode, data) = pad4 (pad4 ?A @ data)"
    by (simp add: append_entry_def cpio_header_def)
  then show ?thesis
    unfolding length_pad4 by (simp only: length_pad4 length_append [of "pad4 ?A"] A)
qed

lemma entry_at_built:
  assumes "number < 2 ^ 32" "small_file (name, mode, data)"
  shows "entry_at (append_entry pre number (name, mode, data) @ rest) (length pre) name (int mode) (int (length data))
    (length (append_entry pre number (name, mode, data)))"
proof -
  let ?H = "cpio_header number (name, mode, data)"
  let ?A = "pre @ ?H @ name @ [0]"
  note H = cpio_header_facts [OF assms]
  obtain z1 z2 where z: "pad4 ?A = ?A @ z1" "pad4 (pad4 ?A @ data) = (pad4 ?A @ data) @ z2"
    using pad4_append by metis
  let ?all = "pre @ ?H @ (name @ [0]) @ (z1 @ data @ z2 @ rest)"
  have built: "append_entry pre number (name, mode, data) = pad4 (pad4 ?A @ data)"
    by (simp add: append_entry_def cpio_header_def)
  have all: "append_entry pre number (name, mode, data) @ rest = ?all"
    using z by (simp add: built)
  note len = length_append_entry [OF assms, of pre]
  let ?n = "length (append_entry pre number (name, mode, data))"
  have L: "?n \<le> length ?all" unfolding all [symmetric] by simp
  have s1: "align_up (length pre + 111 + length name) 4 + length data \<le> ?n"
    unfolding len by (simp add: align_up_ge)
  have s2: "length pre + 111 + length name \<le> align_up (length pre + 111 + length name) 4"
    by (simp add: align_up_ge)
  have header: "segment (length pre) (length pre + 110) ?all = ?H"
    using segment_append_exact [of pre ?H] H(1) by simp
  have magic: "segment (length pre) (length pre + 6) ?all = ascii ''070701''"
    using segment_at [of "ascii ''070701''" 6 pre] by (simp add: cpio_header_def)
  have name: "segment (length pre + 110) (length pre + 111 + length name) ?all = name @ [0]"
    using segment_at [of "name @ [0]" "Suc (length name)" "pre @ ?H"] H(1) by (simp add: add.commute add.left_commute)
  have fields: "map int (entry_fields number (name, mode, data)) ! 1 = int mode"
    "map int (entry_fields number (name, mode, data)) ! 6 = int (length data)"
    "map int (entry_fields number (name, mode, data)) ! 11 = int (length name) + 1"
    by (simp_all add: entry_fields_def)
  have bound: "length name < 4096" using assms(2) by (simp add: small_file_def)
  have ex: "\<exists>vals. header_values ?H = Some vals \<and> int mode = vals ! 1 \<and> int (length data) = vals ! 6
      \<and> vals ! 11 = int (length name) + 1"
    using H(2) fields by (intro exI [of _ "map int (entry_fields number (name, mode, data))"]) simp
  show ?thesis
    unfolding entry_at_def all header magic name nat_int
    by (intro conjI; (rule ex | rule len | rule bound | rule refl | (insert L s1 s2, linarith) | simp))
qed

lemma append_entries_prefix: "\<exists>rest. append_entries result number fs = result @ rest"
proof (induction fs arbitrary: result number)
  case (Cons f fs)
  obtain name mode data where f: "f = (name, mode, data)" by (cases f)
  have "\<exists>rest. append_entry result number f = result @ rest"
    by (simp add: f append_entry_def pad4_def)
  with Cons show ?case by (metis append_entries.simps(2) append.assoc)
qed simp

lemma newc_built:
  assumes "number + length es < 2 ^ 32" "list_all small_file es" "list_all (\<lambda>(name, _). name \<noteq> trailer_name) es"
  shows "newc (append_entries result number (es @ [(trailer_name, 0, [])])) (length result)
    (map (\<lambda>(name, mode, data). (name, int mode)) es @ [(trailer_name, 0)])"
  using assms
proof (induction es arbitrary: result number)
  case Nil
  have "small_file (trailer_name, 0, [])" by (simp add: small_file_def trailer_name_def)
  from entry_at_built [OF _ this, of number result "[]"] Nil.prems
  have "entry_at (append_entry result number (trailer_name, 0, [])) (length result) trailer_name 0 0
      (length (append_entry result number (trailer_name, 0, [])))" by simp
  then show ?case by (auto intro: newc.trailer simp: any_set_def)
next
  case (Cons f es)
  obtain name mode data where f: "f = (name, mode, data)" by (cases f)
  let ?r = "append_entry result number f"
  obtain rest where rest: "append_entries ?r (Suc number) (es @ [(trailer_name, 0, [])]) = ?r @ rest"
    using append_entries_prefix by blast
  have "newc (?r @ rest) (length ?r) (map (\<lambda>(name, mode, data). (name, int mode)) es @ [(trailer_name, 0)])"
    using Cons.IH [of "Suc number" ?r] Cons.prems by (simp add: rest)
  moreover have "entry_at (?r @ rest) (length result) name (int mode) (int (length data)) (length ?r)"
    unfolding f using Cons.prems f by (intro entry_at_built) auto
  ultimately show ?case
    using Cons.prems f rest by (auto intro: newc.entry)
qed

section \<open>Properties\<close>

text \<open>C26. The ramdisk check accepts exactly the gzip streams that expand, within the limit, to a
  newc archive of at most 4096 entries with distinct safe names, an empty trailer followed by
  zero bytes only, and an executable regular file \<open>init\<close>.\<close>

theorem ramdisk_check_refines_format:
  "validate_gzip_newc inflate ramdisk = Inr () \<longleftrightarrow>
     take 2 ramdisk = gzip_magic
     \<and> (\<exists>archive es. inflate ramdisk (MAX_CPIO_BYTES + 1) = Expanded archive \<and> length archive \<le> MAX_CPIO_BYTES
          \<and> newc archive 0 es \<and> length es \<le> MAX_CPIO_ENTRIES \<and> accepted_names [] es \<and> has_init es)"
  by (rule validate_iff)

definition buildable :: "cpio_file list \<Rightarrow> bool" where
  "buildable es \<longleftrightarrow> length es < MAX_CPIO_ENTRIES \<and> list_all small_file es \<and> distinct (map fst es)
     \<and> list_all (\<lambda>f. safe_name (fst f) \<and> fst f \<noteq> trailer_name) es
     \<and> list_ex (\<lambda>(name, mode, data). executable_init name (int mode)) es"

lemma buildable_accepted:
  assumes "buildable es"
  defines "listing \<equiv> map (\<lambda>(name, mode, data). (name, int mode)) es @ [(trailer_name, 0)]"
  shows "newc (newc_archive es) 0 listing" "length listing \<le> MAX_CPIO_ENTRIES" "accepted_names [] listing" "has_init listing"
proof -
  have names: "fst \<circ> (\<lambda>(name, mode, data). (name, int mode)) = (fst :: cpio_file \<Rightarrow> bytes)"
    by auto
  have trailer: "safe_name trailer_name" by code_simp
  have small: "1 + length es < 2 ^ 32" using assms by (simp add: buildable_def MAX_CPIO_ENTRIES_def)
  show "newc (newc_archive es) 0 listing"
    using newc_built [OF small, of "[]"] assms
    by (simp add: buildable_def newc_archive_def list_all_iff case_prod_beta)
  show "length listing \<le> MAX_CPIO_ENTRIES" using assms by (simp add: buildable_def)
  have "distinct (map fst es)" "trailer_name \<notin> set (map fst es)"
    "list_all (\<lambda>f. safe_name (fst f)) es" "list_ex (\<lambda>(name, mode, data). executable_init name (int mode)) es"
    using assms(1) by (auto simp: buildable_def list_all_iff)
  then show "accepted_names [] listing" "has_init listing"
    unfolding accepted_names_def has_init_def assms(2) using trailer
    by (auto simp: names list_all_iff list_ex_iff case_prod_beta)
qed

text \<open>C27. The archive that the builder writes passes the check: for a compressor whose output has
  the gzip magic and expands to its input, every list of at most 4095 files with distinct safe
  names and an executable \<open>init\<close> is accepted, as long as it stays within the size limits.\<close>

theorem built_archive_accepted:
  assumes "buildable es" "length (newc_archive es) \<le> MAX_CPIO_BYTES"
    and "\<And>bs. take 2 (deflate bs) = gzip_magic"
    and "\<And>bs n. inflate (deflate bs) n = Expanded (take n bs)"
  shows "validate_gzip_newc inflate (archive_of deflate es) = Inr ()"
  unfolding validate_iff archive_of_def
  using buildable_accepted [OF assms(1)] assms(2-4) by auto

text \<open>The smallest archive: one executable \<open>init\<close>.\<close>

definition init_only :: "cpio_file list" where
  "init_only = [(init_name, 33261, [1, 2, 3])]"

lemma demo_buildable: "buildable init_only"
proof -
  have "safe_name init_name \<and> init_name \<noteq> trailer_name" by code_simp
  moreover have "executable_init init_name 33261" by code_simp
  ultimately show ?thesis
    by (simp add: buildable_def init_only_def small_file_def MAX_CPIO_ENTRIES_def init_name_def)
qed

theorem built_archive_accepted_witness:
  "validate_gzip_newc (\<lambda>bs n. Expanded (take n (drop 2 bs))) (archive_of (\<lambda>bs. gzip_magic @ bs) init_only) = Inr ()"
proof (rule built_archive_accepted [OF demo_buildable])
  have small: "small_file (init_name, 33261, [1, 2, 3])" "small_file (trailer_name, 0, [])"
    by (simp_all add: small_file_def init_name_def trailer_name_def)
  have "length init_name = 4" "length trailer_name = 10"
    by (simp_all add: init_name_def trailer_name_def)
  then have "length (newc_archive init_only) = 244"
    by (simp add: newc_archive_def init_only_def length_append_entry small align_up_def)
  then show "length (newc_archive init_only) \<le> MAX_CPIO_BYTES" by (simp add: MAX_CPIO_BYTES_def)
qed (simp_all add: gzip_magic_def)

text \<open>A ramdisk whose compressed data is corrupt is not reported as an invalid image: the
  exception of the decompressor is not among those the check turns into its own error.\<close>

theorem corrupt_deflate_escapes:
  "take 2 ramdisk = gzip_magic \<and> inflate ramdisk (MAX_CPIO_BYTES + 1) = CorruptDeflate \<longleftrightarrow>
     validate_gzip_newc inflate ramdisk = Inl ZlibError"
proof -
  have "read_entry archive pos names \<noteq> Inl ZlibError" for archive pos names
    by (auto simp: read_entry_def range_of_def ensure_def Let_def bindr_def split: option.split sum.split)
  then have "cpio_walk left archive pos names found \<noteq> Inl ZlibError" for left archive pos names found
    by (induction left archive pos names found rule: cpio_walk.induct)
      (auto simp: bindr_def ensure_def split: sum.split)
  then show ?thesis
    by (auto simp: validate_gzip_newc_def ensure_def bindr_def split: gzip_read.split sum.splits if_splits)
qed

end
