(* ===== verification/Boot_Image.thy ===== *)
theory Boot_Image
  imports Cpio_Archive
begin

text \<open>
  \<open>appliance/standalone/boot_image.py\<close>: reading, repacking and comparing legacy Android boot
  images. SHA-1 and the decompressor are parameters. An image is one header page and four
  components (kernel, ramdisk, second stage, device tree), each padded with zero bytes to
  whole pages, and an opaque tail. The command line is left out.
\<close>

section \<open>The image\<close>

definition MAGIC :: bytes where "MAGIC = ascii ''ANDROID!''"
definition DTBH :: bytes where "DTBH = ascii ''DTBH''"
definition HEADER_MIN :: nat where "HEADER_MIN = 608"
definition MAX_IMAGE :: nat where "MAX_IMAGE = 13 * 1024 * 1024"

definition u32 :: "bytes \<Rightarrow> nat \<Rightarrow> nat" where
  "u32 data offset = le_nat (segment offset (offset + 4) data)"

record boot_image =
  bi_raw :: bytes
  bi_page_size :: nat
  bi_kernel_size :: nat
  bi_ramdisk_size :: nat
  bi_second_size :: nat
  bi_dt_size :: nat
  bi_fields :: "nat list"
  bi_kernel_offset :: nat
  bi_ramdisk_offset :: nat
  bi_second_offset :: nat
  bi_dt_offset :: nat
  bi_tail_offset :: nat
  bi_id_mode :: string

definition bi_kernel :: "boot_image \<Rightarrow> bytes" where
  "bi_kernel b = segment (bi_kernel_offset b) (bi_kernel_offset b + bi_kernel_size b) (bi_raw b)"
definition bi_ramdisk :: "boot_image \<Rightarrow> bytes" where
  "bi_ramdisk b = segment (bi_ramdisk_offset b) (bi_ramdisk_offset b + bi_ramdisk_size b) (bi_raw b)"
definition bi_second :: "boot_image \<Rightarrow> bytes" where
  "bi_second b = segment (bi_second_offset b) (bi_second_offset b + bi_second_size b) (bi_raw b)"
definition bi_dt :: "boot_image \<Rightarrow> bytes" where
  "bi_dt b = segment (bi_dt_offset b) (bi_dt_offset b + bi_dt_size b) (bi_raw b)"
definition bi_tail :: "boot_image \<Rightarrow> bytes" where
  "bi_tail b = drop (bi_tail_offset b) (bi_raw b)"

text \<open>\<open>struct.pack("<I", n)\<close> raises when the number needs more than 32 bits.\<close>

definition pack_u32 :: "nat \<Rightarrow> bytes image_res" where
  "pack_u32 n = (if n < 2 ^ 32 then Inr (le_bytes 4 n) else Inl StructError)"

definition boot_id :: "(bytes \<Rightarrow> bytes) \<Rightarrow> bytes \<Rightarrow> bytes \<Rightarrow> bytes \<Rightarrow> bytes \<Rightarrow> string \<Rightarrow> bytes image_res" where
  "boot_id sha1 kern ramdisk second dt mode =
     bindr (pack_u32 (length kern)) (\<lambda>k.
     bindr (pack_u32 (length ramdisk)) (\<lambda>r.
     bindr (pack_u32 (length second)) (\<lambda>s.
       let base = kern @ k @ ramdisk @ r @ second @ s in
       if mode = ''dt-size'' then bindr (pack_u32 (length dt)) (\<lambda>d. Inr (sha1 (base @ dt @ d)))
       else if mode \<noteq> ''no-dt'' then Inl (BootImageError (''unknown legacy ID convention '' @ mode))
       else Inr (sha1 base))))"

section \<open>The device tree container\<close>

definition FDT_MAGIC :: bytes where "FDT_MAGIC = [0xd0, 0x0d, 0xfe, 0xed]"

text \<open>The loop over the entries of the table, \<open>index\<close> upwards.\<close>

fun dt_entries :: "bytes \<Rightarrow> nat \<Rightarrow> nat list \<Rightarrow> nat \<Rightarrow> nat image_res" where
  "dt_entries dt count [] greatest_end = Inr greatest_end"
| "dt_entries dt count (index # rest) greatest_end =
     (let offset = u32 dt (32 + index * 32); len = u32 dt (36 + index * 32) in
      bindr (ensure (8 \<le> len \<and> 16 + count * 32 \<le> offset \<and> offset + len \<le> length dt)
               ''DTBH entry outside container'') (\<lambda>_.
      bindr (range_of dt offset 4 ''DTB magic'') (\<lambda>m.
      bindr (ensure (m = FDT_MAGIC) ''DTBH entry is not an FDT'') (\<lambda>_.
        dt_entries dt count rest (max greatest_end (offset + len))))))"

definition validate_dt :: "bytes \<Rightarrow> unit image_res" where
  "validate_dt dt =
     bindr (ensure (16 \<le> length dt \<and> take 4 dt = DTBH \<and> u32 dt 4 = 2) ''unsupported Samsung DTBH'') (\<lambda>_.
     let count = u32 dt 8 in
     bindr (ensure (1 \<le> count \<and> count \<le> 64 \<and> 16 + count * 32 \<le> length dt) ''invalid DTBH table'') (\<lambda>_.
     bindr (dt_entries dt count [0..<count] 0) (\<lambda>greatest_end.
       ensure (greatest_end = length dt) ''DTBH has unaccounted content'')))"

section \<open>Reading an image\<close>

definition KERNEL_MAGIC :: bytes where "KERNEL_MAGIC = [0x18, 0x28, 0x6f, 0x01]"

definition header_fields :: "bytes \<Rightarrow> nat list" where
  "header_fields raw = map (\<lambda>i. u32 raw (8 + 4 * i)) [0..<10]"

text \<open>The image that the header describes.\<close>

definition described :: "bytes \<Rightarrow> string \<Rightarrow> boot_image" where
  "described raw mode =
     (let fields = header_fields raw; page = fields ! 7;
          kernel_offset = page;
          ramdisk_offset = kernel_offset + align_up (fields ! 0) page;
          second_offset = ramdisk_offset + align_up (fields ! 2) page;
          dt_offset = second_offset + align_up (fields ! 4) page
      in \<lparr>bi_raw = raw, bi_page_size = page, bi_kernel_size = fields ! 0, bi_ramdisk_size = fields ! 2,
          bi_second_size = fields ! 4, bi_dt_size = fields ! 8, bi_fields = fields,
          bi_kernel_offset = kernel_offset, bi_ramdisk_offset = ramdisk_offset,
          bi_second_offset = second_offset, bi_dt_offset = dt_offset,
          bi_tail_offset = dt_offset + align_up (fields ! 8) page, bi_id_mode = mode\<rparr>)"

definition components :: "boot_image \<Rightarrow> (nat \<times> nat \<times> string) list" where
  "components b = [(bi_kernel_offset b, bi_kernel_size b, ''kernel''), (bi_ramdisk_offset b, bi_ramdisk_size b, ''ramdisk''),
     (bi_second_offset b, bi_second_size b, ''second''), (bi_dt_offset b, bi_dt_size b, ''dt'')]"

fun check_ranges :: "bytes \<Rightarrow> (nat \<times> nat \<times> string) list \<Rightarrow> unit image_res" where
  "check_ranges raw [] = Inr ()"
| "check_ranges raw ((offset, len, label) # cs) =
     bindr (range_of raw offset (int len) label) (\<lambda>_. check_ranges raw cs)"

fun check_padding :: "bytes \<Rightarrow> nat \<Rightarrow> (nat \<times> nat \<times> string) list \<Rightarrow> unit image_res" where
  "check_padding raw page [] = Inr ()"
| "check_padding raw page ((offset, len, label) # cs) =
     bindr (ensure (\<not> any_set (segment (offset + len) (offset + align_up len page) raw))
              (''nonzero '' @ label @ '' padding'')) (\<lambda>_. check_padding raw page cs)"

text \<open>The conventions whose identifier is the stored one.\<close>

fun id_modes :: "(string \<Rightarrow> bytes image_res) \<Rightarrow> bytes \<Rightarrow> string list \<Rightarrow> string list image_res" where
  "id_modes ident stored [] = Inr []"
| "id_modes ident stored (mode # modes) =
     bindr (ident mode) (\<lambda>i. bindr (id_modes ident stored modes) (\<lambda>ms.
       Inr (if i = stored then mode # ms else ms)))"

definition parse_image ::
    "(bytes \<Rightarrow> bytes) \<Rightarrow> (bytes \<Rightarrow> nat \<Rightarrow> gzip_read) \<Rightarrow> bytes \<Rightarrow> boot_image image_res" where
  "parse_image sha1 inflate raw =
     bindr (ensure (length raw \<le> MAX_IMAGE) ''image exceeds 13 MiB limit'') (\<lambda>_.
     bindr (ensure (HEADER_MIN \<le> length raw \<and> take 8 raw = MAGIC) ''not a legacy Android boot image'') (\<lambda>_.
     let b = described raw []; page = bi_page_size b in
     bindr (ensure (page \<in> set [2048, 4096] \<and> HEADER_MIN \<le> page) ''unsupported page size'') (\<lambda>_.
     bindr (check_ranges raw (components b)) (\<lambda>_.
     bindr (ensure (bi_tail_offset b \<le> length raw) ''truncated component padding'') (\<lambda>_.
     bindr (check_padding raw page (components b)) (\<lambda>_.
     bindr (ensure (40 \<le> length (bi_kernel b) \<and> segment 36 40 (bi_kernel b) = KERNEL_MAGIC)
              ''kernel lacks ARM zImage magic'') (\<lambda>_.
     bindr (validate_gzip_newc inflate (bi_ramdisk b)) (\<lambda>_.
     bindr (validate_dt (bi_dt b)) (\<lambda>_.
     bindr (id_modes (boot_id sha1 (bi_kernel b) (bi_ramdisk b) (bi_second b) (bi_dt b)) (segment 576 596 raw)
              [''dt-size'', ''no-dt'']) (\<lambda>modes.
     bindr (ensure (length modes = 1 \<and> \<not> any_set (segment 596 608 raw)) ''unproven legacy boot ID convention'') (\<lambda>_.
       Inr (described raw (hd modes)))))))))))))"

section \<open>Repacking and comparing\<close>

definition padded :: "bytes \<Rightarrow> nat \<Rightarrow> bytes" where
  "padded payload page = payload @ zeros (align_up (length payload) page - length payload)"

definition repacked :: "boot_image \<Rightarrow> bytes \<Rightarrow> bytes \<Rightarrow> bytes \<Rightarrow> bytes" where
  "repacked base ramdisk header ident =
     splice 576 608 (ident @ zeros 12) header
       @ bi_kernel base @ zeros (align_up (bi_kernel_size base) (bi_page_size base) - bi_kernel_size base)
       @ padded ramdisk (bi_page_size base)
       @ bi_second base @ zeros (align_up (bi_second_size base) (bi_page_size base) - bi_second_size base)
       @ bi_dt base @ zeros (align_up (bi_dt_size base) (bi_page_size base) - bi_dt_size base)
       @ rstrip_zeros (bi_tail base)"

definition repack ::
    "(bytes \<Rightarrow> bytes) \<Rightarrow> (bytes \<Rightarrow> nat \<Rightarrow> gzip_read) \<Rightarrow> bytes \<Rightarrow> bytes \<Rightarrow> bytes image_res" where
  "repack sha1 inflate source ramdisk =
     bindr (parse_image sha1 inflate source) (\<lambda>base.
     bindr (validate_gzip_newc inflate ramdisk) (\<lambda>_.
     bindr (pack_u32 (length ramdisk)) (\<lambda>len.
     let header = splice 16 20 len (take (bi_page_size base) source) in
     bindr (boot_id sha1 (bi_kernel base) ramdisk (bi_second base) (bi_dt base) (bi_id_mode base)) (\<lambda>ident.
     let active = repacked base ramdisk header ident in
     bindr (ensure (length active \<le> MAX_IMAGE) ''repacked image exceeds 13 MiB limit'') (\<lambda>_.
     let result = active @ zeros (length source - length active) in
     bindr (parse_image sha1 inflate result) (\<lambda>candidate.
     bindr (ensure (bi_kernel candidate = bi_kernel base \<and> bi_dt candidate = bi_dt base
                \<and> bi_second candidate = bi_second base
                \<and> rstrip_zeros (bi_tail candidate) = rstrip_zeros (bi_tail base))
              ''repack changed preserved payload'') (\<lambda>_. Inr result)))))))"

definition verify_against ::
    "(bytes \<Rightarrow> bytes) \<Rightarrow> (bytes \<Rightarrow> nat \<Rightarrow> gzip_read) \<Rightarrow> bytes \<Rightarrow> bytes \<Rightarrow> boot_image image_res" where
  "verify_against sha1 inflate source candidate =
     bindr (parse_image sha1 inflate source) (\<lambda>base.
     bindr (parse_image sha1 inflate candidate) (\<lambda>checked.
     bindr (ensure (segment 8 16 (bi_raw base) = segment 8 16 (bi_raw checked)
                \<and> segment 20 576 (bi_raw base) = segment 20 576 (bi_raw checked)
                \<and> segment 608 (bi_page_size base) (bi_raw base) = segment 608 (bi_page_size checked) (bi_raw checked))
              ''candidate changed preserved header fields'') (\<lambda>_.
     bindr (ensure (bi_kernel base = bi_kernel checked \<and> bi_second base = bi_second checked
                \<and> bi_dt base = bi_dt checked
                \<and> rstrip_zeros (bi_tail base) = rstrip_zeros (bi_tail checked))
              ''candidate changed preserved payload or opaque tail'') (\<lambda>_. Inr checked))))"

section \<open>The layout\<close>

text \<open>An image put together from its parts, and the parts a header describes.\<close>

definition assemble :: "bytes \<Rightarrow> bytes \<Rightarrow> bytes \<Rightarrow> bytes \<Rightarrow> bytes \<Rightarrow> bytes \<Rightarrow> bytes" where
  "assemble h k r s d tail = h @ padded k (length h) @ padded r (length h) @ padded s (length h) @ padded d (length h) @ tail"

definition fits :: "bytes \<Rightarrow> bytes \<Rightarrow> bytes \<Rightarrow> bytes \<Rightarrow> bytes \<Rightarrow> bool" where
  "fits h k r s d \<longleftrightarrow> length h \<in> set [2048, 4096] \<and> u32 h 8 = length k \<and> u32 h 16 = length r \<and> u32 h 24 = length s
     \<and> u32 h 36 = length h \<and> u32 h 40 = length d"

lemma header_fields_nth:
  "header_fields raw ! 0 = u32 raw 8" "header_fields raw ! 2 = u32 raw 16" "header_fields raw ! 4 = u32 raw 24"
  "header_fields raw ! 7 = u32 raw 36" "header_fields raw ! 8 = u32 raw 40"
  by (simp_all add: header_fields_def)

lemmas described_simps = described_def Let_def header_fields_nth

lemma u32_append: "offset + 4 \<le> length h \<Longrightarrow> u32 (h @ rest) offset = u32 h offset"
  by (simp add: u32_def segment_append_left)

lemma u32_take: "offset + 4 \<le> n \<Longrightarrow> u32 (take n raw) offset = u32 raw offset"
  by (simp add: u32_def segment_take)

lemma length_padded: "0 < page \<Longrightarrow> length (padded payload page) = align_up (length payload) page"
  using align_up_ge [of page "length payload"] by (simp add: padded_def)

text \<open>Reading a padded payload back, and the zero bytes behind it.\<close>

lemma padded_read:
  assumes "0 < page" "pos = length pre"
  shows "segment pos (pos + length p) (pre @ padded p page @ rest) = p"
    and "segment (pos + length p) (pos + align_up (length p) page) (pre @ padded p page @ rest)
      = zeros (align_up (length p) page - length p)"
proof -
  show "segment pos (pos + length p) (pre @ padded p page @ rest) = p"
    using segment_at [of p "length p" pre] assms(2) by (simp add: padded_def)
  have "segment (length (pre @ p)) (length (pre @ p) + (align_up (length p) page - length p))
      ((pre @ p) @ zeros (align_up (length p) page - length p) @ rest) = zeros (align_up (length p) page - length p)"
    by (rule segment_at) simp
  then show "segment (pos + length p) (pos + align_up (length p) page) (pre @ padded p page @ rest)
      = zeros (align_up (length p) page - length p)"
    using assms align_up_ge [of page "length p"] by (simp add: padded_def)
qed

lemma padded_split:
  assumes "0 < page" "pos + align_up len page \<le> length raw"
    and "\<not> any_set (segment (pos + len) (pos + align_up len page) raw)"
  shows "drop pos raw = padded (segment pos (pos + len) raw) page @ drop (pos + align_up len page) raw"
proof -
  have ge: "len \<le> align_up len page" using assms(1) by (rule align_up_ge)
  have len: "length (segment pos (pos + len) raw) = len" using assms(2) ge by simp
  have "segment (pos + len) (pos + align_up len page) raw = zeros (align_up len page - len)"
    using assms(2,3) ge by (simp add: not_any_set)
  then have "padded (segment pos (pos + len) raw) page = segment pos (pos + align_up len page) raw"
    using ge segment_split [of pos "pos + len" "pos + align_up len page" raw] by (simp add: padded_def len del: length_segment)
  moreover have "segment pos (pos + align_up len page) raw @ drop (pos + align_up len page) raw = drop pos raw"
    using append_take_drop_id [of "align_up len page" "drop pos raw"] by (simp add: segment_def add.commute)
  ultimately show ?thesis by simp
qed

text \<open>What the header of an assembled image describes are the parts it was assembled from.\<close>

lemma described_assembled:
  fixes h k r s d tail :: bytes and mode :: string
  assumes "fits h k r s d"
  defines "raw \<equiv> assemble h k r s d tail"
  defines "b \<equiv> described raw mode"
  shows "bi_raw b = raw" "bi_page_size b = length h" "bi_id_mode b = mode"
    "bi_kernel_size b = length k" "bi_ramdisk_size b = length r" "bi_second_size b = length s" "bi_dt_size b = length d"
    "bi_kernel b = k" "bi_ramdisk b = r" "bi_second b = s" "bi_dt b = d" "bi_tail b = tail"
    "check_ranges raw (components b) = Inr ()" "check_padding raw (length h) (components b) = Inr ()"
    "bi_tail_offset b \<le> length raw"
proof -
  let ?P = "length h"
  have P: "0 < ?P" "44 \<le> ?P" using assms(1) by (auto simp: fits_def)
  have u: "u32 raw n = u32 h n" if "n \<le> 40" for n
    using P(2) that by (simp add: raw_def assemble_def u32_append)
  let ?ok = "?P" and ?or = "?P + align_up (length k) ?P"
  let ?os = "?or + align_up (length r) ?P"
  let ?od = "?os + align_up (length s) ?P"
  let ?ot = "?od + align_up (length d) ?P"
  have b: "bi_kernel_offset b = ?ok" "bi_ramdisk_offset b = ?or" "bi_second_offset b = ?os" "bi_dt_offset b = ?od"
      "bi_tail_offset b = ?ot"
    and basic: "bi_raw b = raw" "bi_page_size b = ?P" "bi_id_mode b = mode"
      "bi_kernel_size b = length k" "bi_ramdisk_size b = length r" "bi_second_size b = length s" "bi_dt_size b = length d"
    using assms(1) by (simp_all add: b_def described_simps u fits_def)
  note lp = length_padded [OF P(1)]
  let ?k = "padded k ?P" and ?r = "padded r ?P" and ?s = "padded s ?P" and ?d = "padded d ?P"
  have raws: "raw = h @ ?k @ (?r @ ?s @ ?d @ tail)" "raw = (h @ ?k) @ ?r @ (?s @ ?d @ tail)"
    "raw = (h @ ?k @ ?r) @ ?s @ (?d @ tail)" "raw = (h @ ?k @ ?r @ ?s) @ ?d @ tail"
    "raw = (h @ ?k @ ?r @ ?s @ ?d) @ tail"
    by (simp_all add: raw_def assemble_def)
  have k: "segment ?ok (?ok + length k) raw = k"
      "segment (?ok + length k) (?ok + align_up (length k) ?P) raw = zeros (align_up (length k) ?P - length k)"
    unfolding raws(1) by (rule padded_read [OF P(1)]; simp)+
  have r: "segment ?or (?or + length r) raw = r"
      "segment (?or + length r) (?or + align_up (length r) ?P) raw = zeros (align_up (length r) ?P - length r)"
    unfolding raws(2) by (rule padded_read [OF P(1)]; simp add: lp)+
  have s: "segment ?os (?os + length s) raw = s"
      "segment (?os + length s) (?os + align_up (length s) ?P) raw = zeros (align_up (length s) ?P - length s)"
    unfolding raws(3) by (rule padded_read [OF P(1)]; simp add: lp)+
  have d: "segment ?od (?od + length d) raw = d"
      "segment (?od + length d) (?od + align_up (length d) ?P) raw = zeros (align_up (length d) ?P - length d)"
    unfolding raws(4) by (rule padded_read [OF P(1)]; simp add: lp)+
  have total: "length raw = ?ot + length tail"
    by (simp add: raw_def assemble_def lp)
  have ge: "length x \<le> align_up (length x) ?P" for x :: bytes using align_up_ge [OF P(1)] .
  show "bi_raw b = raw" "bi_page_size b = length h" "bi_id_mode b = mode"
    "bi_kernel_size b = length k" "bi_ramdisk_size b = length r" "bi_second_size b = length s" "bi_dt_size b = length d"
    by (fact basic)+
  show "bi_kernel b = k" "bi_ramdisk b = r" "bi_second b = s" "bi_dt b = d"
    by (simp_all only: bi_kernel_def bi_ramdisk_def bi_second_def bi_dt_def b basic k r s d)
  show "bi_tail b = tail"
    unfolding bi_tail_def b basic raws(5) by (simp add: lp)
  show "check_ranges raw (components b) = Inr ()"
    using total ge [of k] ge [of r] ge [of s] ge [of d]
    by (simp add: components_def b basic range_of_def)
  show "check_padding raw ?P (components b) = Inr ()"
    by (simp add: components_def b basic k(2) r(2) s(2) d(2))
  show "bi_tail_offset b \<le> length raw" using total b by simp
qed

section \<open>What is accepted\<close>

definition boot_digest :: "(bytes \<Rightarrow> bytes) \<Rightarrow> bytes \<Rightarrow> bytes \<Rightarrow> bytes \<Rightarrow> bytes \<Rightarrow> string \<Rightarrow> bytes" where
  "boot_digest sha1 k r s d mode =
     sha1 (k @ le_bytes 4 (length k) @ r @ le_bytes 4 (length r) @ s @ le_bytes 4 (length s)
       @ (if mode = ''dt-size'' then d @ le_bytes 4 (length d) else []))"

definition id_conventions :: "string list" where
  "id_conventions = [''dt-size'', ''no-dt'']"

definition payload_ok ::
    "(bytes \<Rightarrow> bytes) \<Rightarrow> (bytes \<Rightarrow> nat \<Rightarrow> gzip_read) \<Rightarrow> bytes \<Rightarrow> bytes \<Rightarrow> bytes \<Rightarrow> bytes \<Rightarrow> bytes \<Rightarrow> string \<Rightarrow> bool" where
  "payload_ok sha1 inflate h k r s d mode \<longleftrightarrow>
     take 8 h = MAGIC \<and> 40 \<le> length k \<and> segment 36 40 k = KERNEL_MAGIC
     \<and> validate_gzip_newc inflate r = Inr () \<and> validate_dt d = Inr ()
     \<and> mode \<in> set id_conventions
     \<and> boot_digest sha1 k r s d mode = segment 576 596 h
     \<and> boot_digest sha1 k r s d ''dt-size'' \<noteq> boot_digest sha1 k r s d ''no-dt''
     \<and> segment 596 608 h = zeros 12"

lemma boot_id_Inr:
  assumes "length k < 2 ^ 32" "length r < 2 ^ 32" "length s < 2 ^ 32" "length d < 2 ^ 32" "mode \<in> set id_conventions"
  shows "boot_id sha1 k r s d mode = Inr (boot_digest sha1 k r s d mode)"
  using assms by (auto simp: boot_id_def boot_digest_def pack_u32_def id_conventions_def Let_def)

lemma check_ranges_Inr:
  "check_ranges raw cs = Inr () \<longleftrightarrow> list_all (\<lambda>(offset, len, label). offset + len \<le> length raw) cs"
  by (induction raw cs rule: check_ranges.induct) (auto simp: bindr_eq_Inr range_of_Inr)

lemma check_padding_Inr:
  "check_padding raw page cs = Inr () \<longleftrightarrow>
     list_all (\<lambda>(offset, len, label). \<not> any_set (segment (offset + len) (offset + align_up len page) raw)) cs"
  by (induction raw page cs rule: check_padding.induct) (auto simp: bindr_eq_Inr)

lemma id_modes_one:
  "id_modes (\<lambda>m. Inr (f m)) stored [a, b] = Inr modes \<and> length modes = 1 \<and> hd modes = mode \<longleftrightarrow>
     modes = [mode] \<and> (mode = a \<and> f a = stored \<and> f b \<noteq> stored \<or> mode = b \<and> f b = stored \<and> f a \<noteq> stored)"
  by auto

text \<open>The checks of the reader, as one conjunction.\<close>

lemma single_convention:
  "(\<exists>ms. m = Inr ms \<and> length ms = Suc 0 \<and> Q \<and> f (hd ms) = b) \<longleftrightarrow> (\<exists>x. m = Inr [x] \<and> Q \<and> b = f x)"
  by (auto simp: length_Suc_conv)

lemma parse_image_Inr:
  "parse_image sha1 inflate raw = Inr b \<longleftrightarrow>
     length raw \<le> MAX_IMAGE \<and> HEADER_MIN \<le> length raw \<and> take 8 raw = MAGIC
     \<and> (let i = described raw [] in
          bi_page_size i \<in> set [2048, 4096] \<and> HEADER_MIN \<le> bi_page_size i
          \<and> check_ranges raw (components i) = Inr () \<and> bi_tail_offset i \<le> length raw
          \<and> check_padding raw (bi_page_size i) (components i) = Inr ()
          \<and> 40 \<le> length (bi_kernel i) \<and> segment 36 40 (bi_kernel i) = KERNEL_MAGIC
          \<and> validate_gzip_newc inflate (bi_ramdisk i) = Inr () \<and> validate_dt (bi_dt i) = Inr ()
          \<and> (\<exists>mode. id_modes (boot_id sha1 (bi_kernel i) (bi_ramdisk i) (bi_second i) (bi_dt i))
                 (segment 576 596 raw) [''dt-size'', ''no-dt''] = Inr [mode]
               \<and> \<not> any_set (segment 596 608 raw) \<and> b = described raw mode))"
  unfolding parse_image_def Let_def by (simp add: bindr_eq_Inr single_convention del: id_modes.simps)

text \<open>Reading an assembled image: the checks that are left are those of the payload.\<close>

lemma parse_assembled:
  fixes h k r s d tail :: bytes
  assumes "fits h k r s d"
  defines "raw \<equiv> assemble h k r s d tail"
  shows "parse_image sha1 inflate raw = Inr b \<longleftrightarrow>
    length raw \<le> MAX_IMAGE \<and> (\<exists>mode. payload_ok sha1 inflate h k r s d mode \<and> b = described raw mode)"
proof (cases "length raw \<le> MAX_IMAGE")
  case False
  then show ?thesis by (simp add: parse_image_def ensure_def)
next
  case True
  note desc = described_assembled [OF assms(1), where tail = tail, folded raw_def]
  have P: "length h \<in> set [2048, 4096]" "0 < length h" "608 \<le> length h" using assms(1) by (auto simp: fits_def)
  have raw_h: "raw = h @ padded k (length h) @ padded r (length h) @ padded s (length h) @ padded d (length h) @ tail"
    by (simp add: raw_def assemble_def)
  have ge: "length x \<le> length (padded x (length h))" for x :: bytes
    by (simp add: padded_def)
  have small: "length k < 2 ^ 32" "length r < 2 ^ 32" "length s < 2 ^ 32" "length d < 2 ^ 32"
    using True ge [of k] ge [of r] ge [of s] ge [of d] by (simp_all add: raw_h MAX_IMAGE_def)
  have head: "take 8 raw = take 8 h" "segment 576 596 raw = segment 576 596 h" "segment 596 608 raw = segment 596 608 h"
    "HEADER_MIN \<le> length raw"
    using P(3) by (simp_all add: raw_h segment_append_left HEADER_MIN_def)
  have twelve: "\<not> any_set (segment 596 608 h) \<longleftrightarrow> segment 596 608 h = zeros 12"
    using P(3) by (simp add: not_any_set)
  have ids: "boot_id sha1 k r s d m = Inr (boot_digest sha1 k r s d m)" if "m \<in> set id_conventions" for m
    using boot_id_Inr [OF small that] .
  have modes: "id_modes (boot_id sha1 k r s d) stored [''dt-size'', ''no-dt'']
      = id_modes (\<lambda>m. Inr (boot_digest sha1 k r s d m)) stored [''dt-size'', ''no-dt'']" for stored
    using ids by (simp add: id_conventions_def)
  have page: "(length h \<in> set [2048, 4096]) = True" "(HEADER_MIN \<le> length h) = True"
      "(bi_tail_offset (described raw []) \<le> length raw) = True"
    using P desc(15) by (simp_all add: HEADER_MIN_def)
  show ?thesis
    unfolding parse_image_Inr Let_def desc head modes payload_ok_def twelve page
    using True head(4) by (auto simp: id_conventions_def)
qed

text \<open>An accepted image is put together from the parts its header describes.\<close>

lemma parsed_layout:
  assumes "parse_image sha1 inflate raw = Inr b"
  defines "h \<equiv> take (bi_page_size b) raw"
  shows "raw = assemble h (bi_kernel b) (bi_ramdisk b) (bi_second b) (bi_dt b) (bi_tail b)"
    and "fits h (bi_kernel b) (bi_ramdisk b) (bi_second b) (bi_dt b)"
proof -
  obtain mode where b: "b = described raw mode" and page: "bi_page_size b \<in> set [2048, 4096]"
    and inside: "bi_tail_offset b \<le> length raw"
    and ranges: "check_ranges raw (components b) = Inr ()"
    and padding: "check_padding raw (bi_page_size b) (components b) = Inr ()"
    using assms(1) unfolding parse_image_Inr by (auto simp: Let_def described_def components_def)
  let ?P = "bi_page_size b"
  have P: "0 < ?P" "44 \<le> ?P" using page by auto
  have sizes: "bi_kernel_size b = u32 raw 8" "bi_ramdisk_size b = u32 raw 16" "bi_second_size b = u32 raw 24"
      "bi_dt_size b = u32 raw 40" "?P = u32 raw 36" "bi_raw b = raw" "bi_kernel_offset b = ?P"
    and offs: "bi_ramdisk_offset b = bi_kernel_offset b + align_up (bi_kernel_size b) ?P"
      "bi_second_offset b = bi_ramdisk_offset b + align_up (bi_ramdisk_size b) ?P"
      "bi_dt_offset b = bi_second_offset b + align_up (bi_second_size b) ?P"
      "bi_tail_offset b = bi_dt_offset b + align_up (bi_dt_size b) ?P"
    by (simp_all add: b described_simps)
  have lens: "length (bi_kernel b) = bi_kernel_size b" "length (bi_ramdisk b) = bi_ramdisk_size b"
    "length (bi_second b) = bi_second_size b" "length (bi_dt b) = bi_dt_size b"
    using ranges by (auto simp: components_def range_of_Inr bi_kernel_def bi_ramdisk_def bi_second_def bi_dt_def
        sizes(6) simp del: of_nat_add)
  have at: "bi_kernel_offset b + align_up (bi_kernel_size b) ?P \<le> length raw"
      "bi_ramdisk_offset b + align_up (bi_ramdisk_size b) ?P \<le> length raw"
      "bi_second_offset b + align_up (bi_second_size b) ?P \<le> length raw"
      "bi_dt_offset b + align_up (bi_dt_size b) ?P \<le> length raw"
    using inside offs by linarith+
  have pads: "\<not> any_set (segment (bi_kernel_offset b + bi_kernel_size b) (bi_kernel_offset b + align_up (bi_kernel_size b) ?P) raw)"
      "\<not> any_set (segment (bi_ramdisk_offset b + bi_ramdisk_size b) (bi_ramdisk_offset b + align_up (bi_ramdisk_size b) ?P) raw)"
      "\<not> any_set (segment (bi_second_offset b + bi_second_size b) (bi_second_offset b + align_up (bi_second_size b) ?P) raw)"
      "\<not> any_set (segment (bi_dt_offset b + bi_dt_size b) (bi_dt_offset b + align_up (bi_dt_size b) ?P) raw)"
    using padding by (auto simp: components_def bindr_eq_Inr)
  have len_h: "length h = ?P" using at(1) sizes(7) by (simp add: h_def)
  have parts: "drop (bi_kernel_offset b) raw = padded (bi_kernel b) ?P @ drop (bi_ramdisk_offset b) raw"
      "drop (bi_ramdisk_offset b) raw = padded (bi_ramdisk b) ?P @ drop (bi_second_offset b) raw"
      "drop (bi_second_offset b) raw = padded (bi_second b) ?P @ drop (bi_dt_offset b) raw"
      "drop (bi_dt_offset b) raw = padded (bi_dt b) ?P @ bi_tail b"
    using padded_split [OF P(1) at(1) pads(1)] padded_split [OF P(1) at(2) pads(2)]
      padded_split [OF P(1) at(3) pads(3)] padded_split [OF P(1) at(4) pads(4)]
    by (simp_all only: bi_kernel_def bi_ramdisk_def bi_second_def bi_dt_def bi_tail_def sizes(6) offs)
  have "raw = h @ drop (bi_kernel_offset b) raw" by (simp add: h_def sizes(7))
  then show "raw = assemble h (bi_kernel b) (bi_ramdisk b) (bi_second b) (bi_dt b) (bi_tail b)"
    by (simp only: assemble_def len_h parts)
  have u: "u32 h n = u32 raw n" if "n \<le> 40" for n
    using P(2) that by (simp add: h_def u32_take)
  show "fits h (bi_kernel b) (bi_ramdisk b) (bi_second b) (bi_dt b)"
    unfolding fits_def len_h u [OF order.refl] lens using page sizes u by simp
qed

lemma reader_layout:
  "parse_image sha1 inflate raw = Inr b \<longleftrightarrow>
     (\<exists>h k r s d tail mode. raw = assemble h k r s d tail \<and> fits h k r s d \<and> length raw \<le> MAX_IMAGE
        \<and> payload_ok sha1 inflate h k r s d mode \<and> b = described raw mode)"
  (is "?L \<longleftrightarrow> ?R")
proof
  assume L: ?L
  note lay = parsed_layout [OF L]
  let ?h = "take (bi_page_size b) raw"
  have "length raw \<le> MAX_IMAGE \<and> (\<exists>mode. payload_ok sha1 inflate ?h (bi_kernel b) (bi_ramdisk b) (bi_second b) (bi_dt b) mode
      \<and> b = described raw mode)"
    using parse_assembled [OF lay(2), of sha1 inflate "bi_tail b" b] L lay(1) by metis
  then show ?R using lay by blast
next
  assume ?R
  then show ?L using parse_assembled by blast
qed

section \<open>Repacking\<close>

text \<open>SHA-1 returns 20 bytes.\<close>

definition sha1_sized :: "(bytes \<Rightarrow> bytes) \<Rightarrow> bool" where
  "sha1_sized sha1 \<longleftrightarrow> (\<forall>x. length (sha1 x) = 20)"

definition new_header :: "(bytes \<Rightarrow> bytes) \<Rightarrow> bytes \<Rightarrow> bytes \<Rightarrow> bytes \<Rightarrow> bytes \<Rightarrow> bytes \<Rightarrow> string \<Rightarrow> bytes" where
  "new_header sha1 h k r s d mode =
     splice 576 608 (boot_digest sha1 k r s d mode @ zeros 12) (splice 16 20 (le_bytes 4 (length r)) h)"

lemma new_header:
  fixes h k r s d r' :: bytes and mode :: string
  assumes sha1: "sha1_sized sha1" and fits: "fits h k r s d" and small: "length r' < 2 ^ 32"
  defines "h' \<equiv> new_header sha1 h k r' s d mode"
  shows "length h' = length h" "take 8 h' = take 8 h" "segment 8 16 h' = segment 8 16 h"
    "segment 16 20 h' = le_bytes 4 (length r')" "segment 20 576 h' = segment 20 576 h"
    "segment 576 596 h' = boot_digest sha1 k r' s d mode" "segment 596 608 h' = zeros 12"
    "segment 608 n h' = segment 608 n h" "fits h' k r' s d"
proof -
  let ?g = "splice 16 20 (le_bytes 4 (length r')) h" and ?id = "boot_digest sha1 k r' s d mode"
  have P: "608 \<le> length h" using fits by (auto simp: fits_def)
  have id: "length ?id = 20" using sha1 by (simp add: boot_digest_def sha1_sized_def)
  have g: "length ?g = length h" using P by (simp add: length_splice)
  then show len: "length h' = length h"
    using P id unfolding h'_def new_header_def by (subst length_splice) simp_all
  have before: "segment a b h' = segment a b ?g" if "b \<le> 576" for a b
    using P g that unfolding h'_def new_header_def by (simp add: segment_splice_before)
  have before16: "segment a b h' = segment a b h" if "b \<le> 16" for a b
    using P g that by (simp add: before segment_splice_before)
  have after20: "segment a b h' = segment a b h" if "20 \<le> a" "b \<le> 576" for a b
    using P g that by (simp add: before segment_splice_after)
  show "take 8 h' = take 8 h" by (simp add: take_segment before16)
  show "segment 8 16 h' = segment 8 16 h" by (simp add: before16)
  show s16: "segment 16 20 h' = le_bytes 4 (length r')"
    using P by (simp add: before segment_splice_same)
  show "segment 20 576 h' = segment 20 576 h" by (simp add: after20)
  have both: "segment 576 608 h' = ?id @ zeros 12"
    using P g id unfolding h'_def new_header_def by (subst segment_splice_same) simp_all
  have "segment 0 20 (segment 576 608 h') = ?id" "segment 20 32 (segment 576 608 h') = zeros 12"
    using id unfolding both by (simp_all add: segment_append_left segment_append_right segment_def)
  then show "segment 576 596 h' = ?id" "segment 596 608 h' = zeros 12"
    by (simp_all add: segment_segment)
  show "segment 608 n h' = segment 608 n h"
    using P g id unfolding h'_def new_header_def by (subst segment_splice_after) (simp_all add: segment_splice_after)
  have r: "u32 h' 16 = length r'"
    using s16 small by (simp add: u32_def le_nat_le_bytes)
  show "fits h' k r' s d"
    using fits r unfolding fits_def len by (simp add: u32_def before16 after20)
qed

text \<open>What the repacker writes: the source with a new ramdisk, size and identifier.\<close>

definition with_ramdisk ::
    "(bytes \<Rightarrow> bytes) \<Rightarrow> bytes \<Rightarrow> bytes \<Rightarrow> bytes \<Rightarrow> bytes \<Rightarrow> bytes \<Rightarrow> string \<Rightarrow> bytes \<Rightarrow> bytes" where
  "with_ramdisk sha1 h k r s d mode tail = assemble (new_header sha1 h k r s d mode) k r s d tail"

lemma with_ramdisk_append: "with_ramdisk sha1 h k r s d mode (t @ u) = with_ramdisk sha1 h k r s d mode t @ u"
  by (simp add: with_ramdisk_def assemble_def)

lemma parse_with_ramdisk:
  fixes h k r s d tail :: bytes and mode :: string
  assumes sha1: "sha1_sized sha1" and fits: "fits h k r0 s d" and small: "length r < 2 ^ 32"
    and ok: "payload_ok sha1 inflate h k r0 s d mode" and cpio: "validate_gzip_newc inflate r = Inr ()"
  defines "raw \<equiv> with_ramdisk sha1 h k r s d mode tail"
  shows "(\<exists>b. parse_image sha1 inflate raw = Inr b) \<longleftrightarrow> length raw \<le> MAX_IMAGE
      \<and> boot_digest sha1 k r s d ''dt-size'' \<noteq> boot_digest sha1 k r s d ''no-dt''"
    and "parse_image sha1 inflate raw = Inr b \<Longrightarrow>
      bi_kernel b = k \<and> bi_ramdisk b = r \<and> bi_second b = s \<and> bi_dt b = d \<and> bi_tail b = tail \<and> bi_raw b = raw
      \<and> bi_page_size b = length h \<and> b = described raw (bi_id_mode b)"
proof -
  note nh = new_header [OF sha1 fits small, where mode = mode]
  have parse: "parse_image sha1 inflate raw = Inr c \<longleftrightarrow> length raw \<le> MAX_IMAGE
      \<and> (\<exists>m. payload_ok sha1 inflate (new_header sha1 h k r s d mode) k r s d m \<and> c = described raw m)" for c
    unfolding raw_def with_ramdisk_def by (rule parse_assembled [OF nh(9)])
  have pay: "payload_ok sha1 inflate (new_header sha1 h k r s d mode) k r s d m \<longleftrightarrow>
      m \<in> set id_conventions \<and> boot_digest sha1 k r s d m = boot_digest sha1 k r s d mode
      \<and> boot_digest sha1 k r s d ''dt-size'' \<noteq> boot_digest sha1 k r s d ''no-dt''" for m
    using ok cpio nh by (auto simp: payload_ok_def)
  have mode: "mode \<in> set id_conventions" using ok by (simp add: payload_ok_def)
  show "(\<exists>b. parse_image sha1 inflate raw = Inr b) \<longleftrightarrow> length raw \<le> MAX_IMAGE
      \<and> boot_digest sha1 k r s d ''dt-size'' \<noteq> boot_digest sha1 k r s d ''no-dt''"
    unfolding parse pay using mode by blast
  assume "parse_image sha1 inflate raw = Inr b"
  then obtain m where b: "b = described raw m" unfolding parse by blast
  then show "bi_kernel b = k \<and> bi_ramdisk b = r \<and> bi_second b = s \<and> bi_dt b = d \<and> bi_tail b = tail \<and> bi_raw b = raw
      \<and> bi_page_size b = length h \<and> b = described raw (bi_id_mode b)"
    using described_assembled [OF nh(9), where tail = tail and mode = m, folded with_ramdisk_def raw_def] nh(1) by simp
qed

text \<open>What \<open>repack\<close> concatenates, on an image that was read.\<close>

lemma repacked_assembled:
  fixes h k r s d tail :: bytes and m mode :: string
  assumes sha1: "sha1_sized sha1" and fits: "fits h k r0 s d" and small: "length r < 2 ^ 32"
  defines "base \<equiv> described (assemble h k r0 s d tail) m"
  shows "repacked base r (splice 16 20 (le_bytes 4 (length r)) (take (length h) (assemble h k r0 s d tail)))
      (boot_digest sha1 k r s d mode) = with_ramdisk sha1 h k r s d mode (rstrip_zeros tail)"
proof -
  note desc = described_assembled [OF fits, where tail = tail and mode = m, folded base_def]
  have "take (length h) (assemble h k r0 s d tail) = h" by (simp add: assemble_def)
  then show ?thesis
    unfolding repacked_def desc with_ramdisk_def assemble_def new_header(1) [OF sha1 fits small]
    by (simp add: padded_def new_header_def)
qed

definition repack_output ::
    "(bytes \<Rightarrow> bytes) \<Rightarrow> bytes \<Rightarrow> bytes \<Rightarrow> bytes \<Rightarrow> bytes \<Rightarrow> bytes \<Rightarrow> string \<Rightarrow> bytes \<Rightarrow> nat \<Rightarrow> bytes" where
  "repack_output sha1 h k r s d mode tail n =
     (let active = with_ramdisk sha1 h k r s d mode (rstrip_zeros tail) in active @ zeros (n - length active))"

lemma repack_of_parts:
  fixes h k r s d tail :: bytes and mode :: string
  assumes sha1: "sha1_sized sha1" and fits: "fits h k r0 s d"
    and source: "source = assemble h k r0 s d tail" and len: "length source \<le> MAX_IMAGE"
    and ok: "payload_ok sha1 inflate h k r0 s d mode"
  shows "repack sha1 inflate source r = Inr result \<longleftrightarrow>
     validate_gzip_newc inflate r = Inr ()
     \<and> boot_digest sha1 k r s d ''dt-size'' \<noteq> boot_digest sha1 k r s d ''no-dt''
     \<and> length (with_ramdisk sha1 h k r s d mode (rstrip_zeros tail)) \<le> MAX_IMAGE
     \<and> result = repack_output sha1 h k r s d mode tail (length source)"
proof -
  let ?base = "described source mode" and ?active = "with_ramdisk sha1 h k r s d mode (rstrip_zeros tail)"
  let ?z = "zeros (length source - length ?active)"
  have base: "parse_image sha1 inflate source = Inr ?base"
    using parse_assembled [OF fits] len ok source by blast
  note desc = described_assembled [OF fits, where tail = tail and mode = mode, folded source]
  have mode: "mode \<in> set id_conventions" using ok by (simp add: payload_ok_def)
  show ?thesis
  proof (cases "length r < 2 ^ 32")
    case False
    have "length r \<le> length ?active"
      by (simp add: with_ramdisk_def assemble_def padded_def)
    then have "\<not> length ?active \<le> MAX_IMAGE" using False by (simp add: MAX_IMAGE_def)
    moreover have "repack sha1 inflate source r \<noteq> Inr result"
      using False by (simp add: repack_def base bindr_eq_Inr pack_u32_def)
    ultimately show ?thesis by blast
  next
    case True
    have ge: "length x \<le> length source" if "x \<in> {k, s, d}" for x
      using that by (auto simp: source assemble_def padded_def)
    have parts: "length k < 2 ^ 32" "length s < 2 ^ 32" "length d < 2 ^ 32"
      using ge [of k] ge [of s] ge [of d] len by (simp_all add: MAX_IMAGE_def)
    have id: "boot_id sha1 k r s d mode = Inr (boot_digest sha1 k r s d mode)"
      by (rule boot_id_Inr [OF parts(1) True parts(2,3) mode])
    have active: "repacked ?base r (splice 16 20 (le_bytes 4 (length r)) (take (length h) source))
        (boot_digest sha1 k r s d mode) = ?active"
      using repacked_assembled [OF sha1 fits True, where tail = tail and m = mode and mode = mode] source by simp
    show ?thesis
    proof (cases "validate_gzip_newc inflate r = Inr () \<and> length ?active \<le> MAX_IMAGE")
      case False
      then show ?thesis
        using True by (auto simp: repack_def base bindr_eq_Inr pack_u32_def desc id Let_def active)
    next
      case ok': True
      have out: "?active @ ?z = with_ramdisk sha1 h k r s d mode (rstrip_zeros tail @ ?z)"
        by (simp add: with_ramdisk_append)
      have max: "length (?active @ ?z) \<le> MAX_IMAGE"
        using ok' len by (cases "length ?active \<le> length source") simp_all
      note parse = parse_with_ramdisk [OF sha1 fits True ok, where tail = "rstrip_zeros tail @ ?z", folded out]
      have same: "parse_image sha1 inflate (?active @ ?z) = Inr c \<Longrightarrow> bi_kernel c = k \<and> bi_dt c = d \<and> bi_second c = s
          \<and> rstrip_zeros (bi_tail c) = rstrip_zeros tail" for c
        using parse(2) [of c] ok' by simp
      have "repack sha1 inflate source r = Inr result \<longleftrightarrow>
          (\<exists>c. parse_image sha1 inflate (?active @ ?z) = Inr c) \<and> result = ?active @ ?z"
        unfolding repack_def base using ok' True same
        by (auto simp: bindr_eq_Inr pack_u32_def desc id Let_def active)
      then show ?thesis using parse(1) ok' max by (auto simp: repack_output_def Let_def)
    qed
  qed
qed

text \<open>
  C23. The reader accepts exactly the images of the format: a header of one page that names the
  sizes, the four components padded with zero bytes and an opaque tail, at most 13 MiB, whose
  parts pass the checks of the payload; it returns the parts as the header describes them.
\<close>

theorem reader_accepts_the_format:
  "parse_image sha1 inflate raw = Inr b \<longleftrightarrow>
     (\<exists>h k r s d tail mode. raw = assemble h k r s d tail \<and> fits h k r s d \<and> length raw \<le> MAX_IMAGE
        \<and> payload_ok sha1 inflate h k r s d mode \<and> b = described raw mode)"
  by (rule reader_layout)

text \<open>
  C24. What the repacker does: it succeeds exactly on an image of the format and a valid ramdisk,
  when the two identifier conventions still tell the images apart and the result is at most
  13 MiB, and then it returns the source with the new ramdisk, its size and the identifier in
  the header, every other part as it was, and the zero bytes at the end of the partition
  adjusted. The comparison with which the code ends never fails.
\<close>

theorem repack_refines_layout:
  assumes "sha1_sized sha1"
  shows "repack sha1 inflate source r = Inr result \<longleftrightarrow>
     (\<exists>h k r0 s d tail mode. source = assemble h k r0 s d tail \<and> fits h k r0 s d \<and> length source \<le> MAX_IMAGE
        \<and> payload_ok sha1 inflate h k r0 s d mode \<and> validate_gzip_newc inflate r = Inr ()
        \<and> boot_digest sha1 k r s d ''dt-size'' \<noteq> boot_digest sha1 k r s d ''no-dt''
        \<and> length (with_ramdisk sha1 h k r s d mode (rstrip_zeros tail)) \<le> MAX_IMAGE
        \<and> result = repack_output sha1 h k r s d mode tail (length source))"
  (is "?L \<longleftrightarrow> ?R")
proof
  assume L: ?L
  then obtain base where "parse_image sha1 inflate source = Inr base" by (auto simp: repack_def)
  then obtain h k r0 s d tail mode where parts: "source = assemble h k r0 s d tail" "fits h k r0 s d"
      "length source \<le> MAX_IMAGE" "payload_ok sha1 inflate h k r0 s d mode"
    unfolding reader_layout by blast
  show ?R using repack_of_parts [OF assms parts(2,1,3,4), of r result] L parts by blast
next
  assume ?R
  then show ?L using repack_of_parts [OF assms] by blast
qed

text \<open>The verifier on two images given by their parts.\<close>

lemma repack_result:
  assumes sha1: "sha1_sized sha1" and repack: "repack sha1 inflate source r = Inr result"
  obtains h k r0 s d tail mode n b where "source = assemble h k r0 s d tail" "fits h k r0 s d"
    "parse_image sha1 inflate source = Inr (described source mode)"
    "result = with_ramdisk sha1 h k r s d mode (rstrip_zeros tail @ zeros n)"
    "length r < 2 ^ 32" "parse_image sha1 inflate result = Inr b"
    "bi_kernel b = k \<and> bi_ramdisk b = r \<and> bi_second b = s \<and> bi_dt b = d
      \<and> bi_tail b = rstrip_zeros tail @ zeros n \<and> bi_raw b = result \<and> bi_page_size b = length h"
proof -
  obtain base where "parse_image sha1 inflate source = Inr base" using repack by (auto simp: repack_def)
  then obtain h k r0 s d tail mode where p: "source = assemble h k r0 s d tail" "fits h k r0 s d"
      "length source \<le> MAX_IMAGE" "payload_ok sha1 inflate h k r0 s d mode"
    unfolding reader_layout by blast
  note out = repack_of_parts [OF sha1 p(2,1,3,4), of r result, THEN iffD1, OF repack]
  let ?active = "with_ramdisk sha1 h k r s d mode (rstrip_zeros tail)"
  let ?n = "length source - length ?active"
  have res: "result = with_ramdisk sha1 h k r s d mode (rstrip_zeros tail @ zeros ?n)"
    using out by (simp add: repack_output_def with_ramdisk_append Let_def)
  have small: "length r < 2 ^ 32" using repack by (auto simp: repack_def pack_u32_def split: if_splits)
  obtain b where b: "parse_image sha1 inflate result = Inr b" using repack by (auto simp: repack_def Let_def)
  have src: "parse_image sha1 inflate source = Inr (described source mode)"
    using parse_assembled [OF p(2)] p(1,3,4) by blast
  have cpio: "validate_gzip_newc inflate r = Inr ()" using out by blast
  have parts: "bi_kernel b = k \<and> bi_ramdisk b = r \<and> bi_second b = s \<and> bi_dt b = d
      \<and> bi_tail b = rstrip_zeros tail @ zeros ?n \<and> bi_raw b = result \<and> bi_page_size b = length h"
    using parse_with_ramdisk(2) [OF sha1 p(2) small p(4) cpio b [unfolded res]] res by simp
  show thesis by (rule that [OF p(1,2) src res small b parts])
qed

lemma repack_verifies:
  assumes "sha1_sized sha1" and "repack sha1 inflate source r = Inr result"
  shows "\<exists>b. verify_against sha1 inflate source result = Inr b \<and> bi_ramdisk b = r \<and> bi_raw b = result"
proof -
  from repack_result [OF assms] obtain h k r0 s d tail mode n b where
    p: "source = assemble h k r0 s d tail" "fits h k r0 s d"
    and base: "parse_image sha1 inflate source = Inr (described source mode)"
    and res: "result = with_ramdisk sha1 h k r s d mode (rstrip_zeros tail @ zeros n)"
    and small: "length r < 2 ^ 32" and b: "parse_image sha1 inflate result = Inr b"
    and parts: "bi_kernel b = k \<and> bi_ramdisk b = r \<and> bi_second b = s \<and> bi_dt b = d
      \<and> bi_tail b = rstrip_zeros tail @ zeros n \<and> bi_raw b = result \<and> bi_page_size b = length h" .
  note desc = described_assembled [OF p(2), where tail = tail and mode = mode, folded p(1)]
  note nh = new_header [OF assms(1) p(2) small, where mode = mode]
  have P: "608 \<le> length h" using p(2) by (auto simp: fits_def)
  have seg: "segment i j source = segment i j h" "segment i j result = segment i j (new_header sha1 h k r s d mode)"
    if "j \<le> length h" for i j
    using that nh(1) by (simp_all add: p(1) res with_ramdisk_def assemble_def segment_append_left)
  have "verify_against sha1 inflate source result = Inr b"
    using P parts desc by (simp add: verify_against_def base b seg nh)
  then show ?thesis using parts by blast
qed

text \<open>
  C25. Every image the repacker returns passes the comparison with its source, and reads back with
  the ramdisk that was asked for.
\<close>

theorem repacked_image_verifies:
  assumes "sha1_sized sha1" and "repack sha1 inflate source r = Inr result"
  shows "\<exists>b. verify_against sha1 inflate source result = Inr b \<and> bi_ramdisk b = r \<and> bi_raw b = result"
  by (rule repack_verifies [OF assms])

lemma u32_eq_segment: "u32 data n = le_nat (segment n (n + 4) data)"
  by (simp add: u32_def)

text \<open>A header is determined by the parts the repacker leaves alone.\<close>

lemma header_unique:
  fixes h h' :: bytes
  assumes len: "length h' = length h" "608 \<le> length h"
    and same: "take 8 h' = take 8 h" "segment 8 16 h' = segment 8 16 h" "segment 16 20 h' = segment 16 20 h"
      "segment 20 576 h' = segment 20 576 h" "segment 576 596 h' = segment 576 596 h"
      "segment 596 608 h' = segment 596 608 h" "segment 608 (length h') h' = segment 608 (length h) h"
  shows "h' = h"
proof -
  have cut_up: "x = take 8 x @ segment 8 16 x @ segment 16 20 x @ segment 20 576 x @ segment 576 596 x
      @ segment 596 608 x @ segment 608 (length x) x" if "608 \<le> length x" for x :: bytes
    using that by (simp add: take_segment segment_split)
  show ?thesis
    using cut_up [of h'] cut_up [of h] len unfolding same by metis
qed

lemma segment_le_bytes: "length h \<ge> n + 4 \<Longrightarrow> u32 h n = v \<Longrightarrow> segment n (n + 4) h = le_bytes 4 v"
  using le_bytes_le_nat [of "segment n (n + 4) h" 4] by (simp add: u32_def)

lemma payload_header_eq:
  assumes sha1: "sha1_sized sha1" and fits: "fits h k r0 s d" and fits': "fits h' k r s d" and small: "length r < 2 ^ 32"
    and ok: "payload_ok sha1 inflate h k r0 s d m0" and ok': "payload_ok sha1 inflate h' k r s d mode"
    and same: "segment 8 16 h' = segment 8 16 h" "segment 20 576 h' = segment 20 576 h"
      "segment 608 (length h') h' = segment 608 (length h) h"
  shows "h' = new_header sha1 h k r s d mode"
proof -
  note nh = new_header [OF sha1 fits small, where mode = mode]
  have P: "608 \<le> length h" "608 \<le> length h'" using fits fits' by (auto simp: fits_def)
  have "segment 16 20 (segment 20 576 h') = segment 16 20 (segment 20 576 h)" by (simp add: same)
  then have "u32 h' 36 = u32 h 36" by (simp add: segment_segment u32_def)
  then have len: "length h' = length h" using fits fits' by (simp add: fits_def)
  have "segment 16 20 h' = le_bytes 4 (length r)"
    using segment_le_bytes [of 16 h' "length r"] P fits' by (simp add: fits_def)
  moreover have "take 8 h' = take 8 h" "segment 576 596 h' = boot_digest sha1 k r s d mode" "segment 596 608 h' = zeros 12"
    using ok ok' by (simp_all add: payload_ok_def)
  ultimately show ?thesis
    using len P same by - (rule header_unique, simp_all only: nh)
qed

lemma repack_identity:
  assumes "sha1_sized sha1" and "parse_image sha1 inflate source = Inr b"
  shows "repack sha1 inflate source (bi_ramdisk b) = Inr source"
proof -
  from assms(2) obtain h k r s d tail mode where p: "source = assemble h k r s d tail" "fits h k r s d"
      "length source \<le> MAX_IMAGE" "payload_ok sha1 inflate h k r s d mode" and b: "b = described source mode"
    unfolding reader_layout by blast
  note desc = described_assembled [OF p(2), where tail = tail and mode = mode, folded p(1)]
  have "length r \<le> length source" by (simp add: p(1) assemble_def padded_def)
  then have small: "length r < 2 ^ 32" using p(3) by (simp add: MAX_IMAGE_def)
  have h: "new_header sha1 h k r s d mode = h"
    using payload_header_eq [OF assms(1) p(2,2) small p(4,4)] by simp
  have tail: "with_ramdisk sha1 h k r s d mode (rstrip_zeros tail) @ zeros (length tail - length (rstrip_zeros tail)) = source"
    using rstrip_zeros_split [of tail] by (simp add: with_ramdisk_append [symmetric]) (simp add: with_ramdisk_def h p(1))
  then have "length source = length (with_ramdisk sha1 h k r s d mode (rstrip_zeros tail))
      + (length tail - length (rstrip_zeros tail))"
    by (metis length_append length_zeros)
  then show ?thesis
    unfolding b desc using repack_of_parts [OF assms(1) p(2,1,3,4), of r source] p(3,4) tail
    by (simp add: repack_output_def Let_def payload_ok_def)
qed

text \<open>
  Repacking an image with the ramdisk it already has gives the image back, byte for byte.
\<close>

theorem repack_same_ramdisk:
  assumes "sha1_sized sha1" and "parse_image sha1 inflate source = Inr b"
  shows "repack sha1 inflate source (bi_ramdisk b) = Inr source"
  by (rule repack_identity [OF assms])

text \<open>
  The comparison accepts nothing but repacked images: a candidate it accepts, under the
  identifier convention of the source, is what the repacker makes of the source and the
  candidate's ramdisk, up to the zero bytes at the end.
\<close>

theorem verified_image_is_repacked:
  assumes "sha1_sized sha1" and "parse_image sha1 inflate source = Inr base"
    and "verify_against sha1 inflate source candidate = Inr b" and "bi_id_mode b = bi_id_mode base"
  shows "\<exists>result. repack sha1 inflate source (bi_ramdisk b) = Inr result \<and> rstrip_zeros result = rstrip_zeros candidate"
proof -
  from assms(2) obtain h k r0 s d tail mode where p: "source = assemble h k r0 s d tail" "fits h k r0 s d"
      "length source \<le> MAX_IMAGE" "payload_ok sha1 inflate h k r0 s d mode" and base: "base = described source mode"
    unfolding reader_layout by blast
  from assms(3) have cand: "parse_image sha1 inflate candidate = Inr b" by (auto simp: verify_against_def)
  then obtain h' k' r s' d' tail' mode' where q: "candidate = assemble h' k' r s' d' tail'" "fits h' k' r s' d'"
      "length candidate \<le> MAX_IMAGE" "payload_ok sha1 inflate h' k' r s' d' mode'" and b: "b = described candidate mode'"
    unfolding reader_layout by blast
  note desc = described_assembled [OF p(2), where tail = tail and mode = mode, folded p(1)]
  note desc' = described_assembled [OF q(2), where tail = tail' and mode = mode', folded q(1)]
  have mode: "mode' = mode" using assms(4) by (simp add: b base desc desc')
  have same: "segment 8 16 source = segment 8 16 candidate" "segment 20 576 source = segment 20 576 candidate"
      "segment 608 (length h) source = segment 608 (length h') candidate" "k' = k" "s' = s" "d' = d"
      "rstrip_zeros tail' = rstrip_zeros tail"
    using assms(2,3) by (auto simp: verify_against_def cand bindr_eq_Inr b base desc desc')
  have P: "608 \<le> length h" "608 \<le> length h'" using p(2) q(2) by (auto simp: fits_def)
  have seg: "segment i j source = segment i j h" if "j \<le> length h" for i j
    using that by (simp add: p(1) assemble_def segment_append_left)
  have seg': "segment i j candidate = segment i j h'" if "j \<le> length h'" for i j
    using that by (simp add: q(1) assemble_def segment_append_left)
  have "length r \<le> length candidate" by (simp add: q(1) assemble_def padded_def)
  then have small: "length r < 2 ^ 32" using q(3) by (simp add: MAX_IMAGE_def)
  have h': "h' = new_header sha1 h k r s d mode"
    using payload_header_eq [OF assms(1) p(2) _ small p(4), of h'] q(2,4) same P
    by (simp add: seg seg' mode)
  have cand_eq: "candidate = with_ramdisk sha1 h k r s d mode tail'"
    by (simp add: q(1) with_ramdisk_def same h')
  let ?active = "with_ramdisk sha1 h k r s d mode (rstrip_zeros tail)"
  have split: "candidate = ?active @ zeros (length tail' - length (rstrip_zeros tail'))"
    using rstrip_zeros_split [of tail'] same(7) by (simp add: cand_eq with_ramdisk_append [symmetric])
  then have "length ?active \<le> MAX_IMAGE" using q(3) by (metis le_add1 length_append order.trans)
  then have "repack sha1 inflate source r = Inr (repack_output sha1 h k r s d mode tail (length source))"
    using repack_of_parts [OF assms(1) p(2,1,3,4)] q(4) same mode by (simp add: payload_ok_def)
  moreover have "rstrip_zeros (repack_output sha1 h k r s d mode tail (length source)) = rstrip_zeros candidate"
    by (simp add: repack_output_def Let_def) (metis rstrip_zeros_append split)
  ultimately show ?thesis by (simp add: b desc')
qed

section \<open>A small image\<close>

text \<open>An image of four pages of 2048 bytes, under a digest and a decompressor of the witnesses' own.\<close>

definition demo_sha1 :: "bytes \<Rightarrow> bytes" where "demo_sha1 x = le_bytes 20 (length x)"
definition demo_inflate :: "bytes \<Rightarrow> nat \<Rightarrow> gzip_read" where "demo_inflate x n = Expanded (take n (drop 2 x))"
definition demo_kernel :: bytes where "demo_kernel = zeros 36 @ KERNEL_MAGIC"
definition demo_ramdisk :: bytes where "demo_ramdisk = archive_of (\<lambda>bs. gzip_magic @ bs) init_only"
definition demo_dt :: bytes where
  "demo_dt = DTBH @ le_bytes 4 2 @ le_bytes 4 1 @ zeros 20 @ le_bytes 4 48 @ le_bytes 4 8 @ zeros 8 @ FDT_MAGIC @ zeros 4"
definition demo_header :: bytes where
  "demo_header = MAGIC @ le_bytes 4 40 @ zeros 4 @ le_bytes 4 246 @ zeros 16 @ le_bytes 4 2048 @ le_bytes 4 56 @ zeros 532
     @ demo_sha1 (demo_kernel @ zeros 4 @ demo_ramdisk @ zeros 4 @ zeros 4 @ demo_dt @ zeros 4) @ zeros 1452"
definition demo_image :: bytes where
  "demo_image = assemble demo_header demo_kernel demo_ramdisk [] demo_dt [1, 0, 0]"

lemma magic_lengths [simp]:
  "length MAGIC = 8" "length DTBH = 4" "length FDT_MAGIC = 4" "length KERNEL_MAGIC = 4" "length gzip_magic = 2"
  by (simp_all add: MAGIC_def DTBH_def FDT_MAGIC_def KERNEL_MAGIC_def gzip_magic_def)

lemma demo_ramdisk: "length demo_ramdisk = 246" "validate_gzip_newc demo_inflate demo_ramdisk = Inr ()"
proof -
  have small: "small_file (init_name, 33261, [1, 2, 3])" "small_file (trailer_name, 0, [])"
    by (simp_all add: small_file_def init_name_def trailer_name_def)
  have "length init_name = 4" "length trailer_name = 10"
    by (simp_all add: init_name_def trailer_name_def)
  then have len: "length (newc_archive init_only) = 244"
    by (simp add: newc_archive_def init_only_def length_append_entry small align_up_def)
  then show "length demo_ramdisk = 246" by (simp add: demo_ramdisk_def archive_of_def)
  show "validate_gzip_newc demo_inflate demo_ramdisk = Inr ()"
    unfolding validate_iff demo_ramdisk_def archive_of_def
    using buildable_accepted [OF demo_buildable] len
    by (auto simp: demo_inflate_def gzip_magic_def MAX_CPIO_BYTES_def)
qed

lemma demo_lengths: "length demo_kernel = 40" "length demo_dt = 56" "length demo_header = 2048" "length demo_image = 8195"
proof -
  show k: "length demo_kernel = 40" "length demo_dt = 56" and h: "length demo_header = 2048"
    by (simp_all add: demo_kernel_def demo_dt_def demo_header_def demo_sha1_def)
  show "length demo_image = 8195"
    by (simp add: demo_image_def assemble_def length_padded k h demo_ramdisk align_up_def)
qed

lemmas segment_parts = segment_append_left segment_append_right segment_whole segment_zeros

lemma demo_digest: "demo_sha1 x = demo_sha1 y \<longleftrightarrow> length x mod 256 ^ 20 = length y mod 256 ^ 20"
  using le_nat_eq [of "demo_sha1 x" 20 "demo_sha1 y"] by (simp add: demo_sha1_def le_nat_le_bytes)

lemma demo_dt_valid: "validate_dt demo_dt = Inr ()"
proof -
  have u: "u32 demo_dt 4 = 2" "u32 demo_dt 8 = 1" "u32 demo_dt 32 = 48" "u32 demo_dt 36 = 8"
    by (simp_all add: demo_dt_def u32_def segment_parts le_nat_le_bytes)
  have "take 4 demo_dt = DTBH" "segment 48 52 demo_dt = FDT_MAGIC"
    by (simp_all add: demo_dt_def segment_parts)
  then show ?thesis
    by (simp add: validate_dt_def u demo_lengths range_of_def)
qed

lemma demo_parts: "fits demo_header demo_kernel demo_ramdisk [] demo_dt"
    "payload_ok demo_sha1 demo_inflate demo_header demo_kernel demo_ramdisk [] demo_dt ''dt-size''"
proof -
  show "fits demo_header demo_kernel demo_ramdisk [] demo_dt"
    unfolding fits_def demo_lengths demo_ramdisk
    by (simp add: demo_header_def u32_def segment_parts le_nat_le_bytes)
  have sha1: "length (demo_sha1 x) = 20" for x by (simp add: demo_sha1_def)
  have "take 8 demo_header = MAGIC" "segment 36 40 demo_kernel = KERNEL_MAGIC" "segment 596 608 demo_header = zeros 12"
    by (simp_all add: demo_header_def demo_kernel_def segment_parts sha1 zeros_def segment_def)
  moreover have "segment 576 596 demo_header =
      demo_sha1 (demo_kernel @ zeros 4 @ demo_ramdisk @ zeros 4 @ zeros 4 @ demo_dt @ zeros 4)"
    by (simp add: demo_header_def segment_parts sha1)
  ultimately show "payload_ok demo_sha1 demo_inflate demo_header demo_kernel demo_ramdisk [] demo_dt ''dt-size''"
    by (simp add: payload_ok_def demo_lengths demo_ramdisk demo_dt_valid id_conventions_def boot_digest_def demo_digest)
qed

lemma demo_reads:
  "sha1_sized demo_sha1" "parse_image demo_sha1 demo_inflate demo_image = Inr (described demo_image ''dt-size'')"
proof -
  show "sha1_sized demo_sha1" by (simp add: sha1_sized_def demo_sha1_def)
  show "parse_image demo_sha1 demo_inflate demo_image = Inr (described demo_image ''dt-size'')"
    unfolding reader_layout
    using demo_parts demo_image_def demo_lengths(4) by (intro exI conjI) (auto simp: MAX_IMAGE_def)
qed

lemma demo_described:
  "bi_ramdisk (described demo_image mode) = demo_ramdisk" "bi_id_mode (described demo_image mode) = mode"
  by (simp_all add: demo_image_def described_assembled [OF demo_parts(1)])

lemma demo_repacks: "repack demo_sha1 demo_inflate demo_image demo_ramdisk = Inr demo_image"
  using repack_identity [OF demo_reads] by (simp add: demo_described)

theorem repacked_image_verifies_witness:
  "\<exists>b. verify_against demo_sha1 demo_inflate demo_image demo_image = Inr b \<and> bi_ramdisk b = demo_ramdisk \<and> bi_raw b = demo_image"
  by (rule repacked_image_verifies [OF demo_reads(1) demo_repacks])

text \<open>The repacker's theorems on the small image.\<close>

theorem repack_same_ramdisk_witness:
  "repack demo_sha1 demo_inflate demo_image (bi_ramdisk (described demo_image ''dt-size'')) = Inr demo_image"
  by (rule repack_same_ramdisk [OF demo_reads])

theorem repack_refines_layout_witness:
  "\<exists>h k r0 s d tail mode. demo_image = assemble h k r0 s d tail \<and> fits h k r0 s d
     \<and> demo_image = repack_output demo_sha1 h k demo_ramdisk s d mode tail (length demo_image)"
  using repack_refines_layout [OF demo_reads(1), THEN iffD1, OF demo_repacks] by blast

theorem verified_image_is_repacked_witness:
  "\<exists>result. repack demo_sha1 demo_inflate demo_image (bi_ramdisk (described demo_image ''dt-size'')) = Inr result
     \<and> rstrip_zeros result = rstrip_zeros demo_image"
  by (rule verified_image_is_repacked [OF demo_reads]) (simp_all add: verify_against_def demo_reads demo_described)

end
