(* ===== verification/Init_Elf.thy ===== *)
theory Init_Elf
  imports Boot_Image Py_Text
begin

text \<open>
  \<open>check_init_elf\<close> and the assembly of the probe image in
  \<open>appliance/standalone/build_probe.py\<close>: the check of the ELF32 header and its program headers,
  and the composition of the archive, the repacker and the comparison. The list of files that the
  tool reads from the disk is an argument.
\<close>

unbundle bit_operations_syntax

datatype build_error = InitError string | ImageFault image_error

section \<open>The init program\<close>

definition ELF_IDENT :: bytes where
  "ELF_IDENT = [0x7f, 0x45, 0x4c, 0x46, 1, 1, 1]"

definition u16le :: "bytes \<Rightarrow> nat \<Rightarrow> nat" where
  "u16le data offset = le_nat (segment offset (offset + 2) data)"

text \<open>A program header: kind, offset, address, size in memory and alignment.\<close>

record prog_header =
  ph_kind :: nat
  ph_offset :: nat
  ph_address :: nat
  ph_memsz :: nat
  ph_align :: nat

definition prog_header_at :: "bytes \<Rightarrow> nat \<Rightarrow> prog_header" where
  "prog_header_at data pos =
     \<lparr>ph_kind = u32 data pos, ph_offset = u32 data (pos + 4), ph_address = u32 data (pos + 8),
      ph_memsz = u32 data (pos + 20), ph_align = u32 data (pos + 28)\<rparr>"

definition fail_unless :: "bool \<Rightarrow> string \<Rightarrow> build_error + unit" where
  "fail_unless c msg = (if c then Inr () else Inl (InitError msg))"

definition bad_tls :: "prog_header \<Rightarrow> bool" where
  "bad_tls h \<longleftrightarrow> ph_kind h = 7 \<and> ph_memsz h \<noteq> 0
     \<and> (ph_align h < 32 \<or> ph_align h AND (ph_align h - 1) \<noteq> 0
        \<or> ph_address h mod ph_align h \<noteq> ph_offset h mod ph_align h)"

fun check_headers :: "bytes \<Rightarrow> nat \<Rightarrow> nat list \<Rightarrow> build_error + unit" where
  "check_headers data start [] = Inr ()"
| "check_headers data start (index # rest) =
     (let h = prog_header_at data (start + index * 32) in
      bindr (fail_unless (ph_kind h \<noteq> 3) ''init must not depend on a dynamic interpreter'') (\<lambda>_.
      bindr (fail_unless (\<not> bad_tls h) ''init TLS does not meet the ARM Bionic 32-byte alignment contract'') (\<lambda>_.
        check_headers data start rest)))"

definition check_init_elf :: "bytes \<Rightarrow> build_error + unit" where
  "check_init_elf data =
     bindr (fail_unless (52 \<le> length data \<and> take 7 data = ELF_IDENT) ''init must be a little-endian ELF32 executable'') (\<lambda>_.
     bindr (fail_unless (u16le data 16 = 2 \<and> u16le data 18 = 40) ''init must be a static ARM executable'') (\<lambda>_.
     let start = u32 data 28; sz = u16le data 42; count = u16le data 44 in
     bindr (fail_unless (sz = 32 \<and> count \<noteq> 0 \<and> start + sz * count \<le> length data) ''init program headers are invalid'') (\<lambda>_.
       check_headers data start [0..<count])))"

lemma fail_unless_Inr [simp]: "fail_unless c msg = Inr u \<longleftrightarrow> c"
  by (simp add: fail_unless_def)

lemma check_headers_Inr:
  "check_headers data start is = Inr () \<longleftrightarrow>
     list_all (\<lambda>i. let h = prog_header_at data (start + i * 32) in ph_kind h \<noteq> 3 \<and> \<not> bad_tls h) is"
  by (induction "is") (auto simp: Let_def bindr_eq_Inr)

text \<open>The bit trick of the alignment check.\<close>

lemma power_of_two_trick: "0 < n \<Longrightarrow> n AND (n - 1) = 0 \<longleftrightarrow> (\<exists>k. n = 2 ^ k)" for n :: nat
proof (induction n rule: less_induct)
  case (less n)
  show ?case
  proof (cases "even n")
    case True
    then obtain m where n: "n = 2 * m" by blast
    then have m: "0 < m" "m < n" using less.prems by simp_all
    have "2 * m AND (2 * m - 1) = 2 * (m AND (m - 1))"
    proof -
      have "2 * m - 1 = 1 + 2 * (m - 1)" using m(1) by simp
      then show ?thesis by (subst and_rec) simp
    qed
    then have "n AND (n - 1) = 0 \<longleftrightarrow> m AND (m - 1) = 0" by (simp add: n)
    also have "\<dots> \<longleftrightarrow> (\<exists>k. m = 2 ^ k)" using less.IH [OF m(2,1)] .
    also have "\<dots> \<longleftrightarrow> (\<exists>k. n = 2 ^ k)"
    proof
      assume "\<exists>k. m = 2 ^ k"
      then show "\<exists>k. n = 2 ^ k" unfolding n by (metis power_Suc)
    next
      assume "\<exists>k. n = 2 ^ k"
      then obtain k where k: "n = 2 ^ k" by blast
      then show "\<exists>k. m = 2 ^ k" using n True by (cases k) auto
    qed
    finally show ?thesis .
  next
    case False
    then obtain m where n: "n = 1 + 2 * m" by (metis oddE add.commute)
    have "(1 + 2 * m) AND (2 * m) = 2 * m"
      by (subst and_rec) simp
    then have "n AND (n - 1) = 0 \<longleftrightarrow> m = 0" by (simp add: n)
    also have "\<dots> \<longleftrightarrow> (\<exists>k. n = 2 ^ k)"
    proof
      assume "m = 0"
      then show "\<exists>k. n = 2 ^ k" by (auto simp: n intro: exI [of _ 0])
    next
      assume "\<exists>k. n = 2 ^ k"
      then obtain k where k: "n = 2 ^ k" by blast
      then show "m = 0" using False n by (cases k) auto
    qed
    finally show ?thesis .
  qed
qed

text \<open>
  What the check of the init program accepts: a static little-endian ARM executable whose
  program headers lie inside the file, without an interpreter, and whose thread-local segment, if
  it holds anything, is aligned to a power of two of at least 32 bytes, with its address and its
  file offset equal modulo that alignment.
\<close>

theorem init_check_meaning:
  "check_init_elf data = Inr () \<longleftrightarrow>
     52 \<le> length data \<and> take 7 data = ELF_IDENT \<and> u16le data 16 = 2 \<and> u16le data 18 = 40
     \<and> u16le data 42 = 32 \<and> 0 < u16le data 44 \<and> u32 data 28 + 32 * u16le data 44 \<le> length data
     \<and> list_all (\<lambda>i. let h = prog_header_at data (u32 data 28 + i * 32) in
          \<not> ph_kind h = 3 \<and> \<not> (ph_kind h = 7 \<and> 0 < ph_memsz h \<and>
            \<not> (\<exists>k. ph_align h = 2 ^ k \<and> 32 \<le> ph_align h \<and> ph_address h mod 2 ^ k = ph_offset h mod 2 ^ k)))
         [0..<u16le data 44]"
proof -
  have tls: "bad_tls h \<longleftrightarrow> ph_kind h = 7 \<and> 0 < ph_memsz h \<and>
      \<not> (\<exists>k. ph_align h = 2 ^ k \<and> 32 \<le> ph_align h \<and> ph_address h mod 2 ^ k = ph_offset h mod 2 ^ k)" for h
    using power_of_two_trick [of "ph_align h"] by (cases "ph_align h < 32") (auto simp: bad_tls_def)
  show ?thesis
    by (auto simp: check_init_elf_def Let_def bindr_eq_Inr check_headers_Inr tls)
qed

section \<open>The probe image\<close>

datatype probe_source = Blank | FromFile string | Literal string

definition S_IFDIR :: nat where "S_IFDIR = 0x4000"
definition S_IFCHR :: nat where "S_IFCHR = 0x2000"
definition S_IFREG :: nat where "S_IFREG = 0x8000"
definition S_IFLNK :: nat where "S_IFLNK = 0xA000"

definition probe_layout :: "(string \<times> nat \<times> probe_source) list" where
  "probe_layout =
     map (\<lambda>p. (p, S_IFDIR OR 0x1ED, Blank))
       [''bin'', ''sbin'', ''etc'', ''etc/forge'', ''dev'', ''proc'', ''sys'', ''run'', ''tmp'', ''data'', ''os'']
     @ [(''dev/kmsg'', S_IFCHR OR 0x180, Blank)]
     @ map (\<lambda>(path, source, mode). (path, S_IFREG OR mode, FromFile source))
       [(''init'', ''output/standalone/forge-init'', 0x1ED),
        (''sbin/forge-admin'', ''output/standalone/forge-init'', 0x9ED),
        (''sbin/adbd'', ''output/standalone/recovery-tools/adbd'', 0x1ED),
        (''sbin/forge-panel'', ''output/native-arm/forge-panel'', 0x1ED),
        (''sbin/forge-namespace-run'', ''output/native-arm/forge-namespace-run'', 0x1ED),
        (''bin/busybox'', ''output/standalone/network-root/usr/bin/busybox'', 0x1ED),
        (''etc/forge/probe-screen.sh'', ''appliance/standalone/probe-screen.sh'', 0x1ED)]
     @ map (\<lambda>name. (''etc/forge/'' @ name, S_IFREG OR 0x1ED, FromFile (''appliance/standalone/'' @ name)))
       [''network-service.sh'', ''runtime.sh'', ''audio-route.sh'', ''dhcp-event.sh'']
     @ map (\<lambda>name. (''bin/'' @ name, S_IFLNK OR 0x1FF, Literal ''/bin/busybox''))
       [''sh'', ''cat'', ''ls'', ''echo'', ''mdev'', ''mount'', ''umount'', ''ps'', ''ip'',
        ''dd'', ''chmod'', ''mkdir'', ''sleep'', ''dmesg'', ''sha256sum'', ''reboot'', ''sync'']
     @ [(''sbin/sh'', S_IFLNK OR 0x1FF, Literal ''/bin/busybox'')]"

definition probe_data :: "(string \<Rightarrow> bytes) \<Rightarrow> probe_source \<Rightarrow> bytes" where
  "probe_data files s = (case s of Blank \<Rightarrow> [] | FromFile p \<Rightarrow> files p | Literal t \<Rightarrow> ascii t)"

definition probe_entries :: "(string \<Rightarrow> bytes) \<Rightarrow> cpio_file list" where
  "probe_entries files = map (\<lambda>(name, mode, s). (ascii name, mode, probe_data files s)) probe_layout"

text \<open>The steps of \<open>main\<close> up to the two images it writes.\<close>

definition lift_image :: "'a image_res \<Rightarrow> build_error + 'a" where
  "lift_image r = (case r of Inl e \<Rightarrow> Inl (ImageFault e) | Inr x \<Rightarrow> Inr x)"

definition build_probe ::
    "(bytes \<Rightarrow> bytes) \<Rightarrow> (bytes \<Rightarrow> nat \<Rightarrow> gzip_read) \<Rightarrow> (bytes \<Rightarrow> bytes) \<Rightarrow> (string \<Rightarrow> bytes) \<Rightarrow>
       build_error + bytes \<times> bytes \<times> boot_image" where
  "build_probe sha1 inflate deflate files =
     bindr (check_init_elf (files ''output/standalone/forge-init'')) (\<lambda>_.
     let ramdisk = archive_of deflate (probe_entries files);
         source = files ''output/standalone/boot-verified.img'' in
     bindr (lift_image (repack sha1 inflate source ramdisk)) (\<lambda>candidate.
     bindr (lift_image (verify_against sha1 inflate source candidate)) (\<lambda>checked.
       Inr (ramdisk, candidate, checked))))"

lemma lift_image_Inr [simp]: "lift_image r = Inr x \<longleftrightarrow> r = Inr x"
  by (cases r) (auto simp: lift_image_def)

text \<open>Names given as text, compared and checked as text.\<close>

lemma of_char_byte: "unat (word_of_nat (of_char c) :: byte) = of_char c"
  by (cases c) (simp add: of_char_def split: if_splits)

lemma ascii_eq [simp]: "ascii s = ascii t \<longleftrightarrow> s = t"
proof -
  have "inj (\<lambda>c. word_of_nat (of_char c) :: byte)"
    by (rule injI) (metis of_char_byte of_char_eq_iff)
  then show ?thesis by (simp add: ascii_def inj_map_eq_map)
qed

definition safe_text :: "string \<Rightarrow> bool" where
  "safe_text s \<longleftrightarrow> CHR 0x00 \<notin> set s \<and> list_all (\<lambda>p. p \<noteq> [] \<and> p \<noteq> ''.'' \<and> p \<noteq> ''..'') (split_on CHR ''/'' s)"

lemma byte_of_char: "word_of_nat (of_char c) = (word_of_nat (of_char d) :: byte) \<longleftrightarrow> c = d"
  using ascii_eq [of "[c]" "[d]"] by (simp add: ascii_def)

lemma split_ascii: "split_byte slash (ascii s) = map ascii (split_on CHR ''/'' s)"
proof (induction s)
  case (Cons c s)
  have "slash = word_of_nat (of_char CHR ''/'')" by (simp add: slash_def)
  then have "word_of_nat (of_char c) = slash \<longleftrightarrow> c = CHR ''/''" using byte_of_char by metis
  with Cons show ?case by (auto simp: ascii_def split: list.splits)
qed (simp add: ascii_def)

lemma safe_ascii: "safe_text s \<Longrightarrow> safe_name (ascii s)"
proof -
  assume s: "safe_text s"
  have zero: "0 \<notin> set (ascii s)"
  proof
    assume "0 \<in> set (ascii s)"
    then obtain c where c: "c \<in> set s" "word_of_nat (of_char c) = (0 :: byte)" by (auto simp: ascii_def)
    have "(0 :: byte) = word_of_nat (of_char CHR 0x00)" by simp
    with c s show False by (metis byte_of_char safe_text_def)
  qed
  have parts: "list_all (\<lambda>p. p \<noteq> [] \<and> p \<noteq> ascii ''.'' \<and> p \<noteq> ascii ''..'') (split_byte slash (ascii s))"
  proof -
    have "p \<noteq> [] \<Longrightarrow> ascii p \<noteq> []" for p by (simp add: ascii_def)
    then have "list_all (\<lambda>p. ascii p \<noteq> [] \<and> p \<noteq> ''.'' \<and> p \<noteq> ''..'') (split_on CHR ''/'' s)"
      using s unfolding safe_text_def list_all_iff by blast
    then show ?thesis unfolding split_ascii list.pred_map comp_def ascii_eq .
  qed
  have "\<not> (ascii s \<noteq> [] \<and> hd (ascii s) = slash)"
  proof
    assume a: "ascii s \<noteq> [] \<and> hd (ascii s) = slash"
    then obtain rest where "ascii s = slash # rest" by (cases "ascii s") auto
    then show False using parts by simp
  qed
  with zero parts show ?thesis by (simp add: safe_name_def)
qed

definition probe_paths :: "string list" where
  "probe_paths =
     [''bin'', ''sbin'', ''etc'', ''etc/forge'', ''dev'', ''proc'', ''sys'', ''run'', ''tmp'', ''data'', ''os'', ''dev/kmsg'',
      ''init'', ''sbin/forge-admin'', ''sbin/adbd'', ''sbin/forge-panel'', ''sbin/forge-namespace-run'', ''bin/busybox'',
      ''etc/forge/probe-screen.sh'', ''etc/forge/network-service.sh'', ''etc/forge/runtime.sh'',
      ''etc/forge/audio-route.sh'', ''etc/forge/dhcp-event.sh'', ''bin/sh'', ''bin/cat'', ''bin/ls'', ''bin/echo'',
      ''bin/mdev'', ''bin/mount'', ''bin/umount'', ''bin/ps'', ''bin/ip'', ''bin/dd'', ''bin/chmod'', ''bin/mkdir'',
      ''bin/sleep'', ''bin/dmesg'', ''bin/sha256sum'', ''bin/reboot'', ''bin/sync'', ''sbin/sh'']"

lemma probe_paths: "map fst probe_layout = probe_paths"
  by (simp add: probe_layout_def probe_paths_def)

lemma probe_names:
  "list_all (\<lambda>name. safe_text name \<and> name \<noteq> ''TRAILER!!!'' \<and> length name < 40) probe_paths" "distinct probe_paths"
  by code_simp+

lemma probe_modes: "list_all (\<lambda>(name, mode, s). mode < 2 ^ 16) probe_layout"
  by (simp add: probe_layout_def S_IFDIR_def S_IFCHR_def S_IFREG_def S_IFLNK_def)

lemma probe_init: "(''init'', 33261, FromFile ''output/standalone/forge-init'') \<in> set probe_layout" "length probe_layout = 41"
  by (simp_all add: probe_layout_def S_IFREG_def)

text \<open>The archive of the probe is one that the builder's guarantee covers.\<close>

lemma probe_buildable:
  assumes "\<And>p. length (files p) < 2 ^ 32"
  shows "buildable (probe_entries files)"
proof -
  have names: "map fst (probe_entries files) = map ascii probe_paths"
    unfolding probe_paths [symmetric] by (simp add: probe_entries_def case_prod_beta)
  have "list_all (\<lambda>n. safe_name n \<and> n \<noteq> trailer_name \<and> length n < 4096) (map fst (probe_entries files))"
    using probe_names(1) unfolding names list.pred_map comp_def trailer_name_def ascii_eq length_ascii
    by (rule list.pred_mono_strong) (auto intro: safe_ascii)
  then have ok: "list_all (\<lambda>f. safe_name (fst f) \<and> fst f \<noteq> trailer_name \<and> length (fst f) < 4096) (probe_entries files)"
    by (simp add: list.pred_map comp_def)
  have data: "length (probe_data files s) < 2 ^ 32" if "(n, m, s) \<in> set probe_layout" for n m s
    using assms that
    by (cases s) (auto simp: probe_data_def probe_layout_def)
  have small: "list_all (\<lambda>(n, m, d). m < 2 ^ 32 \<and> length d < 2 ^ 32) (probe_entries files)"
    using probe_modes data unfolding probe_entries_def list.pred_map comp_def list_all_iff
    by (fastforce elim: order.strict_trans)
  have "distinct (map fst (probe_entries files))"
    unfolding names using probe_names(2) by (simp add: distinct_map inj_on_def)
  moreover have "list_ex (\<lambda>(name, mode, data). executable_init name (int mode)) (probe_entries files)"
  proof -
    have "executable_init (ascii ''init'') (int 33261)"
      by (simp add: executable_init_def init_name_def)
    then show ?thesis
      using probe_init(1) unfolding probe_entries_def list_ex_iff by force
  qed
  ultimately show ?thesis
    using ok small unfolding buildable_def small_file_def
    by (simp add: list_all_iff probe_entries_def probe_init(2) MAX_CPIO_ENTRIES_def case_prod_beta)
qed

text \<open>
  Building the probe image: when the init program passes its check and the source image is one
  the reader accepts, every step that follows succeeds unless the new image is too large or the
  identifier conventions can no longer be told apart; the ramdisk is accepted by the repacker and
  the repacked image by the comparison, which returns the image with that ramdisk.
\<close>

theorem probe_build_steps:
  assumes "sha1_sized sha1" and "\<And>p. length (files p) < 2 ^ 32"
    and "\<And>bs. take 2 (deflate bs) = gzip_magic" and "\<And>bs n. inflate (deflate bs) n = Expanded (take n bs)"
    and "length (newc_archive (probe_entries files)) \<le> MAX_CPIO_BYTES"
    and "check_init_elf (files ''output/standalone/forge-init'') = Inr ()"
  defines "ramdisk \<equiv> archive_of deflate (probe_entries files)"
    and "source \<equiv> files ''output/standalone/boot-verified.img''"
  shows "validate_gzip_newc inflate ramdisk = Inr ()
    \<and> (case repack sha1 inflate source ramdisk of
         Inl e \<Rightarrow> build_probe sha1 inflate deflate files = Inl (ImageFault e)
       | Inr candidate \<Rightarrow> \<exists>checked. build_probe sha1 inflate deflate files = Inr (ramdisk, candidate, checked)
           \<and> bi_ramdisk checked = ramdisk \<and> bi_raw checked = candidate)"
proof -
  have "buildable (probe_entries files)" by (rule probe_buildable) (rule assms(2))
  then have "validate_gzip_newc inflate ramdisk = Inr ()"
    unfolding ramdisk_def validate_iff archive_of_def
    using buildable_accepted [of "probe_entries files"] assms(3-5) by auto
  moreover have "build_probe sha1 inflate deflate files = Inl (ImageFault e)" if "repack sha1 inflate source ramdisk = Inl e" for e
    using that assms(6) by (simp add: build_probe_def Let_def ramdisk_def source_def lift_image_def)
  moreover have "\<exists>checked. build_probe sha1 inflate deflate files = Inr (ramdisk, candidate, checked)
      \<and> bi_ramdisk checked = ramdisk \<and> bi_raw checked = candidate"
    if "repack sha1 inflate source ramdisk = Inr candidate" for candidate
    using repack_verifies [OF assms(1) that] that assms(6)
    by (auto simp: build_probe_def Let_def ramdisk_def source_def lift_image_def)
  ultimately show ?thesis by (auto split: sum.split)
qed

text \<open>A small init program and a directory of files.\<close>

definition demo_init :: bytes where
  "demo_init = ELF_IDENT @ zeros 9 @ le_bytes 2 2 @ le_bytes 2 40 @ zeros 8 @ le_bytes 4 52 @ zeros 10 @ le_bytes 2 32
     @ le_bytes 2 1 @ zeros 6 @ le_bytes 4 1 @ zeros 28"

definition demo_files :: "string \<Rightarrow> bytes" where
  "demo_files p = (if p = ''output/standalone/boot-verified.img'' then demo_image else demo_init)"

lemma demo_init: "length demo_init = 84" "check_init_elf demo_init = Inr ()"
proof -
  have id: "length ELF_IDENT = 7" by (simp add: ELF_IDENT_def)
  then show len: "length demo_init = 84" by (simp add: demo_init_def)
  have u: "u16le demo_init 16 = 2" "u16le demo_init 18 = 40" "u32 demo_init 28 = 52" "u16le demo_init 42 = 32"
      "u16le demo_init 44 = 1" "u32 demo_init 52 = 1" "take 7 demo_init = ELF_IDENT"
    by (simp_all add: demo_init_def u16le_def u32_def segment_parts id le_nat_le_bytes)
  show "check_init_elf demo_init = Inr ()"
    by (simp add: check_init_elf_def fail_unless_def u len prog_header_at_def bad_tls_def)
qed

lemma append_entries_bound:
  assumes "list_all small_file es" "list_all (\<lambda>(name, mode, data). length name < 40 \<and> length data < 100) es"
    "n + length es < 2 ^ 32"
  shows "length (append_entries r n es) \<le> length r + 300 * length es"
  using assms
proof (induction es arbitrary: r n)
  case (Cons f es)
  obtain name mode data where f: "f = (name, mode, data)" by (cases f)
  have "align_up v 4 < v + 4" for v by (rule align_up_less) simp
  note this [of "length r + 111 + length name"]
    and this [of "align_up (length r + 111 + length name) 4 + length data"]
  then have "length (append_entry r n f) \<le> length r + 300"
    using Cons.prems f by (simp add: length_append_entry)
  moreover have "length (append_entries (append_entry r n f) (Suc n) es) \<le> length (append_entry r n f) + 300 * length es"
    using Cons.prems by (intro Cons.IH) simp_all
  ultimately show ?case by simp
qed simp

lemma demo_probe:
  "\<And>p. length (demo_files p) < 2 ^ 32" "length (newc_archive (probe_entries demo_files)) \<le> MAX_CPIO_BYTES"
  "check_init_elf (demo_files ''output/standalone/forge-init'') = Inr ()"
proof -
  show files: "length (demo_files p) < 2 ^ 32" for p
    by (simp add: demo_files_def demo_init demo_lengths)
  show "check_init_elf (demo_files ''output/standalone/forge-init'') = Inr ()"
    by (simp add: demo_files_def demo_init)
  have ok: "buildable (probe_entries demo_files)" by (rule probe_buildable) (rule files)
  let ?es = "probe_entries demo_files @ [(trailer_name, 0, [])]"
  have len: "length ?es = 42" by (simp add: probe_entries_def probe_init)
  have small: "list_all small_file ?es"
    using ok by (auto simp: buildable_def small_file_def trailer_name_def)
  have name: "length n < 40" if "(n, m, s) \<in> set probe_layout" for n m s
  proof -
    have "n \<in> set (map fst probe_layout)" using that by force
    then show ?thesis using probe_names(1) unfolding probe_paths list_all_iff by blast
  qed
  have data: "length (probe_data demo_files s) < 100" if "(n, m, s) \<in> set probe_layout" for n m s
    using that by (cases s) (auto simp: probe_data_def probe_layout_def demo_files_def demo_init)
  have "list_all (\<lambda>(name, mode, data). length name < 40 \<and> length data < 100) ?es"
    using name data by (auto simp: probe_entries_def list_all_iff trailer_name_def)
  from append_entries_bound [OF small this, of 1 "[]"] len
  show "length (newc_archive (probe_entries demo_files)) \<le> MAX_CPIO_BYTES"
    by (simp add: newc_archive_def MAX_CPIO_BYTES_def)
qed

theorem probe_build_steps_witness:
  "validate_gzip_newc demo_inflate (archive_of (\<lambda>bs. gzip_magic @ bs) (probe_entries demo_files)) = Inr ()"
proof -
  have "take 2 (gzip_magic @ bs) = gzip_magic" "demo_inflate (gzip_magic @ bs) n = Expanded (take n bs)" for bs n
    by (simp_all add: demo_inflate_def)
  from probe_build_steps [OF demo_reads(1) demo_probe(1) this demo_probe(2,3)] show ?thesis by blast
qed

end
