(* ===== verification/Ota_Footer.thy ===== *)
theory Ota_Footer
  imports Byte_Data Py_Repr
begin

text \<open>
  \<open>appliance/verify_ota.py\<close> and \<open>appliance/verify_candidate.py\<close>: the bounds of a whole-file OTA
  signature (the footer, the end record of the archive and its comment), and the comparison of
  the install inputs with the reviewed contract. SHA-256, the conversion of the certificate and
  the check of the detached signature by \<open>openssl\<close> are parameters; the signature check answers
  \<open>None\<close> when it succeeds and its message otherwise. The copy of the signed bytes, which the code
  reads in chunks of one megabyte, is the prefix it copies. The command lines are left out.
\<close>

section \<open>The footer of a signed archive\<close>

datatype ota_error = OtaValueError string | OtaLookup py_error | OtaNoFile string | OtaSubprocess

type_synonym 'a ota_res = "ota_error + 'a"

definition require :: "bool \<Rightarrow> string \<Rightarrow> unit ota_res" where
  "require c msg = (if c then Inr () else Inl (OtaValueError msg))"

lemma require_Inr [simp]: "require c msg = Inr u \<longleftrightarrow> c"
  by (simp add: require_def)

definition EOCD_MAGIC :: bytes where "EOCD_MAGIC = [0x50, 0x4b, 0x05, 0x06]"

text \<open>\<open>needle in data\<close>.\<close>

fun contains_bytes :: "bytes \<Rightarrow> bytes \<Rightarrow> bool" where
  "contains_bytes needle [] = (needle = [])"
| "contains_bytes needle (b # bs) = (take (length needle) (b # bs) = needle \<or> contains_bytes needle bs)"

definition u16 :: "bytes \<Rightarrow> nat \<Rightarrow> nat" where
  "u16 data offset = le_nat (segment offset (offset + 2) data)"

record signed_bounds =
  sb_length :: nat
  sb_content :: bytes
  sb_signature :: bytes

text \<open>From the length check to the bytes that are handed to the signature check.\<close>

definition footer_bounds :: "bytes \<Rightarrow> signed_bounds ota_res" where
  "footer_bounds archive =
     (let len = length archive in
      bindr (require (28 \<le> len) ''Archive too short'') (\<lambda>_.
      let footer = drop (len - 6) archive;
          signature_start = u16 footer 0; marker = u16 footer 2; comment_size = u16 footer 4 in
      bindr (require (marker = 0xFFFF \<and> 6 < signature_start \<and> signature_start \<le> comment_size)
               ''Invalid Android signature footer'') (\<lambda>_.
      let eocd_size = comment_size + 22 in
      bindr (require (eocd_size \<le> len) ''EOCD exceeds archive length'') (\<lambda>_.
      let eocd = drop (len - eocd_size) archive in
      bindr (require (take 4 eocd = EOCD_MAGIC \<and> \<not> contains_bytes EOCD_MAGIC (drop 4 eocd))
               ''Invalid or ambiguous EOCD marker'') (\<lambda>_.
      bindr (require (u16 eocd 20 = comment_size) ''EOCD comment length disagrees with footer'') (\<lambda>_.
        Inr \<lparr>sb_length = len, sb_content = take (len - comment_size - 2) archive,
             sb_signature = segment (eocd_size - signature_start) (eocd_size - 6) eocd\<rparr>))))))"

record ota_report =
  or_archive :: string
  or_archive_bytes :: nat
  or_archive_sha256 :: string
  or_certificate_sha256 :: string
  or_signed_bytes :: nat
  or_signature_bytes :: nat

definition verify_ota ::
    "(bytes \<Rightarrow> string) \<Rightarrow> (bytes \<Rightarrow> bytes option) \<Rightarrow> (bytes \<Rightarrow> bytes \<Rightarrow> bytes \<Rightarrow> string option) \<Rightarrow>
       string \<Rightarrow> bytes \<Rightarrow> bytes \<Rightarrow> string \<Rightarrow> ota_report ota_res" where
  "verify_ota sha256 to_der cms name archive certificate certificate_sha256 =
     (case to_der certificate of None \<Rightarrow> Inl OtaSubprocess | Some cert_der \<Rightarrow>
      let fingerprint = sha256 cert_der in
      bindr (require (fingerprint = lower certificate_sha256)
               ''Supplied certificate does not match the expected fingerprint'') (\<lambda>_.
      bindr (footer_bounds archive) (\<lambda>b.
      case cms certificate (sb_signature b) (sb_content b) of
        Some stderr \<Rightarrow> Inl (OtaValueError (''Whole-file signature failed: '' @ strip stderr))
      | None \<Rightarrow> Inr \<lparr>or_archive = name, or_archive_bytes = sb_length b, or_archive_sha256 = sha256 archive,
          or_certificate_sha256 = fingerprint, or_signed_bytes = length (sb_content b),
          or_signature_bytes = length (sb_signature b)\<rparr>)))"

section \<open>The layout of a signed archive\<close>

text \<open>
  A signed archive: the signed content, which ends with the first twenty bytes of the end record,
  and the comment, of which only its length field and the comment itself are not signed. The
  comment ends with the signature and the footer.
\<close>

definition footer_of :: "nat \<Rightarrow> nat \<Rightarrow> bytes" where
  "footer_of signature_start comment_size = le_bytes 2 signature_start @ [0xFF, 0xFF] @ le_bytes 2 comment_size"

definition comment_len :: "bytes \<Rightarrow> bytes \<Rightarrow> nat" where
  "comment_len pad signature = length pad + length signature + 6"

definition signed_archive :: "bytes \<Rightarrow> bytes \<Rightarrow> bytes \<Rightarrow> bytes" where
  "signed_archive content pad signature =
     content @ le_bytes 2 (comment_len pad signature) @ pad @ signature
       @ footer_of (length signature + 6) (comment_len pad signature)"

definition well_signed :: "bytes \<Rightarrow> bytes \<Rightarrow> bytes \<Rightarrow> bool" where
  "well_signed content pad signature \<longleftrightarrow>
     20 \<le> length content \<and> signature \<noteq> [] \<and> comment_len pad signature < 2 ^ 16
     \<and> (let eocd = drop (length content - 20) (signed_archive content pad signature) in
        take 4 eocd = EOCD_MAGIC \<and> \<not> contains_bytes EOCD_MAGIC (drop 4 eocd))"

lemma length_signed_archive [simp]:
  "length (signed_archive content pad signature) = length content + 2 + comment_len pad signature"
  by (simp add: signed_archive_def footer_of_def comment_len_def)

lemma u16_bound: "u16 data n < 2 ^ 16"
proof -
  have "le_nat (segment n (n + 2) data) < 256 ^ length (segment n (n + 2) data)" by (rule le_nat_bound)
  also have "\<dots> \<le> 256 ^ 2" by (intro power_increasing) auto
  finally show ?thesis by (simp add: u16_def)
qed

lemma u16_le_bytes: "n + 2 \<le> length data \<Longrightarrow> segment n (n + 2) data = le_bytes 2 (u16 data n)"
  using le_bytes_le_nat [of "segment n (n + 2) data" 2] by (simp add: u16_def)

lemma footer_fields:
  assumes "a < 2 ^ 16" "c < 2 ^ 16"
  shows "u16 (footer_of a c) 0 = a" "u16 (footer_of a c) 2 = 0xFFFF" "u16 (footer_of a c) 4 = c"
  using assms
  by (simp_all add: footer_of_def u16_def segment_def le_nat_le_bytes)

lemma footer_unique:
  assumes "length f = 6" "u16 f 2 = 0xFFFF"
  shows "f = footer_of (u16 f 0) (u16 f 4)"
proof -
  have "f = segment 0 2 f @ segment 2 4 f @ segment 4 6 f"
    using assms(1) by (simp add: segment_split segment_whole)
  moreover have "segment 0 2 f = le_bytes 2 (u16 f 0)" "segment 4 6 f = le_bytes 2 (u16 f 4)"
    using u16_le_bytes [of 0 f, unfolded add_0] u16_le_bytes [of 4 f] assms(1) by auto
  moreover have "segment 2 4 f = [0xFF, 0xFF]"
    using le_nat_eq [of "segment 2 4 f" 2 "[0xFF, 0xFF]"] assms by (simp add: u16_def)
  ultimately show ?thesis by (simp add: footer_of_def)
qed

lemma signed_archive_parts:
  fixes content pad signature :: bytes
  defines "a \<equiv> signed_archive content pad signature" and "c \<equiv> comment_len pad signature"
  shows "drop (length a - 6) a = footer_of (length signature + 6) c"
    and "take (length a - c - 2) a = content"
    and "20 \<le> length content \<Longrightarrow> drop (length a - (c + 22)) a = drop (length content - 20) a"
    and "20 \<le> length content \<Longrightarrow> segment 20 22 (drop (length content - 20) a) = le_bytes 2 c"
    and "20 \<le> length content \<Longrightarrow>
      segment (c + 22 - (length signature + 6)) (c + 22 - 6) (drop (length content - 20) a) = signature"
proof -
  have a: "a = (content @ le_bytes 2 c @ pad @ signature) @ footer_of (length signature + 6) c"
      "a = content @ le_bytes 2 c @ (pad @ signature @ footer_of (length signature + 6) c)"
      "a = (content @ le_bytes 2 c @ pad) @ signature @ footer_of (length signature + 6) c"
    by (simp_all add: a_def c_def signed_archive_def)
  have len: "length a = length content + 2 + c" by (simp add: a_def c_def)
  have c: "c = length pad + length signature + 6" by (simp add: c_def comment_len_def)
  show "drop (length a - 6) a = footer_of (length signature + 6) c"
    unfolding len c by (subst a(1)) (simp add: c)
  show "take (length a - c - 2) a = content"
    unfolding len by (subst a(2)) simp
  assume 20: "20 \<le> length content"
  show "drop (length a - (c + 22)) a = drop (length content - 20) a"
    unfolding len by simp
  show "segment 20 22 (drop (length content - 20) a) = le_bytes 2 c"
    using 20 by (subst a(2)) (simp add: segment_drop segment_append_right segment_append_left segment_whole)
  show "segment (c + 22 - (length signature + 6)) (c + 22 - 6) (drop (length content - 20) a) = signature"
    using 20 by (subst a(3)) (simp add: segment_drop segment_append_right segment_append_left segment_whole c)
qed

text \<open>The checks of the footer accept exactly the signed archives, and find their parts.\<close>

lemma footer_bounds_Inr:
  "footer_bounds archive = Inr b \<longleftrightarrow>
     length archive \<ge> 28 \<and> u16 (drop (length archive - 6) archive) 2 = 0xFFFF
     \<and> (let s = u16 (drop (length archive - 6) archive) 0; c = u16 (drop (length archive - 6) archive) 4;
            eocd = drop (length archive - (c + 22)) archive in
        6 < s \<and> s \<le> c \<and> c + 22 \<le> length archive \<and> take 4 eocd = EOCD_MAGIC
        \<and> \<not> contains_bytes EOCD_MAGIC (drop 4 eocd) \<and> u16 eocd 20 = c
        \<and> b = \<lparr>sb_length = length archive, sb_content = take (length archive - c - 2) archive,
               sb_signature = segment (c + 22 - s) (c + 22 - 6) eocd\<rparr>)"
  by (auto simp: footer_bounds_def Let_def bindr_eq_Inr)

lemma bounds_layout:
  "footer_bounds archive = Inr b \<longleftrightarrow>
     (\<exists>content pad signature. archive = signed_archive content pad signature \<and> well_signed content pad signature
        \<and> b = \<lparr>sb_length = length archive, sb_content = content, sb_signature = signature\<rparr>)"
  (is "?L \<longleftrightarrow> ?R")
proof
  assume L: ?L
  let ?f = "drop (length archive - 6) archive"
  define s c where "s = u16 ?f 0" and "c = u16 ?f 4"
  let ?eocd = "drop (length archive - (c + 22)) archive"
  have b: "28 \<le> length archive" "u16 ?f 2 = 0xFFFF" "6 < s" "s \<le> c" "c + 22 \<le> length archive"
      "take 4 ?eocd = EOCD_MAGIC" "\<not> contains_bytes EOCD_MAGIC (drop 4 ?eocd)" "u16 ?eocd 20 = c"
      "b = \<lparr>sb_length = length archive, sb_content = take (length archive - c - 2) archive,
               sb_signature = segment (c + 22 - s) (c + 22 - 6) ?eocd\<rparr>"
    using L unfolding footer_bounds_Inr Let_def s_def c_def by blast+
  define n where "n = length archive - c - 2"
  have n: "length archive = n + 2 + c" "20 \<le> n" using b(5) by (simp_all add: n_def)
  let ?content = "take n archive" and ?pad = "segment (n + 2) (n + 2 + (c - s)) archive"
    and ?sig = "segment (n + 2 + (c - s)) (n + 2 + (c - 6)) archive"
  have lens: "length ?content = n" "length ?pad = c - s" "length ?sig = s - 6"
    using n b(3,4) by simp_all
  then have c: "comment_len ?pad ?sig = c" using b(3,4) by (simp add: comment_len_def)
  have foot: "?f = footer_of s c"
    unfolding s_def c_def by (rule footer_unique) (use b(1,2) in simp_all)
  have e20: "segment 20 22 ?eocd = le_bytes 2 c"
    using u16_le_bytes [of 20 ?eocd] b(5,8) by simp
  have "segment n (n + 2) archive = le_bytes 2 c"
    using e20 n by (simp add: segment_drop)
  moreover have "segment (n + 2 + (c - 6)) (length archive) archive = ?f"
  proof -
    have "n + 2 + (c - 6) = length archive - 6" using n b(3,4) by simp
    then show ?thesis by (simp only: segment_to_end)
  qed
  moreover have "archive = segment 0 n archive @ segment n (n + 2) archive @ ?pad @ ?sig
      @ segment (n + 2 + (c - 6)) (length archive) archive"
    using n b(3,4) by (simp add: segment_split segment_whole)
  ultimately have arch: "archive = signed_archive ?content ?pad ?sig"
    unfolding signed_archive_def c using foot lens b(3) by (simp add: take_segment)
  have eocd: "drop (length ?content - 20) archive = ?eocd" using n lens by simp
  have sig: "?sig \<noteq> []" using lens(3) b(3) by (metis list.size(3) zero_less_diff less_nat_zero_code)
  have "well_signed ?content ?pad ?sig"
    unfolding well_signed_def Let_def arch [symmetric] eocd c
    using n(2) lens(1) b(6,7) u16_bound [of ?f 4, folded c_def] sig by simp
  moreover have "b = \<lparr>sb_length = length archive, sb_content = ?content, sb_signature = ?sig\<rparr>"
  proof -
    have "length archive - (c + 22) + (c + 22 - s) = n + 2 + (c - s)"
        "length archive - (c + 22) + (c + 22 - 6) = n + 2 + (c - 6)" "length archive - c - 2 = n"
      using n b(3,4) by simp_all
    then show ?thesis unfolding b(9) segment_drop by (simp only:)
  qed
  ultimately show ?R using arch by blast
next
  assume ?R
  then obtain content pad signature where a: "archive = signed_archive content pad signature"
    and ws: "well_signed content pad signature"
    and b: "b = \<lparr>sb_length = length archive, sb_content = content, sb_signature = signature\<rparr>" by blast
  let ?c = "comment_len pad signature"
  note parts = signed_archive_parts [of content pad signature, folded a]
  have 20: "20 \<le> length content" and c: "?c < 2 ^ 16" and sig: "signature \<noteq> []"
    and eocd: "take 4 (drop (length content - 20) archive) = EOCD_MAGIC"
      "\<not> contains_bytes EOCD_MAGIC (drop 4 (drop (length content - 20) archive))"
    using ws by (auto simp: well_signed_def Let_def a)
  have s: "length signature + 6 < 2 ^ 16" using c by (simp add: comment_len_def)
  note fields = footer_fields [OF s c]
  have u: "u16 (drop (length content - 20) archive) 20 = ?c"
    using parts(4) [OF 20] c by (simp add: u16_def le_nat_le_bytes)
  show ?L
    unfolding footer_bounds_Inr parts(1) fields Let_def parts(2) parts(3) [OF 20] parts(5) [OF 20] u
    using 20 sig eocd by (simp add: a b comment_len_def)
qed

lemma verify_ota_InrE:
  assumes "verify_ota sha256 to_der cms name archive certificate pinned = Inr rep"
  obtains der content pad signature where "to_der certificate = Some der" "sha256 der = lower pinned"
    "archive = signed_archive content pad signature" "well_signed content pad signature"
    "cms certificate signature content = None"
    "rep = \<lparr>or_archive = name, or_archive_bytes = length archive, or_archive_sha256 = sha256 archive,
       or_certificate_sha256 = lower pinned, or_signed_bytes = length content,
       or_signature_bytes = length signature\<rparr>"
proof -
  obtain der b where b: "to_der certificate = Some der" "sha256 der = lower pinned" "footer_bounds archive = Inr b"
      "cms certificate (sb_signature b) (sb_content b) = None"
    and rep: "rep = \<lparr>or_archive = name, or_archive_bytes = sb_length b, or_archive_sha256 = sha256 archive,
       or_certificate_sha256 = lower pinned, or_signed_bytes = length (sb_content b),
       or_signature_bytes = length (sb_signature b)\<rparr>"
    using assms by (auto simp: verify_ota_def Let_def bindr_eq_Inr split: option.splits)
  from b(3) obtain content pad signature where "archive = signed_archive content pad signature"
      "well_signed content pad signature"
      "b = \<lparr>sb_length = length archive, sb_content = content, sb_signature = signature\<rparr>"
    unfolding bounds_layout by blast
  then show thesis using that b rep by simp
qed

text \<open>
  C28. What the checker of an update accepts: the pinned certificate, an archive whose unsigned
  part is only the comment of its end record and the length of that comment, and a detached
  signature, taken from the end of the comment, over everything before it.
\<close>

theorem accepted_update_is_signed:
  "verify_ota sha256 to_der cms name archive certificate pinned = Inr rep \<longleftrightarrow>
     (\<exists>der content pad signature. to_der certificate = Some der \<and> sha256 der = lower pinned
        \<and> archive = signed_archive content pad signature \<and> well_signed content pad signature
        \<and> cms certificate signature content = None
        \<and> rep = \<lparr>or_archive = name, or_archive_bytes = length archive, or_archive_sha256 = sha256 archive,
             or_certificate_sha256 = lower pinned, or_signed_bytes = length content,
             or_signature_bytes = length signature\<rparr>)"
  (is "?L \<longleftrightarrow> ?R")
proof
  assume ?L
  then show ?R by (rule verify_ota_InrE) blast
next
  assume ?R
  then obtain der content pad signature where r: "to_der certificate = Some der" "sha256 der = lower pinned"
      "archive = signed_archive content pad signature" "well_signed content pad signature"
      "cms certificate signature content = None"
      "rep = \<lparr>or_archive = name, or_archive_bytes = length archive, or_archive_sha256 = sha256 archive,
             or_certificate_sha256 = lower pinned, or_signed_bytes = length content,
             or_signature_bytes = length signature\<rparr>" by blast
  then have "footer_bounds archive
      = Inr \<lparr>sb_length = length archive, sb_content = content, sb_signature = signature\<rparr>"
    unfolding bounds_layout by blast
  then show ?L using r by (simp add: verify_ota_def require_def)
qed

text \<open>
  The end record is found where the signed content says: the archive that puts a signature
  behind its content is read back as that content and that signature, when the content ends with
  the start of an end record and nothing behind it looks like another one.
\<close>

theorem signed_archive_read_back:
  assumes "well_signed content pad signature"
  shows "footer_bounds (signed_archive content pad signature)
    = Inr \<lparr>sb_length = length content + 2 + comment_len pad signature, sb_content = content, sb_signature = signature\<rparr>"
  unfolding bounds_layout using assms by auto

definition demo_content :: bytes where "demo_content = EOCD_MAGIC @ zeros 16"

lemma demo_archive: "signed_archive demo_content [] [1, 2] = demo_content @ [8, 0, 1, 2, 8, 0, 255, 255, 8, 0]"
  "length demo_content = 20" "well_signed demo_content [] [1, 2]"
proof -
  have two: "le_bytes 2 8 = [8, 0]" by (simp add: numeral_2_eq_2)
  have len: "comment_len [] [1, 2] = 8" by (simp add: comment_len_def)
  show a: "signed_archive demo_content [] [1, 2] = demo_content @ [8, 0, 1, 2, 8, 0, 255, 255, 8, 0]"
    unfolding signed_archive_def footer_of_def len by (simp add: two)
  show l: "length demo_content = 20" by (simp add: demo_content_def EOCD_MAGIC_def)
  have "\<not> contains_bytes EOCD_MAGIC (drop 4 (demo_content @ [8, 0, 1, 2, 8, 0, 255, 255, 8, 0]))"
    by code_simp
  moreover have "take 4 (demo_content @ [8, 0, 1, 2, 8, 0, 255, 255, 8, 0]) = EOCD_MAGIC" by code_simp
  ultimately show "well_signed demo_content [] [1, 2]"
    unfolding well_signed_def Let_def a l len by simp
qed

theorem signed_archive_read_back_witness:
  "footer_bounds (signed_archive demo_content [] [1, 2])
     = Inr \<lparr>sb_length = 30, sb_content = demo_content, sb_signature = [1, 2]\<rparr>"
  using signed_archive_read_back [OF demo_archive(3)] by (simp add: comment_len_def demo_archive(2))

section \<open>The install inputs\<close>

type_synonym asset = "string \<times> int \<times> string"

text \<open>\<open>name == Path(name).name\<close>.\<close>

definition is_basename :: "string \<Rightarrow> bool" where
  "is_basename name \<longleftrightarrow> CHR ''/'' \<notin> set name \<and> name \<noteq> ''.''"

text \<open>An entry of the contract: asset, size and hash under the keys of its section.\<close>

definition contract_asset :: "jdict \<Rightarrow> string \<Rightarrow> string \<Rightarrow> string \<Rightarrow> string \<Rightarrow> asset res" where
  "contract_asset contract sect name_key size_key hash_key =
     bindr (dindex contract sect) (\<lambda>v. bindr (as_dict v) (\<lambda>d.
     bindr (dindex d name_key) (\<lambda>n. bindr (as_str n) (\<lambda>name.
     bindr (dindex d size_key) (\<lambda>s. bindr (as_int s) (\<lambda>sz.
     bindr (dindex d hash_key) (\<lambda>h. bindr (as_str h) (\<lambda>hash. Inr (name, sz, hash)))))))))"

definition contract_inputs :: "jdict \<Rightarrow> asset list res" where
  "contract_inputs contract =
     bindr (contract_asset contract ''candidate'' ''rom_asset'' ''rom_bytes'' ''rom_sha256'') (\<lambda>a.
     bindr (contract_asset contract ''candidate'' ''recovery_asset'' ''recovery_bytes'' ''recovery_sha256'') (\<lambda>b.
     bindr (contract_asset contract ''google_services'' ''asset'' ''asset_bytes'' ''asset_sha256'') (\<lambda>c.
     bindr (contract_asset contract ''recovery_policy'' ''asset'' ''asset_bytes'' ''asset_sha256'') (\<lambda>d.
       Inr [a, b, c, d]))))"

fun check_inputs :: "(bytes \<Rightarrow> string) \<Rightarrow> (string \<Rightarrow> bytes option) \<Rightarrow> asset list \<Rightarrow> asset list ota_res" where
  "check_inputs sha256 directory [] = Inr []"
| "check_inputs sha256 directory ((name, sz, expected) # rest) =
     bindr (require (is_basename name) ''Contract input must be a basename'') (\<lambda>_.
     case directory name of None \<Rightarrow> Inl (OtaNoFile name) | Some data \<Rightarrow>
       bindr (require (int (length data) = sz) (''Size mismatch: '' @ name)) (\<lambda>_.
       bindr (require (sha256 data = expected) (''SHA-256 mismatch: '' @ name)) (\<lambda>_.
       bindr (check_inputs sha256 directory rest) (\<lambda>results. Inr ((name, sz, sha256 data) # results)))))"

definition lift_lookup :: "'a res \<Rightarrow> 'a ota_res" where
  "lift_lookup r = (case r of Inl e \<Rightarrow> Inl (OtaLookup e) | Inr x \<Rightarrow> Inr x)"

definition check_candidate ::
    "(bytes \<Rightarrow> string) \<Rightarrow> (bytes \<Rightarrow> bytes option) \<Rightarrow> (bytes \<Rightarrow> bytes \<Rightarrow> bytes \<Rightarrow> string option) \<Rightarrow>
       jdict \<Rightarrow> (string \<Rightarrow> bytes option) \<Rightarrow> (asset list \<times> ota_report) ota_res" where
  "check_candidate sha256 to_der cms contract directory =
     bindr (lift_lookup (contract_inputs contract)) (\<lambda>inputs.
     bindr (check_inputs sha256 directory inputs) (\<lambda>results.
     bindr (lift_lookup (bindr (dindex contract ''google_services'') (\<lambda>v. bindr (as_dict v) (\<lambda>g.
              bindr (dindex g ''signer_certificate_sha256'') as_str)))) (\<lambda>pinned.
     let name = fst (inputs ! 2) in
     case directory ''release.x509.pem'' of None \<Rightarrow> Inl OtaSubprocess | Some certificate \<Rightarrow>
     case directory name of None \<Rightarrow> Inl (OtaNoFile name) | Some archive \<Rightarrow>
     bindr (verify_ota sha256 to_der cms name archive certificate pinned) (\<lambda>signature.
       Inr (results, signature)))))"

lemma lift_lookup_Inr [simp]: "lift_lookup r = Inr x \<longleftrightarrow> r = Inr x"
  by (cases r) (auto simp: lift_lookup_def)

lemma check_inputs_Inr:
  "check_inputs sha256 directory inputs = Inr results \<longleftrightarrow> results = inputs \<and>
     list_all (\<lambda>(name, sz, expected). is_basename name \<and>
       (case directory name of None \<Rightarrow> False | Some data \<Rightarrow> int (length data) = sz \<and> sha256 data = expected)) inputs"
  by (induction sha256 directory inputs arbitrary: results rule: check_inputs.induct)
    (auto simp: bindr_eq_Inr split: option.splits)

text \<open>
  A candidate that passes is the reviewed one: all four inputs of the contract are there under
  plain names, with the sizes and hashes of the contract, and the Google services package is an
  update signed by the certificate that the contract pins.
\<close>

theorem candidate_matches_contract:
  assumes "check_candidate sha256 to_der cms contract directory = Inr (results, rep)"
  shows "contract_inputs contract = Inr results \<and> length results = 4
    \<and> list_all (\<lambda>(name, sz, expected). is_basename name \<and>
        (case directory name of None \<Rightarrow> False | Some data \<Rightarrow> int (length data) = sz \<and> sha256 data = expected)) results
    \<and> (\<exists>certificate archive content pad signature pinned.
         directory ''release.x509.pem'' = Some certificate \<and> directory (fst (results ! 2)) = Some archive
         \<and> sha256 archive = snd (snd (results ! 2)) \<and> or_certificate_sha256 rep = lower pinned
         \<and> archive = signed_archive content pad signature \<and> cms certificate signature content = None)"
proof -
  obtain pinned certificate archive where inputs: "contract_inputs contract = Inr results"
    and checked: "check_inputs sha256 directory results = Inr results"
    and files: "directory ''release.x509.pem'' = Some certificate" "directory (fst (results ! 2)) = Some archive"
    and sig: "verify_ota sha256 to_der cms (fst (results ! 2)) archive certificate pinned = Inr rep"
    using assms by (auto simp: check_candidate_def bindr_eq_Inr check_inputs_Inr Let_def split: option.splits)
  have four: "length results = 4"
    using inputs by (auto simp: contract_inputs_def bindr_eq_Inr)
  have all: "list_all (\<lambda>(name, sz, expected). is_basename name \<and>
      (case directory name of None \<Rightarrow> False | Some data \<Rightarrow> int (length data) = sz \<and> sha256 data = expected)) results"
    using checked by (simp add: check_inputs_Inr)
  obtain name sz hash where two: "results ! 2 = (name, sz, hash)" by (cases "results ! 2") blast
  then have "(name, sz, hash) \<in> set results" using four nth_mem [of 2 results] by simp
  then have "sha256 archive = snd (snd (results ! 2))"
    using all files(2) two unfolding list_all_iff by fastforce
  moreover obtain content pad signature where "archive = signed_archive content pad signature"
      "cms certificate signature content = None" "or_certificate_sha256 rep = lower pinned"
    using sig by (rule verify_ota_InrE) (use that in auto)
  ultimately show ?thesis using inputs four all files by blast
qed

definition demo_contract :: jdict where
  "demo_contract =
     [(''candidate'', JObj [(''rom_asset'', JStr ''r''), (''rom_bytes'', JInt 0), (''rom_sha256'', JStr ''h''),
        (''recovery_asset'', JStr ''r''), (''recovery_bytes'', JInt 0), (''recovery_sha256'', JStr ''h'')]),
      (''google_services'', JObj [(''asset'', JStr ''g''), (''asset_bytes'', JInt 30), (''asset_sha256'', JStr ''h''),
        (''signer_certificate_sha256'', JStr ''h'')]),
      (''recovery_policy'', JObj [(''asset'', JStr ''r''), (''asset_bytes'', JInt 0), (''asset_sha256'', JStr ''h'')])]"

definition demo_directory :: "string \<Rightarrow> bytes option" where
  "demo_directory name = (if name = ''g'' then Some (signed_archive demo_content [] [1, 2]) else Some [])"

definition demo_assets :: "asset list" where
  "demo_assets = [(''r'', 0, ''h''), (''r'', 0, ''h''), (''g'', 30, ''h''), (''r'', 0, ''h'')]"

definition demo_report :: ota_report where
  "demo_report = \<lparr>or_archive = ''g'', or_archive_bytes = 30, or_archive_sha256 = ''h'', or_certificate_sha256 = ''h'',
     or_signed_bytes = 20, or_signature_bytes = 2\<rparr>"

lemma demo_candidate:
  "check_candidate (\<lambda>_. ''h'') Some (\<lambda>_ _ _. None) demo_contract demo_directory = Inr (demo_assets, demo_report)"
proof -
  have len: "length (signed_archive demo_content [] [1, 2]) = 30"
    using demo_archive(2) by (simp add: comment_len_def)
  have low: "lower ''h'' = ''h''" by code_simp
  have "contract_inputs demo_contract = Inr demo_assets" by code_simp
  moreover have "check_inputs (\<lambda>_. ''h'') demo_directory demo_assets = Inr demo_assets"
    unfolding check_inputs_Inr using len by (simp add: demo_assets_def is_basename_def demo_directory_def)
  moreover have "verify_ota (\<lambda>_. ''h'') Some (\<lambda>_ _ _. None) ''g'' (signed_archive demo_content [] [1, 2]) [] ''h'' = Inr demo_report"
  proof -
    have "footer_bounds (signed_archive demo_content [] [1, 2])
        = Inr \<lparr>sb_length = 30, sb_content = demo_content, sb_signature = [1, 2]\<rparr>"
      unfolding bounds_layout using demo_archive(3) len by auto
    then show ?thesis by (simp add: verify_ota_def require_def low demo_report_def Let_def len demo_archive(2))
  qed
  ultimately show ?thesis
    by (simp add: check_candidate_def lift_lookup_def demo_contract_def demo_directory_def demo_assets_def)
qed

theorem candidate_matches_contract_witness:
  "contract_inputs demo_contract = Inr demo_assets \<and> (\<exists>content pad signature.
     signed_archive demo_content [] [1, 2] = signed_archive content pad signature)"
  using candidate_matches_contract [OF demo_candidate] by blast

end
