(* ===== verification/Spec2Isabelle.thy ===== *)
theory Spec2Isabelle
  imports
    Enumerations Models State_Machine Naming Form_Factor Session_Manager Policy_Guard
    Retry_Planner Blocker_Engine Connection_Engine Planning_Tools Build_Resolver
    Host_Tools Device_Tools Flash_Executor Install_Flow
    Knowledge Promotion Product_Memory Model_Router Runtime_Models Runtime_Planner Deliberation Starter_Troubleshooting Self_Improvement Strategy_Memory
    Gemma_Engine Host_Capabilities Runtime_Workers Runtime_Pipelines Self_Heal Attach Research_Worker Cycle_Tail Firmware_Downloader Image_Builder
    Byte_Data Cpio_Archive Boot_Image Init_Elf Ota_Footer
begin

text \<open>
  ForgeOS Device Agent turns an attached Android device into a session, works out what the
  device can become, plans an installation, and executes it only behind gates. This
  development models the deterministic core of that program, \<open>app/core\<close>, \<open>app/tools\<close>,
  \<open>app/integrations\<close> and the image tools of \<open>appliance\<close>, and proves the properties that make
  its parts correct.

  Data. Python dictionaries that come from or go to JSON are association lists
  (\<open>Forge_Prelude.jdict\<close>) with Python's \<open>get\<close>, \<open>|=\<close>, truth value and \<open>or\<close>; dataclasses are
  records whose fields carry the class's prefix; enumerations are datatypes with their
  string values. An exception is the left of a sum. Text operations (\<open>strip\<close>, \<open>split\<close>,
  \<open>splitlines\<close>, \<open>lower\<close>, \<open>int\<close>, \<open>str\<close>, \<open>repr\<close>) are defined on Latin-1 characters in \<open>Py_Text\<close>
  and \<open>Py_Repr\<close>. Floats are rationals, so scores are exact where Python rounds.

  State. The disk is a map from paths to documents with the set of directories
  (\<open>Doc_Store\<close>, \<open>Session_Manager.disk\<close>); a document is a JSON value, or text that does not
  parse. The clock is the argument \<open>now\<close>. The host is the record \<open>Host_Tools.host\<close>: which
  tools are installed and, for each command and the commands before it, its result or its
  time-out; an operation that runs commands threads the trace of those commands. SHA-256, the
  random codename, path resolution and the language model's reply are arguments.

  Theories, in the order of the imports:
    \<open>Forge_Prelude\<close>, \<open>Py_Text\<close>, \<open>Py_Repr\<close>, \<open>Doc_Store\<close>: the language, JSON and files
    (\<open>core/io_utils.py\<close>). \<open>Doc_Store\<close> states the interfaces as locales: \<open>doc_store\<close> for a
    write that its read returns, \<open>codec\<close> for a record that its dictionary gives back,
    \<open>persisted\<close> for both together, \<open>str_enum\<close> for an enumeration read by value; each is
    interpreted where the operations are defined.
    \<open>Enumerations\<close>, \<open>Models\<close>: \<open>core/models.py\<close> with the readers and writers of every stored
    record, and the round trip of each.
    \<open>State_Machine\<close>: \<open>core/state_machine.py\<close>: the transition table, what a path to \<open>FLASH\<close> has
    passed, which states reach completion.
    \<open>Naming\<close>, \<open>Form_Factor\<close>: \<open>core/naming.py\<close>, \<open>core/device_form_factor.py\<close>.
    \<open>Session_Manager\<close>: \<open>core/session_manager.py\<close>; the step relation \<open>session_step\<close> covers every
    operation on a session, and its invariant is that the stored history is a legal path.
    \<open>Policy_Guard\<close>: \<open>core/policy_guard.py\<close>, \<open>core/policy.py\<close>; the locale \<open>gate\<close> says that a gate
    opens exactly when its requirements hold.
    \<open>Retry_Planner\<close>, \<open>Blocker_Engine\<close>: \<open>core/retry_planner.py\<close>, \<open>core/blocker_engine.py\<close>.
    \<open>Connection_Engine\<close>, \<open>Planning_Tools\<close>, \<open>Build_Resolver\<close>: the connection plan and its
    playbooks, the assessor, the strategy selector, the recommender and the build resolver.
    \<open>Host_Tools\<close>, \<open>Device_Tools\<close>: the wrappers of adb, fastboot, heimdall and lsusb, and the
    tools that observe, back up, unlock and validate a device.
    \<open>Flash_Executor\<close>, \<open>Install_Flow\<close>: \<open>tools/flash_executor.py\<close> and the part of
    \<open>core/orchestrator.py\<close> that approves and executes a flash. The main chain of safety results
    goes from here to the gates: a command that reaches the device implies live mode, a
    live policy, a backup plan, and every requirement of the install gate.
    \<open>Knowledge\<close>, \<open>Promotion\<close>: \<open>core/knowledge.py\<close>, \<open>core/knowledge_lookup.py\<close>,
    \<open>core/promotion.py\<close>, \<open>core/patch_executor.py\<close>, \<open>core/adapter_registry.py\<close>: what sessions
    teach about device families (the incremental matrix refines the plain count), which of it
    becomes a candidate, and how a candidate reaches \<open>master\<close> only through an application.
    \<open>Product_Memory\<close>: \<open>core/product_memory.py\<close>: keys, merging of weaker names, recording, lookup.
    \<open>Model_Router\<close>, \<open>Runtime_Models\<close>, \<open>Runtime_Planner\<close>: which language model serves which role,
    and the runtime plan of a cycle with its phase, proposal and hard stops.
    \<open>Deliberation\<close>, \<open>Starter_Troubleshooting\<close>, \<open>Self_Improvement\<close>: the three decisions between a
    blocker and a worker: what the deliberation allows, what the starter loop passes on, and
    which variants of a remediation run under the policy.
    \<open>Byte_Data\<close>, \<open>Boot_Image\<close>, \<open>Cpio_Archive\<close>, \<open>Init_Elf\<close>, \<open>Ota_Footer\<close>: the appliance's tools on
    lists of bytes. The abstract specifications are the layouts of the formats; the readers
    accept exactly these layouts, and repacking implements the change of the abstract image.

  Some properties state what the code does where it is not what its documents say: the scope
  check is a string prefix, a rejected feature can stay included, a dry run moves the session
  to \<open>FLASH\<close>, a missing serial is sent as \<open>None\<close>, a command chosen by the language model is
  not gated.

  Every recursion is structural or has a measure; no fuel is used. The stall walk of the retry
  planner stops after the recorded cycles.

  Not modelled yet: the strategy memory, source acquisition and the image builder, the
  workers around the language models, the attach and remediation pipelines of the
  orchestrator. Not modelled: the graphical interface, the watchers' threads, the logs,
  network access, prompts and generated scripts.
\<close>

end
